(* ===== verification/Prelude.thy ===== *)
theory Prelude
  imports
    Main
    "HOL-Library.Word"
    "HOL-Library.Sublist"
    "HOL-Library.Multiset"
    "HOL-Library.Char_ord"
    "HOL-Library.List_Lexorder"
    "HOL-Library.Product_Lexorder"
begin

text \<open>
  The shared vocabulary of the development: Rust's \<open>Result\<close> as a sum, byte strings,
  trimming, lower-case hexadecimal, fixed-width big-endian integers, signed 64-bit
  arithmetic, and the generic facts on sorted lists and finite maps that several components
  use. A \<open>String\<close> or a \<open>Vec<u8>\<close> of the code is a \<^typ>\<open>string\<close>, that is the
  list of its (UTF-8) bytes: \<^typ>\<open>char\<close> has exactly the 256 values of a byte.
\<close>

named_theorems result_simps \<open>rewriting of results built by rbind and early returns\<close>

type_synonym bytes = string
type_synonym i64 = "64 word"
type_synonym u64 = "64 word"
type_synonym u32 = "32 word"

subsection \<open>Results\<close>

text \<open>\<open>Result<T, E>\<close> is \<open>'e + 'a\<close>; \<open>Inl\<close> is \<open>Err\<close>, \<open>Inr\<close> is \<open>Ok\<close>, and the
  operator \<open>?\<close> is \<open>rbind\<close>.\<close>

definition rbind :: "'e + 'a \<Rightarrow> ('a \<Rightarrow> 'e + 'b) \<Rightarrow> 'e + 'b" where
  "rbind m f = (case m of Inl e \<Rightarrow> Inl e | Inr x \<Rightarrow> f x)"

lemma rbind_simps [simp, result_simps]:
  "rbind (Inl e) f = Inl e" "rbind (Inr x) f = f x"
  by (simp_all add: rbind_def)

lemma rbind_eq_Inr [simp, result_simps]:
  "rbind m f = Inr y \<longleftrightarrow> (\<exists>x. m = Inr x \<and> f x = Inr y)"
  by (cases m) simp_all

lemma rbind_eq_Inl [result_simps]:
  "rbind m f = Inl e \<longleftrightarrow> m = Inl e \<or> (\<exists>x. m = Inr x \<and> f x = Inl e)"
  by (cases m) simp_all

lemma rbind_assoc: "rbind (rbind m f) g = rbind m (\<lambda>x. rbind (f x) g)"
  by (cases m) simp_all

definition of_option :: "'e \<Rightarrow> 'a option \<Rightarrow> 'e + 'a" where
  "of_option e x = (case x of None \<Rightarrow> Inl e | Some y \<Rightarrow> Inr y)"

lemma of_option_simps [simp, result_simps]:
  "of_option e None = Inl e" "of_option e (Some y) = Inr y"
  "of_option e x = Inr y \<longleftrightarrow> x = Some y"
  by (cases x; simp add: of_option_def)+

definition is_ok :: "'e + 'a \<Rightarrow> bool" where
  "is_ok r = (case r of Inl _ \<Rightarrow> False | Inr _ \<Rightarrow> True)"

lemma is_ok_simps [simp]: "\<not> is_ok (Inl e)" "is_ok (Inr x)"
  by (simp_all add: is_ok_def)

text \<open>A \<open>for\<close> loop over a vector that threads a state and returns at the first error.\<close>

fun rfold :: "('s \<Rightarrow> 'a \<Rightarrow> 'e + 's) \<Rightarrow> 's \<Rightarrow> 'a list \<Rightarrow> 'e + 's" where
  "rfold f s [] = Inr s"
| "rfold f s (x # xs) = rbind (f s x) (\<lambda>s'. rfold f s' xs)"

lemma rfold_append: "rfold f s (xs @ ys) = rbind (rfold f s xs) (\<lambda>s'. rfold f s' ys)"
  by (induction xs arbitrary: s) (simp_all add: rbind_assoc)

lemma rfold_invariant:
  assumes "rfold f s xs = Inr s'" and "I s"
    and "\<And>t x t'. x \<in> set xs \<Longrightarrow> I t \<Longrightarrow> f t x = Inr t' \<Longrightarrow> I t'"
  shows "I s'"
  using assms by (induction xs arbitrary: s) auto

subsection \<open>Text\<close>

abbreviation NUL :: char where "NUL \<equiv> CHR 0x00"

text \<open>The UTF-8 encodings of the characters \<open>char::is_whitespace\<close> accepts, which are the
  characters of Unicode's \<open>White_Space\<close> property.\<close>

definition whitespace :: "string list" where
  "whitespace = map (map char_of)
     ([[9], [10], [11], [12], [13], [32], [194, 133], [194, 160], [225, 154, 128],
       [226, 128, 128], [226, 128, 129], [226, 128, 130], [226, 128, 131], [226, 128, 132],
       [226, 128, 133], [226, 128, 134], [226, 128, 135], [226, 128, 136], [226, 128, 137],
       [226, 128, 138], [226, 128, 168], [226, 128, 169], [226, 128, 175], [226, 129, 159],
       [227, 128, 128]] :: nat list list)"

function strip_seqs :: "string list \<Rightarrow> string \<Rightarrow> string" where
  "strip_seqs ws s =
     (case find (\<lambda>w. w \<noteq> [] \<and> prefix w s) ws of
        None \<Rightarrow> s
      | Some w \<Rightarrow> strip_seqs ws (drop (length w) s))"
  by pat_completeness auto
termination
  by (relation "measure (\<lambda>(ws, s). length s)")
     (auto simp: find_Some_iff prefix_def)

declare strip_seqs.simps [simp del]

definition trim_start :: "string \<Rightarrow> string" where
  "trim_start s = strip_seqs whitespace s"

definition trim_end :: "string \<Rightarrow> string" where
  "trim_end s = rev (strip_seqs (map rev whitespace) (rev s))"

text \<open>\<open>str::trim\<close>.\<close>

definition trim :: "string \<Rightarrow> string" where
  "trim s = trim_end (trim_start s)"

text \<open>\<open>s.trim().is_empty()\<close>, the code's test for blank text.\<close>

definition blank :: "string \<Rightarrow> bool" where
  "blank s \<longleftrightarrow> trim s = []"

text \<open>\<open>str::split\<close> at a one-byte separator.\<close>

fun split_on :: "char \<Rightarrow> string \<Rightarrow> string list" where
  "split_on d [] = [[]]"
| "split_on d (c # s) = (if c = d then [] # split_on d s
     else case split_on d s of [] \<Rightarrow> [[c]] | w # ws \<Rightarrow> (c # w) # ws)"

lemma split_on_nonempty [simp]: "split_on d s \<noteq> []"
  by (induction s) (auto split: list.split)

lemma split_on_append: "split_on d (a @ d # b) = split_on d a @ split_on d b"
  by (induction a) (auto split: list.split)

lemma split_on_parts: "w \<in> set (split_on d s) \<Longrightarrow> split_on d w = [w]"
  by (induction s arbitrary: w) (auto split: list.splits if_splits)

lemma split_on_absent: "d \<notin> set s \<Longrightarrow> split_on d s = [s]"
  by (induction s) auto

definition strips :: "string list \<Rightarrow> string \<Rightarrow> bool" where
  "strips ws s \<longleftrightarrow> (\<exists>w \<in> set ws. w \<noteq> [] \<and> prefix w s)"

lemma strip_seqs_unfold:
  "strip_seqs ws s =
     (case find (\<lambda>w. w \<noteq> [] \<and> prefix w s) ws of
        None \<Rightarrow> s | Some w \<Rightarrow> strip_seqs ws (drop (length w) s))"
  by (rule strip_seqs.simps)

lemma find_strips: "find (\<lambda>w. w \<noteq> [] \<and> prefix w s) ws = None \<longleftrightarrow> \<not> strips ws s"
  by (auto simp: find_None_iff strips_def)

lemma strip_seqs_id: "\<not> strips ws s \<Longrightarrow> strip_seqs ws s = s"
  by (subst strip_seqs.simps) (simp add: find_strips [symmetric])

lemma strip_seqs_done: "\<not> strips ws (strip_seqs ws s)"
proof (induction ws s rule: strip_seqs.induct)
  case (1 ws s)
  show ?case
  proof (cases "find (\<lambda>w. w \<noteq> [] \<and> prefix w s) ws")
    case None
    then show ?thesis
      by (simp add: find_strips strip_seqs_id)
  next
    case (Some w)
    with 1 show ?thesis by (subst strip_seqs.simps) simp
  qed
qed

lemma strip_seqs_idem [simp]: "strip_seqs ws (strip_seqs ws s) = strip_seqs ws s"
  by (rule strip_seqs_id [OF strip_seqs_done])

lemma strip_seqs_suffix: "suffix (strip_seqs ws s) s"
proof (induction ws s rule: strip_seqs.induct)
  case (1 ws s)
  show ?case
  proof (cases "find (\<lambda>w. w \<noteq> [] \<and> prefix w s) ws")
    case None
    then show ?thesis by (subst strip_seqs.simps) simp
  next
    case (Some w)
    with 1 have "suffix (strip_seqs ws (drop (length w) s)) (drop (length w) s)" by simp
    then have "suffix (strip_seqs ws (drop (length w) s)) s"
      by (rule suffix_order.trans) (rule suffix_drop)
    with Some show ?thesis by (subst strip_seqs.simps) simp
  qed
qed

lemma strips_prefix: "strips ws s \<Longrightarrow> prefix s t \<Longrightarrow> strips ws t"
  by (auto simp: strips_def intro: prefix_order.trans)

lemma trim_end_prefix: "prefix (trim_end s) s"
  using strip_seqs_suffix [of "map rev whitespace" "rev s"]
  by (simp add: trim_end_def suffix_to_prefix)

lemma trim_start_trim [simp]: "trim_start (trim s) = trim s"
proof -
  have "\<not> strips whitespace (trim_start s)"
    by (simp add: trim_start_def strip_seqs_done)
  then have "\<not> strips whitespace (trim s)"
    using strips_prefix [OF _ trim_end_prefix] by (auto simp: trim_def)
  then show ?thesis by (simp add: trim_start_def strip_seqs_id)
qed

lemma trim_end_idem [simp]: "trim_end (trim_end s) = trim_end s"
  by (simp add: trim_end_def)

lemma trim_idem [simp]: "trim (trim s) = trim s"
  by (subst trim_def) (simp, simp add: trim_def)

lemma blank_trim [simp]: "blank (trim s) \<longleftrightarrow> blank s"
  by (simp add: blank_def)

lemma trim_Nil [simp]: "trim [] = []" "blank []"
  by (simp_all add: trim_def trim_start_def trim_end_def blank_def strip_seqs_id strips_def
      whitespace_def)

lemma strip_seqs_Nil: "strip_seqs ws s = [] \<Longrightarrow> \<exists>us. set us \<subseteq> set ws \<and> s = concat us"
proof (induction ws s rule: strip_seqs.induct)
  case (1 ws s)
  show ?case
  proof (cases "find (\<lambda>w. w \<noteq> [] \<and> prefix w s) ws")
    case None
    with 1(2) have "s = []" by (subst (asm) strip_seqs.simps) simp
    then show ?thesis by (intro exI [of _ "[]"]) simp
  next
    case (Some w)
    then have w: "w \<in> set ws" "prefix w s" by (auto simp: find_Some_iff)
    from Some 1(2) have "strip_seqs ws (drop (length w) s) = []"
      by (subst (asm) strip_seqs.simps) simp
    with 1(1) [OF Some] obtain us where "set us \<subseteq> set ws" "drop (length w) s = concat us" by blast
    with w show ?thesis by (intro exI [of _ "w # us"]) (auto simp: prefix_def)
  qed
qed

lemma blank_strips: "blank s \<Longrightarrow> s \<noteq> [] \<Longrightarrow> strips whitespace s"
proof (rule ccontr)
  assume "blank s" "s \<noteq> []" and n: "\<not> strips whitespace s"
  then have "strip_seqs (map rev whitespace) (rev s) = []"
    by (simp add: blank_def trim_def trim_start_def trim_end_def strip_seqs_id)
  then obtain us where us: "set us \<subseteq> rev ` set whitespace" "rev s = concat us"
    using strip_seqs_Nil by fastforce
  have s: "s = concat (rev (map rev us))"
    using arg_cong [OF us(2), of rev] by (simp add: rev_concat rev_map)
  have "set (rev (map rev us)) \<subseteq> set whitespace" using us(1) by auto
  moreover from s \<open>s \<noteq> []\<close> obtain w where "w \<in> set (rev (map rev us))" "w \<noteq> []" "prefix w s"
  proof -
    have "concat vs \<noteq> [] \<Longrightarrow> \<exists>w. w \<in> set vs \<and> w \<noteq> [] \<and> prefix w (concat vs)" for vs :: "string list"
    proof (induction vs)
      case (Cons v vs)
      show ?case
      proof (cases "v = []")
        case True
        with Cons show ?thesis by auto
      next
        case False
        then show ?thesis by (intro exI [of _ v]) simp
      qed
    qed simp
    with s \<open>s \<noteq> []\<close> that show ?thesis by metis
  qed
  ultimately have "strips whitespace s" by (auto simp: strips_def)
  with n show False by simp
qed

text \<open>Text that starts with a visible ASCII character is not blank.\<close>

lemma not_blank_visible [simp]:
  assumes "(33::nat) \<le> of_char c" and "of_char c < (128::nat)"
  shows "\<not> blank (c # cs)"
proof
  assume "blank (c # cs)"
  then have "strips whitespace (c # cs)" by (simp add: blank_strips)
  then show False using assms by (auto simp: strips_def whitespace_def)
qed

subsection \<open>Characters\<close>

definition is_ascii :: "char \<Rightarrow> bool" where
  "is_ascii c \<longleftrightarrow> of_char c < (128::nat)"

definition is_ascii_lowercase :: "char \<Rightarrow> bool" where
  "is_ascii_lowercase c \<longleftrightarrow> (97::nat) \<le> of_char c \<and> of_char c \<le> (122::nat)"

definition is_ascii_uppercase :: "char \<Rightarrow> bool" where
  "is_ascii_uppercase c \<longleftrightarrow> (65::nat) \<le> of_char c \<and> of_char c \<le> (90::nat)"

definition is_ascii_digit :: "char \<Rightarrow> bool" where
  "is_ascii_digit c \<longleftrightarrow> (48::nat) \<le> of_char c \<and> of_char c \<le> (57::nat)"

definition is_lower_hex_digit :: "char \<Rightarrow> bool" where
  "is_lower_hex_digit c \<longleftrightarrow>
     is_ascii_digit c \<or> (97::nat) \<le> of_char c \<and> of_char c \<le> (102::nat)"

definition is_ascii_hexdigit :: "char \<Rightarrow> bool" where
  "is_ascii_hexdigit c \<longleftrightarrow> is_lower_hex_digit c \<or> (65::nat) \<le> of_char c \<and> of_char c \<le> (70::nat)"

definition to_ascii_lowercase :: "string \<Rightarrow> string" where
  "to_ascii_lowercase s = map (\<lambda>c. if is_ascii_uppercase c then char_of (of_char c + 32 :: nat) else c) s"

text \<open>\<open>str::strip_prefix\<close>.\<close>

definition strip_prefix :: "string \<Rightarrow> string \<Rightarrow> string option" where
  "strip_prefix p s = (if take (length p) s = p then Some (drop (length p) s) else None)"

lemma strip_prefix_append [simp]: "strip_prefix p (p @ s) = Some s"
  by (simp add: strip_prefix_def)

lemma strip_prefix_Some: "strip_prefix p s = Some t \<longleftrightarrow> s = p @ t"
  by (auto simp: strip_prefix_def) (metis append_take_drop_id)

text \<open>Text of visible ASCII characters is its own trimming.\<close>

definition visible :: "char \<Rightarrow> bool" where
  "visible c \<longleftrightarrow> (33::nat) \<le> of_char c \<and> of_char c < (127::nat)"

lemma whitespace_invisible: "w \<in> set whitespace \<Longrightarrow> c \<in> set w \<Longrightarrow> \<not> visible c"
  by (auto simp: whitespace_def visible_def)

lemma strips_visible_hd:
  assumes "\<And>w c. w \<in> set ws \<Longrightarrow> c \<in> set w \<Longrightarrow> \<not> visible c" and "visible c"
  shows "\<not> strips ws (c # s)"
proof
  assume "strips ws (c # s)"
  then obtain w where w: "w \<in> set ws" "w \<noteq> []" "prefix w (c # s)" by (auto simp: strips_def)
  then have "c \<in> set w" by (auto simp: prefix_Cons)
  with assms w(1) show False by blast
qed

lemma trim_visible_ends:
  assumes "s \<noteq> []" and "visible (hd s)" and "visible (last s)"
  shows "trim s = s"
proof -
  obtain c t where s: "s = c # t" using assms(1) by (cases s) auto
  obtain d u where r: "rev s = d # u" and d: "d = last s"
    using assms(1) by (cases "rev s") (auto simp: hd_rev [symmetric])
  have "\<not> strips whitespace s"
    unfolding s by (rule strips_visible_hd) (use whitespace_invisible assms(2) s in auto)
  moreover have "\<not> strips (map rev whitespace) (rev s)"
    unfolding r by (rule strips_visible_hd) (use whitespace_invisible assms(3) d in auto)
  ultimately show ?thesis
    by (simp add: trim_def trim_start_def trim_end_def strip_seqs_id)
qed

lemma trim_visible: "list_all visible s \<Longrightarrow> trim s = s"
  by (cases "s = []") (auto intro!: trim_visible_ends simp: list_all_iff)

subsection \<open>Lower-case hexadecimal\<close>

definition hex_digit :: "nat \<Rightarrow> char" where
  "hex_digit n = (if n < 10 then char_of (48 + n) else char_of (87 + n))"

text \<open>The rendering \<open>{:x}\<close> of a digest and \<open>hex_encode\<close> of the recorder.\<close>

definition hex_encode :: "bytes \<Rightarrow> string" where
  "hex_encode bs = concat (map (\<lambda>b. [hex_digit (of_char b div 16), hex_digit (of_char b mod 16)]) bs)"

lemma length_hex_encode [simp]: "length (hex_encode bs) = 2 * length bs"
  by (induction bs) (simp_all add: hex_encode_def)

lemma of_char_hex_digit: "n < 16 \<Longrightarrow> of_char (hex_digit n) = (if n < 10 then 48 + n else 87 + n)"
  by (simp add: hex_digit_def)

lemma hex_digit_lower: "n < 16 \<Longrightarrow> is_lower_hex_digit (hex_digit n)"
  by (simp add: is_lower_hex_digit_def is_ascii_digit_def of_char_hex_digit)

lemma hex_encode_lower: "list_all is_lower_hex_digit (hex_encode bs)"
proof (induction bs)
  case Nil
  show ?case by (simp add: hex_encode_def)
next
  case (Cons b bs)
  have "of_char b div 16 < (16::nat)"
    by (simp add: less_mult_imp_div_less)
  with Cons show ?case
    by (simp add: hex_encode_def hex_digit_lower)
qed

lemma hex_digit_inj: "m < 16 \<Longrightarrow> n < 16 \<Longrightarrow> hex_digit m = hex_digit n \<longleftrightarrow> m = n"
proof
  assume m: "m < 16" and n: "n < 16" and eq: "hex_digit m = hex_digit n"
  have "(if m < 10 then 48 + m else 87 + m) = (if n < 10 then 48 + n else 87 + n)"
    using of_char_hex_digit [OF m] of_char_hex_digit [OF n] by (simp only: eq)
  with m n show "m = n" by (simp split: if_splits)
qed simp

lemma hex_encode_Cons:
  "hex_encode (b # bs) = hex_digit (of_char b div 16) # hex_digit (of_char b mod 16) # hex_encode bs"
  by (simp add: hex_encode_def)

lemma hex_encode_inj: "hex_encode xs = hex_encode ys \<longleftrightarrow> xs = ys"
proof (induction xs arbitrary: ys)
  case Nil
  then show ?case by (cases ys) (simp_all add: hex_encode_def)
next
  case (Cons x xs)
  show ?case
  proof (cases ys)
    case Nil
    then show ?thesis by (simp add: hex_encode_def)
  next
    case (Cons y zs)
    have lt: "of_char c div 16 < (16::nat)" "of_char c mod 16 < (16::nat)" for c :: char
      by (simp_all add: less_mult_imp_div_less)
    have "of_char x div 16 = (of_char y div 16 :: nat) \<and> of_char x mod 16 = (of_char y mod 16 :: nat)
        \<longleftrightarrow> of_char x = (of_char y :: nat)"
      by (metis div_mult_mod_eq)
    with Cons.IH [of zs] Cons show ?thesis
      by (simp add: hex_encode_Cons hex_digit_inj lt) blast
  qed
qed

subsection \<open>Sorted vectors\<close>

text \<open>\<open>windows(2).any(|pair| pair[0] == pair[1])\<close>, the code's test for duplicates after a sort.\<close>

fun adjacent_equal :: "'a list \<Rightarrow> bool" where
  "adjacent_equal (x # y # zs) \<longleftrightarrow> x = y \<or> adjacent_equal (y # zs)"
| "adjacent_equal _ \<longleftrightarrow> False"

lemma adjacent_equal_sorted: "sorted xs \<Longrightarrow> adjacent_equal xs \<longleftrightarrow> \<not> distinct xs"
  for xs :: "'a::linorder list"
proof (induction xs rule: adjacent_equal.induct)
  case (1 x y zs)
  have "x \<in> set zs \<Longrightarrow> x = y" using 1(2) by (auto dest: antisym)
  with 1 show ?case by auto
qed simp_all

lemma sort_key_sorted: "sorted (map f xs) \<Longrightarrow> sort_key f xs = xs"
  by (induction xs) (simp_all add: insort_is_Cons)

lemma sort_key_perm:
  assumes "mset xs = mset ys" and "distinct (map f ys)"
  shows "sort_key f xs = sort_key f ys"
proof (rule sort_key_inj_key_eq)
  show "mset xs = mset (sort_key f ys)" using assms(1) by simp
  have "set xs = set ys" using assms(1) by (metis set_mset_mset)
  with assms(2) show "inj_on f (set xs)" by (simp add: distinct_map)
qed simp

lemma sort_key_adjacent: "adjacent_equal (map f (sort_key f xs)) \<longleftrightarrow> \<not> distinct (map f xs)"
  for f :: "'a \<Rightarrow> 'b::linorder"
proof -
  have "distinct (map f (sort_key f xs)) \<longleftrightarrow> distinct (map f xs)"
    by (metis mset_map mset_sort mset_eq_imp_distinct_iff)
  then show ?thesis by (simp add: adjacent_equal_sorted)
qed

lemma sort_adjacent: "adjacent_equal (sort xs) \<longleftrightarrow> \<not> distinct xs"
  for xs :: "'a::linorder list"
  by (simp add: adjacent_equal_sorted)

lemma sort_perm: "mset xs = mset ys \<Longrightarrow> sort xs = sort ys"
  for xs :: "'a::linorder list"
  by (rule properties_for_sort) simp_all

text \<open>The code's loop that writes a separator between two elements.\<close>

fun commas :: "bytes list \<Rightarrow> bytes" where
  "commas [] = []"
| "commas [x] = x"
| "commas (x # y # zs) = x @ CHR '','' # commas (y # zs)"

text \<open>A loop that maps a fallible function and stops at the first error.\<close>

fun rmap :: "('a \<Rightarrow> 'e + 'b) \<Rightarrow> 'a list \<Rightarrow> 'e + 'b list" where
  "rmap f [] = Inr []"
| "rmap f (x # xs) = rbind (f x) (\<lambda>y. rbind (rmap f xs) (\<lambda>ys. Inr (y # ys)))"

lemma rmap_Inr_iff: "rmap f xs = Inr ys \<longleftrightarrow> list_all2 (\<lambda>x y. f x = Inr y) xs ys"
  by (induction xs arbitrary: ys) (auto simp: list_all2_Cons1)

lemma rmap_length: "rmap f xs = Inr ys \<Longrightarrow> length ys = length xs"
  by (auto simp: rmap_Inr_iff dest: list_all2_lengthD)

lemma rmap_perm:
  assumes "rmap f xs = Inr ys" and "mset xs = mset xs'"
  shows "\<exists>ys'. rmap f xs' = Inr ys' \<and> mset ys' = mset ys"
proof -
  let ?g = "\<lambda>x. projr (f x)"
  have ok: "\<forall>x \<in> set zs. f x = Inr (?g x) \<Longrightarrow> rmap f zs = Inr (map ?g zs)" for zs
    by (induction zs) auto
  have all: "\<forall>x \<in> set xs. f x = Inr (?g x)" and ys: "ys = map ?g xs"
    using assms(1) by (induction xs arbitrary: ys) auto
  from all have "\<forall>x \<in> set xs'. f x = Inr (?g x)"
    using assms(2) by (metis set_mset_mset)
  then have "rmap f xs' = Inr (map ?g xs')" by (rule ok)
  moreover have "mset (map ?g xs') = mset ys" using assms(2) ys by simp
  ultimately show ?thesis by blast
qed

text \<open>\<open>opt.map(f).transpose()?\<close>.\<close>

definition roption :: "('a \<Rightarrow> 'e + 'b) \<Rightarrow> 'a option \<Rightarrow> 'e + 'b option" where
  "roption f v = (case v of None \<Rightarrow> Inr None | Some x \<Rightarrow> rbind (f x) (\<lambda>y. Inr (Some y)))"

lemma roption_simps [simp]:
  "roption f None = Inr None"
  "roption f (Some x) = rbind (f x) (\<lambda>y. Inr (Some y))"
  by (simp_all add: roption_def)

subsection \<open>Machine integers\<close>

text \<open>
  An \<open>i64\<close> that takes part in arithmetic is a 64-bit word read by \<^const>\<open>sint\<close>; the
  code's comparisons are the signed ones.
\<close>

definition i64_max :: int where "i64_max = 2 ^ 63 - 1"
definition i64_min :: int where "i64_min = - (2 ^ 63)"

definition i64_clamp :: "int \<Rightarrow> i64" where
  "i64_clamp x = word_of_int (max i64_min (min i64_max x))"

text \<open>\<open>i64::saturating_add\<close>, \<open>saturating_sub\<close>, \<open>saturating_mul\<close> and \<open>min\<close>.\<close>

definition i64_saturating_add :: "i64 \<Rightarrow> i64 \<Rightarrow> i64" where
  "i64_saturating_add a b = i64_clamp (sint a + sint b)"

definition i64_saturating_sub :: "i64 \<Rightarrow> i64 \<Rightarrow> i64" where
  "i64_saturating_sub a b = i64_clamp (sint a - sint b)"

definition i64_saturating_mul :: "i64 \<Rightarrow> i64 \<Rightarrow> i64" where
  "i64_saturating_mul a b = i64_clamp (sint a * sint b)"

definition i64_smin :: "i64 \<Rightarrow> i64 \<Rightarrow> i64" where
  "i64_smin a b = (if sint a \<le> sint b then a else b)"

lemma sint_eq_iff: "sint x = sint y \<longleftrightarrow> x = (y :: 'a::len word)"
  by (rule word_eq_iff_signed [symmetric])

lemma sint_i64_bounds: "i64_min \<le> sint (x :: i64)" "sint (x :: i64) \<le> i64_max"
  using sint_ge [of x] sint_lt [of x] by (simp_all add: i64_min_def i64_max_def)

lemma sint_i64_clamp: "sint (i64_clamp x) = max i64_min (min i64_max x)"
proof -
  let ?y = "max i64_min (min i64_max x)"
  have "- (2 ^ 63) \<le> ?y" and "?y < 2 ^ 63"
    by (simp_all add: i64_min_def i64_max_def)
  then have "signed_take_bit 63 ?y = ?y"
    by (intro signed_take_bit_int_eq_self) simp_all
  then show ?thesis
    by (simp add: i64_clamp_def sint_sbintrunc' del: max_less_iff_conj)
qed

lemma sint_saturating:
  "sint (i64_saturating_add a b) = max i64_min (min i64_max (sint a + sint b))"
  "sint (i64_saturating_sub a b) = max i64_min (min i64_max (sint a - sint b))"
  "sint (i64_saturating_mul a b) = max i64_min (min i64_max (sint a * sint b))"
  by (simp_all add: i64_saturating_add_def i64_saturating_sub_def i64_saturating_mul_def
      sint_i64_clamp)

lemma sint_smin [simp]: "sint (i64_smin a b) = min (sint a) (sint b)"
  by (simp add: i64_smin_def)

text \<open>Wrapping subtraction is exact when the difference is representable.\<close>

lemma sint_sub_exact:
  "i64_min \<le> sint a - sint b \<Longrightarrow> sint a - sint b \<le> i64_max \<Longrightarrow> sint (a - b :: i64) = sint a - sint b"
  by (simp add: i64_min_def i64_max_def sint_word_ariths signed_take_bit_int_eq_self)

subsection \<open>Big-endian integers\<close>

text \<open>\<open>to_be_bytes\<close> of a \<open>w\<close>-byte integer; a larger value is truncated first, as the
  cast \<open>as u32\<close> or \<open>as u64\<close> before it does.\<close>

fun be_bytes :: "nat \<Rightarrow> nat \<Rightarrow> bytes" where
  "be_bytes 0 n = []"
| "be_bytes (Suc w) n = be_bytes w (n div 256) @ [char_of n]"

text \<open>\<open>from_be_bytes\<close>.\<close>

definition be_nat :: "bytes \<Rightarrow> nat" where
  "be_nat bs = foldl (\<lambda>a c. 256 * a + of_char c) 0 bs"

lemma length_be_bytes [simp]: "length (be_bytes w n) = w"
  by (induction w arbitrary: n) simp_all

lemma be_nat_be_bytes [simp]: "be_nat (be_bytes w n) = n mod 256 ^ w"
proof (induction w arbitrary: n)
  case 0
  show ?case by (simp add: be_nat_def)
next
  case (Suc w)
  have "be_nat (be_bytes (Suc w) n) = 256 * (n div 256 mod 256 ^ w) + n mod 256"
    using Suc [of "n div 256"] by (simp add: be_nat_def)
  also have "\<dots> = n mod 256 ^ Suc w"
    by (simp add: mod_mult2_eq)
  finally show ?case .
qed

lemma be_nat_less: "be_nat bs < 256 ^ length bs"
proof (induction bs rule: rev_induct)
  case Nil
  show ?case by (simp add: be_nat_def)
next
  case (snoc c bs)
  have "of_char c < (256::nat)" by simp
  moreover have "be_nat bs + 1 \<le> 256 ^ length bs" using snoc by simp
  ultimately have "256 * be_nat bs + of_char c < 256 * 256 ^ length bs" by linarith
  then show ?case by (simp add: be_nat_def)
qed

lemma be_bytes_be_nat [simp]: "be_bytes (length bs) (be_nat bs) = bs"
proof (induction bs rule: rev_induct)
  case (snoc c bs)
  have "char_of (256 * n + of_char c) = c" for n :: nat
    using char_of_mod_256 [of "256 * n + of_char c"] by (simp del: char_of_mod_256)
  with snoc show ?case by (simp add: be_nat_def)
qed simp

lemma be_bytes_inj: "m < 256 ^ w \<Longrightarrow> n < 256 ^ w \<Longrightarrow> be_bytes w m = be_bytes w n \<longleftrightarrow> m = n"
  by (metis be_nat_be_bytes mod_less)

end
