(* ===== verification/OperationalProfile.thy ===== *)
theory OperationalProfile
  imports Prelude
begin

text \<open>
  Operational profiles of \<^verbatim>\<open>crates/carsinos-core/src/execass_policy.rs\<close>: the closed axes of
  a policy, the four guided inputs with their compilation to the one canonical policy, and the
  first-run admission of work. Constructors keep the source's names; where two enums share
  one (\<open>OwnerEnvelope\<close>, \<open>Disabled\<close>) it is written with its type.
\<close>

datatype TaskDelegationScope = ExactTask | NarrowDelegation | OwnerEnvelope
datatype WorkspacePathScope = ExactPath | ProjectBounded | OwnerEnvelope
datatype RoutineScope = Disabled | ExplicitRoutine | OwnerEnvelope
datatype ToolIdentityScope =
  FixedIdentityAndVersion | ConfiguredIdentityAndVersion | OwnerEnvelope
datatype TargetScope = ExactTarget | ResolvedTargetSet | OwnerEnvelope
datatype AudienceScope = ExactAudience | ResolvedAudienceSet | OwnerEnvelope
datatype TechnicalQuota = Constrained | Standard | OwnerEnvelope
datatype TimeExpiryScope = ExplicitExpiry | BoundedExpiry | OwnerEnvelope
datatype RecoveryScope = ManualOnly | ObjectiveRetry | ObjectiveRetryWithinOwnerEnvelope
datatype ParallelismScope = Sequential | Bounded | OwnerEnvelope
datatype ClarificationSensitivity = AnyAmbiguity | MaterialAmbiguity | UnresolvedOnly
datatype ModelDangerConfirmationSensitivity =
    PlausibleModelIdentifiedDanger
  | CredibleModelIdentifiedDanger
  | CredibleDestructiveOrDangerousConsequence
datatype RecurringWorkScope = Disabled | NarrowMembership | OwnerEnvelope

record CanonicalOperationalPolicy =
  task_delegation :: TaskDelegationScope
  workspace_path :: WorkspacePathScope
  routine :: RoutineScope
  tool_identity :: ToolIdentityScope
  target :: TargetScope
  audience :: AudienceScope
  technical_quota :: TechnicalQuota
  time_expiry :: TimeExpiryScope
  recovery :: RecoveryScope
  parallelism :: ParallelismScope
  clarification_sensitivity :: ClarificationSensitivity
  model_danger_confirmation_sensitivity :: ModelDangerConfirmationSensitivity
  recurring_work :: RecurringWorkScope

text \<open>\<open>CustomOperationalProfile\<close> is a structure with the one field \<open>policy\<close>.\<close>

datatype OperationalProfileInput =
  LockedDown | Balanced | FullSend | Custom CanonicalOperationalPolicy

definition locked_down_policy :: CanonicalOperationalPolicy where
  "locked_down_policy = \<lparr>
     task_delegation = ExactTask,
     workspace_path = ExactPath,
     routine = RoutineScope.Disabled,
     tool_identity = FixedIdentityAndVersion,
     target = ExactTarget,
     audience = ExactAudience,
     technical_quota = Constrained,
     time_expiry = ExplicitExpiry,
     recovery = ManualOnly,
     parallelism = Sequential,
     clarification_sensitivity = AnyAmbiguity,
     model_danger_confirmation_sensitivity = PlausibleModelIdentifiedDanger,
     recurring_work = RecurringWorkScope.Disabled\<rparr>"

definition balanced_policy :: CanonicalOperationalPolicy where
  "balanced_policy = \<lparr>
     task_delegation = NarrowDelegation,
     workspace_path = ProjectBounded,
     routine = ExplicitRoutine,
     tool_identity = ConfiguredIdentityAndVersion,
     target = ResolvedTargetSet,
     audience = ResolvedAudienceSet,
     technical_quota = Standard,
     time_expiry = BoundedExpiry,
     recovery = ObjectiveRetry,
     parallelism = Bounded,
     clarification_sensitivity = MaterialAmbiguity,
     model_danger_confirmation_sensitivity = CredibleModelIdentifiedDanger,
     recurring_work = NarrowMembership\<rparr>"

definition full_send_policy :: CanonicalOperationalPolicy where
  "full_send_policy = \<lparr>
     task_delegation = TaskDelegationScope.OwnerEnvelope,
     workspace_path = WorkspacePathScope.OwnerEnvelope,
     routine = RoutineScope.OwnerEnvelope,
     tool_identity = ToolIdentityScope.OwnerEnvelope,
     target = TargetScope.OwnerEnvelope,
     audience = AudienceScope.OwnerEnvelope,
     technical_quota = TechnicalQuota.OwnerEnvelope,
     time_expiry = TimeExpiryScope.OwnerEnvelope,
     recovery = ObjectiveRetryWithinOwnerEnvelope,
     parallelism = ParallelismScope.OwnerEnvelope,
     clarification_sensitivity = UnresolvedOnly,
     model_danger_confirmation_sensitivity = CredibleDestructiveOrDangerousConsequence,
     recurring_work = RecurringWorkScope.OwnerEnvelope\<rparr>"

fun compile_operational_profile :: "OperationalProfileInput \<Rightarrow> CanonicalOperationalPolicy" where
  "compile_operational_profile LockedDown = locked_down_policy"
| "compile_operational_profile Balanced = balanced_policy"
| "compile_operational_profile FullSend = full_send_policy"
| "compile_operational_profile (Custom policy) = policy"

datatype OperationalProfileKind = LockedDown | Balanced | FullSend | Custom

fun operational_profile_kind :: "OperationalProfileInput \<Rightarrow> OperationalProfileKind" where
  "operational_profile_kind OperationalProfileInput.LockedDown = LockedDown"
| "operational_profile_kind OperationalProfileInput.Balanced = Balanced"
| "operational_profile_kind OperationalProfileInput.FullSend = FullSend"
| "operational_profile_kind (OperationalProfileInput.Custom _) = Custom"

record ConfiguredOperationalProfile =
  selected_profile :: OperationalProfileKind
  canonical_policy :: CanonicalOperationalPolicy

datatype ProfileConfigurationState = Unconfigured | Configured ConfiguredOperationalProfile

datatype ProfileAdmissionIngress = Api | NativeControl

datatype ProfileAdmissionWork =
    ExactCurrentOwnerInstruction
  | ExactCurrentOwnerPolicyAmendment
  | SavedOwnerInstruction
  | StandingOwnerWork
  | DerivedOrUnattendedWork
  | ExplicitOwnerProfileSelection OperationalProfileInput

datatype ProfileSelectionHighlight = Balanced

datatype ProfileAdmission =
    ProceedUnderBaseRules "CanonicalOperationalPolicy option"
  | GuidedSelectionRequired ProfileConfigurationState ProfileSelectionHighlight
  | AdmissionConfigured ProfileConfigurationState

fun admit_unattended :: "ProfileConfigurationState \<Rightarrow> ProfileAdmission" where
  "admit_unattended Unconfigured =
     GuidedSelectionRequired Unconfigured ProfileSelectionHighlight.Balanced"
| "admit_unattended (Configured profile) = ProceedUnderBaseRules (Some (canonical_policy profile))"

fun admit_profile_work ::
  "ProfileAdmissionIngress \<Rightarrow> ProfileConfigurationState \<Rightarrow> ProfileAdmissionWork \<Rightarrow> ProfileAdmission"
where
  "admit_profile_work ingress configuration_state (ExplicitOwnerProfileSelection selection) =
     AdmissionConfigured (Configured \<lparr>
       selected_profile = operational_profile_kind selection,
       canonical_policy = compile_operational_profile selection\<rparr>)"
| "admit_profile_work ingress configuration_state ExactCurrentOwnerInstruction =
     ProceedUnderBaseRules None"
| "admit_profile_work ingress configuration_state ExactCurrentOwnerPolicyAmendment =
     ProceedUnderBaseRules None"
| "admit_profile_work ingress configuration_state SavedOwnerInstruction =
     admit_unattended configuration_state"
| "admit_profile_work ingress configuration_state StandingOwnerWork =
     admit_unattended configuration_state"
| "admit_profile_work ingress configuration_state DerivedOrUnattendedWork =
     admit_unattended configuration_state"

subsection \<open>Admission never invents a policy\<close>

definition exact_current_owner_work :: "ProfileAdmissionWork \<Rightarrow> bool" where
  "exact_current_owner_work w \<longleftrightarrow>
     w = ExactCurrentOwnerInstruction \<or> w = ExactCurrentOwnerPolicyAmendment"

definition explicit_selection :: "ProfileAdmissionWork \<Rightarrow> OperationalProfileInput option" where
  "explicit_selection w = (case w of ExplicitOwnerProfileSelection s \<Rightarrow> Some s | _ \<Rightarrow> None)"

lemma admit_exact_owner:
  "exact_current_owner_work w \<Longrightarrow> admit_profile_work i c w = ProceedUnderBaseRules None"
  by (auto simp: exact_current_owner_work_def)

lemma admit_configured_iff:
  "admit_profile_work i c w = AdmissionConfigured c' \<longleftrightarrow>
     (\<exists>s. explicit_selection w = Some s \<and>
        c' = Configured \<lparr>selected_profile = operational_profile_kind s,
                         canonical_policy = compile_operational_profile s\<rparr>)"
  by (cases w; cases c) (auto simp: explicit_selection_def)

lemma admit_guided_iff:
  "admit_profile_work i c w = GuidedSelectionRequired c' h \<longleftrightarrow>
     c = Unconfigured \<and> c' = Unconfigured \<and> h = ProfileSelectionHighlight.Balanced \<and>
     \<not> exact_current_owner_work w \<and> explicit_selection w = None"
  by (cases w; cases c; cases h) (auto simp: exact_current_owner_work_def explicit_selection_def)

lemma admit_proceed_iff:
  "admit_profile_work i c w = ProceedUnderBaseRules p \<longleftrightarrow>
     exact_current_owner_work w \<and> p = None \<or>
     \<not> exact_current_owner_work w \<and> explicit_selection w = None \<and>
       (\<exists>profile. c = Configured profile \<and> p = Some (canonical_policy profile))"
  by (cases w; cases c) (auto simp: exact_current_owner_work_def explicit_selection_def)

text \<open>Admission never selects a policy on its own. Work proceeds without a policy exactly when it
  is the current owner's exact instruction or amendment; it proceeds under a policy exactly when
  that policy is the configured one; a profile becomes configured exactly through the owner's
  explicit selection, as that selection's compiled policy; everything else asks for a selection
  and leaves the profile unconfigured. The ingress never matters.\<close>

theorem admission_never_selects:
  "(admit_profile_work i c w = ProceedUnderBaseRules None \<longleftrightarrow> exact_current_owner_work w)
   \<and> (admit_profile_work i c w = ProceedUnderBaseRules (Some p) \<longleftrightarrow>
        \<not> exact_current_owner_work w \<and> explicit_selection w = None
        \<and> (\<exists>profile. c = Configured profile \<and> p = canonical_policy profile))
   \<and> (admit_profile_work i c w = AdmissionConfigured c' \<longleftrightarrow>
        (\<exists>s. explicit_selection w = Some s \<and>
           c' = Configured \<lparr>selected_profile = operational_profile_kind s,
                            canonical_policy = compile_operational_profile s\<rparr>))
   \<and> (admit_profile_work i c w = GuidedSelectionRequired c' h \<longleftrightarrow>
        c = Unconfigured \<and> c' = Unconfigured \<and> h = ProfileSelectionHighlight.Balanced \<and>
        \<not> exact_current_owner_work w \<and> explicit_selection w = None)"
  by (simp only: admit_proceed_iff admit_configured_iff admit_guided_iff) auto

end
