(* ===== verification/Recovery.thy ===== *)
theory Recovery
  imports OperationalProfile
begin

text \<open>
  The objective recovery planner of \<^verbatim>\<open>crates/carsinos-core/src/execass_recovery.rs\<close>. Times and
  limits are 64-bit words compared as signed integers, attempt counters 32-bit words; the
  subtraction of two clock readings wraps as the machine's does.
\<close>

datatype ProviderErrorClass = Transient | RateLimited | Authentication | Permanent | Unknown

datatype RetrySafety =
    PreInvocationFailure | Idempotent | IndependentlyProvenAbsent
  | OutcomeUnknown | NonIdempotentFailure

fun permits_same_effect_retry :: "RetrySafety \<Rightarrow> bool" where
  "permits_same_effect_retry PreInvocationFailure = True"
| "permits_same_effect_retry Idempotent = True"
| "permits_same_effect_retry IndependentlyProvenAbsent = True"
| "permits_same_effect_retry _ = False"

record RecoveryPolicy =
  max_attempts :: u32
  max_elapsed_ms :: i64
  base_backoff_ms :: i64
  max_backoff_ms :: i64

record ObjectiveRecoveryFacts =
  scope :: RecoveryScope
  attempts_started :: u32
  first_attempt_at_ms :: i64
  last_attempt_at_ms :: i64
  now_ms :: i64
  technical_resources_available :: bool
  circuit_open_until_ms :: "i64 option"
  provider_error_class :: ProviderErrorClass
  retry_safety :: RetrySafety
  operation_reversible :: bool
  declared_safe_boundary_reached :: bool
  replan_available_within_original_authority :: bool
  original_intent_and_authority_unchanged :: bool
  meaningful_outcome_exists :: bool
  user_judgment_useful :: bool
  external_progress_possible :: bool

datatype RecoveryDelayReason = Backoff | CircuitBreaker

datatype RecoveryDirective =
    RetrySameEffect i64
  | ReplanWithinOriginalAuthority
  | WaitUntil i64 RecoveryDelayReason
  | WaitingExternal
  | WaitingForUser
  | PartiallyCompleted
  | Failed

datatype RecoveryPlanError = InvalidPolicy | InvalidClock | InvalidAttemptHistory

definition recovery_validate ::
  "RecoveryPolicy \<Rightarrow> ObjectiveRecoveryFacts \<Rightarrow> RecoveryPlanError + unit"
where
  "recovery_validate policy facts =
     (if max_attempts policy = 0
         \<or> sint (max_elapsed_ms policy) < 0
         \<or> sint (base_backoff_ms policy) < 0
         \<or> sint (max_backoff_ms policy) < sint (base_backoff_ms policy)
      then Inl InvalidPolicy
      else if sint (first_attempt_at_ms facts) < 0
         \<or> sint (last_attempt_at_ms facts) < sint (first_attempt_at_ms facts)
         \<or> sint (now_ms facts) < sint (last_attempt_at_ms facts)
         \<or> (case circuit_open_until_ms facts of None \<Rightarrow> False | Some until \<Rightarrow> sint until < 0)
      then Inl InvalidClock
      else if attempts_started facts = 0
      then Inl InvalidAttemptHistory
      else Inr ())"

text \<open>\<open>1_i64.checked_shl(shift)\<close> is \<open>None\<close> only for \<open>shift \<ge> 64\<close>, which the \<open>min(62)\<close>
  before it excludes; the fallback is kept as the code has it.\<close>

definition checked_shl_one :: "nat \<Rightarrow> i64 option" where
  "checked_shl_one shift = (if shift < 64 then Some (push_bit shift 1) else None)"

definition backoff_ms :: "RecoveryPolicy \<Rightarrow> u32 \<Rightarrow> i64" where
  "backoff_ms policy attempts =
     (let shift = min (unat attempts - 1) 62
      in i64_smin
           (i64_saturating_mul (base_backoff_ms policy)
              (case checked_shl_one shift of None \<Rightarrow> word_of_int i64_max | Some m \<Rightarrow> m))
           (max_backoff_ms policy))"

definition exhausted :: "ObjectiveRecoveryFacts \<Rightarrow> RecoveryDirective" where
  "exhausted facts =
     (if external_progress_possible facts then WaitingExternal
      else if user_judgment_useful facts then WaitingForUser
      else if meaningful_outcome_exists facts then PartiallyCompleted
      else Failed)"

text \<open>The early return while a circuit breaker is open.\<close>

definition circuit_wait ::
  "RecoveryPolicy \<Rightarrow> ObjectiveRecoveryFacts \<Rightarrow> RecoveryDirective option"
where
  "circuit_wait policy facts =
     (case circuit_open_until_ms facts of
        Some until \<Rightarrow> if sint until > sint (now_ms facts)
                      then Some (WaitUntil until CircuitBreaker) else None
      | None \<Rightarrow> None)"

definition retry_window_open :: "RecoveryPolicy \<Rightarrow> ObjectiveRecoveryFacts \<Rightarrow> bool" where
  "retry_window_open policy facts =
     (let retry_allowed = permits_same_effect_retry (retry_safety facts)
            \<and> \<not> (provider_error_class facts = Authentication
                 \<or> provider_error_class facts = Permanent);
          within_attempt_limit = unat (attempts_started facts) < unat (max_attempts policy);
          elapsed = now_ms facts - first_attempt_at_ms facts;
          within_elapsed_limit = sint elapsed \<le> sint (max_elapsed_ms policy)
      in retry_allowed \<and> within_attempt_limit \<and> within_elapsed_limit
         \<and> technical_resources_available facts)"

definition plan_objective_recovery ::
  "RecoveryPolicy \<Rightarrow> ObjectiveRecoveryFacts \<Rightarrow> RecoveryPlanError + RecoveryDirective"
where
  "plan_objective_recovery policy facts =
     rbind (recovery_validate policy facts) (\<lambda>_.
       if \<not> original_intent_and_authority_unchanged facts then Inr (exhausted facts)
       else if retry_safety facts = OutcomeUnknown then
         Inr (if external_progress_possible facts then WaitingExternal else exhausted facts)
       else if scope facts \<noteq> ManualOnly then
         (case circuit_wait policy facts of
            Some directive \<Rightarrow> Inr directive
          | None \<Rightarrow>
              if retry_window_open policy facts then
                (let not_before_ms = i64_saturating_add (last_attempt_at_ms facts)
                       (backoff_ms policy (attempts_started facts))
                 in if sint not_before_ms > sint (now_ms facts)
                    then Inr (WaitUntil not_before_ms Backoff)
                    else Inr (RetrySameEffect not_before_ms))
              else if replan_available_within_original_authority facts
                  \<and> operation_reversible facts
                  \<and> declared_safe_boundary_reached facts
              then Inr ReplanWithinOriginalAuthority
              else Inr (exhausted facts))
       else Inr (exhausted facts))"

subsection \<open>Validation and clocks\<close>

definition valid_recovery_input :: "RecoveryPolicy \<Rightarrow> ObjectiveRecoveryFacts \<Rightarrow> bool" where
  "valid_recovery_input p f \<longleftrightarrow>
     max_attempts p \<noteq> 0 \<and> 0 \<le> sint (max_elapsed_ms p) \<and> 0 \<le> sint (base_backoff_ms p) \<and>
     sint (base_backoff_ms p) \<le> sint (max_backoff_ms p) \<and>
     0 \<le> sint (first_attempt_at_ms f) \<and>
     sint (first_attempt_at_ms f) \<le> sint (last_attempt_at_ms f) \<and>
     sint (last_attempt_at_ms f) \<le> sint (now_ms f) \<and>
     (\<forall>u. circuit_open_until_ms f = Some u \<longrightarrow> 0 \<le> sint u) \<and>
     attempts_started f \<noteq> 0"

lemma recovery_validate_Inr [simp]:
  "recovery_validate p f = Inr u \<longleftrightarrow> valid_recovery_input p f"
  by (auto simp: recovery_validate_def valid_recovery_input_def not_less not_le split: option.splits)

text \<open>On validated clocks the subtraction that yields the elapsed time cannot overflow.\<close>

lemma elapsed_exact:
  assumes "valid_recovery_input p f"
  shows "sint (now_ms f - first_attempt_at_ms f) = sint (now_ms f) - sint (first_attempt_at_ms f)"
  using assms sint_i64_bounds(2) [of "now_ms f"]
  by (intro sint_sub_exact) (auto simp: valid_recovery_input_def i64_min_def)

subsection \<open>Backoff\<close>

lemma sint_shl_one: "k \<le> 62 \<Longrightarrow> checked_shl_one k = Some (push_bit k 1) \<and> sint (push_bit k 1 :: i64) = 2 ^ k"
proof -
  assume k: "k \<le> 62"
  have "(2::int) ^ k < 2 ^ 63" using k by (intro power_strict_increasing) simp_all
  then have "signed_take_bit 63 ((2::int) ^ k) = 2 ^ k"
    by (intro signed_take_bit_int_eq_self) (simp_all add: order_trans [of _ 0])
  moreover have "(push_bit k 1 :: i64) = word_of_int (2 ^ k)"
    by (simp add: push_bit_eq_mult)
  ultimately have "sint (push_bit k 1 :: i64) = 2 ^ k"
    by (simp only: sint_sbintrunc') simp
  with k show ?thesis by (simp add: checked_shl_one_def)
qed

definition backoff_spec :: "int \<Rightarrow> int \<Rightarrow> nat \<Rightarrow> int" where
  "backoff_spec base cap attempts = min cap (base * 2 ^ min (attempts - 1) 62)"

lemma sint_backoff:
  assumes "0 \<le> sint (base_backoff_ms p)"
  shows "sint (backoff_ms p n) =
    backoff_spec (sint (base_backoff_ms p)) (sint (max_backoff_ms p)) (unat n)"
proof -
  let ?k = "min (unat n - 1) 62"
  have shl: "checked_shl_one ?k = Some (push_bit ?k 1)" "sint (push_bit ?k 1 :: i64) = 2 ^ ?k"
    using sint_shl_one [of ?k] by simp_all
  have "0 \<le> sint (base_backoff_ms p) * 2 ^ ?k" using assms by simp
  then have "sint (i64_saturating_mul (base_backoff_ms p) (push_bit ?k 1)) =
      min i64_max (sint (base_backoff_ms p) * 2 ^ ?k)"
    unfolding sint_saturating shl by (simp add: i64_min_def i64_max_def)
  moreover have "sint (max_backoff_ms p) \<le> i64_max" by (rule sint_i64_bounds)
  ultimately show ?thesis
    unfolding backoff_ms_def Let_def shl(1) option.case sint_smin backoff_spec_def
    by (simp add: min_def)
qed

lemma backoff_spec_mono: "0 \<le> base \<Longrightarrow> m \<le> n \<Longrightarrow> backoff_spec base cap m \<le> backoff_spec base cap n"
proof -
  assume "0 \<le> base" and "m \<le> n"
  then have "base * 2 ^ min (m - 1) 62 \<le> base * 2 ^ min (n - 1) 62"
    by (intro mult_left_mono power_increasing) auto
  then show ?thesis by (simp add: backoff_spec_def)
qed

lemma backoff_spec_range: "0 \<le> base \<Longrightarrow> base \<le> cap \<Longrightarrow> base \<le> backoff_spec base cap n \<and> backoff_spec base cap n \<le> cap"
  using mult_left_mono [of 1 "2 ^ min (n - 1) 62" base] by (simp add: backoff_spec_def)

subsection \<open>When the planner retries\<close>

definition retry_conditions :: "RecoveryPolicy \<Rightarrow> ObjectiveRecoveryFacts \<Rightarrow> bool" where
  "retry_conditions p f \<longleftrightarrow>
     original_intent_and_authority_unchanged f \<and>
     scope f \<noteq> ManualOnly \<and>
     permits_same_effect_retry (retry_safety f) \<and>
     provider_error_class f \<notin> {Authentication, Permanent} \<and>
     unat (attempts_started f) < unat (max_attempts p) \<and>
     sint (now_ms f) - sint (first_attempt_at_ms f) \<le> sint (max_elapsed_ms p) \<and>
     technical_resources_available f"

definition circuit_closed :: "ObjectiveRecoveryFacts \<Rightarrow> bool" where
  "circuit_closed f \<longleftrightarrow> (\<forall>u. circuit_open_until_ms f = Some u \<longrightarrow> sint u \<le> sint (now_ms f))"

definition not_before :: "RecoveryPolicy \<Rightarrow> ObjectiveRecoveryFacts \<Rightarrow> int" where
  "not_before p f = min i64_max (sint (last_attempt_at_ms f) +
     backoff_spec (sint (base_backoff_ms p)) (sint (max_backoff_ms p)) (unat (attempts_started f)))"

lemma circuit_wait_None: "circuit_wait p f = None \<longleftrightarrow> circuit_closed f"
  by (auto simp: circuit_wait_def circuit_closed_def not_less split: option.splits)

lemma circuit_wait_Some:
  "circuit_wait p f = Some d \<longleftrightarrow>
     (\<exists>u. circuit_open_until_ms f = Some u \<and> sint (now_ms f) < sint u \<and> d = WaitUntil u CircuitBreaker)"
  by (auto simp: circuit_wait_def split: option.splits)

lemma permits_not_unknown: "permits_same_effect_retry s \<Longrightarrow> s \<noteq> OutcomeUnknown"
  by (cases s) auto

lemma retry_window_conditions:
  assumes "valid_recovery_input p f" "original_intent_and_authority_unchanged f" "scope f \<noteq> ManualOnly"
  shows "retry_window_open p f \<longleftrightarrow> retry_conditions p f"
  using assms elapsed_exact [OF assms(1)]
  by (auto simp: retry_window_open_def retry_conditions_def Let_def)

lemma sint_not_before:
  assumes "valid_recovery_input p f"
  shows "sint (i64_saturating_add (last_attempt_at_ms f) (backoff_ms p (attempts_started f))) = not_before p f"
proof -
  have base: "0 \<le> sint (base_backoff_ms p)" and "sint (base_backoff_ms p) \<le> sint (max_backoff_ms p)"
    and "0 \<le> sint (last_attempt_at_ms f)"
    using assms by (auto simp: valid_recovery_input_def)
  then have "0 \<le> sint (last_attempt_at_ms f) + sint (backoff_ms p (attempts_started f))"
    using backoff_spec_range [of "sint (base_backoff_ms p)" "sint (max_backoff_ms p)"
      "unat (attempts_started f)"] by (simp add: sint_backoff)
  then show ?thesis
    by (simp add: sint_saturating sint_backoff [OF base] not_before_def i64_min_def i64_max_def)
qed

lemma exhausted_not_autonomous [simp]:
  "exhausted f \<noteq> RetrySameEffect t" "exhausted f \<noteq> WaitUntil t r"
  "exhausted f \<noteq> ReplanWithinOriginalAuthority"
  by (simp_all add: exhausted_def)

lemma exhausted_range: "exhausted f \<in> {WaitingExternal, WaitingForUser, PartiallyCompleted, Failed}"
  by (simp add: exhausted_def)

lemma plan_retry_iff:
  "plan_objective_recovery p f = Inr (RetrySameEffect t) \<longleftrightarrow>
     valid_recovery_input p f \<and> circuit_closed f \<and> retry_conditions p f \<and>
     sint t = not_before p f \<and> not_before p f \<le> sint (now_ms f)"
proof (cases "valid_recovery_input p f")
  case False
  then have "recovery_validate p f \<noteq> Inr ()" by simp
  then show ?thesis using False by (auto simp: plan_objective_recovery_def)
next
  case True
  let ?nb = "i64_saturating_add (last_attempt_at_ms f) (backoff_ms p (attempts_started f))"
  have nb: "sint ?nb = not_before p f" by (rule sint_not_before [OF True])
  have t: "sint t = not_before p f \<longleftrightarrow> t = ?nb" by (simp add: nb [symmetric] sint_eq_iff)
  show ?thesis
  proof (cases "original_intent_and_authority_unchanged f \<and> scope f \<noteq> ManualOnly
      \<and> retry_safety f \<noteq> OutcomeUnknown")
    case False
    with True show ?thesis
      by (auto simp: plan_objective_recovery_def retry_conditions_def dest: permits_not_unknown)
  next
    case ok: True
    with True have w: "retry_window_open p f \<longleftrightarrow> retry_conditions p f"
      by (simp add: retry_window_conditions)
    from True have v: "recovery_validate p f = Inr ()" by simp
    have plan: "plan_objective_recovery p f =
        (case circuit_wait p f of
           Some d \<Rightarrow> Inr d
         | None \<Rightarrow> if retry_conditions p f
             then (if sint (now_ms f) < not_before p f then Inr (WaitUntil ?nb Backoff)
                   else Inr (RetrySameEffect ?nb))
             else if replan_available_within_original_authority f \<and> operation_reversible f
                 \<and> declared_safe_boundary_reached f
             then Inr ReplanWithinOriginalAuthority else Inr (exhausted f))"
      unfolding plan_objective_recovery_def v rbind_simps using ok
      by (simp add: w nb Let_def split: option.split)
    show ?thesis
    proof (cases "circuit_closed f")
      case closed: True
      then have "circuit_wait p f = None" by (simp add: circuit_wait_None)
      with True closed show ?thesis unfolding t plan by auto
    next
      case False
      then obtain d where "circuit_wait p f = Some d" "\<And>t. d \<noteq> RetrySameEffect t"
        by (metis RecoveryDirective.distinct(3) circuit_wait_None circuit_wait_Some option.exhaust)
      with False show ?thesis unfolding plan by simp
    qed
  qed
qed

subsection \<open>Properties\<close>

text \<open>C27: The planner repeats the same effect exactly when the input is valid, the circuit
  breaker is closed, every objective retry condition holds (unchanged authority, autonomous
  scope, a retry-safe failure of a retriable class, attempts and elapsed time within the limits,
  resources available) and the backoff deadline, computed without overflow, has passed.\<close>

theorem retry_exactly_when_safe:
  "plan_objective_recovery p f = Inr (RetrySameEffect t) \<longleftrightarrow>
     valid_recovery_input p f \<and> circuit_closed f \<and> retry_conditions p f \<and>
     sint t = not_before p f \<and> not_before p f \<le> sint (now_ms f)"
  by (rule plan_retry_iff)

text \<open>When the outcome of the previous attempt is unknown, the owner's intent or authority
  has drifted, or recovery is manual only, no directive acts autonomously: the planner neither
  retries, nor waits to retry, nor replans.\<close>

theorem no_autonomous_recovery:
  assumes "retry_safety f = OutcomeUnknown \<or> \<not> original_intent_and_authority_unchanged f
      \<or> scope f = ManualOnly"
    and "plan_objective_recovery p f = Inr d"
  shows "d \<in> {WaitingExternal, WaitingForUser, PartiallyCompleted, Failed}"
  using assms exhausted_range [of f]
  by (auto simp: plan_objective_recovery_def split: if_splits)

text \<open>The backoff is the exponential \<open>base * 2 ^ (attempts - 1)\<close> capped at the maximum, exact
  at every attempt count in spite of 64-bit arithmetic, never below the base, never above the
  cap and never smaller after more attempts.\<close>

theorem backoff_exponential_capped:
  assumes "0 \<le> sint (base_backoff_ms p)" and "sint (base_backoff_ms p) \<le> sint (max_backoff_ms p)"
    and "unat m \<le> unat n"
  shows "sint (backoff_ms p n) =
      min (sint (max_backoff_ms p)) (sint (base_backoff_ms p) * 2 ^ min (unat n - 1) 62) \<and>
    sint (base_backoff_ms p) \<le> sint (backoff_ms p n) \<and>
    sint (backoff_ms p n) \<le> sint (max_backoff_ms p) \<and>
    sint (backoff_ms p m) \<le> sint (backoff_ms p n)"
proof -
  have "sint (backoff_ms p n) =
      min (sint (max_backoff_ms p)) (sint (base_backoff_ms p) * 2 ^ min (unat n - 1) 62)"
    using assms(1) by (simp add: sint_backoff backoff_spec_def)
  moreover have "sint (backoff_ms p m) \<le> sint (backoff_ms p n)"
    using assms by (simp add: sint_backoff backoff_spec_mono)
  ultimately show ?thesis
    using assms backoff_spec_range [of "sint (base_backoff_ms p)" "sint (max_backoff_ms p)" "unat n"]
    by (simp add: sint_backoff)
qed

text \<open>Retry is live: on valid input with the breaker closed and the retry conditions met, the
  planner does retry once the longest backoff has passed since the last attempt.\<close>

theorem retry_eventually_allowed:
  assumes "valid_recovery_input p f" and "circuit_closed f" and "retry_conditions p f"
    and "sint (last_attempt_at_ms f) + sint (max_backoff_ms p) \<le> sint (now_ms f)"
  shows "\<exists>t. plan_objective_recovery p f = Inr (RetrySameEffect t)"
proof -
  have "backoff_spec (sint (base_backoff_ms p)) (sint (max_backoff_ms p))
      (unat (attempts_started f)) \<le> sint (max_backoff_ms p)"
    by (simp add: backoff_spec_def)
  with assms(4) have "not_before p f \<le> sint (now_ms f)"
    by (simp add: not_before_def min.coboundedI2)
  then show ?thesis
    using assms(1-3) sint_not_before [OF assms(1)] by (auto simp: plan_retry_iff)
qed

subsection \<open>Witnesses\<close>

text \<open>The fixture of the source's unit tests.\<close>

definition sample_policy :: RecoveryPolicy where
  "sample_policy = \<lparr>max_attempts = 4, max_elapsed_ms = 60000, base_backoff_ms = 1000,
     max_backoff_ms = 8000\<rparr>"

definition sample_facts :: ObjectiveRecoveryFacts where
  "sample_facts = \<lparr>scope = ObjectiveRetryWithinOwnerEnvelope, attempts_started = 1,
     first_attempt_at_ms = 1000, last_attempt_at_ms = 1000, now_ms = 20000,
     technical_resources_available = True, circuit_open_until_ms = None,
     provider_error_class = Transient, retry_safety = PreInvocationFailure,
     operation_reversible = True, declared_safe_boundary_reached = True,
     replan_available_within_original_authority = True,
     original_intent_and_authority_unchanged = True, meaningful_outcome_exists = False,
     user_judgment_useful = True, external_progress_possible = False\<rparr>"

lemma no_autonomous_recovery_witness:
  "plan_objective_recovery sample_policy (sample_facts\<lparr>retry_safety := OutcomeUnknown\<rparr>) = Inr WaitingForUser
   \<and> WaitingForUser \<in> {WaitingExternal, WaitingForUser, PartiallyCompleted, Failed}"
proof -
  have eq: "plan_objective_recovery sample_policy (sample_facts\<lparr>retry_safety := OutcomeUnknown\<rparr>)
      = Inr WaitingForUser"
    by (simp add: plan_objective_recovery_def sample_policy_def sample_facts_def
        recovery_validate_def exhausted_def)
  then show ?thesis using no_autonomous_recovery [OF _ eq] by simp
qed

lemma backoff_exponential_capped_witness:
  "sint (backoff_ms sample_policy 3) = 4000 \<and> sint (backoff_ms sample_policy 3) \<le> 8000"
  using backoff_exponential_capped [of sample_policy 1 3] by (simp add: sample_policy_def)

lemma retry_eventually_allowed_witness:
  "\<exists>t. plan_objective_recovery sample_policy sample_facts = Inr (RetrySameEffect t)"
  by (rule retry_eventually_allowed)
    (simp_all add: valid_recovery_input_def circuit_closed_def retry_conditions_def
      sample_policy_def sample_facts_def)

end
