(* ===== verification/Externals.thy ===== *)
theory Externals
  imports Prelude
begin

text \<open>
  What the modelled crates use of code that is not in the repository: SHA-256 (\<open>sha2\<close>),
  Unicode NFC (\<open>unicode_normalization\<close>) and the JSON library (\<open>serde_json\<close>). They are the
  fields of one record that every definition using them takes as its first argument; nothing
  is assumed of them here. Also the decimal rendering of Rust's standard library.
\<close>

text \<open>\<open>serde_json::Value\<close>; a number is kept as its text.\<close>

datatype json =
    JNull | JBool bool | JNumber string | JString string
  | JArray "json list" | JObject "(string \<times> json) list"

record externals =
  sha256 :: "bytes \<Rightarrow> bytes"
  nfc :: "string \<Rightarrow> string"
  json_from_str :: "bytes \<Rightarrow> json option"
  json_to_string :: "json \<Rightarrow> string"

definition json_str :: "externals \<Rightarrow> string \<Rightarrow> string" where
  "json_str X s = json_to_string X (JString s)"

text \<open>The textual SHA-256 of the code, \<open>format!("{:x}", Sha256::digest(..))\<close>.\<close>

definition sha256_hex :: "externals \<Rightarrow> bytes \<Rightarrow> string" where
  "sha256_hex X bs = hex_encode (sha256 X bs)"

lemma sha256_hex_eq_iff [simp]: "sha256_hex X a = sha256_hex X b \<longleftrightarrow> sha256 X a = sha256 X b"
  by (simp add: sha256_hex_def hex_encode_inj)

text \<open>The fact the code relies on: the two inputs at hand do not collide.\<close>

definition no_collision :: "externals \<Rightarrow> bytes \<Rightarrow> bytes \<Rightarrow> bool" where
  "no_collision X a b \<longleftrightarrow> (sha256 X a = sha256 X b \<longrightarrow> a = b)"

lemma no_collisionD: "no_collision X a b \<Longrightarrow> sha256 X a = sha256 X b \<Longrightarrow> a = b"
  by (simp add: no_collision_def)

text \<open>Documented of \<open>serde_json\<close>: blank text is not a JSON document.\<close>

definition rejects_blank :: "externals \<Rightarrow> bool" where
  "rejects_blank X \<longleftrightarrow> (\<forall>s. blank s \<longrightarrow> json_from_str X s = None)"

text \<open>A concrete instance, on which the hypotheses about third-party code are discharged: the
  digest is the identity, and every text that is not blank is read as a JSON string.\<close>

fun raw_json :: "json \<Rightarrow> string" where
  "raw_json JNull = ''null''"
| "raw_json (JBool b) = (if b then ''true'' else ''false'')"
| "raw_json (JNumber n) = n"
| "raw_json (JString s) = s"
| "raw_json (JArray js) = ''['' @ concat (map raw_json js) @ '']''"
| "raw_json (JObject ms) = ''{'' @ concat (map (\<lambda>(k, v). k @ raw_json v) ms) @ ''}''"

definition raw_externals :: externals where
  "raw_externals = \<lparr>
     sha256 = (\<lambda>bs. bs),
     nfc = (\<lambda>s. s),
     json_from_str = (\<lambda>s. if blank s then None else if s = ''{}'' then Some (JObject []) else Some (JString s)),
     json_to_string = raw_json\<rparr>"

lemma rejects_blank_raw [simp]: "rejects_blank raw_externals"
  by (simp add: rejects_blank_def raw_externals_def)

lemma no_collision_raw [simp]: "no_collision raw_externals a b"
  by (simp add: no_collision_def raw_externals_def)

subsection \<open>Decimal rendering\<close>

fun show_nat :: "nat \<Rightarrow> string" where
  "show_nat n = (if n < 10 then [char_of (48 + n)] else show_nat (n div 10) @ [char_of (48 + n mod 10)])"

declare show_nat.simps [simp del]

definition show_int :: "int \<Rightarrow> string" where
  "show_int i = (if i < 0 then CHR ''-'' # show_nat (nat (- i)) else show_nat (nat i))"

lemma show_nat_nonempty [simp]: "show_nat n \<noteq> []"
  by (subst show_nat.simps) simp

definition read_nat :: "string \<Rightarrow> nat" where
  "read_nat s = foldl (\<lambda>a c. 10 * a + (of_char c - 48)) 0 s"

lemma read_show_nat [simp]: "read_nat (show_nat n) = n"
proof (induction n rule: show_nat.induct)
  case (1 n)
  show ?case
  proof (cases "n < 10")
    case True
    then show ?thesis by (subst show_nat.simps) (simp add: read_nat_def)
  next
    case False
    with 1 have "read_nat (show_nat (n div 10)) = n div 10" by simp
    then have "foldl (\<lambda>a c. 10 * a + (of_char c - 48)) 0 (show_nat (n div 10)) = n div 10"
      by (simp add: read_nat_def)
    with False show ?thesis by (subst show_nat.simps) (simp add: read_nat_def)
  qed
qed

lemma show_nat_inj [simp]: "show_nat m = show_nat n \<longleftrightarrow> m = n"
  by (metis read_show_nat)

lemma is_ascii_digit_char_of: "d < (10::nat) \<Longrightarrow> is_ascii_digit (char_of (48 + d))"
  by (simp add: is_ascii_digit_def)

lemma show_nat_digits: "list_all is_ascii_digit (show_nat n)"
proof (induction n rule: show_nat.induct)
  case (1 n)
  show ?case
  proof (cases "n < 10")
    case True
    then show ?thesis by (subst show_nat.simps) (simp add: is_ascii_digit_char_of)
  next
    case False
    with 1 have "list_all is_ascii_digit (show_nat (n div 10))" by simp
    with False show ?thesis by (subst show_nat.simps) (simp add: is_ascii_digit_char_of)
  qed
qed

end
