(* ===== verification/Framing.thy ===== *)
theory Framing
  imports Externals
begin

text \<open>
  Length-prefixed framing. Three components put byte strings behind a big-endian length: the
  digest preimages of the owner authority and the danger-admission signature use eight bytes,
  the recorder's journal and wire protocol four. The interface they share says that a frame
  can be cancelled from the front of a byte string; its consequence, proved once, is that a
  sequence of frames determines its fields.
\<close>

definition header_frame :: "nat \<Rightarrow> bytes \<Rightarrow> bytes" where
  "header_frame w v = be_bytes w (length v) @ v"

lemma header_frame_cancel:
  assumes "length a < 256 ^ w" and "length b < 256 ^ w"
  shows "header_frame w a @ x = header_frame w b @ y \<longleftrightarrow> a = b \<and> x = y"
proof
  assume eq: "header_frame w a @ x = header_frame w b @ y"
  then have "be_bytes w (length a) = be_bytes w (length b)" and r: "a @ x = b @ y"
    by (simp_all add: header_frame_def)
  with assms have "length a = length b" by (simp add: be_bytes_inj)
  with r show "a = b \<and> x = y" by simp
qed simp

text \<open>A field that fits the \<open>u64\<close> length; longer ones cannot be in memory.\<close>

abbreviation fits :: "bytes \<Rightarrow> bool" where
  "fits v \<equiv> length v < 256 ^ 8"

locale byte_framing =
  fixes frame :: "bytes \<Rightarrow> bytes"
    and limit :: nat
  assumes frame_cancel:
      "length a < limit \<Longrightarrow> length b < limit \<Longrightarrow> frame a @ x = frame b @ y \<longleftrightarrow> a = b \<and> x = y"
    and frame_nonempty: "frame a \<noteq> []"
begin

lemma frame_inj: "length a < limit \<Longrightarrow> length b < limit \<Longrightarrow> frame a = frame b \<longleftrightarrow> a = b"
  using frame_cancel [of a b "[]" "[]"] by simp

lemma frames_cancel:
  assumes "length as = length bs"
    and "\<And>a. a \<in> set as \<union> set bs \<Longrightarrow> length a < limit"
  shows "concat (map frame as) @ x = concat (map frame bs) @ y \<longleftrightarrow> as = bs \<and> x = y"
  using assms
proof (induction as bs rule: list_induct2)
  case Nil
  then show ?case by simp
next
  case (Cons a as b bs)
  then show ?case by (auto simp: frame_cancel)
qed

lemma frames_inj:
  assumes "\<And>a. a \<in> set as \<union> set bs \<Longrightarrow> length a < limit"
  shows "concat (map frame as) = concat (map frame bs) \<longleftrightarrow> as = bs"
  using assms
proof (induction as arbitrary: bs)
  case Nil
  then show ?case by (cases bs) (simp_all add: frame_nonempty)
next
  case (Cons a as)
  show ?case
  proof (cases bs)
    case Nil
    then show ?thesis by (simp add: frame_nonempty)
  next
    case (Cons b bs')
    with Cons.prems Cons.IH [of bs'] show ?thesis by (auto simp: frame_cancel)
  qed
qed

end

lemma header_framing: "0 < w \<Longrightarrow> byte_framing (header_frame w) (256 ^ w)"
  by (rule byte_framing.intro, rule header_frame_cancel)
     (auto simp: header_frame_def simp flip: length_0_conv)

definition short_option :: "nat \<Rightarrow> bytes option \<Rightarrow> bool" where
  "short_option n v \<longleftrightarrow> pred_option (\<lambda>a. length a < n) v"

lemma short_option_simps [simp]:
  "short_option n None" "short_option n (Some a) \<longleftrightarrow> length a < n"
  by (simp_all add: short_option_def)

text \<open>An optional field is a presence byte and, when present, its frame.\<close>

locale optional_framing = byte_framing +
  fixes opt_frame :: "bytes option \<Rightarrow> bytes"
  assumes opt_None: "opt_frame None = [char_of (0::nat)]"
    and opt_Some: "opt_frame (Some a) = char_of (1::nat) # frame a"
begin

lemma opt_cancel:
  "short_option limit a \<Longrightarrow> short_option limit b \<Longrightarrow> opt_frame a @ x = opt_frame b @ y \<longleftrightarrow> a = b \<and> x = y"
  by (cases a; cases b)
     (simp_all add: opt_None opt_Some frame_cancel)

lemma opt_inj:
  "short_option limit a \<Longrightarrow> short_option limit b \<Longrightarrow> opt_frame a = opt_frame b \<longleftrightarrow> a = b"
  using opt_cancel [of a b "[]" "[]"] by simp

end

subsection \<open>Fixed-width fields\<close>

text \<open>\<open>i64::to_be_bytes\<close> and \<open>u64::to_be_bytes\<close>.\<close>

definition word_bytes :: "64 word \<Rightarrow> bytes" where
  "word_bytes v = be_bytes 8 (unat v)"

lemma unat_less_256_8: "unat (v :: 64 word) < 256 ^ 8"
  using unsigned_less [of v] by simp

lemma length_word_bytes [simp]: "length (word_bytes v) = 8"
  by (simp add: word_bytes_def)

lemma word_bytes_inj [simp]: "word_bytes v = word_bytes w \<longleftrightarrow> v = w"
  using unat_less_256_8 [of v] unat_less_256_8 [of w]
  by (simp add: word_bytes_def be_bytes_inj word_unat_eq_iff del: power_numeral)

lemma word_bytes_cancel [simp]: "word_bytes v @ x = word_bytes w @ y \<longleftrightarrow> v = w \<and> x = y"
  by simp

definition opt_word_bytes :: "64 word option \<Rightarrow> bytes" where
  "opt_word_bytes v = (case v of
     None \<Rightarrow> [char_of (0::nat)] | Some w \<Rightarrow> char_of (1::nat) # word_bytes w)"

lemma opt_word_bytes_cancel [simp]:
  "opt_word_bytes v @ x = opt_word_bytes w @ y \<longleftrightarrow> v = w \<and> x = y"
  by (simp add: opt_word_bytes_def split: option.split)

lemma opt_word_bytes_inj [simp]: "opt_word_bytes v = opt_word_bytes w \<longleftrightarrow> v = w"
  using opt_word_bytes_cancel [of v "[]" w "[]"] by simp

end
