(* ===== verification/Actor.thy ===== *)
theory Actor
  imports Framing
begin

text \<open>
  Actor assurance and owner authority of \<^verbatim>\<open>crates/carsinos-core/src/execass_actor.rs\<close>:
  which server observations make a verified human, which of them may submit owner intent or
  resolve a decision, and the minting of an owner authority whose provenance identifier is a
  digest of everything it binds. The two digest functions of
  \<^verbatim>\<open>crates/carsinos-protocol/src/execass.rs\<close> it calls are here too. Record fields carry a
  prefix where two structures of the code share a field name.
\<close>

subsection \<open>Text checks\<close>

text \<open>\<open>char::is_control\<close> on UTF-8: the bytes below 32, 127, and \<open>C2 80\<close> to \<open>C2 9F\<close>.\<close>

fun has_control :: "string \<Rightarrow> bool" where
  "has_control [] \<longleftrightarrow> False"
| "has_control (c # cs) \<longleftrightarrow>
     of_char c < (32::nat) \<or> of_char c = (127::nat)
     \<or> of_char c = (194::nat) \<and> (\<exists>d ds. cs = d # ds \<and> (128::nat) \<le> of_char d \<and> of_char d \<le> (159::nat))
     \<or> has_control cs"

definition all_present :: "string list \<Rightarrow> bool" where
  "all_present values \<longleftrightarrow> list_all (\<lambda>value. \<not> blank value) values"

definition all_exact_present :: "string list \<Rightarrow> bool" where
  "all_exact_present values \<longleftrightarrow>
     list_all (\<lambda>value. value \<noteq> [] \<and> trim value = value \<and> \<not> has_control value) values"

definition is_lower_hex_digest :: "string \<Rightarrow> bool" where
  "is_lower_hex_digest value \<longleftrightarrow> length value = 64 \<and> list_all is_lower_hex_digit value"

lemma all_exact_present_imp: "all_exact_present vs \<Longrightarrow> all_present vs"
  by (auto simp: all_exact_present_def all_present_def list_all_iff blank_def)

lemma visible_no_control: "list_all visible s \<Longrightarrow> \<not> has_control s"
  by (induction s) (auto simp: visible_def)

lemma all_exact_present_visible:
  "list_all (\<lambda>s. s \<noteq> [] \<and> list_all visible s) vs \<Longrightarrow> all_exact_present vs"
  by (auto simp: all_exact_present_def list_all_iff trim_visible visible_no_control)

subsection \<open>Evidence from authentication code\<close>

definition REMOTE_OWNER_EVIDENCE_MAX_AGE_MS :: i64 where
  "REMOTE_OWNER_EVIDENCE_MAX_AGE_MS = 60000"

definition REMOTE_OWNER_EVIDENCE_MAX_FUTURE_SKEW_MS :: i64 where
  "REMOTE_OWNER_EVIDENCE_MAX_FUTURE_SKEW_MS = 5000"

datatype ActorType = HumanLocal | HumanRemote | Runtime | Connector | Worker | Model

record CallerActorClaims =
  claimed_actor_type :: "string option"
  claimed_actor_id :: "string option"
  operator_header :: "string option"
  peer_id :: "string option"
  confirmation_text :: "string option"

record LocalInteractiveEvidence =
  li_authenticated_client_id :: string
  li_authenticated_ingress :: string
  li_channel_assurance :: string
  li_request_correlation_id :: string
  li_source_message_id :: "string option"
  interactive_owner_verified :: bool

record RemoteOwnerEvidence =
  ro_adapter_id :: string
  adapter_authenticated :: bool
  ro_allowlisted_provider_account_id :: string
  ro_observed_provider_account_id :: string
  ro_authenticated_ingress :: string
  ro_channel_assurance :: string
  ro_source_message_id :: string
  ro_request_correlation_id :: string
  ro_callback_fresh :: bool

record AuthenticatedLocalOwnerEvidence =
  al_authenticated_client_id :: string
  al_authenticated_ingress :: string
  al_channel_assurance :: string
  al_request_correlation_id :: string

record AuthenticatedRemoteOwnerEvidence =
  ar_adapter_id :: string
  ar_allowlisted_provider_account_id :: string
  ar_observed_provider_account_id :: string
  ar_authenticated_ingress :: string
  ar_channel_assurance :: string
  ar_source_message_id :: string
  ar_provider_event_id :: string
  ar_request_correlation_id :: string
  ar_provider_event_observed_at_ms :: i64
  ar_server_verified_at_ms :: i64

datatype ActorEvidenceError =
  InvalidField | RemoteAccountMismatch | RemoteEvidenceOutsideFreshnessWindow

text \<open>The two constructors receive the structure they are about to return.\<close>

definition from_verified_native_hmac ::
    "AuthenticatedLocalOwnerEvidence \<Rightarrow> ActorEvidenceError + AuthenticatedLocalOwnerEvidence" where
  "from_verified_native_hmac evidence =
     (if \<not> all_exact_present
           [al_authenticated_client_id evidence, al_authenticated_ingress evidence,
            al_channel_assurance evidence, al_request_correlation_id evidence]
      then Inl InvalidField else Inr evidence)"

definition from_authenticated_provider_event ::
    "AuthenticatedRemoteOwnerEvidence \<Rightarrow> ActorEvidenceError + AuthenticatedRemoteOwnerEvidence" where
  "from_authenticated_provider_event evidence =
     (if \<not> all_exact_present
           [ar_adapter_id evidence, ar_allowlisted_provider_account_id evidence,
            ar_observed_provider_account_id evidence, ar_authenticated_ingress evidence,
            ar_channel_assurance evidence, ar_source_message_id evidence,
            ar_provider_event_id evidence, ar_request_correlation_id evidence]
         \<or> sint (ar_provider_event_observed_at_ms evidence) < 0
         \<or> sint (ar_server_verified_at_ms evidence) < 0
      then Inl InvalidField
      else if ar_allowlisted_provider_account_id evidence \<noteq> ar_observed_provider_account_id evidence
      then Inl RemoteAccountMismatch
      else if sint (i64_saturating_add (ar_server_verified_at_ms evidence)
                      REMOTE_OWNER_EVIDENCE_MAX_FUTURE_SKEW_MS)
                < sint (ar_provider_event_observed_at_ms evidence)
         \<or> sint REMOTE_OWNER_EVIDENCE_MAX_AGE_MS
              < sint (i64_saturating_sub (ar_server_verified_at_ms evidence)
                        (ar_provider_event_observed_at_ms evidence))
      then Inl RemoteEvidenceOutsideFreshnessWindow
      else Inr evidence)"

subsection \<open>Derived assurance\<close>

datatype ServerIngressObservation =
    LocalInteractive LocalInteractiveEvidence
  | RemoteAuthenticated RemoteOwnerEvidence
  | ServiceBearer string
  | Runtime string
  | Connector string
  | Worker string
  | Model string
  | RetrievedContent string
  | ToolOutput string
  | ChildAgent string

datatype VerifiedHumanEvidence =
    Local (authenticated_client_id: string) (local_authenticated_ingress: string)
      (local_channel_assurance: string) (local_request_correlation_id: string)
      (local_source_message_id: "string option")
  | Remote (adapter_id: string) (provider_account_id: string) (remote_authenticated_ingress: string)
      (remote_channel_assurance: string) (remote_source_message_id: string)
      (remote_request_correlation_id: string) (provider_event_id: "string option")
      (provider_event_observed_at_ms: "i64 option") (server_verified_at_ms: "i64 option")

record ActorAssurance =
  actor_type :: ActorType
  credential_identity :: string
  verified_evidence :: "string list"
  may_submit_or_amend_owner_intent :: bool
  may_resolve_human_decision :: bool
  may_mint_confirmation_grant :: bool
  human_evidence :: "VerifiedHumanEvidence option"

definition with_verified_decision :: "ActorAssurance \<Rightarrow> ActorAssurance" where
  "with_verified_decision a =
     a\<lparr>may_resolve_human_decision := True, may_mint_confirmation_grant := True\<rparr>"

definition nonhuman :: "ActorType \<Rightarrow> string \<Rightarrow> string \<Rightarrow> ActorAssurance" where
  "nonhuman t identity evidence =
     \<lparr>actor_type = t, credential_identity = identity, verified_evidence = [evidence],
      may_submit_or_amend_owner_intent = False, may_resolve_human_decision = False,
      may_mint_confirmation_grant = False, human_evidence = None\<rparr>"

definition local_human :: "LocalInteractiveEvidence \<Rightarrow> ActorAssurance" where
  "local_human e =
     \<lparr>actor_type = HumanLocal, credential_identity = li_authenticated_client_id e,
      verified_evidence = [li_authenticated_client_id e, li_request_correlation_id e],
      may_submit_or_amend_owner_intent = True, may_resolve_human_decision = False,
      may_mint_confirmation_grant = False,
      human_evidence = Some (Local (li_authenticated_client_id e) (li_authenticated_ingress e)
        (li_channel_assurance e) (li_request_correlation_id e) (li_source_message_id e))\<rparr>"

definition remote_human :: "RemoteOwnerEvidence \<Rightarrow> ActorAssurance" where
  "remote_human e =
     \<lparr>actor_type = HumanRemote,
      credential_identity = ro_adapter_id e @ '':'' @ ro_observed_provider_account_id e,
      verified_evidence = [ro_adapter_id e, ro_observed_provider_account_id e,
        ro_source_message_id e, ro_request_correlation_id e],
      may_submit_or_amend_owner_intent = True, may_resolve_human_decision = False,
      may_mint_confirmation_grant = False,
      human_evidence = Some (Remote (ro_adapter_id e) (ro_observed_provider_account_id e)
        (ro_authenticated_ingress e) (ro_channel_assurance e) (ro_source_message_id e)
        (ro_request_correlation_id e) None None None)\<rparr>"

fun derive_base_actor_assurance ::
    "ServerIngressObservation \<Rightarrow> CallerActorClaims \<Rightarrow> ActorAssurance" where
  "derive_base_actor_assurance (LocalInteractive e) _ =
     (if interactive_owner_verified e
        \<and> all_present [li_authenticated_client_id e, li_authenticated_ingress e,
             li_channel_assurance e, li_request_correlation_id e]
      then local_human e
      else nonhuman ActorType.Runtime (li_authenticated_client_id e) ''unverified_local_interaction'')"
| "derive_base_actor_assurance (RemoteAuthenticated e) _ =
     (if adapter_authenticated e \<and> ro_callback_fresh e
        \<and> ro_allowlisted_provider_account_id e = ro_observed_provider_account_id e
        \<and> all_present [ro_adapter_id e, ro_allowlisted_provider_account_id e,
             ro_authenticated_ingress e, ro_channel_assurance e, ro_source_message_id e,
             ro_request_correlation_id e]
      then remote_human e
      else nonhuman ActorType.Connector (ro_adapter_id e) ''unverified_remote_callback'')"
| "derive_base_actor_assurance (ServiceBearer credential_id) _ =
     nonhuman ActorType.Runtime credential_id ''service_bearer''"
| "derive_base_actor_assurance (ServerIngressObservation.Runtime runtime_id) _ =
     nonhuman ActorType.Runtime runtime_id ''runtime''"
| "derive_base_actor_assurance (ServerIngressObservation.Connector connector_id) _ =
     nonhuman ActorType.Connector connector_id ''connector''"
| "derive_base_actor_assurance (ServerIngressObservation.Worker worker_id) _ =
     nonhuman ActorType.Worker worker_id ''worker''"
| "derive_base_actor_assurance (ServerIngressObservation.Model model_id) _ =
     nonhuman ActorType.Model model_id ''model''"
| "derive_base_actor_assurance (RetrievedContent source_id) _ =
     nonhuman ActorType.Model source_id ''retrieved_content''"
| "derive_base_actor_assurance (ToolOutput tool_id) _ =
     nonhuman ActorType.Connector tool_id ''tool_output''"
| "derive_base_actor_assurance (ChildAgent child_id) _ =
     nonhuman ActorType.Worker child_id ''child_agent''"

definition derive_local_owner_actor_assurance :: "AuthenticatedLocalOwnerEvidence \<Rightarrow> ActorAssurance" where
  "derive_local_owner_actor_assurance e =
     \<lparr>actor_type = HumanLocal, credential_identity = al_authenticated_client_id e,
      verified_evidence = [al_authenticated_client_id e, al_request_correlation_id e],
      may_submit_or_amend_owner_intent = True, may_resolve_human_decision = False,
      may_mint_confirmation_grant = False,
      human_evidence = Some (Local (al_authenticated_client_id e) (al_authenticated_ingress e)
        (al_channel_assurance e) (al_request_correlation_id e) None)\<rparr>"

definition derive_remote_owner_actor_assurance :: "AuthenticatedRemoteOwnerEvidence \<Rightarrow> ActorAssurance" where
  "derive_remote_owner_actor_assurance e =
     \<lparr>actor_type = HumanRemote,
      credential_identity = ar_adapter_id e @ '':'' @ ar_observed_provider_account_id e,
      verified_evidence = [ar_adapter_id e, ar_observed_provider_account_id e,
        ar_source_message_id e, ar_provider_event_id e, ar_request_correlation_id e],
      may_submit_or_amend_owner_intent = True, may_resolve_human_decision = False,
      may_mint_confirmation_grant = False,
      human_evidence = Some (Remote (ar_adapter_id e) (ar_observed_provider_account_id e)
        (ar_authenticated_ingress e) (ar_channel_assurance e) (ar_source_message_id e)
        (ar_request_correlation_id e) (Some (ar_provider_event_id e))
        (Some (ar_provider_event_observed_at_ms e)) (Some (ar_server_verified_at_ms e)))\<rparr>"

subsection \<open>Decision responses\<close>

datatype DecisionResult = ConfirmAndContinue | Revise | Decline | Stop

record CurrentDecisionBinding =
  cd_decision_id :: string
  cd_decision_revision :: u64
  cd_normalized_intent_digest :: string
  cd_policy_revision :: i64
  cd_canonical_manifest_digest :: string
  cd_selected_logical_action_id :: string
  cd_presented_action_digest :: string
  cd_declared_consequence_digest :: string
  cd_challenge_digest :: string
  cd_expires_at_ms :: i64

record DecisionResponseEvidence =
  dr_decision_id :: string
  dr_decision_revision :: u64
  dr_normalized_intent_digest :: string
  dr_policy_revision :: i64
  dr_canonical_manifest_digest :: string
  dr_selected_logical_action_id :: string
  dr_presented_action_digest :: string
  dr_declared_consequence_digest :: string
  dr_challenge_digest :: string
  dr_decision_result :: DecisionResult
  dr_observed_at_ms :: i64
  dr_request_correlation_id :: string
  dr_source_message_id :: "string option"
  dr_callback_fresh :: bool

datatype DecisionAssuranceFailure =
    NonHumanActor | ExpiredChallenge | ReplayedCallback | DecisionMismatch
  | DecisionRevisionMismatch | NormalizedIntentMismatch | PolicyRevisionMismatch
  | CanonicalManifestMismatch | SelectedLogicalActionMismatch | PresentedActionMismatch
  | DeclaredConsequenceMismatch | ChallengeMismatch | CorrelationMismatch | SourceMessageMismatch

record DecisionActorAssurance =
  da_actor :: ActorAssurance
  da_failure :: "DecisionAssuranceFailure option"

fun ingress_failure ::
    "ServerIngressObservation \<Rightarrow> DecisionResponseEvidence \<Rightarrow> DecisionAssuranceFailure option" where
  "ingress_failure (LocalInteractive evidence) response =
     (if dr_request_correlation_id response \<noteq> li_request_correlation_id evidence
      then Some CorrelationMismatch
      else if dr_source_message_id response \<noteq> None then Some SourceMessageMismatch
      else None)"
| "ingress_failure (RemoteAuthenticated evidence) response =
     (if dr_request_correlation_id response \<noteq> ro_request_correlation_id evidence
      then Some CorrelationMismatch
      else if dr_source_message_id response \<noteq> Some (ro_source_message_id evidence)
      then Some SourceMessageMismatch
      else None)"
| "ingress_failure _ response = Some NonHumanActor"

definition decision_failure ::
    "ServerIngressObservation \<Rightarrow> ActorAssurance \<Rightarrow> CurrentDecisionBinding \<Rightarrow> DecisionResponseEvidence
     \<Rightarrow> DecisionAssuranceFailure option" where
  "decision_failure observation actor current response =
     (if actor_type actor \<notin> {HumanLocal, HumanRemote} then Some NonHumanActor
      else if sint (cd_expires_at_ms current) \<le> sint (dr_observed_at_ms response)
      then Some ExpiredChallenge
      else if \<not> dr_callback_fresh response then Some ReplayedCallback
      else if dr_decision_id response \<noteq> cd_decision_id current then Some DecisionMismatch
      else if dr_decision_revision response \<noteq> cd_decision_revision current
      then Some DecisionRevisionMismatch
      else if dr_normalized_intent_digest response \<noteq> cd_normalized_intent_digest current
      then Some NormalizedIntentMismatch
      else if dr_policy_revision response \<noteq> cd_policy_revision current
      then Some PolicyRevisionMismatch
      else if dr_canonical_manifest_digest response \<noteq> cd_canonical_manifest_digest current
      then Some CanonicalManifestMismatch
      else if dr_selected_logical_action_id response \<noteq> cd_selected_logical_action_id current
      then Some SelectedLogicalActionMismatch
      else if dr_presented_action_digest response \<noteq> cd_presented_action_digest current
      then Some PresentedActionMismatch
      else if dr_declared_consequence_digest response \<noteq> cd_declared_consequence_digest current
      then Some DeclaredConsequenceMismatch
      else if dr_challenge_digest response \<noteq> cd_challenge_digest current
      then Some ChallengeMismatch
      else ingress_failure observation response)"

definition derive_decision_actor_assurance ::
    "ServerIngressObservation \<Rightarrow> CallerActorClaims \<Rightarrow> CurrentDecisionBinding \<Rightarrow> DecisionResponseEvidence
     \<Rightarrow> DecisionActorAssurance" where
  "derive_decision_actor_assurance observation claims current response =
     (let actor = derive_base_actor_assurance observation claims;
          failure = decision_failure observation actor current response
      in \<lparr>da_actor = (if failure = None then with_verified_decision actor else actor),
          da_failure = failure\<rparr>)"

definition is_verified_owner_resolution :: "DecisionActorAssurance \<Rightarrow> bool" where
  "is_verified_owner_resolution d \<longleftrightarrow>
     da_failure d = None \<and> may_resolve_human_decision (da_actor d)
     \<and> may_mint_confirmation_grant (da_actor d)"

subsection \<open>Lemmas on assurance\<close>

text \<open>What the code calls a verified human, from the observation alone.\<close>

definition verified_owner :: "ServerIngressObservation \<Rightarrow> bool" where
  "verified_owner obs \<longleftrightarrow>
     (case obs of
        LocalInteractive e \<Rightarrow> interactive_owner_verified e
          \<and> \<not> blank (li_authenticated_client_id e) \<and> \<not> blank (li_authenticated_ingress e)
          \<and> \<not> blank (li_channel_assurance e) \<and> \<not> blank (li_request_correlation_id e)
      | RemoteAuthenticated e \<Rightarrow> adapter_authenticated e \<and> ro_callback_fresh e
          \<and> ro_observed_provider_account_id e = ro_allowlisted_provider_account_id e
          \<and> \<not> blank (ro_adapter_id e) \<and> \<not> blank (ro_allowlisted_provider_account_id e)
          \<and> \<not> blank (ro_authenticated_ingress e) \<and> \<not> blank (ro_channel_assurance e)
          \<and> \<not> blank (ro_source_message_id e) \<and> \<not> blank (ro_request_correlation_id e)
      | _ \<Rightarrow> False)"

lemmas assurance_defs = nonhuman_def local_human_def remote_human_def with_verified_decision_def

lemma base_assurance_flags:
  "may_submit_or_amend_owner_intent (derive_base_actor_assurance obs claims) \<longleftrightarrow> verified_owner obs"
  "human_evidence (derive_base_actor_assurance obs claims) \<noteq> None \<longleftrightarrow> verified_owner obs"
  "actor_type (derive_base_actor_assurance obs claims) \<in> {HumanLocal, HumanRemote}
     \<longleftrightarrow> verified_owner obs"
  "\<not> may_resolve_human_decision (derive_base_actor_assurance obs claims)"
  "\<not> may_mint_confirmation_grant (derive_base_actor_assurance obs claims)"
  by (cases obs; auto simp: assurance_defs verified_owner_def all_present_def)+

lemma base_assurance_claims:
  "derive_base_actor_assurance obs claims = derive_base_actor_assurance obs claims'"
  by (cases obs) simp_all

lemma decision_failure_None:
  "decision_failure obs actor current response = None \<longleftrightarrow>
     actor_type actor \<in> {HumanLocal, HumanRemote}
     \<and> sint (dr_observed_at_ms response) < sint (cd_expires_at_ms current)
     \<and> dr_callback_fresh response
     \<and> dr_decision_id response = cd_decision_id current
     \<and> dr_decision_revision response = cd_decision_revision current
     \<and> dr_normalized_intent_digest response = cd_normalized_intent_digest current
     \<and> dr_policy_revision response = cd_policy_revision current
     \<and> dr_canonical_manifest_digest response = cd_canonical_manifest_digest current
     \<and> dr_selected_logical_action_id response = cd_selected_logical_action_id current
     \<and> dr_presented_action_digest response = cd_presented_action_digest current
     \<and> dr_declared_consequence_digest response = cd_declared_consequence_digest current
     \<and> dr_challenge_digest response = cd_challenge_digest current
     \<and> ingress_failure obs response = None"
  by (auto simp: decision_failure_def not_less)

subsection \<open>Owner-authority sources\<close>

record OriginalRequestAuthoritySource =
  or_normalized_intent :: string
  or_instruction_revision :: string
  or_instruction_bytes :: bytes
  or_owner_envelope_revision :: string
  or_canonical_owner_envelope_json :: string
  or_canonical_scope_json :: string
  or_policy_revision :: i64
  or_created_at_ms :: i64
  or_expires_at_ms :: "i64 option"

record OriginalRequestAuthoritySourceBuilder =
  orb_normalized_intent :: "string option"
  orb_instruction_revision :: "string option"
  orb_instruction_bytes :: "bytes option"
  orb_owner_envelope_revision :: "string option"
  orb_canonical_owner_envelope_json :: "string option"
  orb_canonical_scope_json :: "string option"
  orb_policy_revision :: "i64 option"
  orb_created_at_ms :: "i64 option"
  orb_expires_at_ms :: "i64 option"

record FollowUpAmendmentAuthoritySource =
  fu_target_delegation_id :: string
  fu_expected_delegation_revision :: i64
  fu_expected_plan_revision :: i64
  fu_normalized_intent :: string
  fu_instruction_revision :: string
  fu_instruction_bytes :: bytes
  fu_owner_envelope_revision :: string
  fu_canonical_owner_envelope_json :: string
  fu_policy_revision :: i64
  fu_created_at_ms :: i64

record FollowUpAmendmentAuthoritySourceBuilder =
  fub_target_delegation_id :: "string option"
  fub_expected_delegation_revision :: "i64 option"
  fub_expected_plan_revision :: "i64 option"
  fub_normalized_intent :: "string option"
  fub_instruction_revision :: "string option"
  fub_instruction_bytes :: "bytes option"
  fub_owner_envelope_revision :: "string option"
  fub_canonical_owner_envelope_json :: "string option"
  fub_policy_revision :: "i64 option"
  fub_created_at_ms :: "i64 option"

record OwnerAuthoritySourceInput =
  normalized_intent :: string
  instruction_revision :: string
  instruction_bytes :: bytes
  owner_envelope_revision :: string
  owner_envelope_json :: string
  authority_kind :: string
  normalized_scope_json :: string
  policy_revision :: i64
  bound_decision_id :: "string option"
  bound_decision_revision :: "i64 option"
  bound_manifest_bytes :: "bytes option"
  challenge_nonce_bytes :: "bytes option"
  created_at :: i64
  expires_at :: "i64 option"

text \<open>\<open>Panic\<close> is the branch of \<open>expect("validated JSON")\<close>; the other two are the source's.\<close>

datatype OwnerAuthorityBindingError = NonHumanActor | InvalidField | Panic

text \<open>\<open>is_some_and\<close>.\<close>

definition is_some_and :: "('a \<Rightarrow> bool) \<Rightarrow> 'a option \<Rightarrow> bool" where
  "is_some_and P x = (case x of None \<Rightarrow> False | Some y \<Rightarrow> P y)"

lemma is_some_and_simps [simp]:
  "\<not> is_some_and P None" "is_some_and P (Some y) \<longleftrightarrow> P y"
  by (simp_all add: is_some_and_def)

definition is_canonical_json_object :: "externals \<Rightarrow> string \<Rightarrow> bool" where
  "is_canonical_json_object X value =
     (case json_from_str X value of
        Some (JObject members) \<Rightarrow> json_to_string X (JObject members) = value
      | _ \<Rightarrow> False)"

text \<open>The fields the builder has no value for, then the checks of \<open>build\<close>.\<close>

definition original_request_fields ::
    "OriginalRequestAuthoritySourceBuilder \<Rightarrow> OwnerAuthorityBindingError + OriginalRequestAuthoritySource" where
  "original_request_fields b =
     rbind (of_option InvalidField (orb_normalized_intent b)) (\<lambda>intent.
     rbind (of_option InvalidField (orb_instruction_revision b)) (\<lambda>revision.
     rbind (of_option InvalidField (orb_instruction_bytes b)) (\<lambda>instruction.
     rbind (of_option InvalidField (orb_owner_envelope_revision b)) (\<lambda>envelope_revision.
     rbind (of_option InvalidField (orb_canonical_owner_envelope_json b)) (\<lambda>envelope.
     rbind (of_option InvalidField (orb_canonical_scope_json b)) (\<lambda>scope.
     rbind (of_option InvalidField (orb_policy_revision b)) (\<lambda>policy.
     rbind (of_option InvalidField (orb_created_at_ms b)) (\<lambda>created.
       Inr \<lparr>or_normalized_intent = intent, or_instruction_revision = revision,
            or_instruction_bytes = instruction, or_owner_envelope_revision = envelope_revision,
            or_canonical_owner_envelope_json = envelope, or_canonical_scope_json = scope,
            or_policy_revision = policy, or_created_at_ms = created,
            or_expires_at_ms = orb_expires_at_ms b\<rparr>))))))))"

definition build_original_request ::
    "externals \<Rightarrow> OriginalRequestAuthoritySourceBuilder
     \<Rightarrow> OwnerAuthorityBindingError + OriginalRequestAuthoritySource" where
  "build_original_request X b =
     rbind (original_request_fields b) (\<lambda>source.
       if \<not> all_exact_present
              [or_normalized_intent source, or_instruction_revision source,
               or_owner_envelope_revision source]
          \<or> or_instruction_bytes source = []
          \<or> sint (or_policy_revision source) < 0
          \<or> sint (or_created_at_ms source) < 0
          \<or> is_some_and (\<lambda>expires. sint expires \<le> sint (or_created_at_ms source))
              (or_expires_at_ms source)
          \<or> \<not> is_canonical_json_object X (or_canonical_owner_envelope_json source)
          \<or> \<not> is_canonical_json_object X (or_canonical_scope_json source)
       then Inl InvalidField else Inr source)"

definition follow_up_fields ::
    "FollowUpAmendmentAuthoritySourceBuilder
     \<Rightarrow> OwnerAuthorityBindingError + FollowUpAmendmentAuthoritySource" where
  "follow_up_fields b =
     rbind (of_option InvalidField (fub_target_delegation_id b)) (\<lambda>target.
     rbind (of_option InvalidField (fub_expected_delegation_revision b)) (\<lambda>delegation_revision.
     rbind (of_option InvalidField (fub_expected_plan_revision b)) (\<lambda>plan_revision.
     rbind (of_option InvalidField (fub_normalized_intent b)) (\<lambda>intent.
     rbind (of_option InvalidField (fub_instruction_revision b)) (\<lambda>revision.
     rbind (of_option InvalidField (fub_instruction_bytes b)) (\<lambda>instruction.
     rbind (of_option InvalidField (fub_owner_envelope_revision b)) (\<lambda>envelope_revision.
     rbind (of_option InvalidField (fub_canonical_owner_envelope_json b)) (\<lambda>envelope.
     rbind (of_option InvalidField (fub_policy_revision b)) (\<lambda>policy.
     rbind (of_option InvalidField (fub_created_at_ms b)) (\<lambda>created.
       Inr \<lparr>fu_target_delegation_id = target,
            fu_expected_delegation_revision = delegation_revision,
            fu_expected_plan_revision = plan_revision, fu_normalized_intent = intent,
            fu_instruction_revision = revision, fu_instruction_bytes = instruction,
            fu_owner_envelope_revision = envelope_revision,
            fu_canonical_owner_envelope_json = envelope, fu_policy_revision = policy,
            fu_created_at_ms = created\<rparr>))))))))))"

definition build_follow_up ::
    "externals \<Rightarrow> FollowUpAmendmentAuthoritySourceBuilder
     \<Rightarrow> OwnerAuthorityBindingError + FollowUpAmendmentAuthoritySource" where
  "build_follow_up X b =
     rbind (follow_up_fields b) (\<lambda>source.
       if \<not> all_exact_present
              [fu_target_delegation_id source, fu_normalized_intent source,
               fu_instruction_revision source, fu_owner_envelope_revision source]
          \<or> sint (fu_expected_delegation_revision source) \<le> 0
          \<or> sint (fu_expected_plan_revision source) \<le> 0
          \<or> fu_instruction_bytes source = []
          \<or> sint (fu_policy_revision source) \<le> 0
          \<or> sint (fu_created_at_ms source) < 0
          \<or> \<not> is_canonical_json_object X (fu_canonical_owner_envelope_json source)
       then Inl InvalidField else Inr source)"

subsection \<open>Framed bytes and digests\<close>

text \<open>What \<open>push_vec_bytes\<close> appends to its buffer; \<open>push_bytes\<close> feeds the same bytes to the
  hasher. A length is cast to \<open>u64\<close>.\<close>

definition push_vec_bytes :: "bytes \<Rightarrow> bytes" where
  "push_vec_bytes v = be_bytes 8 (length v) @ v"

fun push_optional_vec_bytes :: "bytes option \<Rightarrow> bytes" where
  "push_optional_vec_bytes (Some v) = char_of (1::nat) # push_vec_bytes v"
| "push_optional_vec_bytes None = [char_of (0::nat)]"

text \<open>\<open>match value { Some(value) => { out.push(1); .. to_be_bytes } None => out.push(0) }\<close>.\<close>

fun push_optional_i64 :: "i64 option \<Rightarrow> bytes" where
  "push_optional_i64 (Some v) = char_of (1::nat) # word_bytes v"
| "push_optional_i64 None = [char_of (0::nat)]"

definition digest_hex :: "externals \<Rightarrow> bytes \<Rightarrow> bytes \<Rightarrow> string" where
  "digest_hex X domain bs = sha256_hex X (push_vec_bytes domain @ push_vec_bytes bs)"

definition plain_digest_hex :: "externals \<Rightarrow> bytes \<Rightarrow> string" where
  "plain_digest_hex X bs = sha256_hex X bs"

definition owner_resolution_manifest_digest :: "externals \<Rightarrow> bytes \<Rightarrow> string option" where
  "owner_resolution_manifest_digest X bs = (if bs \<noteq> [] then Some (plain_digest_hex X bs) else None)"

definition owner_resolution_challenge_nonce_digest :: "externals \<Rightarrow> bytes \<Rightarrow> string option" where
  "owner_resolution_challenge_nonce_digest X bs =
     (if bs \<noteq> [] then Some (digest_hex X ''carsinos.execass.challenge_nonce.v1'' bs) else None)"

definition normalized_owner_intent_digest :: "externals \<Rightarrow> string \<Rightarrow> string option" where
  "normalized_owner_intent_digest X intent =
     (if blank intent then None
      else Some (sha256_hex X (concat (map (\<lambda>bs. be_bytes 8 (length bs) @ bs)
             [''carsinos.execass.normalized_intent.v1'', intent]))))"

definition owner_instruction_digest :: "externals \<Rightarrow> bytes \<Rightarrow> string option" where
  "owner_instruction_digest X instruction =
     (if instruction = [] then None
      else Some (sha256_hex X (concat (map (\<lambda>bs. be_bytes 8 (length bs) @ bs)
             [''carsinos.execass.owner_instruction.v1'', instruction]))))"

fun canonical_human_evidence_bytes :: "VerifiedHumanEvidence \<Rightarrow> bytes" where
  "canonical_human_evidence_bytes (Local client ingress assurance correlation message) =
     push_vec_bytes ''local'' @ push_vec_bytes client @ push_vec_bytes ingress
     @ push_vec_bytes assurance @ push_vec_bytes correlation @ push_optional_vec_bytes message"
| "canonical_human_evidence_bytes
       (Remote adapter account ingress assurance message correlation event observed verified) =
     push_vec_bytes ''remote'' @ push_vec_bytes adapter @ push_vec_bytes account
     @ push_vec_bytes ingress @ push_vec_bytes assurance @ push_vec_bytes message
     @ push_vec_bytes correlation @ push_optional_vec_bytes event
     @ push_optional_i64 observed @ push_optional_i64 verified"

text \<open>\<open>authority_provenance_id\<close>: the buffer it builds, and the digest of it.\<close>

definition authority_provenance_bytes ::
    "string \<Rightarrow> string \<Rightarrow> OwnerAuthoritySourceInput \<Rightarrow> string \<Rightarrow> string \<Rightarrow> string
     \<Rightarrow> string option \<Rightarrow> string option \<Rightarrow> bytes" where
  "authority_provenance_bytes evidence_digest intent_digest source instruction_digest envelope_digest
       scope_json manifest_digest nonce_digest =
     push_vec_bytes evidence_digest @ push_vec_bytes intent_digest
     @ push_vec_bytes (instruction_revision source) @ push_vec_bytes instruction_digest
     @ push_vec_bytes (owner_envelope_revision source) @ push_vec_bytes envelope_digest
     @ push_vec_bytes (authority_kind source) @ push_vec_bytes scope_json
     @ word_bytes (policy_revision source) @ push_optional_vec_bytes (bound_decision_id source)
     @ push_optional_i64 (bound_decision_revision source)
     @ push_optional_vec_bytes manifest_digest @ push_optional_vec_bytes nonce_digest
     @ word_bytes (created_at source) @ push_optional_i64 (expires_at source)"

definition authority_provenance_id ::
    "externals \<Rightarrow> string \<Rightarrow> string \<Rightarrow> OwnerAuthoritySourceInput \<Rightarrow> string \<Rightarrow> string \<Rightarrow> string
     \<Rightarrow> string option \<Rightarrow> string option \<Rightarrow> string" where
  "authority_provenance_id X evidence_digest intent_digest source instruction_digest envelope_digest
       scope_json manifest_digest nonce_digest =
     digest_hex X ''carsinos.execass.authority_provenance.v1''
       (authority_provenance_bytes evidence_digest intent_digest source instruction_digest
          envelope_digest scope_json manifest_digest nonce_digest)"

subsection \<open>Minting an owner authority\<close>

record VerifiedOwnerAuthority =
  va_evidence :: VerifiedHumanEvidence
  va_authority_provenance_id :: string
  va_normalized_intent_digest :: string
  va_instruction_revision :: string
  va_instruction_digest :: string
  va_owner_envelope_revision :: string
  va_owner_envelope_digest :: string
  va_authority_kind :: string
  va_normalized_scope_json :: string
  va_policy_revision :: i64
  va_bound_decision_id :: "string option"
  va_bound_decision_revision :: "i64 option"
  va_bound_manifest_digest :: "string option"
  va_bound_challenge_nonce_digest :: "string option"
  va_evidence_digest :: string
  va_created_at :: i64
  va_expires_at :: "i64 option"

definition authority_kinds :: "string list" where
  "authority_kinds =
     [''original_request'', ''decision_resolution'', ''action_specific_owner_amendment'',
      ''policy_snapshot'', ''runtime_settings_snapshot'', ''runtime_safety_state'']"

definition canonical_json :: "externals \<Rightarrow> string \<Rightarrow> string option" where
  "canonical_json X value = map_option (json_to_string X) (json_from_str X value)"

text \<open>The guard of \<open>bind_verified_owner_authority_with_bound_digests\<close>, negated.\<close>

definition admissible_source ::
    "externals \<Rightarrow> ActorAssurance \<Rightarrow> OwnerAuthoritySourceInput \<Rightarrow> string option \<Rightarrow> string option \<Rightarrow> bool" where
  "admissible_source X actor source manifest_digest nonce_digest \<longleftrightarrow>
     \<not> (\<not> may_submit_or_amend_owner_intent actor
       \<or> \<not> all_present
            [normalized_intent source, instruction_revision source, owner_envelope_revision source,
             authority_kind source, normalized_scope_json source, owner_envelope_json source]
       \<or> instruction_bytes source = []
       \<or> authority_kind source \<notin> set authority_kinds
       \<or> sint (policy_revision source) < 0
       \<or> is_some_and (\<lambda>digest. \<not> is_lower_hex_digest digest) manifest_digest
       \<or> is_some_and (\<lambda>digest. \<not> is_lower_hex_digest digest) nonce_digest
       \<or> (manifest_digest \<noteq> None \<and> bound_manifest_bytes source \<noteq> None)
       \<or> (nonce_digest \<noteq> None \<and> challenge_nonce_bytes source \<noteq> None)
       \<or> is_some_and (\<lambda>expires. sint expires \<le> sint (created_at source)) (expires_at source)
       \<or> (bound_decision_id source \<noteq> None) \<noteq> (bound_decision_revision source \<noteq> None)
       \<or> is_some_and (\<lambda>revision. sint revision < 0) (bound_decision_revision source)
       \<or> is_some_and (\<lambda>bs. bs = []) (bound_manifest_bytes source)
       \<or> is_some_and (\<lambda>bs. bs = []) (challenge_nonce_bytes source)
       \<or> json_from_str X (normalized_scope_json source) = None
       \<or> json_from_str X (owner_envelope_json source) = None)"

definition bind_verified_owner_authority_with_bound_digests ::
    "externals \<Rightarrow> ActorAssurance \<Rightarrow> OwnerAuthoritySourceInput \<Rightarrow> string option \<Rightarrow> string option
     \<Rightarrow> OwnerAuthorityBindingError + VerifiedOwnerAuthority" where
  "bind_verified_owner_authority_with_bound_digests X actor source verified_manifest verified_nonce =
     rbind (of_option NonHumanActor (human_evidence actor)) (\<lambda>evidence.
       if \<not> admissible_source X actor source verified_manifest verified_nonce then Inl InvalidField
       else
         rbind (of_option Panic (canonical_json X (normalized_scope_json source))) (\<lambda>scope.
         rbind (of_option Panic (canonical_json X (owner_envelope_json source))) (\<lambda>envelope.
         let evidence_digest = digest_hex X ''carsinos.execass.owner_evidence.v1''
               (canonical_human_evidence_bytes evidence) in
         rbind (of_option InvalidField
                  (normalized_owner_intent_digest X (normalized_intent source))) (\<lambda>intent_digest.
         rbind (of_option InvalidField
                  (owner_instruction_digest X (instruction_bytes source))) (\<lambda>instruction_digest.
         let envelope_digest = digest_hex X ''carsinos.execass.owner_envelope.v1'' envelope;
             manifest_digest = (case verified_manifest of
               Some d \<Rightarrow> Some d
             | None \<Rightarrow> map_option (plain_digest_hex X) (bound_manifest_bytes source));
             nonce_digest = (case verified_nonce of
               Some d \<Rightarrow> Some d
             | None \<Rightarrow> map_option (digest_hex X ''carsinos.execass.challenge_nonce.v1'')
                        (challenge_nonce_bytes source))
         in Inr \<lparr>
              va_evidence = evidence,
              va_authority_provenance_id = authority_provenance_id X evidence_digest intent_digest
                source instruction_digest envelope_digest scope manifest_digest nonce_digest,
              va_normalized_intent_digest = intent_digest,
              va_instruction_revision = instruction_revision source,
              va_instruction_digest = instruction_digest,
              va_owner_envelope_revision = owner_envelope_revision source,
              va_owner_envelope_digest = envelope_digest,
              va_authority_kind = authority_kind source,
              va_normalized_scope_json = scope,
              va_policy_revision = policy_revision source,
              va_bound_decision_id = bound_decision_id source,
              va_bound_decision_revision = bound_decision_revision source,
              va_bound_manifest_digest = manifest_digest,
              va_bound_challenge_nonce_digest = nonce_digest,
              va_evidence_digest = evidence_digest,
              va_created_at = created_at source,
              va_expires_at = expires_at source\<rparr>)))))"

definition bind_verified_owner_authority ::
    "externals \<Rightarrow> ActorAssurance \<Rightarrow> OwnerAuthoritySourceInput
     \<Rightarrow> OwnerAuthorityBindingError + VerifiedOwnerAuthority" where
  "bind_verified_owner_authority X actor source =
     bind_verified_owner_authority_with_bound_digests X actor source None None"

definition bind_original_request_owner_authority ::
    "externals \<Rightarrow> ActorAssurance \<Rightarrow> OriginalRequestAuthoritySource
     \<Rightarrow> OwnerAuthorityBindingError + VerifiedOwnerAuthority" where
  "bind_original_request_owner_authority X actor source =
     bind_verified_owner_authority X actor \<lparr>
       normalized_intent = or_normalized_intent source,
       instruction_revision = or_instruction_revision source,
       instruction_bytes = or_instruction_bytes source,
       owner_envelope_revision = or_owner_envelope_revision source,
       owner_envelope_json = or_canonical_owner_envelope_json source,
       authority_kind = ''original_request'',
       normalized_scope_json = or_canonical_scope_json source,
       policy_revision = or_policy_revision source,
       bound_decision_id = None, bound_decision_revision = None,
       bound_manifest_bytes = None, challenge_nonce_bytes = None,
       created_at = or_created_at_ms source, expires_at = or_expires_at_ms source\<rparr>"

definition bind_follow_up_amendment_owner_authority ::
    "externals \<Rightarrow> ActorAssurance \<Rightarrow> FollowUpAmendmentAuthoritySource
     \<Rightarrow> OwnerAuthorityBindingError + VerifiedOwnerAuthority" where
  "bind_follow_up_amendment_owner_authority X actor source =
     bind_verified_owner_authority X actor \<lparr>
       normalized_intent = fu_normalized_intent source,
       instruction_revision = fu_instruction_revision source,
       instruction_bytes = fu_instruction_bytes source,
       owner_envelope_revision = fu_owner_envelope_revision source,
       owner_envelope_json = fu_canonical_owner_envelope_json source,
       authority_kind = ''action_specific_owner_amendment'',
       normalized_scope_json = json_to_string X (JObject
         [(''delegation_id'', JString (fu_target_delegation_id source)),
          (''delegation_revision'', JNumber (show_int (sint (fu_expected_delegation_revision source)))),
          (''plan_revision'', JNumber (show_int (sint (fu_expected_plan_revision source))))]),
       policy_revision = fu_policy_revision source,
       bound_decision_id = None, bound_decision_revision = None,
       bound_manifest_bytes = None, challenge_nonce_bytes = None,
       created_at = fu_created_at_ms source, expires_at = None\<rparr>"

record DecisionResolutionAuthoritySource =
  rs_normalized_intent :: string
  rs_canonical_manifest_json :: string
  rs_canonical_manifest_digest :: string
  rs_decision_id :: string
  rs_decision_revision :: i64
  rs_policy_revision :: i64
  rs_selected_logical_action_id :: string
  rs_decision_result :: DecisionResult
  rs_request_correlation_id :: string
  rs_idempotency_key :: string
  rs_revision_text_digest :: "string option"
  rs_challenge_response_digest :: "string option"
  rs_challenge_nonce_digest :: string
  rs_created_at_ms :: i64
  rs_expires_at_ms :: i64

text \<open>The \<open>snake_case\<close> names the enum is serialized with.\<close>

fun decision_result_name :: "DecisionResult \<Rightarrow> string" where
  "decision_result_name ConfirmAndContinue = ''confirm_and_continue''"
| "decision_result_name Revise = ''revise''"
| "decision_result_name Decline = ''decline''"
| "decision_result_name Stop = ''stop''"

definition json_opt :: "string option \<Rightarrow> json" where
  "json_opt v = (case v of None \<Rightarrow> JNull | Some s \<Rightarrow> JString s)"

definition exact_resolution :: "DecisionResolutionAuthoritySource \<Rightarrow> json" where
  "exact_resolution source = JObject
     [(''decision_id'', JString (rs_decision_id source)),
      (''decision_revision'', JNumber (show_int (sint (rs_decision_revision source)))),
      (''selected_logical_action_id'', JString (rs_selected_logical_action_id source)),
      (''decision_result'', JString (decision_result_name (rs_decision_result source))),
      (''request_correlation_id'', JString (rs_request_correlation_id source)),
      (''idempotency_key'', JString (rs_idempotency_key source)),
      (''revision_text_digest'', json_opt (rs_revision_text_digest source)),
      (''challenge_response_digest'', json_opt (rs_challenge_response_digest source)),
      (''challenge_nonce_digest'', JString (rs_challenge_nonce_digest source))]"

definition bind_decision_resolution_owner_authority ::
    "externals \<Rightarrow> ActorAssurance \<Rightarrow> DecisionResolutionAuthoritySource
     \<Rightarrow> OwnerAuthorityBindingError + VerifiedOwnerAuthority" where
  "bind_decision_resolution_owner_authority X actor source =
     (if \<not> all_exact_present
            [rs_normalized_intent source, rs_canonical_manifest_json source,
             rs_decision_id source, rs_selected_logical_action_id source,
             rs_request_correlation_id source, rs_idempotency_key source]
         \<or> sint (rs_decision_revision source) \<le> 0
         \<or> sint (rs_policy_revision source) \<le> 0
         \<or> sint (rs_created_at_ms source) \<le> 0
         \<or> sint (rs_expires_at_ms source) \<le> sint (rs_created_at_ms source)
         \<or> \<not> is_lower_hex_digest (rs_canonical_manifest_digest source)
         \<or> \<not> is_lower_hex_digest (rs_challenge_nonce_digest source)
         \<or> json_from_str X (rs_canonical_manifest_json source) = None
         \<or> is_some_and (\<lambda>digest. \<not> is_lower_hex_digest digest) (rs_revision_text_digest source)
         \<or> is_some_and (\<lambda>digest. \<not> is_lower_hex_digest digest) (rs_challenge_response_digest source)
      then Inl InvalidField
      else
        rbind (of_option Panic (canonical_json X (json_to_string X (exact_resolution source))))
          (\<lambda>canonical_resolution.
        bind_verified_owner_authority_with_bound_digests X actor \<lparr>
          normalized_intent = rs_normalized_intent source,
          instruction_revision = ''execass-decision-resolution-v1'',
          instruction_bytes = canonical_resolution,
          owner_envelope_revision = ''execass-decision-resolution-v1'',
          owner_envelope_json = canonical_resolution,
          authority_kind = ''decision_resolution'',
          normalized_scope_json = canonical_resolution,
          policy_revision = rs_policy_revision source,
          bound_decision_id = Some (rs_decision_id source),
          bound_decision_revision = Some (rs_decision_revision source),
          bound_manifest_bytes = None, challenge_nonce_bytes = None,
          created_at = rs_created_at_ms source, expires_at = Some (rs_expires_at_ms source)\<rparr>
          (Some (rs_canonical_manifest_digest source)) (Some (rs_challenge_nonce_digest source))))"

record PolicySnapshotAuthoritySource =
  ps_canonical_mutation_bytes :: bytes
  ps_canonical_safe_snapshot_json :: string
  ps_policy_revision :: i64
  ps_policy_snapshot_digest :: string
  ps_created_at_ms :: i64

record RuntimeSettingsSnapshotAuthoritySource =
  ss_canonical_mutation_bytes :: bytes
  ss_canonical_safe_snapshot_json :: string
  ss_settings_revision :: i64
  ss_settings_digest :: string
  ss_policy_revision :: i64
  ss_created_at_ms :: i64

definition bind_policy_snapshot_owner_authority ::
    "externals \<Rightarrow> ActorAssurance \<Rightarrow> PolicySnapshotAuthoritySource
     \<Rightarrow> OwnerAuthorityBindingError + VerifiedOwnerAuthority" where
  "bind_policy_snapshot_owner_authority X actor source =
     (if sint (ps_policy_revision source) \<le> 0 \<or> length (ps_policy_snapshot_digest source) \<noteq> 64
      then Inl InvalidField
      else bind_verified_owner_authority X actor \<lparr>
        normalized_intent = ''update ExecAss policy snapshot'',
        instruction_revision = ''execass-policy-update-v1'',
        instruction_bytes = ps_canonical_mutation_bytes source,
        owner_envelope_revision = ''execass-policy-snapshot-v1'',
        owner_envelope_json = ps_canonical_safe_snapshot_json source,
        authority_kind = ''policy_snapshot'',
        normalized_scope_json = json_to_string X (JObject
          [(''policy_revision'', JNumber (show_int (sint (ps_policy_revision source)))),
           (''policy_snapshot_digest'', JString (ps_policy_snapshot_digest source))]),
        policy_revision = ps_policy_revision source,
        bound_decision_id = None, bound_decision_revision = None,
        bound_manifest_bytes = None, challenge_nonce_bytes = None,
        created_at = ps_created_at_ms source, expires_at = None\<rparr>)"

definition bind_runtime_settings_snapshot_owner_authority ::
    "externals \<Rightarrow> ActorAssurance \<Rightarrow> RuntimeSettingsSnapshotAuthoritySource
     \<Rightarrow> OwnerAuthorityBindingError + VerifiedOwnerAuthority" where
  "bind_runtime_settings_snapshot_owner_authority X actor source =
     (if sint (ss_settings_revision source) \<le> 0 \<or> sint (ss_policy_revision source) \<le> 0
         \<or> length (ss_settings_digest source) \<noteq> 64
      then Inl InvalidField
      else bind_verified_owner_authority X actor \<lparr>
        normalized_intent = ''update ExecAss runtime settings snapshot'',
        instruction_revision = ''execass-runtime-settings-update-v1'',
        instruction_bytes = ss_canonical_mutation_bytes source,
        owner_envelope_revision = ''execass-runtime-settings-snapshot-v1'',
        owner_envelope_json = ss_canonical_safe_snapshot_json source,
        authority_kind = ''runtime_settings_snapshot'',
        normalized_scope_json = json_to_string X (JObject
          [(''settings_revision'', JNumber (show_int (sint (ss_settings_revision source)))),
           (''settings_digest'', JString (ss_settings_digest source))]),
        policy_revision = ss_policy_revision source,
        bound_decision_id = None, bound_decision_revision = None,
        bound_manifest_bytes = None, challenge_nonce_bytes = None,
        created_at = ss_created_at_ms source, expires_at = None\<rparr>)"

subsection \<open>The framing interface on the code's encoders\<close>

interpretation owner_frames: optional_framing push_vec_bytes "256 ^ 8" push_optional_vec_bytes
proof unfold_locales
  fix a b x y :: bytes
  assume "length a < 256 ^ 8" and "length b < 256 ^ 8"
  then show "push_vec_bytes a @ x = push_vec_bytes b @ y \<longleftrightarrow> a = b \<and> x = y"
    using header_frame_cancel [of a 8 b x y] by (simp add: push_vec_bytes_def header_frame_def)
next
  fix a :: bytes
  show "push_vec_bytes a \<noteq> []"
    using length_be_bytes [of 8 "length a"] by (auto simp: push_vec_bytes_def simp del: length_be_bytes)
qed simp_all

lemma push_optional_i64_eq: "push_optional_i64 v = opt_word_bytes v"
  by (cases v) (simp_all add: opt_word_bytes_def)

abbreviation fits_option :: "bytes option \<Rightarrow> bool" where
  "fits_option v \<equiv> short_option (256 ^ 8) v"

lemmas encoder_cancel =
  owner_frames.frame_cancel owner_frames.frame_inj owner_frames.opt_cancel push_optional_i64_eq

subsection \<open>The encodings determine what they encode\<close>

lemma length_push_vec_bytes [simp]: "length (push_vec_bytes v) = 8 + length v"
  by (simp add: push_vec_bytes_def)

lemma length_push_optional [simp]:
  "length (push_optional_vec_bytes v) = (case v of None \<Rightarrow> 1 | Some b \<Rightarrow> 9 + length b)"
  by (cases v) simp_all

lemma evidence_bytes_inj:
  assumes "fits (canonical_human_evidence_bytes e)" and "fits (canonical_human_evidence_bytes f)"
    and "canonical_human_evidence_bytes e = canonical_human_evidence_bytes f"
  shows "e = f"
proof (cases e; cases f)
  fix a b c d m a' b' c' d' m'
  assume "e = Local a b c d m" "f = Local a' b' c' d' m'"
  with assms show "e = f"
    by (cases m; cases m') (simp_all add: encoder_cancel)
next
  fix a b c d g m p v w a' b' c' d' g' m' p' v' w'
  assume "e = Remote a b c d g m p v w" "f = Remote a' b' c' d' g' m' p' v' w'"
  with assms show "e = f"
    by (cases p; cases p') (simp_all add: encoder_cancel)
qed (use assms in \<open>simp_all add: encoder_cancel\<close>)

text \<open>The buffer an authority's identifier is the digest of, in the authority's own fields.\<close>

definition authority_preimage :: "VerifiedOwnerAuthority \<Rightarrow> bytes" where
  "authority_preimage a =
     push_vec_bytes (va_evidence_digest a) @ push_vec_bytes (va_normalized_intent_digest a)
     @ push_vec_bytes (va_instruction_revision a) @ push_vec_bytes (va_instruction_digest a)
     @ push_vec_bytes (va_owner_envelope_revision a) @ push_vec_bytes (va_owner_envelope_digest a)
     @ push_vec_bytes (va_authority_kind a) @ push_vec_bytes (va_normalized_scope_json a)
     @ word_bytes (va_policy_revision a) @ push_optional_vec_bytes (va_bound_decision_id a)
     @ push_optional_i64 (va_bound_decision_revision a)
     @ push_optional_vec_bytes (va_bound_manifest_digest a)
     @ push_optional_vec_bytes (va_bound_challenge_nonce_digest a)
     @ word_bytes (va_created_at a) @ push_optional_i64 (va_expires_at a)"

definition framed_digest_input :: "bytes \<Rightarrow> bytes \<Rightarrow> bytes" where
  "framed_digest_input domain bs = push_vec_bytes domain @ push_vec_bytes bs"

abbreviation provenance_input :: "VerifiedOwnerAuthority \<Rightarrow> bytes" where
  "provenance_input a \<equiv>
     framed_digest_input ''carsinos.execass.authority_provenance.v1'' (authority_preimage a)"

abbreviation evidence_input :: "VerifiedOwnerAuthority \<Rightarrow> bytes" where
  "evidence_input a \<equiv> framed_digest_input ''carsinos.execass.owner_evidence.v1''
     (canonical_human_evidence_bytes (va_evidence a))"

lemma digest_hex_eq:
  "fits a \<Longrightarrow> fits b \<Longrightarrow> no_collision X (framed_digest_input d a) (framed_digest_input d b)
   \<Longrightarrow> digest_hex X d a = digest_hex X d b \<longleftrightarrow> a = b"
  by (auto simp: digest_hex_def framed_digest_input_def encoder_cancel dest: no_collisionD)

lemma preimage_fits:
  assumes "fits (authority_preimage a)"
  shows "fits (va_evidence_digest a)" "fits (va_normalized_intent_digest a)"
    "fits (va_instruction_revision a)" "fits (va_instruction_digest a)"
    "fits (va_owner_envelope_revision a)" "fits (va_owner_envelope_digest a)"
    "fits (va_authority_kind a)" "fits (va_normalized_scope_json a)"
    "fits_option (va_bound_decision_id a)" "fits_option (va_bound_manifest_digest a)"
    "fits_option (va_bound_challenge_nonce_digest a)"
proof -
  let ?f = "\<lambda>v. length (push_optional_vec_bytes v)"
  have opt: "?f v < 256 ^ 8 \<Longrightarrow> fits_option v" for v by (cases v) simp_all
  from assms show "fits (va_evidence_digest a)" "fits (va_normalized_intent_digest a)"
    "fits (va_instruction_revision a)" "fits (va_instruction_digest a)"
    "fits (va_owner_envelope_revision a)" "fits (va_owner_envelope_digest a)"
    "fits (va_authority_kind a)" "fits (va_normalized_scope_json a)"
    by (simp_all add: authority_preimage_def del: length_push_optional)
  show "fits_option (va_bound_decision_id a)" "fits_option (va_bound_manifest_digest a)"
    "fits_option (va_bound_challenge_nonce_digest a)"
    by (rule opt, use assms in \<open>simp add: authority_preimage_def del: length_push_optional\<close>)+
qed

lemma preimage_inj:
  assumes "fits (authority_preimage a)" and "fits (authority_preimage b)"
    and "authority_preimage a = authority_preimage b" and "va_evidence a = va_evidence b"
    and "va_authority_provenance_id a = va_authority_provenance_id b"
  shows "a = b"
proof -
  note fits = preimage_fits [OF assms(1)] preimage_fits [OF assms(2)]
  have "va_evidence_digest a = va_evidence_digest b
      \<and> va_normalized_intent_digest a = va_normalized_intent_digest b
      \<and> va_instruction_revision a = va_instruction_revision b
      \<and> va_instruction_digest a = va_instruction_digest b
      \<and> va_owner_envelope_revision a = va_owner_envelope_revision b
      \<and> va_owner_envelope_digest a = va_owner_envelope_digest b
      \<and> va_authority_kind a = va_authority_kind b
      \<and> va_normalized_scope_json a = va_normalized_scope_json b
      \<and> va_policy_revision a = va_policy_revision b
      \<and> va_bound_decision_id a = va_bound_decision_id b
      \<and> va_bound_decision_revision a = va_bound_decision_revision b
      \<and> va_bound_manifest_digest a = va_bound_manifest_digest b
      \<and> va_bound_challenge_nonce_digest a = va_bound_challenge_nonce_digest b
      \<and> va_created_at a = va_created_at b \<and> va_expires_at a = va_expires_at b"
    using assms(3) unfolding authority_preimage_def
    by (simp only: owner_frames.frame_cancel owner_frames.opt_cancel fits push_optional_i64_eq
        word_bytes_cancel opt_word_bytes_cancel opt_word_bytes_inj)
  with assms(4,5) show ?thesis by simp
qed

subsection \<open>What a successful binding fixes\<close>

lemma bind_digests_Inr:
  assumes "bind_verified_owner_authority_with_bound_digests X actor source m n = Inr a"
  shows "human_evidence actor = Some (va_evidence a)"
    and "may_submit_or_amend_owner_intent actor"
    and "va_authority_provenance_id a =
         digest_hex X ''carsinos.execass.authority_provenance.v1'' (authority_preimage a)"
    and "va_evidence_digest a = digest_hex X ''carsinos.execass.owner_evidence.v1''
         (canonical_human_evidence_bytes (va_evidence a))"
  using assms
  by (auto simp: bind_verified_owner_authority_with_bound_digests_def admissible_source_def
      authority_provenance_id_def authority_provenance_bytes_def authority_preimage_def
      Let_def split: if_splits)

lemma bind_digests_fields:
  assumes "bind_verified_owner_authority_with_bound_digests X actor source m n = Inr a"
  shows "va_authority_kind a = authority_kind source"
    and "va_policy_revision a = policy_revision source"
    and "va_bound_decision_id a = bound_decision_id source"
    and "va_bound_decision_revision a = bound_decision_revision source"
    and "m \<noteq> None \<Longrightarrow> va_bound_manifest_digest a = m"
    and "n \<noteq> None \<Longrightarrow> va_bound_challenge_nonce_digest a = n"
    and "va_created_at a = created_at source" and "va_expires_at a = expires_at source"
    and "canonical_json X (normalized_scope_json source) = Some (va_normalized_scope_json a)"
  using assms
  by (auto simp: bind_verified_owner_authority_with_bound_digests_def Let_def split: if_splits)

lemma bind_digests_nonhuman:
  "bind_verified_owner_authority_with_bound_digests X actor source m n = Inl NonHumanActor
   \<longleftrightarrow> human_evidence actor = None"
  by (cases "human_evidence actor")
     (auto simp: bind_verified_owner_authority_with_bound_digests_def Let_def
        rbind_eq_Inl of_option_def split: if_splits option.splits)

lemma canonical_object_json:
  assumes "is_canonical_json_object X v"
  shows "canonical_json X v = Some v" and "json_from_str X v \<noteq> None"
  using assms by (auto simp: is_canonical_json_object_def canonical_json_def split: option.splits json.splits)

lemma bind_digests_ok:
  assumes "human_evidence actor = Some e" and "admissible_source X actor source m n"
  shows "\<exists>a. bind_verified_owner_authority_with_bound_digests X actor source m n = Inr a"
proof -
  from assms(2) have "json_from_str X (normalized_scope_json source) \<noteq> None"
    "json_from_str X (owner_envelope_json source) \<noteq> None"
    "\<not> blank (normalized_intent source)" "instruction_bytes source \<noteq> []"
    by (auto simp: admissible_source_def all_present_def)
  with assms show ?thesis
    by (auto simp: bind_verified_owner_authority_with_bound_digests_def canonical_json_def
        normalized_owner_intent_digest_def owner_instruction_digest_def Let_def)
qed

lemma i64_const [simp]:
  "sint REMOTE_OWNER_EVIDENCE_MAX_AGE_MS = 60000"
  "sint REMOTE_OWNER_EVIDENCE_MAX_FUTURE_SKEW_MS = 5000"
  by (simp_all add: REMOTE_OWNER_EVIDENCE_MAX_AGE_MS_def REMOTE_OWNER_EVIDENCE_MAX_FUTURE_SKEW_MS_def)

subsection \<open>Properties\<close>

text \<open>An owner authority is minted for a verified owner only. Binding any source, with any
  digests already bound, to the actor derived from an observation fails with
  \<open>NonHumanActor\<close> exactly when the observation is not a verified local interaction or a fresh,
  authenticated remote callback of the allowlisted account; the caller's claims never matter.\<close>

theorem authority_needs_verified_owner:
  "bind_verified_owner_authority_with_bound_digests X (derive_base_actor_assurance obs claims)
     source m n = Inl NonHumanActor \<longleftrightarrow> \<not> verified_owner obs"
  using base_assurance_flags(2) [of obs claims] by (auto simp: bind_digests_nonhuman)

text \<open>The freshness window of remote owner evidence, exact in spite of the saturating 64-bit
  arithmetic: a provider event is accepted exactly when every field is exact text, both times
  are non-negative, the observed account is the allowlisted one, and the event is at most five
  seconds in the future and at most sixty seconds old.\<close>

theorem remote_evidence_window:
  "from_authenticated_provider_event e = Inr e' \<longleftrightarrow>
     e' = e
     \<and> all_exact_present
         [ar_adapter_id e, ar_allowlisted_provider_account_id e, ar_observed_provider_account_id e,
          ar_authenticated_ingress e, ar_channel_assurance e, ar_source_message_id e,
          ar_provider_event_id e, ar_request_correlation_id e]
     \<and> ar_allowlisted_provider_account_id e = ar_observed_provider_account_id e
     \<and> 0 \<le> sint (ar_provider_event_observed_at_ms e) \<and> 0 \<le> sint (ar_server_verified_at_ms e)
     \<and> sint (ar_provider_event_observed_at_ms e) - sint (ar_server_verified_at_ms e) \<le> 5000
     \<and> sint (ar_server_verified_at_ms e) - sint (ar_provider_event_observed_at_ms e) \<le> 60000"
  using sint_i64_bounds [of "ar_provider_event_observed_at_ms e"]
    sint_i64_bounds [of "ar_server_verified_at_ms e"]
  by (auto simp: from_authenticated_provider_event_def sint_saturating i64_max_def i64_min_def)

text \<open>C15: a decision is resolved by the owner, with a confirmation grant, exactly when the
  observation is a verified owner, the response is fresh and arrives before the expiry, every
  bound field of the response is that of the current decision, and the response carries the
  correlation and the source message of the very ingress that was observed.\<close>

theorem owner_resolution_exact:
  "is_verified_owner_resolution (derive_decision_actor_assurance obs claims current response) \<longleftrightarrow>
     verified_owner obs
     \<and> sint (dr_observed_at_ms response) < sint (cd_expires_at_ms current)
     \<and> dr_callback_fresh response
     \<and> dr_decision_id response = cd_decision_id current
     \<and> dr_decision_revision response = cd_decision_revision current
     \<and> dr_normalized_intent_digest response = cd_normalized_intent_digest current
     \<and> dr_policy_revision response = cd_policy_revision current
     \<and> dr_canonical_manifest_digest response = cd_canonical_manifest_digest current
     \<and> dr_selected_logical_action_id response = cd_selected_logical_action_id current
     \<and> dr_presented_action_digest response = cd_presented_action_digest current
     \<and> dr_declared_consequence_digest response = cd_declared_consequence_digest current
     \<and> dr_challenge_digest response = cd_challenge_digest current
     \<and> (case obs of
          LocalInteractive e \<Rightarrow> dr_request_correlation_id response = li_request_correlation_id e
            \<and> dr_source_message_id response = None
        | RemoteAuthenticated e \<Rightarrow> dr_request_correlation_id response = ro_request_correlation_id e
            \<and> dr_source_message_id response = Some (ro_source_message_id e)
        | _ \<Rightarrow> False)"
proof -
  let ?actor = "derive_base_actor_assurance obs claims"
  have "is_verified_owner_resolution (derive_decision_actor_assurance obs claims current response)
      \<longleftrightarrow> decision_failure obs ?actor current response = None"
    by (auto simp: is_verified_owner_resolution_def derive_decision_actor_assurance_def Let_def
        with_verified_decision_def)
  moreover have "ingress_failure obs response = None \<longleftrightarrow>
      (case obs of
          LocalInteractive e \<Rightarrow> dr_request_correlation_id response = li_request_correlation_id e
            \<and> dr_source_message_id response = None
        | RemoteAuthenticated e \<Rightarrow> dr_request_correlation_id response = ro_request_correlation_id e
            \<and> dr_source_message_id response = Some (ro_source_message_id e)
        | _ \<Rightarrow> False)"
    by (cases obs) auto
  ultimately show ?thesis
    by (simp only: decision_failure_None base_assurance_flags(3))
qed

text \<open>C16: the provenance identifier names one authority. Two authorities minted for any actors,
  sources and digests under the same identifier are equal in every field, the human evidence
  included, as long as the digest inputs at hand do not collide; their length prefixes leave
  no two field sequences with the same bytes.\<close>

theorem provenance_id_binds_everything:
  assumes "bind_verified_owner_authority_with_bound_digests X actor source m n = Inr a"
    and "bind_verified_owner_authority_with_bound_digests X actor' source' m' n' = Inr b"
    and "va_authority_provenance_id a = va_authority_provenance_id b"
    and "fits (authority_preimage a)" and "fits (authority_preimage b)"
    and "fits (canonical_human_evidence_bytes (va_evidence a))"
    and "fits (canonical_human_evidence_bytes (va_evidence b))"
    and "no_collision X (provenance_input a) (provenance_input b)"
    and "no_collision X (evidence_input a) (evidence_input b)"
  shows "a = b"
proof -
  note A = bind_digests_Inr [OF assms(1)] and B = bind_digests_Inr [OF assms(2)]
  have pre: "authority_preimage a = authority_preimage b"
    using assms(3) A(3) B(3) digest_hex_eq [OF assms(4,5,8)] by simp
  then have "va_evidence_digest a = va_evidence_digest b"
    using preimage_fits(1) [OF assms(4)] preimage_fits(1) [OF assms(5)]
    by (simp add: authority_preimage_def encoder_cancel)
  then have "canonical_human_evidence_bytes (va_evidence a)
      = canonical_human_evidence_bytes (va_evidence b)"
    using A(4) B(4) digest_hex_eq [OF assms(6,7,9)] by simp
  then have "va_evidence a = va_evidence b"
    by (rule evidence_bytes_inj [OF assms(6,7)])
  with pre assms(3-5) show ?thesis by (intro preimage_inj)
qed

text \<open>What the builder accepts, binding accepts. A validated original request bound to any
  actor with human evidence that may submit intent yields an authority of kind
  \<open>original_request\<close> for that evidence, with exactly the validated scope text, and bound to no
  decision, manifest or challenge.\<close>

theorem original_request_binds:
  assumes "build_original_request X b = Inr source"
    and "human_evidence actor = Some e" and "may_submit_or_amend_owner_intent actor"
    and "rejects_blank X"
  shows "\<exists>a. bind_original_request_owner_authority X actor source = Inr a
      \<and> va_evidence a = e \<and> va_authority_kind a = ''original_request''
      \<and> va_normalized_scope_json a = or_canonical_scope_json source
      \<and> va_bound_decision_id a = None \<and> va_bound_manifest_digest a = None
      \<and> va_bound_challenge_nonce_digest a = None
      \<and> va_created_at a = or_created_at_ms source \<and> va_expires_at a = or_expires_at_ms source"
proof -
  have ok: "is_canonical_json_object X (or_canonical_owner_envelope_json source)"
      "is_canonical_json_object X (or_canonical_scope_json source)"
      "all_present [or_normalized_intent source, or_instruction_revision source,
         or_owner_envelope_revision source]"
      "or_instruction_bytes source \<noteq> []" "0 \<le> sint (or_policy_revision source)"
      "\<not> is_some_and (\<lambda>expires. sint expires \<le> sint (or_created_at_ms source)) (or_expires_at_ms source)"
    using assms(1) by (auto simp: build_original_request_def all_exact_present_imp split: if_splits)
  have nb: "\<not> blank v" if "is_canonical_json_object X v" for v
    using canonical_object_json [OF that] assms(4) by (auto simp: rejects_blank_def)
  show ?thesis
    using assms(2,3) ok canonical_object_json [OF ok(1)] canonical_object_json [OF ok(2)]
      nb [OF ok(1)] nb [OF ok(2)]
    by (auto simp: bind_original_request_owner_authority_def bind_verified_owner_authority_def
        bind_verified_owner_authority_with_bound_digests_def admissible_source_def
        authority_kinds_def all_present_def normalized_owner_intent_digest_def
        owner_instruction_digest_def Let_def)
qed

text \<open>A resolution is bound to its decision. The authority minted from a decision response
  has the kind \<open>decision_resolution\<close>, the decision's identifier and revision, the frozen
  manifest's digest and the challenge digest, expires after its creation, and its scope is the
  canonical text of the exact response.\<close>

theorem decision_authority_bound:
  assumes "bind_decision_resolution_owner_authority X actor source = Inr a"
  shows "human_evidence actor = Some (va_evidence a)
      \<and> va_authority_kind a = ''decision_resolution''
      \<and> va_bound_decision_id a = Some (rs_decision_id source)
      \<and> va_bound_decision_revision a = Some (rs_decision_revision source)
      \<and> 0 < sint (rs_decision_revision source)
      \<and> va_bound_manifest_digest a = Some (rs_canonical_manifest_digest source)
      \<and> va_bound_challenge_nonce_digest a = Some (rs_challenge_nonce_digest source)
      \<and> va_expires_at a = Some (rs_expires_at_ms source)
      \<and> sint (va_created_at a) < sint (rs_expires_at_ms source)
      \<and> rbind (of_option () (canonical_json X (json_to_string X (exact_resolution source))))
          (\<lambda>v. of_option () (canonical_json X v)) = Inr (va_normalized_scope_json a)"
proof -
  from assms obtain v source' where v: "canonical_json X (json_to_string X (exact_resolution source)) = Some v"
    and bind: "bind_verified_owner_authority_with_bound_digests X actor source'
        (Some (rs_canonical_manifest_digest source)) (Some (rs_challenge_nonce_digest source)) = Inr a"
    and src: "authority_kind source' = ''decision_resolution''"
      "bound_decision_id source' = Some (rs_decision_id source)"
      "bound_decision_revision source' = Some (rs_decision_revision source)"
      "created_at source' = rs_created_at_ms source"
      "expires_at source' = Some (rs_expires_at_ms source)" "normalized_scope_json source' = v"
    and pos: "0 < sint (rs_decision_revision source)"
      "sint (rs_created_at_ms source) < sint (rs_expires_at_ms source)"
    by (auto simp: bind_decision_resolution_owner_authority_def split: if_splits)
  show ?thesis
    using bind_digests_Inr(1) [OF bind] bind_digests_fields [OF bind] v src pos by simp
qed

subsection \<open>Witnesses\<close>

definition sample_observation :: ServerIngressObservation where
  "sample_observation = LocalInteractive \<lparr>
     li_authenticated_client_id = ''shell'', li_authenticated_ingress = ''native'',
     li_channel_assurance = ''local'', li_request_correlation_id = ''r1'',
     li_source_message_id = None, interactive_owner_verified = True\<rparr>"

definition sample_actor :: ActorAssurance where
  "sample_actor = derive_base_actor_assurance sample_observation
     \<lparr>claimed_actor_type = None, claimed_actor_id = None, operator_header = None,
      peer_id = None, confirmation_text = None\<rparr>"

definition sample_builder :: OriginalRequestAuthoritySourceBuilder where
  "sample_builder = \<lparr>
     orb_normalized_intent = Some ''send'', orb_instruction_revision = Some ''v1'',
     orb_instruction_bytes = Some ''go'', orb_owner_envelope_revision = Some ''e1'',
     orb_canonical_owner_envelope_json = Some ''{}'', orb_canonical_scope_json = Some ''{}'',
     orb_policy_revision = Some 1, orb_created_at_ms = Some 5, orb_expires_at_ms = Some 9\<rparr>"

definition sample_source :: OriginalRequestAuthoritySource where
  "sample_source = \<lparr>
     or_normalized_intent = ''send'', or_instruction_revision = ''v1'',
     or_instruction_bytes = ''go'', or_owner_envelope_revision = ''e1'',
     or_canonical_owner_envelope_json = ''{}'', or_canonical_scope_json = ''{}'',
     or_policy_revision = 1, or_created_at_ms = 5, or_expires_at_ms = Some 9\<rparr>"

definition sample_resolution :: DecisionResolutionAuthoritySource where
  "sample_resolution = \<lparr>
     rs_normalized_intent = ''send'', rs_canonical_manifest_json = ''{}'',
     rs_canonical_manifest_digest = replicate 64 CHR ''a'', rs_decision_id = ''d1'',
     rs_decision_revision = 1, rs_policy_revision = 1, rs_selected_logical_action_id = ''l1'',
     rs_decision_result = ConfirmAndContinue, rs_request_correlation_id = ''r1'',
     rs_idempotency_key = ''k1'', rs_revision_text_digest = None,
     rs_challenge_response_digest = None,
     rs_challenge_nonce_digest = replicate 64 CHR ''b'', rs_created_at_ms = 5, rs_expires_at_ms = 9\<rparr>"

lemmas sample_defs = sample_observation_def sample_actor_def sample_builder_def sample_source_def
  sample_resolution_def

lemma sample_build: "build_original_request raw_externals sample_builder = Inr sample_source"
proof -
  have "all_exact_present [''send'', ''v1'', ''e1'']"
    by (rule all_exact_present_visible) (simp add: visible_def)
  then show ?thesis
    by (simp add: build_original_request_def original_request_fields_def sample_defs
        is_canonical_json_object_def raw_externals_def)
qed

lemma sample_actor_facts:
  "human_evidence sample_actor = Some (Local ''shell'' ''native'' ''local'' ''r1'' None)"
  "may_submit_or_amend_owner_intent sample_actor"
  by (simp_all add: sample_defs all_present_def local_human_def)

lemma original_request_binds_witness:
  "\<exists>a. bind_original_request_owner_authority raw_externals sample_actor sample_source = Inr a
     \<and> va_evidence a = Local ''shell'' ''native'' ''local'' ''r1'' None
     \<and> va_expires_at a = Some 9"
  using original_request_binds [OF sample_build sample_actor_facts rejects_blank_raw]
  by (auto simp: sample_source_def)

lemma sample_resolution_admissible:
  "\<exists>a. bind_decision_resolution_owner_authority raw_externals sample_actor sample_resolution = Inr a"
proof -
  let ?v = "json_to_string raw_externals (exact_resolution sample_resolution)"
  have v: "\<not> blank ?v" "?v \<noteq> ''{}''" "?v \<noteq> []"
    by (simp_all add: raw_externals_def exact_resolution_def)
  then have canon: "canonical_json raw_externals ?v = Some ?v" "json_from_str raw_externals ?v \<noteq> None"
    by (simp_all add: canonical_json_def) (simp_all add: raw_externals_def)
  have hex: "is_lower_hex_digest (replicate 64 CHR ''a'')" "is_lower_hex_digest (replicate 64 CHR ''b'')"
    by (simp_all add: is_lower_hex_digest_def is_lower_hex_digit_def list_all_iff)
  have "all_exact_present [''send'', ''{}'', ''d1'', ''l1'', ''r1'', ''k1'']"
    by (rule all_exact_present_visible) (simp add: visible_def)
  moreover have "json_from_str raw_externals ''{}'' \<noteq> None"
    by (simp add: raw_externals_def)
  ultimately show ?thesis
    using canon v hex sample_actor_facts
    by (auto simp: bind_decision_resolution_owner_authority_def sample_resolution_def
        intro!: bind_digests_ok simp: admissible_source_def all_present_def authority_kinds_def)
qed

lemma decision_authority_bound_witness:
  "\<exists>a. bind_decision_resolution_owner_authority raw_externals sample_actor sample_resolution = Inr a
     \<and> va_bound_decision_id a = Some ''d1'' \<and> va_expires_at a = Some 9"
proof -
  obtain a where a: "bind_decision_resolution_owner_authority raw_externals sample_actor sample_resolution
      = Inr a"
    using sample_resolution_admissible by blast
  from decision_authority_bound [OF a] a show ?thesis by (auto simp: sample_resolution_def)
qed

definition sample_input :: OwnerAuthoritySourceInput where
  "sample_input = \<lparr>
     normalized_intent = ''send'', instruction_revision = ''v1'', instruction_bytes = ''go'',
     owner_envelope_revision = ''e1'', owner_envelope_json = ''{}'',
     authority_kind = ''runtime_safety_state'', normalized_scope_json = ''{}'',
     policy_revision = 1, bound_decision_id = None, bound_decision_revision = None,
     bound_manifest_bytes = None, challenge_nonce_bytes = None, created_at = 5, expires_at = None\<rparr>"

lemma sample_input_binds:
  "\<exists>a. bind_verified_owner_authority_with_bound_digests raw_externals sample_actor sample_input None None
     = Inr a \<and> fits (authority_preimage a) \<and> fits (canonical_human_evidence_bytes (va_evidence a))"
proof -
  have "admissible_source raw_externals sample_actor sample_input None None"
    using sample_actor_facts
    by (simp add: admissible_source_def sample_input_def all_present_def authority_kinds_def
        raw_externals_def)
  then show ?thesis
    using sample_actor_facts
    by (simp add: bind_verified_owner_authority_with_bound_digests_def authority_preimage_def
        canonical_json_def Let_def sample_input_def normalized_owner_intent_digest_def
        owner_instruction_digest_def raw_externals_def sha256_hex_def digest_hex_def
        authority_provenance_id_def push_optional_i64_eq opt_word_bytes_def del: fun_upd_apply)
qed

lemma provenance_id_binds_everything_witness:
  "\<exists>a. bind_verified_owner_authority_with_bound_digests raw_externals sample_actor sample_input None None
     = Inr a \<and> (\<forall>b. bind_verified_owner_authority_with_bound_digests raw_externals
        (derive_base_actor_assurance sample_observation
          \<lparr>claimed_actor_type = Some ''owner'', claimed_actor_id = None, operator_header = None,
           peer_id = None, confirmation_text = None\<rparr>) sample_input None None = Inr b \<longrightarrow> a = b)"
proof -
  obtain a where a: "bind_verified_owner_authority_with_bound_digests raw_externals sample_actor
      sample_input None None = Inr a" and f: "fits (authority_preimage a)"
      "fits (canonical_human_evidence_bytes (va_evidence a))"
    using sample_input_binds by blast
  have eq: "derive_base_actor_assurance sample_observation c = sample_actor" for c
    unfolding sample_actor_def by (rule base_assurance_claims)
  have "a = b" if "bind_verified_owner_authority_with_bound_digests raw_externals sample_actor
      sample_input None None = Inr b" for b
    using that a f by (intro provenance_id_binds_everything [OF a that]) simp_all
  with a eq show ?thesis by metis
qed

end
