(* ===== verification/ManifestData.thy ===== *)
theory ManifestData
  imports Actor
begin

text \<open>
  The data of \<^verbatim>\<open>crates/carsinos-core/src/execass_manifest.rs\<close> and its canonical text:
  identifiers and digests, canonical JSON values with their depth, count and byte limits,
  target snapshots, canonical authorities, leaves and manifests. Errors are the messages the
  code returns. JSON string escaping and Unicode normalization are third-party code
  (\<^const>\<open>json_str\<close>, \<^const>\<open>nfc\<close>); BTree order and \<open>sort\<close> on strings and byte vectors are the
  lexicographic order on bytes.
\<close>

subsection \<open>Limits\<close>

definition ABSOLUTE_MAX_DEPTH :: nat where "ABSOLUTE_MAX_DEPTH = 32"
definition ABSOLUTE_MAX_NODES :: nat where "ABSOLUTE_MAX_NODES = 256"
definition ABSOLUTE_MAX_LEAVES :: nat where "ABSOLUTE_MAX_LEAVES = 128"
definition MAX_CANONICAL_VALUE_DEPTH :: nat where "MAX_CANONICAL_VALUE_DEPTH = 32"
definition MAX_CANONICAL_ARRAY_ITEMS :: nat where "MAX_CANONICAL_ARRAY_ITEMS = 1024"
definition MAX_CANONICAL_OBJECT_FIELDS :: nat where "MAX_CANONICAL_OBJECT_FIELDS = 1024"
definition MAX_CANONICAL_STRING_BYTES :: nat where "MAX_CANONICAL_STRING_BYTES = 16 * 1024"
definition MAX_CANONICAL_VALUE_BYTES :: nat where "MAX_CANONICAL_VALUE_BYTES = 64 * 1024"
definition MAX_IDENTIFIER_BYTES :: nat where "MAX_IDENTIFIER_BYTES = 256"

definition MAX_JSON_ESCAPED_IDENTIFIER_BYTES :: nat where
  "MAX_JSON_ESCAPED_IDENTIFIER_BYTES = MAX_IDENTIFIER_BYTES * 6"

definition MAX_PERSISTED_LEAF_BYTES :: nat where
  "MAX_PERSISTED_LEAF_BYTES =
     3 * MAX_CANONICAL_VALUE_BYTES
     + (16 + 6 * ABSOLUTE_MAX_DEPTH) * MAX_JSON_ESCAPED_IDENTIFIER_BYTES + 128 * 1024"

definition MAX_PERSISTED_MANIFEST_BYTES :: nat where
  "MAX_PERSISTED_MANIFEST_BYTES = 1024 + ABSOLUTE_MAX_LEAVES * MAX_PERSISTED_LEAF_BYTES"

subsection \<open>Identifiers, digests and frozen bytes\<close>

type_synonym Sha256Digest = string

record FrozenBytes =
  fb_bytes :: bytes
  fb_digest :: Sha256Digest

definition digest_bytes :: "externals \<Rightarrow> bytes \<Rightarrow> Sha256Digest" where
  "digest_bytes X bs = sha256_hex X bs"

definition freeze :: "externals \<Rightarrow> bytes \<Rightarrow> FrozenBytes" where
  "freeze X bs = \<lparr>fb_bytes = bs, fb_digest = digest_bytes X bs\<rparr>"

definition parse_digest :: "string \<Rightarrow> string + Sha256Digest" where
  "parse_digest v =
     (let value = to_ascii_lowercase (trim v)
      in if length value \<noteq> 64 \<or> \<not> list_all is_ascii_hexdigit value
         then Inl ''digest must be a 64-character SHA-256 hex value''
         else Inr value)"

definition normalized_identifier :: "externals \<Rightarrow> string \<Rightarrow> string + string" where
  "normalized_identifier X v =
     (let value = nfc X (trim v)
      in if value = [] then Inl ''value cannot be empty''
         else if MAX_IDENTIFIER_BYTES < length value then Inl ''identifier exceeds byte limit''
         else Inr value)"

text \<open>What \<open>push_json_string\<close>, \<open>push_optional_string\<close> and \<open>push_optional_digest\<close> append.\<close>

definition push_json_string :: "externals \<Rightarrow> string \<Rightarrow> bytes" where
  "push_json_string X value = json_str X value"

definition push_optional_string :: "externals \<Rightarrow> string option \<Rightarrow> bytes" where
  "push_optional_string X value =
     (case value of Some v \<Rightarrow> push_json_string X v | None \<Rightarrow> ''null'')"

definition push_optional_digest :: "externals \<Rightarrow> Sha256Digest option \<Rightarrow> bytes" where
  "push_optional_digest X value = push_optional_string X value"

definition i64_text :: "i64 \<Rightarrow> bytes" where
  "i64_text v = show_int (sint v)"

definition optional_i64_text :: "i64 option \<Rightarrow> bytes" where
  "optional_i64_text v = (case v of Some r \<Rightarrow> i64_text r | None \<Rightarrow> ''null'')"

lemma normalized_visible:
  "nfc X = (\<lambda>s. s) \<Longrightarrow> list_all visible v \<Longrightarrow> v \<noteq> [] \<Longrightarrow> length v \<le> 256
   \<Longrightarrow> normalized_identifier X v = Inr v"
  by (simp add: normalized_identifier_def trim_visible MAX_IDENTIFIER_BYTES_def)

lemma lower_hex_visible: "is_lower_hex_digit c \<Longrightarrow> visible c \<and> \<not> is_ascii_uppercase c"
  by (auto simp: is_lower_hex_digit_def is_ascii_digit_def visible_def is_ascii_uppercase_def)

lemma parse_digest_lower: "is_lower_hex_digest v \<Longrightarrow> parse_digest v = Inr v"
proof -
  assume h: "is_lower_hex_digest v"
  then have l: "list_all is_lower_hex_digit v" "length v = 64" by (simp_all add: is_lower_hex_digest_def)
  then have "trim v = v" by (intro trim_visible) (auto simp: list_all_iff lower_hex_visible)
  moreover have "to_ascii_lowercase v = v"
    using l(1) by (induction v) (auto simp: to_ascii_lowercase_def lower_hex_visible)
  ultimately show ?thesis
    using l by (simp add: parse_digest_def is_ascii_hexdigit_def list_all_iff)
qed

subsection \<open>Canonical values\<close>

datatype CanonicalValue =
    Null | Bool bool | Integer i64 | String string
  | Array "CanonicalValue list" | Object "CanonicalField list"
and CanonicalField = CanonicalField (field_key: string) (field_value: CanonicalValue)

text \<open>\<open>canonical_value_into\<close> appends to a buffer that every error discards, so the model returns
  what is appended. Its two loops are the two functions beside it.\<close>

fun canonical_value_into :: "externals \<Rightarrow> CanonicalValue \<Rightarrow> nat \<Rightarrow> string + bytes"
and canonical_items :: "externals \<Rightarrow> CanonicalValue list \<Rightarrow> nat \<Rightarrow> string + bytes list"
and canonical_fields :: "externals \<Rightarrow> CanonicalField list \<Rightarrow> nat \<Rightarrow> string + (string \<times> bytes) list" where
  "canonical_value_into X v depth =
     (if MAX_CANONICAL_VALUE_DEPTH < depth then Inl ''canonical value exceeds depth limit''
      else case v of
        Null \<Rightarrow> Inr ''null''
      | Bool b \<Rightarrow> Inr (if b then ''true'' else ''false'')
      | Integer i \<Rightarrow> Inr (i64_text i)
      | String s \<Rightarrow>
          if MAX_CANONICAL_STRING_BYTES < length s then Inl ''canonical string exceeds byte limit''
          else Inr (push_json_string X s)
      | Array values \<Rightarrow>
          if MAX_CANONICAL_ARRAY_ITEMS < length values then Inl ''canonical array exceeds item limit''
          else rbind (canonical_items X values depth) (\<lambda>items. Inr (''['' @ commas items @ '']''))
      | Object fs \<Rightarrow>
          if MAX_CANONICAL_OBJECT_FIELDS < length fs then Inl ''canonical object exceeds field limit''
          else rbind (canonical_fields X fs depth) (\<lambda>nested.
            let normalized = sort_key fst nested
            in if adjacent_equal (map fst normalized) then Inl ''object has duplicate exact keys''
               else Inr (''{'' @ commas (map (\<lambda>(k, v). push_json_string X k @ '':'' @ v) normalized)
                         @ ''}'')))"
| "canonical_items X [] depth = Inr []"
| "canonical_items X (v # vs) depth =
     rbind (canonical_value_into X v (depth + 1)) (\<lambda>b.
     rbind (canonical_items X vs depth) (\<lambda>bs. Inr (b # bs)))"
| "canonical_fields X [] depth = Inr []"
| "canonical_fields X (CanonicalField key v # fs) depth =
     (if key = [] then Inl ''object key cannot be empty''
      else if MAX_CANONICAL_STRING_BYTES < length key then Inl ''object key exceeds byte limit''
      else rbind (canonical_value_into X v (depth + 1)) (\<lambda>nested.
           rbind (canonical_fields X fs depth) (\<lambda>rest. Inr ((key, nested) # rest))))"

declare canonical_value_into.simps [simp del]

definition canonical_value_bytes :: "externals \<Rightarrow> CanonicalValue \<Rightarrow> string + bytes" where
  "canonical_value_bytes X v =
     rbind (canonical_value_into X v 0) (\<lambda>out.
       if MAX_CANONICAL_VALUE_BYTES < length out then Inl ''canonical value exceeds byte limit''
       else Inr out)"

text \<open>\<open>TargetSnapshotInput\<close> is a structure with the one field \<open>targets\<close>.\<close>

type_synonym TargetSnapshotInput = "CanonicalValue list"

definition canonical_targets_bytes :: "externals \<Rightarrow> TargetSnapshotInput \<Rightarrow> string + bytes" where
  "canonical_targets_bytes X input =
     (if input = [] then Inl ''target snapshot cannot be empty''
      else rbind (rmap (canonical_value_bytes X) input) (\<lambda>ts.
        let targets = sort ts
        in if adjacent_equal targets then Inl ''target snapshot has duplicate canonical targets''
           else let out = ''{\"targets\":['' @ commas targets @ '']}''
             in if MAX_CANONICAL_VALUE_BYTES < length out
                then Inl ''target snapshot exceeds canonical byte limit''
                else Inr out))"

subsection \<open>Indirections and resolution steps\<close>

datatype IndirectionDescriptor =
    Alias (alias_name: string)
  | Plugin (plugin_id: string) (plugin_version: string)
  | Shell (shell_id: string) (shell_version: string) (shell_command: string)
  | Child (child_identity: string) (child_version: string)

fun normalized_descriptor :: "externals \<Rightarrow> IndirectionDescriptor \<Rightarrow> string + IndirectionDescriptor" where
  "normalized_descriptor X (Alias a) =
     rbind (normalized_identifier X a) (\<lambda>a. Inr (Alias a))"
| "normalized_descriptor X (Plugin p v) =
     rbind (normalized_identifier X p) (\<lambda>p. rbind (normalized_identifier X v) (\<lambda>v. Inr (Plugin p v)))"
| "normalized_descriptor X (Shell i v command) =
     (if command = [] then Inl ''shell command cannot be empty''
      else if MAX_CANONICAL_STRING_BYTES < length command
      then Inl ''shell command exceeds byte limit''
      else rbind (normalized_identifier X i) (\<lambda>i.
           rbind (normalized_identifier X v) (\<lambda>v. Inr (Shell i v command))))"
| "normalized_descriptor X (Child c v) =
     rbind (normalized_identifier X c) (\<lambda>c. rbind (normalized_identifier X v) (\<lambda>v. Inr (Child c v)))"

record CanonicalResolutionStep =
  step_descriptor :: IndirectionDescriptor
  step_target_node_id :: string
  step_resolver_id :: string
  step_resolver_version :: string
  step_resolution_material_digest :: Sha256Digest

fun canonical_descriptor_bytes :: "externals \<Rightarrow> IndirectionDescriptor \<Rightarrow> bytes" where
  "canonical_descriptor_bytes X (Alias a) =
     ''{\"alias\":'' @ push_json_string X a @ '',\"kind\":\"alias\"}''"
| "canonical_descriptor_bytes X (Plugin p v) =
     ''{\"kind\":\"plugin\",\"plugin_id\":'' @ push_json_string X p
     @ '',\"version\":'' @ push_json_string X v @ ''}''"
| "canonical_descriptor_bytes X (Shell i v command) =
     ''{\"command\":'' @ push_json_string X command
     @ '',\"kind\":\"shell\",\"shell_id\":'' @ push_json_string X i
     @ '',\"shell_version\":'' @ push_json_string X v @ ''}''"
| "canonical_descriptor_bytes X (Child c v) =
     ''{\"child_identity\":'' @ push_json_string X c
     @ '',\"kind\":\"child\",\"version\":'' @ push_json_string X v @ ''}''"

definition canonical_resolution_step_bytes :: "externals \<Rightarrow> CanonicalResolutionStep \<Rightarrow> bytes" where
  "canonical_resolution_step_bytes X step =
     ''{\"descriptor\":'' @ canonical_descriptor_bytes X (step_descriptor step)
     @ '',\"resolution_material_digest\":'' @ push_json_string X (step_resolution_material_digest step)
     @ '',\"resolver_id\":'' @ push_json_string X (step_resolver_id step)
     @ '',\"resolver_version\":'' @ push_json_string X (step_resolver_version step)
     @ '',\"target_node_id\":'' @ push_json_string X (step_target_node_id step) @ ''}''"

subsection \<open>Owner authorities\<close>

datatype CanonicalOwnerEvidence =
    LocalInteractive string string string string "string option"
      \<comment> \<open>client, ingress, assurance, correlation, source message\<close>
  | RemoteAuthenticated string string string string string string
      \<comment> \<open>adapter, account, ingress, assurance, source message, correlation\<close>

record CanonicalOwnerAuthority =
  ca_owner_evidence :: CanonicalOwnerEvidence
  ca_authority_provenance_id :: string
  ca_normalized_intent_digest :: Sha256Digest
  ca_instruction_revision :: string
  ca_instruction_digest :: Sha256Digest
  ca_owner_envelope_revision :: string
  ca_owner_envelope_digest :: Sha256Digest
  ca_authority_kind :: string
  ca_normalized_scope :: FrozenBytes
  ca_policy_revision :: i64
  ca_bound_decision_id :: "string option"
  ca_bound_decision_revision :: "i64 option"
  ca_bound_manifest_digest :: "Sha256Digest option"
  ca_bound_challenge_nonce_digest :: "Sha256Digest option"
  ca_evidence_digest :: Sha256Digest
  ca_created_at :: i64
  ca_expires_at :: "i64 option"

fun canonical_evidence :: "externals \<Rightarrow> VerifiedHumanEvidence \<Rightarrow> string + CanonicalOwnerEvidence" where
  "canonical_evidence X (Local client ingress assurance correlation message) =
     rbind (normalized_identifier X client) (\<lambda>client.
     rbind (normalized_identifier X ingress) (\<lambda>ingress.
     rbind (normalized_identifier X assurance) (\<lambda>assurance.
     rbind (normalized_identifier X correlation) (\<lambda>correlation.
     rbind (roption (normalized_identifier X) message) (\<lambda>message.
       Inr (CanonicalOwnerEvidence.LocalInteractive client ingress assurance correlation message))))))"
| "canonical_evidence X (Remote adapter account ingress assurance message correlation _ _ _) =
     rbind (normalized_identifier X adapter) (\<lambda>adapter.
     rbind (normalized_identifier X account) (\<lambda>account.
     rbind (normalized_identifier X ingress) (\<lambda>ingress.
     rbind (normalized_identifier X assurance) (\<lambda>assurance.
     rbind (normalized_identifier X message) (\<lambda>message.
     rbind (normalized_identifier X correlation) (\<lambda>correlation.
       Inr (CanonicalOwnerEvidence.RemoteAuthenticated adapter account ingress assurance message correlation)))))))"

definition canonicalize_owner_authority ::
    "externals \<Rightarrow> VerifiedOwnerAuthority \<Rightarrow> string + CanonicalOwnerAuthority" where
  "canonicalize_owner_authority X input =
     (if MAX_CANONICAL_VALUE_BYTES < length (va_normalized_scope_json input)
      then Inl ''normalized authority scope exceeds canonical byte limit''
      else
        rbind (canonical_evidence X (va_evidence input)) (\<lambda>evidence.
        rbind (normalized_identifier X (va_authority_provenance_id input)) (\<lambda>provenance.
        rbind (parse_digest (va_normalized_intent_digest input)) (\<lambda>intent.
        rbind (normalized_identifier X (va_instruction_revision input)) (\<lambda>instruction_revision.
        rbind (parse_digest (va_instruction_digest input)) (\<lambda>instruction.
        rbind (normalized_identifier X (va_owner_envelope_revision input)) (\<lambda>envelope_revision.
        rbind (parse_digest (va_owner_envelope_digest input)) (\<lambda>envelope.
        rbind (normalized_identifier X (va_authority_kind input)) (\<lambda>kind.
        rbind (roption (normalized_identifier X) (va_bound_decision_id input)) (\<lambda>decision.
        rbind (roption parse_digest (va_bound_manifest_digest input)) (\<lambda>manifest.
        rbind (roption parse_digest (va_bound_challenge_nonce_digest input)) (\<lambda>nonce.
        rbind (parse_digest (va_evidence_digest input)) (\<lambda>evidence_digest.
          Inr \<lparr>ca_owner_evidence = evidence, ca_authority_provenance_id = provenance,
               ca_normalized_intent_digest = intent, ca_instruction_revision = instruction_revision,
               ca_instruction_digest = instruction, ca_owner_envelope_revision = envelope_revision,
               ca_owner_envelope_digest = envelope, ca_authority_kind = kind,
               ca_normalized_scope = freeze X (va_normalized_scope_json input),
               ca_policy_revision = va_policy_revision input, ca_bound_decision_id = decision,
               ca_bound_decision_revision = va_bound_decision_revision input,
               ca_bound_manifest_digest = manifest, ca_bound_challenge_nonce_digest = nonce,
               ca_evidence_digest = evidence_digest, ca_created_at = va_created_at input,
               ca_expires_at = va_expires_at input\<rparr>)))))))))))))"

fun canonical_evidence_bytes :: "externals \<Rightarrow> CanonicalOwnerEvidence \<Rightarrow> bytes" where
  "canonical_evidence_bytes X (CanonicalOwnerEvidence.LocalInteractive client ingress assurance correlation message) =
     ''\"authenticated_client_id\":'' @ push_json_string X client
     @ '',\"authenticated_ingress\":'' @ push_json_string X ingress
     @ '',\"channel_assurance\":'' @ push_json_string X assurance
     @ '',\"kind\":\"local_interactive\",\"request_correlation_id\":'' @ push_json_string X correlation
     @ '',\"source_message_id\":'' @ push_optional_string X message"
| "canonical_evidence_bytes X (CanonicalOwnerEvidence.RemoteAuthenticated adapter account ingress assurance message correlation) =
     ''\"adapter_id\":'' @ push_json_string X adapter
     @ '',\"authenticated_ingress\":'' @ push_json_string X ingress
     @ '',\"channel_assurance\":'' @ push_json_string X assurance
     @ '',\"kind\":\"remote_authenticated\",\"provider_account_id\":'' @ push_json_string X account
     @ '',\"request_correlation_id\":'' @ push_json_string X correlation
     @ '',\"source_message_id\":'' @ push_json_string X message"

definition canonical_authority_bytes :: "externals \<Rightarrow> CanonicalOwnerAuthority \<Rightarrow> bytes" where
  "canonical_authority_bytes X a =
     ''{\"authority_kind\":'' @ push_json_string X (ca_authority_kind a)
     @ '',\"authority_provenance_id\":'' @ push_json_string X (ca_authority_provenance_id a)
     @ '',\"bound_challenge_nonce_digest\":'' @ push_optional_digest X (ca_bound_challenge_nonce_digest a)
     @ '',\"bound_decision_id\":'' @ push_optional_string X (ca_bound_decision_id a)
     @ '',\"bound_decision_revision\":'' @ optional_i64_text (ca_bound_decision_revision a)
     @ '',\"bound_manifest_digest\":'' @ push_optional_digest X (ca_bound_manifest_digest a)
     @ '',\"created_at\":'' @ i64_text (ca_created_at a)
     @ '',\"evidence_digest\":'' @ push_json_string X (ca_evidence_digest a)
     @ '',\"expires_at\":'' @ optional_i64_text (ca_expires_at a)
     @ '',\"instruction_digest\":'' @ push_json_string X (ca_instruction_digest a)
     @ '',\"instruction_revision\":'' @ push_json_string X (ca_instruction_revision a)
     @ '',\"normalized_intent_digest\":'' @ push_json_string X (ca_normalized_intent_digest a)
     @ '',\"normalized_scope\":'' @ fb_bytes (ca_normalized_scope a)
     @ '',\"owner_envelope_digest\":'' @ push_json_string X (ca_owner_envelope_digest a)
     @ '',\"owner_envelope_revision\":'' @ push_json_string X (ca_owner_envelope_revision a)
     @ '',\"owner_evidence\":{'' @ canonical_evidence_bytes X (ca_owner_evidence a)
     @ ''},\"policy_revision\":'' @ i64_text (ca_policy_revision a) @ ''}''"

subsection \<open>Leaves and manifests\<close>

record ToolIdentity =
  tool_id :: string
  tool_version :: string

record ResolvedLeafInput =
  in_logical_action_id :: string
  in_action_kind :: string
  in_tool :: ToolIdentity
  in_operands :: CanonicalValue
  in_target_snapshot :: TargetSnapshotInput
  in_material_digest :: "string option"
  in_owner_authority :: VerifiedOwnerAuthority

record CanonicalLeafAction =
  node_id :: string
  logical_action_id :: string
  action_kind :: string
  tool :: ToolIdentity
  operands :: FrozenBytes
  target_snapshot :: FrozenBytes
  material_digest :: "Sha256Digest option"
  resolution_path :: "CanonicalResolutionStep list"
  owner_authority :: CanonicalOwnerAuthority
  leaf_canonical :: FrozenBytes

text \<open>The structure \<open>LeafCanonicalInputs\<close> is the leaf itself without its canonical bytes.\<close>

definition canonical_leaf_bytes :: "externals \<Rightarrow> CanonicalLeafAction \<Rightarrow> bytes" where
  "canonical_leaf_bytes X input =
     ''{\"action_kind\":'' @ push_json_string X (action_kind input)
     @ '',\"logical_action_id\":'' @ push_json_string X (logical_action_id input)
     @ '',\"material_digest\":'' @ push_optional_digest X (material_digest input)
     @ '',\"node_id\":'' @ push_json_string X (node_id input)
     @ '',\"operands\":'' @ fb_bytes (operands input)
     @ '',\"owner_authority\":'' @ canonical_authority_bytes X (owner_authority input)
     @ '',\"resolution_path\":[''
     @ commas (map (canonical_resolution_step_bytes X) (resolution_path input))
     @ ''],\"schema\":\"carsinos.execass.leaf_action.v2\"''
     @ '',\"target_snapshot\":'' @ fb_bytes (target_snapshot input)
     @ '',\"tool\":{\"tool_id\":'' @ push_json_string X (tool_id (tool input))
     @ '',\"version\":'' @ push_json_string X (tool_version (tool input)) @ ''}}''"

definition refreeze_leaf :: "externals \<Rightarrow> CanonicalLeafAction \<Rightarrow> CanonicalLeafAction" where
  "refreeze_leaf X leaf = leaf\<lparr>leaf_canonical := freeze X (canonical_leaf_bytes X leaf)\<rparr>"

definition canonical_manifest_bytes :: "CanonicalLeafAction list \<Rightarrow> string + bytes" where
  "canonical_manifest_bytes leaves =
     (if leaves = [] then Inl ''manifest contains no resolved leaves''
      else Inr (''{\"leaves\":['' @ commas (map (fb_bytes \<circ> leaf_canonical) leaves)
                @ ''],\"schema\":\"carsinos.execass.leaf_action_manifest.v2\"}''))"

record CanonicalLeafManifest =
  leaves :: "CanonicalLeafAction list"
  manifest_canonical :: FrozenBytes

subsection \<open>Order independence and bounds of the canonical text\<close>

definition field_text :: "externals \<Rightarrow> nat \<Rightarrow> CanonicalField \<Rightarrow> string + (string \<times> bytes)" where
  "field_text X depth f =
     (if field_key f = [] then Inl ''object key cannot be empty''
      else if MAX_CANONICAL_STRING_BYTES < length (field_key f) then Inl ''object key exceeds byte limit''
      else rbind (canonical_value_into X (field_value f) (depth + 1)) (\<lambda>v. Inr (field_key f, v)))"

lemma canonical_fields_rmap: "canonical_fields X fs depth = rmap (field_text X depth) fs"
proof (induction fs)
  case (Cons f fs)
  then show ?case by (cases f) (simp add: field_text_def rbind_assoc)
qed simp

lemma canonical_items_rmap:
  "canonical_items X vs depth = rmap (\<lambda>v. canonical_value_into X v (depth + 1)) vs"
  by (induction vs) simp_all

lemma canonical_object_Inr:
  "canonical_value_into X (Object fs) depth = Inr b \<longleftrightarrow>
     depth \<le> MAX_CANONICAL_VALUE_DEPTH \<and> length fs \<le> MAX_CANONICAL_OBJECT_FIELDS
     \<and> (\<exists>nested. rmap (field_text X depth) fs = Inr nested \<and> distinct (map fst nested)
        \<and> b = ''{'' @ commas (map (\<lambda>(k, v). push_json_string X k @ '':'' @ v) (sort_key fst nested)) @ ''}'')"
  by (auto simp: canonical_value_into.simps canonical_fields_rmap sort_key_adjacent Let_def)

lemma canonical_object_perm:
  assumes "canonical_value_into X (Object fs) depth = Inr b" and "mset fs = mset gs"
  shows "canonical_value_into X (Object gs) depth = Inr b"
proof -
  from assms(1) obtain nested where n: "rmap (field_text X depth) fs = Inr nested"
      "distinct (map fst nested)" and lim: "depth \<le> MAX_CANONICAL_VALUE_DEPTH"
      "length fs \<le> MAX_CANONICAL_OBJECT_FIELDS"
    and b: "b = ''{'' @ commas (map (\<lambda>(k, v). push_json_string X k @ '':'' @ v) (sort_key fst nested)) @ ''}''"
    by (auto simp: canonical_object_Inr)
  from rmap_perm [OF n(1) assms(2)] obtain nested' where
    n': "rmap (field_text X depth) gs = Inr nested'" "mset nested' = mset nested" by blast
  then have s: "sort_key fst nested' = sort_key fst nested" using n(2) by (intro sort_key_perm)
  have d: "distinct (map fst nested')"
    using n(2) n'(2) by (metis mset_map mset_eq_imp_distinct_iff)
  have l: "length gs = length fs" using assms(2) by (metis size_mset)
  show ?thesis
    unfolding canonical_object_Inr using n' s d l lim b by auto
qed

definition targets_text :: "bytes list \<Rightarrow> bytes" where
  "targets_text bs = ''{\"targets\":['' @ commas (sort bs) @ '']}''"

lemma canonical_targets_Inr:
  "canonical_targets_bytes X ts = Inr b \<longleftrightarrow>
     ts \<noteq> [] \<and> (\<exists>bs. rmap (canonical_value_bytes X) ts = Inr bs \<and> distinct bs
       \<and> b = targets_text bs \<and> length b \<le> MAX_CANONICAL_VALUE_BYTES)"
  unfolding canonical_targets_bytes_def targets_text_def [symmetric] Let_def
  by (simp add: sort_adjacent not_less) blast

lemma canonical_targets_perm:
  assumes "canonical_targets_bytes X ts = Inr b" and "mset ts = mset us"
  shows "canonical_targets_bytes X us = Inr b"
proof -
  from assms(1) obtain bs where bs: "rmap (canonical_value_bytes X) ts = Inr bs" "distinct bs"
      "b = targets_text bs" and ne: "ts \<noteq> []" and lim: "length b \<le> MAX_CANONICAL_VALUE_BYTES"
    unfolding canonical_targets_Inr by blast
  from rmap_perm [OF bs(1) assms(2)] obtain cs where
    cs: "rmap (canonical_value_bytes X) us = Inr cs" "mset cs = mset bs" by blast
  have "targets_text cs = b" using sort_perm [OF cs(2)] bs(3) by (simp add: targets_text_def)
  moreover have "distinct cs" using cs(2) bs(2) mset_eq_imp_distinct_iff by blast
  moreover have "us \<noteq> []" using ne assms(2) by auto
  ultimately show ?thesis unfolding canonical_targets_Inr using cs lim by blast
qed

text \<open>The text of a frozen target set depends on the set only. Whatever order the targets are
  listed in, freezing accepts the same snapshots with the same bytes; it accepts at least one
  target and pairwise different canonical targets only, within the byte limit.\<close>

theorem target_snapshot_order_irrelevant:
  "(mset ts = mset us \<longrightarrow>
      (canonical_targets_bytes X ts = Inr b \<longleftrightarrow> canonical_targets_bytes X us = Inr b))
   \<and> (canonical_targets_bytes X ts = Inr b \<longrightarrow>
      ts \<noteq> [] \<and> distinct (map (canonical_value_bytes X) ts) \<and> length b \<le> 65536)"
proof -
  have "distinct (map (canonical_value_bytes X) ts)"
    if "rmap (canonical_value_bytes X) ts = Inr bs" "distinct bs" for bs
  proof -
    from that(1) have "map (canonical_value_bytes X) ts = map Inr bs"
      by (auto simp: rmap_Inr_iff list_all2_conv_all_nth intro: nth_equalityI)
    then show ?thesis using that(2) by (simp add: distinct_map inj_on_def)
  qed
  then have "canonical_targets_bytes X ts = Inr b \<longrightarrow>
      ts \<noteq> [] \<and> distinct (map (canonical_value_bytes X) ts) \<and> length b \<le> 65536"
    unfolding canonical_targets_Inr MAX_CANONICAL_VALUE_BYTES_def by auto
  moreover have "mset ts = mset us \<longrightarrow>
      (canonical_targets_bytes X ts = Inr b \<longleftrightarrow> canonical_targets_bytes X us = Inr b)"
    by (metis canonical_targets_perm)
  ultimately show ?thesis by blast
qed

text \<open>An object's text does not depend on the order of its fields: at every depth, permuting
  the fields leaves the canonical bytes the same, and a duplicate key is never canonical.\<close>

theorem object_field_order_irrelevant:
  "(mset fs = mset gs \<longrightarrow>
      (canonical_value_into X (Object fs) depth = Inr b
         \<longleftrightarrow> canonical_value_into X (Object gs) depth = Inr b))
   \<and> (\<not> distinct (map field_key fs) \<longrightarrow> \<not> is_ok (canonical_value_into X (Object fs) depth))"
proof -
  have keys: "map fst nested = map field_key hs" if "rmap (field_text X depth) hs = Inr nested" for hs nested
    using that by (induction hs arbitrary: nested) (auto simp: field_text_def split: if_splits)
  have "distinct (map field_key fs)" if "canonical_value_into X (Object fs) depth = Inr c" for c
  proof -
    from that obtain nested where "rmap (field_text X depth) fs = Inr nested" "distinct (map fst nested)"
      by (auto simp: canonical_object_Inr)
    then show ?thesis by (simp add: keys)
  qed
  moreover have "is_ok r \<Longrightarrow> \<exists>c. r = Inr c" for r :: "string + bytes"
    by (cases r) simp_all
  ultimately show ?thesis by (metis canonical_object_perm)
qed

lemma target_snapshot_order_irrelevant_witness:
  "canonical_targets_bytes raw_externals [Integer 1, Bool True] = Inr ''{\"targets\":[1,true]}''
   \<and> canonical_targets_bytes raw_externals [Bool True, Integer 1] = Inr ''{\"targets\":[1,true]}''"
proof -
  have "canonical_targets_bytes raw_externals [Integer 1, Bool True] = Inr ''{\"targets\":[1,true]}''"
    by (simp add: canonical_targets_bytes_def canonical_value_bytes_def canonical_value_into.simps
        i64_text_def show_int_def show_nat.simps MAX_CANONICAL_VALUE_DEPTH_def
        MAX_CANONICAL_VALUE_BYTES_def less_char_def char_of_def bit_0)
  then show ?thesis
    using target_snapshot_order_irrelevant [of "[Integer 1, Bool True]" "[Bool True, Integer 1]"]
    by simp
qed

lemma object_field_order_irrelevant_witness:
  "canonical_value_into raw_externals (Object [CanonicalField ''a'' Null, CanonicalField ''b'' Null]) 0
     = Inr ''{a:null,b:null}''
   \<and> canonical_value_into raw_externals (Object [CanonicalField ''b'' Null, CanonicalField ''a'' Null]) 0
     = Inr ''{a:null,b:null}''"
proof -
  have "canonical_value_into raw_externals (Object [CanonicalField ''a'' Null, CanonicalField ''b'' Null]) 0
     = Inr ''{a:null,b:null}''"
    by (simp add: canonical_value_into.simps MAX_CANONICAL_VALUE_DEPTH_def
        MAX_CANONICAL_STRING_BYTES_def MAX_CANONICAL_OBJECT_FIELDS_def push_json_string_def
        json_str_def raw_externals_def less_char_def)
  then show ?thesis
    using object_field_order_irrelevant [of "[CanonicalField ''a'' Null, CanonicalField ''b'' Null]"
        "[CanonicalField ''b'' Null, CanonicalField ''a'' Null]"] by simp
qed

end
