(* ===== verification/Manifest.thy ===== *)
theory Manifest
  imports ManifestData
begin

text \<open>
  The dispatch compiler of \<^verbatim>\<open>crates/carsinos-core/src/execass_manifest.rs\<close>: the server's
  resolution registry, the walk over the dispatch tree with its depth, node and leaf limits,
  its cycle and duplicate checks, and the frozen manifest. The walk's specification is the
  inductive relation \<open>expands\<close>, which has neither state nor limits but the depth.
\<close>

subsection \<open>Input\<close>

datatype DispatchAction =
    ResolvedLeaf ResolvedLeafInput
  | Composite "string list"
  | Alias string
  | Plugin string string
  | Shell string string string
  | Child string string

record DispatchNode =
  dn_node_id :: string
  dn_action :: DispatchAction

record DispatchTree =
  root_id :: string
  nodes :: "DispatchNode list"

subsection \<open>The server's resolution registry\<close>

record ServerResolutionEntryInput =
  re_descriptor :: IndirectionDescriptor
  re_target_node_id :: string
  re_resolver_id :: string
  re_resolver_version :: string
  re_resolution_material_digest :: string

record ResolutionTarget =
  rt_target_node_id :: string
  rt_resolver_id :: string
  rt_resolver_version :: string
  rt_resolution_material_digest :: Sha256Digest

text \<open>The structure with the one field \<open>entries\<close>, a \<open>BTreeMap\<close>.\<close>

type_synonym ServerResolutionRegistry = "IndirectionDescriptor \<rightharpoonup> ResolutionTarget list"

definition registry_step ::
    "externals \<Rightarrow> ServerResolutionRegistry \<Rightarrow> ServerResolutionEntryInput
     \<Rightarrow> string + ServerResolutionRegistry" where
  "registry_step X registry entry =
     rbind (normalized_descriptor X (re_descriptor entry)) (\<lambda>descriptor.
     rbind (normalized_identifier X (re_target_node_id entry)) (\<lambda>target_node.
     rbind (normalized_identifier X (re_resolver_id entry)) (\<lambda>resolver.
     rbind (normalized_identifier X (re_resolver_version entry)) (\<lambda>version.
     rbind (parse_digest (re_resolution_material_digest entry)) (\<lambda>digest.
       let target = \<lparr>rt_target_node_id = target_node, rt_resolver_id = resolver,
                     rt_resolver_version = version, rt_resolution_material_digest = digest\<rparr>;
           candidates = (case registry descriptor of Some ts \<Rightarrow> ts | None \<Rightarrow> [])
       in if target \<in> set candidates then Inl ''duplicate server resolution entry''
          else Inr (registry(descriptor \<mapsto> candidates @ [target])))))))"

definition registry_try_new ::
    "externals \<Rightarrow> ServerResolutionEntryInput list \<Rightarrow> string + ServerResolutionRegistry" where
  "registry_try_new X entries = rfold (registry_step X) Map.empty entries"

subsection \<open>Outcomes\<close>

record CompileLimits =
  max_depth :: nat
  max_nodes :: nat
  max_leaves :: nat

definition default_limits :: CompileLimits where
  "default_limits = \<lparr>max_depth = 32, max_nodes = 256, max_leaves = 128\<rparr>"

datatype MechanicalResolutionReason =
    EmptyRoot
  | EmptyNodeIdentity
  | DuplicateNodeIdentity string
  | MissingNode string
  | CycleDetected string
  | EmptyComposite string
  | UnresolvedAlias string
  | AmbiguousAlias string
  | UnresolvedPlugin string
  | AmbiguousPlugin string
  | UnresolvedShell string
  | AmbiguousShell string
  | UnresolvedChild string
  | AmbiguousChild string
  | DepthLimitExceeded nat
  | NodeLimitExceeded nat
  | LeafLimitExceeded nat
  | DuplicateLogicalActionIdentity string
  | InvalidLeaf string string

text \<open>\<open>MechanicalResolutionPause\<close> is a structure with the one field \<open>reason\<close>.\<close>

datatype ManifestCompilation =
  Ready CanonicalLeafManifest | MechanicalResolutionRequired MechanicalResolutionReason

definition pause :: "MechanicalResolutionReason \<Rightarrow> ManifestCompilation" where
  "pause reason = MechanicalResolutionRequired reason"

datatype StructureKind = AliasKind | PluginKind | ShellKind | ChildKind

fun unresolved :: "StructureKind \<Rightarrow> string \<Rightarrow> MechanicalResolutionReason" where
  "unresolved AliasKind n = UnresolvedAlias n"
| "unresolved PluginKind n = UnresolvedPlugin n"
| "unresolved ShellKind n = UnresolvedShell n"
| "unresolved ChildKind n = UnresolvedChild n"

fun ambiguous :: "StructureKind \<Rightarrow> string \<Rightarrow> MechanicalResolutionReason" where
  "ambiguous AliasKind n = AmbiguousAlias n"
| "ambiguous PluginKind n = AmbiguousPlugin n"
| "ambiguous ShellKind n = AmbiguousShell n"
| "ambiguous ChildKind n = AmbiguousChild n"

text \<open>\<open>map_err\<close>.\<close>

definition map_err :: "('e \<Rightarrow> 'f) \<Rightarrow> 'e + 'a \<Rightarrow> 'f + 'a" where
  "map_err f r = (case r of Inl e \<Rightarrow> Inl (f e) | Inr x \<Rightarrow> Inr x)"

lemma map_err_simps [simp]:
  "map_err f (Inl e) = Inl (f e)" "map_err f (Inr x) = Inr x"
  "map_err f r = Inr x \<longleftrightarrow> r = Inr x"
  by (cases r; simp add: map_err_def)+

text \<open>The four indirections are looked up by a descriptor, with the kind their errors name; leaves
  and composites have none (\<open>unreachable!\<close>).\<close>

fun action_descriptor :: "DispatchAction \<Rightarrow> (StructureKind \<times> IndirectionDescriptor) option" where
  "action_descriptor (Alias a) = Some (AliasKind, IndirectionDescriptor.Alias a)"
| "action_descriptor (Plugin p v) = Some (PluginKind, IndirectionDescriptor.Plugin p v)"
| "action_descriptor (Shell i v command) = Some (ShellKind, IndirectionDescriptor.Shell i v command)"
| "action_descriptor (Child c v) = Some (ChildKind, IndirectionDescriptor.Child c v)"
| "action_descriptor _ = None"

definition descriptor_for_action ::
    "externals \<Rightarrow> string \<Rightarrow> IndirectionDescriptor \<Rightarrow> MechanicalResolutionReason + IndirectionDescriptor" where
  "descriptor_for_action X nid descriptor =
     map_err (InvalidLeaf nid) (normalized_descriptor X descriptor)"

definition canonical_leaf ::
    "externals \<Rightarrow> string \<Rightarrow> ResolvedLeafInput \<Rightarrow> CanonicalResolutionStep list
     \<Rightarrow> MechanicalResolutionReason + CanonicalLeafAction" where
  "canonical_leaf X nid input path =
     map_err (InvalidLeaf nid)
      (rbind (normalized_identifier X (in_logical_action_id input)) (\<lambda>logical.
       rbind (normalized_identifier X (in_action_kind input)) (\<lambda>kind.
       rbind (normalized_identifier X (tool_id (in_tool input))) (\<lambda>tid.
       rbind (normalized_identifier X (tool_version (in_tool input))) (\<lambda>tversion.
       rbind (canonical_value_bytes X (in_operands input)) (\<lambda>ops.
       rbind (canonical_targets_bytes X (in_target_snapshot input)) (\<lambda>targets.
       rbind (roption parse_digest (in_material_digest input)) (\<lambda>material.
       rbind (canonicalize_owner_authority X (in_owner_authority input)) (\<lambda>authority.
         Inr (refreeze_leaf X
           \<lparr>node_id = nid, logical_action_id = logical, action_kind = kind,
            tool = \<lparr>tool_id = tid, tool_version = tversion\<rparr>, operands = freeze X ops,
            target_snapshot = freeze X targets, material_digest = material,
            resolution_path = path, owner_authority = authority,
            leaf_canonical = freeze X []\<rparr>))))))))))"

subsection \<open>The compiler\<close>

text \<open>The compiler's immutable parts and, separately, what the walk updates. An error drops the
  compiler, so a failing step returns no state.\<close>

record CompilerInput =
  ext :: externals
  tree_nodes :: "DispatchNode list"
  resolutions :: ServerResolutionRegistry
  lookup :: "string \<rightharpoonup> nat"
  limits :: CompileLimits

record Compiler =
  visited_nodes :: nat
  compiled :: "CanonicalLeafAction list"
  active :: "string set"
  logical_action_ids :: "string set"

definition push_leaf ::
    "CompilerInput \<Rightarrow> string \<Rightarrow> ResolvedLeafInput \<Rightarrow> CanonicalResolutionStep list \<Rightarrow> Compiler
     \<Rightarrow> MechanicalResolutionReason + Compiler" where
  "push_leaf C nid leaf path s =
     (if max_leaves (limits C) \<le> length (compiled s)
      then Inl (LeafLimitExceeded (max_leaves (limits C)))
      else rbind (canonical_leaf (ext C) nid leaf path) (\<lambda>leaf.
        if logical_action_id leaf \<in> logical_action_ids s
        then Inl (DuplicateLogicalActionIdentity (logical_action_id leaf))
        else Inr (s\<lparr>logical_action_ids := insert (logical_action_id leaf) (logical_action_ids s),
                    compiled := compiled s @ [leaf]\<rparr>)))"

definition step_of :: "IndirectionDescriptor \<Rightarrow> ResolutionTarget \<Rightarrow> CanonicalResolutionStep" where
  "step_of descriptor target =
     \<lparr>step_descriptor = descriptor, step_target_node_id = rt_target_node_id target,
      step_resolver_id = rt_resolver_id target, step_resolver_version = rt_resolver_version target,
      step_resolution_material_digest = rt_resolution_material_digest target\<rparr>"

function (sequential) visit :: "CompilerInput \<Rightarrow> string \<Rightarrow> nat \<Rightarrow> CanonicalResolutionStep list \<Rightarrow> Compiler
     \<Rightarrow> MechanicalResolutionReason + Compiler"
and visit_present :: "CompilerInput \<Rightarrow> string \<Rightarrow> nat \<Rightarrow> CanonicalResolutionStep list \<Rightarrow> Compiler
     \<Rightarrow> MechanicalResolutionReason + Compiler"
and visit_children :: "CompilerInput \<Rightarrow> string list \<Rightarrow> nat \<Rightarrow> CanonicalResolutionStep list \<Rightarrow> Compiler
     \<Rightarrow> MechanicalResolutionReason + Compiler"
and visit_expansion :: "CompilerInput \<Rightarrow> string \<Rightarrow> IndirectionDescriptor \<Rightarrow> nat \<Rightarrow> StructureKind
     \<Rightarrow> CanonicalResolutionStep list \<Rightarrow> Compiler \<Rightarrow> MechanicalResolutionReason + Compiler" where
  "visit C nid depth path s =
     (if max_depth (limits C) < depth then Inl (DepthLimitExceeded (max_depth (limits C)))
      else if max_nodes (limits C) \<le> visited_nodes s
      then Inl (NodeLimitExceeded (max_nodes (limits C)))
      else case normalized_identifier (ext C) nid of
        Inl _ \<Rightarrow> Inl EmptyNodeIdentity
      | Inr n \<Rightarrow>
          if n \<in> active s then Inl (CycleDetected n)
          else rbind (visit_present C n depth path
                        (s\<lparr>active := insert n (active s), visited_nodes := visited_nodes s + 1\<rparr>))
                 (\<lambda>s'. Inr (s'\<lparr>active := active s' - {n}\<rparr>)))"
| "visit_present C nid depth path s =
     (case lookup C nid of
        None \<Rightarrow> Inl (MissingNode nid)
      | Some index \<Rightarrow>
          (let action = dn_action (tree_nodes C ! index) in
           case action_descriptor action of
             Some (kind, d) \<Rightarrow>
               (case descriptor_for_action (ext C) nid d of
                  Inl reason \<Rightarrow> Inl reason
                | Inr descriptor \<Rightarrow> visit_expansion C nid descriptor depth kind path s)
           | None \<Rightarrow>
               (case action of
                  ResolvedLeaf leaf \<Rightarrow> push_leaf C nid leaf path s
                | Composite children \<Rightarrow>
                    if children = [] then Inl (EmptyComposite nid)
                    else visit_children C children depth path s
                | _ \<Rightarrow> Inl (MissingNode nid))))"
| "visit_children C [] depth path s = Inr s"
| "visit_children C (child # children) depth path s =
     (case visit C child (depth + 1) path s of
        Inl reason \<Rightarrow> Inl reason
      | Inr s' \<Rightarrow> visit_children C children depth path s')"
| "visit_expansion C nid descriptor depth kind path s =
     (case resolutions C descriptor of
        None \<Rightarrow> Inl (unresolved kind nid)
      | Some candidates \<Rightarrow>
          if length candidates \<noteq> 1 then Inl (ambiguous kind nid)
          else visit C (rt_target_node_id (candidates ! 0)) (depth + 1)
                 (path @ [step_of descriptor (candidates ! 0)]) s)"
  by pat_completeness auto
termination
proof (relation "measures
    [\<lambda>p. case p of
        Inl (Inl (C, _, d, _)) \<Rightarrow> Suc (max_depth (limits C)) - d
      | Inl (Inr (C, _, d, _)) \<Rightarrow> Suc (max_depth (limits C)) - Suc d
      | Inr (Inl (C, _, d, _)) \<Rightarrow> Suc (max_depth (limits C)) - Suc d
      | Inr (Inr (C, _, _, d, _)) \<Rightarrow> Suc (max_depth (limits C)) - Suc d,
     \<lambda>p. case p of Inl (Inl _) \<Rightarrow> 0 | Inl (Inr _) \<Rightarrow> 2 | Inr (Inl _) \<Rightarrow> 1 | Inr (Inr _) \<Rightarrow> 1,
     \<lambda>p. case p of Inr (Inl (_, cs, _)) \<Rightarrow> length cs | _ \<Rightarrow> 0]")
qed auto

declare visit.simps [simp del] visit_present.simps [simp del] visit_expansion.simps [simp del]

fun build_lookup ::
    "externals \<Rightarrow> DispatchNode list \<Rightarrow> nat \<Rightarrow> (string \<rightharpoonup> nat)
     \<Rightarrow> MechanicalResolutionReason + (string \<rightharpoonup> nat)" where
  "build_lookup X [] index m = Inr m"
| "build_lookup X (node # ns) index m =
     (case normalized_identifier X (dn_node_id node) of
        Inl _ \<Rightarrow> Inl EmptyNodeIdentity
      | Inr nid \<Rightarrow>
          if m nid \<noteq> None then Inl (DuplicateNodeIdentity nid)
          else build_lookup X ns (index + 1) (m(nid \<mapsto> index)))"

definition clamp_limits :: "CompileLimits \<Rightarrow> CompileLimits" where
  "clamp_limits l =
     \<lparr>max_depth = min (max_depth l) ABSOLUTE_MAX_DEPTH,
      max_nodes = min (max_nodes l) ABSOLUTE_MAX_NODES,
      max_leaves = min (max_leaves l) ABSOLUTE_MAX_LEAVES\<rparr>"

definition compile_dispatch_with_limits ::
    "externals \<Rightarrow> DispatchTree \<Rightarrow> ServerResolutionRegistry \<Rightarrow> CompileLimits \<Rightarrow> ManifestCompilation" where
  "compile_dispatch_with_limits X tree registry l =
     (case normalized_identifier X (root_id tree) of
        Inl _ \<Rightarrow> pause EmptyRoot
      | Inr root \<Rightarrow>
          (case build_lookup X (nodes tree) 0 Map.empty of
             Inl reason \<Rightarrow> pause reason
           | Inr m \<Rightarrow>
               let C = \<lparr>ext = X, tree_nodes = nodes tree, resolutions = registry, lookup = m,
                        limits = clamp_limits l\<rparr>;
                   s = \<lparr>visited_nodes = 0, compiled = [], active = {}, logical_action_ids = {}\<rparr>
               in (case visit C root 0 [] s of
                     Inl reason \<Rightarrow> pause reason
                   | Inr s' \<Rightarrow>
                       (case canonical_manifest_bytes (compiled s') of
                          Inl detail \<Rightarrow> pause (InvalidLeaf root detail)
                        | Inr bs \<Rightarrow>
                            Ready \<lparr>leaves = compiled s', manifest_canonical = freeze X bs\<rparr>))))"

definition compile_dispatch ::
    "externals \<Rightarrow> DispatchTree \<Rightarrow> ServerResolutionRegistry \<Rightarrow> ManifestCompilation" where
  "compile_dispatch X tree registry = compile_dispatch_with_limits X tree registry default_limits"

subsection \<open>What a dispatch expands to\<close>

text \<open>
  \<open>expands C path d nid ls n\<close>: the node named \<open>nid\<close>, reached at depth \<open>d\<close> through the
  resolution steps \<open>path\<close>, stands for the leaf actions \<open>ls\<close>, and its expansion has \<open>n\<close> nodes.
  \<open>present\<close> is the same of an already normalized name. No state, no limit but the depth.
\<close>

inductive expands :: "CompilerInput \<Rightarrow> CanonicalResolutionStep list \<Rightarrow> nat \<Rightarrow> string
      \<Rightarrow> CanonicalLeafAction list \<Rightarrow> nat \<Rightarrow> bool"
  and present :: "CompilerInput \<Rightarrow> CanonicalResolutionStep list \<Rightarrow> nat \<Rightarrow> string
      \<Rightarrow> CanonicalLeafAction list \<Rightarrow> nat \<Rightarrow> bool"
  and expand_all :: "CompilerInput \<Rightarrow> CanonicalResolutionStep list \<Rightarrow> nat \<Rightarrow> string list
      \<Rightarrow> CanonicalLeafAction list \<Rightarrow> nat \<Rightarrow> bool"
  for C where
  named: "\<lbrakk>d \<le> max_depth (limits C); normalized_identifier (ext C) nid = Inr m;
           present C path d m ls n\<rbrakk> \<Longrightarrow> expands C path d nid ls n"
| leaf: "\<lbrakk>lookup C m = Some i; dn_action (tree_nodes C ! i) = ResolvedLeaf l;
          canonical_leaf (ext C) m l path = Inr a\<rbrakk> \<Longrightarrow> present C path d m [a] 1"
| composite: "\<lbrakk>lookup C m = Some i; dn_action (tree_nodes C ! i) = Composite cs; cs \<noteq> [];
          expand_all C path (Suc d) cs ls n\<rbrakk> \<Longrightarrow> present C path d m ls (Suc n)"
| indirect: "\<lbrakk>lookup C m = Some i; action_descriptor (dn_action (tree_nodes C ! i)) = Some (k, r);
          descriptor_for_action (ext C) m r = Inr r'; resolutions C r' = Some [t];
          expands C (path @ [step_of r' t]) (Suc d) (rt_target_node_id t) ls n\<rbrakk>
          \<Longrightarrow> present C path d m ls (Suc n)"
| all_nil: "expand_all C path d [] [] 0"
| all_cons: "\<lbrakk>expands C path d c ls n; expand_all C path d cs ls' n'\<rbrakk>
          \<Longrightarrow> expand_all C path d (c # cs) (ls @ ls') (n + n')"

inductive_cases expandsE: "expands C path d nid ls n"
inductive_cases presentE: "present C path d m ls n"
inductive_cases all_nilE: "expand_all C path d [] ls n"
inductive_cases all_consE: "expand_all C path d (c # cs) ls n"

inductive_simps expand_all_simps [simp]:
  "expand_all C path d [] ls n"
  "expand_all C path d (c # cs) ls n"

abbreviation leaf_ids :: "CanonicalLeafAction list \<Rightarrow> string list" where
  "leaf_ids ls \<equiv> map logical_action_id ls"

text \<open>What a step of the walk that visits \<open>n\<close> nodes and finds the leaves \<open>ls\<close> does to the state.\<close>

definition advance :: "Compiler \<Rightarrow> CanonicalLeafAction list \<Rightarrow> nat \<Rightarrow> Compiler" where
  "advance s ls n = s\<lparr>visited_nodes := visited_nodes s + n, compiled := compiled s @ ls,
     logical_action_ids := logical_action_ids s \<union> set (leaf_ids ls)\<rparr>"

definition admits :: "CompilerInput \<Rightarrow> Compiler \<Rightarrow> CanonicalLeafAction list \<Rightarrow> nat \<Rightarrow> bool" where
  "admits C s ls n \<longleftrightarrow>
     distinct (leaf_ids ls) \<and> set (leaf_ids ls) \<inter> logical_action_ids s = {}
     \<and> (visited_nodes s \<le> max_nodes (limits C) \<longrightarrow> visited_nodes s + n \<le> max_nodes (limits C))
     \<and> (length (compiled s) \<le> max_leaves (limits C)
          \<longrightarrow> length (compiled s) + length ls \<le> max_leaves (limits C))"

lemma advance_simps [simp]:
  "visited_nodes (advance s ls n) = visited_nodes s + n"
  "compiled (advance s ls n) = compiled s @ ls"
  "active (advance s ls n) = active s"
  "logical_action_ids (advance s ls n) = logical_action_ids s \<union> set (leaf_ids ls)"
  by (simp_all add: advance_def)

lemma advance_advance [simp]: "advance (advance s ls n) ls' n' = advance s (ls @ ls') (n + n')"
  by (simp add: advance_def Un_assoc)

lemma advance_0 [simp]: "advance s [] 0 = s"
  by (simp add: advance_def)

lemma admits_0 [simp]: "admits C s [] 0"
  by (simp add: admits_def)

lemma admits_append:
  "admits C s ls n \<Longrightarrow> admits C (advance s ls n) ls' n' \<Longrightarrow> admits C s (ls @ ls') (n + n')"
  by (auto simp: admits_def)

lemma push_leaf_Inr:
  "push_leaf C m l path s = Inr s' \<Longrightarrow>
     \<exists>a. canonical_leaf (ext C) m l path = Inr a \<and> admits C s [a] 0 \<and> s' = advance s [a] 0"
  by (auto simp: push_leaf_def admits_def advance_def split: if_splits)

lemma visit_sound:
  "visit C nid d path s = Inr s' \<Longrightarrow>
     \<exists>ls n. expands C path d nid ls n \<and> admits C s ls n \<and> s' = advance s ls n"
  "visit_present C m d path s = Inr s' \<Longrightarrow>
     \<exists>ls n. present C path d m ls (Suc n) \<and> admits C s ls n \<and> s' = advance s ls n"
  "visit_children C cs d path s = Inr s' \<Longrightarrow>
     \<exists>ls n. expand_all C path (Suc d) cs ls n \<and> admits C s ls n \<and> s' = advance s ls n"
  "visit_expansion C m r d k path s = Inr s' \<Longrightarrow>
     \<exists>t ls n. resolutions C r = Some [t] \<and> admits C s ls n \<and> s' = advance s ls n
       \<and> expands C (path @ [step_of r t]) (Suc d) (rt_target_node_id t) ls n"
proof (induction C nid d path s and C m d path s and C cs d path s and C m r d k path s
    arbitrary: s' and s' and s' and s'
    rule: visit_visit_present_visit_children_visit_expansion.induct)
  case (1 C nid depth path s)
  let ?s = "\<lambda>m. s\<lparr>active := insert m (active s), visited_nodes := visited_nodes s + 1\<rparr>"
  from "1.prems" obtain m t where d: "depth \<le> max_depth (limits C)"
    and v: "visited_nodes s < max_nodes (limits C)"
    and m: "normalized_identifier (ext C) nid = Inr m" and a: "m \<notin> active s"
    and t: "visit_present C m depth path (?s m) = Inr t" and s': "s' = t\<lparr>active := active t - {m}\<rparr>"
    by (subst (asm) visit.simps) (auto split: if_splits sum.splits)
  from "1.IH" [OF _ _ m a t] d v obtain ls n where
    p: "present C path depth m ls (Suc n)" and e: "admits C (?s m) ls n" and t': "t = advance (?s m) ls n"
    by auto
  have "admits C s ls (Suc n)" using e v by (simp add: admits_def)
  moreover have "s' = advance s ls (Suc n)" using a s' t' by (simp add: advance_def)
  ultimately show ?case using p d m by (blast intro: named)
next
  case (2 C m depth path s)
  from "2.prems" obtain i where i: "lookup C m = Some i"
    by (subst (asm) visit_present.simps) (auto split: option.splits)
  show ?case
  proof (cases "action_descriptor (dn_action (tree_nodes C ! i))")
    case None
    show ?thesis
    proof (cases "dn_action (tree_nodes C ! i)")
      case (ResolvedLeaf l)
      with "2.prems" i have "push_leaf C m l path s = Inr s'"
        by (subst (asm) visit_present.simps) simp
      then obtain a where "canonical_leaf (ext C) m l path = Inr a" "admits C s [a] 0" "s' = advance s [a] 0"
        using push_leaf_Inr by blast
      with leaf [OF i ResolvedLeaf] show ?thesis by (metis One_nat_def)
    next
      case (Composite cs)
      with "2.prems" i have ne: "cs \<noteq> []" and v: "visit_children C cs depth path s = Inr s'"
        by (subst (asm) visit_present.simps, simp split: if_splits)+
      from "2.IH"(1) [OF i refl None Composite ne v] composite [OF i Composite ne]
      show ?thesis by blast
    qed (use None in simp_all)
  next
    case (Some kr)
    obtain k r where kr: "kr = (k, r)" by force
    with "2.prems" i Some obtain r' where r': "descriptor_for_action (ext C) m r = Inr r'"
      and v: "visit_expansion C m r' depth k path s = Inr s'"
      by (subst (asm) visit_present.simps) (auto split: sum.splits)
    from "2.IH"(2) [OF i refl Some kr [symmetric] r' v] indirect [OF i Some [unfolded kr] r'] show ?thesis by blast
  qed
next
  case (3 C depth path s)
  then show ?case by simp
next
  case (4 C child children depth path s)
  from "4.prems" obtain t where t: "visit C child (depth + 1) path s = Inr t"
      "visit_children C children depth path t = Inr s'"
    by (auto split: sum.splits)
  from "4.IH"(1) [OF t(1)] obtain ls n where
    1: "expands C path (Suc depth) child ls n" "admits C s ls n" "t = advance s ls n" by auto
  from "4.IH"(2) [OF t(1) t(2)] obtain ls' n' where
    2: "expand_all C path (Suc depth) children ls' n'" "admits C t ls' n'" "s' = advance t ls' n'" by auto
  have "admits C s (ls @ ls') (n + n')" using 1 2 by (auto intro: admits_append)
  moreover have "s' = advance s (ls @ ls') (n + n')" using 1 2 by simp
  ultimately show ?case using all_cons [OF 1(1) 2(1)] by blast
next
  case (5 C m r depth k path s)
  from "5.prems" obtain ts where ts: "resolutions C r = Some ts" "\<not> length ts \<noteq> 1"
      and v: "visit C (rt_target_node_id (ts ! 0)) (depth + 1) (path @ [step_of r (ts ! 0)]) s = Inr s'"
    by (subst (asm) visit_expansion.simps) (auto split: option.splits if_splits)
  from ts(2) obtain t where "ts = [t]" by (auto simp: length_Suc_conv)
  with ts v "5.IH" [OF ts v] show ?case by auto
qed

subsection \<open>The walk finds every expansion\<close>

lemma expansion_count_unique:
  "expands C path d nid ls n \<Longrightarrow> expands C path' d' nid ls' n' \<Longrightarrow> n = n'"
  "present C path d m ls n \<Longrightarrow> present C path' d' m ls' n' \<Longrightarrow> n = n'"
  "expand_all C path d cs ls n \<Longrightarrow> expand_all C path' d' cs ls' n' \<Longrightarrow> n = n'"
proof (induction arbitrary: path' d' ls' n' and path' d' ls' n' and path' d' ls' n'
    rule: expands_present_expand_all.inducts)
  case (named d nid m path ls n)
  from named(5) named(2) obtain "present C path' d' m ls' n'" by (auto elim!: expandsE)
  then show ?case by (rule named(4))
next
  case (leaf m i l path a d)
  from leaf show ?case by (auto elim!: presentE)
next
  case (composite m i cs path d ls n)
  from composite(6) composite(1,2) obtain k where "n' = Suc k" "expand_all C path' (Suc d') cs ls' k"
    by (auto elim!: presentE)
  then show ?case using composite(4) by blast
next
  case (indirect m i k r r' t path d ls n)
  from indirect(7) indirect(1-4) obtain j where "n' = Suc j"
      "expands C (path' @ [step_of r' t]) (Suc d') (rt_target_node_id t) ls' j"
    by (auto elim!: presentE)
  then show ?case using indirect(6) by blast
next
  case (all_nil path d)
  then show ?case by simp
next
  case (all_cons path d c ls n cs lss ns)
  from all_cons(5) obtain l k l' k' where "expands C path' d' c l k" "expand_all C path' d' cs l' k'"
      "n' = k + k'" by auto
  then show ?case using all_cons(2,4) by blast
qed

lemma expansion_nonempty:
  "expands C path d nid ls n \<Longrightarrow> ls \<noteq> [] \<and> 0 < n"
  "present C path d m ls n \<Longrightarrow> ls \<noteq> [] \<and> 0 < n"
  "expand_all C path d cs ls n \<Longrightarrow> cs \<noteq> [] \<longrightarrow> ls \<noteq> [] \<and> 0 < n"
  by (induction rule: expands_present_expand_all.inducts) auto

definition room :: "CompilerInput \<Rightarrow> Compiler \<Rightarrow> CanonicalLeafAction list \<Rightarrow> nat \<Rightarrow> bool" where
  "room C s ls n \<longleftrightarrow>
     visited_nodes s + n \<le> max_nodes (limits C)
     \<and> length (compiled s) + length ls \<le> max_leaves (limits C)
     \<and> distinct (leaf_ids ls) \<and> set (leaf_ids ls) \<inter> logical_action_ids s = {}"

text \<open>Every node being expanded has a larger expansion than \<open>n\<close>, so that none of them can be
  met again below.\<close>

definition above :: "CompilerInput \<Rightarrow> Compiler \<Rightarrow> nat \<Rightarrow> bool" where
  "above C s n \<longleftrightarrow> (\<forall>a \<in> active s. \<forall>p e ls k. present C p e a ls k \<longrightarrow> n < k)"

lemma room_append:
  "room C s (ls @ ls') (n + n') \<Longrightarrow> room C s ls n \<and> room C (advance s ls n) ls' n'"
  by (auto simp: room_def)

lemma above_mono: "above C s n \<Longrightarrow> m \<le> n \<Longrightarrow> above C s m"
  unfolding above_def by (meson le_less_trans)

lemma above_advance [simp]: "above C (advance s ls n) k \<longleftrightarrow> above C s k"
  by (simp add: above_def)

lemma visit_complete:
  "expands C path d nid ls n \<Longrightarrow> room C s ls n \<Longrightarrow> above C s n
     \<Longrightarrow> visit C nid d path s = Inr (advance s ls n)"
  "present C path d m ls n \<Longrightarrow> room C s ls (n - 1) \<Longrightarrow> above C s (n - 1)
     \<Longrightarrow> visit_present C m d path s = Inr (advance s ls (n - 1))"
  "expand_all C path d cs ls n \<Longrightarrow> room C s ls n \<Longrightarrow> above C s n \<Longrightarrow> d = Suc e
     \<Longrightarrow> visit_children C cs e path s = Inr (advance s ls n)"
proof (induction arbitrary: s and s and s e rule: expands_present_expand_all.inducts)
  case (named d nid m path ls n)
  let ?s = "s\<lparr>active := insert m (active s), visited_nodes := visited_nodes s + 1\<rparr>"
  have pos: "0 < n" using expansion_nonempty(2) [OF named(3)] by simp
  have a: "m \<notin> active s" using named(6) named(3) unfolding above_def by (meson less_irrefl)
  have "room C ?s ls (n - 1)" using named(5) pos by (auto simp: room_def)
  moreover have "above C ?s (n - 1)"
    unfolding above_def
  proof (intro ballI allI impI)
    fix b p e l k
    assume "b \<in> active ?s" and b: "present C p e b l k"
    then have "b = m \<or> b \<in> active s" by simp
    then show "n - 1 < k"
    proof
      assume "b = m"
      then have "k = n" using expansion_count_unique(2) [OF b] named(3) by simp
      then show ?thesis using pos by simp
    next
      assume "b \<in> active s"
      then show ?thesis using named(6) b unfolding above_def by (meson diff_le_self le_less_trans)
    qed
  qed
  ultimately have "visit_present C m d path ?s = Inr (advance ?s ls (n - 1))" by (rule named(4))
  moreover have "visited_nodes s < max_nodes (limits C)" using named(5) pos by (auto simp: room_def)
  moreover have "(advance ?s ls (n - 1))\<lparr>active := active (advance ?s ls (n - 1)) - {m}\<rparr> = advance s ls n"
    using a pos by (simp add: advance_def)
  ultimately show ?case using named(1,2) a by (subst visit.simps) simp
next
  case (leaf m i l path a d)
  then show ?case
    by (subst visit_present.simps) (simp add: push_leaf_def room_def advance_def)
next
  case (composite m i cs path d ls n)
  then show ?case by (subst visit_present.simps) simp
next
  case (indirect m i k r r' t path d ls n)
  then have "visit C (rt_target_node_id t) (Suc d) (path @ [step_of r' t]) s = Inr (advance s ls n)" by simp
  with indirect(1-4) show ?case
    by (subst visit_present.simps) (simp add: visit_expansion.simps)
next
  case (all_nil path d)
  then show ?case by simp
next
  case (all_cons path d c ls n cs lss ns)
  have r: "room C s ls n" "room C (advance s ls n) lss ns" using room_append [OF all_cons(5)] by auto
  have a: "above C s n" "above C (advance s ls n) ns"
    using all_cons(6) by (auto intro: above_mono)
  from all_cons(2) [OF r(1) a(1)] all_cons(4) [OF r(2) a(2) all_cons(7)] all_cons(7)
  show ?case by simp
qed

subsection \<open>Properties of the compiler\<close>

definition compiler_input ::
    "externals \<Rightarrow> DispatchTree \<Rightarrow> ServerResolutionRegistry \<Rightarrow> (string \<rightharpoonup> nat) \<Rightarrow> CompilerInput" where
  "compiler_input X tree registry lk =
     \<lparr>ext = X, tree_nodes = nodes tree, resolutions = registry, lookup = lk, limits = default_limits\<rparr>"

lemma clamp_default [simp]: "clamp_limits default_limits = default_limits"
  by (simp add: clamp_limits_def default_limits_def ABSOLUTE_MAX_DEPTH_def ABSOLUTE_MAX_NODES_def
      ABSOLUTE_MAX_LEAVES_def)

definition initial_compiler :: Compiler where
  "initial_compiler = \<lparr>visited_nodes = 0, compiled = [], active = {}, logical_action_ids = {}\<rparr>"

lemma visit_initial:
  "visit C nid 0 [] initial_compiler = Inr s' \<longleftrightarrow>
     (\<exists>ls n. expands C [] 0 nid ls n \<and> n \<le> max_nodes (limits C) \<and> length ls \<le> max_leaves (limits C)
        \<and> distinct (leaf_ids ls) \<and> s' = advance initial_compiler ls n)"
    (is "?L \<longleftrightarrow> ?R")
proof
  assume ?L
  then show ?R using visit_sound(1) by (fastforce simp: admits_def initial_compiler_def)
next
  assume ?R
  then show ?L
    by (auto intro!: visit_complete(1) simp: room_def above_def initial_compiler_def)
qed

lemma compile_ready:
  "compile_dispatch X tree registry = Ready m \<longleftrightarrow>
     (\<exists>root lk n. normalized_identifier X (root_id tree) = Inr root
        \<and> build_lookup X (nodes tree) 0 Map.empty = Inr lk
        \<and> expands (compiler_input X tree registry lk) [] 0 root (leaves m) n
        \<and> n \<le> 256 \<and> length (leaves m) \<le> 128 \<and> distinct (leaf_ids (leaves m))
        \<and> canonical_manifest_bytes (leaves m) = Inr (fb_bytes (manifest_canonical m))
        \<and> manifest_canonical m = freeze X (fb_bytes (manifest_canonical m)))" (is "?L \<longleftrightarrow> ?R")
proof -
  have "?L \<longleftrightarrow> (\<exists>root lk s' bs. normalized_identifier X (root_id tree) = Inr root
        \<and> build_lookup X (nodes tree) 0 Map.empty = Inr lk
        \<and> visit (compiler_input X tree registry lk) root 0 [] initial_compiler = Inr s'
        \<and> canonical_manifest_bytes (compiled s') = Inr bs
        \<and> m = \<lparr>leaves = compiled s', manifest_canonical = freeze X bs\<rparr>)"
    by (auto simp: compile_dispatch_def compile_dispatch_with_limits_def pause_def Let_def
        compiler_input_def initial_compiler_def split: sum.splits)
  also have "\<dots> \<longleftrightarrow> ?R"
    unfolding visit_initial
    by (cases m) (fastforce simp: compiler_input_def default_limits_def initial_compiler_def freeze_def)
  finally show ?thesis .
qed

text \<open>C9: the compiler accepts exactly what expands. A dispatch is frozen into a manifest if and
  only if the tree's node names are valid and distinct and the root has an expansion of at most
  256 nodes and 128 leaves with pairwise different logical actions; the manifest then lists the
  leaves of that expansion in order, each under the resolution steps that led to it, with the
  digest of its own canonical text. In particular no limit, cycle or duplicate check ever
  rejects a tree that has such an expansion, and none is missing for one that has not.\<close>

theorem compile_exact:
  "compile_dispatch X tree registry = Ready m \<longleftrightarrow>
     (\<exists>root lk n. normalized_identifier X (root_id tree) = Inr root
        \<and> build_lookup X (nodes tree) 0 Map.empty = Inr lk
        \<and> expands (compiler_input X tree registry lk) [] 0 root (leaves m) n
        \<and> n \<le> 256 \<and> length (leaves m) \<le> 128 \<and> distinct (leaf_ids (leaves m))
        \<and> canonical_manifest_bytes (leaves m) = Inr (fb_bytes (manifest_canonical m))
        \<and> manifest_canonical m = freeze X (fb_bytes (manifest_canonical m)))"
  by (rule compile_ready)

subsection \<open>The registry groups its entries\<close>

definition normalized_entry ::
    "externals \<Rightarrow> ServerResolutionEntryInput \<Rightarrow> string + (IndirectionDescriptor \<times> ResolutionTarget)" where
  "normalized_entry X entry =
     rbind (normalized_descriptor X (re_descriptor entry)) (\<lambda>descriptor.
     rbind (normalized_identifier X (re_target_node_id entry)) (\<lambda>target_node.
     rbind (normalized_identifier X (re_resolver_id entry)) (\<lambda>resolver.
     rbind (normalized_identifier X (re_resolver_version entry)) (\<lambda>version.
     rbind (parse_digest (re_resolution_material_digest entry)) (\<lambda>digest.
       Inr (descriptor, \<lparr>rt_target_node_id = target_node, rt_resolver_id = resolver,
         rt_resolver_version = version, rt_resolution_material_digest = digest\<rparr>))))))"

definition targets_of ::
    "(IndirectionDescriptor \<times> ResolutionTarget) list \<Rightarrow> IndirectionDescriptor \<Rightarrow> ResolutionTarget list" where
  "targets_of pairs d = map snd (filter (\<lambda>p. fst p = d) pairs)"

definition grouped :: "(IndirectionDescriptor \<times> ResolutionTarget) list \<Rightarrow> ServerResolutionRegistry" where
  "grouped pairs d = (if targets_of pairs d = [] then None else Some (targets_of pairs d))"

lemma registry_step_entry:
  "registry_step X registry entry =
     rbind (normalized_entry X entry) (\<lambda>(d, t).
       let candidates = (case registry d of Some ts \<Rightarrow> ts | None \<Rightarrow> [])
       in if t \<in> set candidates then Inl ''duplicate server resolution entry''
          else Inr (registry(d \<mapsto> candidates @ [t])))"
  by (simp add: registry_step_def normalized_entry_def rbind_assoc Let_def)

lemma targets_of_snoc:
  "targets_of (pairs @ [(d, t)]) e = targets_of pairs e @ (if d = e then [t] else [])"
  by (simp add: targets_of_def)

lemma grouped_candidates [simp]:
  "(case grouped pairs d of Some ts \<Rightarrow> ts | None \<Rightarrow> []) = targets_of pairs d"
  by (simp add: grouped_def)

lemma grouped_snoc:
  "(grouped pairs)(d \<mapsto> targets_of pairs d @ [t]) = grouped (pairs @ [(d, t)])"
  by (rule ext) (simp add: grouped_def targets_of_snoc)

lemma in_targets_of: "t \<in> set (targets_of pairs d) \<longleftrightarrow> (d, t) \<in> set pairs"
  by (force simp: targets_of_def)

lemma rmap_snoc:
  "rmap f (xs @ [x]) = rbind (rmap f xs) (\<lambda>ys. rbind (f x) (\<lambda>y. Inr (ys @ [y])))"
  by (induction xs) (simp_all add: rbind_assoc)

lemma registry_grouped:
  "registry_try_new X entries = Inr registry \<longleftrightarrow>
     (\<exists>pairs. rmap (normalized_entry X) entries = Inr pairs \<and> distinct pairs \<and> registry = grouped pairs)"
proof (induction entries arbitrary: registry rule: rev_induct)
  case Nil
  have "grouped [] = Map.empty" by (rule ext) (simp add: grouped_def targets_of_def)
  then show ?case by (auto simp: registry_try_new_def)
next
  case (snoc entry entries)
  have "registry_try_new X (entries @ [entry]) = Inr registry \<longleftrightarrow>
      (\<exists>r. registry_try_new X entries = Inr r \<and> registry_step X r entry = Inr registry)"
    by (auto simp: registry_try_new_def rfold_append)
  also have "\<dots> \<longleftrightarrow> (\<exists>pairs. rmap (normalized_entry X) entries = Inr pairs \<and> distinct pairs
      \<and> registry_step X (grouped pairs) entry = Inr registry)"
    by (auto simp: snoc.IH)
  also have "\<dots> \<longleftrightarrow> (\<exists>pairs. rmap (normalized_entry X) (entries @ [entry]) = Inr pairs
      \<and> distinct pairs \<and> registry = grouped pairs)"
    by (fastforce simp: registry_step_entry rmap_snoc Let_def in_targets_of grouped_snoc
        split: if_splits prod.splits)
  finally show ?case .
qed

text \<open>The registry keeps every entry once and in order. It is built if and only if every entry
  normalizes and no two normalized entries are equal, and each descriptor is then mapped to the
  targets of its own entries, in the order given; an indirection is unambiguous exactly when one
  entry has its normalized descriptor.\<close>

theorem registry_exact:
  "registry_try_new X entries = Inr registry \<longleftrightarrow>
     (\<exists>pairs. rmap (normalized_entry X) entries = Inr pairs \<and> distinct pairs
        \<and> (\<forall>d. registry d = (if targets_of pairs d = [] then None else Some (targets_of pairs d))))"
  by (simp add: registry_grouped grouped_def [abs_def] fun_eq_iff)

end
