(* ===== verification/ManifestRebind.thy ===== *)
theory ManifestRebind
  imports Manifest
begin

text \<open>
  Restoring a persisted manifest of \<^verbatim>\<open>crates/carsinos-core/src/execass_manifest.rs\<close> and
  rebinding it for a routine occurrence. Reading the JSON text into the persisted structures is
  the generated code of \<open>serde\<close>: the parameter \<open>from_slice\<close>, an arbitrary function.
\<close>

subsection \<open>Persisted structures\<close>

record PersistedResolutionStep =
  pr_descriptor :: IndirectionDescriptor
  pr_resolution_material_digest :: string
  pr_resolver_id :: string
  pr_resolver_version :: string
  pr_target_node_id :: string

record PersistedOwnerAuthority =
  po_authority_kind :: string
  po_authority_provenance_id :: string
  po_bound_challenge_nonce_digest :: "string option"
  po_bound_decision_id :: "string option"
  po_bound_decision_revision :: "i64 option"
  po_bound_manifest_digest :: "string option"
  po_created_at :: i64
  po_evidence_digest :: string
  po_expires_at :: "i64 option"
  po_instruction_digest :: string
  po_instruction_revision :: string
  po_normalized_intent_digest :: string
  po_normalized_scope :: CanonicalValue
  po_owner_envelope_digest :: string
  po_owner_envelope_revision :: string
  po_owner_evidence :: CanonicalOwnerEvidence
  po_policy_revision :: i64

record PersistedLeaf =
  pl_action_kind :: string
  pl_logical_action_id :: string
  pl_material_digest :: "string option"
  pl_node_id :: string
  pl_operands :: CanonicalValue
  pl_owner_authority :: PersistedOwnerAuthority
  pl_resolution_path :: "PersistedResolutionStep list"
  pl_schema :: string
  pl_target_snapshot :: TargetSnapshotInput
  pl_tool :: ToolIdentity

record PersistedManifest =
  pm_leaves :: "PersistedLeaf list"
  pm_schema :: string

subsection \<open>Restoring\<close>

definition restore_resolution_step ::
    "externals \<Rightarrow> PersistedResolutionStep \<Rightarrow> string + CanonicalResolutionStep" where
  "restore_resolution_step X input =
     rbind (normalized_descriptor X (pr_descriptor input)) (\<lambda>descriptor.
     rbind (normalized_identifier X (pr_target_node_id input)) (\<lambda>target_node.
     rbind (normalized_identifier X (pr_resolver_id input)) (\<lambda>resolver.
     rbind (normalized_identifier X (pr_resolver_version input)) (\<lambda>version.
     rbind (parse_digest (pr_resolution_material_digest input)) (\<lambda>digest.
       Inr \<lparr>step_descriptor = descriptor, step_target_node_id = target_node,
            step_resolver_id = resolver, step_resolver_version = version,
            step_resolution_material_digest = digest\<rparr>)))))"

fun restore_evidence :: "externals \<Rightarrow> CanonicalOwnerEvidence \<Rightarrow> string + CanonicalOwnerEvidence" where
  "restore_evidence X (CanonicalOwnerEvidence.LocalInteractive client ingress assurance correlation message) =
     rbind (normalized_identifier X client) (\<lambda>client.
     rbind (normalized_identifier X ingress) (\<lambda>ingress.
     rbind (normalized_identifier X assurance) (\<lambda>assurance.
     rbind (normalized_identifier X correlation) (\<lambda>correlation.
     rbind (roption (normalized_identifier X) message) (\<lambda>message.
       Inr (CanonicalOwnerEvidence.LocalInteractive client ingress assurance correlation message))))))"
| "restore_evidence X (CanonicalOwnerEvidence.RemoteAuthenticated adapter account ingress assurance message correlation) =
     rbind (normalized_identifier X adapter) (\<lambda>adapter.
     rbind (normalized_identifier X account) (\<lambda>account.
     rbind (normalized_identifier X ingress) (\<lambda>ingress.
     rbind (normalized_identifier X assurance) (\<lambda>assurance.
     rbind (normalized_identifier X message) (\<lambda>message.
     rbind (normalized_identifier X correlation) (\<lambda>correlation.
       Inr (CanonicalOwnerEvidence.RemoteAuthenticated adapter account ingress assurance message correlation)))))))"

definition restore_owner_authority ::
    "externals \<Rightarrow> PersistedOwnerAuthority \<Rightarrow> string + CanonicalOwnerAuthority" where
  "restore_owner_authority X input =
     rbind (restore_evidence X (po_owner_evidence input)) (\<lambda>evidence.
     rbind (normalized_identifier X (po_authority_provenance_id input)) (\<lambda>provenance.
     rbind (parse_digest (po_normalized_intent_digest input)) (\<lambda>intent.
     rbind (normalized_identifier X (po_instruction_revision input)) (\<lambda>instruction_revision.
     rbind (parse_digest (po_instruction_digest input)) (\<lambda>instruction.
     rbind (normalized_identifier X (po_owner_envelope_revision input)) (\<lambda>envelope_revision.
     rbind (parse_digest (po_owner_envelope_digest input)) (\<lambda>envelope.
     rbind (normalized_identifier X (po_authority_kind input)) (\<lambda>kind.
     rbind (canonical_value_bytes X (po_normalized_scope input)) (\<lambda>scope.
     rbind (roption (normalized_identifier X) (po_bound_decision_id input)) (\<lambda>decision.
     rbind (roption parse_digest (po_bound_manifest_digest input)) (\<lambda>manifest.
     rbind (roption parse_digest (po_bound_challenge_nonce_digest input)) (\<lambda>nonce.
     rbind (parse_digest (po_evidence_digest input)) (\<lambda>evidence_digest.
       Inr \<lparr>ca_owner_evidence = evidence, ca_authority_provenance_id = provenance,
            ca_normalized_intent_digest = intent, ca_instruction_revision = instruction_revision,
            ca_instruction_digest = instruction, ca_owner_envelope_revision = envelope_revision,
            ca_owner_envelope_digest = envelope, ca_authority_kind = kind,
            ca_normalized_scope = freeze X scope, ca_policy_revision = po_policy_revision input,
            ca_bound_decision_id = decision,
            ca_bound_decision_revision = po_bound_decision_revision input,
            ca_bound_manifest_digest = manifest, ca_bound_challenge_nonce_digest = nonce,
            ca_evidence_digest = evidence_digest, ca_created_at = po_created_at input,
            ca_expires_at = po_expires_at input\<rparr>)))))))))))))"

definition restore_persisted_leaf :: "externals \<Rightarrow> PersistedLeaf \<Rightarrow> string + CanonicalLeafAction" where
  "restore_persisted_leaf X input =
     (if pl_schema input \<noteq> ''carsinos.execass.leaf_action.v2''
      then Inl ''unsupported persisted leaf schema''
      else if ABSOLUTE_MAX_DEPTH < length (pl_resolution_path input)
      then Inl ''persisted resolution path exceeds depth limit''
      else
        rbind (normalized_identifier X (pl_node_id input)) (\<lambda>nid.
        rbind (normalized_identifier X (pl_logical_action_id input)) (\<lambda>logical.
        rbind (normalized_identifier X (pl_action_kind input)) (\<lambda>kind.
        rbind (normalized_identifier X (tool_id (pl_tool input))) (\<lambda>tid.
        rbind (normalized_identifier X (tool_version (pl_tool input))) (\<lambda>tversion.
        rbind (canonical_value_bytes X (pl_operands input)) (\<lambda>ops.
        rbind (canonical_targets_bytes X (pl_target_snapshot input)) (\<lambda>targets.
        rbind (roption parse_digest (pl_material_digest input)) (\<lambda>material.
        rbind (rmap (restore_resolution_step X) (pl_resolution_path input)) (\<lambda>path.
        rbind (restore_owner_authority X (pl_owner_authority input)) (\<lambda>authority.
          Inr (refreeze_leaf X
            \<lparr>node_id = nid, logical_action_id = logical, action_kind = kind,
             tool = \<lparr>tool_id = tid, tool_version = tversion\<rparr>, operands = freeze X ops,
             target_snapshot = freeze X targets, material_digest = material,
             resolution_path = path, owner_authority = authority,
             leaf_canonical = freeze X []\<rparr>))))))))))))"

text \<open>\<open>parse_persisted_manifest_with_limit\<close>.\<close>

definition parse_persisted_manifest_with_limit ::
    "(bytes \<Rightarrow> string + PersistedManifest) \<Rightarrow> bytes \<Rightarrow> nat \<Rightarrow> string + PersistedManifest" where
  "parse_persisted_manifest_with_limit from_slice persisted byte_limit =
     (if byte_limit < length persisted then Inl ''persisted manifest exceeds byte limit''
      else map_err (\<lambda>error. ''invalid persisted manifest JSON: '' @ error) (from_slice persisted))"

subsection \<open>Rebinding\<close>

record RoutineOccurrenceLeafBinding =
  persisted_logical_action_id :: string
  occurrence_logical_action_id :: string
  binding_target_snapshot :: TargetSnapshotInput

text \<open>The loop that restores the leaves and collects their identities.\<close>

definition restore_step ::
    "externals \<Rightarrow> CanonicalLeafAction list \<Rightarrow> PersistedLeaf \<Rightarrow> string + CanonicalLeafAction list" where
  "restore_step X restored input =
     rbind (restore_persisted_leaf X input) (\<lambda>leaf.
       if logical_action_id leaf \<in> set (map logical_action_id restored)
       then Inl ''persisted manifest has duplicate logical action identity''
       else Inr (restored @ [leaf]))"

text \<open>\<open>bindings_by_id\<close>, a map whose keys are inserted once, as the list of its entries.\<close>

type_synonym BindingsById = "(string \<times> RoutineOccurrenceLeafBinding) list"

definition binding_step ::
    "externals \<Rightarrow> BindingsById \<Rightarrow> RoutineOccurrenceLeafBinding \<Rightarrow> string + BindingsById" where
  "binding_step X by_id b =
     rbind (normalized_identifier X (persisted_logical_action_id b)) (\<lambda>persisted_id.
       if persisted_id \<noteq> persisted_logical_action_id b
       then Inl ''persisted logical action identity is not canonical''
       else if persisted_id \<in> set (map fst by_id)
       then Inl ''duplicate routine occurrence leaf binding''
       else Inr (by_id @ [(persisted_id, b)]))"

text \<open>The loop that rebinds the leaves: what is left of the map, and the leaves already done,
  whose identities are \<open>occurrence_ids\<close>.\<close>

definition rebind_step ::
    "externals \<Rightarrow> BindingsById \<times> CanonicalLeafAction list \<Rightarrow> CanonicalLeafAction
     \<Rightarrow> string + BindingsById \<times> CanonicalLeafAction list" where
  "rebind_step X s leaf =
     (case map_of (fst s) (logical_action_id leaf) of
        None \<Rightarrow> Inl ''routine occurrence binding does not match persisted leaf''
      | Some b \<Rightarrow>
          rbind (normalized_identifier X (occurrence_logical_action_id b)) (\<lambda>occurrence_id.
            if occurrence_id \<noteq> occurrence_logical_action_id b
            then Inl ''occurrence logical action identity is not canonical''
            else if occurrence_id \<in> set (map logical_action_id (snd s))
            then Inl ''duplicate occurrence logical action identity''
            else rbind (canonical_targets_bytes X (binding_target_snapshot b)) (\<lambda>targets.
              Inr (filter (\<lambda>p. fst p \<noteq> logical_action_id leaf) (fst s),
                   snd s @ [refreeze_leaf X (leaf\<lparr>logical_action_id := occurrence_id,
                                               target_snapshot := freeze X targets\<rparr>)]))))"

definition rebind_persisted_manifest_for_routine_occurrence ::
    "externals \<Rightarrow> (bytes \<Rightarrow> string + PersistedManifest) \<Rightarrow> bytes \<Rightarrow> string
     \<Rightarrow> RoutineOccurrenceLeafBinding list \<Rightarrow> string + CanonicalLeafManifest" where
  "rebind_persisted_manifest_for_routine_occurrence X from_slice persisted_json expected bs =
     rbind (parse_digest expected) (\<lambda>expected_digest.
     rbind (parse_persisted_manifest_with_limit from_slice persisted_json MAX_PERSISTED_MANIFEST_BYTES)
       (\<lambda>persisted.
     if pm_schema persisted \<noteq> ''carsinos.execass.leaf_action_manifest.v2''
     then Inl ''unsupported persisted manifest schema''
     else if pm_leaves persisted = [] \<or> ABSOLUTE_MAX_LEAVES < length (pm_leaves persisted)
     then Inl ''persisted manifest leaf count is outside allowed bounds''
     else
       rbind (rfold (restore_step X) [] (pm_leaves persisted)) (\<lambda>restored.
       rbind (canonical_manifest_bytes restored) (\<lambda>canonical.
       if canonical \<noteq> persisted_json
       then Inl ''persisted manifest is not exact canonical JSON''
       else if fb_digest (freeze X canonical) \<noteq> expected_digest
       then Inl ''persisted manifest digest mismatch''
       else
         rbind (rfold (binding_step X) [] bs) (\<lambda>by_id.
         if length by_id \<noteq> length restored
         then Inl ''routine occurrence bindings must cover every persisted leaf''
         else
           rbind (rfold (rebind_step X) (by_id, []) restored) (\<lambda>(left, rebound).
           if left \<noteq> [] then Inl ''routine occurrence binding does not match persisted leaf''
           else rbind (canonical_manifest_bytes rebound) (\<lambda>out.
                Inr \<lparr>leaves = rebound, manifest_canonical = freeze X out\<rparr>)))))))"

subsection \<open>The three loops\<close>

lemma restore_loop:
  "rfold (restore_step X) [] inputs = Inr ls \<longleftrightarrow>
     rmap (restore_persisted_leaf X) inputs = Inr ls \<and> distinct (leaf_ids ls)"
proof (induction inputs arbitrary: ls rule: rev_induct)
  case Nil
  show ?case by auto
next
  case (snoc x xs)
  have "rfold (restore_step X) [] (xs @ [x]) = Inr ls \<longleftrightarrow>
      (\<exists>r. (rmap (restore_persisted_leaf X) xs = Inr r \<and> distinct (leaf_ids r))
           \<and> restore_step X r x = Inr ls)"
    by (simp add: rfold_append snoc.IH)
  also have "\<dots> \<longleftrightarrow> rmap (restore_persisted_leaf X) (xs @ [x]) = Inr ls \<and> distinct (leaf_ids ls)"
    by (fastforce simp: restore_step_def rmap_snoc split: if_splits)
  finally show ?case .
qed

lemma binding_step_Inr:
  "binding_step X acc b = Inr acc' \<longleftrightarrow>
     normalized_identifier X (persisted_logical_action_id b) = Inr (persisted_logical_action_id b)
     \<and> persisted_logical_action_id b \<notin> set (map fst acc)
     \<and> acc' = acc @ [(persisted_logical_action_id b, b)]"
  by (auto simp: binding_step_def)

lemma rebind_step_Inr:
  "rebind_step X (by_id, finished) leaf = Inr s' \<longleftrightarrow>
     (\<exists>b targets. map_of by_id (logical_action_id leaf) = Some b
        \<and> normalized_identifier X (occurrence_logical_action_id b) = Inr (occurrence_logical_action_id b)
        \<and> occurrence_logical_action_id b \<notin> set (leaf_ids finished)
        \<and> canonical_targets_bytes X (binding_target_snapshot b) = Inr targets
        \<and> s' = (filter (\<lambda>p. fst p \<noteq> logical_action_id leaf) by_id,
                finished @ [refreeze_leaf X (leaf\<lparr>logical_action_id := occurrence_logical_action_id b,
                                              target_snapshot := freeze X targets\<rparr>)]))"
  by (auto simp: rebind_step_def split: option.splits)

lemma binding_loop:
  "rfold (binding_step X) acc bs = Inr by_id \<Longrightarrow>
     by_id = acc @ map (\<lambda>b. (persisted_logical_action_id b, b)) bs
     \<and> (distinct (map fst acc) \<longrightarrow> distinct (map fst acc @ map persisted_logical_action_id bs))"
proof (induction bs arbitrary: acc)
  case Nil
  then show ?case by simp
next
  case (Cons b bs)
  from Cons.prems have n: "persisted_logical_action_id b \<notin> set (map fst acc)"
    and r: "rfold (binding_step X) (acc @ [(persisted_logical_action_id b, b)]) bs = Inr by_id"
    by (auto simp: binding_step_Inr)
  from Cons.IH [OF r] n show ?case by (auto simp: append_assoc [symmetric])
qed

text \<open>How a rebound leaf relates to the leaf it was: same node, action kind, tool, operands,
  material, resolution path and owner authority; the identity and the targets are the
  binding's, and the canonical bytes are frozen again.\<close>

definition rebound_leaf ::
    "externals \<Rightarrow> RoutineOccurrenceLeafBinding \<Rightarrow> CanonicalLeafAction \<Rightarrow> CanonicalLeafAction \<Rightarrow> bool" where
  "rebound_leaf X b old new \<longleftrightarrow>
     persisted_logical_action_id b = logical_action_id old
     \<and> normalized_identifier X (occurrence_logical_action_id b) = Inr (occurrence_logical_action_id b)
     \<and> (\<exists>targets. canonical_targets_bytes X (binding_target_snapshot b) = Inr targets
          \<and> new = refreeze_leaf X (old\<lparr>logical_action_id := occurrence_logical_action_id b,
                                    target_snapshot := freeze X targets\<rparr>))"

lemma refreeze_fields [simp]:
  "logical_action_id (refreeze_leaf X l) = logical_action_id l"
  "node_id (refreeze_leaf X l) = node_id l"
  "owner_authority (refreeze_leaf X l) = owner_authority l"
  "operands (refreeze_leaf X l) = operands l"
  "resolution_path (refreeze_leaf X l) = resolution_path l"
  by (simp_all add: refreeze_leaf_def)

lemma rebind_loop:
  assumes "rfold (rebind_step X) (by_id, finished) old = Inr (left, out)"
    and "\<And>k b. (k, b) \<in> set by_id \<Longrightarrow> k = persisted_logical_action_id b"
  shows "\<exists>new. out = finished @ new
      \<and> list_all2 (\<lambda>l n. \<exists>b. (logical_action_id l, b) \<in> set by_id \<and> rebound_leaf X b l n) old new
      \<and> (distinct (leaf_ids finished) \<longrightarrow> distinct (leaf_ids out))
      \<and> left = filter (\<lambda>p. fst p \<notin> set (leaf_ids old)) by_id"
  using assms
proof (induction old arbitrary: by_id finished)
  case Nil
  then show ?case by simp
next
  case (Cons l ls)
  let ?rest = "filter (\<lambda>p. fst p \<noteq> logical_action_id l) by_id"
  from Cons.prems(1) obtain b targets where b: "map_of by_id (logical_action_id l) = Some b"
    and occ: "normalized_identifier X (occurrence_logical_action_id b) = Inr (occurrence_logical_action_id b)"
    and new: "occurrence_logical_action_id b \<notin> set (leaf_ids finished)"
    and t: "canonical_targets_bytes X (binding_target_snapshot b) = Inr targets"
    and r: "rfold (rebind_step X) (?rest, finished @ [refreeze_leaf X
        (l\<lparr>logical_action_id := occurrence_logical_action_id b, target_snapshot := freeze X targets\<rparr>)]) ls
        = Inr (left, out)"
    by (auto simp: rebind_step_Inr)
  let ?n = "refreeze_leaf X (l\<lparr>logical_action_id := occurrence_logical_action_id b,
      target_snapshot := freeze X targets\<rparr>)"
  have bin: "(logical_action_id l, b) \<in> set by_id" using b by (rule map_of_SomeD)
  have "rebound_leaf X b l ?n"
    using Cons.prems(2) [OF bin] occ t by (auto simp: rebound_leaf_def)
  moreover obtain new' where n': "out = (finished @ [?n]) @ new'"
      "list_all2 (\<lambda>l n. \<exists>b. (logical_action_id l, b) \<in> set ?rest \<and> rebound_leaf X b l n) ls new'"
      "distinct (leaf_ids (finished @ [?n])) \<longrightarrow> distinct (leaf_ids out)"
      "left = filter (\<lambda>p. fst p \<notin> set (leaf_ids ls)) ?rest"
    using Cons.IH [OF r] Cons.prems(2) by auto
  moreover from n'(2) have
    "list_all2 (\<lambda>l n. \<exists>b. (logical_action_id l, b) \<in> set by_id \<and> rebound_leaf X b l n) ls new'"
    by (rule list_all2_mono) auto
  moreover have "left = filter (\<lambda>p. fst p \<notin> set (leaf_ids (l # ls))) by_id"
    using n'(4) by (auto intro: filter_cong)
  ultimately show ?case
    using new bin by (intro exI [of _ "?n # new'"]) auto
qed

lemma rebind_Inr:
  assumes "rebind_persisted_manifest_for_routine_occurrence X from_slice json expected bs = Inr m"
  shows "\<exists>p old. from_slice json = Inr p
      \<and> rmap (restore_persisted_leaf X) (pm_leaves p) = Inr old
      \<and> distinct (leaf_ids old) \<and> old \<noteq> [] \<and> length old \<le> 128
      \<and> canonical_manifest_bytes old = Inr json
      \<and> parse_digest expected = Inr (sha256_hex X json)
      \<and> mset (map persisted_logical_action_id bs) = mset (leaf_ids old)
      \<and> list_all2 (\<lambda>l n. \<exists>b \<in> set bs. rebound_leaf X b l n) old (leaves m)
      \<and> distinct (leaf_ids (leaves m))
      \<and> canonical_manifest_bytes (leaves m) = Inr (fb_bytes (manifest_canonical m))
      \<and> manifest_canonical m = freeze X (fb_bytes (manifest_canonical m))"
proof -
  from assms obtain p old by_id out where p: "from_slice json = Inr p"
    and size: "pm_leaves p \<noteq> []" "length (pm_leaves p) \<le> 128"
    and old: "rfold (restore_step X) [] (pm_leaves p) = Inr old"
    and json: "canonical_manifest_bytes old = Inr json"
    and dig: "parse_digest expected = Inr (sha256_hex X json)"
    and by_id: "rfold (binding_step X) [] bs = Inr by_id" and len: "length by_id = length old"
    and fold: "rfold (rebind_step X) (by_id, []) old = Inr ([], leaves m)"
    and out: "canonical_manifest_bytes (leaves m) = Inr out" "manifest_canonical m = freeze X out"
    by (auto simp: rebind_persisted_manifest_for_routine_occurrence_def
        parse_persisted_manifest_with_limit_def freeze_def digest_bytes_def ABSOLUTE_MAX_LEAVES_def
        split: if_splits)
  note restored = old [unfolded restore_loop]
  have ids: "by_id = map (\<lambda>b. (persisted_logical_action_id b, b)) bs"
      "distinct (map persisted_logical_action_id bs)"
    using binding_loop [OF by_id] by simp_all
  have keys: "k = persisted_logical_action_id b" if "(k, b) \<in> set by_id" for k b
    using that unfolding ids(1) by auto
  from rebind_loop [OF fold keys] have loop:
    "list_all2 (\<lambda>l n. \<exists>b. (logical_action_id l, b) \<in> set by_id \<and> rebound_leaf X b l n) old (leaves m)"
    "distinct (leaf_ids (leaves m))" "filter (\<lambda>p. fst p \<notin> set (leaf_ids old)) by_id = []"
    by simp_all
  have "set (map persisted_logical_action_id bs) \<subseteq> set (leaf_ids old)"
    using loop(3) by (auto simp: ids(1) filter_empty_conv)
  moreover have "card (set (map persisted_logical_action_id bs)) = card (set (leaf_ids old))"
    using ids len restored by (simp add: distinct_card del: set_map)
  ultimately have "set (map persisted_logical_action_id bs) = set (leaf_ids old)"
    by (intro card_subset_eq) simp_all
  then have "mset (map persisted_logical_action_id bs) = mset (leaf_ids old)"
    using ids(2) restored by (simp only: set_eq_iff_mset_eq_distinct)
  moreover have "list_all2 (\<lambda>l n. \<exists>b \<in> set bs. rebound_leaf X b l n) old (leaves m)"
    using loop(1) by (rule list_all2_mono) (auto simp: ids(1))
  moreover have "length old \<le> 128" "old \<noteq> []"
    using restored size rmap_length [of "restore_persisted_leaf X" "pm_leaves p" old] by auto
  ultimately show ?thesis
    using p restored json dig loop(2) out by (auto simp: freeze_def)
qed

text \<open>C14: a routine occurrence changes only identities and targets. When a persisted manifest is
  rebound, the bytes given are exactly the canonical text of the leaves they restore to and have
  the expected digest; the bindings name each of those leaves exactly once; every new leaf is
  the old one with the identity and the frozen targets of its binding, frozen again; and the new
  identities are distinct. Operands, tool, owner authority and resolution path never change.\<close>

theorem rebind_changes_only_ids_and_targets:
  assumes "rebind_persisted_manifest_for_routine_occurrence X from_slice json expected bs = Inr m"
  shows "\<exists>p old. from_slice json = Inr p
      \<and> rmap (restore_persisted_leaf X) (pm_leaves p) = Inr old
      \<and> distinct (leaf_ids old) \<and> old \<noteq> [] \<and> length old \<le> 128
      \<and> canonical_manifest_bytes old = Inr json
      \<and> parse_digest expected = Inr (sha256_hex X json)
      \<and> mset (map persisted_logical_action_id bs) = mset (leaf_ids old)
      \<and> list_all2 (\<lambda>l n. \<exists>b \<in> set bs. rebound_leaf X b l n) old (leaves m)
      \<and> distinct (leaf_ids (leaves m))
      \<and> canonical_manifest_bytes (leaves m) = Inr (fb_bytes (manifest_canonical m))
      \<and> manifest_canonical m = freeze X (fb_bytes (manifest_canonical m))"
  using assms by (rule rebind_Inr)

subsection \<open>Witness\<close>

definition sample_externals :: externals where
  "sample_externals = raw_externals\<lparr>sha256 := (\<lambda>_. replicate 32 (char_of (0::nat)))\<rparr>"

definition zero_digest :: string where
  "zero_digest = replicate 64 CHR ''0''"

definition sample_authority :: PersistedOwnerAuthority where
  "sample_authority = \<lparr>
     po_authority_kind = ''k'', po_authority_provenance_id = ''p'',
     po_bound_challenge_nonce_digest = None, po_bound_decision_id = None,
     po_bound_decision_revision = None, po_bound_manifest_digest = None, po_created_at = 5,
     po_evidence_digest = zero_digest, po_expires_at = None, po_instruction_digest = zero_digest,
     po_instruction_revision = ''r'', po_normalized_intent_digest = zero_digest,
     po_normalized_scope = Null, po_owner_envelope_digest = zero_digest,
     po_owner_envelope_revision = ''e'',
     po_owner_evidence = CanonicalOwnerEvidence.LocalInteractive ''c'' ''i'' ''a'' ''q'' None,
     po_policy_revision = 1\<rparr>"

definition sample_leaf :: PersistedLeaf where
  "sample_leaf = \<lparr>
     pl_action_kind = ''send'', pl_logical_action_id = ''old'', pl_material_digest = None,
     pl_node_id = ''n'', pl_operands = Null, pl_owner_authority = sample_authority,
     pl_resolution_path = [], pl_schema = ''carsinos.execass.leaf_action.v2'',
     pl_target_snapshot = [Null], pl_tool = \<lparr>tool_id = ''t'', tool_version = ''1''\<rparr>\<rparr>"

definition sample_binding :: RoutineOccurrenceLeafBinding where
  "sample_binding = \<lparr>persisted_logical_action_id = ''old'',
     occurrence_logical_action_id = ''new'', binding_target_snapshot = [Bool True]\<rparr>"

definition sample_slice :: "bytes \<Rightarrow> string + PersistedManifest" where
  "sample_slice bs = Inr \<lparr>pm_leaves = [sample_leaf],
     pm_schema = ''carsinos.execass.leaf_action_manifest.v2''\<rparr>"

lemma sample_nfc [simp]: "nfc sample_externals = (\<lambda>s. s)"
  by (simp add: sample_externals_def raw_externals_def)

lemma sample_json [simp]: "json_str sample_externals v = v"
  by (simp add: sample_externals_def raw_externals_def json_str_def)

lemma sample_sha [simp]: "sha256_hex sample_externals bs = zero_digest"
proof -
  have "concat (replicate n [c, c]) = replicate (2 * n) c" for n and c :: char
    by (induction n) simp_all
  then show ?thesis
    by (simp add: sample_externals_def sha256_hex_def zero_digest_def hex_encode_def
        hex_digit_def map_replicate char_of_def bit_0)
qed

lemma length_zero_digest [simp]: "length zero_digest = 64"
  by (simp add: zero_digest_def)

lemma zero_digest_parses [simp]: "parse_digest zero_digest = Inr zero_digest"
  by (rule parse_digest_lower)
     (simp add: zero_digest_def is_lower_hex_digest_def is_lower_hex_digit_def list_all_iff is_ascii_digit_def)

lemma sample_values:
  "canonical_value_bytes sample_externals Null = Inr ''null''"
  "canonical_targets_bytes sample_externals [Null] = Inr ''{\"targets\":[null]}''"
  "canonical_targets_bytes sample_externals [Bool True] = Inr ''{\"targets\":[true]}''"
  by (simp_all add: canonical_targets_bytes_def canonical_value_bytes_def canonical_value_into.simps
      MAX_CANONICAL_VALUE_DEPTH_def MAX_CANONICAL_VALUE_BYTES_def)

lemma sample_identifiers:
  "v \<in> {''k'', ''p'', ''r'', ''e'', ''c'', ''i'', ''a'', ''q'', ''n'', ''t'', ''1'', ''old'', ''new'', ''send''}
   \<Longrightarrow> normalized_identifier sample_externals v = Inr v"
  by (rule normalized_visible) (auto simp: visible_def)

lemma sample_numbers: "length (i64_text 5) = 1" "length (i64_text 1) = 1"
  by (simp_all add: i64_text_def show_int_def show_nat.simps)

lemma sample_authority_restores:
  "\<exists>a. restore_owner_authority sample_externals sample_authority = Inr a
     \<and> length (canonical_authority_bytes sample_externals a) < 1500"
  by (simp add: restore_owner_authority_def sample_authority_def sample_identifiers sample_values
      canonical_authority_bytes_def push_json_string_def push_optional_string_def
      push_optional_digest_def optional_i64_text_def sample_numbers freeze_def)

lemma sample_restores:
  "\<exists>l. restore_persisted_leaf sample_externals sample_leaf = Inr l \<and> logical_action_id l = ''old''
     \<and> length (fb_bytes (leaf_canonical l)) < 2000"
proof -
  obtain a where "restore_owner_authority sample_externals sample_authority = Inr a"
      "length (canonical_authority_bytes sample_externals a) < 1500"
    using sample_authority_restores by blast
  then show ?thesis
    by (simp add: restore_persisted_leaf_def sample_leaf_def sample_identifiers sample_values
        refreeze_leaf_def freeze_def canonical_leaf_bytes_def push_json_string_def
        push_optional_string_def push_optional_digest_def)
qed

lemma rebind_changes_only_ids_and_targets_witness:
  "\<exists>json m. rebind_persisted_manifest_for_routine_occurrence sample_externals sample_slice json
       zero_digest [sample_binding] = Inr m \<and> distinct (leaf_ids (leaves m))"
proof -
  obtain l where l: "restore_persisted_leaf sample_externals sample_leaf = Inr l"
      "logical_action_id l = ''old''" "length (fb_bytes (leaf_canonical l)) < 2000"
    using sample_restores by blast
  obtain json where json: "canonical_manifest_bytes [l] = Inr json"
    by (simp add: canonical_manifest_bytes_def)
  have "length json \<le> MAX_PERSISTED_MANIFEST_BYTES"
    using json l(3) by (auto simp: canonical_manifest_bytes_def MAX_PERSISTED_MANIFEST_BYTES_def
        ABSOLUTE_MAX_LEAVES_def MAX_PERSISTED_LEAF_BYTES_def)
  then have "\<exists>m. rebind_persisted_manifest_for_routine_occurrence sample_externals sample_slice json
       zero_digest [sample_binding] = Inr m"
    using l(1,2) json
    by (simp add: rebind_persisted_manifest_for_routine_occurrence_def parse_persisted_manifest_with_limit_def
        sample_slice_def restore_step_def freeze_def digest_bytes_def binding_step_def rebind_step_def
        sample_binding_def sample_identifiers sample_values ABSOLUTE_MAX_LEAVES_def
        canonical_manifest_bytes_def [of "[_]"])
  then obtain m where m: "rebind_persisted_manifest_for_routine_occurrence sample_externals sample_slice json
       zero_digest [sample_binding] = Inr m" by blast
  from rebind_changes_only_ids_and_targets [OF m] m show ?thesis by blast
qed

end
