(* ===== verification/ManifestCeiling.thy ===== *)
theory ManifestCeiling
  imports ManifestRebind
begin

text \<open>
  The compiler of \<^verbatim>\<open>crates/carsinos-core/src/execass_manifest.rs\<close> and the byte ceiling that
  its routine rebinding puts on a persisted manifest: a dispatch that compiles under the default
  limits and whose own canonical text the rebinding rejects.
\<close>

subsection \<open>The ceiling on persisted manifests\<close>

lemma length_commas: "sum_list (map length xs) \<le> length (commas xs)"
  by (induction xs rule: commas.induct) simp_all

lemma commas_bound:
  assumes "\<And>x. x \<in> set xs \<Longrightarrow> k \<le> length (f x)"
  shows "length xs * k \<le> length (commas (map f xs))"
proof -
  have "length xs * k \<le> sum_list (map length (map f xs))"
    using assms by (induction xs) (simp_all add: add_mono)
  then show ?thesis using length_commas [of "map f xs"] by linarith
qed

text \<open>A step through a shell whose command is of the admitted length and escapes six-fold.\<close>

definition escaped_shell_step :: "externals \<Rightarrow> CanonicalResolutionStep \<Rightarrow> bool" where
  "escaped_shell_step X step \<longleftrightarrow>
     (\<exists>i v c. step_descriptor step = IndirectionDescriptor.Shell i v c
        \<and> length c \<le> MAX_CANONICAL_STRING_BYTES
        \<and> 6 * MAX_CANONICAL_STRING_BYTES \<le> length (json_str X c))"

lemma escaped_step_length:
  "escaped_shell_step X step \<Longrightarrow> 6 * MAX_CANONICAL_STRING_BYTES \<le> length (canonical_resolution_step_bytes X step)"
  by (auto simp: escaped_shell_step_def canonical_resolution_step_bytes_def push_json_string_def)

lemma escaped_leaf_length:
  assumes "length (resolution_path l) = 31" and "list_all (escaped_shell_step X) (resolution_path l)"
  shows "31 * (6 * MAX_CANONICAL_STRING_BYTES) \<le> length (canonical_leaf_bytes X l)"
proof -
  have "31 * (6 * MAX_CANONICAL_STRING_BYTES)
      \<le> length (commas (map (canonical_resolution_step_bytes X) (resolution_path l)))"
    using commas_bound [of "resolution_path l" "6 * MAX_CANONICAL_STRING_BYTES"
        "canonical_resolution_step_bytes X"] assms
    by (simp add: escaped_step_length list_all_iff)
  then show ?thesis by (simp add: canonical_leaf_bytes_def)
qed

lemma long_manifest_rejected:
  assumes "length ls = 128"
    and "\<And>l. l \<in> set ls \<Longrightarrow> leaf_canonical l = freeze X (canonical_leaf_bytes X l)
          \<and> length (resolution_path l) = 31 \<and> list_all (escaped_shell_step X) (resolution_path l)"
    and "canonical_manifest_bytes ls = Inr json" and "parse_digest expected = Inr digest"
  shows "MAX_PERSISTED_MANIFEST_BYTES < length json
     \<and> rebind_persisted_manifest_for_routine_occurrence X from_slice json expected bs
       = Inl ''persisted manifest exceeds byte limit''"
proof -
  have leaf: "31 * (6 * MAX_CANONICAL_STRING_BYTES) \<le> length (fb_bytes (leaf_canonical l))" if "l \<in> set ls" for l
    using escaped_leaf_length [of l X] assms(2) [OF that] by (simp add: freeze_def)
  have "128 * (31 * (6 * MAX_CANONICAL_STRING_BYTES)) \<le> length (commas (map (fb_bytes \<circ> leaf_canonical) ls))"
    using commas_bound [of ls "31 * (6 * MAX_CANONICAL_STRING_BYTES)" "fb_bytes \<circ> leaf_canonical"]
      leaf assms(1) by simp
  then have "MAX_PERSISTED_MANIFEST_BYTES < length json"
    using assms(3) by (auto simp: canonical_manifest_bytes_def MAX_PERSISTED_MANIFEST_BYTES_def
        MAX_PERSISTED_LEAF_BYTES_def ABSOLUTE_MAX_LEAVES_def ABSOLUTE_MAX_DEPTH_def
        MAX_CANONICAL_VALUE_BYTES_def MAX_JSON_ESCAPED_IDENTIFIER_BYTES_def MAX_IDENTIFIER_BYTES_def
        MAX_CANONICAL_STRING_BYTES_def split: if_splits)
  then show ?thesis
    using assms(4) by (simp add: rebind_persisted_manifest_for_routine_occurrence_def
        parse_persisted_manifest_with_limit_def)
qed

subsection \<open>A dispatch within the limits\<close>

text \<open>160 nodes named by runs of one letter: 31 shells, each leading to the next node, then a
  composite of 128 leaves. Every shell's command has the longest admitted length and consists of a
  control character.\<close>

definition nth_name :: "nat \<Rightarrow> string" where
  "nth_name k = replicate (Suc k) CHR ''a''"

definition long_command :: string where
  "long_command = replicate (16 * 1024) (char_of (1::nat))"

definition chain_leaf :: "VerifiedOwnerAuthority \<Rightarrow> nat \<Rightarrow> ResolvedLeafInput" where
  "chain_leaf auth k = \<lparr>in_logical_action_id = nth_name k, in_action_kind = ''send'',
     in_tool = \<lparr>tool_id = ''t'', tool_version = ''1''\<rparr>, in_operands = Null,
     in_target_snapshot = [Null], in_material_digest = None, in_owner_authority = auth\<rparr>"

definition leaf_range :: "nat list" where
  "leaf_range = [32..<160]"

lemma leaf_range [simp]: "set leaf_range = {32..<160}" "length leaf_range = 128" "distinct leaf_range"
    "leaf_range \<noteq> []"
  by (simp_all add: leaf_range_def del: upt_rec_numeral)

definition chain_action :: "VerifiedOwnerAuthority \<Rightarrow> nat \<Rightarrow> DispatchAction" where
  "chain_action auth k =
     (if k < 31 then DispatchAction.Shell (nth_name k) ''1'' long_command
      else if k = 31 then Composite (map nth_name leaf_range)
      else ResolvedLeaf (chain_leaf auth k))"

definition chain_tree :: "VerifiedOwnerAuthority \<Rightarrow> DispatchTree" where
  "chain_tree auth = \<lparr>root_id = nth_name 0,
     nodes = map (\<lambda>k. \<lparr>dn_node_id = nth_name k, dn_action = chain_action auth k\<rparr>) [0..<160]\<rparr>"

definition chain_entry :: "nat \<Rightarrow> ServerResolutionEntryInput" where
  "chain_entry k = \<lparr>re_descriptor = IndirectionDescriptor.Shell (nth_name k) ''1'' long_command,
     re_target_node_id = nth_name (Suc k), re_resolver_id = ''r'', re_resolver_version = ''1'',
     re_resolution_material_digest = zero_digest\<rparr>"

definition chain_target :: "nat \<Rightarrow> ResolutionTarget" where
  "chain_target k = \<lparr>rt_target_node_id = nth_name (Suc k), rt_resolver_id = ''r'',
     rt_resolver_version = ''1'', rt_resolution_material_digest = zero_digest\<rparr>"

definition chain_step :: "nat \<Rightarrow> CanonicalResolutionStep" where
  "chain_step k = step_of (IndirectionDescriptor.Shell (nth_name k) ''1'' long_command) (chain_target k)"

definition chain_pairs :: "(IndirectionDescriptor \<times> ResolutionTarget) list" where
  "chain_pairs = map (\<lambda>k. (IndirectionDescriptor.Shell (nth_name k) ''1'' long_command, chain_target k)) [0..<31]"

lemma nth_name_eq [simp]: "nth_name j = nth_name k \<longleftrightarrow> j = k"
  by (simp add: nth_name_def)

lemma distinct_names: "distinct ns \<Longrightarrow> distinct (map nth_name ns)"
  by (simp add: distinct_map inj_on_def)

text \<open>Documented of Unicode normalization: visible ASCII text is in normal form.\<close>

definition keeps_ascii :: "externals \<Rightarrow> bool" where
  "keeps_ascii X \<longleftrightarrow> (\<forall>v. list_all visible v \<longrightarrow> nfc X v = v)"

text \<open>Documented of JSON: a control character is written as six.\<close>

definition escapes_control :: "externals \<Rightarrow> bool" where
  "escapes_control X \<longleftrightarrow> (\<forall>n. 6 * n \<le> length (json_str X (replicate n (char_of (1::nat)))))"

lemma ascii_identifier:
  "keeps_ascii X \<Longrightarrow> list_all visible v \<Longrightarrow> v \<noteq> [] \<Longrightarrow> length v \<le> 256 \<Longrightarrow> normalized_identifier X v = Inr v"
  by (simp add: keeps_ascii_def normalized_identifier_def trim_visible MAX_IDENTIFIER_BYTES_def)

lemma nth_identifier:
  "keeps_ascii X \<Longrightarrow> k < 256 \<Longrightarrow> normalized_identifier X (nth_name k) = Inr (nth_name k)"
  by (rule ascii_identifier) (simp_all add: nth_name_def list_all_iff visible_def)

lemma chain_identifiers:
  "keeps_ascii X \<Longrightarrow> v \<in> {''send'', ''t'', ''1'', ''r''} \<Longrightarrow> normalized_identifier X v = Inr v"
  by (rule ascii_identifier) (auto simp: visible_def)

lemma chain_descriptor:
  "keeps_ascii X \<Longrightarrow> k < 256 \<Longrightarrow> normalized_descriptor X (IndirectionDescriptor.Shell (nth_name k) ''1'' long_command)
    = Inr (IndirectionDescriptor.Shell (nth_name k) ''1'' long_command)"
  by (simp add: nth_identifier chain_identifiers)
     (simp add: long_command_def MAX_CANONICAL_STRING_BYTES_def)

lemma null_operands:
  "canonical_value_bytes X Null = Inr ''null''"
  "canonical_targets_bytes X [Null] = Inr ''{\"targets\":[null]}''"
  by (simp_all add: canonical_targets_bytes_def canonical_value_bytes_def canonical_value_into.simps
      MAX_CANONICAL_VALUE_DEPTH_def MAX_CANONICAL_VALUE_BYTES_def)

subsection \<open>Its registry and its lookup\<close>

lemma rmap_Inr_map: "(\<And>x. x \<in> set xs \<Longrightarrow> f (h x) = Inr (g x)) \<Longrightarrow> rmap f (map h xs) = Inr (map g xs)"
  by (induction xs) simp_all

lemma chain_registry:
  assumes "keeps_ascii X"
  shows "registry_try_new X (map chain_entry [0..<31]) = Inr (grouped chain_pairs)"
proof -
  have "rmap (normalized_entry X) (map chain_entry [0..<31]) = Inr chain_pairs"
    unfolding chain_pairs_def
    by (rule rmap_Inr_map) (simp add: normalized_entry_def chain_entry_def chain_target_def
        chain_descriptor [OF assms] nth_identifier [OF assms] chain_identifiers [OF assms]
        del: normalized_descriptor.simps)
  moreover have "distinct chain_pairs"
    by (simp add: chain_pairs_def distinct_map inj_on_def)
  ultimately show ?thesis by (auto simp: registry_grouped)
qed

lemma chain_target_of:
  assumes "k < 31"
  shows "grouped chain_pairs (IndirectionDescriptor.Shell (nth_name k) ''1'' long_command) = Some [chain_target k]"
proof -
  have "filter (\<lambda>j. j = k) [0..<n] = (if k < n then [k] else [])" for n
    by (induction n) auto
  then have "targets_of chain_pairs (IndirectionDescriptor.Shell (nth_name k) ''1'' long_command) = [chain_target k]"
    using assms by (simp add: targets_of_def chain_pairs_def filter_map comp_def del: upt_rec_numeral)
  then show ?thesis by (simp add: grouped_def)
qed

lemma lookup_built:
  assumes "\<And>v. v \<in> set ns \<Longrightarrow> normalized_identifier X (dn_node_id v) = Inr (dn_node_id v)"
    and "distinct (map dn_node_id ns)" and "dom m \<inter> set (map dn_node_id ns) = {}"
  shows "\<exists>lk. build_lookup X ns i m = Inr lk \<and> m \<subseteq>\<^sub>m lk
    \<and> (\<forall>j < length ns. lk (dn_node_id (ns ! j)) = Some (i + j))"
  using assms
proof (induction ns arbitrary: i m)
  case (Cons v ns)
  have fresh: "m (dn_node_id v) = None" using Cons.prems(3) by (auto simp: dom_def)
  have names: "dom (m(dn_node_id v \<mapsto> i)) \<inter> set (map dn_node_id ns) = {}"
    using Cons.prems(2,3) by auto
  obtain lk where lk: "build_lookup X ns (i + 1) (m(dn_node_id v \<mapsto> i)) = Inr lk"
      "m(dn_node_id v \<mapsto> i) \<subseteq>\<^sub>m lk" "\<forall>j < length ns. lk (dn_node_id (ns ! j)) = Some (i + 1 + j)"
    using Cons.IH [where m = "m(dn_node_id v \<mapsto> i)" and i = "i + 1"] Cons.prems(1,2)
      names by (auto simp del: fun_upd_apply)
  have "lk (dn_node_id v) = Some i" "m \<subseteq>\<^sub>m lk"
    using lk(2) fresh by (auto simp: map_le_def dom_def)
  then show ?case
    using lk(1,3) Cons.prems(1) [of v] fresh by (auto simp: nth_Cons split: nat.splits)
qed simp

lemma chain_lookup:
  assumes "keeps_ascii X"
  shows "\<exists>lk. build_lookup X (nodes (chain_tree auth)) 0 Map.empty = Inr lk
    \<and> (\<forall>k < 160. lk (nth_name k) = Some k)"
proof -
  have "\<exists>lk. build_lookup X (nodes (chain_tree auth)) 0 Map.empty = Inr lk \<and> Map.empty \<subseteq>\<^sub>m lk
      \<and> (\<forall>j < length (nodes (chain_tree auth)). lk (dn_node_id (nodes (chain_tree auth) ! j)) = Some (0 + j))"
    by (rule lookup_built)
       (auto simp: chain_tree_def nth_identifier [OF assms] comp_def distinct_names simp del: upt_rec_numeral)
  then show ?thesis by (fastforce simp: chain_tree_def)
qed

subsection \<open>Its expansion\<close>

definition chain_path :: "nat \<Rightarrow> CanonicalResolutionStep list" where
  "chain_path k = map chain_step [0..<k]"

definition chain_result :: "externals \<Rightarrow> CanonicalOwnerAuthority \<Rightarrow> nat \<Rightarrow> CanonicalLeafAction" where
  "chain_result X a k = refreeze_leaf X
     \<lparr>node_id = nth_name k, logical_action_id = nth_name k, action_kind = ''send'',
      tool = \<lparr>tool_id = ''t'', tool_version = ''1''\<rparr>, operands = freeze X ''null'',
      target_snapshot = freeze X ''{\"targets\":[null]}'', material_digest = None,
      resolution_path = chain_path 31, owner_authority = a, leaf_canonical = freeze X []\<rparr>"

lemma chain_result_fields [simp]:
  "logical_action_id (chain_result X a k) = nth_name k"
  "resolution_path (chain_result X a k) = chain_path 31"
  "leaf_canonical (chain_result X a k) = freeze X (canonical_leaf_bytes X (chain_result X a k))"
  by (simp_all add: chain_result_def refreeze_leaf_def canonical_leaf_bytes_def)

lemma chain_canonical_leaf:
  assumes "keeps_ascii X" and "canonicalize_owner_authority X auth = Inr a" and "k < 256"
  shows "canonical_leaf X (nth_name k) (chain_leaf auth k) (chain_path 31) = Inr (chain_result X a k)"
  by (simp add: canonical_leaf_def chain_leaf_def chain_result_def nth_identifier [OF assms(1,3)]
      chain_identifiers [OF assms(1)] null_operands assms(2))

text \<open>The compiler's input: any lookup that numbers the nodes.\<close>

definition chain_input :: "externals \<Rightarrow> VerifiedOwnerAuthority \<Rightarrow> (string \<rightharpoonup> nat) \<Rightarrow> CompilerInput" where
  "chain_input X auth lk = compiler_input X (chain_tree auth) (grouped chain_pairs) lk"

lemma chain_input_simps [simp]:
  "ext (chain_input X auth lk) = X" "lookup (chain_input X auth lk) = lk"
  "max_depth (limits (chain_input X auth lk)) = 32"
  "resolutions (chain_input X auth lk) = grouped chain_pairs"
  "k < 160 \<Longrightarrow> dn_action (tree_nodes (chain_input X auth lk) ! k) = chain_action auth k"
  by (simp_all add: chain_input_def compiler_input_def default_limits_def chain_tree_def del: upt_rec_numeral)

lemma chain_leaf_expands:
  assumes "keeps_ascii X" and "canonicalize_owner_authority X auth = Inr a"
    and "lk (nth_name k) = Some k" and "32 \<le> k" and "k < 160"
  shows "expands (chain_input X auth lk) (chain_path 31) 32 (nth_name k) [chain_result X a k] 1"
proof (rule expands_present_expand_all.named)
  show "present (chain_input X auth lk) (chain_path 31) 32 (nth_name k) [chain_result X a k] 1"
    using assms chain_canonical_leaf [OF assms(1,2)]
    by (intro expands_present_expand_all.leaf) (auto simp: chain_action_def)
qed (use assms in \<open>simp_all add: nth_identifier\<close>)

lemma expand_leaves:
  assumes "\<And>k. k \<in> set ks \<Longrightarrow> expands C path d (f k) [g k] 1"
  shows "expand_all C path d (map f ks) (map g ks) (length ks)"
  using assms
proof (induction ks)
  case (Cons k ks)
  have "expands C path d (f k) [g k] 1" "expand_all C path d (map f ks) (map g ks) (length ks)"
    using Cons by simp_all
  then have "expand_all C path d (f k # map f ks) ([g k] @ map g ks) (1 + length ks)"
    by (rule expands_present_expand_all.all_cons)
  then show ?case by simp
qed (simp add: expands_present_expand_all.all_nil)

lemma chain_expands:
  assumes "keeps_ascii X" and "canonicalize_owner_authority X auth = Inr a"
    and "\<forall>k < 160. lk (nth_name k) = Some k" and "k \<le> 31"
  shows "expands (chain_input X auth lk) (chain_path k) k (nth_name k)
     (map (chain_result X a) leaf_range) (160 - k)"
  using assms(4)
proof (induction k rule: inc_induct)
  case base
  have "expand_all (chain_input X auth lk) (chain_path 31) 32 (map nth_name leaf_range)
      (map (chain_result X a) leaf_range) (length leaf_range)"
    using assms(1-3) by (intro expand_leaves chain_leaf_expands) auto
  then have "present (chain_input X auth lk) (chain_path 31) 31 (nth_name 31)
      (map (chain_result X a) leaf_range) (Suc 128)"
    using assms(3) chain_input_simps(5) [of 31 X auth lk]
    by (intro expands_present_expand_all.composite [where i = 31]) (simp_all add: chain_action_def)
  then show ?case
    using assms(1) by (intro expands_present_expand_all.named) (simp_all add: nth_identifier)
next
  case (step k)
  have "present (chain_input X auth lk) (chain_path k) k (nth_name k)
      (map (chain_result X a) leaf_range) (Suc (160 - Suc k))"
  proof (rule expands_present_expand_all.indirect [where i = k and k = ShellKind])
    show "descriptor_for_action (ext (chain_input X auth lk)) (nth_name k)
        (IndirectionDescriptor.Shell (nth_name k) ''1'' long_command)
      = Inr (IndirectionDescriptor.Shell (nth_name k) ''1'' long_command)"
      using step.hyps by (simp add: descriptor_for_action_def chain_descriptor [OF assms(1)]
          del: normalized_descriptor.simps)
    show "expands (chain_input X auth lk)
        (chain_path k @ [step_of (IndirectionDescriptor.Shell (nth_name k) ''1'' long_command) (chain_target k)])
        (Suc k) (rt_target_node_id (chain_target k)) (map (chain_result X a) leaf_range) (160 - Suc k)"
      using step.IH by (simp add: chain_path_def chain_step_def chain_target_def)
  qed (use step.hyps assms(3) chain_input_simps(5) [of k X auth lk] in
      \<open>simp_all add: chain_action_def chain_target_of\<close>)
  moreover have "Suc (160 - Suc k) = 160 - k" using step.hyps by simp
  ultimately show ?case
    using assms(1) step.hyps
    by (intro expands_present_expand_all.named) (simp_all add: nth_identifier)
qed

lemma command_escapes:
  assumes "escapes_control X"
  shows "6 * MAX_CANONICAL_STRING_BYTES \<le> length (json_str X long_command)"
    and "length long_command \<le> MAX_CANONICAL_STRING_BYTES"
  using assms [unfolded escapes_control_def, rule_format, of "16 * 1024"]
  by (simp_all only: long_command_def MAX_CANONICAL_STRING_BYTES_def length_replicate)

lemma chain_steps_escape:
  "escapes_control X \<Longrightarrow> list_all (escaped_shell_step X) (chain_path 31) \<and> length (chain_path 31) = 31"
  using command_escapes [of X]
  by (auto simp: chain_path_def chain_step_def step_of_def escaped_shell_step_def list_all_iff
      simp del: upt_rec_numeral)

text \<open>C32: the byte ceiling of persisted manifests does not cover the compiler's output. Whatever
  owner authority the leaves carry, as long as it has a canonical form, there are registry entries
  and a dispatch that the compiler turns into a manifest under its default limits, of 128 leaves
  with distinct logical actions, and whose canonical text is longer than
  \<open>MAX_PERSISTED_MANIFEST_BYTES\<close>: rebinding that very text under its own digest is rejected for its
  length, with whatever bindings. The facts used of third-party code: visible ASCII text is in
  normal form, a control character is escaped by six, and a digest has 32 bytes.\<close>

theorem persisted_ceiling_too_low:
  assumes "keeps_ascii X" and "escapes_control X" and "\<And>b. length (sha256 X b) = 32"
    and "canonicalize_owner_authority X auth = Inr a"
  shows "\<exists>entries registry tree m. registry_try_new X entries = Inr registry
    \<and> compile_dispatch X tree registry = Ready m
    \<and> length (leaves m) = 128 \<and> (\<forall>l \<in> set (leaves m). owner_authority l = a)
    \<and> MAX_PERSISTED_MANIFEST_BYTES < length (fb_bytes (manifest_canonical m))
    \<and> (\<forall>from_slice bs. rebind_persisted_manifest_for_routine_occurrence X from_slice
         (fb_bytes (manifest_canonical m)) (fb_digest (manifest_canonical m)) bs
       = Inl ''persisted manifest exceeds byte limit'')"
proof -
  let ?ls = "map (chain_result X a) leaf_range"
  obtain lk where lk: "build_lookup X (nodes (chain_tree auth)) 0 Map.empty = Inr lk"
      "\<forall>k < 160. lk (nth_name k) = Some k"
    using chain_lookup [OF assms(1)] by blast
  obtain json where json: "canonical_manifest_bytes ?ls = Inr json"
    by (auto simp: canonical_manifest_bytes_def simp del: upt_rec_numeral)
  define m where "m = \<lparr>leaves = ?ls, manifest_canonical = freeze X json\<rparr>"
  have "expands (compiler_input X (chain_tree auth) (grouped chain_pairs) lk) [] 0 (nth_name 0) ?ls 160"
    using chain_expands [OF assms(1,4) lk(2), of 0] by (simp add: chain_path_def chain_input_def del: upt_rec_numeral)
  moreover have "distinct (leaf_ids ?ls)" using distinct_names by (simp add: comp_def del: upt_rec_numeral)
  ultimately have ready: "compile_dispatch X (chain_tree auth) (grouped chain_pairs) = Ready m"
    using nth_identifier [OF assms(1), of 0] lk(1) json unfolding compile_ready m_def
    by (intro exI [of _ "nth_name 0"] exI [of _ lk] exI [of _ "160::nat"])
       (simp add: chain_tree_def freeze_def del: upt_rec_numeral)
  have digest: "parse_digest (fb_digest (manifest_canonical m)) = Inr (sha256_hex X json)"
    using parse_digest_lower [of "sha256_hex X json"] assms(3)
    by (simp add: m_def freeze_def digest_bytes_def is_lower_hex_digest_def sha256_hex_def hex_encode_lower)
  have "MAX_PERSISTED_MANIFEST_BYTES < length json
      \<and> rebind_persisted_manifest_for_routine_occurrence X from_slice json
          (fb_digest (manifest_canonical m)) bs = Inl ''persisted manifest exceeds byte limit''"
    for from_slice bs
    by (rule long_manifest_rejected [OF _ _ json digest])
       (use chain_steps_escape [OF assms(2)] in \<open>auto simp del: upt_rec_numeral\<close>)
  then show ?thesis
    using ready chain_registry [OF assms(1)]
    by (intro exI [of _ "map chain_entry [0..<31]"] exI [of _ "grouped chain_pairs"]
        exI [of _ "chain_tree auth"] exI [of _ m])
       (auto simp: m_def freeze_def chain_result_def refreeze_leaf_def simp del: upt_rec_numeral)
qed

subsection \<open>Witness\<close>

text \<open>An instance that writes every byte of a text as six, and an authority under it.\<close>

definition escaping_externals :: externals where
  "escaping_externals = sample_externals\<lparr>json_to_string :=
     (\<lambda>j. case j of JString v \<Rightarrow> concat (map (\<lambda>c. replicate 6 c) v) | _ \<Rightarrow> [])\<rparr>"

definition escaping_authority :: VerifiedOwnerAuthority where
  "escaping_authority = \<lparr>
     va_evidence = Local ''t'' ''t'' ''t'' ''t'' None, va_authority_provenance_id = ''t'',
     va_normalized_intent_digest = zero_digest, va_instruction_revision = ''1'',
     va_instruction_digest = zero_digest, va_owner_envelope_revision = ''1'',
     va_owner_envelope_digest = zero_digest, va_authority_kind = ''t'',
     va_normalized_scope_json = ''null'', va_policy_revision = 1, va_bound_decision_id = None,
     va_bound_decision_revision = None, va_bound_manifest_digest = None,
     va_bound_challenge_nonce_digest = None, va_evidence_digest = zero_digest, va_created_at = 5,
     va_expires_at = None\<rparr>"

lemma escaping_keeps_ascii: "keeps_ascii escaping_externals"
  by (simp add: keeps_ascii_def escaping_externals_def sample_externals_def raw_externals_def)

lemma escaping_escapes: "escapes_control escaping_externals"
  by (simp add: escapes_control_def json_str_def escaping_externals_def length_concat sum_list_replicate)

theorem persisted_ceiling_too_low_witness:
  "\<exists>registry tree m. compile_dispatch escaping_externals tree registry = Ready m
     \<and> rebind_persisted_manifest_for_routine_occurrence escaping_externals sample_slice
         (fb_bytes (manifest_canonical m)) (fb_digest (manifest_canonical m)) []
       = Inl ''persisted manifest exceeds byte limit''"
proof -
  have "length (sha256 escaping_externals b) = 32" for b
    by (simp add: escaping_externals_def sample_externals_def)
  moreover have "\<exists>a. canonicalize_owner_authority escaping_externals escaping_authority = Inr a"
    by (simp add: canonicalize_owner_authority_def escaping_authority_def
        chain_identifiers [OF escaping_keeps_ascii] MAX_CANONICAL_VALUE_BYTES_def)
  then obtain a where "canonicalize_owner_authority escaping_externals escaping_authority = Inr a" by blast
  ultimately show ?thesis
    using persisted_ceiling_too_low [OF escaping_keeps_ascii escaping_escapes] by blast
qed

end
