(* ===== verification/Authority.thy ===== *)
theory Authority
  imports OperationalProfile Manifest
begin

text \<open>
  Authority precedence of \<^verbatim>\<open>crates/carsinos-core/src/execass_policy.rs\<close>: the objective technical
  validity of one frozen leaf, the evaluator that orders the pauses before the authority
  source, and the entry point that authorizes a leaf for the very owner authority frozen in it.
\<close>

datatype AuthoritySource =
    CurrentExactOwnerInstruction | CurrentExactOwnerPolicyAmendment | SavedOwnerInstruction
  | DerivedOrUnattended | NonHumanOnly

datatype TechnicalValidity =
    Valid | ActionIdentityUnresolved | CapabilityUnavailable | OperandUnresolved
  | RuntimePreconditionUnmet | TransactionOrFencingInvalid | ReconciliationUnavailable
  | ResourceUnavailable

datatype ActionIdentityResolution = Resolved | Unresolved
datatype OperandResolution = Resolved | Unresolved
datatype CapabilityAvailability = Available | Unavailable
datatype RuntimePreconditionState = Met | Unmet
datatype TransactionFencingState = Valid | Invalid
datatype ReconciliationAvailability = Available | Unavailable
datatype ResourceAvailability = Available | Unavailable

record ObjectiveTechnicalValidityFacts =
  action_identity :: ActionIdentityResolution
  tv_operands :: OperandResolution
  capability :: CapabilityAvailability
  runtime_precondition :: RuntimePreconditionState
  transaction_and_fencing :: TransactionFencingState
  reconciliation :: ReconciliationAvailability
  resources :: ResourceAvailability

record OwnerEnvelopeState =
  frozen_version_matches :: bool
  action_within_envelope :: bool

record AuthorityEvaluationInput =
  stopped :: bool
  revoked :: bool
  superseded_by_owner_amendment :: bool
  technical_validity :: TechnicalValidity
  authority_source :: AuthoritySource
  owner_envelope :: "OwnerEnvelopeState option"
  operational_profile :: "OperationalProfileInput option"

datatype PauseReason =
    Stopped | Revoked | SupersededByOwnerAmendment | TechnicalValidity TechnicalValidity
  | OwnerEnvelopeRequired | OwnerEnvelopeVersionMismatch | ActionOutsideOwnerEnvelope
  | ProfileSelectionRequired

datatype AuthorityEvaluation =
    Paused PauseReason
  | AuthorizedExactOwnerInstruction
  | AuthorizedExactOwnerPolicyAmendment
  | AuthorizedSavedOwnerInstruction
  | AuthorizedDerivedOrUnattended CanonicalOperationalPolicy
  | NoOwnerAuthority

datatype ExactOwnerAuthorityKind = Instruction | OperationalPolicyAmendment

record ObjectiveTechnicalValidityProof =
  tp_canonical_leaf_digest :: Sha256Digest
  tp_validity :: TechnicalValidity

definition leaf_digest :: "CanonicalLeafAction \<Rightarrow> Sha256Digest" where
  "leaf_digest leaf = fb_digest (leaf_canonical leaf)"

definition validity_proof_matches :: "ObjectiveTechnicalValidityProof \<Rightarrow> CanonicalLeafAction \<Rightarrow> bool" where
  "validity_proof_matches p leaf \<longleftrightarrow> tp_canonical_leaf_digest p = leaf_digest leaf"

definition objective_validity :: "ObjectiveTechnicalValidityFacts \<Rightarrow> TechnicalValidity" where
  "objective_validity facts =
     (if action_identity facts = ActionIdentityResolution.Unresolved then ActionIdentityUnresolved
      else if tv_operands facts = OperandResolution.Unresolved then OperandUnresolved
      else if capability facts = CapabilityAvailability.Unavailable then CapabilityUnavailable
      else if runtime_precondition facts = Unmet then RuntimePreconditionUnmet
      else if transaction_and_fencing facts = Invalid then TransactionOrFencingInvalid
      else if reconciliation facts = ReconciliationAvailability.Unavailable then ReconciliationUnavailable
      else if resources facts = ResourceAvailability.Unavailable then ResourceUnavailable
      else TechnicalValidity.Valid)"

definition evaluate_objective_technical_validity ::
    "CanonicalLeafAction \<Rightarrow> ObjectiveTechnicalValidityFacts \<Rightarrow> ObjectiveTechnicalValidityProof" where
  "evaluate_objective_technical_validity leaf facts =
     \<lparr>tp_canonical_leaf_digest = leaf_digest leaf, tp_validity = objective_validity facts\<rparr>"

definition usable_owner_envelope :: "OwnerEnvelopeState option \<Rightarrow> PauseReason + OwnerEnvelopeState" where
  "usable_owner_envelope envelope_state =
     (case envelope_state of
        None \<Rightarrow> Inl OwnerEnvelopeRequired
      | Some envelope \<Rightarrow>
          if \<not> frozen_version_matches envelope then Inl OwnerEnvelopeVersionMismatch
          else if \<not> action_within_envelope envelope then Inl ActionOutsideOwnerEnvelope
          else Inr envelope)"

definition evaluate_authority :: "AuthorityEvaluationInput \<Rightarrow> AuthorityEvaluation" where
  "evaluate_authority input =
     (if stopped input then Paused Stopped
      else if revoked input then Paused Revoked
      else if superseded_by_owner_amendment input then Paused SupersededByOwnerAmendment
      else if technical_validity input \<noteq> TechnicalValidity.Valid
      then Paused (TechnicalValidity (technical_validity input))
      else case authority_source input of
        CurrentExactOwnerInstruction \<Rightarrow> AuthorizedExactOwnerInstruction
      | CurrentExactOwnerPolicyAmendment \<Rightarrow> AuthorizedExactOwnerPolicyAmendment
      | SavedOwnerInstruction \<Rightarrow>
          (case usable_owner_envelope (owner_envelope input) of
             Inr _ \<Rightarrow> AuthorizedSavedOwnerInstruction
           | Inl reason \<Rightarrow> Paused reason)
      | DerivedOrUnattended \<Rightarrow>
          (case usable_owner_envelope (owner_envelope input) of
             Inl reason \<Rightarrow> Paused reason
           | Inr _ \<Rightarrow>
               (case operational_profile input of
                  None \<Rightarrow> Paused ProfileSelectionRequired
                | Some profile \<Rightarrow>
                    AuthorizedDerivedOrUnattended (compile_operational_profile profile)))
      | NonHumanOnly \<Rightarrow> NoOwnerAuthority)"

record ExactOwnerAuthorityInput =
  ex_verified_owner_authority :: VerifiedOwnerAuthority
  ex_canonical_leaf :: CanonicalLeafAction
  ex_stopped :: bool
  ex_revoked :: bool
  ex_superseded_by_owner_amendment :: bool
  ex_technical_validity :: ObjectiveTechnicalValidityProof

record ExactOwnerActionAuthority =
  ea_kind :: ExactOwnerAuthorityKind
  ea_authority_provenance_id :: string
  ea_logical_action_id :: string
  ea_canonical_leaf_digest :: Sha256Digest

definition action_authority_matches ::
    "ExactOwnerActionAuthority \<Rightarrow> VerifiedOwnerAuthority \<Rightarrow> CanonicalLeafAction \<Rightarrow> bool" where
  "action_authority_matches a authority leaf \<longleftrightarrow>
     ea_authority_provenance_id a = va_authority_provenance_id authority
     \<and> ea_logical_action_id a = logical_action_id leaf
     \<and> ea_canonical_leaf_digest a = leaf_digest leaf"

datatype ExactOwnerAuthorityOutcome =
    Authorized ExactOwnerActionAuthority
  | Paused PauseReason
  | NoOwnerAuthority

definition exact_authority_kind ::
    "string \<Rightarrow> (AuthoritySource \<times> ExactOwnerAuthorityKind) option" where
  "exact_authority_kind kind =
     (if kind = ''original_request'' then Some (CurrentExactOwnerInstruction, Instruction)
      else if kind = ''policy_snapshot''
      then Some (CurrentExactOwnerPolicyAmendment, OperationalPolicyAmendment)
      else None)"

definition authorize_exact_owner_leaf ::
    "externals \<Rightarrow> ExactOwnerAuthorityInput \<Rightarrow> ExactOwnerAuthorityOutcome" where
  "authorize_exact_owner_leaf X input =
     (case canonicalize_owner_authority X (ex_verified_owner_authority input) of
        Inl _ \<Rightarrow> NoOwnerAuthority
      | Inr canonical_authority \<Rightarrow>
          if canonical_authority \<noteq> owner_authority (ex_canonical_leaf input) then NoOwnerAuthority
          else if \<not> validity_proof_matches (ex_technical_validity input) (ex_canonical_leaf input)
          then NoOwnerAuthority
          else case exact_authority_kind (va_authority_kind (ex_verified_owner_authority input)) of
            None \<Rightarrow> NoOwnerAuthority
          | Some (source, kind) \<Rightarrow>
              (case evaluate_authority
                 \<lparr>stopped = ex_stopped input, revoked = ex_revoked input,
                  superseded_by_owner_amendment = ex_superseded_by_owner_amendment input,
                  technical_validity = tp_validity (ex_technical_validity input),
                  authority_source = source, owner_envelope = None, operational_profile = None\<rparr> of
                 AuthorizedExactOwnerInstruction \<Rightarrow> Authorized
                   \<lparr>ea_kind = kind,
                    ea_authority_provenance_id =
                      va_authority_provenance_id (ex_verified_owner_authority input),
                    ea_logical_action_id = logical_action_id (ex_canonical_leaf input),
                    ea_canonical_leaf_digest = leaf_digest (ex_canonical_leaf input)\<rparr>
               | AuthorizedExactOwnerPolicyAmendment \<Rightarrow> Authorized
                   \<lparr>ea_kind = kind,
                    ea_authority_provenance_id =
                      va_authority_provenance_id (ex_verified_owner_authority input),
                    ea_logical_action_id = logical_action_id (ex_canonical_leaf input),
                    ea_canonical_leaf_digest = leaf_digest (ex_canonical_leaf input)\<rparr>
               | AuthorityEvaluation.Paused reason \<Rightarrow> Paused reason
               | _ \<Rightarrow> NoOwnerAuthority))"

subsection \<open>Lemmas\<close>

lemma usable_envelope_Inr:
  "usable_owner_envelope e = Inr v \<longleftrightarrow>
     e = Some v \<and> frozen_version_matches v \<and> action_within_envelope v"
  by (auto simp: usable_owner_envelope_def split: option.splits)

text \<open>Nothing pauses the action before its authority source is looked at.\<close>

definition unobstructed :: "AuthorityEvaluationInput \<Rightarrow> bool" where
  "unobstructed input \<longleftrightarrow> \<not> stopped input \<and> \<not> revoked input
     \<and> \<not> superseded_by_owner_amendment input \<and> technical_validity input = TechnicalValidity.Valid"

definition envelope_covers :: "AuthorityEvaluationInput \<Rightarrow> bool" where
  "envelope_covers input \<longleftrightarrow>
     (\<exists>e. owner_envelope input = Some e \<and> frozen_version_matches e \<and> action_within_envelope e)"

lemma two_valued:
  "(i \<noteq> ActionIdentityResolution.Unresolved) = (i = ActionIdentityResolution.Resolved)"
  "(j \<noteq> OperandResolution.Unresolved) = (j = OperandResolution.Resolved)"
  "(k \<noteq> CapabilityAvailability.Unavailable) = (k = CapabilityAvailability.Available)"
  "(l \<noteq> Unmet) = (l = Met)" "(m \<noteq> Invalid) = (m = TransactionFencingState.Valid)"
  "(n \<noteq> ReconciliationAvailability.Unavailable) = (n = ReconciliationAvailability.Available)"
  "(q \<noteq> ResourceAvailability.Unavailable) = (q = ResourceAvailability.Available)"
  subgoal by (cases i) simp_all
  subgoal by (cases j) simp_all
  subgoal by (cases k) simp_all
  subgoal by (cases l) simp_all
  subgoal by (cases m) simp_all
  subgoal by (cases n) simp_all
  subgoal by (cases q) simp_all
  done

lemma objective_validity_Valid:
  "objective_validity facts = TechnicalValidity.Valid \<longleftrightarrow>
     action_identity facts = ActionIdentityResolution.Resolved
     \<and> tv_operands facts = OperandResolution.Resolved
     \<and> capability facts = CapabilityAvailability.Available \<and> runtime_precondition facts = Met
     \<and> transaction_and_fencing facts = TransactionFencingState.Valid
     \<and> reconciliation facts = ReconciliationAvailability.Available
     \<and> resources facts = ResourceAvailability.Available"
  by (simp add: objective_validity_def two_valued [symmetric])

lemma exact_evaluation:
  "exact_authority_kind k = Some (source, kind) \<Longrightarrow>
   evaluate_authority \<lparr>stopped = s, revoked = r, superseded_by_owner_amendment = a,
     technical_validity = v, authority_source = source, owner_envelope = None,
     operational_profile = None\<rparr> =
   (if s then AuthorityEvaluation.Paused Stopped
    else if r then AuthorityEvaluation.Paused Revoked
    else if a then AuthorityEvaluation.Paused SupersededByOwnerAmendment
    else if v \<noteq> TechnicalValidity.Valid then AuthorityEvaluation.Paused (TechnicalValidity v)
    else case kind of Instruction \<Rightarrow> AuthorizedExactOwnerInstruction
         | OperationalPolicyAmendment \<Rightarrow> AuthorizedExactOwnerPolicyAmendment)"
  by (auto simp: exact_authority_kind_def evaluate_authority_def split: if_splits)

lemma exact_kind_Some:
  "exact_authority_kind k = Some (source, d) \<longleftrightarrow>
      (k = ''original_request'' \<and> source = CurrentExactOwnerInstruction \<and> d = Instruction)
      \<or> (k = ''policy_snapshot'' \<and> source = CurrentExactOwnerPolicyAmendment \<and> d = OperationalPolicyAmendment)"
  by (auto simp: exact_authority_kind_def)

lemma authorize_exact_iff:
  "authorize_exact_owner_leaf X input = Authorized a \<longleftrightarrow>
     canonicalize_owner_authority X (ex_verified_owner_authority input)
       = Inr (owner_authority (ex_canonical_leaf input))
     \<and> tp_canonical_leaf_digest (ex_technical_validity input) = leaf_digest (ex_canonical_leaf input)
     \<and> tp_validity (ex_technical_validity input) = TechnicalValidity.Valid
     \<and> \<not> ex_stopped input \<and> \<not> ex_revoked input \<and> \<not> ex_superseded_by_owner_amendment input
     \<and> (va_authority_kind (ex_verified_owner_authority input), ea_kind a)
         \<in> {(''original_request'', Instruction), (''policy_snapshot'', OperationalPolicyAmendment)}
     \<and> action_authority_matches a (ex_verified_owner_authority input) (ex_canonical_leaf input)"
proof (cases "exact_authority_kind (va_authority_kind (ex_verified_owner_authority input))")
  case None
  then have "va_authority_kind (ex_verified_owner_authority input) \<noteq> ''original_request''"
      "va_authority_kind (ex_verified_owner_authority input) \<noteq> ''policy_snapshot''"
    by (auto simp: exact_authority_kind_def split: if_splits)
  with None show ?thesis
    by (auto simp: authorize_exact_owner_leaf_def split: sum.splits)
next
  case (Some sd)
  obtain source d where sd: "sd = (source, d)" by force
  note kind = Some [unfolded sd]
  have "(va_authority_kind (ex_verified_owner_authority input), ea_kind a)
         \<in> {(''original_request'', Instruction), (''policy_snapshot'', OperationalPolicyAmendment)}
      \<longleftrightarrow> ea_kind a = d"
    using kind [unfolded exact_kind_Some] by auto
  then show ?thesis
    by (cases a; cases d)
       (auto simp: authorize_exact_owner_leaf_def validity_proof_matches_def
          action_authority_matches_def kind exact_evaluation [OF kind] split: sum.splits if_splits)
qed

subsection \<open>Properties\<close>

text \<open>The eight reasons to pause, each as a condition of the input alone, and their precedence.\<close>

definition needs_envelope :: "AuthorityEvaluationInput \<Rightarrow> bool" where
  "needs_envelope input \<longleftrightarrow> authority_source input \<in> {SavedOwnerInstruction, DerivedOrUnattended}"

fun obstacle :: "PauseReason \<Rightarrow> AuthorityEvaluationInput \<Rightarrow> bool" where
  "obstacle Stopped input \<longleftrightarrow> stopped input"
| "obstacle Revoked input \<longleftrightarrow> revoked input"
| "obstacle SupersededByOwnerAmendment input \<longleftrightarrow> superseded_by_owner_amendment input"
| "obstacle (TechnicalValidity v) input \<longleftrightarrow> technical_validity input = v \<and> v \<noteq> TechnicalValidity.Valid"
| "obstacle OwnerEnvelopeRequired input \<longleftrightarrow> needs_envelope input \<and> owner_envelope input = None"
| "obstacle OwnerEnvelopeVersionMismatch input \<longleftrightarrow> needs_envelope input
     \<and> (case owner_envelope input of None \<Rightarrow> False | Some e \<Rightarrow> \<not> frozen_version_matches e)"
| "obstacle ActionOutsideOwnerEnvelope input \<longleftrightarrow> needs_envelope input
     \<and> (case owner_envelope input of None \<Rightarrow> False | Some e \<Rightarrow> \<not> action_within_envelope e)"
| "obstacle ProfileSelectionRequired input \<longleftrightarrow>
     authority_source input = DerivedOrUnattended \<and> operational_profile input = None"

fun precedence :: "PauseReason \<Rightarrow> nat" where
  "precedence Stopped = 0"
| "precedence Revoked = 1"
| "precedence SupersededByOwnerAmendment = 2"
| "precedence (TechnicalValidity v) = 3"
| "precedence OwnerEnvelopeRequired = 4"
| "precedence OwnerEnvelopeVersionMismatch = 5"
| "precedence ActionOutsideOwnerEnvelope = 6"
| "precedence ProfileSelectionRequired = 7"

definition first_obstacle :: "PauseReason \<Rightarrow> AuthorityEvaluationInput \<Rightarrow> bool" where
  "first_obstacle r input \<longleftrightarrow> obstacle r input
     \<and> \<not> (\<exists>r'. obstacle r' input \<and> precedence r' < precedence r)"

lemma any_reason:
  "(\<exists>r. P r) \<longleftrightarrow> P Stopped \<or> P Revoked \<or> P SupersededByOwnerAmendment \<or> (\<exists>v. P (TechnicalValidity v))
     \<or> P OwnerEnvelopeRequired \<or> P OwnerEnvelopeVersionMismatch \<or> P ActionOutsideOwnerEnvelope
     \<or> P ProfileSelectionRequired"
  by (metis PauseReason.exhaust)

lemma pauses_for_first:
  "(evaluate_authority input = AuthorityEvaluation.Paused r) = first_obstacle r input"
  unfolding first_obstacle_def any_reason
  by (cases r; cases "authority_source input"; cases "owner_envelope input";
      cases "operational_profile input")
     (auto simp: evaluate_authority_def usable_owner_envelope_def needs_envelope_def)

lemma unobstructed_authorized:
  assumes "\<not> (\<exists>r. obstacle r input)"
  shows "evaluate_authority input = (case authority_source input of
      CurrentExactOwnerInstruction \<Rightarrow> AuthorizedExactOwnerInstruction
    | CurrentExactOwnerPolicyAmendment \<Rightarrow> AuthorizedExactOwnerPolicyAmendment
    | SavedOwnerInstruction \<Rightarrow> AuthorizedSavedOwnerInstruction
    | DerivedOrUnattended \<Rightarrow> AuthorizedDerivedOrUnattended
        (compile_operational_profile (the (operational_profile input)))
    | NonHumanOnly \<Rightarrow> AuthorityEvaluation.NoOwnerAuthority)"
  using assms unfolding any_reason
  by (cases "authority_source input"; cases "owner_envelope input"; cases "operational_profile input")
     (auto simp: evaluate_authority_def usable_owner_envelope_def needs_envelope_def)

lemma obstructed_paused:
  assumes "obstacle r input"
  shows "\<exists>r'. evaluate_authority input = AuthorityEvaluation.Paused r'"
proof -
  have "\<exists>r. obstacle r input" using assms by blast
  from exists_least_iff [THEN iffD1, of "\<lambda>n. \<exists>r. obstacle r input \<and> precedence r = n"] this
  obtain r' where "first_obstacle r' input" unfolding first_obstacle_def by blast
  then show ?thesis using pauses_for_first by blast
qed

text \<open>C33: precedence of the authority evaluator. It pauses for a reason exactly when that reason
  stands in the way and no reason of higher precedence does: a stop before a revocation, before a
  supersession, before an invalid technical state, reported as it is, before a missing, then an
  outdated, then a too narrow envelope, before a missing profile. What no reason obstructs is
  authorized by its source: an exact owner instruction or amendment, a saved instruction, or
  derived work under the compiled policy of its profile; a source that is not human never is.\<close>

theorem authority_precedence:
  "(evaluate_authority input = AuthorityEvaluation.Paused r \<longleftrightarrow>
      obstacle r input \<and> \<not> (\<exists>r'. obstacle r' input \<and> precedence r' < precedence r))
   \<and> (evaluate_authority input = AuthorizedExactOwnerInstruction \<longleftrightarrow>
        \<not> (\<exists>r'. obstacle r' input) \<and> authority_source input = CurrentExactOwnerInstruction)
   \<and> (evaluate_authority input = AuthorizedExactOwnerPolicyAmendment \<longleftrightarrow>
        \<not> (\<exists>r'. obstacle r' input) \<and> authority_source input = CurrentExactOwnerPolicyAmendment)
   \<and> (evaluate_authority input = AuthorizedSavedOwnerInstruction \<longleftrightarrow>
        \<not> (\<exists>r'. obstacle r' input) \<and> authority_source input = SavedOwnerInstruction)
   \<and> (evaluate_authority input = AuthorizedDerivedOrUnattended policy \<longleftrightarrow>
        \<not> (\<exists>r'. obstacle r' input) \<and> authority_source input = DerivedOrUnattended
        \<and> policy = compile_operational_profile (the (operational_profile input)))
   \<and> (evaluate_authority input = AuthorityEvaluation.NoOwnerAuthority \<longleftrightarrow>
        \<not> (\<exists>r'. obstacle r' input) \<and> authority_source input = NonHumanOnly)"
  using pauses_for_first [of input r] unobstructed_authorized [of input] obstructed_paused [of _ input]
  unfolding first_obstacle_def by (cases "authority_source input") fastforce+

text \<open>With no obstacle the four authorizations are exactly those of their sources.\<close>

lemma authorized_iff:
  "(evaluate_authority input = AuthorizedExactOwnerInstruction \<longleftrightarrow>
      unobstructed input \<and> authority_source input = CurrentExactOwnerInstruction)
   \<and> (evaluate_authority input = AuthorizedExactOwnerPolicyAmendment \<longleftrightarrow>
        unobstructed input \<and> authority_source input = CurrentExactOwnerPolicyAmendment)
   \<and> (evaluate_authority input = AuthorizedSavedOwnerInstruction \<longleftrightarrow>
        unobstructed input \<and> authority_source input = SavedOwnerInstruction \<and> envelope_covers input)
   \<and> (evaluate_authority input = AuthorizedDerivedOrUnattended policy \<longleftrightarrow>
        unobstructed input \<and> authority_source input = DerivedOrUnattended \<and> envelope_covers input
        \<and> (\<exists>p. operational_profile input = Some p \<and> policy = compile_operational_profile p))"
  by (auto simp: evaluate_authority_def unobstructed_def envelope_covers_def usable_owner_envelope_def
      split: AuthoritySource.splits option.splits if_splits)

text \<open>Exact-owner authorization. With a technical proof made for some leaf from observed facts, a
  leaf is authorized exactly when the owner authority presented canonicalizes to the one frozen
  in the leaf, the proof was made for a leaf with the same digest, all seven facts hold, nothing
  stopped, revoked or superseded it, and the authority is an original request or a policy
  snapshot; what is issued then names this authority's provenance, this action and this leaf's
  digest. No operational profile and no envelope takes part.\<close>

theorem exact_owner_leaf_authorized:
  "authorize_exact_owner_leaf X
      (input\<lparr>ex_technical_validity := evaluate_objective_technical_validity proven facts\<rparr>) = Authorized a
   \<longleftrightarrow>
     canonicalize_owner_authority X (ex_verified_owner_authority input)
       = Inr (owner_authority (ex_canonical_leaf input))
     \<and> leaf_digest proven = leaf_digest (ex_canonical_leaf input)
     \<and> action_identity facts = ActionIdentityResolution.Resolved
     \<and> tv_operands facts = OperandResolution.Resolved
     \<and> capability facts = CapabilityAvailability.Available \<and> runtime_precondition facts = Met
     \<and> transaction_and_fencing facts = TransactionFencingState.Valid
     \<and> reconciliation facts = ReconciliationAvailability.Available
     \<and> resources facts = ResourceAvailability.Available
     \<and> \<not> ex_stopped input \<and> \<not> ex_revoked input \<and> \<not> ex_superseded_by_owner_amendment input
     \<and> (va_authority_kind (ex_verified_owner_authority input), ea_kind a)
         \<in> {(''original_request'', Instruction), (''policy_snapshot'', OperationalPolicyAmendment)}
     \<and> action_authority_matches a (ex_verified_owner_authority input) (ex_canonical_leaf input)"
  by (simp add: authorize_exact_iff evaluate_objective_technical_validity_def objective_validity_Valid)

end
