(* ===== verification/Registration.thy ===== *)
theory Registration
  imports Prelude
begin

text \<open>
  The loop that several components of the code share: it takes the elements of a vector one by
  one, rejects an inadmissible one and one whose identity was seen before, and keeps the others
  in order. The interface states one step; what the whole loop accepts and that the order of
  its input does not decide acceptance are proved from it once.
\<close>

locale unique_loop =
  fixes step :: "'a list \<Rightarrow> 'a \<Rightarrow> 'e + 'a list"
    and admissible :: "'a \<Rightarrow> bool"
    and key :: "'a \<Rightarrow> 'k"
  assumes step_Inr:
    "step acc x = Inr acc' \<longleftrightarrow> admissible x \<and> key x \<notin> set (map key acc) \<and> acc' = acc @ [x]"
begin

lemma loop_from:
  "distinct (map key acc) \<Longrightarrow> rfold step acc xs = Inr ys \<longleftrightarrow>
     ys = acc @ xs \<and> list_all admissible xs \<and> distinct (map key (acc @ xs))"
proof (induction xs arbitrary: acc)
  case Nil
  then show ?case by auto
next
  case (Cons x xs)
  show ?case
  proof (cases "admissible x \<and> key x \<notin> set (map key acc)")
    case True
    then have "step acc x = Inr (acc @ [x])" by (simp add: step_Inr)
    moreover have "distinct (map key (acc @ [x]))" using True Cons.prems by auto
    ultimately show ?thesis using Cons.IH [of "acc @ [x]"] True by simp
  next
    case False
    then have "\<nexists>acc'. step acc x = Inr acc'" by (auto simp: step_Inr)
    then show ?thesis using False by (auto simp: image_iff)
  qed
qed

lemma loop_Inr:
  "rfold step [] xs = Inr ys \<longleftrightarrow> ys = xs \<and> list_all admissible xs \<and> distinct (map key xs)"
  by (simp add: loop_from)

lemma loop_perm:
  assumes "rfold step [] xs = Inr ys" and "mset xs = mset zs"
  shows "rfold step [] zs = Inr zs"
proof -
  have "list_all admissible zs" "distinct (map key zs)"
    using assms by (auto simp: loop_Inr list_all_iff dest: mset_eq_setD)
      (metis mset_map mset_eq_imp_distinct_iff)
  then show ?thesis by (simp add: loop_Inr)
qed

end

end
