(* ===== verification/Quota.thy ===== *)
theory Quota
  imports Externals Registration
begin

text \<open>
  Technical quota of \<^verbatim>\<open>crates/carsinos-core/src/execass_policy.rs\<close>: the snapshot of limits per
  resource kind and unit, the requirements of one effect against it, and the canonical units of
  connector calls and resources. Errors are the messages the code returns.
\<close>

subsection \<open>Resource kinds\<close>

datatype TechnicalResourceKind = Tokens | TimeMs | ConnectorCalls | ResourceUnits

text \<open>The derived \<open>Ord\<close> is the order of the variants.\<close>

fun kind_rank :: "TechnicalResourceKind \<Rightarrow> nat" where
  "kind_rank Tokens = 0"
| "kind_rank TimeMs = 1"
| "kind_rank ConnectorCalls = 2"
| "kind_rank ResourceUnits = 3"

lemma kind_rank_inj [simp]: "kind_rank a = kind_rank b \<longleftrightarrow> a = b"
  by (cases a; cases b) simp_all

instantiation TechnicalResourceKind :: linorder
begin

definition less_eq_TechnicalResourceKind :: "TechnicalResourceKind \<Rightarrow> TechnicalResourceKind \<Rightarrow> bool" where
  "less_eq_TechnicalResourceKind a b \<longleftrightarrow> kind_rank a \<le> kind_rank b"

definition less_TechnicalResourceKind :: "TechnicalResourceKind \<Rightarrow> TechnicalResourceKind \<Rightarrow> bool" where
  "less_TechnicalResourceKind a b \<longleftrightarrow> kind_rank a < kind_rank b"

instance
  by standard (auto simp: less_eq_TechnicalResourceKind_def less_TechnicalResourceKind_def
      dest: antisym)

end

fun kind_as_str :: "TechnicalResourceKind \<Rightarrow> string" where
  "kind_as_str Tokens = ''tokens''"
| "kind_as_str TimeMs = ''time_ms''"
| "kind_as_str ConnectorCalls = ''connector_calls''"
| "kind_as_str ResourceUnits = ''resource_units''"

subsection \<open>Units and registry keys\<close>

definition domain_digest :: "externals \<Rightarrow> bytes \<Rightarrow> bytes \<Rightarrow> string" where
  "domain_digest X domain v = ''sha256:'' @ sha256_hex X (domain @ v)"

text \<open>The domains the digests are separated by.\<close>

definition unit_domain :: bytes where
  "unit_domain = ''carsinos.execass.technical-resource.unit.v1'' @ [NUL]"

definition authority_domain :: bytes where
  "authority_domain = ''carsinos.execass.technical-quota.authority.v1'' @ [NUL]"

definition entries_domain :: bytes where
  "entries_domain = ''carsinos.execass.technical-quota.entries.v1'' @ [NUL]"

definition snapshot_domain :: bytes where
  "snapshot_domain = ''carsinos.execass.technical-quota.snapshot.v1'' @ [NUL]"

definition requirements_domain :: bytes where
  "requirements_domain = ''carsinos.execass.technical-resource.requirements.v1'' @ [NUL]"

definition requirement_domain :: bytes where
  "requirement_domain = ''carsinos.execass.technical-resource.requirement-set.v1'' @ [NUL]"

definition valid_hashed_unit :: "string \<Rightarrow> string \<Rightarrow> bool" where
  "valid_hashed_unit unit pre =
     (case strip_prefix pre unit of
        None \<Rightarrow> False
      | Some digest \<Rightarrow> length digest = 64 \<and> list_all is_lower_hex_digit digest)"

fun technical_unit_valid :: "TechnicalResourceKind \<Rightarrow> string \<Rightarrow> bool" where
  "technical_unit_valid Tokens unit \<longleftrightarrow> unit = ''token''"
| "technical_unit_valid TimeMs unit \<longleftrightarrow> unit = ''ms''"
| "technical_unit_valid ConnectorCalls unit \<longleftrightarrow> valid_hashed_unit unit ''connector:''"
| "technical_unit_valid ResourceUnits unit \<longleftrightarrow> valid_hashed_unit unit ''resource:''"

definition validate_technical_unit :: "TechnicalResourceKind \<Rightarrow> string \<Rightarrow> string + unit" where
  "validate_technical_unit k u =
     (if technical_unit_valid k u then Inr ()
      else Inl (''invalid canonical unit for technical resource '' @ kind_as_str k))"

text \<open>The loop of \<open>validate_lower_ascii_registry_key\<close>: \<open>first\<close> is \<open>index == 0\<close>; the result is the
  final \<open>previous_separator\<close>.\<close>

fun registry_key_loop :: "string \<Rightarrow> bool \<Rightarrow> bool \<Rightarrow> string \<Rightarrow> string + bool" where
  "registry_key_loop name first previous_separator [] = Inr previous_separator"
| "registry_key_loop name first previous_separator (byte # rest) =
     (let separator = byte \<in> {CHR ''.'', CHR ''-''};
          valid = is_ascii_lowercase byte \<or> \<not> first \<and> is_ascii_digit byte
                  \<or> \<not> first \<and> separator \<and> \<not> previous_separator
      in if \<not> valid
         then Inl (name @ '' must use lowercase ASCII segments separated by one '.' or '-'' @ [CHR 0x27])
         else registry_key_loop name False separator rest)"

definition validate_lower_ascii_registry_key :: "externals \<Rightarrow> string \<Rightarrow> string \<Rightarrow> string + unit" where
  "validate_lower_ascii_registry_key X name v =
     (if nfc X v \<noteq> v then Inl (name @ '' must be NFC normalized'')
      else if v = [] \<or> 128 < length v \<or> \<not> list_all is_ascii v
      then Inl (name @ '' must be a nonempty lowercase ASCII registry key'')
      else rbind (registry_key_loop name True False v) (\<lambda>previous_separator.
        if previous_separator then Inl (name @ '' cannot end with a separator'') else Inr ()))"

definition validate_registry_identity :: "externals \<Rightarrow> string \<Rightarrow> string + unit" where
  "validate_registry_identity X v =
     validate_lower_ascii_registry_key X ''technical resource registry identity'' v"

definition validate_registry_scope :: "externals \<Rightarrow> string \<Rightarrow> string + unit" where
  "validate_registry_scope X v =
     validate_lower_ascii_registry_key X ''technical resource registry scope'' v"

definition validate_connector_version :: "externals \<Rightarrow> string \<Rightarrow> string + unit" where
  "validate_connector_version X v =
     (if nfc X v \<noteq> v then Inl ''connector registry version must be NFC normalized''
      else case strip_prefix ''v'' v of
        None \<Rightarrow> Inl ''connector registry version must use canonical vN grammar''
      | Some number \<Rightarrow>
          if number = [] \<or> \<not> list_all is_ascii_digit number \<or> prefix ''0'' number
          then Inl ''connector registry version must use canonical vN grammar''
          else Inr ())"

text \<open>\<open>expect("domain digests always have the sha256 prefix")\<close> cannot fail; its failure is the
  message.\<close>

definition canonical_hashed_unit :: "externals \<Rightarrow> string \<Rightarrow> string \<Rightarrow> string \<Rightarrow> string + string" where
  "canonical_hashed_unit X pre identity version =
     (let material = identity @ NUL # version;
          digest = domain_digest X unit_domain material
      in rbind (of_option ''domain digests always have the sha256 prefix'' (strip_prefix ''sha256:'' digest))
           (\<lambda>hex. Inr (pre @ '':'' @ hex)))"

definition canonical_connector_call_unit :: "externals \<Rightarrow> string \<Rightarrow> string \<Rightarrow> string + string" where
  "canonical_connector_call_unit X identity version =
     rbind (validate_registry_identity X identity) (\<lambda>_.
     rbind (validate_connector_version X version) (\<lambda>_.
       canonical_hashed_unit X ''connector'' identity version))"

definition canonical_resource_unit :: "externals \<Rightarrow> string \<Rightarrow> string \<Rightarrow> string + string" where
  "canonical_resource_unit X identity version =
     rbind (validate_registry_identity X identity) (\<lambda>_.
     rbind (validate_registry_scope X version) (\<lambda>_.
       canonical_hashed_unit X ''resource'' identity version))"

text \<open>The JSON library's own description of the error, appended to the message, is left out.\<close>

definition technical_effective_authority_digest :: "externals \<Rightarrow> string \<Rightarrow> string + string" where
  "technical_effective_authority_digest X text =
     (if blank text \<or> trim text \<noteq> text
      then Inl ''effective authority must be nonempty canonical JSON text''
      else case json_from_str X text of
        None \<Rightarrow> Inl ''effective authority is not valid JSON: ''
      | Some _ \<Rightarrow>
          Inr (domain_digest X authority_domain text))"

subsection \<open>The quota snapshot\<close>

text \<open>\<open>TechnicalQuotaEntryInput\<close> and \<open>CanonicalTechnicalQuotaEntry\<close> have the same fields.\<close>

record TechnicalQuotaEntry =
  quota_kind :: TechnicalResourceKind
  quota_unit :: string
  quota_limit :: i64

record CanonicalTechnicalQuotaSnapshot =
  qs_quota_snapshot_id :: string
  qs_delegation_id :: string
  qs_policy_revision :: i64
  qs_effective_authority_digest :: string
  qs_scope_key :: string
  qs_entries :: "TechnicalQuotaEntry list"
  qs_canonical_entries_json :: string
  qs_canonical_entries_digest :: string

fun require_canonical_texts :: "(string \<times> string) list \<Rightarrow> string + unit" where
  "require_canonical_texts [] = Inr ()"
| "require_canonical_texts ((name, v) # rest) =
     (if blank v \<or> trim v \<noteq> v then Inl (name @ '' must be nonempty canonical text'')
      else require_canonical_texts rest)"

definition quota_key :: "TechnicalQuotaEntry \<Rightarrow> TechnicalResourceKind \<times> string" where
  "quota_key e = (quota_kind e, quota_unit e)"

text \<open>The loop's state is the vector of canonical entries; the set of identities is that of its
  elements.\<close>

definition quota_step ::
    "TechnicalQuotaEntry list \<Rightarrow> TechnicalQuotaEntry \<Rightarrow> string + TechnicalQuotaEntry list" where
  "quota_step acc entry =
     (if sint (quota_limit entry) < 0 then Inl ''technical quota limit cannot be negative''
      else rbind (validate_technical_unit (quota_kind entry) (quota_unit entry)) (\<lambda>_.
        if quota_key entry \<in> set (map quota_key acc) then Inl ''duplicate technical quota kind/unit''
        else Inr (acc @ [entry])))"

definition quota_entry_json :: "TechnicalQuotaEntry \<Rightarrow> json" where
  "quota_entry_json e = JObject
     [(''kind'', JString (kind_as_str (quota_kind e))), (''unit'', JString (quota_unit e)),
      (''limit'', JNumber (show_int (sint (quota_limit e))))]"

definition compile_technical_quota_snapshot ::
    "externals \<Rightarrow> string \<Rightarrow> i64 \<Rightarrow> string \<Rightarrow> string \<Rightarrow> TechnicalQuotaEntry list
     \<Rightarrow> string + CanonicalTechnicalQuotaSnapshot" where
  "compile_technical_quota_snapshot X delegation_id policy_revision authority_digest scope_key entries =
     rbind (require_canonical_texts
       [(''delegation_id'', delegation_id), (''effective_authority_digest'', authority_digest),
        (''scope_key'', scope_key)]) (\<lambda>_.
     if sint policy_revision \<le> 0 then Inl ''policy_revision must be positive''
     else rbind (rfold quota_step [] entries) (\<lambda>accepted.
       let canonical = sort_key quota_key accepted;
           text = json_to_string X (JArray (map quota_entry_json canonical));
           digest = domain_digest X entries_domain text;
           identity = delegation_id @ NUL # show_int (sint policy_revision) @ NUL # authority_digest
                      @ NUL # scope_key @ NUL # digest
       in Inr \<lparr>qs_quota_snapshot_id =
                 domain_digest X snapshot_domain identity,
               qs_delegation_id = delegation_id, qs_policy_revision = policy_revision,
               qs_effective_authority_digest = authority_digest, qs_scope_key = scope_key,
               qs_entries = canonical, qs_canonical_entries_json = text,
               qs_canonical_entries_digest = digest\<rparr>))"

subsection \<open>Requirements of one effect\<close>

record TechnicalResourceRequirement =
  req_kind :: TechnicalResourceKind
  req_unit :: string
  req_amount :: i64

record CanonicalTechnicalResourceRequirementSet =
  rr_requirement_set_id :: string
  rr_quota_snapshot_id :: string
  rr_delegation_id :: string
  rr_logical_effect_id :: string
  rr_action_id :: string
  rr_manifest_digest :: string
  rr_requirements :: "TechnicalResourceRequirement list"
  rr_canonical_requirements_json :: string
  rr_canonical_requirements_digest :: string

definition req_key :: "TechnicalResourceRequirement \<Rightarrow> TechnicalResourceKind \<times> string" where
  "req_key r = (req_kind r, req_unit r)"

definition requirement_step ::
    "CanonicalTechnicalQuotaSnapshot \<Rightarrow> TechnicalResourceRequirement list
     \<Rightarrow> TechnicalResourceRequirement \<Rightarrow> string + TechnicalResourceRequirement list" where
  "requirement_step snapshot acc r =
     (if sint (req_amount r) \<le> 0 then Inl ''technical resource requirement must be positive''
      else rbind (validate_technical_unit (req_kind r) (req_unit r)) (\<lambda>_.
        if req_key r \<in> set (map req_key acc)
        then Inl ''duplicate technical resource requirement kind/unit''
        else case find (\<lambda>e. quota_kind e = req_kind r \<and> quota_unit e = req_unit r) (qs_entries snapshot) of
          None \<Rightarrow> Inl ''technical requirement has no quota snapshot entry''
        | Some quota \<Rightarrow>
            if sint (quota_limit quota) < sint (req_amount r)
            then Inl ''technical resource requirement exceeds its quota limit''
            else Inr (acc @ [r])))"

definition requirement_json :: "TechnicalResourceRequirement \<Rightarrow> json" where
  "requirement_json r = JObject
     [(''kind'', JString (kind_as_str (req_kind r))), (''unit'', JString (req_unit r)),
      (''amount'', JNumber (show_int (sint (req_amount r))))]"

definition compile_technical_resource_requirements ::
    "externals \<Rightarrow> CanonicalTechnicalQuotaSnapshot \<Rightarrow> string \<Rightarrow> string \<Rightarrow> string
     \<Rightarrow> TechnicalResourceRequirement list \<Rightarrow> string + CanonicalTechnicalResourceRequirementSet" where
  "compile_technical_resource_requirements X snapshot logical_effect_id action_id manifest_digest requirements =
     rbind (require_canonical_texts
       [(''logical_effect_id'', logical_effect_id), (''action_id'', action_id),
        (''manifest_digest'', manifest_digest)]) (\<lambda>_.
     rbind (rfold (requirement_step snapshot) [] requirements) (\<lambda>accepted.
       let canonical = sort_key req_key accepted;
           text = json_to_string X (JArray (map requirement_json canonical));
           digest = domain_digest X requirements_domain text;
           identity = qs_quota_snapshot_id snapshot @ NUL # qs_delegation_id snapshot @ NUL # logical_effect_id
                      @ NUL # action_id @ NUL # manifest_digest @ NUL # digest
       in Inr \<lparr>rr_requirement_set_id =
                 domain_digest X requirement_domain identity,
               rr_quota_snapshot_id = qs_quota_snapshot_id snapshot,
               rr_delegation_id = qs_delegation_id snapshot,
               rr_logical_effect_id = logical_effect_id, rr_action_id = action_id,
               rr_manifest_digest = manifest_digest, rr_requirements = canonical,
               rr_canonical_requirements_json = text,
               rr_canonical_requirements_digest = digest\<rparr>))"

subsection \<open>The two loops\<close>

definition quota_admissible :: "TechnicalQuotaEntry \<Rightarrow> bool" where
  "quota_admissible e \<longleftrightarrow> 0 \<le> sint (quota_limit e) \<and> technical_unit_valid (quota_kind e) (quota_unit e)"

definition requirement_admissible ::
    "CanonicalTechnicalQuotaSnapshot \<Rightarrow> TechnicalResourceRequirement \<Rightarrow> bool" where
  "requirement_admissible snapshot r \<longleftrightarrow>
     0 < sint (req_amount r) \<and> technical_unit_valid (req_kind r) (req_unit r)
     \<and> (\<exists>quota. find (\<lambda>e. quota_key e = req_key r) (qs_entries snapshot) = Some quota
          \<and> sint (req_amount r) \<le> sint (quota_limit quota))"

lemma validate_unit_Inr [simp]:
  "validate_technical_unit k u = Inr x \<longleftrightarrow> technical_unit_valid k u"
  by (simp add: validate_technical_unit_def)

interpretation quota_loop: unique_loop quota_step quota_admissible quota_key
  by unfold_locales (auto simp: quota_step_def quota_admissible_def)

interpretation requirement_loop:
  unique_loop "requirement_step snapshot" "requirement_admissible snapshot" req_key for snapshot
  by unfold_locales
     (auto simp: requirement_step_def requirement_admissible_def quota_key_def req_key_def
       split: option.splits)

lemma canonical_texts_ok:
  "require_canonical_texts nvs = Inr x \<longleftrightarrow> list_all (\<lambda>(n, v). \<not> blank v \<and> trim v = v) nvs"
  by (induction nvs rule: require_canonical_texts.induct) auto

lemma quota_compile_Inr:
  "compile_technical_quota_snapshot X d r a sk entries = Inr s \<longleftrightarrow>
     list_all (\<lambda>v. \<not> blank v \<and> trim v = v) [d, a, sk] \<and> 0 < sint r
     \<and> list_all quota_admissible entries \<and> distinct (map quota_key entries)
     \<and> (let canonical = sort_key quota_key entries;
            text = json_to_string X (JArray (map quota_entry_json canonical));
            digest = domain_digest X entries_domain text
        in s = \<lparr>qs_quota_snapshot_id =
                 domain_digest X snapshot_domain
                   (d @ NUL # show_int (sint r) @ NUL # a @ NUL # sk @ NUL # digest),
               qs_delegation_id = d, qs_policy_revision = r,
               qs_effective_authority_digest = a, qs_scope_key = sk,
               qs_entries = canonical, qs_canonical_entries_json = text,
               qs_canonical_entries_digest = digest\<rparr>)"
  unfolding compile_technical_quota_snapshot_def Let_def
  by (auto simp: canonical_texts_ok quota_loop.loop_Inr)

lemma sorted_strict: "sorted xs \<Longrightarrow> distinct xs \<Longrightarrow> sorted_wrt (<) xs"
  for xs :: "'a::linorder list"
  by (simp add: strict_sorted_iff)

lemma quota_compile_perm:
  assumes "compile_technical_quota_snapshot X d r a sk entries = Inr s" and "mset entries = mset entries'"
  shows "compile_technical_quota_snapshot X d r a sk entries' = Inr s"
proof -
  note c = assms(1) [unfolded quota_compile_Inr]
  then have loop: "rfold quota_step [] entries = Inr entries" by (simp add: quota_loop.loop_Inr)
  from quota_loop.loop_perm [OF loop assms(2)] have
    "list_all quota_admissible entries'" "distinct (map quota_key entries')"
    by (simp_all add: quota_loop.loop_Inr)
  moreover from this have "sort_key quota_key entries = sort_key quota_key entries'"
    using assms(2) by (intro sort_key_perm)
  ultimately show ?thesis using c unfolding quota_compile_Inr by simp
qed

subsection \<open>Properties\<close>

text \<open>A quota snapshot is canonical. When it compiles, its entries are those given, each with a
  valid unit and a limit that is not negative, strictly ordered by kind and unit, so that no
  bucket has two limits; and every other order of the same entries compiles to the very same
  snapshot, identifier included.\<close>

theorem quota_snapshot_canonical:
  assumes "compile_technical_quota_snapshot X d r a sk entries = Inr s"
  shows "mset (qs_entries s) = mset entries
     \<and> sorted_wrt (<) (map quota_key (qs_entries s))
     \<and> list_all quota_admissible (qs_entries s)
     \<and> (mset entries = mset entries' \<longrightarrow>
          compile_technical_quota_snapshot X d r a sk entries' = Inr s)"
proof -
  note c = assms [unfolded quota_compile_Inr Let_def]
  then have e: "qs_entries s = sort_key quota_key entries" by simp
  have "distinct (map quota_key (qs_entries s))"
    using c unfolding e by (metis mset_map mset_sort mset_eq_imp_distinct_iff)
  then have "sorted_wrt (<) (map quota_key (qs_entries s))"
    unfolding e by (intro sorted_strict) simp_all
  moreover have "list_all quota_admissible (qs_entries s)" using c unfolding e by (simp add: list_all_iff)
  ultimately show ?thesis using e quota_compile_perm [OF assms] by auto
qed

text \<open>Requirements stay within the quota. When the requirements of an effect compile against a
  snapshot, each of them is positive, names an entry of the snapshot by kind and unit and asks
  for at most its limit, no bucket is asked twice, and they are the ones given.\<close>

theorem requirements_within_quota:
  assumes "compile_technical_resource_requirements X s le act md reqs = Inr rset"
  shows "mset (rr_requirements rset) = mset reqs
     \<and> distinct (map req_key (rr_requirements rset))
     \<and> rr_quota_snapshot_id rset = qs_quota_snapshot_id s
     \<and> (\<forall>r \<in> set (rr_requirements rset). 0 < sint (req_amount r)
          \<and> (\<exists>e \<in> set (qs_entries s). quota_key e = req_key r
               \<and> sint (req_amount r) \<le> sint (quota_limit e)))"
proof -
  from assms have ok: "list_all (requirement_admissible s) reqs" "distinct (map req_key reqs)"
    and eq: "rr_requirements rset = sort_key req_key reqs" "rr_quota_snapshot_id rset = qs_quota_snapshot_id s"
    by (auto simp: compile_technical_resource_requirements_def requirement_loop.loop_Inr Let_def)
  have "distinct (map req_key (rr_requirements rset))"
    using ok(2) unfolding eq by (metis mset_map mset_sort mset_eq_imp_distinct_iff)
  moreover have "0 < sint (req_amount r) \<and> (\<exists>e \<in> set (qs_entries s). quota_key e = req_key r
      \<and> sint (req_amount r) \<le> sint (quota_limit e))" if "r \<in> set (rr_requirements rset)" for r
  proof -
    have "requirement_admissible s r" using that ok(1) by (simp add: eq list_all_iff)
    then show ?thesis by (auto simp: requirement_admissible_def find_Some_iff)
  qed
  ultimately show ?thesis using eq by simp
qed

subsection \<open>Separated texts\<close>

lemma nul_cancel:
  "NUL \<notin> set a \<Longrightarrow> NUL \<notin> set b \<Longrightarrow> a @ NUL # x = b @ NUL # y \<longleftrightarrow> a = b \<and> x = y"
proof (induction a arbitrary: b)
  case Nil
  then show ?case by (cases b) auto
next
  case (Cons c a)
  then show ?case by (cases b) auto
qed

lemma lower_hex_no_nul: "list_all is_lower_hex_digit v \<Longrightarrow> NUL \<notin> set v"
  by (auto simp: list_all_iff is_lower_hex_digit_def is_ascii_digit_def)

lemma domain_digest_no_nul: "NUL \<notin> set (domain_digest X d v)"
  using lower_hex_no_nul [OF hex_encode_lower, of "sha256 X (d @ v)"]
  by (simp add: domain_digest_def sha256_hex_def)

lemma domain_digest_eq:
  "no_collision X (d @ v) (d @ w) \<Longrightarrow> domain_digest X d v = domain_digest X d w \<longleftrightarrow> v = w"
  by (auto simp: domain_digest_def dest: no_collisionD)

text \<open>What \<open>requirement_set_id\<close> is the digest of, in the fields of the set.\<close>

definition requirement_identity :: "CanonicalTechnicalResourceRequirementSet \<Rightarrow> bytes" where
  "requirement_identity r =
     rr_quota_snapshot_id r @ NUL # rr_delegation_id r @ NUL # rr_logical_effect_id r
     @ NUL # rr_action_id r @ NUL # rr_manifest_digest r @ NUL # rr_canonical_requirements_digest r"

lemma requirement_set_fields:
  assumes "compile_technical_resource_requirements X s le act md reqs = Inr r"
  shows "rr_requirement_set_id r = domain_digest X requirement_domain (requirement_identity r)"
    and "rr_quota_snapshot_id r = qs_quota_snapshot_id s" "rr_delegation_id r = qs_delegation_id s"
    and "rr_logical_effect_id r = le" "rr_action_id r = act" "rr_manifest_digest r = md"
    and "rr_canonical_requirements_digest r = domain_digest X
        requirements_domain (rr_canonical_requirements_json r)"
  using assms
  by (auto simp: compile_technical_resource_requirements_def requirement_identity_def Let_def)

text \<open>A requirement set's identifier names its effect, when no text holds a NUL. Two sets compiled
  against snapshots, with NUL-free delegation, effect, action and manifest texts, that have the
  same identifier are for the same delegation, quota snapshot, effect, action and manifest and
  have the same canonical requirements, as long as the digests at hand do not collide.\<close>

theorem requirement_id_binds:
  assumes "compile_technical_resource_requirements X s le act md reqs = Inr r"
    and "compile_technical_resource_requirements X s' le' act' md' reqs' = Inr r'"
    and "rr_requirement_set_id r = rr_requirement_set_id r'"
    and "\<And>t. t \<in> {qs_quota_snapshot_id s, qs_delegation_id s, le, act, md,
                   qs_quota_snapshot_id s', qs_delegation_id s', le', act', md'} \<Longrightarrow> NUL \<notin> set t"
    and "no_collision X (requirement_domain @ requirement_identity r) (requirement_domain @ requirement_identity r')"
    and "no_collision X (requirements_domain @ rr_canonical_requirements_json r)
        (requirements_domain @ rr_canonical_requirements_json r')"
  shows "le = le' \<and> act = act' \<and> md = md' \<and> qs_delegation_id s = qs_delegation_id s'
     \<and> qs_quota_snapshot_id s = qs_quota_snapshot_id s'
     \<and> rr_canonical_requirements_json r = rr_canonical_requirements_json r'"
proof -
  note A = requirement_set_fields [OF assms(1)] and B = requirement_set_fields [OF assms(2)]
  have "requirement_identity r = requirement_identity r'"
    using assms(3) A(1) B(1) domain_digest_eq [of X requirement_domain] assms(5) by simp
  then have "qs_quota_snapshot_id s = qs_quota_snapshot_id s' \<and> qs_delegation_id s = qs_delegation_id s'
      \<and> le = le' \<and> act = act' \<and> md = md'
      \<and> rr_canonical_requirements_digest r = rr_canonical_requirements_digest r'"
    unfolding requirement_identity_def using assms(4) by (simp add: nul_cancel A(2-6) B(2-6))
  with A(7) B(7) domain_digest_eq [OF assms(6)] show ?thesis
    by metis
qed

text \<open>C34: with a NUL the identifier is ambiguous. Nothing keeps NUL out of the texts, and moving a
  NUL-separated piece from the action to the effect leaves the identifier the same although the
  two sets are for different effects.\<close>

theorem requirement_id_ambiguous:
  assumes "compile_technical_resource_requirements X s le (piece @ NUL # act) md reqs = Inr r"
    and "compile_technical_resource_requirements X s (le @ NUL # piece) act md reqs = Inr r'"
  shows "rr_requirement_set_id r = rr_requirement_set_id r'
     \<and> rr_logical_effect_id r \<noteq> rr_logical_effect_id r'"
proof -
  from assms have "rr_canonical_requirements_digest r = rr_canonical_requirements_digest r'"
    by (auto simp: compile_technical_resource_requirements_def Let_def requirement_loop.loop_Inr)
  then show ?thesis
    using requirement_set_fields [OF assms(1)] requirement_set_fields [OF assms(2)]
    by (simp add: requirement_identity_def)
qed

subsection \<open>Canonical units\<close>

lemma registry_key_loop_chars:
  "registry_key_loop name first sep v = Inr b \<Longrightarrow> NUL \<notin> set v"
proof (induction name first sep v rule: registry_key_loop.induct)
  case (2 name first sep byte rest)
  let ?valid = "is_ascii_lowercase byte \<or> \<not> first \<and> is_ascii_digit byte
      \<or> \<not> first \<and> byte \<in> {CHR ''.'', CHR ''-''} \<and> \<not> sep"
  have v: ?valid using "2.prems" by (simp only: registry_key_loop.simps Let_def split: if_splits) simp_all
  then have "byte \<noteq> NUL" by (auto simp: is_ascii_lowercase_def is_ascii_digit_def)
  moreover have "registry_key_loop name False (byte \<in> {CHR ''.'', CHR ''-''}) rest = Inr b"
    using "2.prems" v by (simp only: registry_key_loop.simps Let_def if_False not_True_eq_False simp_thms)
  ultimately show ?case using "2.IH" v by simp
qed simp

lemma registry_identity_no_nul: "validate_registry_identity X v = Inr u \<Longrightarrow> NUL \<notin> set v"
  by (auto simp: validate_registry_identity_def validate_lower_ascii_registry_key_def
      dest: registry_key_loop_chars split: if_splits)

text \<open>Documented of SHA-256: its output has 32 bytes.\<close>

definition digest_32 :: "externals \<Rightarrow> bool" where
  "digest_32 X \<longleftrightarrow> (\<forall>bs. length (sha256 X bs) = 32)"

definition unit_material :: "string \<Rightarrow> string \<Rightarrow> bytes" where
  "unit_material identity version =
     unit_domain @ identity @ NUL # version"

lemma canonical_hashed_unit_Inr:
  "canonical_hashed_unit X pre i v = Inr u \<longleftrightarrow> u = pre @ '':'' @ sha256_hex X (unit_material i v)"
proof -
  have "strip_prefix ''sha256:'' (domain_digest X unit_domain w) = Some (sha256_hex X (unit_domain @ w))" for w
    unfolding domain_digest_def by (rule strip_prefix_append)
  then show ?thesis
    unfolding canonical_hashed_unit_def Let_def unit_material_def
    by (simp only: of_option_simps rbind_simps) blast
qed

text \<open>Canonical connector units name one connector version and pass the quota's own check. Every
  unit made for a connector identity and version is accepted as a unit of connector calls, and
  two of them are equal exactly when identity and version are, as long as digests do not
  collide, so that raw labels cannot split or merge buckets.\<close>

theorem connector_unit_canonical:
  assumes "canonical_connector_call_unit X i v = Inr u" and "canonical_connector_call_unit X i' v' = Inr u'"
    and "digest_32 X" and "no_collision X (unit_material i v) (unit_material i' v')"
  shows "validate_technical_unit ConnectorCalls u = Inr () \<and> (u = u' \<longleftrightarrow> i = i' \<and> v = v')"
proof -
  from assms(1,2) have u: "u = ''connector'' @ '':'' @ sha256_hex X (unit_material i v)"
      "u' = ''connector'' @ '':'' @ sha256_hex X (unit_material i' v')"
    and n: "NUL \<notin> set i" "NUL \<notin> set i'"
    by (auto simp: canonical_connector_call_unit_def canonical_hashed_unit_Inr dest: registry_identity_no_nul)
  have "strip_prefix ''connector:'' u = Some (sha256_hex X (unit_material i v))"
    by (simp add: u strip_prefix_Some)
  then have "validate_technical_unit ConnectorCalls u = Inr ()"
    using assms(3) by (simp add: valid_hashed_unit_def sha256_hex_def digest_32_def hex_encode_lower)
  moreover have "u = u' \<longleftrightarrow> unit_material i v = unit_material i' v'"
    using assms(4) by (auto simp: u dest: no_collisionD)
  moreover have "unit_material i v = unit_material i' v' \<longleftrightarrow> i = i' \<and> v = v'"
    using n by (simp add: unit_material_def nul_cancel)
  ultimately show ?thesis by blast
qed

subsection \<open>Witnesses\<close>

definition sample_entry :: TechnicalQuotaEntry where
  "sample_entry = \<lparr>quota_kind = Tokens, quota_unit = ''token'', quota_limit = 10\<rparr>"

definition sample_requirement :: TechnicalResourceRequirement where
  "sample_requirement = \<lparr>req_kind = Tokens, req_unit = ''token'', req_amount = 3\<rparr>"

lemma sample_texts: "v \<in> {''d'', ''a'', ''s'', ''e'', ''m''} \<Longrightarrow> \<not> blank v \<and> trim v = v"
  by (auto intro!: trim_visible simp: visible_def)

definition sample_quota :: CanonicalTechnicalQuotaSnapshot where
  "sample_quota = \<lparr>qs_quota_snapshot_id = ''q'', qs_delegation_id = ''d'', qs_policy_revision = 1,
     qs_effective_authority_digest = ''a'', qs_scope_key = ''s'', qs_entries = [sample_entry],
     qs_canonical_entries_json = [], qs_canonical_entries_digest = []\<rparr>"

lemma sample_snapshot:
  "\<exists>s. compile_technical_quota_snapshot raw_externals ''d'' 1 ''a'' ''s'' [sample_entry] = Inr s"
  by (simp add: quota_compile_Inr Let_def sample_texts quota_admissible_def sample_entry_def)

lemma quota_snapshot_canonical_witness:
  "\<exists>s. compile_technical_quota_snapshot raw_externals ''d'' 1 ''a'' ''s'' [sample_entry] = Inr s
     \<and> sorted_wrt (<) (map quota_key (qs_entries s)) \<and> mset (qs_entries s) = mset [sample_entry]"
proof -
  obtain s where s: "compile_technical_quota_snapshot raw_externals ''d'' 1 ''a'' ''s'' [sample_entry] = Inr s"
    using sample_snapshot by blast
  from quota_snapshot_canonical [OF s] s show ?thesis by blast
qed

lemma requirement_compile_sample:
  assumes "\<not> blank le \<and> trim le = le" and "\<not> blank act \<and> trim act = act"
  shows "\<exists>r. compile_technical_resource_requirements X sample_quota le act ''m'' [sample_requirement] = Inr r"
proof -
  have "requirement_admissible sample_quota sample_requirement"
    by (simp add: requirement_admissible_def sample_requirement_def sample_entry_def sample_quota_def
        quota_key_def req_key_def)
  then have "rfold (requirement_step sample_quota) [] [sample_requirement] = Inr [sample_requirement]"
    by (subst requirement_loop.loop_Inr) simp
  then show ?thesis
    using assms sample_texts
    by (simp add: compile_technical_resource_requirements_def canonical_texts_ok Let_def
        del: rfold.simps)
qed

lemma requirements_within_quota_witness:
  "\<exists>r. compile_technical_resource_requirements raw_externals sample_quota ''e'' ''a'' ''m'' [sample_requirement] = Inr r
     \<and> mset (rr_requirements r) = mset [sample_requirement]"
proof -
  obtain r where r: "compile_technical_resource_requirements raw_externals sample_quota ''e'' ''a'' ''m'' [sample_requirement] = Inr r"
    using requirement_compile_sample [of "''e''" "''a''" raw_externals] sample_texts by blast
  from requirements_within_quota [OF r] r show ?thesis by blast
qed

lemma requirement_id_binds_witness:
  "\<exists>r. compile_technical_resource_requirements raw_externals sample_quota ''e'' ''a'' ''m'' [sample_requirement] = Inr r
     \<and> (\<forall>r'. compile_technical_resource_requirements raw_externals sample_quota ''e'' ''a'' ''m'' [sample_requirement] = Inr r'
          \<longrightarrow> rr_canonical_requirements_json r = rr_canonical_requirements_json r')"
proof -
  obtain r where r: "compile_technical_resource_requirements raw_externals sample_quota ''e'' ''a'' ''m'' [sample_requirement] = Inr r"
    using requirement_compile_sample [of "''e''" "''a''" raw_externals] sample_texts by blast
  have nul: "NUL \<notin> set t" if "t \<in> {qs_quota_snapshot_id sample_quota, qs_delegation_id sample_quota, ''e'', ''a'', ''m'',
      qs_quota_snapshot_id sample_quota, qs_delegation_id sample_quota, ''e'', ''a'', ''m''}" for t
    using that by (auto simp: sample_quota_def)
  have "rr_canonical_requirements_json r = rr_canonical_requirements_json r'"
    if r': "compile_technical_resource_requirements raw_externals sample_quota ''e'' ''a'' ''m'' [sample_requirement] = Inr r'" for r'
    using requirement_id_binds [OF r r' _ nul] r r' by simp
  with r show ?thesis by blast
qed

lemma requirement_id_ambiguous_witness:
  "\<exists>r r'. compile_technical_resource_requirements raw_externals sample_quota ''e'' (''p'' @ NUL # ''a'') ''m'' [sample_requirement] = Inr r
     \<and> compile_technical_resource_requirements raw_externals sample_quota (''e'' @ NUL # ''p'') ''a'' ''m'' [sample_requirement] = Inr r'
     \<and> rr_requirement_set_id r = rr_requirement_set_id r'"
proof -
  have t: "\<not> blank v \<and> trim v = v" if "v \<in> {''e'', ''a'', ''p'' @ NUL # ''a'', ''e'' @ NUL # ''p''}" for v
    using that by (auto intro!: trim_visible_ends simp: visible_def)
  obtain r where r: "compile_technical_resource_requirements raw_externals sample_quota ''e'' (''p'' @ NUL # ''a'') ''m'' [sample_requirement] = Inr r"
    using requirement_compile_sample [OF t t, of "''e''" "''p'' @ NUL # ''a''" raw_externals] by blast
  obtain r' where r': "compile_technical_resource_requirements raw_externals sample_quota (''e'' @ NUL # ''p'') ''a'' ''m'' [sample_requirement] = Inr r'"
    using requirement_compile_sample [OF t t, of "''e'' @ NUL # ''p''" "''a''" raw_externals] by blast
  from requirement_id_ambiguous [OF r r'] r r' show ?thesis by blast
qed

text \<open>A digest of 32 bytes that keeps the end of its input.\<close>

definition tail_externals :: externals where
  "tail_externals = raw_externals\<lparr>sha256 := (\<lambda>bs. take 32 (rev bs @ replicate 32 NUL))\<rparr>"

lemma connector_unit_canonical_witness:
  "\<exists>u u'. canonical_connector_call_unit tail_externals ''mail'' ''v1'' = Inr u
     \<and> canonical_connector_call_unit tail_externals ''mail'' ''v2'' = Inr u'
     \<and> validate_technical_unit ConnectorCalls u = Inr () \<and> u \<noteq> u'"
proof -
  have nfc: "nfc tail_externals = (\<lambda>s. s)" by (simp add: tail_externals_def raw_externals_def)
  have ident: "validate_registry_identity tail_externals ''mail'' = Inr ()"
    by (simp add: validate_registry_identity_def validate_lower_ascii_registry_key_def nfc
        is_ascii_def is_ascii_lowercase_def)
  have vers: "validate_connector_version tail_externals v = Inr ()" if "v \<in> {''v1'', ''v2''}" for v
    using that by (auto simp: validate_connector_version_def nfc strip_prefix_def is_ascii_digit_def)
  have unit: "\<exists>u. canonical_connector_call_unit tail_externals ''mail'' v = Inr u" if "v \<in> {''v1'', ''v2''}" for v
  proof -
    have "canonical_hashed_unit tail_externals pre i w = Inr (pre @ '':'' @ sha256_hex tail_externals (unit_material i w))"
      for pre i w by (simp only: canonical_hashed_unit_Inr)
    then show ?thesis
      unfolding canonical_connector_call_unit_def ident vers [OF that] rbind_simps by blast
  qed
  have "\<exists>u. canonical_connector_call_unit tail_externals ''mail'' ''v1'' = Inr u" by (rule unit) simp
  then obtain u where u: "canonical_connector_call_unit tail_externals ''mail'' ''v1'' = Inr u" ..
  have "\<exists>u. canonical_connector_call_unit tail_externals ''mail'' ''v2'' = Inr u" by (rule unit) simp
  then obtain u' where u': "canonical_connector_call_unit tail_externals ''mail'' ''v2'' = Inr u'" ..
  have d: "digest_32 tail_externals" by (simp add: digest_32_def tail_externals_def min_def)
  have c: "no_collision tail_externals (unit_material ''mail'' ''v1'') (unit_material ''mail'' ''v2'')"
  proof -
    let ?b = "unit_domain @ ''mail'' @ NUL # ''v''"
    have "unit_material ''mail'' ''v1'' = ?b @ ''1''" "unit_material ''mail'' ''v2'' = ?b @ ''2''"
      by (simp_all add: unit_material_def)
    then show ?thesis by (simp only: no_collision_def tail_externals_def externals.simps rev_append) simp
  qed
  have "validate_technical_unit ConnectorCalls u = Inr () \<and> u \<noteq> u'"
    using connector_unit_canonical [OF u u' d c] by simp
  with u u' show ?thesis by blast
qed

end
