(* ===== verification/Danger.thy ===== *)
theory Danger
  imports ManifestData
begin

text \<open>
  Danger routing of \<^verbatim>\<open>crates/carsinos-core/src/execass_danger.rs\<close>: server-verified facts about one
  frozen leaf route it to at most one confirmation, a credible model signal can only add that
  route, and a proof binds one route to every leaf of a manifest and is signed over
  length-framed bytes. The assessment's types come from
  \<^verbatim>\<open>crates/carsinos-protocol/src/execass.rs\<close>.
\<close>

subsection \<open>Assessments\<close>

datatype KnownDangerCategory =
    WholeDriveVolumeBootRecoveryOrCoreOsTreeErasureOrUnusable
  | WholeUserProfileOrHomeErasureOrUnusable
  | CompleteCarsinosStateIntegrityRuntimeEnforcementStopFencingOrRecoveryConfigurationErasureOrUnusable
  | WholeConnectedExternalAccountClosureOrErasure
  | LastVerifiedAdministrativeRecoveryOrDecryptionPathDestruction

datatype DangerSource = KnownCategory | ModelCredibleDanger

record DangerAssessment =
  source :: DangerSource
  known_category :: "KnownDangerCategory option"
  declared_consequence :: string
  requires_one_confirmation :: bool

text \<open>The \<open>snake_case\<close> names the two enums are serialized with.\<close>

fun category_name :: "KnownDangerCategory \<Rightarrow> string" where
  "category_name WholeDriveVolumeBootRecoveryOrCoreOsTreeErasureOrUnusable =
     ''whole_drive_volume_boot_recovery_or_core_os_tree_erasure_or_unusable''"
| "category_name WholeUserProfileOrHomeErasureOrUnusable =
     ''whole_user_profile_or_home_erasure_or_unusable''"
| "category_name
     CompleteCarsinosStateIntegrityRuntimeEnforcementStopFencingOrRecoveryConfigurationErasureOrUnusable =
     ''complete_carsinos_state_integrity_runtime_enforcement_stop_fencing_or_recovery_configuration_erasure_or_unusable''"
| "category_name WholeConnectedExternalAccountClosureOrErasure =
     ''whole_connected_external_account_closure_or_erasure''"
| "category_name LastVerifiedAdministrativeRecoveryOrDecryptionPathDestruction =
     ''last_verified_administrative_recovery_or_decryption_path_destruction''"

fun source_name :: "DangerSource \<Rightarrow> string" where
  "source_name KnownCategory = ''known_category''"
| "source_name ModelCredibleDanger = ''model_credible_danger''"

subsection \<open>Facts\<close>

datatype VerifiedDangerFact =
    WholeDriveVolumeBootRecoveryOrCoreOsTree (resolved_target: string)
  | WholeUserProfileOrHome (resolved_target: string)
  | CompleteCarsinosProtectedSystem (resolved_target: string)
  | WholeConnectedExternalAccountOrTenant (resolved_target: string)
  | LastAdministrativeRecoveryOrDecryptionPath (resolved_target: string)

fun category :: "VerifiedDangerFact \<Rightarrow> KnownDangerCategory" where
  "category (WholeDriveVolumeBootRecoveryOrCoreOsTree _) =
     WholeDriveVolumeBootRecoveryOrCoreOsTreeErasureOrUnusable"
| "category (WholeUserProfileOrHome _) = WholeUserProfileOrHomeErasureOrUnusable"
| "category (CompleteCarsinosProtectedSystem _) =
     CompleteCarsinosStateIntegrityRuntimeEnforcementStopFencingOrRecoveryConfigurationErasureOrUnusable"
| "category (WholeConnectedExternalAccountOrTenant _) = WholeConnectedExternalAccountClosureOrErasure"
| "category (LastAdministrativeRecoveryOrDecryptionPath _) =
     LastVerifiedAdministrativeRecoveryOrDecryptionPathDestruction"

fun category_rank :: "VerifiedDangerFact \<Rightarrow> nat" where
  "category_rank (WholeDriveVolumeBootRecoveryOrCoreOsTree _) = 0"
| "category_rank (WholeUserProfileOrHome _) = 1"
| "category_rank (CompleteCarsinosProtectedSystem _) = 2"
| "category_rank (WholeConnectedExternalAccountOrTenant _) = 3"
| "category_rank (LastAdministrativeRecoveryOrDecryptionPath _) = 4"

fun consequence :: "VerifiedDangerFact \<Rightarrow> string" where
  "consequence (WholeDriveVolumeBootRecoveryOrCoreOsTree t) =
     ''This will erase or make unusable the entire drive, volume, boot/recovery environment, or core operating-system target `''
     @ t @ ''`, including the operating system and data it contains.''"
| "consequence (WholeUserProfileOrHome t) =
     ''This will erase or make unusable the entire operating-system user profile or home `''
     @ t @ ''`, including all data stored in it.''"
| "consequence (CompleteCarsinosProtectedSystem t) =
     ''This will erase, corrupt, or disable the complete CarsinOS protected state `''
     @ t @ ''`, including the integrity, runtime-enforcement, stop/fencing, or recovery information required to recover it.''"
| "consequence (WholeConnectedExternalAccountOrTenant t) =
     ''This will erase or close the entire connected external account or tenant `''
     @ t @ ''` and make all resources owned only by it unavailable.''"
| "consequence (LastAdministrativeRecoveryOrDecryptionPath t) =
     ''This will destroy the last verified administrative, recovery, or decryption path `''
     @ t @ ''` for owner data that is otherwise unrecoverable.''"

record VerifiedDangerSystemMetadata =
  md_canonical_leaf_digest :: Sha256Digest
  facts :: "VerifiedDangerFact list"

record CredibleModelDangerSignal =
  sg_canonical_leaf_digest :: Sha256Digest
  sg_resolved_target :: string
  sg_material_result :: string

datatype AuthoritativeModelDangerResult =
  DestroyExactTarget | RenderExactTargetUnusable | IrreversiblyRemoveAccessToExactTarget

fun material_result :: "AuthoritativeModelDangerResult \<Rightarrow> string" where
  "material_result DestroyExactTarget = ''destroy the exact target''"
| "material_result RenderExactTargetUnusable = ''render the exact target unusable''"
| "material_result IrreversiblyRemoveAccessToExactTarget =
     ''irreversibly remove access to the exact target''"

subsection \<open>Routes and admission proofs\<close>

datatype DangerRouteKind = Ordinary | RequiresOneConfirmation DangerAssessment

record DangerRoute =
  dr_canonical_leaf_digest :: Sha256Digest
  kind :: DangerRouteKind

record DangerAdmissionProof =
  canonical_manifest_digest :: Sha256Digest
  routes_in_manifest_order :: "DangerRoute list"

record SignedDangerAdmissionProof =
  admission :: DangerAdmissionProof
  key_id :: string
  key_generation :: u64
  canonical_root_identity :: string
  installation_identity :: string
  os_user_identity_digest :: string
  state_root_generation :: u64
  signature_hex :: string

datatype DangerAdmissionState = Ordinary | RequiresOneConfirmation

datatype DangerAdmissionProofError =
  InvalidSigningField | LeafCountMismatch | LeafRouteMismatch | ManifestMismatch

definition leaf_digest_hex :: "CanonicalLeafAction \<Rightarrow> Sha256Digest" where
  "leaf_digest_hex leaf = fb_digest (leaf_canonical leaf)"

text \<open>\<open>zip(..).any(|(leaf, route)| route digest != leaf digest)\<close>.\<close>

definition some_route_mismatch :: "CanonicalLeafManifest \<Rightarrow> DangerRoute list \<Rightarrow> bool" where
  "some_route_mismatch manifest routes \<longleftrightarrow>
     list_ex (\<lambda>(leaf, route). dr_canonical_leaf_digest route \<noteq> leaf_digest_hex leaf)
       (zip (leaves manifest) routes)"

definition bind_danger_admission ::
    "CanonicalLeafManifest \<Rightarrow> DangerRoute list \<Rightarrow> DangerAdmissionProofError + DangerAdmissionProof" where
  "bind_danger_admission manifest routes =
     (if length (leaves manifest) \<noteq> length routes then Inl LeafCountMismatch
      else if some_route_mismatch manifest routes then Inl LeafRouteMismatch
      else Inr \<lparr>canonical_manifest_digest = fb_digest (manifest_canonical manifest),
                routes_in_manifest_order = routes\<rparr>)"

fun is_confirmation :: "DangerRouteKind \<Rightarrow> bool" where
  "is_confirmation (DangerRouteKind.RequiresOneConfirmation _) \<longleftrightarrow> True"
| "is_confirmation DangerRouteKind.Ordinary \<longleftrightarrow> False"

definition validate_for_manifest ::
    "DangerAdmissionProof \<Rightarrow> CanonicalLeafManifest \<Rightarrow> DangerAdmissionProofError + DangerAdmissionState" where
  "validate_for_manifest p manifest =
     (if canonical_manifest_digest p \<noteq> fb_digest (manifest_canonical manifest) then Inl ManifestMismatch
      else if length (routes_in_manifest_order p) \<noteq> length (leaves manifest) then Inl LeafCountMismatch
      else if some_route_mismatch manifest (routes_in_manifest_order p) then Inl LeafRouteMismatch
      else Inr (if list_ex (is_confirmation \<circ> kind) (routes_in_manifest_order p)
                then RequiresOneConfirmation else Ordinary))"

definition confirmation_for_leaf :: "DangerRoute \<Rightarrow> CanonicalLeafAction \<Rightarrow> DangerAssessment option" where
  "confirmation_for_leaf route leaf =
     (if dr_canonical_leaf_digest route \<noteq> leaf_digest_hex leaf then None
      else case kind route of
        DangerRouteKind.Ordinary \<Rightarrow> None
      | DangerRouteKind.RequiresOneConfirmation assessment \<Rightarrow> Some assessment)"

subsection \<open>Signing bytes\<close>

definition push_signature_frame :: "bytes \<Rightarrow> bytes" where
  "push_signature_frame v = be_bytes 8 (length v) @ v"

definition DANGER_ADMISSION_SIGNATURE_DOMAIN :: bytes where
  "DANGER_ADMISSION_SIGNATURE_DOMAIN = ''carsinos.execass.danger_admission.v1''"

text \<open>The values framed for one route, in the order they are pushed.\<close>

definition category_json :: "externals \<Rightarrow> KnownDangerCategory option \<Rightarrow> bytes" where
  "category_json X c =
     json_to_string X (case c of None \<Rightarrow> JNull | Some c \<Rightarrow> JString (category_name c))"

definition route_fields :: "externals \<Rightarrow> DangerRoute \<Rightarrow> bytes list" where
  "route_fields X route =
     dr_canonical_leaf_digest route #
     (case kind route of
        DangerRouteKind.Ordinary \<Rightarrow> [''ordinary'']
      | DangerRouteKind.RequiresOneConfirmation a \<Rightarrow>
          [''requires_one_confirmation'', json_str X (source_name (source a)),
           category_json X (known_category a), declared_consequence a,
           [if requires_one_confirmation a then CHR 0x01 else CHR 0x00]])"

definition danger_admission_signing_bytes ::
    "externals \<Rightarrow> DangerAdmissionProof \<Rightarrow> string \<Rightarrow> u64 \<Rightarrow> string \<Rightarrow> string \<Rightarrow> string \<Rightarrow> u64
     \<Rightarrow> DangerAdmissionProofError + bytes" where
  "danger_admission_signing_bytes X p key generation root installation os_user state_generation =
     (if blank key \<or> generation = 0 \<or> blank root \<or> blank installation \<or> blank os_user
         \<or> state_generation = 0 \<or> length (canonical_manifest_digest p) \<noteq> 64
      then Inl InvalidSigningField
      else Inr (concat (map push_signature_frame
        ([DANGER_ADMISSION_SIGNATURE_DOMAIN, key, word_bytes generation, root, installation, os_user,
          word_bytes state_generation, canonical_manifest_digest p,
          be_bytes 8 (length (routes_in_manifest_order p))]
         @ concat (map (route_fields X) (routes_in_manifest_order p))))))"

definition signing_bytes ::
    "externals \<Rightarrow> SignedDangerAdmissionProof \<Rightarrow> DangerAdmissionProofError + bytes" where
  "signing_bytes X s = danger_admission_signing_bytes X (admission s) (key_id s) (key_generation s)
     (canonical_root_identity s) (installation_identity s) (os_user_identity_digest s)
     (state_root_generation s)"

subsection \<open>Routing\<close>

datatype DangerRoutingError =
  MetadataLeafMismatch | ModelSignalLeafMismatch | ModelSignalTargetMismatch

text \<open>\<open>min_by_key\<close>: the first element of the least key.\<close>

fun min_by_rank :: "VerifiedDangerFact list \<Rightarrow> VerifiedDangerFact option" where
  "min_by_rank [] = None"
| "min_by_rank (f # fs) =
     (case min_by_rank fs of
        None \<Rightarrow> Some f
      | Some g \<Rightarrow> if category_rank f \<le> category_rank g then Some f else Some g)"

text \<open>\<open>join(" ")\<close>.\<close>

fun join_space :: "string list \<Rightarrow> string" where
  "join_space [] = []"
| "join_space [x] = x"
| "join_space (x # y # zs) = x @ CHR '' '' # join_space (y # zs)"

definition match_known_danger ::
    "CanonicalLeafAction \<Rightarrow> VerifiedDangerSystemMetadata \<Rightarrow> DangerRoutingError + DangerRoute" where
  "match_known_danger leaf metadata =
     (if md_canonical_leaf_digest metadata \<noteq> leaf_digest_hex leaf then Inl MetadataLeafMismatch
      else case min_by_rank (facts metadata) of
        None \<Rightarrow> Inr \<lparr>dr_canonical_leaf_digest = leaf_digest_hex leaf, kind = DangerRouteKind.Ordinary\<rparr>
      | Some primary \<Rightarrow>
          Inr \<lparr>dr_canonical_leaf_digest = leaf_digest_hex leaf,
               kind = DangerRouteKind.RequiresOneConfirmation
                 \<lparr>source = KnownCategory, known_category = Some (category primary),
                  declared_consequence =
                    join_space (remdups_adj (sort (map consequence (facts metadata)))),
                  requires_one_confirmation = True\<rparr>\<rparr>)"

text \<open>\<open>snapshot.get("targets").as_array()\<close>.\<close>

definition snapshot_targets :: "json \<Rightarrow> json list option" where
  "snapshot_targets snapshot =
     (case snapshot of
        JObject members \<Rightarrow>
          (case map_of members ''targets'' of Some (JArray ts) \<Rightarrow> Some ts | _ \<Rightarrow> None)
      | _ \<Rightarrow> None)"

definition is_exact_snapshot_target :: "externals \<Rightarrow> CanonicalLeafAction \<Rightarrow> string \<Rightarrow> bool" where
  "is_exact_snapshot_target X leaf target =
     (case Option.bind (json_from_str X (fb_bytes (target_snapshot leaf))) snapshot_targets of
        None \<Rightarrow> False
      | Some targets \<Rightarrow> targets = [JString target])"

definition route_credible_model_danger ::
    "externals \<Rightarrow> CanonicalLeafAction \<Rightarrow> DangerRoute \<Rightarrow> CredibleModelDangerSignal option
     \<Rightarrow> DangerRoutingError + DangerRoute" where
  "route_credible_model_danger X leaf current signal =
     (if dr_canonical_leaf_digest current \<noteq> leaf_digest_hex leaf then Inl MetadataLeafMismatch
      else case signal of
        None \<Rightarrow> Inr current
      | Some signal \<Rightarrow>
          if sg_canonical_leaf_digest signal \<noteq> leaf_digest_hex leaf then Inl ModelSignalLeafMismatch
          else if \<not> is_exact_snapshot_target X leaf (sg_resolved_target signal)
          then Inl ModelSignalTargetMismatch
          else if is_confirmation (kind current) then Inr current
          else Inr \<lparr>dr_canonical_leaf_digest = leaf_digest_hex leaf,
                    kind = DangerRouteKind.RequiresOneConfirmation
                      \<lparr>source = ModelCredibleDanger, known_category = None,
                       declared_consequence = ''This will '' @ sg_material_result signal
                         @ '' for the resolved target `'' @ sg_resolved_target signal @ ''`.'',
                       requires_one_confirmation = True\<rparr>\<rparr>)"

subsection \<open>Issuing facts, signals and routine identities\<close>

text \<open>\<open>AuthoritativeDangerFact\<close> has the variants of \<open>VerifiedDangerFact\<close> and is mapped to them one to
  one, so both are one type here; \<open>Panic\<close> is the branch of the two \<open>expect\<close>s.\<close>

datatype ProductionDangerIssuanceError =
    EmptyFacts | InvalidResolvedTarget | TargetNotInCanonicalSnapshot | TargetSnapshotNotExact | Panic

definition issue_authoritative_model_danger_signal ::
    "externals \<Rightarrow> CanonicalLeafAction \<Rightarrow> string \<Rightarrow> AuthoritativeModelDangerResult
     \<Rightarrow> ProductionDangerIssuanceError + CredibleModelDangerSignal" where
  "issue_authoritative_model_danger_signal X leaf target result =
     (if blank target then Inl InvalidResolvedTarget
      else if \<not> is_exact_snapshot_target X leaf target then Inl TargetSnapshotNotExact
      else Inr \<lparr>sg_canonical_leaf_digest = leaf_digest_hex leaf, sg_resolved_target = target,
                sg_material_result = material_result result\<rparr>)"

definition issue_fact ::
    "json list \<Rightarrow> VerifiedDangerFact \<Rightarrow> ProductionDangerIssuanceError + VerifiedDangerFact" where
  "issue_fact targets f =
     (if blank (resolved_target f) then Inl InvalidResolvedTarget
      else if JString (resolved_target f) \<notin> set targets then Inl TargetNotInCanonicalSnapshot
      else Inr f)"

definition issue_authoritative_danger_metadata ::
    "externals \<Rightarrow> CanonicalLeafAction \<Rightarrow> VerifiedDangerFact list
     \<Rightarrow> ProductionDangerIssuanceError + VerifiedDangerSystemMetadata" where
  "issue_authoritative_danger_metadata X leaf claimed =
     (if claimed = [] then Inl EmptyFacts
      else rbind (of_option Panic
                    (Option.bind (json_from_str X (fb_bytes (target_snapshot leaf))) snapshot_targets))
             (\<lambda>targets. rbind (rmap (issue_fact targets) claimed) (\<lambda>verified.
                Inr \<lparr>md_canonical_leaf_digest = leaf_digest_hex leaf, facts = verified\<rparr>)))"

definition issue_authoritative_ordinary_metadata ::
    "CanonicalLeafAction \<Rightarrow> VerifiedDangerSystemMetadata" where
  "issue_authoritative_ordinary_metadata leaf =
     \<lparr>md_canonical_leaf_digest = leaf_digest_hex leaf, facts = []\<rparr>"

record VerifiedSavedRoutineSelector =
  routine_id :: string
  routine_version :: i64
  canonical_selector_json :: string
  stable_leaf_digest :: Sha256Digest

definition saved_routine_parts :: "CanonicalLeafAction \<Rightarrow> bytes list" where
  "saved_routine_parts leaf =
     [action_kind leaf, tool_id (tool leaf), tool_version (tool leaf), fb_bytes (operands leaf),
      fb_bytes (ca_normalized_scope (owner_authority leaf)),
      (case material_digest leaf of Some d \<Rightarrow> d | None \<Rightarrow> [])]"

definition saved_routine_stable_leaf_digest :: "externals \<Rightarrow> CanonicalLeafAction \<Rightarrow> Sha256Digest" where
  "saved_routine_stable_leaf_digest X leaf =
     sha256_hex X (''carsinos.execass.saved_routine_stable_leaf.v1''
       @ concat (map (\<lambda>part. be_bytes 8 (length part) @ part) (saved_routine_parts leaf)))"

definition matches_stable_leaf ::
    "externals \<Rightarrow> VerifiedSavedRoutineSelector \<Rightarrow> CanonicalLeafAction \<Rightarrow> bool" where
  "matches_stable_leaf X selector leaf \<longleftrightarrow>
     stable_leaf_digest selector = saved_routine_stable_leaf_digest X leaf"

subsection \<open>The framing interface on the signature frames\<close>

interpretation signature_frames: byte_framing push_signature_frame "256 ^ 8"
proof unfold_locales
  fix a b x y :: bytes
  assume "length a < 256 ^ 8" and "length b < 256 ^ 8"
  then show "push_signature_frame a @ x = push_signature_frame b @ y \<longleftrightarrow> a = b \<and> x = y"
    using header_frame_cancel [of a 8 b x y] by (simp add: push_signature_frame_def header_frame_def)
next
  fix a :: bytes
  show "push_signature_frame a \<noteq> []"
    using length_be_bytes [of 8 "length a"]
    by (auto simp: push_signature_frame_def simp del: length_be_bytes)
qed

lemma routine_digest_frames:
  "saved_routine_stable_leaf_digest X leaf =
     sha256_hex X (''carsinos.execass.saved_routine_stable_leaf.v1''
       @ concat (map push_signature_frame (saved_routine_parts leaf)))"
proof -
  have "(\<lambda>part. be_bytes 8 (length part) @ part) = push_signature_frame"
    by (rule ext) (simp add: push_signature_frame_def)
  then show ?thesis by (simp only: saved_routine_stable_leaf_digest_def)
qed

subsection \<open>Lemmas on routes\<close>

lemma min_by_rank_None [simp]: "min_by_rank fs = None \<longleftrightarrow> fs = []"
  by (cases fs) (simp_all split: option.split)

lemma min_by_rank_Some:
  "min_by_rank fs = Some f \<Longrightarrow> f \<in> set fs \<and> (\<forall>g \<in> set fs. category_rank f \<le> category_rank g)"
proof (induction fs arbitrary: f)
  case (Cons g fs)
  then show ?case
    by (cases "min_by_rank fs") (fastforce split: if_splits)+
qed simp

lemma zip_mismatch_iff:
  "length ls = length rs \<Longrightarrow>
   list_ex (\<lambda>(l, r). f r \<noteq> g l) (zip ls rs) \<longleftrightarrow> map f rs \<noteq> map g ls"
  by (induction ls rs rule: list_induct2) auto

lemma route_mismatch_iff:
  "length (leaves m) = length rs \<Longrightarrow>
   some_route_mismatch m rs \<longleftrightarrow> map dr_canonical_leaf_digest rs \<noteq> map leaf_digest_hex (leaves m)"
  unfolding some_route_mismatch_def by (rule zip_mismatch_iff)

lemma bind_danger_Inr:
  "bind_danger_admission m rs = Inr p \<longleftrightarrow>
     map dr_canonical_leaf_digest rs = map leaf_digest_hex (leaves m)
     \<and> p = \<lparr>canonical_manifest_digest = fb_digest (manifest_canonical m), routes_in_manifest_order = rs\<rparr>"
proof (cases "length (leaves m) = length rs")
  case True
  then show ?thesis
    using route_mismatch_iff [OF True] by (auto simp: bind_danger_admission_def)
next
  case False
  then show ?thesis
    by (auto simp: bind_danger_admission_def dest: arg_cong [where f = length])
qed

lemma validate_Inr:
  "validate_for_manifest p m = Inr st \<longleftrightarrow>
     canonical_manifest_digest p = fb_digest (manifest_canonical m)
     \<and> map dr_canonical_leaf_digest (routes_in_manifest_order p) = map leaf_digest_hex (leaves m)
     \<and> st = (if list_ex (is_confirmation \<circ> kind) (routes_in_manifest_order p)
              then RequiresOneConfirmation else Ordinary)"
proof (cases "length (leaves m) = length (routes_in_manifest_order p)")
  case True
  then show ?thesis
    using route_mismatch_iff [OF True] by (auto simp: validate_for_manifest_def)
next
  case False
  then show ?thesis
    by (auto simp: validate_for_manifest_def dest: arg_cong [where f = length])
qed

lemma bind_then_validate:
  assumes "bind_danger_admission m rs = Inr p"
  shows "validate_for_manifest p m' = Inr st \<longleftrightarrow>
     fb_digest (manifest_canonical m') = fb_digest (manifest_canonical m)
     \<and> map leaf_digest_hex (leaves m') = map leaf_digest_hex (leaves m)
     \<and> st = (if list_ex (is_confirmation \<circ> kind) rs then RequiresOneConfirmation else Ordinary)"
  using assms unfolding bind_danger_Inr validate_Inr by auto

subsection \<open>The signature covers the whole proof\<close>

text \<open>Documented of \<open>serde_json\<close>: the texts of \<open>null\<close> and of strings are pairwise different.\<close>

definition json_text_faithful :: "externals \<Rightarrow> bool" where
  "json_text_faithful X \<longleftrightarrow> inj_on (json_to_string X) (insert JNull (range JString))"

lemma faithful_eq:
  "json_text_faithful X \<Longrightarrow> json_to_string X (JString s) = json_to_string X (JString t) \<longleftrightarrow> s = t"
  "json_text_faithful X \<Longrightarrow> json_to_string X JNull \<noteq> json_to_string X (JString t)"
  "json_text_faithful X \<Longrightarrow> json_to_string X (JString t) \<noteq> json_to_string X JNull"
  by (auto simp: json_text_faithful_def inj_on_def)

lemma category_name_inj: "category_name c = category_name d \<longleftrightarrow> c = d"
  by (cases c; cases d) (simp only: category_name.simps; simp)+

lemma source_name_inj: "source_name c = source_name d \<longleftrightarrow> c = d"
  by (cases c; cases d) simp_all

lemma category_json_inj:
  "json_text_faithful X \<Longrightarrow> category_json X c = category_json X d \<longleftrightarrow> c = d"
  by (cases c; cases d) (simp_all add: category_json_def faithful_eq category_name_inj)

lemma route_fields_cancel:
  assumes "json_text_faithful X"
  shows "route_fields X r @ x = route_fields X s @ y \<longleftrightarrow> r = s \<and> x = y"
  using assms
  by (cases r; cases s; cases "kind r"; cases "kind s")
     (auto simp: route_fields_def json_str_def faithful_eq source_name_inj category_json_inj
       split: if_splits intro!: DangerAssessment.equality)

lemma routes_fields_inj:
  assumes "json_text_faithful X" and "length rs = length ss"
    and "concat (map (route_fields X) rs) = concat (map (route_fields X) ss)"
  shows "rs = ss"
  using assms(2,3)
  by (induction rs ss rule: list_induct2) (auto simp: route_fields_cancel [OF assms(1)])

lemma length_in_frames: "f \<in> set fs \<Longrightarrow> length f \<le> length (concat (map push_signature_frame fs))"
  by (induction fs) (auto simp: push_signature_frame_def)

lemma length_frames: "length fs \<le> length (concat (map push_signature_frame fs))"
  by (induction fs) (auto simp: push_signature_frame_def)

lemma length_routes: "length rs \<le> length (concat (map (route_fields X) rs))"
proof (induction rs)
  case (Cons r rs)
  have "1 \<le> length (route_fields X r)" by (simp add: route_fields_def)
  with Cons show ?case by simp
qed simp

subsection \<open>Properties\<close>

text \<open>C28: a bound danger admission is accepted for exactly the manifests it was bound to. Once
  routes are bound to a manifest, validation against any manifest succeeds if and only if that
  manifest has the same canonical digest and the same leaf digests in the same order, and then
  asks for one confirmation exactly when some route does.\<close>

theorem danger_admission_exact:
  assumes "bind_danger_admission m rs = Inr p"
  shows "validate_for_manifest p m' = Inr st \<longleftrightarrow>
     fb_digest (manifest_canonical m') = fb_digest (manifest_canonical m)
     \<and> map leaf_digest_hex (leaves m') = map leaf_digest_hex (leaves m)
     \<and> st = (if list_ex (is_confirmation \<circ> kind) rs then RequiresOneConfirmation else Ordinary)"
  using assms by (rule bind_then_validate)

lemma signing_Inr:
  "signing_bytes X s = Inr b \<Longrightarrow>
     length (canonical_manifest_digest (admission s)) = 64
     \<and> b = concat (map push_signature_frame
        ([DANGER_ADMISSION_SIGNATURE_DOMAIN, key_id s, word_bytes (key_generation s),
          canonical_root_identity s, installation_identity s, os_user_identity_digest s,
          word_bytes (state_root_generation s), canonical_manifest_digest (admission s),
          be_bytes 8 (length (routes_in_manifest_order (admission s)))]
         @ concat (map (route_fields X) (routes_in_manifest_order (admission s)))))"
  by (simp add: signing_bytes_def danger_admission_signing_bytes_def split: if_splits)

lemma signing_frames_short:
  assumes "b = concat (map push_signature_frame fs)" and "fits b"
  shows "f \<in> set fs \<Longrightarrow> fits f"
  using assms length_in_frames [of f fs] by simp

lemma signing_routes_fit:
  assumes "b = concat (map push_signature_frame (gs @ concat (map (route_fields X) rs)))" and "fits b"
  shows "length rs < 256 ^ 8"
  using assms length_frames [of "gs @ concat (map (route_fields X) rs)"] length_routes [of rs X]
  by simp

text \<open>The admission signature covers the whole proof. Two signed proofs with the same signing
  bytes are equal up to the signature itself: key, generations, identities, manifest digest and
  every route with its whole assessment. The frames leave no other reading of the bytes.\<close>

theorem danger_signature_binds_everything:
  assumes "signing_bytes X s = Inr b" and "signing_bytes X t = Inr b"
    and "fits b" and "json_text_faithful X"
  shows "s\<lparr>signature_hex := signature_hex t\<rparr> = t"
proof -
  let ?fs = "\<lambda>s. [DANGER_ADMISSION_SIGNATURE_DOMAIN, key_id s, word_bytes (key_generation s),
          canonical_root_identity s, installation_identity s, os_user_identity_digest s,
          word_bytes (state_root_generation s), canonical_manifest_digest (admission s),
          be_bytes 8 (length (routes_in_manifest_order (admission s)))]"
  let ?rs = "\<lambda>s. routes_in_manifest_order (admission s)"
  let ?all = "\<lambda>s. ?fs s @ concat (map (route_fields X) (?rs s))"
  have bs: "b = concat (map push_signature_frame (?all s))"
    and bt: "b = concat (map push_signature_frame (?all t))"
    using signing_Inr [OF assms(1)] signing_Inr [OF assms(2)] by blast+
  have "?all s = ?all t"
    using signature_frames.frames_inj [of "?all s" "?all t"] bs bt
      signing_frames_short [OF bs assms(3)] signing_frames_short [OF bt assms(3)] by blast
  moreover have "length (?rs s) < 256 ^ 8" and "length (?rs t) < 256 ^ 8"
    using signing_routes_fit [OF bs assms(3)] signing_routes_fit [OF bt assms(3)] .
  ultimately have head: "?fs s = ?fs t" and len: "length (?rs s) = length (?rs t)"
    and body: "concat (map (route_fields X) (?rs s)) = concat (map (route_fields X) (?rs t))"
    by (simp_all add: be_bytes_inj del: power_numeral)
  have "?rs s = ?rs t" by (rule routes_fields_inj [OF assms(4) len body])
  with head show ?thesis
    by (simp del: power_numeral)
qed

lemma distinct_remdups_adj: "sorted xs \<Longrightarrow> distinct (remdups_adj (xs :: string list))"
  by (induction xs rule: remdups_adj.induct) (auto dest: order.antisym)

lemma order_independent_consequence:
  "set fs = set gs \<Longrightarrow>
     remdups_adj (sort (map consequence fs)) = remdups_adj (sort (map consequence gs))"
  by (intro sorted_distinct_set_unique) (simp_all add: distinct_remdups_adj)

lemma rank_category: "category_rank f = category_rank g \<longleftrightarrow> category f = category g"
  by (cases f; cases g) simp_all

lemma least_category_set:
  assumes "set fs = set gs" and "min_by_rank fs = Some f" and "min_by_rank gs = Some g"
  shows "category f = category g"
  using min_by_rank_Some [OF assms(2)] min_by_rank_Some [OF assms(3)] assms(1)
  by (metis order.antisym rank_category)

text \<open>Only the set of facts matters. The route of a leaf is the same for metadata whose facts
  are listed in another order or repeated, and an ordinary route comes out exactly when there is
  no fact.\<close>

theorem known_danger_order_irrelevant:
  assumes "md_canonical_leaf_digest md = md_canonical_leaf_digest md'"
    and "set (facts md) = set (facts md')"
  shows "match_known_danger leaf md = match_known_danger leaf md'"
proof (cases "facts md = []")
  case True
  with assms show ?thesis by (simp add: match_known_danger_def)
next
  case False
  with assms(2) have "facts md' \<noteq> []" by auto
  with False obtain f g where f: "min_by_rank (facts md) = Some f"
    and g: "min_by_rank (facts md') = Some g"
    by (meson min_by_rank_None option.exhaust)
  show ?thesis
    using assms(1) f g least_category_set [OF assms(2) f g] order_independent_consequence [OF assms(2)]
    by (simp add: match_known_danger_def)
qed

lemma match_known_danger_Inr:
  assumes "match_known_danger leaf md = Inr r"
  shows "dr_canonical_leaf_digest r = leaf_digest_hex leaf"
    and "is_confirmation (kind r) \<longleftrightarrow> facts md \<noteq> []"
  using assms by (auto simp: match_known_danger_def split: if_splits option.splits)

text \<open>A danger is asked about once, in its gravest category. Metadata bound to the leaf always
  yields a route of that leaf, never a refusal; with no facts it is ordinary, and otherwise it is
  one confirmation whose category is that of a claimed fact that no other claimed fact outranks.\<close>

theorem known_danger_routes_once:
  assumes "md_canonical_leaf_digest md = leaf_digest_hex leaf"
  shows "\<exists>r. match_known_danger leaf md = Inr r \<and> dr_canonical_leaf_digest r = leaf_digest_hex leaf
     \<and> (if facts md = [] then kind r = DangerRouteKind.Ordinary
        else \<exists>a f. kind r = DangerRouteKind.RequiresOneConfirmation a \<and> source a = KnownCategory
          \<and> requires_one_confirmation a \<and> known_category a = Some (category f)
          \<and> f \<in> set (facts md) \<and> list_all (\<lambda>g. category_rank f \<le> category_rank g) (facts md))"
proof (cases "min_by_rank (facts md)")
  case None
  with assms show ?thesis by (simp add: match_known_danger_def)
next
  case (Some f)
  then have "facts md \<noteq> []" by auto
  with Some assms min_by_rank_Some [OF Some] show ?thesis
    by (auto simp: match_known_danger_def list_all_iff)
qed

lemma route_model_Inr:
  assumes "dr_canonical_leaf_digest current = leaf_digest_hex leaf"
    and "issue_authoritative_model_danger_signal X leaf target result = Inr sg"
  shows "\<exists>r. route_credible_model_danger X leaf current (Some sg) = Inr r
     \<and> dr_canonical_leaf_digest r = leaf_digest_hex leaf
     \<and> is_confirmation (kind r) \<and> (is_confirmation (kind current) \<longrightarrow> r = current)"
  using assms
  by (auto simp: issue_authoritative_model_danger_signal_def route_credible_model_danger_def
      split: if_splits)

text \<open>A model signal only ever adds a confirmation. A signal issued for the leaf is always
  accepted on a route of that leaf; the result asks for a confirmation of the same leaf, and a
  route that already asked for one is left untouched.\<close>

theorem model_signal_never_downgrades:
  assumes "dr_canonical_leaf_digest current = leaf_digest_hex leaf"
    and "issue_authoritative_model_danger_signal X leaf target result = Inr sg"
  shows "\<exists>r. route_credible_model_danger X leaf current (Some sg) = Inr r
     \<and> dr_canonical_leaf_digest r = leaf_digest_hex leaf
     \<and> is_confirmation (kind r) \<and> (is_confirmation (kind current) \<longrightarrow> r = current)"
  using assms by (rule route_model_Inr)

text \<open>Matching every leaf of a manifest against its metadata, as admission does.\<close>

abbreviation match_all ::
    "CanonicalLeafAction list \<Rightarrow> VerifiedDangerSystemMetadata list \<Rightarrow> DangerRoutingError + DangerRoute list" where
  "match_all ls mds \<equiv> rmap (\<lambda>(leaf, md). match_known_danger leaf md) (zip ls mds)"

lemma match_all_Inr:
  assumes "length ls = length mds" and "match_all ls mds = Inr rs"
  shows "map dr_canonical_leaf_digest rs = map leaf_digest_hex ls
     \<and> (list_ex (is_confirmation \<circ> kind) rs \<longleftrightarrow> list_ex (\<lambda>md. facts md \<noteq> []) mds)"
  using assms
proof (induction ls mds arbitrary: rs rule: list_induct2)
  case Nil
  then show ?case by simp
next
  case (Cons l ls md mds)
  then obtain r rs' where "rs = r # rs'" and r: "match_known_danger l md = Inr r"
    and "match_all ls mds = Inr rs'"
    by (auto simp: rbind_def split: sum.splits)
  with Cons.IH [of rs'] match_known_danger_Inr [OF r] show ?case by auto
qed

text \<open>C10: from facts to admission. When every leaf of a manifest is routed by its metadata, the
  routes bind to the manifest, the proof validates for it, and the manifest as a whole asks for
  one confirmation exactly when some leaf has a danger fact.\<close>

theorem danger_pipeline:
  assumes "length (leaves m) = length mds" and "match_all (leaves m) mds = Inr rs"
  shows "\<exists>p. bind_danger_admission m rs = Inr p
     \<and> validate_for_manifest p m = Inr (if list_ex (\<lambda>md. facts md \<noteq> []) mds
          then RequiresOneConfirmation else Ordinary)"
proof -
  note R = match_all_Inr [OF assms]
  then obtain p where p: "bind_danger_admission m rs = Inr p" by (simp add: bind_danger_Inr)
  show ?thesis using p bind_then_validate [OF p] R by auto
qed

subsection \<open>Witnesses\<close>

definition system_facts :: "VerifiedDangerFact list" where
  "system_facts = [WholeUserProfileOrHome ''/home/o'', WholeDriveVolumeBootRecoveryOrCoreOsTree ''/'']"

definition facts_for :: "CanonicalLeafAction \<Rightarrow> VerifiedDangerFact list \<Rightarrow> VerifiedDangerSystemMetadata" where
  "facts_for leaf fs = \<lparr>md_canonical_leaf_digest = leaf_digest_hex leaf, facts = fs\<rparr>"

definition single_leaf :: "CanonicalLeafAction \<Rightarrow> CanonicalLeafManifest" where
  "single_leaf leaf = \<lparr>leaves = [leaf], manifest_canonical = leaf_canonical leaf\<rparr>"

lemma known_danger_order_irrelevant_witness:
  "\<forall>leaf. match_known_danger leaf (facts_for leaf (system_facts @ system_facts))
     = match_known_danger leaf (facts_for leaf (rev system_facts))"
  by (intro allI known_danger_order_irrelevant) (auto simp: facts_for_def)

lemma known_danger_routes_once_witness:
  "\<forall>leaf. \<exists>r a. match_known_danger leaf (facts_for leaf system_facts) = Inr r
     \<and> kind r = DangerRouteKind.RequiresOneConfirmation a
     \<and> known_category a = Some WholeDriveVolumeBootRecoveryOrCoreOsTreeErasureOrUnusable"
proof
  fix leaf
  show "\<exists>r a. match_known_danger leaf (facts_for leaf system_facts) = Inr r
     \<and> kind r = DangerRouteKind.RequiresOneConfirmation a
     \<and> known_category a = Some WholeDriveVolumeBootRecoveryOrCoreOsTreeErasureOrUnusable"
    using known_danger_routes_once [of "facts_for leaf system_facts" leaf]
    by (auto simp: facts_for_def system_facts_def)
qed

lemma danger_pipeline_witness:
  "\<forall>leaf. \<exists>rs p. match_all (leaves (single_leaf leaf)) [facts_for leaf system_facts] = Inr rs
     \<and> bind_danger_admission (single_leaf leaf) rs = Inr p
     \<and> validate_for_manifest p (single_leaf leaf) = Inr RequiresOneConfirmation"
proof
  fix leaf
  obtain rs where rs: "match_all (leaves (single_leaf leaf)) [facts_for leaf system_facts] = Inr rs"
    by (simp add: single_leaf_def facts_for_def match_known_danger_def system_facts_def)
  with danger_pipeline [of "single_leaf leaf" "[facts_for leaf system_facts]" rs]
  show "\<exists>rs p. match_all (leaves (single_leaf leaf)) [facts_for leaf system_facts] = Inr rs
     \<and> bind_danger_admission (single_leaf leaf) rs = Inr p
     \<and> validate_for_manifest p (single_leaf leaf) = Inr RequiresOneConfirmation"
    by (auto simp: single_leaf_def facts_for_def system_facts_def)
qed

lemma danger_admission_exact_witness:
  "\<forall>leaf. \<exists>p. bind_danger_admission (single_leaf leaf)
       [\<lparr>dr_canonical_leaf_digest = leaf_digest_hex leaf, kind = DangerRouteKind.Ordinary\<rparr>] = Inr p
     \<and> validate_for_manifest p (single_leaf leaf) = Inr Ordinary"
proof
  fix leaf
  let ?rs = "[\<lparr>dr_canonical_leaf_digest = leaf_digest_hex leaf, kind = DangerRouteKind.Ordinary\<rparr>]"
  obtain p where p: "bind_danger_admission (single_leaf leaf) ?rs = Inr p"
    by (simp add: bind_danger_Inr single_leaf_def)
  then show "\<exists>p. bind_danger_admission (single_leaf leaf) ?rs = Inr p
     \<and> validate_for_manifest p (single_leaf leaf) = Inr Ordinary"
    using danger_admission_exact [OF p, of "single_leaf leaf" Ordinary] by simp
qed

definition targets_externals :: externals where
  "targets_externals = raw_externals
     \<lparr>json_from_str := \<lambda>_. Some (JObject [(''targets'', JArray [JString ''/srv/db''])])\<rparr>"

lemma model_signal_never_downgrades_witness:
  "\<forall>leaf. \<exists>sg r. issue_authoritative_model_danger_signal targets_externals leaf ''/srv/db'' DestroyExactTarget
       = Inr sg
     \<and> route_credible_model_danger targets_externals leaf
         \<lparr>dr_canonical_leaf_digest = leaf_digest_hex leaf, kind = DangerRouteKind.Ordinary\<rparr> (Some sg) = Inr r
     \<and> is_confirmation (kind r)"
proof
  fix leaf
  obtain sg where sg: "issue_authoritative_model_danger_signal targets_externals leaf ''/srv/db''
      DestroyExactTarget = Inr sg"
    by (simp add: issue_authoritative_model_danger_signal_def is_exact_snapshot_target_def
        snapshot_targets_def targets_externals_def)
  with model_signal_never_downgrades
    [of "\<lparr>dr_canonical_leaf_digest = leaf_digest_hex leaf, kind = DangerRouteKind.Ordinary\<rparr>" leaf
        targets_externals "''/srv/db''" DestroyExactTarget sg]
  show "\<exists>sg r. issue_authoritative_model_danger_signal targets_externals leaf ''/srv/db'' DestroyExactTarget
       = Inr sg
     \<and> route_credible_model_danger targets_externals leaf
         \<lparr>dr_canonical_leaf_digest = leaf_digest_hex leaf, kind = DangerRouteKind.Ordinary\<rparr> (Some sg) = Inr r
     \<and> is_confirmation (kind r)"
    by auto
qed

fun quoted_json :: "json \<Rightarrow> string" where
  "quoted_json (JString s) = CHR ''q'' # s"
| "quoted_json j = raw_json j"

definition quoted_externals :: externals where
  "quoted_externals = raw_externals\<lparr>json_to_string := quoted_json\<rparr>"

lemma faithful_quoted: "json_text_faithful quoted_externals"
  by (auto simp: json_text_faithful_def quoted_externals_def inj_on_def)

definition signed_sample :: SignedDangerAdmissionProof where
  "signed_sample = \<lparr>admission = \<lparr>canonical_manifest_digest = replicate 64 (CHR ''0''),
      routes_in_manifest_order = []\<rparr>, key_id = ''k'', key_generation = 1,
     canonical_root_identity = ''r'', installation_identity = ''i'', os_user_identity_digest = ''u'',
     state_root_generation = 1, signature_hex = ''s''\<rparr>"

lemma signed_sample_bytes:
  "\<exists>b. signing_bytes quoted_externals signed_sample = Inr b \<and> fits b"
  by (simp add: signing_bytes_def danger_admission_signing_bytes_def signed_sample_def
      push_signature_frame_def DANGER_ADMISSION_SIGNATURE_DOMAIN_def)

lemma danger_signature_binds_everything_witness:
  "\<exists>b t. signing_bytes quoted_externals signed_sample = Inr b
     \<and> signing_bytes quoted_externals t = Inr b \<and> t \<noteq> signed_sample
     \<and> signed_sample\<lparr>signature_hex := signature_hex t\<rparr> = t"
proof -
  let ?t = "signed_sample\<lparr>signature_hex := ''t''\<rparr>"
  obtain b where b: "signing_bytes quoted_externals signed_sample = Inr b" and "fits b"
    using signed_sample_bytes by blast
  moreover from b have t: "signing_bytes quoted_externals ?t = Inr b"
    by (simp add: signing_bytes_def)
  moreover have "?t \<noteq> signed_sample" by (simp add: signed_sample_def)
  ultimately show ?thesis
    using danger_signature_binds_everything [OF b t _ faithful_quoted] by blast
qed

end
