(* ===== verification/RecorderProtocol.thy ===== *)
theory RecorderProtocol
  imports Framing
begin

text \<open>
  The wire contract of the effect recorder,
  \<^verbatim>\<open>crates/carsinos-protocol/src/execass_recorder.rs\<close>: requests, signed observations and
  replies, the canonical JSON they are authenticated over, request validation and the
  four-byte length framing of the transport. What \<open>derive(Serialize)\<close> generates for a struct is
  its \<open>_json\<close> function: the members in declaration order, an absent option as \<open>null\<close>.
\<close>

subsection \<open>Messages\<close>

definition RECORDER_PROTOCOL_VERSION :: string where
  "RECORDER_PROTOCOL_VERSION = ''carsinos.execass.effect-recorder.v1''"

definition RECORDER_MAX_FRAME_BYTES :: nat where
  "RECORDER_MAX_FRAME_BYTES = 1024 * 1024"

definition RECORDER_HANDSHAKE_VERSION :: string where
  "RECORDER_HANDSHAKE_VERSION = ''carsinos.execass.effect-recorder.handshake.v1''"

record RecorderBindingV1 =
  rb_protocol_version :: string
  rb_canonical_root_identity :: string
  rb_installation_id :: string
  rb_state_root_generation :: i64
  rb_os_user_identity_digest :: string
  rb_runtime_host_generation :: i64
  rb_runtime_host_instance_id :: string
  rb_runtime_fencing_token :: i64

record OpaqueSecretHandleV1 =
  sh_version :: i64
  sh_backend :: string
  sh_opaque_id :: string
  sh_purpose :: string
  sh_capability_class :: string

record OpaqueOperandEnvelopeV1 =
  oe_non_secret :: json
  oe_secret_handles :: "OpaqueSecretHandleV1 list"

record ExecuteOnceV1 =
  eo_binding :: RecorderBindingV1
  eo_request_id :: string
  eo_claim_event_id :: string
  eo_claim_receipt_id :: string
  eo_continuation_fencing_token :: i64
  eo_delegation_id :: string
  eo_continuation_id :: string
  eo_action_id :: string
  eo_logical_effect_id :: string
  eo_internal_idempotency_key :: string
  eo_attempt_id :: string
  eo_attempt_number :: i64
  eo_provider_identity :: string
  eo_provider_version :: string
  eo_adapter_identity :: string
  eo_adapter_artifact_digest :: string
  eo_provider_request_digest :: string
  eo_provider_idempotency_key :: "string option"
  eo_reconciliation_key :: "string option"
  eo_manifest_digest :: string
  eo_payload_digest :: string
  eo_operand_envelope :: OpaqueOperandEnvelopeV1
  eo_deadline_ms :: i64
  eo_client_nonce :: string
  eo_command_mac :: string

record QueryOnlyV1 =
  qo_binding :: RecorderBindingV1
  qo_request_id :: string
  qo_attempt_id :: string
  qo_expected_command_digest :: "string option"
  qo_known_journal_head :: "string option"
  qo_client_nonce :: string
  qo_command_mac :: string

record ReconcileV1 =
  rc_binding :: RecorderBindingV1
  rc_request_id :: string
  rc_attempt_id :: string
  rc_expected_command_digest :: string
  rc_reconciliation_key :: string
  rc_reconciliation_key_digest :: string
  rc_consistency_window_start_ms :: i64
  rc_consistency_window_end_ms :: i64
  rc_client_nonce :: string
  rc_command_mac :: string

record TechnicalResourceActualV1 =
  tr_reservation_id :: string
  tr_amount_actual :: i64
  tr_evidence_digest :: string

record RecorderHandshakeChallengeV1 =
  hc_handshake_version :: string
  hc_binding :: RecorderBindingV1
  hc_client_nonce :: string
  hc_request_authentication_digest :: string

record RecorderHandshakeAttestationV1 =
  ha_handshake_version :: string
  ha_binding :: RecorderBindingV1
  ha_client_nonce :: string
  ha_request_authentication_digest :: string
  ha_server_nonce :: string
  ha_recorder_key_id :: string
  ha_recorder_key_generation :: u64
  ha_recorder_verifying_key_hex :: string
  ha_signature_hex :: string

datatype RecorderRequestV1 =
  ExecuteOnce ExecuteOnceV1 | QueryOnly QueryOnlyV1 | Reconcile ReconcileV1

datatype RecorderObservationKindV1 = Accepted | InvocationStarted | Present | Absent | Unknown

datatype RecorderObservationSourceV1 = Execution | Reconciliation

datatype ProviderFailureClassV1 =
  Transient | RateLimited | Authentication | Permanent | UnknownFailure

record SignedRecorderObservationV1 =
  ob_sequence :: u64
  ob_record_id :: string
  ob_canonical_root_identity :: string
  ob_installation_id :: string
  ob_state_root_generation :: i64
  ob_os_user_identity_digest :: string
  ob_attempt_id :: string
  ob_logical_effect_id :: string
  ob_command_digest :: string
  ob_kind :: RecorderObservationKindV1
  ob_source :: RecorderObservationSourceV1
  ob_provider_identity :: string
  ob_provider_version :: string
  ob_provider_request_digest :: string
  ob_provider_idempotency_key_digest :: "string option"
  ob_reconciliation_key_digest :: "string option"
  ob_remote_effect_id :: "string option"
  ob_response_digest :: "string option"
  ob_evidence_payload_digest :: "string option"
  ob_provider_error_class :: "ProviderFailureClassV1 option"
  ob_technical_resource_actuals :: "TechnicalResourceActualV1 list"
  ob_reconciliation_window_start_ms :: "i64 option"
  ob_reconciliation_window_end_ms :: "i64 option"
  ob_observed_at_ms :: i64
  ob_previous_record_digest :: string
  ob_record_digest :: string
  ob_recorder_key_id :: string
  ob_recorder_key_generation :: u64
  ob_signature_hex :: string

datatype RecorderProtocolError =
  FrameTooLarge | TruncatedFrame | InvalidJson string | UnsupportedVersion | InvalidField

datatype RecorderReplyV1 =
    Observation string bool SignedRecorderObservationV1
  | NotFound string
  | Rejected string string

subsection \<open>Serialized form\<close>

definition json_i64 :: "i64 \<Rightarrow> json" where
  "json_i64 v = JNumber (show_int (sint v))"

definition json_u64 :: "u64 \<Rightarrow> json" where
  "json_u64 v = JNumber (show_nat (unat v))"

definition json_option :: "('a \<Rightarrow> json) \<Rightarrow> 'a option \<Rightarrow> json" where
  "json_option f v = (case v of None \<Rightarrow> JNull | Some a \<Rightarrow> f a)"

fun kind_name :: "RecorderObservationKindV1 \<Rightarrow> string" where
  "kind_name Accepted = ''accepted''"
| "kind_name InvocationStarted = ''invocation_started''"
| "kind_name Present = ''present''"
| "kind_name Absent = ''absent''"
| "kind_name Unknown = ''unknown''"

fun source_kind_name :: "RecorderObservationSourceV1 \<Rightarrow> string" where
  "source_kind_name Execution = ''execution''"
| "source_kind_name Reconciliation = ''reconciliation''"

fun failure_class_name :: "ProviderFailureClassV1 \<Rightarrow> string" where
  "failure_class_name Transient = ''transient''"
| "failure_class_name RateLimited = ''rate_limited''"
| "failure_class_name Authentication = ''authentication''"
| "failure_class_name Permanent = ''permanent''"
| "failure_class_name UnknownFailure = ''unknown''"

definition binding_json :: "RecorderBindingV1 \<Rightarrow> json" where
  "binding_json b = JObject
     [(''protocol_version'', JString (rb_protocol_version b)),
      (''canonical_root_identity'', JString (rb_canonical_root_identity b)),
      (''installation_id'', JString (rb_installation_id b)),
      (''state_root_generation'', json_i64 (rb_state_root_generation b)),
      (''os_user_identity_digest'', JString (rb_os_user_identity_digest b)),
      (''runtime_host_generation'', json_i64 (rb_runtime_host_generation b)),
      (''runtime_host_instance_id'', JString (rb_runtime_host_instance_id b)),
      (''runtime_fencing_token'', json_i64 (rb_runtime_fencing_token b))]"

definition secret_handle_json :: "OpaqueSecretHandleV1 \<Rightarrow> json" where
  "secret_handle_json h = JObject
     [(''version'', json_i64 (sh_version h)), (''backend'', JString (sh_backend h)),
      (''opaque_id'', JString (sh_opaque_id h)), (''purpose'', JString (sh_purpose h)),
      (''capability_class'', JString (sh_capability_class h))]"

definition envelope_json :: "OpaqueOperandEnvelopeV1 \<Rightarrow> json" where
  "envelope_json e = JObject
     [(''non_secret'', oe_non_secret e),
      (''secret_handles'', JArray (map secret_handle_json (oe_secret_handles e)))]"

definition execute_once_json :: "ExecuteOnceV1 \<Rightarrow> json" where
  "execute_once_json c = JObject
     [(''binding'', binding_json (eo_binding c)),
      (''request_id'', JString (eo_request_id c)),
      (''claim_event_id'', JString (eo_claim_event_id c)),
      (''claim_receipt_id'', JString (eo_claim_receipt_id c)),
      (''continuation_fencing_token'', json_i64 (eo_continuation_fencing_token c)),
      (''delegation_id'', JString (eo_delegation_id c)),
      (''continuation_id'', JString (eo_continuation_id c)),
      (''action_id'', JString (eo_action_id c)),
      (''logical_effect_id'', JString (eo_logical_effect_id c)),
      (''internal_idempotency_key'', JString (eo_internal_idempotency_key c)),
      (''attempt_id'', JString (eo_attempt_id c)),
      (''attempt_number'', json_i64 (eo_attempt_number c)),
      (''provider_identity'', JString (eo_provider_identity c)),
      (''provider_version'', JString (eo_provider_version c)),
      (''adapter_identity'', JString (eo_adapter_identity c)),
      (''adapter_artifact_digest'', JString (eo_adapter_artifact_digest c)),
      (''provider_request_digest'', JString (eo_provider_request_digest c)),
      (''provider_idempotency_key'', json_option JString (eo_provider_idempotency_key c)),
      (''reconciliation_key'', json_option JString (eo_reconciliation_key c)),
      (''manifest_digest'', JString (eo_manifest_digest c)),
      (''payload_digest'', JString (eo_payload_digest c)),
      (''operand_envelope'', envelope_json (eo_operand_envelope c)),
      (''deadline_ms'', json_i64 (eo_deadline_ms c)),
      (''client_nonce'', JString (eo_client_nonce c)),
      (''command_mac'', JString (eo_command_mac c))]"

definition query_only_json :: "QueryOnlyV1 \<Rightarrow> json" where
  "query_only_json q = JObject
     [(''binding'', binding_json (qo_binding q)),
      (''request_id'', JString (qo_request_id q)),
      (''attempt_id'', JString (qo_attempt_id q)),
      (''expected_command_digest'', json_option JString (qo_expected_command_digest q)),
      (''known_journal_head'', json_option JString (qo_known_journal_head q)),
      (''client_nonce'', JString (qo_client_nonce q)),
      (''command_mac'', JString (qo_command_mac q))]"

definition reconcile_json :: "ReconcileV1 \<Rightarrow> json" where
  "reconcile_json r = JObject
     [(''binding'', binding_json (rc_binding r)),
      (''request_id'', JString (rc_request_id r)),
      (''attempt_id'', JString (rc_attempt_id r)),
      (''expected_command_digest'', JString (rc_expected_command_digest r)),
      (''reconciliation_key'', JString (rc_reconciliation_key r)),
      (''reconciliation_key_digest'', JString (rc_reconciliation_key_digest r)),
      (''consistency_window_start_ms'', json_i64 (rc_consistency_window_start_ms r)),
      (''consistency_window_end_ms'', json_i64 (rc_consistency_window_end_ms r)),
      (''client_nonce'', JString (rc_client_nonce r)),
      (''command_mac'', JString (rc_command_mac r))]"

fun request_json :: "RecorderRequestV1 \<Rightarrow> json" where
  "request_json (ExecuteOnce c) =
     JObject [(''operation'', JString ''execute_once''), (''payload'', execute_once_json c)]"
| "request_json (QueryOnly q) =
     JObject [(''operation'', JString ''query_only''), (''payload'', query_only_json q)]"
| "request_json (Reconcile r) =
     JObject [(''operation'', JString ''reconcile''), (''payload'', reconcile_json r)]"

definition actual_json :: "TechnicalResourceActualV1 \<Rightarrow> json" where
  "actual_json a = JObject
     [(''reservation_id'', JString (tr_reservation_id a)),
      (''amount_actual'', json_i64 (tr_amount_actual a)),
      (''evidence_digest'', JString (tr_evidence_digest a))]"

text \<open>The observation's members up to its digest, shared with the journal's record.\<close>

definition observation_head :: "'a SignedRecorderObservationV1_scheme \<Rightarrow> (string \<times> json) list" where
  "observation_head r =
     [(''sequence'', json_u64 (ob_sequence r)),
      (''record_id'', JString (ob_record_id r)),
      (''canonical_root_identity'', JString (ob_canonical_root_identity r)),
      (''installation_id'', JString (ob_installation_id r)),
      (''state_root_generation'', json_i64 (ob_state_root_generation r)),
      (''os_user_identity_digest'', JString (ob_os_user_identity_digest r)),
      (''attempt_id'', JString (ob_attempt_id r)),
      (''logical_effect_id'', JString (ob_logical_effect_id r)),
      (''command_digest'', JString (ob_command_digest r)),
      (''kind'', JString (kind_name (ob_kind r))),
      (''source'', JString (source_kind_name (ob_source r))),
      (''provider_identity'', JString (ob_provider_identity r)),
      (''provider_version'', JString (ob_provider_version r)),
      (''provider_request_digest'', JString (ob_provider_request_digest r)),
      (''provider_idempotency_key_digest'', json_option JString (ob_provider_idempotency_key_digest r)),
      (''reconciliation_key_digest'', json_option JString (ob_reconciliation_key_digest r)),
      (''remote_effect_id'', json_option JString (ob_remote_effect_id r)),
      (''response_digest'', json_option JString (ob_response_digest r)),
      (''evidence_payload_digest'', json_option JString (ob_evidence_payload_digest r)),
      (''provider_error_class'',
         json_option (\<lambda>c. JString (failure_class_name c)) (ob_provider_error_class r)),
      (''technical_resource_actuals'', JArray (map actual_json (ob_technical_resource_actuals r))),
      (''reconciliation_window_start_ms'', json_option json_i64 (ob_reconciliation_window_start_ms r)),
      (''reconciliation_window_end_ms'', json_option json_i64 (ob_reconciliation_window_end_ms r)),
      (''observed_at_ms'', json_i64 (ob_observed_at_ms r)),
      (''previous_record_digest'', JString (ob_previous_record_digest r))]"

definition observation_key :: "'a SignedRecorderObservationV1_scheme \<Rightarrow> (string \<times> json) list" where
  "observation_key r =
     [(''recorder_key_id'', JString (ob_recorder_key_id r)),
      (''recorder_key_generation'', json_u64 (ob_recorder_key_generation r))]"

definition observation_json :: "'a SignedRecorderObservationV1_scheme \<Rightarrow> json" where
  "observation_json r = JObject
     (observation_head r @ [(''record_digest'', JString (ob_record_digest r))]
      @ observation_key r @ [(''signature_hex'', JString (ob_signature_hex r))])"

definition attestation_json :: "RecorderHandshakeAttestationV1 \<Rightarrow> json" where
  "attestation_json a = JObject
     [(''handshake_version'', JString (ha_handshake_version a)),
      (''binding'', binding_json (ha_binding a)),
      (''client_nonce'', JString (ha_client_nonce a)),
      (''request_authentication_digest'', JString (ha_request_authentication_digest a)),
      (''server_nonce'', JString (ha_server_nonce a)),
      (''recorder_key_id'', JString (ha_recorder_key_id a)),
      (''recorder_key_generation'', json_u64 (ha_recorder_key_generation a)),
      (''recorder_verifying_key_hex'', JString (ha_recorder_verifying_key_hex a)),
      (''signature_hex'', JString (ha_signature_hex a))]"

subsection \<open>Canonical bytes\<close>

text \<open>The members of a \<open>serde_json\<close> object have distinct keys; collecting them in a \<open>BTreeMap\<close>
  orders them by key.\<close>

fun canonicalize :: "json \<Rightarrow> json" where
  "canonicalize (JArray vs) = JArray (map canonicalize vs)"
| "canonicalize (JObject ms) = JObject (sort_key fst (map (\<lambda>(k, v). (k, canonicalize v)) ms))"
| "canonicalize v = v"

definition canonical_json_bytes :: "externals \<Rightarrow> json \<Rightarrow> bytes" where
  "canonical_json_bytes X j = json_to_string X (canonicalize j)"

definition attestation_signing_bytes :: "externals \<Rightarrow> RecorderHandshakeAttestationV1 \<Rightarrow> bytes" where
  "attestation_signing_bytes X a = canonical_json_bytes X (attestation_json (a\<lparr>ha_signature_hex := []\<rparr>))"

definition recorder_observation_signing_bytes ::
    "externals \<Rightarrow> 'a SignedRecorderObservationV1_scheme \<Rightarrow> bytes" where
  "recorder_observation_signing_bytes X r =
     canonical_json_bytes X (observation_json (r\<lparr>ob_signature_hex := []\<rparr>))"

fun request_binding :: "RecorderRequestV1 \<Rightarrow> RecorderBindingV1" where
  "request_binding (ExecuteOnce c) = eo_binding c"
| "request_binding (QueryOnly q) = qo_binding q"
| "request_binding (Reconcile r) = rc_binding r"

fun request_id :: "RecorderRequestV1 \<Rightarrow> string" where
  "request_id (ExecuteOnce c) = eo_request_id c"
| "request_id (QueryOnly q) = qo_request_id q"
| "request_id (Reconcile r) = rc_request_id r"

fun command_mac :: "RecorderRequestV1 \<Rightarrow> string" where
  "command_mac (ExecuteOnce c) = eo_command_mac c"
| "command_mac (QueryOnly q) = qo_command_mac q"
| "command_mac (Reconcile r) = rc_command_mac r"

fun set_command_mac :: "string \<Rightarrow> RecorderRequestV1 \<Rightarrow> RecorderRequestV1" where
  "set_command_mac m (ExecuteOnce c) = ExecuteOnce (c\<lparr>eo_command_mac := m\<rparr>)"
| "set_command_mac m (QueryOnly q) = QueryOnly (q\<lparr>qo_command_mac := m\<rparr>)"
| "set_command_mac m (Reconcile r) = Reconcile (r\<lparr>rc_command_mac := m\<rparr>)"

definition authentication_bytes :: "externals \<Rightarrow> RecorderRequestV1 \<Rightarrow> bytes" where
  "authentication_bytes X r = canonical_json_bytes X (request_json (set_command_mac [] r))"

subsection \<open>Validation\<close>

text \<open>\<open>char::is_control\<close> on UTF-8 text: U+0000 to U+001F, U+007F, and U+0080 to U+009F, which are
  the byte 194 followed by a byte of 128 to 159.\<close>

fun has_control :: "string \<Rightarrow> bool" where
  "has_control [] \<longleftrightarrow> False"
| "has_control (c # s) \<longleftrightarrow>
     of_char c < (32 :: nat) \<or> of_char c = (127 :: nat)
     \<or> (of_char c = (194 :: nat) \<and> (case s of [] \<Rightarrow> False
          | d # _ \<Rightarrow> (128 :: nat) \<le> of_char d \<and> of_char d \<le> (159 :: nat)))
     \<or> has_control s"

definition valid_text :: "nat \<Rightarrow> string \<Rightarrow> bool" where
  "valid_text limit v \<longleftrightarrow> \<not> blank v \<and> length v \<le> limit \<and> \<not> has_control v"

definition valid_digest :: "string \<Rightarrow> bool" where
  "valid_digest v \<longleftrightarrow>
     length v = 71 \<and> prefix ''sha256:'' v \<and> list_all is_lower_hex_digit (drop 7 v)"

definition stable_text_digest :: "externals \<Rightarrow> string \<Rightarrow> string" where
  "stable_text_digest X v = ''sha256:'' @ sha256_hex X v"

text \<open>\<open>cfg!(windows)\<close> is the argument \<open>windows\<close>.\<close>

definition canonical_root_identity_from_canonical_path :: "externals \<Rightarrow> bool \<Rightarrow> string \<Rightarrow> string" where
  "canonical_root_identity_from_canonical_path X windows path =
     (let normalized = map (\<lambda>c. if c = CHR ''/'' then CHR 0x5C else c) path
      in stable_text_digest X (if windows then to_ascii_lowercase normalized else normalized))"

definition provider_request_domain :: string where
  "provider_request_domain = ''carsinos.execass.provider-request.v1'' @ [NUL]"

definition overwrite_operand_domain :: string where
  "overwrite_operand_domain =
     ''carsinos.execass.provider-request.exact-overwrite-operand.v1'' @ [NUL]"

definition exact_overwrite_provider :: string where
  "exact_overwrite_provider = ''carsinos.local-fs.exact-overwrite''"

definition provider_request_parts :: "ExecuteOnceV1 \<Rightarrow> bytes list" where
  "provider_request_parts c =
     [eo_internal_idempotency_key c, eo_provider_identity c,
      (case eo_provider_idempotency_key c of None \<Rightarrow> [] | Some k \<Rightarrow> k),
      (case eo_reconciliation_key c of None \<Rightarrow> [] | Some k \<Rightarrow> k),
      eo_manifest_digest c, eo_payload_digest c]"

definition provider_request_preimage :: "ExecuteOnceV1 \<Rightarrow> bytes" where
  "provider_request_preimage c =
     provider_request_domain @ concat (map (header_frame 8) (provider_request_parts c))
     @ (if eo_provider_identity c = exact_overwrite_provider
        then overwrite_operand_domain @ header_frame 8 (eo_payload_digest c) else [])"

definition derived_provider_request_digest :: "externals \<Rightarrow> ExecuteOnceV1 \<Rightarrow> string" where
  "derived_provider_request_digest X c =
     ''sha256:'' @ sha256_hex X (provider_request_preimage c)"

definition valid_binding :: "RecorderBindingV1 \<Rightarrow> bool" where
  "valid_binding b \<longleftrightarrow>
     rb_protocol_version b = RECORDER_PROTOCOL_VERSION
     \<and> 0 < sint (rb_state_root_generation b) \<and> 0 < sint (rb_runtime_host_generation b)
     \<and> 0 < sint (rb_runtime_fencing_token b)
     \<and> valid_text 256 (rb_canonical_root_identity b) \<and> valid_text 256 (rb_installation_id b)
     \<and> valid_text 128 (rb_os_user_identity_digest b) \<and> valid_text 256 (rb_runtime_host_instance_id b)"

definition required_texts :: "ExecuteOnceV1 \<Rightarrow> string list" where
  "required_texts c =
     [eo_claim_event_id c, eo_claim_receipt_id c, eo_delegation_id c, eo_continuation_id c,
      eo_action_id c, eo_logical_effect_id c, eo_internal_idempotency_key c, eo_attempt_id c,
      eo_provider_identity c, eo_provider_version c, eo_adapter_identity c,
      eo_adapter_artifact_digest c, eo_provider_request_digest c, eo_manifest_digest c,
      eo_payload_digest c, eo_client_nonce c]"

definition valid_handle :: "OpaqueSecretHandleV1 \<Rightarrow> bool" where
  "valid_handle h \<longleftrightarrow> sh_version h = 1
     \<and> list_all (valid_text 256) [sh_backend h, sh_opaque_id h, sh_purpose h, sh_capability_class h]"

definition valid_execute_once :: "externals \<Rightarrow> ExecuteOnceV1 \<Rightarrow> bool" where
  "valid_execute_once X c \<longleftrightarrow>
     0 < sint (eo_continuation_fencing_token c) \<and> 0 < sint (eo_attempt_number c)
     \<and> 0 < sint (eo_deadline_ms c)
     \<and> list_all (valid_text 4096) (required_texts c)
     \<and> pred_option (valid_text 4096) (eo_provider_idempotency_key c)
     \<and> pred_option (valid_text 4096) (eo_reconciliation_key c)
     \<and> list_all valid_handle (oe_secret_handles (eo_operand_envelope c))
     \<and> derived_provider_request_digest X c = eo_provider_request_digest c"

definition valid_query_only :: "QueryOnlyV1 \<Rightarrow> bool" where
  "valid_query_only q \<longleftrightarrow>
     valid_text 4096 (qo_attempt_id q) \<and> valid_text 4096 (qo_client_nonce q)
     \<and> pred_option (valid_text 4096) (qo_expected_command_digest q)
     \<and> pred_option (valid_text 4096) (qo_known_journal_head q)"

definition valid_reconcile :: "externals \<Rightarrow> ReconcileV1 \<Rightarrow> bool" where
  "valid_reconcile X r \<longleftrightarrow>
     valid_text 4096 (rc_attempt_id r) \<and> valid_digest (rc_expected_command_digest r)
     \<and> valid_text 4096 (rc_reconciliation_key r) \<and> valid_digest (rc_reconciliation_key_digest r)
     \<and> stable_text_digest X (rc_reconciliation_key r) = rc_reconciliation_key_digest r
     \<and> 0 \<le> sint (rc_consistency_window_start_ms r)
     \<and> sint (rc_consistency_window_start_ms r) \<le> sint (rc_consistency_window_end_ms r)
     \<and> valid_text 4096 (rc_client_nonce r)"

definition request_validate :: "externals \<Rightarrow> RecorderRequestV1 \<Rightarrow> RecorderProtocolError + unit" where
  "request_validate X r =
     (if \<not> (valid_binding (request_binding r) \<and> valid_text 256 (request_id r)) then Inl InvalidField
      else case r of
        ExecuteOnce c \<Rightarrow> if valid_execute_once X c then Inr () else Inl InvalidField
      | QueryOnly q \<Rightarrow> if valid_query_only q then Inr () else Inl InvalidField
      | Reconcile c \<Rightarrow> if valid_reconcile X c then Inr () else Inl InvalidField)"

definition validate_shape :: "'a SignedRecorderObservationV1_scheme \<Rightarrow> RecorderProtocolError + unit" where
  "validate_shape r =
     (let class_required = ob_source r = Execution \<and> ob_kind r = Absent;
          class_forbidden = ob_source r = Reconciliation
            \<or> ob_kind r \<in> {Accepted, InvocationStarted, Present, Unknown}
      in if (class_required \<and> ob_provider_error_class r = None)
            \<or> (class_forbidden \<and> ob_provider_error_class r \<noteq> None)
         then Inl InvalidField else Inr ())"

subsection \<open>Frames\<close>

text \<open>The payload length is a \<open>u32\<close>; \<open>RECORDER_MAX_FRAME_BYTES\<close> is below it.\<close>

definition encode_frame :: "externals \<Rightarrow> json \<Rightarrow> RecorderProtocolError + bytes" where
  "encode_frame X v =
     (let payload = canonical_json_bytes X v
      in if RECORDER_MAX_FRAME_BYTES < length payload \<or> 2 ^ 32 - 1 < length payload
         then Inl FrameTooLarge
         else Inr (be_bytes 4 (length payload) @ payload))"

text \<open>The target type's deserializer is the argument \<open>from_slice\<close>.\<close>

definition decode_frame :: "(bytes \<Rightarrow> string + 'a) \<Rightarrow> bytes \<Rightarrow> RecorderProtocolError + 'a" where
  "decode_frame from_slice frame =
     (if length frame < 4 then Inl TruncatedFrame
      else let len = be_nat (take 4 frame)
           in if RECORDER_MAX_FRAME_BYTES < len then Inl FrameTooLarge
              else if length frame \<noteq> 4 + len then Inl TruncatedFrame
              else case from_slice (drop 4 frame) of
                Inl e \<Rightarrow> Inl (InvalidJson e)
              | Inr v \<Rightarrow> Inr v)"

subsection \<open>Request authentication\<close>

text \<open>\<open>hex_decode::<N>\<close> of \<^verbatim>\<open>crates/carsinos-effect-recorder/src/lib.rs\<close>.\<close>

definition decode_nibble :: "char \<Rightarrow> nat option" where
  "decode_nibble c =
     (if 48 \<le> (of_char c :: nat) \<and> (of_char c :: nat) \<le> 57 then Some (of_char c - 48)
      else if 97 \<le> (of_char c :: nat) \<and> (of_char c :: nat) \<le> 102 then Some (of_char c - 97 + 10)
      else None)"

fun hex_pairs :: "string \<Rightarrow> bytes option" where
  "hex_pairs (h # l # s) =
     (case (decode_nibble h, decode_nibble l, hex_pairs s) of
        (Some a, Some b, Some bs) \<Rightarrow> Some (char_of (16 * a + b) # bs)
      | _ \<Rightarrow> None)"
| "hex_pairs _ = Some []"

definition hex_decode :: "nat \<Rightarrow> string \<Rightarrow> bytes option" where
  "hex_decode n v = (if length v \<noteq> n * 2 then None else hex_pairs v)"

text \<open>HMAC-SHA-256 is the argument \<open>mac\<close> of a key and a message.\<close>

definition sign_request ::
    "externals \<Rightarrow> (bytes \<Rightarrow> bytes \<Rightarrow> bytes) \<Rightarrow> bytes \<Rightarrow> RecorderRequestV1 \<Rightarrow> RecorderRequestV1" where
  "sign_request X mac key r = set_command_mac (hex_encode (mac key (authentication_bytes X r))) r"

definition authenticate_request ::
    "externals \<Rightarrow> (bytes \<Rightarrow> bytes \<Rightarrow> bytes) \<Rightarrow> bytes \<Rightarrow> RecorderRequestV1 \<Rightarrow> bool" where
  "authenticate_request X mac key r \<longleftrightarrow>
     is_ok (request_validate X r)
     \<and> (case hex_decode 32 (command_mac r) of
          None \<Rightarrow> False
        | Some supplied \<Rightarrow> mac key (authentication_bytes X r) = supplied)"

subsection \<open>Lemmas\<close>

lemma hex_pairs_encode: "hex_pairs (hex_encode bs) = Some bs"
proof (induction bs)
  case (Cons b bs)
  have "decode_nibble (hex_digit n) = Some n" if "n < 16" for n
    using that by (simp add: decode_nibble_def of_char_hex_digit)
  moreover have "of_char b div 16 < (16 :: nat)" and "of_char b mod 16 < (16 :: nat)"
    using of_char_mod_256 [of b] by (simp_all add: less_mult_imp_div_less)
  ultimately show ?case using Cons by (simp add: hex_encode_Cons)
qed (simp add: hex_encode_def)

lemma hex_decode_encode [simp]: "length bs = n \<Longrightarrow> hex_decode n (hex_encode bs) = Some bs"
  by (simp add: hex_decode_def hex_pairs_encode)

lemma set_command_mac_simps [simp]:
  "set_command_mac m (set_command_mac n r) = set_command_mac m r"
  "command_mac (set_command_mac m r) = m" "set_command_mac (command_mac r) r = r"
  "request_binding (set_command_mac m r) = request_binding r"
  "request_id (set_command_mac m r) = request_id r"
  by (cases r; simp)+

interpretation wire_frames: byte_framing "header_frame 4" "256 ^ 4"
  by (rule header_framing) simp

lemma encode_frame_Inr:
  "encode_frame X v = Inr f \<longleftrightarrow>
     length (canonical_json_bytes X v) \<le> RECORDER_MAX_FRAME_BYTES
     \<and> f = header_frame 4 (canonical_json_bytes X v)"
  by (auto simp: encode_frame_def header_frame_def RECORDER_MAX_FRAME_BYTES_def Let_def)

lemma decode_header_frame:
  assumes "length p \<le> RECORDER_MAX_FRAME_BYTES"
  shows "decode_frame g (header_frame 4 p) =
     (case g p of Inl e \<Rightarrow> Inl (InvalidJson e) | Inr v \<Rightarrow> Inr v)"
  using assms by (simp add: decode_frame_def header_frame_def RECORDER_MAX_FRAME_BYTES_def Let_def)

lemma decode_frame_Inr:
  "decode_frame g f = Inr v \<longleftrightarrow>
     (\<exists>p. f = header_frame 4 p \<and> length p \<le> RECORDER_MAX_FRAME_BYTES \<and> g p = Inr v)"
proof
  assume l: "decode_frame g f = Inr v"
  then have long: "4 \<le> length f" and len: "length f = 4 + be_nat (take 4 f)"
    and max: "be_nat (take 4 f) \<le> RECORDER_MAX_FRAME_BYTES" and g: "g (drop 4 f) = Inr v"
    by (auto simp: decode_frame_def Let_def split: if_splits sum.splits)
  have "be_bytes 4 (be_nat (take 4 f)) = take 4 f"
    using be_bytes_be_nat [of "take 4 f"] long by (simp del: be_bytes_be_nat)
  with len have "f = header_frame 4 (drop 4 f)"
    by (simp add: header_frame_def)
  with g len max show "\<exists>p. f = header_frame 4 p \<and> length p \<le> RECORDER_MAX_FRAME_BYTES \<and> g p = Inr v"
    by (intro exI [of _ "drop 4 f"]) simp
next
  assume "\<exists>p. f = header_frame 4 p \<and> length p \<le> RECORDER_MAX_FRAME_BYTES \<and> g p = Inr v"
  then show "decode_frame g f = Inr v" by (auto simp: decode_header_frame)
qed

subsection \<open>Objects with the same keys\<close>

lemma distinct_sort_keys:
  "distinct (map fst ms) \<Longrightarrow> distinct (map fst (sort_key fst (ms :: (string \<times> 'a) list)))"
  by (subst mset_eq_imp_distinct_iff [of _ "map fst ms"]) simp_all

lemma map_of_sort_key:
  assumes "distinct (map fst ms)"
  shows "map_of (sort_key fst ms) = map_of (ms :: (string \<times> 'a) list)"
  using map_of_inject_set [OF distinct_sort_keys [OF assms] assms] by simp

lemma same_members:
  assumes "map fst ms = map fst ns" and "distinct (map fst ms)"
    and "sort_key fst ms = sort_key fst (ns :: (string \<times> 'a) list)"
  shows "ms = ns"
proof (rule nth_equalityI)
  have set_eq: "set ms = set ns" using assms(3) by (metis set_sort)
  show len: "length ms = length ns" using assms(1) by (metis length_map)
  fix i assume i: "i < length ms"
  obtain k v where m: "ms ! i = (k, v)" by (cases "ms ! i")
  obtain k' v' where n: "ns ! i = (k', v')" by (cases "ns ! i")
  have "k = map fst ms ! i" using i m by simp
  also have "\<dots> = k'" using i n len assms(1) by simp
  finally have "k = k'" .
  then have "(k, v') \<in> set ns" using i len n nth_mem [of i ns] by simp
  moreover have "(k, v) \<in> set ns" using i m set_eq nth_mem [of i ms] by simp
  moreover have "distinct (map fst ns)" using assms(1,2) by simp
  ultimately show "ms ! i = ns ! i"
    using m n \<open>k = k'\<close> eq_key_imp_eq_value [of ns k v v'] by simp
qed

lemma canonical_members:
  assumes "canonicalize (JObject ms) = canonicalize (JObject ns)"
    and "map fst ms = map fst ns" and "distinct (map fst ms)"
  shows "map (canonicalize \<circ> snd) ms = map (canonicalize \<circ> snd) ns"
proof -
  let ?c = "map (\<lambda>(k, v). (k, canonicalize v))"
  have keys: "map fst (?c l) = map fst l" for l :: "(string \<times> json) list"
    by (induction l) auto
  have vals: "map snd (?c l) = map (canonicalize \<circ> snd) l" for l :: "(string \<times> json) list"
    by (induction l) auto
  have "?c ms = ?c ns"
  proof (rule same_members)
    show "map fst (?c ms) = map fst (?c ns)" using assms(2) by (simp only: keys)
    show "distinct (map fst (?c ms))" using assms(3) by (simp only: keys)
    show "sort_key fst (?c ms) = sort_key fst (?c ns)"
      using assms(1) by (simp only: canonicalize.simps json.inject)
  qed
  then have "map snd (?c ms) = map snd (?c ns)" by (rule arg_cong)
  then show ?thesis by (simp only: vals)
qed

lemma canonicalize_simps [simp]:
  "canonicalize (json_i64 v) = json_i64 v" "canonicalize (json_u64 w) = json_u64 w"
  "canonicalize (json_option JString t) = json_option JString t"
  by (simp_all add: json_i64_def json_u64_def json_option_def split: option.split)

lemma show_int_inj: "show_int i = show_int j \<longleftrightarrow> i = j"
proof
  have minus: "CHR ''-'' # s \<noteq> show_nat n" for s n
    using show_nat_digits [of n] by (cases "show_nat n") (auto simp: is_ascii_digit_def)
  assume "show_int i = show_int j"
  then show "i = j"
    using minus minus [symmetric] by (auto simp: show_int_def split: if_splits)
qed simp

lemma json_scalar_inj [simp]:
  "json_i64 a = json_i64 b \<longleftrightarrow> a = b" "json_u64 c = json_u64 d \<longleftrightarrow> c = d"
  "json_option JString s = json_option JString t \<longleftrightarrow> s = t"
  by (auto simp: json_i64_def json_u64_def json_option_def show_int_inj sint_eq_iff word_unat_eq_iff
      split: option.splits)

lemma binding_json_inj:
  assumes "canonicalize (binding_json a) = canonicalize (binding_json b)"
  shows "a = b"
  using canonical_members [OF assms [unfolded binding_json_def]]
  by (simp add: RecorderBindingV1.equality)

lemma secret_handle_json_inj:
  assumes "canonicalize (secret_handle_json a) = canonicalize (secret_handle_json b)"
  shows "a = b"
  using canonical_members [OF assms [unfolded secret_handle_json_def]]
  by (simp add: OpaqueSecretHandleV1.equality)

text \<open>The operands are a JSON document, whose member order has no meaning.\<close>

definition canonical_operands :: "ExecuteOnceV1 \<Rightarrow> ExecuteOnceV1" where
  "canonical_operands c = c\<lparr>eo_operand_envelope :=
     (eo_operand_envelope c)\<lparr>oe_non_secret := canonicalize (oe_non_secret (eo_operand_envelope c))\<rparr>\<rparr>"

lemma handles_json_inj:
  "map (canonicalize \<circ> secret_handle_json) hs = map (canonicalize \<circ> secret_handle_json) hs' \<Longrightarrow> hs = hs'"
  by (erule map_injective) (auto intro!: injI dest: secret_handle_json_inj)

lemma envelope_json_inj:
  assumes "canonicalize (envelope_json a) = canonicalize (envelope_json b)"
  shows "canonicalize (oe_non_secret a) = canonicalize (oe_non_secret b)
     \<and> oe_secret_handles a = oe_secret_handles b"
  using canonical_members [OF assms [unfolded envelope_json_def]]
  by (auto intro: handles_json_inj)

lemma execute_once_json_inj:
  assumes "canonicalize (execute_once_json a) = canonicalize (execute_once_json b)"
  shows "canonical_operands a = canonical_operands b"
  using canonical_members [OF assms [unfolded execute_once_json_def]]
  by (auto simp: canonical_operands_def dest!: binding_json_inj envelope_json_inj
      intro!: ExecuteOnceV1.equality OpaqueOperandEnvelopeV1.equality)

lemma query_only_json_inj:
  assumes "canonicalize (query_only_json a) = canonicalize (query_only_json b)"
  shows "a = b"
  using canonical_members [OF assms [unfolded query_only_json_def]]
  by (auto dest!: binding_json_inj intro!: QueryOnlyV1.equality)

lemma reconcile_json_inj:
  assumes "canonicalize (reconcile_json a) = canonicalize (reconcile_json b)"
  shows "a = b"
  using canonical_members [OF assms [unfolded reconcile_json_def]]
  by (auto dest!: binding_json_inj intro!: ReconcileV1.equality)

fun canonical_request :: "RecorderRequestV1 \<Rightarrow> RecorderRequestV1" where
  "canonical_request (ExecuteOnce c) = ExecuteOnce (canonical_operands c)"
| "canonical_request r = r"

lemma request_json_inj:
  assumes "canonicalize (request_json a) = canonicalize (request_json b)"
  shows "canonical_request a = canonical_request b"
  using assms
  by (cases a; cases b)
     (auto dest!: canonical_members execute_once_json_inj query_only_json_inj reconcile_json_inj)

lemma nibble_digit:
  assumes "decode_nibble c = Some n"
  shows "n < 16 \<and> hex_digit n = c"
proof -
  have c: "char_of (of_char c :: nat) = c" by simp
  show ?thesis
    using assms c by (auto simp: decode_nibble_def hex_digit_def split: if_splits)
qed

lemma hex_pairs_Some:
  "even (length s) \<Longrightarrow> hex_pairs s = Some bs \<Longrightarrow> hex_encode bs = s"
proof (induction s arbitrary: bs rule: hex_pairs.induct)
  case (1 h l s)
  then obtain m n bs' where m: "decode_nibble h = Some m" and n: "decode_nibble l = Some n"
    and s: "hex_pairs s = Some bs'" and bs: "bs = char_of (16 * m + n) # bs'"
    by (auto split: option.splits)
  have "m < 16" "n < 16" "hex_digit m = h" "hex_digit n = l"
    using nibble_digit [OF m] nibble_digit [OF n] by simp_all
  moreover from this have "(of_char (char_of (16 * m + n)) :: nat) = 16 * m + n" by simp
  moreover have "hex_encode bs' = s" using 1 s by simp
  ultimately show ?case by (simp add: bs hex_encode_Cons)
qed (auto simp: hex_encode_def)

lemma hex_decode_Some: "hex_decode n s = Some bs \<longleftrightarrow> length bs = n \<and> hex_encode bs = s"
  using hex_pairs_Some [of s bs]
  by (auto simp: hex_decode_def hex_pairs_encode split: if_splits)

lemma parts_ignore_mac [simp]:
  "provider_request_preimage (c\<lparr>eo_command_mac := m\<rparr>) = provider_request_preimage c"
  "required_texts (c\<lparr>eo_command_mac := m\<rparr>) = required_texts c"
  by (simp_all add: provider_request_preimage_def provider_request_parts_def required_texts_def)

lemma derived_ignores_mac [simp]:
  "derived_provider_request_digest X (c\<lparr>eo_command_mac := m\<rparr>) = derived_provider_request_digest X c"
  by (simp only: derived_provider_request_digest_def parts_ignore_mac)

lemma valid_ignores_mac [simp]:
  "valid_execute_once X (c\<lparr>eo_command_mac := m\<rparr>) = valid_execute_once X c"
  "valid_query_only (q\<lparr>qo_command_mac := m\<rparr>) = valid_query_only q"
  "valid_reconcile X (r\<lparr>rc_command_mac := m\<rparr>) = valid_reconcile X r"
  by (simp_all add: valid_execute_once_def valid_query_only_def valid_reconcile_def)

lemma validate_ignores_mac [simp]: "request_validate X (set_command_mac m r) = request_validate X r"
  by (cases r) (simp_all add: request_validate_def)

lemma authentication_ignores_mac [simp]:
  "authentication_bytes X (set_command_mac m r) = authentication_bytes X r"
  by (simp add: authentication_bytes_def)

lemma set_command_mac_id: "set_command_mac m r = r \<longleftrightarrow> command_mac r = m"
  by (metis set_command_mac_simps(2,3))

lemma canonical_request_set_mac:
  "canonical_request (set_command_mac m r) = set_command_mac m (canonical_request r)"
  by (cases r) (simp_all add: canonical_operands_def)

subsection \<open>Properties\<close>

text \<open>A frame is decoded exactly when it is a four-byte length followed by that many bytes, at
  most the limit, that the message's deserializer accepts; nothing shorter, longer or oversized
  decodes. The encoder refuses exactly the oversized messages and otherwise makes a frame whose
  payload is the canonical JSON of the message.\<close>

theorem frame_roundtrip:
  "(case encode_frame X j of
      Inl _ \<Rightarrow> RECORDER_MAX_FRAME_BYTES < length (canonical_json_bytes X j)
    | Inr f \<Rightarrow> decode_frame Inr f = Inr (canonical_json_bytes X j))
   \<and> (decode_frame g f = Inr v \<longleftrightarrow>
       (\<exists>p. f = header_frame 4 p \<and> length p \<le> RECORDER_MAX_FRAME_BYTES \<and> g p = Inr v))"
proof (intro conjI)
  show "case encode_frame X j of
      Inl _ \<Rightarrow> RECORDER_MAX_FRAME_BYTES < length (canonical_json_bytes X j)
    | Inr f \<Rightarrow> decode_frame Inr f = Inr (canonical_json_bytes X j)"
    by (auto simp: encode_frame_Inr decode_header_frame split: sum.splits)
       (auto simp: encode_frame_def RECORDER_MAX_FRAME_BYTES_def Let_def split: if_splits)
qed (rule decode_frame_Inr)

text \<open>C29: authentication accepts only what the signer writes. A request authenticates exactly
  when it is valid and carries, letter for letter, the MAC that signing it under the same key
  writes into it; there is no second spelling of a MAC.\<close>

theorem authenticated_exactly_signed:
  "authenticate_request X mac key r \<longleftrightarrow>
     request_validate X r = Inr () \<and> length (mac key (authentication_bytes X r)) = 32
     \<and> sign_request X mac key r = r"
  by (auto simp: authenticate_request_def sign_request_def set_command_mac_id hex_decode_Some
      hex_encode_inj is_ok_def split: option.splits sum.splits)

text \<open>Documented of \<open>serde_json\<close>: the two values at hand do not have the same text.\<close>

definition no_text_confusion :: "externals \<Rightarrow> json \<Rightarrow> json \<Rightarrow> bool" where
  "no_text_confusion X a b \<longleftrightarrow> (json_to_string X a = json_to_string X b \<longrightarrow> a = b)"

text \<open>The MAC covers the whole request. Two authenticated requests with one MAC are the same
  request, field by field and up to the member order of the operand document, when the MAC does
  not collide on the two messages: no field is left out of the canonical bytes.\<close>

theorem mac_binds_request:
  assumes "authenticate_request X mac key r" and "authenticate_request X mac key s"
    and "command_mac r = command_mac s"
    and "mac key (authentication_bytes X r) = mac key (authentication_bytes X s)
      \<Longrightarrow> authentication_bytes X r = authentication_bytes X s"
    and "no_text_confusion X (canonicalize (request_json (set_command_mac [] r)))
      (canonicalize (request_json (set_command_mac [] s)))"
  shows "canonical_request r = canonical_request s"
proof -
  have "mac key (authentication_bytes X r) = mac key (authentication_bytes X s)"
    using assms(1-3)
    by (auto simp: authenticate_request_def split: option.splits)
  with assms(4,5) have "canonicalize (request_json (set_command_mac [] r))
      = canonicalize (request_json (set_command_mac [] s))"
    by (simp add: authentication_bytes_def canonical_json_bytes_def no_text_confusion_def)
  then have "set_command_mac [] (canonical_request r) = set_command_mac [] (canonical_request s)"
    by (metis request_json_inj canonical_request_set_mac)
  moreover have "command_mac (canonical_request t) = command_mac t" for t
    by (cases t) (simp_all add: canonical_operands_def)
  ultimately show ?thesis
    using assms(3) by (metis set_command_mac_simps(1,3))
qed

subsection \<open>Witnesses\<close>

lemma text_no_control: "list_all visible s \<Longrightarrow> \<not> has_control s"
  by (induction s) (auto simp: visible_def)

lemma valid_text_visible: "list_all visible (c # s) \<Longrightarrow> length s < limit \<Longrightarrow> valid_text limit (c # s)"
  using text_no_control [of "c # s"] by (simp add: valid_text_def visible_def)

lemma hex_visible: "list_all visible (hex_encode bs)"
  using hex_encode_lower [of bs]
  by (rule list.pred_mono_strong)
     (auto simp: is_lower_hex_digit_def is_ascii_digit_def visible_def)

definition digest32 :: "bytes \<Rightarrow> bytes" where
  "digest32 bs = take 32 (bs @ replicate 32 NUL)"

lemma length_digest32 [simp]: "length (digest32 bs) = 32"
  by (simp add: digest32_def)

definition wire_externals :: externals where
  "wire_externals = raw_externals\<lparr>sha256 := digest32\<rparr>"

definition sample_binding :: RecorderBindingV1 where
  "sample_binding = \<lparr>rb_protocol_version = RECORDER_PROTOCOL_VERSION,
     rb_canonical_root_identity = ''r'', rb_installation_id = ''i'', rb_state_root_generation = 1,
     rb_os_user_identity_digest = ''u'', rb_runtime_host_generation = 1,
     rb_runtime_host_instance_id = ''h'', rb_runtime_fencing_token = 1\<rparr>"

definition unsigned_command :: "json \<Rightarrow> ExecuteOnceV1" where
  "unsigned_command operands = \<lparr>eo_binding = sample_binding, eo_request_id = ''q'',
     eo_claim_event_id = ''e'', eo_claim_receipt_id = ''c'', eo_continuation_fencing_token = 1,
     eo_delegation_id = ''d'', eo_continuation_id = ''n'', eo_action_id = ''a'',
     eo_logical_effect_id = ''l'', eo_internal_idempotency_key = ''k'', eo_attempt_id = ''t'',
     eo_attempt_number = 1, eo_provider_identity = ''p'', eo_provider_version = ''v'',
     eo_adapter_identity = ''x'', eo_adapter_artifact_digest = ''g'',
     eo_provider_request_digest = [], eo_provider_idempotency_key = None,
     eo_reconciliation_key = Some ''y'', eo_manifest_digest = ''m'', eo_payload_digest = ''z'',
     eo_operand_envelope = \<lparr>oe_non_secret = operands, oe_secret_handles = []\<rparr>,
     eo_deadline_ms = 1, eo_client_nonce = ''o'', eo_command_mac = []\<rparr>"

definition sample_command :: "externals \<Rightarrow> json \<Rightarrow> ExecuteOnceV1" where
  "sample_command X operands = (unsigned_command operands)
     \<lparr>eo_provider_request_digest := derived_provider_request_digest X (unsigned_command operands)\<rparr>"

lemma derived_ignores_digest [simp]:
  "derived_provider_request_digest X (c\<lparr>eo_provider_request_digest := d\<rparr>)
     = derived_provider_request_digest X c"
  by (simp only: derived_provider_request_digest_def provider_request_preimage_def
      provider_request_parts_def ExecuteOnceV1.update_convs) (cases c, simp)

lemma derived_digest_text:
  assumes "length (sha256 X (provider_request_preimage c)) = 32"
  shows "valid_text 4096 (derived_provider_request_digest X c)"
proof -
  have "list_all visible (''sha256:'' @ sha256_hex X (provider_request_preimage c))"
    by (simp add: sha256_hex_def hex_visible) (simp add: visible_def)
  then show ?thesis
    using assms valid_text_visible [of "CHR ''s''" "''ha256:'' @ sha256_hex X (provider_request_preimage c)"]
    by (simp add: derived_provider_request_digest_def sha256_hex_def)
qed

lemma sample_command_valid:
  assumes "\<And>b. length (sha256 X b) = 32"
  shows "request_validate X (ExecuteOnce (sample_command X operands)) = Inr ()"
proof -
  have one: "valid_text limit [c]" if "visible c" and "0 < limit" for c limit
    using that valid_text_visible [of c "[]" limit] by simp
  let ?c = "sample_command X operands"
  have digest: "derived_provider_request_digest X ?c = eo_provider_request_digest ?c"
    by (simp add: sample_command_def)
  have texts: "list_all (valid_text 4096) (required_texts ?c)"
    by (simp add: sample_command_def unsigned_command_def required_texts_def derived_digest_text
        assms one visible_def)
  have binding: "valid_binding (eo_binding ?c)" and rest: "valid_text 256 (eo_request_id ?c)"
    "eo_continuation_fencing_token ?c = 1" "eo_attempt_number ?c = 1" "eo_deadline_ms ?c = 1"
    "eo_provider_idempotency_key ?c = None" "eo_reconciliation_key ?c = Some ''y''"
    "oe_secret_handles (eo_operand_envelope ?c) = []"
    by (simp_all add: sample_command_def unsigned_command_def sample_binding_def valid_binding_def
        one visible_def)
  show ?thesis
    by (simp add: request_validate_def valid_execute_once_def digest texts binding rest one visible_def)
qed

definition member_order :: "json list" where
  "member_order =
     [JObject [(''a'', JNull), (''b'', JNull)], JObject [(''b'', JNull), (''a'', JNull)]]"

definition sample_signed :: "nat \<Rightarrow> RecorderRequestV1" where
  "sample_signed i = sign_request wire_externals (\<lambda>_. digest32) []
     (ExecuteOnce (sample_command wire_externals (member_order ! i)))"

lemma member_order_canonical:
  "canonicalize (member_order ! 0) = canonicalize (member_order ! 1)" "member_order ! 0 \<noteq> member_order ! 1"
  by (simp_all add: member_order_def)

lemma sign_authenticates:
  "request_validate X r = Inr () \<Longrightarrow> length (mac key (authentication_bytes X r)) = 32
   \<Longrightarrow> authenticate_request X mac key (sign_request X mac key r)"
  by (simp add: authenticate_request_def sign_request_def)

lemma sample_signed_authenticates: "authenticate_request wire_externals (\<lambda>_. digest32) [] (sample_signed i)"
  unfolding sample_signed_def
  by (intro sign_authenticates sample_command_valid) (simp_all add: wire_externals_def)

lemma members_canonical:
  "map (\<lambda>(k, v). (k, canonicalize v)) ms = map (\<lambda>(k, v). (k, canonicalize v)) ns
   \<Longrightarrow> canonicalize (JObject ms) = canonicalize (JObject ns)"
  by (simp only: canonicalize.simps)

lemma sample_command_json:
  assumes "canonicalize v = canonicalize w"
  shows "canonicalize (execute_once_json (sample_command X v))
     = canonicalize (execute_once_json (sample_command X w))"
proof -
  have "provider_request_preimage (unsigned_command v) = provider_request_preimage (unsigned_command w)"
    by (simp add: provider_request_preimage_def provider_request_parts_def unsigned_command_def)
  then have d: "derived_provider_request_digest X (unsigned_command v)
      = derived_provider_request_digest X (unsigned_command w)"
    by (simp only: derived_provider_request_digest_def)
  have e: "canonicalize (envelope_json \<lparr>oe_non_secret = v, oe_secret_handles = []\<rparr>)
      = canonicalize (envelope_json \<lparr>oe_non_secret = w, oe_secret_handles = []\<rparr>)"
    by (simp add: envelope_json_def assms)
  show ?thesis
    unfolding execute_once_json_def
    by (rule members_canonical) (simp add: sample_command_def d, simp add: unsigned_command_def e)
qed

lemma sample_request_json:
  "canonicalize (request_json (set_command_mac [] (sample_signed 0)))
     = canonicalize (request_json (set_command_mac [] (sample_signed 1)))"
proof -
  have c: "set_command_mac [] (sample_signed i)
      = ExecuteOnce (sample_command wire_externals (member_order ! i))" for i
    by (simp add: sample_signed_def sign_request_def sample_command_def unsigned_command_def)
  show ?thesis
    unfolding c request_json.simps
    by (rule members_canonical) (simp add: sample_command_json [OF member_order_canonical(1)])
qed

lemma mac_binds_request_witness:
  "authenticate_request wire_externals (\<lambda>_. digest32) [] (sample_signed 0)
   \<and> sample_signed 0 \<noteq> sample_signed 1
   \<and> canonical_request (sample_signed 0) = canonical_request (sample_signed 1)"
proof -
  have bytes: "authentication_bytes wire_externals (sample_signed 0)
      = authentication_bytes wire_externals (sample_signed 1)"
    by (simp add: authentication_bytes_def canonical_json_bytes_def sample_request_json)
  have mac: "command_mac (sample_signed i)
      = hex_encode (digest32 (authentication_bytes wire_externals (sample_signed i)))" for i
    unfolding sample_signed_def sign_request_def
    by (simp only: set_command_mac_simps authentication_ignores_mac)
  have "canonical_request (sample_signed 0) = canonical_request (sample_signed 1)"
    by (rule mac_binds_request [OF sample_signed_authenticates sample_signed_authenticates])
       (simp_all add: mac bytes no_text_confusion_def sample_request_json)
  moreover have "sample_signed 0 \<noteq> sample_signed 1"
    using member_order_canonical(2)
    by (auto simp: sample_signed_def sign_request_def sample_command_def unsigned_command_def)
  ultimately show ?thesis using sample_signed_authenticates by blast
qed

end
