(* ===== verification/JournalData.thy ===== *)
theory JournalData
  imports RecorderProtocol
begin

text \<open>
  The data of the recorder's journal, \<^verbatim>\<open>crates/carsinos-effect-recorder/src/journal.rs\<close>: the
  signed record, its serialized, unsigned and signed bytes, and what \<open>derive(Deserialize)\<close> with
  \<open>deny_unknown_fields\<close> reads back. SHA-256, JSON and Ed25519 are the parameters of
  \<open>recorder_env\<close>, together with the recorder's identity.
\<close>

definition JOURNAL_VERSION :: string where
  "JOURNAL_VERSION = ''carsinos.execass.effect-recorder.journal.v1''"

definition MAX_RECORD_BYTES :: nat where
  "MAX_RECORD_BYTES = 256 * 1024"

definition ZERO_DIGEST :: string where
  "ZERO_DIGEST = ''sha256:'' @ replicate 64 (CHR ''0'')"

datatype JournalError =
    Io | Encoding string | Corrupt string | CommandConflict | NotAccepted | AlreadyStarted
  | AlreadyTerminal

text \<open>The journal's record has the observation's fields and a version; converting it to an
  observation forgets the version.\<close>

record JournalRecordV1 = SignedRecorderObservationV1 +
  jr_journal_version :: string

definition observation_of_record :: "JournalRecordV1 \<Rightarrow> SignedRecorderObservationV1" where
  "observation_of_record r = SignedRecorderObservationV1.truncate r"

record recorder_env =
  je_ext :: externals
  je_sign :: "bytes \<Rightarrow> bytes"
  je_verifying_key_valid :: "bytes \<Rightarrow> bool"
  je_verify :: "bytes \<Rightarrow> bytes \<Rightarrow> bytes \<Rightarrow> bool"
  je_key_id :: string
  je_key_generation :: u64
  je_verifying_key_hex :: string

subsection \<open>Serialized records\<close>

definition journal_record_json :: "JournalRecordV1 \<Rightarrow> json" where
  "journal_record_json r = JObject
     ((''journal_version'', JString (jr_journal_version r)) # observation_head r
      @ [(''record_digest'', JString (ob_record_digest r))]
      @ observation_key r @ [(''signature_hex'', JString (ob_signature_hex r))])"

definition record_to_vec :: "recorder_env \<Rightarrow> JournalRecordV1 \<Rightarrow> bytes" where
  "record_to_vec E r = json_to_string (je_ext E) (journal_record_json r)"

definition unsigned_bytes :: "recorder_env \<Rightarrow> JournalRecordV1 \<Rightarrow> bytes" where
  "unsigned_bytes E r = canonical_json_bytes (je_ext E) (JObject
     ((''journal_version'', JString (jr_journal_version r)) # observation_head r @ observation_key r))"

definition signed_bytes :: "recorder_env \<Rightarrow> JournalRecordV1 \<Rightarrow> bytes" where
  "signed_bytes E r = recorder_observation_signing_bytes (je_ext E) (observation_of_record r)"

definition stable_key_digest :: "recorder_env \<Rightarrow> string \<Rightarrow> string" where
  "stable_key_digest E v = ''sha256:'' @ sha256_hex (je_ext E) v"

subsection \<open>Deserialization\<close>

definition read_int :: "string \<Rightarrow> int option" where
  "read_int s =
     (let (sign, ds) = (case s of CHR ''-'' # ds \<Rightarrow> (- 1, ds) | _ \<Rightarrow> (1, s))
      in if ds \<noteq> [] \<and> list_all is_ascii_digit ds then Some (sign * int (read_nat ds)) else None)"

fun as_string :: "json \<Rightarrow> string option" where
  "as_string (JString s) = Some s"
| "as_string _ = None"

definition as_i64 :: "json \<Rightarrow> i64 option" where
  "as_i64 v = (case v of
     JNumber s \<Rightarrow> (case read_int s of
         Some i \<Rightarrow> if - (2 ^ 63) \<le> i \<and> i < 2 ^ 63 then Some (word_of_int i) else None
       | None \<Rightarrow> None)
   | _ \<Rightarrow> None)"

definition as_u64 :: "json \<Rightarrow> u64 option" where
  "as_u64 v = (case v of
     JNumber s \<Rightarrow> (case read_int s of
         Some i \<Rightarrow> if 0 \<le> i \<and> i < 2 ^ 64 then Some (word_of_int i) else None
       | None \<Rightarrow> None)
   | _ \<Rightarrow> None)"

definition as_enum :: "('a \<Rightarrow> string) \<Rightarrow> 'a list \<Rightarrow> json \<Rightarrow> 'a option" where
  "as_enum name all v = Option.bind (as_string v) (\<lambda>s. find (\<lambda>a. name a = s) all)"

fun as_list :: "(json \<Rightarrow> 'a option) \<Rightarrow> json list \<Rightarrow> 'a list option" where
  "as_list f [] = Some []"
| "as_list f (v # vs) = Option.bind (f v) (\<lambda>a. map_option ((#) a) (as_list f vs))"

definition as_array :: "(json \<Rightarrow> 'a option) \<Rightarrow> json \<Rightarrow> 'a list option" where
  "as_array f v = (case v of JArray vs \<Rightarrow> as_list f vs | _ \<Rightarrow> None)"

text \<open>A required member, and an \<open>Option\<close> member, which may be absent or \<open>null\<close>.\<close>

definition required :: "(string \<times> json) list \<Rightarrow> string \<Rightarrow> (json \<Rightarrow> 'a option) \<Rightarrow> 'a option" where
  "required ms k f = Option.bind (map_of ms k) f"

definition optional :: "(string \<times> json) list \<Rightarrow> string \<Rightarrow> (json \<Rightarrow> 'a option) \<Rightarrow> 'a option option" where
  "optional ms k f = (case map_of ms k of
     None \<Rightarrow> Some None | Some JNull \<Rightarrow> Some None | Some v \<Rightarrow> map_option Some (f v))"

definition closed_object :: "string list \<Rightarrow> (string \<times> json) list \<Rightarrow> bool" where
  "closed_object keys ms \<longleftrightarrow> distinct (map fst ms) \<and> list_all (\<lambda>(k, _). k \<in> set keys) ms"

definition all_kinds :: "RecorderObservationKindV1 list" where
  "all_kinds = [Accepted, InvocationStarted, Present, Absent, Unknown]"

definition all_sources :: "RecorderObservationSourceV1 list" where
  "all_sources = [Execution, Reconciliation]"

definition all_classes :: "ProviderFailureClassV1 list" where
  "all_classes = [Transient, RateLimited, Authentication, Permanent, UnknownFailure]"

definition actual_of_json :: "json \<Rightarrow> TechnicalResourceActualV1 option" where
  "actual_of_json v = (case v of
     JObject ms \<Rightarrow>
       if \<not> closed_object [''reservation_id'', ''amount_actual'', ''evidence_digest''] ms then None
       else Option.bind (required ms ''reservation_id'' as_string) (\<lambda>i.
         Option.bind (required ms ''amount_actual'' as_i64) (\<lambda>n.
         map_option (\<lambda>d. \<lparr>tr_reservation_id = i, tr_amount_actual = n, tr_evidence_digest = d\<rparr>)
           (required ms ''evidence_digest'' as_string)))
   | _ \<Rightarrow> None)"

definition record_keys :: "string list" where
  "record_keys =
     [''journal_version'', ''sequence'', ''record_id'', ''canonical_root_identity'',
      ''installation_id'', ''state_root_generation'', ''os_user_identity_digest'', ''attempt_id'',
      ''logical_effect_id'', ''command_digest'', ''kind'', ''source'', ''provider_identity'',
      ''provider_version'', ''provider_request_digest'', ''provider_idempotency_key_digest'',
      ''reconciliation_key_digest'', ''remote_effect_id'', ''response_digest'',
      ''evidence_payload_digest'', ''provider_error_class'', ''technical_resource_actuals'',
      ''reconciliation_window_start_ms'', ''reconciliation_window_end_ms'', ''observed_at_ms'',
      ''previous_record_digest'', ''record_digest'', ''recorder_key_id'',
      ''recorder_key_generation'', ''signature_hex'']"

definition record_of_json :: "json \<Rightarrow> JournalRecordV1 option" where
  "record_of_json v = (case v of
     JObject ms \<Rightarrow>
       if \<not> closed_object record_keys ms then None
       else
       Option.bind (required ms ''journal_version'' as_string) (\<lambda>a0.
       Option.bind (required ms ''sequence'' as_u64) (\<lambda>a1.
       Option.bind (required ms ''record_id'' as_string) (\<lambda>a2.
       Option.bind (required ms ''canonical_root_identity'' as_string) (\<lambda>a3.
       Option.bind (required ms ''installation_id'' as_string) (\<lambda>a4.
       Option.bind (required ms ''state_root_generation'' as_i64) (\<lambda>a5.
       Option.bind (required ms ''os_user_identity_digest'' as_string) (\<lambda>a6.
       Option.bind (required ms ''attempt_id'' as_string) (\<lambda>a7.
       Option.bind (required ms ''logical_effect_id'' as_string) (\<lambda>a8.
       Option.bind (required ms ''command_digest'' as_string) (\<lambda>a9.
       Option.bind (required ms ''kind'' (as_enum kind_name all_kinds)) (\<lambda>a10.
       Option.bind (required ms ''source'' (as_enum source_kind_name all_sources)) (\<lambda>a11.
       Option.bind (required ms ''provider_identity'' as_string) (\<lambda>a12.
       Option.bind (required ms ''provider_version'' as_string) (\<lambda>a13.
       Option.bind (required ms ''provider_request_digest'' as_string) (\<lambda>a14.
       Option.bind (optional ms ''provider_idempotency_key_digest'' as_string) (\<lambda>a15.
       Option.bind (optional ms ''reconciliation_key_digest'' as_string) (\<lambda>a16.
       Option.bind (optional ms ''remote_effect_id'' as_string) (\<lambda>a17.
       Option.bind (optional ms ''response_digest'' as_string) (\<lambda>a18.
       Option.bind (optional ms ''evidence_payload_digest'' as_string) (\<lambda>a19.
       Option.bind (optional ms ''provider_error_class'' (as_enum failure_class_name all_classes)) (\<lambda>a20.
       Option.bind (required ms ''technical_resource_actuals'' (as_array actual_of_json)) (\<lambda>a21.
       Option.bind (optional ms ''reconciliation_window_start_ms'' as_i64) (\<lambda>a22.
       Option.bind (optional ms ''reconciliation_window_end_ms'' as_i64) (\<lambda>a23.
       Option.bind (required ms ''observed_at_ms'' as_i64) (\<lambda>a24.
       Option.bind (required ms ''previous_record_digest'' as_string) (\<lambda>a25.
       Option.bind (required ms ''record_digest'' as_string) (\<lambda>a26.
       Option.bind (required ms ''recorder_key_id'' as_string) (\<lambda>a27.
       Option.bind (required ms ''recorder_key_generation'' as_u64) (\<lambda>a28.
       Option.bind (required ms ''signature_hex'' as_string) (\<lambda>a29.
         Some \<lparr>ob_sequence = a1, ob_record_id = a2, ob_canonical_root_identity = a3, ob_installation_id =
           a4, ob_state_root_generation = a5, ob_os_user_identity_digest = a6, ob_attempt_id = a7,
           ob_logical_effect_id = a8, ob_command_digest = a9, ob_kind = a10, ob_source = a11,
           ob_provider_identity = a12, ob_provider_version = a13, ob_provider_request_digest = a14,
           ob_provider_idempotency_key_digest = a15, ob_reconciliation_key_digest = a16,
           ob_remote_effect_id = a17, ob_response_digest = a18, ob_evidence_payload_digest = a19,
           ob_provider_error_class = a20, ob_technical_resource_actuals = a21,
           ob_reconciliation_window_start_ms = a22, ob_reconciliation_window_end_ms = a23,
           ob_observed_at_ms = a24, ob_previous_record_digest = a25, ob_record_digest = a26,
           ob_recorder_key_id = a27, ob_recorder_key_generation = a28, ob_signature_hex = a29,
           jr_journal_version = a0\<rparr>))))))))))))))))))))))))))))))
   | _ \<Rightarrow> None)"

definition record_from_slice :: "recorder_env \<Rightarrow> bytes \<Rightarrow> JournalRecordV1 option" where
  "record_from_slice E payload = Option.bind (json_from_str (je_ext E) payload) record_of_json"

subsection \<open>Reading back what was written\<close>

lemma read_int_show [simp]: "read_int (show_int i) = Some i"
proof (cases "i < 0")
  case True
  then show ?thesis by (simp add: read_int_def show_int_def show_nat_digits)
next
  case False
  have "hd (show_nat n) \<noteq> CHR ''-''" for n
    using show_nat_digits [of n] by (cases "show_nat n") (auto simp: is_ascii_digit_def)
  then obtain c ds where c: "show_nat (nat i) = c # ds" "c \<noteq> CHR ''-''"
    by (metis list.collapse show_nat_nonempty)
  then have "(case c # ds of CHR ''-'' # ds \<Rightarrow> (- 1, ds) | _ \<Rightarrow> (1 :: int, c # ds)) = (1, c # ds)"
    by (auto split: char.splits bool.splits)
  with False c show ?thesis
    using show_nat_digits [of "nat i"] read_show_nat [of "nat i"]
    by (simp add: read_int_def show_int_def)
qed

lemma as_i64_json [simp]: "as_i64 (json_i64 v) = Some v"
  using sint_i64_bounds [of v] by (simp add: as_i64_def json_i64_def i64_min_def i64_max_def)

lemma as_u64_json [simp]: "as_u64 (json_u64 v) = Some v"
proof -
  have "show_nat (unat v) = show_int (int (unat v))" by (simp add: show_int_def)
  then have "read_int (show_nat (unat v)) = Some (int (unat v))" by (simp only: read_int_show)
  moreover have "int (unat v) < 2 ^ 64" using unsigned_less [of v] by simp
  ultimately show ?thesis by (simp add: as_u64_def json_u64_def)
qed

lemma as_enum_names [simp]:
  "as_enum kind_name all_kinds (JString (kind_name k)) = Some k"
  "as_enum source_kind_name all_sources (JString (source_kind_name s)) = Some s"
  "as_enum failure_class_name all_classes (JString (failure_class_name c)) = Some c"
  subgoal by (cases k) (simp_all add: as_enum_def all_kinds_def)
  subgoal by (cases s) (simp_all add: as_enum_def all_sources_def)
  subgoal by (cases c) (simp_all add: as_enum_def all_classes_def)
  done

lemma canonicalize_JNull [simp]: "canonicalize v = JNull \<longleftrightarrow> v = JNull"
  by (cases v) simp_all

lemma canonical_keys:
  "map fst (map (\<lambda>(k, v). (k, canonicalize v)) ms) = map fst ms"
  by (induction ms) auto

lemma closed_object_canonical [simp]:
  "closed_object keys (sort_key fst (map (\<lambda>(k, v). (k, canonicalize v)) ms)) = closed_object keys ms"
proof -
  let ?c = "map (\<lambda>(k, v). (k, canonicalize v)) ms"
  have "mset (map fst (sort_key fst ?c)) = mset (map fst ?c)"
    unfolding mset_map [of fst] mset_sort ..
  then have "distinct (map fst (sort_key fst ?c)) \<longleftrightarrow> distinct (map fst ms)"
    unfolding canonical_keys by (rule mset_eq_imp_distinct_iff)
  then show ?thesis by (auto simp: closed_object_def list_all_iff)
qed

lemma map_of_canonical:
  assumes "distinct (map fst (ms :: (string \<times> json) list))"
  shows "map_of (sort_key fst (map (\<lambda>(k, v). (k, canonicalize v)) ms)) k
    = map_option canonicalize (map_of ms k)"
proof -
  let ?c = "map (\<lambda>(k, v). (k, canonicalize v)) ms"
  have "map_of (sort_key fst ?c) = map_of ?c"
    by (rule map_of_sort_key) (use assms in \<open>simp only: canonical_keys\<close>)
  then show ?thesis by (simp add: map_of_map)
qed

lemma members_of_canonical:
  assumes "closed_object keys ms"
  shows "required (sort_key fst (map (\<lambda>(k, v). (k, canonicalize v)) ms)) k f
      = required ms k (f \<circ> canonicalize)"
    and "optional (sort_key fst (map (\<lambda>(k, v). (k, canonicalize v)) ms)) k g
      = optional ms k (g \<circ> canonicalize)"
proof -
  have m: "map_of (sort_key fst (map (\<lambda>(k, v). (k, canonicalize v)) ms)) k
      = map_option canonicalize (map_of ms k)"
    using assms by (intro map_of_canonical) (simp add: closed_object_def)
  show "required (sort_key fst (map (\<lambda>(k, v). (k, canonicalize v)) ms)) k f
      = required ms k (f \<circ> canonicalize)"
    by (cases "map_of ms k") (simp_all add: required_def m)
  show "optional (sort_key fst (map (\<lambda>(k, v). (k, canonicalize v)) ms)) k g
      = optional ms k (g \<circ> canonicalize)"
  proof (cases "map_of ms k")
    case (Some v)
    then show ?thesis by (cases v) (simp_all add: optional_def m)
  qed (simp add: optional_def m)
qed

lemma optional_json:
  assumes "map_of ms k = Some (json_option g v)" and "\<And>a. f (g a) = Some a \<and> g a \<noteq> JNull"
  shows "optional ms k f = Some v"
proof (cases v)
  case (Some a)
  then show ?thesis
    using assms(1) assms(2) [of a] by (cases "g a") (simp_all add: optional_def json_option_def)
qed (use assms(1) in \<open>simp add: optional_def json_option_def\<close>)

lemma actual_roundtrip [simp]: "actual_of_json (canonicalize (actual_json a)) = Some a"
proof -
  let ?keys = "[''reservation_id'', ''amount_actual'', ''evidence_digest'']"
  let ?ms = "[(''reservation_id'', JString (tr_reservation_id a)),
      (''amount_actual'', json_i64 (tr_amount_actual a)),
      (''evidence_digest'', JString (tr_evidence_digest a))]"
  have c: "closed_object ?keys ?ms" by (simp add: closed_object_def)
  show ?thesis
    unfolding actual_json_def actual_of_json_def canonicalize.simps json.case closed_object_canonical
      members_of_canonical [OF c]
    using c by (simp add: required_def)
qed

lemma actuals_roundtrip [simp]:
  "as_array actual_of_json (JArray (map (canonicalize \<circ> actual_json) xs)) = Some xs"
proof -
  have "as_list actual_of_json (map (canonicalize \<circ> actual_json) xs) = Some xs"
    by (induction xs) simp_all
  then show ?thesis by (simp add: as_array_def)
qed

subsection \<open>Records survive being written\<close>

text \<open>Documented of \<open>serde_json\<close>: a document is read back as the value it was written from, the
  members of its objects in the order of a \<open>BTreeMap\<close>.\<close>

definition json_roundtrip :: "externals \<Rightarrow> json \<Rightarrow> bool" where
  "json_roundtrip X v \<longleftrightarrow> json_from_str X (json_to_string X v) = Some (canonicalize v)"

definition record_members :: "JournalRecordV1 \<Rightarrow> (string \<times> json) list" where
  "record_members r = (''journal_version'', JString (jr_journal_version r)) # observation_head r
      @ [(''record_digest'', JString (ob_record_digest r))]
      @ observation_key r @ [(''signature_hex'', JString (ob_signature_hex r))]"

lemma record_members_closed: "closed_object record_keys (record_members r)"
  by (simp add: closed_object_def record_members_def record_keys_def observation_head_def
      observation_key_def)

lemma optional_members:
  "map_of ms k = Some (json_option JString v) \<Longrightarrow> optional ms k (as_string \<circ> canonicalize) = Some v"
  "map_of ms k = Some (json_option json_i64 w) \<Longrightarrow> optional ms k (as_i64 \<circ> canonicalize) = Some w"
  "map_of ms k = Some (json_option (\<lambda>c. JString (failure_class_name c)) u) \<Longrightarrow>
     optional ms k (as_enum failure_class_name all_classes \<circ> canonicalize) = Some u"
  by (erule optional_json; simp add: json_i64_def [symmetric]; simp add: json_i64_def)+

lemma record_roundtrip:
  "record_of_json (canonicalize (journal_record_json r)) = Some r"
proof -
  note c = record_members_closed [of r]
  have json: "journal_record_json r = JObject (record_members r)"
    by (simp add: journal_record_json_def record_members_def)
  have open_if: "(if \<not> closed_object record_keys (record_members r) then a else b) = b"
    for a b :: "'a option" using c by simp
  show ?thesis
    unfolding json record_of_json_def canonicalize.simps json.case closed_object_canonical
      members_of_canonical [OF c] open_if
    by (simp add: required_def optional_members record_members_def observation_head_def
        observation_key_def)
qed

end
