(* ===== verification/Journal.thy ===== *)
theory Journal
  imports JournalData
begin

text \<open>
  The operations of the recorder's append-only journal,
  \<^verbatim>\<open>crates/carsinos-effect-recorder/src/journal.rs\<close>: opening a file, accepting an attempt,
  starting and finishing it, reconciling it and querying it. The state is the bytes of the file,
  the records in memory and the index by attempt. What the operating system does with an append
  is the argument \<open>io\<close>: it is durable, it stops after some bytes, or all bytes are written and
  the flush fails. Reading, seeking and truncating while the journal is opened succeed.
\<close>

subsection \<open>State\<close>

type_synonym attempt_key = "string \<times> i64 \<times> string"

record Journal =
  j_file :: bytes
  j_records :: "JournalRecordV1 list"
  j_by_attempt :: "attempt_key \<Rightarrow> nat list option"

type_synonym 'a journal_result = "(JournalError + 'a) \<times> Journal"

datatype append_io = Durable | WriteStops nat | FlushFails

definition empty_journal :: "bytes \<Rightarrow> Journal" where
  "empty_journal file = \<lparr>j_file = file, j_records = [], j_by_attempt = (\<lambda>_. None)\<rparr>"

definition record_key :: "JournalRecordV1 \<Rightarrow> attempt_key" where
  "record_key r = (ob_installation_id r, ob_state_root_generation r, ob_attempt_id r)"

definition command_key :: "ExecuteOnceV1 \<Rightarrow> attempt_key" where
  "command_key c = (rb_installation_id (eo_binding c), rb_state_root_generation (eo_binding c), eo_attempt_id c)"

definition head_digest :: "Journal \<Rightarrow> string" where
  "head_digest j = (if j_records j = [] then ZERO_DIGEST else ob_record_digest (last (j_records j)))"

definition next_sequence :: "Journal \<Rightarrow> u64" where
  "next_sequence j = of_nat (length (j_records j)) + 1"

subsection \<open>Indexing, verifying and appending a record\<close>

definition index_record :: "JournalRecordV1 \<Rightarrow> Journal \<Rightarrow> unit journal_result" where
  "index_record r j =
     (let key = record_key r;
          pushed = j\<lparr>j_records := j_records j @ [r],
                     j_by_attempt := (j_by_attempt j)(key \<mapsto>
                       (case j_by_attempt j key of None \<Rightarrow> [] | Some is \<Rightarrow> is) @ [length (j_records j)])\<rparr>
      in case j_by_attempt j key of
           Some is \<Rightarrow>
             if ob_command_digest (j_records j ! hd is) \<noteq> ob_command_digest r
             then (Inl CommandConflict, j) else (Inr (), pushed)
         | None \<Rightarrow>
             if ob_kind r \<noteq> Accepted
             then (Inl (Corrupt ''attempt chain does not begin with Accepted''), j)
             else (Inr (), pushed))"

definition record_digest_of :: "recorder_env \<Rightarrow> JournalRecordV1 \<Rightarrow> string" where
  "record_digest_of E r = ''sha256:'' @ sha256_hex (je_ext E) (unsigned_bytes E r)"

definition verify_record :: "recorder_env \<Rightarrow> Journal \<Rightarrow> JournalRecordV1 \<Rightarrow> JournalError + unit" where
  "verify_record E j r =
     (if jr_journal_version r \<noteq> JOURNAL_VERSION \<or> ob_sequence r \<noteq> next_sequence j
         \<or> ob_previous_record_digest r \<noteq> head_digest j \<or> ob_recorder_key_id r \<noteq> je_key_id E
         \<or> ob_recorder_key_generation r \<noteq> je_key_generation E
      then Inl (Corrupt ''record identity or chain mismatch'')
      else if ob_record_digest r \<noteq> record_digest_of E r then Inl (Corrupt ''record digest mismatch'')
      else if \<not> is_ok (validate_shape (observation_of_record r))
      then Inl (Corrupt ''record failure-class shape is invalid'')
      else case hex_decode 64 (ob_signature_hex r) of
        None \<Rightarrow> Inl (Corrupt ''signature encoding is invalid'')
      | Some signature \<Rightarrow>
          (case hex_decode 32 (je_verifying_key_hex E) of
             None \<Rightarrow> Inl (Corrupt ''verifying key encoding is invalid'')
           | Some verifying \<Rightarrow>
               if \<not> je_verifying_key_valid E verifying then Inl (Corrupt ''verifying key is invalid'')
               else if \<not> je_verify E verifying (signed_bytes E r) signature
               then Inl (Corrupt ''record signature is invalid'')
               else Inr ()))"

definition frame_record :: "recorder_env \<Rightarrow> bytes \<Rightarrow> bytes" where
  "frame_record E payload = be_bytes 4 (length payload) @ payload @ sha256 (je_ext E) payload"

definition append :: "recorder_env \<Rightarrow> append_io \<Rightarrow> JournalRecordV1 \<Rightarrow> Journal \<Rightarrow> unit journal_result" where
  "append E io r j =
     (let payload = record_to_vec E r
      in if MAX_RECORD_BYTES < length payload then (Inl (Encoding ''journal record is too large''), j)
         else case io of
           WriteStops n \<Rightarrow> (Inl Io, j\<lparr>j_file := j_file j @ take n (frame_record E payload)\<rparr>)
         | FlushFails \<Rightarrow> (Inl Io, j\<lparr>j_file := j_file j @ frame_record E payload\<rparr>)
         | Durable \<Rightarrow> index_record r (j\<lparr>j_file := j_file j @ frame_record E payload\<rparr>))"

subsection \<open>Opening a journal\<close>

text \<open>\<open>consumed\<close> is the part of the file up to \<open>valid_start\<close>, \<open>rest\<close> the bytes after it.\<close>

function scan_and_recover_torn_tail ::
    "recorder_env \<Rightarrow> bytes \<Rightarrow> bytes \<Rightarrow> Journal \<Rightarrow> JournalError + Journal" where
  "scan_and_recover_torn_tail E consumed rest j =
     (if rest = [] then Inr j
      else if length rest < 4 then Inr (j\<lparr>j_file := consumed\<rparr>)
      else let len = be_nat (take 4 rest)
           in if MAX_RECORD_BYTES < len then Inl (Corrupt ''record length exceeds limit'')
              else if length rest - 4 < len + 32 then Inr (j\<lparr>j_file := consumed\<rparr>)
              else let payload = take len (drop 4 rest);
                       checksum = take 32 (drop (4 + len) rest)
                   in if sha256 (je_ext E) payload \<noteq> checksum
                      then Inl (Corrupt ''record checksum mismatch'')
                      else case record_from_slice E payload of
                        None \<Rightarrow> Inl (Corrupt ''record JSON is invalid'')
                      | Some r \<Rightarrow>
                          rbind (verify_record E j r) (\<lambda>_.
                            case index_record r j of
                              (Inl e, _) \<Rightarrow> Inl e
                            | (Inr _, j') \<Rightarrow>
                                scan_and_recover_torn_tail E (consumed @ take (4 + len + 32) rest)
                                  (drop (4 + len + 32) rest) j'))"
  by pat_completeness auto
termination
  by (relation "measure (\<lambda>(E, consumed, rest, j). length rest)") auto

declare scan_and_recover_torn_tail.simps [simp del]

definition open_journal :: "recorder_env \<Rightarrow> bytes \<Rightarrow> JournalError + Journal" where
  "open_journal E file = scan_and_recover_torn_tail E [] file (empty_journal file)"

subsection \<open>Records of a command\<close>

definition command_digest :: "recorder_env \<Rightarrow> ExecuteOnceV1 \<Rightarrow> string" where
  "command_digest E c = ''sha256:'' @ sha256_hex (je_ext E) (canonical_json_bytes (je_ext E)
     (execute_once_json (c\<lparr>eo_request_id := [], eo_client_nonce := [], eo_deadline_ms := 0,
        eo_command_mac := []\<rparr>)))"

definition records_for ::
    "ExecuteOnceV1 \<Rightarrow> string \<Rightarrow> Journal \<Rightarrow> JournalError + JournalRecordV1 list" where
  "records_for c digest j =
     (case j_by_attempt j (command_key c) of
        None \<Rightarrow> Inr []
      | Some is \<Rightarrow>
          (let rs = map (\<lambda>i. j_records j ! i) is
           in case rs of
                [] \<Rightarrow> Inr rs
              | r # _ \<Rightarrow> if ob_command_digest r \<noteq> digest then Inl CommandConflict else Inr rs))"

definition latest_for ::
    "ExecuteOnceV1 \<Rightarrow> string \<Rightarrow> Journal \<Rightarrow> JournalError + JournalRecordV1 option" where
  "latest_for c digest j =
     rbind (records_for c digest j) (\<lambda>rs. Inr (if rs = [] then None else Some (last rs)))"

text \<open>Sealing fills in the digest, then the signature over it.\<close>

definition seal_record :: "recorder_env \<Rightarrow> JournalRecordV1 \<Rightarrow> JournalRecordV1" where
  "seal_record E r =
     (let digested = r\<lparr>ob_record_digest := record_digest_of E r\<rparr>
      in digested\<lparr>ob_signature_hex := hex_encode (je_sign E (signed_bytes E digested))\<rparr>)"

record record_outcome =
  ro_kind :: RecorderObservationKindV1
  ro_source :: RecorderObservationSourceV1
  ro_response_digest :: "string option"
  ro_remote_effect_id :: "string option"
  ro_evidence_payload_digest :: "string option"
  ro_provider_error_class :: "ProviderFailureClassV1 option"
  ro_actuals :: "TechnicalResourceActualV1 list"
  ro_window_start_ms :: "i64 option"
  ro_window_end_ms :: "i64 option"
  ro_observed_at_ms :: i64

definition new_record ::
    "recorder_env \<Rightarrow> ExecuteOnceV1 \<Rightarrow> string \<Rightarrow> record_outcome \<Rightarrow> Journal \<Rightarrow> JournalRecordV1" where
  "new_record E c digest out j = seal_record E
     \<lparr>ob_sequence = next_sequence j,
      ob_record_id = ''recorder-record-'' @ sha256_hex (je_ext E)
        (eo_attempt_id c @ NUL # digest @ NUL # show_nat (unat (next_sequence j))),
      ob_canonical_root_identity = rb_canonical_root_identity (eo_binding c),
      ob_installation_id = rb_installation_id (eo_binding c),
      ob_state_root_generation = rb_state_root_generation (eo_binding c),
      ob_os_user_identity_digest = rb_os_user_identity_digest (eo_binding c),
      ob_attempt_id = eo_attempt_id c, ob_logical_effect_id = eo_logical_effect_id c,
      ob_command_digest = digest, ob_kind = ro_kind out, ob_source = ro_source out,
      ob_provider_identity = eo_provider_identity c, ob_provider_version = eo_provider_version c,
      ob_provider_request_digest = eo_provider_request_digest c,
      ob_provider_idempotency_key_digest =
        map_option (stable_key_digest E) (eo_provider_idempotency_key c),
      ob_reconciliation_key_digest = map_option (stable_key_digest E) (eo_reconciliation_key c),
      ob_remote_effect_id = ro_remote_effect_id out, ob_response_digest = ro_response_digest out,
      ob_evidence_payload_digest = ro_evidence_payload_digest out,
      ob_provider_error_class = ro_provider_error_class out,
      ob_technical_resource_actuals = ro_actuals out,
      ob_reconciliation_window_start_ms = ro_window_start_ms out,
      ob_reconciliation_window_end_ms = ro_window_end_ms out,
      ob_observed_at_ms = ro_observed_at_ms out,
      ob_previous_record_digest = head_digest j, ob_record_digest = [],
      ob_recorder_key_id = je_key_id E, ob_recorder_key_generation = je_key_generation E,
      ob_signature_hex = [], jr_journal_version = JOURNAL_VERSION\<rparr>"

definition append_new ::
    "recorder_env \<Rightarrow> append_io \<Rightarrow> JournalRecordV1 \<Rightarrow> Journal \<Rightarrow> JournalRecordV1 journal_result" where
  "append_new E io r j = (case append E io r j of (Inl e, j') \<Rightarrow> (Inl e, j') | (Inr _, j') \<Rightarrow> (Inr r, j'))"

subsection \<open>Operations\<close>

definition plain_outcome :: "RecorderObservationKindV1 \<Rightarrow> i64 \<Rightarrow> record_outcome" where
  "plain_outcome k observed_at_ms = \<lparr>ro_kind = k, ro_source = Execution, ro_response_digest = None,
     ro_remote_effect_id = None, ro_evidence_payload_digest = None, ro_provider_error_class = None,
     ro_actuals = [], ro_window_start_ms = None, ro_window_end_ms = None,
     ro_observed_at_ms = observed_at_ms\<rparr>"

definition is_evidence :: "RecorderObservationKindV1 \<Rightarrow> bool" where
  "is_evidence k \<longleftrightarrow> k \<in> {Present, Absent, Unknown}"

definition accept ::
    "recorder_env \<Rightarrow> append_io \<Rightarrow> ExecuteOnceV1 \<Rightarrow> i64 \<Rightarrow> Journal \<Rightarrow> (bool \<times> JournalRecordV1) journal_result" where
  "accept E io c observed_at_ms j =
     (let digest = command_digest E c
      in case latest_for c digest j of
           Inl e \<Rightarrow> (Inl e, j)
         | Inr (Some existing) \<Rightarrow> (Inr (True, existing), j)
         | Inr None \<Rightarrow>
             (case append_new E io (new_record E c digest (plain_outcome Accepted observed_at_ms) j) j of
                (Inl e, j') \<Rightarrow> (Inl e, j')
              | (Inr r, j') \<Rightarrow> (Inr (False, r), j')))"

definition mark_invocation_started ::
    "recorder_env \<Rightarrow> append_io \<Rightarrow> ExecuteOnceV1 \<Rightarrow> i64 \<Rightarrow> Journal \<Rightarrow> JournalRecordV1 journal_result" where
  "mark_invocation_started E io c observed_at_ms j =
     (let digest = command_digest E c
      in case records_for c digest j of
           Inl e \<Rightarrow> (Inl e, j)
         | Inr rs \<Rightarrow>
             if rs = [] then (Inl NotAccepted, j)
             else if list_ex (\<lambda>r. ob_kind r = InvocationStarted \<or> is_evidence (ob_kind r)) rs
             then (Inl AlreadyStarted, j)
             else append_new E io
                    (new_record E c digest (plain_outcome InvocationStarted observed_at_ms) j) j)"

text \<open>The admission outcome: a replayed record, or the permit to invoke the provider.\<close>

datatype JournalAdmissionOutcome = FreshStarted | Replay JournalRecordV1

definition admit_verified_execution ::
    "recorder_env \<Rightarrow> append_io \<Rightarrow> append_io \<Rightarrow> ExecuteOnceV1 \<Rightarrow> i64 \<Rightarrow> i64 \<Rightarrow> Journal
     \<Rightarrow> JournalAdmissionOutcome journal_result" where
  "admit_verified_execution E io io' c accepted_at_ms started_at_ms j =
     (case latest_for c (command_digest E c) j of
        Inl e \<Rightarrow> (Inl e, j)
      | Inr (Some existing) \<Rightarrow> (Inr (Replay existing), j)
      | Inr None \<Rightarrow>
          (case accept E io c accepted_at_ms j of
             (Inl e, j') \<Rightarrow> (Inl e, j')
           | (Inr _, j') \<Rightarrow>
               (case mark_invocation_started E io' c started_at_ms j' of
                  (Inl e, j'') \<Rightarrow> (Inl e, j'')
                | (Inr _, j'') \<Rightarrow> (Inr FreshStarted, j''))))"

datatype JournalExecutionState = RequiresLiveVerification | ReplayState JournalRecordV1

definition execution_state ::
    "recorder_env \<Rightarrow> ExecuteOnceV1 \<Rightarrow> Journal \<Rightarrow> JournalError + JournalExecutionState" where
  "execution_state E c j =
     rbind (latest_for c (command_digest E c) j)
       (\<lambda>r. Inr (case r of None \<Rightarrow> RequiresLiveVerification | Some record \<Rightarrow> ReplayState record))"

text \<open>The otherwise empty observation whose shape is checked before a terminal record.\<close>

definition shape_of ::
    "RecorderObservationKindV1 \<Rightarrow> ProviderFailureClassV1 option \<Rightarrow> SignedRecorderObservationV1" where
  "shape_of k cls = \<lparr>ob_sequence = 0, ob_record_id = [], ob_canonical_root_identity = [],
     ob_installation_id = [], ob_state_root_generation = 0, ob_os_user_identity_digest = [],
     ob_attempt_id = [], ob_logical_effect_id = [], ob_command_digest = [], ob_kind = k,
     ob_source = Execution, ob_provider_identity = [], ob_provider_version = [],
     ob_provider_request_digest = [], ob_provider_idempotency_key_digest = None,
     ob_reconciliation_key_digest = None, ob_remote_effect_id = None, ob_response_digest = None,
     ob_evidence_payload_digest = None, ob_provider_error_class = cls,
     ob_technical_resource_actuals = [], ob_reconciliation_window_start_ms = None,
     ob_reconciliation_window_end_ms = None, ob_observed_at_ms = 0, ob_previous_record_digest = [],
     ob_record_digest = [], ob_recorder_key_id = [], ob_recorder_key_generation = 0,
     ob_signature_hex = []\<rparr>"

definition record_terminal ::
    "recorder_env \<Rightarrow> append_io \<Rightarrow> ExecuteOnceV1 \<Rightarrow> RecorderObservationKindV1 \<Rightarrow> string \<Rightarrow> string
     \<Rightarrow> string option \<Rightarrow> ProviderFailureClassV1 option \<Rightarrow> TechnicalResourceActualV1 list \<Rightarrow> i64
     \<Rightarrow> Journal \<Rightarrow> JournalRecordV1 journal_result" where
  "record_terminal E io c k response_digest evidence_payload_digest remote_effect_id cls actuals
       observed_at_ms j =
     (if \<not> is_evidence k then (Inl (Encoding ''terminal kind is not terminal''), j)
      else if \<not> is_ok (validate_shape (shape_of k cls))
      then (Inl (Encoding ''recorder request contains an invalid field''), j)
      else let digest = command_digest E c
      in case records_for c digest j of
           Inl e \<Rightarrow> (Inl e, j)
         | Inr rs \<Rightarrow>
             if \<not> list_ex (\<lambda>r. ob_kind r = InvocationStarted) rs then (Inl NotAccepted, j)
             else if list_ex (\<lambda>r. is_evidence (ob_kind r)) rs then (Inl AlreadyTerminal, j)
             else append_new E io (new_record E c digest
               \<lparr>ro_kind = k, ro_source = Execution, ro_response_digest = Some response_digest,
                ro_remote_effect_id = remote_effect_id,
                ro_evidence_payload_digest = Some evidence_payload_digest,
                ro_provider_error_class = cls, ro_actuals = actuals, ro_window_start_ms = None,
                ro_window_end_ms = None, ro_observed_at_ms = observed_at_ms\<rparr> j) j)"

definition query ::
    "attempt_key \<Rightarrow> string option \<Rightarrow> Journal \<Rightarrow> JournalError + JournalRecordV1 option" where
  "query key expected_command_digest j =
     (case j_by_attempt j key of
        None \<Rightarrow> Inr None
      | Some is \<Rightarrow>
          if (case expected_command_digest of None \<Rightarrow> False
              | Some expected \<Rightarrow> expected \<noteq> ob_command_digest (j_records j ! hd is))
          then Inl CommandConflict
          else Inr (if is = [] then None else Some (j_records j ! last is)))"

text \<open>The reconciliation record continues the latest record of the attempt.\<close>

definition reconciliation_record ::
    "recorder_env \<Rightarrow> JournalRecordV1 \<Rightarrow> record_outcome \<Rightarrow> Journal \<Rightarrow> JournalRecordV1" where
  "reconciliation_record E base out j = seal_record E (base
     \<lparr>jr_journal_version := JOURNAL_VERSION, ob_sequence := next_sequence j,
      ob_record_id := ''recorder-record-'' @ sha256_hex (je_ext E)
        (ob_attempt_id base @ NUL # ob_command_digest base @ NUL
          # show_nat (unat (next_sequence j)) @ NUL # ''reconcile''),
      ob_kind := ro_kind out, ob_source := Reconciliation,
      ob_remote_effect_id := ro_remote_effect_id out, ob_response_digest := ro_response_digest out,
      ob_evidence_payload_digest := ro_evidence_payload_digest out,
      ob_provider_error_class := None, ob_technical_resource_actuals := ro_actuals out,
      ob_reconciliation_window_start_ms := ro_window_start_ms out,
      ob_reconciliation_window_end_ms := ro_window_end_ms out,
      ob_observed_at_ms := ro_observed_at_ms out,
      ob_previous_record_digest := head_digest j, ob_record_digest := [],
      ob_recorder_key_id := je_key_id E, ob_recorder_key_generation := je_key_generation E,
      ob_signature_hex := []\<rparr>)"

definition record_reconciliation ::
    "recorder_env \<Rightarrow> append_io \<Rightarrow> attempt_key \<Rightarrow> string \<Rightarrow> RecorderObservationKindV1 \<Rightarrow> string \<Rightarrow> string
     \<Rightarrow> string option \<Rightarrow> TechnicalResourceActualV1 list \<Rightarrow> i64 \<Rightarrow> i64 \<Rightarrow> i64 \<Rightarrow> Journal
     \<Rightarrow> JournalRecordV1 journal_result" where
  "record_reconciliation E io key expected_command_digest k response_digest evidence_payload_digest
       remote_effect_id actuals window_start_ms window_end_ms observed_at_ms j =
     (if \<not> is_evidence k
      then (Inl (Encoding ''reconciliation result is not an evidence state''), j)
      else case rbind (query key (Some expected_command_digest) j) (of_option NotAccepted) of
        Inl e \<Rightarrow> (Inl e, j)
      | Inr base \<Rightarrow>
          if ob_kind base \<in> {Present, Absent} then (Inl AlreadyTerminal, j)
          else append_new E io (reconciliation_record E base
            \<lparr>ro_kind = k, ro_source = Reconciliation, ro_response_digest = Some response_digest,
             ro_remote_effect_id = remote_effect_id,
             ro_evidence_payload_digest = Some evidence_payload_digest,
             ro_provider_error_class = None, ro_actuals = actuals,
             ro_window_start_ms = Some window_start_ms, ro_window_end_ms = Some window_end_ms,
             ro_observed_at_ms = observed_at_ms\<rparr> j) j)"

definition sign_handshake ::
    "recorder_env \<Rightarrow> RecorderHandshakeChallengeV1 \<Rightarrow> RecorderBindingV1 \<Rightarrow> string
     \<Rightarrow> RecorderHandshakeAttestationV1" where
  "sign_handshake E challenge binding server_nonce =
     (let attestation = \<lparr>ha_handshake_version = RECORDER_HANDSHAKE_VERSION, ha_binding = binding,
            ha_client_nonce = hc_client_nonce challenge,
            ha_request_authentication_digest = hc_request_authentication_digest challenge,
            ha_server_nonce = server_nonce, ha_recorder_key_id = je_key_id E,
            ha_recorder_key_generation = je_key_generation E,
            ha_recorder_verifying_key_hex = je_verifying_key_hex E, ha_signature_hex = []\<rparr>
      in attestation\<lparr>ha_signature_hex :=
           hex_encode (je_sign E (attestation_signing_bytes (je_ext E) attestation))\<rparr>)"

end
