(* ===== verification/JournalScan.thy ===== *)
theory JournalScan
  imports Journal
begin

text \<open>
  The loop of \<open>Journal::scan_and_recover_torn_tail\<close> as the code writes it, one iteration at a time
  over the bytes of the file and an offset into them: it ends on every file, whatever is in it, and
  what it leaves is a journal that opens as itself.
\<close>

text \<open>One iteration returns (\<open>Inl\<close>) or continues with the next offset.\<close>

definition scan_body ::
    "recorder_env \<Rightarrow> bytes \<Rightarrow> nat \<times> Journal \<Rightarrow> (JournalError + Journal) + (nat \<times> Journal)" where
  "scan_body E bytes s =
     (let (offset, j) = s
      in if length bytes \<le> offset then Inl (Inr j)
         else if length bytes - offset < 4 then Inl (Inr (j\<lparr>j_file := take offset bytes\<rparr>))
         else let len = be_nat (take 4 (drop offset bytes))
              in if MAX_RECORD_BYTES < len then Inl (Inl (Corrupt ''record length exceeds limit''))
                 else if length bytes - (offset + 4) < len + 32
                 then Inl (Inr (j\<lparr>j_file := take offset bytes\<rparr>))
                 else let payload = take len (drop (offset + 4) bytes);
                          checksum = take 32 (drop (offset + 4 + len) bytes)
                      in if sha256 (je_ext E) payload \<noteq> checksum
                         then Inl (Inl (Corrupt ''record checksum mismatch''))
                         else case record_from_slice E payload of
                           None \<Rightarrow> Inl (Inl (Corrupt ''record JSON is invalid''))
                         | Some r \<Rightarrow>
                             (case verify_record E j r of
                                Inl e \<Rightarrow> Inl (Inl e)
                              | Inr _ \<Rightarrow>
                                  (case index_record r j of
                                     (Inl e, _) \<Rightarrow> Inl (Inl e)
                                   | (Inr _, j') \<Rightarrow> Inr (offset + 4 + len + 32, j'))))"

fun scan_loop ::
    "recorder_env \<Rightarrow> bytes \<Rightarrow> nat \<Rightarrow> nat \<times> Journal \<Rightarrow> (JournalError + Journal) option" where
  "scan_loop E bytes 0 s = None"
| "scan_loop E bytes (Suc n) s =
     (case scan_body E bytes s of Inl result \<Rightarrow> Some result | Inr s' \<Rightarrow> scan_loop E bytes n s')"

text \<open>An iteration that continues has read a whole frame of at least 36 bytes.\<close>

lemma scan_body_scan:
  assumes "offset \<le> length bytes"
  shows "case scan_body E bytes (offset, j) of
      Inl result \<Rightarrow> scan_and_recover_torn_tail E (take offset bytes) (drop offset bytes) j = result
    | Inr (offset', j') \<Rightarrow> offset + 36 \<le> offset' \<and> offset' \<le> length bytes
        \<and> (\<exists>r. index_record r j = (Inr (), j'))
        \<and> scan_and_recover_torn_tail E (take offset bytes) (drop offset bytes) j
          = scan_and_recover_torn_tail E (take offset' bytes) (drop offset' bytes) j'"
proof -
  let ?rest = "drop offset bytes"
  let ?len = "be_nat (take 4 ?rest)"
  have at: "take k (drop (offset + i) bytes) = take k (drop i ?rest)"
    "take (offset + k) bytes = take offset bytes @ take k ?rest"
    "drop (offset + k) bytes = drop k ?rest" for i k
    by (simp_all add: take_add) (simp_all add: add.commute)
  have sizes: "length bytes \<le> offset \<longleftrightarrow> ?rest = []" "length bytes - offset = length ?rest"
    "length bytes - (offset + 4) = length ?rest - 4"
    using assms by simp_all
  have pos: "offset + 4 + ?len + 32 = offset + (4 + ?len + 32)" "offset + 4 + ?len = offset + (4 + ?len)"
    by simp_all
  note scan = scan_and_recover_torn_tail.simps [of E "take offset bytes" ?rest j]
  show ?thesis
  proof (cases "scan_body E bytes (offset, j)")
    case (Inl result)
    then have "scan_and_recover_torn_tail E (take offset bytes) ?rest j = result"
      unfolding scan scan_body_def Let_def prod.case sizes pos at
      by (auto split: if_splits option.splits sum.splits prod.splits)
    with Inl show ?thesis by simp
  next
    case (Inr s')
    then obtain r j' where s': "s' = (offset + (4 + ?len + 32), j')"
      and long: "?rest \<noteq> []" "\<not> length ?rest < 4" "\<not> length ?rest - 4 < ?len + 32"
      and index: "verify_record E j r = Inr ()" "index_record r j = (Inr (), j')"
      and scan': "scan_and_recover_torn_tail E (take offset bytes) ?rest j
        = scan_and_recover_torn_tail E (take offset bytes @ take (4 + ?len + 32) ?rest)
            (drop (4 + ?len + 32) ?rest) j'"
      unfolding scan scan_body_def Let_def prod.case sizes pos at
      by (auto split: if_splits option.splits sum.splits prod.splits)
    have "offset + (4 + ?len + 32) \<le> length bytes" using long assms by simp
    with Inr index(2) scan' show ?thesis unfolding s' by (auto simp: at)
  qed
qed

text \<open>The records and the file of the journal while the loop runs.\<close>

lemma index_record_appends:
  "index_record r j = (Inr (), j') \<Longrightarrow> j_records j' = j_records j @ [r] \<and> j_file j' = j_file j"
  by (auto simp: index_record_def Let_def split: option.splits if_splits)

lemma scan_loop_ends:
  assumes "offset \<le> length bytes" and "length bytes - offset < 36 * n"
  shows "scan_loop E bytes n (offset, j)
    = Some (scan_and_recover_torn_tail E (take offset bytes) (drop offset bytes) j)"
  using assms
proof (induction n arbitrary: offset j)
  case (Suc n)
  show ?case
  proof (cases "scan_body E bytes (offset, j)")
    case (Inl result)
    then show ?thesis using scan_body_scan [OF Suc.prems(1), of E j] by simp
  next
    case (Inr s')
    obtain offset' j' where s': "s' = (offset', j')" by (cases s')
    have "offset + 36 \<le> offset' \<and> offset' \<le> length bytes"
      and scan: "scan_and_recover_torn_tail E (take offset bytes) (drop offset bytes) j
          = scan_and_recover_torn_tail E (take offset' bytes) (drop offset' bytes) j'"
      using scan_body_scan [OF Suc.prems(1), of E j] unfolding Inr s' by auto
    then have "offset' \<le> length bytes" "length bytes - offset' < 36 * n"
      using Suc.prems by auto
    from Suc.IH [OF this] show ?thesis by (simp add: Inr s' scan)
  qed
qed simp

text \<open>A whole, intact frame at the start of \<open>rest\<close>, with its length and its record.\<close>

definition frame_read :: "recorder_env \<Rightarrow> Journal \<Rightarrow> bytes \<Rightarrow> nat \<Rightarrow> JournalRecordV1 \<Rightarrow> bool" where
  "frame_read E j rest sz r \<longleftrightarrow>
     (let len = be_nat (take 4 rest)
      in sz = 4 + len + 32 \<and> sz \<le> length rest \<and> len \<le> MAX_RECORD_BYTES
         \<and> sha256 (je_ext E) (take len (drop 4 rest)) = take 32 (drop (4 + len) rest)
         \<and> record_from_slice E (take len (drop 4 rest)) = Some r \<and> verify_record E j r = Inr ())"

lemma scan_frame_read:
  assumes "frame_read E j rest sz r" and "index_record r j = (Inr (), j')"
  shows "scan_and_recover_torn_tail E consumed rest j
    = scan_and_recover_torn_tail E (consumed @ take sz rest) (drop sz rest) j'"
proof -
  have "rest \<noteq> []" using assms(1) by (auto simp: frame_read_def Let_def)
  with assms show ?thesis
    by (subst scan_and_recover_torn_tail.simps) (auto simp: frame_read_def Let_def)
qed

lemma frame_read_take:
  assumes "frame_read E j rest sz r"
  shows "frame_read E (j\<lparr>j_file := f\<rparr>) (take (sz + k) rest) sz r"
proof -
  let ?len = "be_nat (take 4 rest)"
  have sz: "sz = 4 + ?len + 32" "sz \<le> length rest"
    using assms by (simp_all add: frame_read_def Let_def)
  then have t: "take 4 (take (sz + k) rest) = take 4 rest"
    "take ?len (drop 4 (take (sz + k) rest)) = take ?len (drop 4 rest)"
    "take 32 (drop (4 + ?len) (take (sz + k) rest)) = take 32 (drop (4 + ?len) rest)"
    by (simp_all add: drop_take min_def)
  have "verify_record E (j\<lparr>j_file := f\<rparr>) r = verify_record E j r"
    by (simp add: verify_record_def next_sequence_def head_digest_def cong: if_cong)
  then show ?thesis
    using assms sz(2) unfolding frame_read_def Let_def t by auto
qed

text \<open>What an accepted scan returns, by induction on the bytes that are left.\<close>

lemma scan_accepted:
  assumes "scan_and_recover_torn_tail E consumed rest j = Inr j'" and "j_file j = consumed @ rest"
  shows "\<exists>k. j_file j' = consumed @ take k rest
    \<and> 36 * length (j_records j') \<le> 36 * length (j_records j) + length (take k rest)
    \<and> scan_and_recover_torn_tail E consumed (take k rest) (j\<lparr>j_file := consumed @ take k rest\<rparr>) = Inr j'"
  using assms
proof (induction "length rest" arbitrary: consumed rest j rule: less_induct)
  case less
  let ?len = "be_nat (take 4 rest)"
  have self: "j\<lparr>j_file := j_file j\<rparr> = j" by simp
  note scan = less.prems(1) [unfolded scan_and_recover_torn_tail.simps [of E consumed rest j]]
  consider (stop) "j' = j\<lparr>j_file := consumed\<rparr>"
    | (frame) sz r j1 where "frame_read E j rest sz r" "index_record r j = (Inr (), j1)"
    using scan less.prems(2) self
    by (auto simp: frame_read_def Let_def split: if_splits option.splits sum.splits prod.splits)
  then show ?case
  proof cases
    case stop
    then show ?thesis
      by (intro exI [of _ 0]) (simp add: scan_and_recover_torn_tail.simps [of E consumed "[]"])
  next
    case frame
    have sz: "36 \<le> sz" "sz \<le> length rest" using frame(1) by (simp_all add: frame_read_def Let_def)
    have ne: "length (drop sz rest) < length rest" using sz by simp
    note j1 = index_record_appends [OF frame(2)]
    have f1: "j_file j1 = (consumed @ take sz rest) @ drop sz rest" using j1 less.prems(2) by simp
    have s1: "scan_and_recover_torn_tail E (consumed @ take sz rest) (drop sz rest) j1 = Inr j'"
      using less.prems(1) scan_frame_read [OF frame] by simp
    obtain k where k: "j_file j' = (consumed @ take sz rest) @ take k (drop sz rest)"
      "36 * length (j_records j') \<le> 36 * length (j_records j1) + length (take k (drop sz rest))"
      "scan_and_recover_torn_tail E (consumed @ take sz rest) (take k (drop sz rest))
        (j1\<lparr>j_file := (consumed @ take sz rest) @ take k (drop sz rest)\<rparr>) = Inr j'"
      using less.hyps [OF ne s1 f1] by blast
    have join: "(consumed @ take sz rest) @ take k (drop sz rest) = consumed @ take (sz + k) rest"
      by (simp add: take_add)
    let ?f = "consumed @ take (sz + k) rest"
    have index: "index_record r (j\<lparr>j_file := ?f\<rparr>) = (Inr (), j1\<lparr>j_file := ?f\<rparr>)"
      using frame(2) by (auto simp: index_record_def Let_def split: option.splits if_splits)
    have parts: "take sz (take (sz + k) rest) = take sz rest" "drop sz (take (sz + k) rest) = take k (drop sz rest)"
      by (simp_all add: drop_take min_def)
    have "scan_and_recover_torn_tail E consumed (take (sz + k) rest) (j\<lparr>j_file := ?f\<rparr>) = Inr j'"
      using scan_frame_read [OF frame_read_take [OF frame(1), of ?f k] index, of consumed] k(3)
      unfolding parts join by (rule trans)
    moreover have "36 * length (j_records j') \<le> 36 * length (j_records j) + length (take (sz + k) rest)"
    proof -
      have "length (take (sz + k) rest) = sz + length (take k (drop sz rest))"
        using sz(2) by (simp add: take_add)
      then show ?thesis using k(2) j1 sz(1) by simp
    qed
    ultimately show ?thesis using k(1) join by metis
  qed
qed

text \<open>C31: opening a journal terminates on every file. The loop of the scan, run as the code runs it,
  returns within one iteration for each 36 bytes of the file and one more, whatever the bytes and
  whatever the digest and the signature of the records, and returns what \<open>open_journal\<close> says.
  When it accepts the file, what it keeps is a prefix of it with at most one record for each 36
  bytes, and opening the kept file again gives the same journal.\<close>

theorem open_terminates:
  "scan_loop E file (length file div 36 + 1) (0, empty_journal file) = Some (open_journal E file)
    \<and> (case open_journal E file of
         Inl _ \<Rightarrow> True
       | Inr j \<Rightarrow> prefix (j_file j) file \<and> 36 * length (j_records j) \<le> length (j_file j)
           \<and> open_journal E (j_file j) = Inr j)"
proof -
  have "scan_loop E file (length file div 36 + 1) (0, empty_journal file) = Some (open_journal E file)"
    using scan_loop_ends [of 0 "file" "length file div 36 + 1" E "empty_journal file"]
    by (simp add: open_journal_def)
  moreover have "prefix (j_file j) file \<and> 36 * length (j_records j) \<le> length (j_file j)
      \<and> open_journal E (j_file j) = Inr j" if "open_journal E file = Inr j" for j
    using scan_accepted [of E "[]" "file" "empty_journal file" j] that
    by (auto simp: open_journal_def empty_journal_def take_is_prefix)
  ultimately show ?thesis by (auto split: sum.split)
qed

end
