(* ===== verification/ExactOverwrite.thy ===== *)
theory ExactOverwrite
  imports JournalData
begin

text \<open>
  The only effect the installed recorder can perform: replacing one file,
  \<^verbatim>\<open>crates/carsinos-effect-recorder/src/exact_overwrite.rs\<close>. The file system is a record of
  what the calls of \<open>std::fs\<close> return on Unix; the write is an argument, the point where it
  fails. During one call the file is locked (\<open>flock\<close>), so the state changes by its own write only.
\<close>

definition EXACT_OVERWRITE_PROVIDER_VERSION :: string where
  "EXACT_OVERWRITE_PROVIDER_VERSION = ''v1''"

definition EXACT_OVERWRITE_ADAPTER_IDENTITY :: string where
  "EXACT_OVERWRITE_ADAPTER_IDENTITY = ''carsinos.effect-recorder.exact-overwrite.v1''"

definition EXACT_OVERWRITE_OPERAND_CONTRACT :: string where
  "EXACT_OVERWRITE_OPERAND_CONTRACT = ''carsinos.local-fs.exact-overwrite.operand.v1''"

definition EXACT_OVERWRITE_RECONCILIATION_CONTRACT :: string where
  "EXACT_OVERWRITE_RECONCILIATION_CONTRACT = ''carsinos.local-fs.exact-overwrite.reconciliation.v1''"

definition EXACT_OVERWRITE_ADAPTER_ARTIFACT_DIGEST :: string where
  "EXACT_OVERWRITE_ADAPTER_ARTIFACT_DIGEST =
     ''sha256:ca57c48273a5dbcf8627d893612e56c2bff85d5e895f2c81e89156cedc90c72e''"

definition EXACT_OVERWRITE_MAX_REPLACEMENT_BYTES :: nat where
  "EXACT_OVERWRITE_MAX_REPLACEMENT_BYTES = 4096"

definition OBSERVATION_CONTRACT :: string where
  "OBSERVATION_CONTRACT = ''carsinos.local-fs.exact-overwrite.observation.v1''"

subsection \<open>Data\<close>

record ExactOverwriteOperandV1 =
  xo_contract_version :: string
  xo_target_path :: string
  xo_target_identity :: string
  xo_expected_preimage_sha256 :: string
  xo_replacement_hex :: string
  xo_replacement_sha256 :: string

record ExactOverwriteReconciliationKeyV1 =
  xk_contract_version :: string
  xk_target_path :: string
  xk_target_identity :: string
  xk_expected_preimage_sha256 :: string
  xk_replacement_sha256 :: string

record ExactOverwriteMaterialV1 =
  xm_operand_envelope :: OpaqueOperandEnvelopeV1
  xm_payload_digest :: string
  xm_reconciliation_key :: string
  xm_reconciliation_key_digest :: string

record ValidatedExactOverwrite =
  vx_operand :: ExactOverwriteOperandV1
  vx_replacement :: bytes
  vx_reconciliation_key :: string

datatype CurrentState = Original | Replacement | UnknownState

text \<open>\<open>VerifiedTechnicalResourceReservation\<close> of \<^verbatim>\<open>state_verifier.rs\<close>, and the two outcomes of
  \<^verbatim>\<open>executor.rs\<close>.\<close>

record VerifiedTechnicalResourceReservation =
  vr_reservation_id :: string
  vr_amount_reserved :: i64

record InvocationOutcome =
  io_kind :: RecorderObservationKindV1
  io_response_digest :: string
  io_evidence_payload_digest :: string
  io_remote_effect_id :: "string option"
  io_provider_error_class :: "ProviderFailureClassV1 option"
  io_technical_resource_actuals :: "TechnicalResourceActualV1 list"

record ReconciliationOutcome =
  rx_kind :: RecorderObservationKindV1
  rx_response_digest :: string
  rx_evidence_payload_digest :: string
  rx_remote_effect_id :: "string option"
  rx_technical_resource_actuals :: "TechnicalResourceActualV1 list"

definition operand_json :: "ExactOverwriteOperandV1 \<Rightarrow> json" where
  "operand_json p = JObject
     [(''contract_version'', JString (xo_contract_version p)),
      (''target_path'', JString (xo_target_path p)),
      (''target_identity'', JString (xo_target_identity p)),
      (''expected_preimage_sha256'', JString (xo_expected_preimage_sha256 p)),
      (''replacement_hex'', JString (xo_replacement_hex p)),
      (''replacement_sha256'', JString (xo_replacement_sha256 p))]"

definition reconciliation_key_json :: "ExactOverwriteReconciliationKeyV1 \<Rightarrow> json" where
  "reconciliation_key_json k = JObject
     [(''contract_version'', JString (xk_contract_version k)),
      (''target_path'', JString (xk_target_path k)),
      (''target_identity'', JString (xk_target_identity k)),
      (''expected_preimage_sha256'', JString (xk_expected_preimage_sha256 k)),
      (''replacement_sha256'', JString (xk_replacement_sha256 k))]"

definition operand_keys :: "string list" where
  "operand_keys = [''contract_version'', ''target_path'', ''target_identity'',
     ''expected_preimage_sha256'', ''replacement_hex'', ''replacement_sha256'']"

definition reconciliation_keys :: "string list" where
  "reconciliation_keys = [''contract_version'', ''target_path'', ''target_identity'',
     ''expected_preimage_sha256'', ''replacement_sha256'']"

definition operand_of_json :: "json \<Rightarrow> ExactOverwriteOperandV1 option" where
  "operand_of_json v = (case v of
     JObject ms \<Rightarrow>
       if \<not> closed_object operand_keys ms then None
       else
       Option.bind (required ms ''contract_version'' as_string) (\<lambda>a0.
       Option.bind (required ms ''target_path'' as_string) (\<lambda>a1.
       Option.bind (required ms ''target_identity'' as_string) (\<lambda>a2.
       Option.bind (required ms ''expected_preimage_sha256'' as_string) (\<lambda>a3.
       Option.bind (required ms ''replacement_hex'' as_string) (\<lambda>a4.
       Option.bind (required ms ''replacement_sha256'' as_string) (\<lambda>a5.
         Some \<lparr>xo_contract_version = a0, xo_target_path = a1, xo_target_identity = a2,
           xo_expected_preimage_sha256 = a3, xo_replacement_hex = a4,
           xo_replacement_sha256 = a5\<rparr>))))))
   | _ \<Rightarrow> None)"

definition reconciliation_key_of_json :: "json \<Rightarrow> ExactOverwriteReconciliationKeyV1 option" where
  "reconciliation_key_of_json v = (case v of
     JObject ms \<Rightarrow>
       if \<not> closed_object reconciliation_keys ms then None
       else
       Option.bind (required ms ''contract_version'' as_string) (\<lambda>a0.
       Option.bind (required ms ''target_path'' as_string) (\<lambda>a1.
       Option.bind (required ms ''target_identity'' as_string) (\<lambda>a2.
       Option.bind (required ms ''expected_preimage_sha256'' as_string) (\<lambda>a3.
       Option.bind (required ms ''replacement_sha256'' as_string) (\<lambda>a4.
         Some \<lparr>xk_contract_version = a0, xk_target_path = a1, xk_target_identity = a2,
           xk_expected_preimage_sha256 = a3, xk_replacement_sha256 = a4\<rparr>)))))
   | _ \<Rightarrow> None)"

subsection \<open>Paths and files\<close>

text \<open>\<open>str::from_utf8\<close>: the well-formed byte sequences of Unicode.\<close>

definition continuation_byte :: "char \<Rightarrow> bool" where
  "continuation_byte c \<longleftrightarrow> 128 \<le> (of_char c :: nat) \<and> (of_char c :: nat) \<le> 191"

definition second_byte_ok :: "nat \<Rightarrow> char \<Rightarrow> bool" where
  "second_byte_ok lead c \<longleftrightarrow> continuation_byte c
     \<and> (lead = 224 \<longrightarrow> 160 \<le> (of_char c :: nat)) \<and> (lead = 237 \<longrightarrow> (of_char c :: nat) \<le> 159)
     \<and> (lead = 240 \<longrightarrow> 144 \<le> (of_char c :: nat)) \<and> (lead = 244 \<longrightarrow> (of_char c :: nat) \<le> 143)"

definition utf8_width :: "char \<Rightarrow> nat option" where
  "utf8_width c =
     (let n = (of_char c :: nat)
      in if n < 128 then Some 1 else if 194 \<le> n \<and> n \<le> 223 then Some 2
         else if 224 \<le> n \<and> n \<le> 239 then Some 3 else if 240 \<le> n \<and> n \<le> 244 then Some 4 else None)"

function valid_utf8 :: "string \<Rightarrow> bool" where
  "valid_utf8 s = (case s of [] \<Rightarrow> True
     | c # t \<Rightarrow> (case utf8_width c of None \<Rightarrow> False
         | Some w \<Rightarrow> w - 1 \<le> length t \<and> list_all continuation_byte (take (w - 1) t)
             \<and> (w = 1 \<or> second_byte_ok (of_char c) (hd t)) \<and> valid_utf8 (drop (w - 1) t)))"
  by pat_completeness auto
termination by (relation "measure length") auto

declare valid_utf8.simps [simp del]

text \<open>\<open>Path::is_absolute\<close>, \<open>file_name\<close>, \<open>parent\<close> and \<open>join\<close>; a directory is its list of components.\<close>

definition is_absolute :: "string \<Rightarrow> bool" where
  "is_absolute p \<longleftrightarrow> prefix ''/'' p"

definition path_components :: "string \<Rightarrow> string list" where
  "path_components p = filter (\<lambda>w. w \<noteq> [] \<and> w \<noteq> ''.'') (split_on (CHR ''/'') p)"

definition path_file_name :: "string \<Rightarrow> string option" where
  "path_file_name p = (let ws = path_components p
     in if ws = [] \<or> last ws = ''..'' then None else Some (last ws))"

definition path_parent :: "string \<Rightarrow> string list option" where
  "path_parent p = (let ws = path_components p in if ws = [] then None else Some (butlast ws))"

definition path_join :: "string \<Rightarrow> string \<Rightarrow> string" where
  "path_join d f = (if d = [] \<or> suffix ''/'' d then d @ f else d @ ''/'' @ f)"

text \<open>Device and inode number.\<close>

type_synonym file_id = "u64 \<times> u64"

datatype directory_entry = RegularFile file_id | OtherEntry

record file_system =
  fs_canonical :: "string list \<Rightarrow> string option"
  fs_entry :: "string \<Rightarrow> directory_entry option"
  fs_openable :: "string \<Rightarrow> bool"
  fs_readable :: "file_id \<Rightarrow> bool"
  fs_content :: "file_id \<Rightarrow> bytes"

definition io_error :: string where "io_error = ''I/O error''"

definition reject_path_metadata :: "directory_entry \<Rightarrow> string + file_id" where
  "reject_path_metadata e = (case e of
     OtherEntry \<Rightarrow> Inl ''exact-overwrite target is not a no-follow regular file''
   | RegularFile i \<Rightarrow> Inr i)"

definition open_no_follow :: "file_system \<Rightarrow> string \<Rightarrow> string + directory_entry" where
  "open_no_follow F p = (case fs_entry F p of None \<Rightarrow> Inl io_error
     | Some e \<Rightarrow> if fs_openable F p then Inr e else Inl io_error)"

definition canonical_exact_overwrite_target :: "file_system \<Rightarrow> string \<Rightarrow> string + string" where
  "canonical_exact_overwrite_target F target =
     (if \<not> is_absolute target then Inl ''exact-overwrite target must be absolute''
      else rbind (of_option ''exact-overwrite target must name one file'' (path_file_name target)) (\<lambda>name.
        rbind (of_option ''exact-overwrite target has no parent'' (path_parent target)) (\<lambda>parent.
        rbind (of_option io_error (fs_canonical F parent)) (\<lambda>canonical_parent.
        let resolved = path_join canonical_parent name in
        rbind (of_option io_error (fs_entry F resolved)) (\<lambda>metadata.
        rbind (reject_path_metadata metadata) (\<lambda>_.
        rbind (open_no_follow F resolved) (\<lambda>file.
        rbind (reject_path_metadata file) (\<lambda>_. Inr resolved))))))))"

definition path_text :: "string \<Rightarrow> string + string" where
  "path_text p = (if valid_utf8 p then Inr p else Inl ''exact-overwrite target path is not UTF-8'')"

definition file_identity :: "file_id \<Rightarrow> string" where
  "file_identity i = ''unix-device:'' @ hex_encode (word_bytes (fst i))
     @ '':inode:'' @ hex_encode (word_bytes (snd i))"

definition exact_overwrite_target_identity :: "file_system \<Rightarrow> string \<Rightarrow> string + string" where
  "exact_overwrite_target_identity F target =
     rbind (canonical_exact_overwrite_target F target) (\<lambda>p.
     rbind (open_no_follow F p) (\<lambda>file.
     rbind (reject_path_metadata file) (\<lambda>i. Inr (file_identity i))))"

definition digest_bytes :: "externals \<Rightarrow> bytes \<Rightarrow> string" where
  "digest_bytes X b = ''sha256:'' @ sha256_hex X b"

definition hash_open_file :: "externals \<Rightarrow> file_system \<Rightarrow> file_id \<Rightarrow> string + string" where
  "hash_open_file X F i = (if fs_readable F i then Inr (digest_bytes X (fs_content F i)) else Inl io_error)"

subsection \<open>Material\<close>

definition validate_replacement :: "bytes \<Rightarrow> string + unit" where
  "validate_replacement r =
     (if r = [] \<or> EXACT_OVERWRITE_MAX_REPLACEMENT_BYTES < length r
      then Inl ''exact-overwrite replacement is empty or exceeds the fixed bound'' else Inr ())"

definition exact_overwrite_payload_digest :: "externals \<Rightarrow> OpaqueOperandEnvelopeV1 \<Rightarrow> string" where
  "exact_overwrite_payload_digest X e = digest_bytes X (canonical_json_bytes X (envelope_json e))"

definition reconciliation_key_of :: "ExactOverwriteOperandV1 \<Rightarrow> ExactOverwriteReconciliationKeyV1" where
  "reconciliation_key_of p = \<lparr>xk_contract_version = EXACT_OVERWRITE_RECONCILIATION_CONTRACT,
     xk_target_path = xo_target_path p, xk_target_identity = xo_target_identity p,
     xk_expected_preimage_sha256 = xo_expected_preimage_sha256 p,
     xk_replacement_sha256 = xo_replacement_sha256 p\<rparr>"

definition exact_overwrite_reconciliation_key :: "externals \<Rightarrow> ExactOverwriteOperandV1 \<Rightarrow> string" where
  "exact_overwrite_reconciliation_key X p =
     canonical_json_bytes X (reconciliation_key_json (reconciliation_key_of p))"

definition material_from_operand :: "externals \<Rightarrow> ExactOverwriteOperandV1 \<Rightarrow> ExactOverwriteMaterialV1" where
  "material_from_operand X p =
     (let key = exact_overwrite_reconciliation_key X p;
          envelope = \<lparr>oe_non_secret = operand_json p, oe_secret_handles = []\<rparr>
      in \<lparr>xm_operand_envelope = envelope,
          xm_payload_digest = exact_overwrite_payload_digest X envelope,
          xm_reconciliation_key = key, xm_reconciliation_key_digest = stable_text_digest X key\<rparr>)"

definition build_exact_overwrite_material ::
    "externals \<Rightarrow> file_system \<Rightarrow> string \<Rightarrow> bytes \<Rightarrow> string + ExactOverwriteMaterialV1" where
  "build_exact_overwrite_material X F target replacement =
     rbind (validate_replacement replacement) (\<lambda>_.
     rbind (canonical_exact_overwrite_target F target) (\<lambda>target_path.
     rbind (open_no_follow F target_path) (\<lambda>file.
     rbind (reject_path_metadata file) (\<lambda>i.
     rbind (hash_open_file X F i) (\<lambda>preimage.
     let replacement_sha256 = digest_bytes X replacement in
     if preimage = replacement_sha256
     then Inl ''replacement must differ from the exact preimage''
     else rbind (path_text target_path) (\<lambda>text. Inr (material_from_operand X
       \<lparr>xo_contract_version = EXACT_OVERWRITE_OPERAND_CONTRACT, xo_target_path = text,
        xo_target_identity = file_identity i, xo_expected_preimage_sha256 = preimage,
        xo_replacement_hex = hex_encode replacement, xo_replacement_sha256 = replacement_sha256\<rparr>)))))))"

subsection \<open>Validation\<close>

definition validate_operand :: "file_system \<Rightarrow> ExactOverwriteOperandV1 \<Rightarrow> string + unit" where
  "validate_operand F p =
     (if xo_contract_version p \<noteq> EXACT_OVERWRITE_OPERAND_CONTRACT
         \<or> \<not> valid_digest (xo_expected_preimage_sha256 p) \<or> \<not> valid_digest (xo_replacement_sha256 p)
         \<or> xo_expected_preimage_sha256 p = xo_replacement_sha256 p
      then Inl ''invalid exact-overwrite operand contract''
      else if \<not> is_absolute (xo_target_path p)
      then Inl ''exact-overwrite target is not the canonical absolute path''
      else rbind (canonical_exact_overwrite_target F (xo_target_path p)) (\<lambda>canonical.
        rbind (path_text canonical) (\<lambda>text.
        if text \<noteq> xo_target_path p then Inl ''exact-overwrite target is not the canonical absolute path''
        else Inr ())))"

definition validate_key :: "ExactOverwriteReconciliationKeyV1 \<Rightarrow> string + unit" where
  "validate_key k =
     (if xk_contract_version k \<noteq> EXACT_OVERWRITE_RECONCILIATION_CONTRACT
         \<or> \<not> is_absolute (xk_target_path k) \<or> \<not> valid_digest (xk_expected_preimage_sha256 k)
         \<or> \<not> valid_digest (xk_replacement_sha256 k)
         \<or> xk_expected_preimage_sha256 k = xk_replacement_sha256 k \<or> xk_target_identity k = []
      then Inl ''invalid exact-overwrite reconciliation key'' else Inr ())"

definition decode_lower_hex :: "string \<Rightarrow> string + bytes" where
  "decode_lower_hex v =
     (if odd (length v) \<or> EXACT_OVERWRITE_MAX_REPLACEMENT_BYTES * 2 < length v
         \<or> \<not> list_all is_lower_hex_digit v
      then Inl ''replacement hex is not bounded canonical lowercase hex''
      else of_option ''invalid digit'' (hex_pairs v))"

definition fixed_identity_matches :: "ExecuteOnceV1 \<Rightarrow> bool" where
  "fixed_identity_matches c \<longleftrightarrow>
     eo_provider_identity c = exact_overwrite_provider
     \<and> eo_provider_version c = EXACT_OVERWRITE_PROVIDER_VERSION
     \<and> eo_adapter_identity c = EXACT_OVERWRITE_ADAPTER_IDENTITY
     \<and> eo_adapter_artifact_digest c = EXACT_OVERWRITE_ADAPTER_ARTIFACT_DIGEST
     \<and> eo_provider_idempotency_key c = None
     \<and> oe_secret_handles (eo_operand_envelope c) = []"

definition validated_command ::
    "externals \<Rightarrow> file_system \<Rightarrow> ExecuteOnceV1 \<Rightarrow> string + ValidatedExactOverwrite" where
  "validated_command X F c =
     (if \<not> fixed_identity_matches c then Inl ''exact-overwrite fixed identity does not match''
      else rbind (of_option ''invalid operand'' (operand_of_json (oe_non_secret (eo_operand_envelope c)))) (\<lambda>p.
        rbind (validate_operand F p) (\<lambda>_.
        rbind (decode_lower_hex (xo_replacement_hex p)) (\<lambda>replacement.
        rbind (validate_replacement replacement) (\<lambda>_.
        if digest_bytes X replacement \<noteq> xo_replacement_sha256 p
           \<or> exact_overwrite_payload_digest X (eo_operand_envelope c) \<noteq> eo_payload_digest c
        then Inl ''exact-overwrite replacement or envelope digest does not match''
        else let key = exact_overwrite_reconciliation_key X p in
        if eo_reconciliation_key c \<noteq> Some key
        then Inl ''exact-overwrite reconciliation key does not match operands''
        else Inr \<lparr>vx_operand = p, vx_replacement = replacement, vx_reconciliation_key = key\<rparr>)))))"

definition open_validated_target :: "file_system \<Rightarrow> ValidatedExactOverwrite \<Rightarrow> string + file_id" where
  "open_validated_target F v =
     (let target = xo_target_path (vx_operand v)
      in rbind (canonical_exact_overwrite_target F target) (\<lambda>canonical.
         rbind (path_text canonical) (\<lambda>text.
         if text \<noteq> target then Inl ''exact-overwrite target path drifted''
         else rbind (open_no_follow F target) (\<lambda>file.
         rbind (reject_path_metadata file) (\<lambda>i.
         if file_identity i \<noteq> xo_target_identity (vx_operand v)
         then Inl ''exact-overwrite target identity drifted'' else Inr i)))))"

definition inspect_current ::
    "externals \<Rightarrow> file_system \<Rightarrow> ValidatedExactOverwrite \<Rightarrow> string + CurrentState" where
  "inspect_current X F v =
     (case open_validated_target F v of
        Inl _ \<Rightarrow> Inr UnknownState
      | Inr i \<Rightarrow> rbind (hash_open_file X F i) (\<lambda>digest. Inr
          (if digest = xo_replacement_sha256 (vx_operand v) then Replacement
           else if digest = xo_expected_preimage_sha256 (vx_operand v) then Original
           else UnknownState)))"

definition supports_exact_overwrite :: "externals \<Rightarrow> file_system \<Rightarrow> ExecuteOnceV1 \<Rightarrow> bool" where
  "supports_exact_overwrite X F c =
     (case rbind (validated_command X F c) (inspect_current X F) of
        Inl _ \<Rightarrow> False | Inr state \<Rightarrow> state \<in> {Original, Replacement})"

subsection \<open>Outcomes\<close>

definition remote_effect_id :: "externals \<Rightarrow> ValidatedExactOverwrite \<Rightarrow> string" where
  "remote_effect_id X v =
     ''local-fs-exact-overwrite:'' @ drop 7 (stable_text_digest X (vx_reconciliation_key v))"

definition reservation_actuals ::
    "externals \<Rightarrow> VerifiedTechnicalResourceReservation list \<Rightarrow> string \<Rightarrow> TechnicalResourceActualV1 list" where
  "reservation_actuals X rs evidence_digest = map (\<lambda>r.
     let evidence = JObject
       [(''contract_version'', JString ''carsinos.local-fs.exact-overwrite.resource-actual.v1''),
        (''exact_overwrite_evidence_digest'', JString evidence_digest),
        (''reservation_id'', JString (vr_reservation_id r)),
        (''amount_actual'', json_i64 (vr_amount_reserved r))]
     in \<lparr>tr_reservation_id = vr_reservation_id r, tr_amount_actual = vr_amount_reserved r,
         tr_evidence_digest = digest_bytes X (canonical_json_bytes X evidence)\<rparr>) rs"

definition target_members :: "externals \<Rightarrow> ValidatedExactOverwrite \<Rightarrow> (string \<times> json) list" where
  "target_members X v =
     [(''remote_effect_id'', JString (remote_effect_id X v)),
      (''target_identity_digest'', JString (stable_text_digest X (xo_target_identity (vx_operand v)))),
      (''expected_preimage_sha256'', JString (xo_expected_preimage_sha256 (vx_operand v))),
      (''replacement_sha256'', JString (xo_replacement_sha256 (vx_operand v))),
      (''technical_resource_actuals'', JArray [])]"

definition evidence_value :: "externals \<Rightarrow> ValidatedExactOverwrite \<Rightarrow> string \<Rightarrow> string \<Rightarrow> json" where
  "evidence_value X v k basis = JObject
     ([(''contract_version'', JString OBSERVATION_CONTRACT), (''kind'', JString k),
       (''basis'', JString basis)] @ target_members X v)"

definition evidence_with_actuals :: "json \<Rightarrow> TechnicalResourceActualV1 list \<Rightarrow> json" where
  "evidence_with_actuals evidence actuals = JObject
     [(''effect'', evidence), (''technical_resource_actuals'', JArray (map actual_json actuals))]"

definition present_outcome ::
    "externals \<Rightarrow> ValidatedExactOverwrite \<Rightarrow> VerifiedTechnicalResourceReservation list
     \<Rightarrow> InvocationOutcome" where
  "present_outcome X v rs =
     (let evidence = JObject ([(''contract_version'', JString OBSERVATION_CONTRACT),
            (''kind'', JString ''present'')] @ target_members X v);
          response_digest = digest_bytes X (canonical_json_bytes X evidence);
          actuals = reservation_actuals X rs response_digest
      in \<lparr>io_kind = Present, io_response_digest = response_digest,
          io_evidence_payload_digest =
            digest_bytes X (canonical_json_bytes X (evidence_with_actuals evidence actuals)),
          io_remote_effect_id = Some (remote_effect_id X v), io_provider_error_class = None,
          io_technical_resource_actuals = actuals\<rparr>)"

definition definite_absent :: "externals \<Rightarrow> ExecuteOnceV1 \<Rightarrow> string \<Rightarrow> InvocationOutcome" where
  "definite_absent X c basis =
     (let evidence = JObject
            [(''contract_version'', JString OBSERVATION_CONTRACT), (''kind'', JString ''absent''),
             (''basis'', JString basis),
             (''provider_request_digest'', JString (eo_provider_request_digest c)),
             (''technical_resource_actuals'', JArray [])];
          digest = digest_bytes X (canonical_json_bytes X evidence)
      in \<lparr>io_kind = Absent, io_response_digest = digest, io_evidence_payload_digest = digest,
          io_remote_effect_id = None, io_provider_error_class = Some Permanent,
          io_technical_resource_actuals = []\<rparr>)"

definition unknown_outcome :: "externals \<Rightarrow> ValidatedExactOverwrite \<Rightarrow> string \<Rightarrow> InvocationOutcome" where
  "unknown_outcome X v basis =
     (let digest = digest_bytes X (canonical_json_bytes X (evidence_value X v ''unknown'' basis))
      in \<lparr>io_kind = Unknown, io_response_digest = digest, io_evidence_payload_digest = digest,
          io_remote_effect_id = Some (remote_effect_id X v), io_provider_error_class = None,
          io_technical_resource_actuals = []\<rparr>)"

definition reconciliation_outcome ::
    "externals \<Rightarrow> ValidatedExactOverwrite \<Rightarrow> RecorderObservationKindV1
     \<Rightarrow> VerifiedTechnicalResourceReservation list \<Rightarrow> ReconciliationOutcome" where
  "reconciliation_outcome X v k rs =
     (let label = (case k of Present \<Rightarrow> ''present'' | Absent \<Rightarrow> ''absent'' | _ \<Rightarrow> ''unknown'');
          evidence = evidence_value X v label ''independent_exact_target_inspection'';
          response_digest = digest_bytes X (canonical_json_bytes X evidence);
          actuals = (if k = Present then reservation_actuals X rs response_digest else [])
      in \<lparr>rx_kind = k, rx_response_digest = response_digest,
          rx_evidence_payload_digest =
            digest_bytes X (canonical_json_bytes X (evidence_with_actuals evidence actuals)),
          rx_remote_effect_id = (if k = Present then Some (remote_effect_id X v) else None),
          rx_technical_resource_actuals = actuals\<rparr>)"

subsection \<open>Invoking and reconciling\<close>

text \<open>Where the write of the replacement ends: everything succeeded, the seek failed, \<open>write_all\<close>
  failed after some bytes, \<open>set_len\<close> failed, \<open>sync_all\<close> failed, or all succeeded and reading the
  file back failed. The bytes in the file are those of the operating system's cache.\<close>

datatype overwrite_io = Overwritten | SeekFails | WriteFails nat | SetLenFails | SyncFails | ReadBackFails

definition overwrite_content :: "overwrite_io \<Rightarrow> bytes \<Rightarrow> bytes \<Rightarrow> bytes" where
  "overwrite_content io new old = (case io of
     SeekFails \<Rightarrow> old
   | WriteFails n \<Rightarrow> take n new @ drop (length (take n new)) old
   | SetLenFails \<Rightarrow> new @ drop (length new) old
   | _ \<Rightarrow> new)"

definition overwrite_file :: "overwrite_io \<Rightarrow> bytes \<Rightarrow> file_id \<Rightarrow> file_system \<Rightarrow> file_system" where
  "overwrite_file io new i F = F\<lparr>fs_content := (fs_content F)(i := overwrite_content io new (fs_content F i))\<rparr>"

definition invoke_exact_overwrite ::
    "externals \<Rightarrow> file_system \<Rightarrow> overwrite_io \<Rightarrow> ExecuteOnceV1
     \<Rightarrow> VerifiedTechnicalResourceReservation list \<Rightarrow> InvocationOutcome \<times> file_system" where
  "invoke_exact_overwrite X F io c rs =
     (if rs = [] then (definite_absent X c ''verified_reservation_set_missing'', F)
      else case validated_command X F c of
        Inl _ \<Rightarrow> (definite_absent X c ''invalid_exact_overwrite_material'', F)
      | Inr v \<Rightarrow>
          (case open_validated_target F v of
             Inl _ \<Rightarrow> (definite_absent X c ''exact_target_precondition_failed'', F)
           | Inr i \<Rightarrow>
               (case hash_open_file X F i of
                  Inl _ \<Rightarrow> (definite_absent X c ''exact_preimage_not_present'', F)
                | Inr digest \<Rightarrow>
                    if digest = xo_replacement_sha256 (vx_operand v) then (present_outcome X v rs, F)
                    else if digest \<noteq> xo_expected_preimage_sha256 (vx_operand v)
                    then (definite_absent X c ''exact_preimage_not_present'', F)
                    else
                      let F' = overwrite_file io (vx_replacement v) i F
                      in if io \<noteq> Overwritten \<and> io \<noteq> ReadBackFails
                         then (unknown_outcome X v ''ambiguous_post_write_failure'', F')
                         else case (if io = ReadBackFails then Inl io_error else hash_open_file X F' i) of
                           Inl _ \<Rightarrow> (unknown_outcome X v ''post_write_verification_failed'', F')
                         | Inr digest' \<Rightarrow>
                             if digest' = xo_replacement_sha256 (vx_operand v)
                             then (present_outcome X v rs, F')
                             else (unknown_outcome X v ''post_write_verification_failed'', F'))))"

definition reconcile_exact_overwrite ::
    "externals \<Rightarrow> file_system \<Rightarrow> string \<Rightarrow> VerifiedTechnicalResourceReservation list
     \<Rightarrow> string + ReconciliationOutcome" where
  "reconcile_exact_overwrite X F key rs =
     rbind (of_option ''invalid reconciliation key''
       (Option.bind (json_from_str X key) reconciliation_key_of_json)) (\<lambda>k.
     rbind (validate_key k) (\<lambda>_.
     let v = \<lparr>vx_operand = \<lparr>xo_contract_version = EXACT_OVERWRITE_OPERAND_CONTRACT,
           xo_target_path = xk_target_path k, xo_target_identity = xk_target_identity k,
           xo_expected_preimage_sha256 = xk_expected_preimage_sha256 k, xo_replacement_hex = [],
           xo_replacement_sha256 = xk_replacement_sha256 k\<rparr>,
         vx_replacement = [], vx_reconciliation_key = key\<rparr>;
       state = (case inspect_current X F v of Inl _ \<Rightarrow> UnknownState | Inr s \<Rightarrow> s);
       kind = (case state of Replacement \<Rightarrow> if rs \<noteq> [] then Present else Unknown
         | Original \<Rightarrow> Absent | UnknownState \<Rightarrow> Unknown)
     in Inr (reconciliation_outcome X v kind rs)))"

end
