(* ===== verification/StateVerifier.thy ===== *)
theory StateVerifier
  imports ExactOverwrite
begin

text \<open>
  The recorder's own reading of the authoritative state,
  \<^verbatim>\<open>crates/carsinos-effect-recorder/src/state_verifier.rs\<close>. The database is a record of the
  tables its read-only queries use, each a list of rows with the columns they name (a column that
  the schema lets be \<open>NULL\<close> is an option); a query is the list comprehension of its joins. What
  SQLite returns for one call is a snapshot of the tables or the error of opening or querying.
\<close>

datatype VerificationError = OpenFailed | QueryFailed | NotAuthoritative | Expired

subsection \<open>Tables\<close>

record provider_attempt_row =
  pa_attempt_id :: string
  pa_status :: string
  pa_attempt_number :: i64
  pa_delegation_id :: string
  pa_continuation_id :: string
  pa_action_id :: string
  pa_logical_effect_id :: string
  pa_claim_event_id :: string
  pa_claim_receipt_id :: string
  pa_fencing_token :: i64
  pa_host_generation :: i64
  pa_host_instance_id :: string
  pa_runtime_fencing_token :: i64
  pa_provider_request_digest :: string

record logical_effect_row =
  le_delegation_id :: string
  le_logical_effect_id :: string
  le_state :: string
  le_internal_idempotency_key :: string
  le_provider_identity :: "string option"
  le_provider_idempotency_key :: "string option"
  le_reconciliation_key :: "string option"
  le_manifest_digest :: string
  le_payload_digest :: string

record operation_history_row =
  oh_event_id :: string
  oh_operation :: string
  oh_claim_event_id :: string
  oh_claim_receipt_id :: string
  oh_continuation_id :: string
  oh_delegation_id :: string
  oh_action_id :: string
  oh_job_id :: string
  oh_worker_id :: string
  oh_job_lease_expires_at :: i64
  oh_continuation_fencing_token :: i64
  oh_runtime_host_generation :: i64
  oh_runtime_host_instance_id :: string
  oh_runtime_fencing_token :: i64
  oh_state_root_generation :: i64
  oh_global_stop_epoch :: i64
  oh_reservation_set_json :: string
  oh_reservation_set_digest :: string

record continuation_row =
  cr_delegation_id :: string
  cr_continuation_id :: string
  cr_status :: string
  cr_job_id :: "string option"
  cr_lease_owner :: "string option"
  cr_lease_expires_at :: "i64 option"
  cr_fencing_token :: i64
  cr_host_generation :: i64

record job_row =
  jb_job_id :: string
  jb_enabled :: i64
  jb_deleted_at :: "i64 option"
  jb_lease_owner :: "string option"
  jb_lease_expires_at :: "i64 option"
  jb_payload_mode :: "string option"

record host_generation_row =
  hg_generation :: i64
  hg_host_instance_id :: string
  hg_state_root_generation :: i64
  hg_installation_identity :: string
  hg_os_user_identity_digest :: string

record host_lease_row =
  hl_ownership_scope :: string
  hl_generation :: i64
  hl_host_instance_id :: string
  hl_fencing_token :: i64
  hl_released_at :: "i64 option"
  hl_expires_at :: i64

record authority_key_row =
  ak_status :: string
  ak_canonical_root_identity :: string
  ak_installation_identity :: string
  ak_os_user_identity_digest :: string
  ak_state_root_generation :: i64

record runtime_control_row =
  gc_singleton :: i64
  gc_engaged :: i64
  gc_global_stop_epoch :: i64

record StoredReservationIdentity =
  si_reservation_id :: string
  si_quota_snapshot_id :: string
  si_logical_effect_id :: string
  si_technical_resource_kind :: string
  si_unit :: string
  si_amount_reserved :: i64

record reservation_row = StoredReservationIdentity +
  rr_claim_event_id :: string
  rr_status :: string
  rr_delegation_id :: string
  rr_continuation_id :: string
  rr_claim_receipt_id :: string
  rr_continuation_fencing_token :: i64
  rr_runtime_host_generation :: i64
  rr_runtime_fencing_token :: i64
  rr_expires_at :: i64

record database =
  db_attempts :: "provider_attempt_row list"
  db_effects :: "logical_effect_row list"
  db_history :: "operation_history_row list"
  db_continuations :: "continuation_row list"
  db_jobs :: "job_row list"
  db_generations :: "host_generation_row list"
  db_leases :: "host_lease_row list"
  db_keys :: "authority_key_row list"
  db_control :: "runtime_control_row list"
  db_reservations :: "reservation_row list"

type_synonym snapshot = "VerificationError + database"

record VerifiedExecuteOnceAdmission =
  va_command :: ExecuteOnceV1
  va_reservations :: "VerifiedTechnicalResourceReservation list"

record AuthoritativeRecorderBinding =
  ab_canonical_root_identity :: string
  ab_installation_id :: string
  ab_state_root_generation :: i64
  ab_os_user_identity_digest :: string
  ab_runtime_host_generation :: i64
  ab_runtime_host_instance_id :: string
  ab_runtime_fencing_token :: i64

subsection \<open>The live host\<close>

definition later :: "i64 \<Rightarrow> i64 \<Rightarrow> bool" where "later a b \<longleftrightarrow> sint b < sint a"

definition live_lease :: "i64 \<Rightarrow> host_lease_row \<Rightarrow> bool" where
  "live_lease now l \<longleftrightarrow>
     hl_ownership_scope l = ''execass'' \<and> hl_released_at l = None \<and> later (hl_expires_at l) now"

definition same_root :: "authority_key_row \<Rightarrow> host_generation_row \<Rightarrow> bool" where
  "same_root k g \<longleftrightarrow> ak_status k = ''active''
     \<and> ak_installation_identity k = hg_installation_identity g
     \<and> ak_os_user_identity_digest k = hg_os_user_identity_digest g
     \<and> ak_state_root_generation k = hg_state_root_generation g"

text \<open>\<open>query_row\<close> takes the first row of the result.\<close>

definition load_authoritative_binding ::
    "snapshot \<Rightarrow> i64 \<Rightarrow> VerificationError + AuthoritativeRecorderBinding" where
  "load_authoritative_binding S now = rbind S (\<lambda>db.
     case [(l, g, k). l \<leftarrow> db_leases db, g \<leftarrow> db_generations db, k \<leftarrow> db_keys db,
           hg_generation g = hl_generation l \<and> hg_host_instance_id g = hl_host_instance_id l
           \<and> same_root k g \<and> live_lease now l] of
       [] \<Rightarrow> Inl NotAuthoritative
     | (l, g, k) # _ \<Rightarrow> Inr
         \<lparr>ab_canonical_root_identity = ak_canonical_root_identity k,
          ab_installation_id = hg_installation_identity g,
          ab_state_root_generation = hg_state_root_generation g,
          ab_os_user_identity_digest = hg_os_user_identity_digest g,
          ab_runtime_host_generation = hl_generation l,
          ab_runtime_host_instance_id = hl_host_instance_id l,
          ab_runtime_fencing_token = hl_fencing_token l\<rparr>)"

subsection \<open>The began attempt\<close>

text \<open>The conjuncts of the query that proves an attempt, table by table.\<close>

definition attempt_matches :: "ExecuteOnceV1 \<Rightarrow> provider_attempt_row \<Rightarrow> bool" where
  "attempt_matches c a \<longleftrightarrow>
     pa_attempt_id a = eo_attempt_id c \<and> pa_status a = ''invoking''
     \<and> pa_attempt_number a = eo_attempt_number c \<and> pa_delegation_id a = eo_delegation_id c
     \<and> pa_continuation_id a = eo_continuation_id c \<and> pa_action_id a = eo_action_id c
     \<and> pa_logical_effect_id a = eo_logical_effect_id c
     \<and> pa_claim_event_id a = eo_claim_event_id c \<and> pa_claim_receipt_id a = eo_claim_receipt_id c
     \<and> pa_fencing_token a = eo_continuation_fencing_token c
     \<and> pa_host_generation a = rb_runtime_host_generation (eo_binding c)
     \<and> pa_host_instance_id a = rb_runtime_host_instance_id (eo_binding c)
     \<and> pa_runtime_fencing_token a = rb_runtime_fencing_token (eo_binding c)
     \<and> pa_provider_request_digest a = eo_provider_request_digest c"

definition effect_matches :: "ExecuteOnceV1 \<Rightarrow> provider_attempt_row \<Rightarrow> logical_effect_row \<Rightarrow> bool" where
  "effect_matches c a e \<longleftrightarrow>
     le_delegation_id e = pa_delegation_id a \<and> le_logical_effect_id e = pa_logical_effect_id a
     \<and> le_state e = ''invoking'' \<and> le_internal_idempotency_key e = eo_internal_idempotency_key c
     \<and> le_provider_identity e = Some (eo_provider_identity c)
     \<and> le_provider_idempotency_key e = eo_provider_idempotency_key c
     \<and> le_reconciliation_key e = eo_reconciliation_key c
     \<and> le_manifest_digest e = eo_manifest_digest c \<and> le_payload_digest e = eo_payload_digest c"

definition claim_matches :: "ExecuteOnceV1 \<Rightarrow> provider_attempt_row \<Rightarrow> operation_history_row \<Rightarrow> bool" where
  "claim_matches c a h \<longleftrightarrow>
     oh_event_id h = pa_claim_event_id a \<and> oh_operation h = ''claim''
     \<and> oh_claim_event_id h = eo_claim_event_id c \<and> oh_claim_receipt_id h = eo_claim_receipt_id c
     \<and> oh_continuation_id h = eo_continuation_id c \<and> oh_delegation_id h = eo_delegation_id c
     \<and> oh_action_id h = eo_action_id c
     \<and> oh_continuation_fencing_token h = eo_continuation_fencing_token c
     \<and> oh_runtime_host_generation h = rb_runtime_host_generation (eo_binding c)
     \<and> oh_runtime_host_instance_id h = rb_runtime_host_instance_id (eo_binding c)
     \<and> oh_runtime_fencing_token h = rb_runtime_fencing_token (eo_binding c)
     \<and> oh_state_root_generation h = rb_state_root_generation (eo_binding c)"

definition leased :: "operation_history_row \<Rightarrow> i64 \<Rightarrow> string option \<Rightarrow> i64 option \<Rightarrow> bool" where
  "leased h now owner expires \<longleftrightarrow> owner = Some (oh_worker_id h)
     \<and> expires = Some (oh_job_lease_expires_at h) \<and> later (oh_job_lease_expires_at h) now"

definition continuation_matches ::
    "ExecuteOnceV1 \<Rightarrow> i64 \<Rightarrow> provider_attempt_row \<Rightarrow> operation_history_row \<Rightarrow> continuation_row \<Rightarrow> bool" where
  "continuation_matches c now a h r \<longleftrightarrow>
     cr_delegation_id r = pa_delegation_id a \<and> cr_continuation_id r = pa_continuation_id a
     \<and> cr_status r = ''executing'' \<and> cr_job_id r = Some (oh_job_id h)
     \<and> leased h now (cr_lease_owner r) (cr_lease_expires_at r)
     \<and> cr_fencing_token r = eo_continuation_fencing_token c
     \<and> cr_host_generation r = rb_runtime_host_generation (eo_binding c)"

definition job_matches :: "i64 \<Rightarrow> operation_history_row \<Rightarrow> job_row \<Rightarrow> bool" where
  "job_matches now h j \<longleftrightarrow>
     jb_job_id j = oh_job_id h \<and> jb_enabled j = 1 \<and> jb_deleted_at j = None
     \<and> leased h now (jb_lease_owner j) (jb_lease_expires_at j)
     \<and> jb_payload_mode j = Some ''execass.continuation''"

definition host_matches ::
    "ExecuteOnceV1 \<Rightarrow> i64 \<Rightarrow> provider_attempt_row \<Rightarrow> host_generation_row \<Rightarrow> host_lease_row
     \<Rightarrow> authority_key_row \<Rightarrow> bool" where
  "host_matches c now a g l k \<longleftrightarrow>
     hg_generation g = pa_host_generation a \<and> hg_host_instance_id g = pa_host_instance_id a
     \<and> hl_generation l = pa_host_generation a \<and> hl_host_instance_id l = pa_host_instance_id a
     \<and> hl_fencing_token l = pa_runtime_fencing_token a \<and> live_lease now l
     \<and> hg_state_root_generation g = rb_state_root_generation (eo_binding c)
     \<and> hg_installation_identity g = rb_installation_id (eo_binding c)
     \<and> hg_os_user_identity_digest g = rb_os_user_identity_digest (eo_binding c)
     \<and> ak_status k = ''active''
     \<and> ak_canonical_root_identity k = rb_canonical_root_identity (eo_binding c)
     \<and> ak_installation_identity k = rb_installation_id (eo_binding c)
     \<and> ak_os_user_identity_digest k = rb_os_user_identity_digest (eo_binding c)
     \<and> ak_state_root_generation k = rb_state_root_generation (eo_binding c)"

definition not_stopped :: "operation_history_row \<Rightarrow> runtime_control_row \<Rightarrow> bool" where
  "not_stopped h g \<longleftrightarrow> gc_singleton g = 1 \<and> gc_engaged g = 0
     \<and> gc_global_stop_epoch g = oh_global_stop_epoch h"

definition attempt_proven :: "database \<Rightarrow> ExecuteOnceV1 \<Rightarrow> i64 \<Rightarrow> bool" where
  "attempt_proven db c now \<longleftrightarrow>
     list_ex (\<lambda>a. attempt_matches c a
       \<and> list_ex (effect_matches c a) (db_effects db)
       \<and> list_ex (\<lambda>h. claim_matches c a h
           \<and> list_ex (continuation_matches c now a h) (db_continuations db)
           \<and> list_ex (job_matches now h) (db_jobs db)
           \<and> list_ex (not_stopped h) (db_control db)) (db_history db)
       \<and> list_ex (\<lambda>g. list_ex (\<lambda>l. list_ex (host_matches c now a g l) (db_keys db)) (db_leases db))
           (db_generations db)) (db_attempts db)"

subsection \<open>Reservations\<close>

definition reservation_json :: "'a StoredReservationIdentity_scheme \<Rightarrow> json" where
  "reservation_json r = JObject
     [(''reservation_id'', JString (si_reservation_id r)),
      (''quota_snapshot_id'', JString (si_quota_snapshot_id r)),
      (''logical_effect_id'', JString (si_logical_effect_id r)),
      (''technical_resource_kind'', JString (si_technical_resource_kind r)),
      (''unit'', JString (si_unit r)), (''amount_reserved'', json_i64 (si_amount_reserved r))]"

definition reservation_keys :: "string list" where
  "reservation_keys = [''reservation_id'', ''quota_snapshot_id'', ''logical_effect_id'',
     ''technical_resource_kind'', ''unit'', ''amount_reserved'']"

definition reservation_of_json :: "json \<Rightarrow> StoredReservationIdentity option" where
  "reservation_of_json v = (case v of
     JObject ms \<Rightarrow>
       if \<not> closed_object reservation_keys ms then None
       else
       Option.bind (required ms ''reservation_id'' as_string) (\<lambda>a0.
       Option.bind (required ms ''quota_snapshot_id'' as_string) (\<lambda>a1.
       Option.bind (required ms ''logical_effect_id'' as_string) (\<lambda>a2.
       Option.bind (required ms ''technical_resource_kind'' as_string) (\<lambda>a3.
       Option.bind (required ms ''unit'' as_string) (\<lambda>a4.
       Option.bind (required ms ''amount_reserved'' as_i64) (\<lambda>a5.
         Some \<lparr>si_reservation_id = a0, si_quota_snapshot_id = a1, si_logical_effect_id = a2,
           si_technical_resource_kind = a3, si_unit = a4, si_amount_reserved = a5\<rparr>))))))
   | _ \<Rightarrow> None)"

record ReservationQueryIdentity =
  rq_claim_event_id :: string
  rq_claim_receipt_id :: string
  rq_delegation_id :: string
  rq_continuation_id :: string
  rq_logical_effect_id :: string
  rq_continuation_fencing_token :: i64
  rq_runtime_host_generation :: i64
  rq_runtime_fencing_token :: i64

definition reservation_set_digest :: "externals \<Rightarrow> bytes \<Rightarrow> string" where
  "reservation_set_digest X canonical_json = ''sha256:'' @ sha256_hex X
     (''carsinos.execass.technical-resource.reservation-set.v1'' @ NUL # canonical_json)"

definition reservation_drifted ::
    "ReservationQueryIdentity \<Rightarrow> i64 \<Rightarrow> bool \<Rightarrow> reservation_row \<Rightarrow> bool" where
  "reservation_drifted q now require_live r \<longleftrightarrow>
     si_logical_effect_id r \<noteq> rq_logical_effect_id q \<or> rr_delegation_id r \<noteq> rq_delegation_id q
     \<or> rr_continuation_id r \<noteq> rq_continuation_id q \<or> rr_claim_receipt_id r \<noteq> rq_claim_receipt_id q
     \<or> rr_continuation_fencing_token r \<noteq> rq_continuation_fencing_token q
     \<or> rr_runtime_host_generation r \<noteq> rq_runtime_host_generation q
     \<or> rr_runtime_fencing_token r \<noteq> rq_runtime_fencing_token q
     \<or> (require_live \<and> (rr_status r \<noteq> ''reserved'' \<or> \<not> later (rr_expires_at r) now))
     \<or> (\<not> require_live \<and> rr_status r \<noteq> ''reserved'' \<and> rr_status r \<noteq> ''reconciliation_required'')"

definition load_verified_reservations_for_identity ::
    "externals \<Rightarrow> database \<Rightarrow> ReservationQueryIdentity \<Rightarrow> i64 \<Rightarrow> string \<Rightarrow> string \<Rightarrow> bool \<Rightarrow> bool
     \<Rightarrow> VerificationError + VerifiedTechnicalResourceReservation list" where
  "load_verified_reservations_for_identity X db q now stored_json stored_digest require_live
       require_nonempty =
     rbind (of_option NotAuthoritative
       (Option.bind (json_from_str X stored_json) (as_array reservation_of_json))) (\<lambda>stored.
     let rows = sort_key (\<lambda>r. (si_technical_resource_kind r, si_unit r))
           (filter (\<lambda>r. rr_claim_event_id r = rq_claim_event_id q) (db_reservations db));
         current = map StoredReservationIdentity.truncate rows;
         canonical = json_to_string X (JArray (map reservation_json current))
     in if (require_nonempty \<and> stored = []) \<or> stored \<noteq> current \<or> canonical \<noteq> stored_json
           \<or> reservation_set_digest X canonical \<noteq> stored_digest
           \<or> list_ex (reservation_drifted q now require_live) rows
        then Inl NotAuthoritative
        else Inr (map (\<lambda>r. \<lparr>vr_reservation_id = si_reservation_id r,
                            vr_amount_reserved = si_amount_reserved r\<rparr>) current))"

definition load_verified_reservations ::
    "externals \<Rightarrow> database \<Rightarrow> ExecuteOnceV1 \<Rightarrow> i64 \<Rightarrow> string \<Rightarrow> string \<Rightarrow> bool \<Rightarrow> bool
     \<Rightarrow> VerificationError + VerifiedTechnicalResourceReservation list" where
  "load_verified_reservations X db c now stored_json stored_digest require_live require_nonempty =
     load_verified_reservations_for_identity X db
       \<lparr>rq_claim_event_id = eo_claim_event_id c, rq_claim_receipt_id = eo_claim_receipt_id c,
        rq_delegation_id = eo_delegation_id c, rq_continuation_id = eo_continuation_id c,
        rq_logical_effect_id = eo_logical_effect_id c,
        rq_continuation_fencing_token = eo_continuation_fencing_token c,
        rq_runtime_host_generation = rb_runtime_host_generation (eo_binding c),
        rq_runtime_fencing_token = rb_runtime_fencing_token (eo_binding c)\<rparr>
       now stored_json stored_digest require_live require_nonempty"

subsection \<open>Admission and reconciliation\<close>

definition claim_reservations :: "ExecuteOnceV1 \<Rightarrow> operation_history_row \<Rightarrow> bool" where
  "claim_reservations c h \<longleftrightarrow>
     oh_event_id h = eo_claim_event_id c \<and> oh_operation h = ''claim''
     \<and> oh_claim_event_id h = eo_claim_event_id c \<and> oh_claim_receipt_id h = eo_claim_receipt_id c
     \<and> oh_delegation_id h = eo_delegation_id c \<and> oh_continuation_id h = eo_continuation_id c
     \<and> oh_continuation_fencing_token h = eo_continuation_fencing_token c
     \<and> oh_runtime_host_generation h = rb_runtime_host_generation (eo_binding c)
     \<and> oh_runtime_fencing_token h = rb_runtime_fencing_token (eo_binding c)"

definition verify ::
    "externals \<Rightarrow> snapshot \<Rightarrow> ExecuteOnceV1 \<Rightarrow> i64 \<Rightarrow> VerificationError + VerifiedExecuteOnceAdmission" where
  "verify X S c now =
     (if \<not> later (eo_deadline_ms c) now then Inl Expired
      else if derived_provider_request_digest X c \<noteq> eo_provider_request_digest c
      then Inl NotAuthoritative
      else rbind S (\<lambda>db.
        if \<not> attempt_proven db c now then Inl NotAuthoritative
        else rbind
          (if eo_provider_identity c = exact_overwrite_provider
           then rbind (of_option NotAuthoritative (find (claim_reservations c) (db_history db))) (\<lambda>h.
             load_verified_reservations X db c now (oh_reservation_set_json h)
               (oh_reservation_set_digest h) True True)
           else Inr [])
          (\<lambda>reservations. Inr \<lparr>va_command = c, va_reservations = reservations\<rparr>)))"

definition history_of_attempt ::
    "string \<Rightarrow> string \<Rightarrow> string \<Rightarrow> provider_attempt_row \<times> operation_history_row \<Rightarrow> bool" where
  "history_of_attempt attempt_id logical_effect_id request_digest p \<longleftrightarrow>
     (let (a, h) = p
      in pa_attempt_id a = attempt_id \<and> pa_logical_effect_id a = logical_effect_id
         \<and> pa_provider_request_digest a = request_digest
         \<and> oh_event_id h = pa_claim_event_id a \<and> oh_operation h = ''claim''
         \<and> oh_claim_event_id h = pa_claim_event_id a \<and> oh_claim_receipt_id h = pa_claim_receipt_id a
         \<and> oh_delegation_id h = pa_delegation_id a \<and> oh_continuation_id h = pa_continuation_id a
         \<and> oh_continuation_fencing_token h = pa_fencing_token a
         \<and> oh_runtime_host_generation h = pa_host_generation a
         \<and> oh_runtime_fencing_token h = pa_runtime_fencing_token a)"

definition verify_reconciliation_reservations ::
    "externals \<Rightarrow> snapshot \<Rightarrow> string \<Rightarrow> string \<Rightarrow> string \<Rightarrow> i64
     \<Rightarrow> VerificationError + VerifiedTechnicalResourceReservation list" where
  "verify_reconciliation_reservations X S attempt_id logical_effect_id request_digest now =
     rbind S (\<lambda>db.
     rbind (of_option NotAuthoritative
       (find (history_of_attempt attempt_id logical_effect_id request_digest)
         (List.product (db_attempts db) (db_history db)))) (\<lambda>(a, h).
     load_verified_reservations_for_identity X db
       \<lparr>rq_claim_event_id = pa_claim_event_id a, rq_claim_receipt_id = pa_claim_receipt_id a,
        rq_delegation_id = pa_delegation_id a, rq_continuation_id = pa_continuation_id a,
        rq_logical_effect_id = logical_effect_id,
        rq_continuation_fencing_token = pa_fencing_token a,
        rq_runtime_host_generation = pa_host_generation a,
        rq_runtime_fencing_token = pa_runtime_fencing_token a\<rparr>
       now (oh_reservation_set_json h) (oh_reservation_set_digest h) False True))"

end
