(* ===== verification/RecorderService.thy ===== *)
theory RecorderService
  imports Journal StateVerifier
begin

text \<open>
  The recorder's service, \<^verbatim>\<open>crates/carsinos-effect-recorder/src/service.rs\<close>, over its journal,
  the verifier of the authoritative state and the fixed executor of
  \<^verbatim>\<open>crates/carsinos-effect-recorder/src/executor.rs\<close>. A request runs under the journal's lock
  except for the invocation of the provider, so \<open>ExecuteOnce\<close> is two steps on the journal with
  the executor between them. Failpoints and the fake provider exist in test builds only.
\<close>

datatype ServiceError =
    AuthenticationFailed | UnsupportedAdapter | InvalidReconciliation
  | Verification VerificationError | JournalFailed JournalError

fun error_code :: "ServiceError \<Rightarrow> string" where
  "error_code AuthenticationFailed = ''authentication_failed''"
| "error_code UnsupportedAdapter = ''adapter_not_installed''"
| "error_code InvalidReconciliation = ''reconciliation_identity_mismatch''"
| "error_code (Verification Expired) = ''deadline_expired''"
| "error_code (Verification _) = ''began_not_proven''"
| "error_code (JournalFailed CommandConflict) = ''command_conflict''"
| "error_code (JournalFailed _) = ''journal_failed''"

text \<open>The recorder: its environment, the key of its channel and HMAC-SHA-256.\<close>

record recorder_service =
  rs_env :: recorder_env
  rs_mac :: "bytes \<Rightarrow> bytes \<Rightarrow> bytes"
  rs_channel_key :: bytes

abbreviation rs_ext :: "recorder_service \<Rightarrow> externals" where
  "rs_ext R \<equiv> je_ext (rs_env R)"

subsection \<open>The fixed executor\<close>

definition supports :: "recorder_service \<Rightarrow> file_system \<Rightarrow> ExecuteOnceV1 \<Rightarrow> bool" where
  "supports R F c = supports_exact_overwrite (rs_ext R) F c"

definition invoke ::
    "recorder_service \<Rightarrow> overwrite_io \<Rightarrow> VerifiedExecuteOnceAdmission \<Rightarrow> file_system
     \<Rightarrow> InvocationOutcome \<times> file_system" where
  "invoke R io a F = invoke_exact_overwrite (rs_ext R) F io (va_command a) (va_reservations a)"

definition executor_reconcile ::
    "recorder_service \<Rightarrow> file_system \<Rightarrow> ReconcileV1 \<Rightarrow> string \<Rightarrow> string
     \<Rightarrow> VerifiedTechnicalResourceReservation list \<Rightarrow> string + ReconciliationOutcome" where
  "executor_reconcile R F r provider_identity provider_version reservations =
     (if provider_identity \<noteq> exact_overwrite_provider
         \<or> provider_version \<noteq> EXACT_OVERWRITE_PROVIDER_VERSION
      then Inl ''journal identity is not supported by the fixed adapter''
      else reconcile_exact_overwrite (rs_ext R) F (rc_reconciliation_key r) reservations)"

subsection \<open>Handshake\<close>

definition handshake ::
    "recorder_service \<Rightarrow> snapshot \<Rightarrow> i64 \<Rightarrow> RecorderHandshakeChallengeV1 \<Rightarrow> string
     \<Rightarrow> ServiceError + RecorderHandshakeAttestationV1" where
  "handshake R S now challenge server_nonce =
     (if hc_handshake_version challenge \<noteq> RECORDER_HANDSHAKE_VERSION \<or> hc_client_nonce challenge = []
      then Inl AuthenticationFailed
      else case load_authoritative_binding S now of
        Inl e \<Rightarrow> Inl (Verification e)
      | Inr a \<Rightarrow>
          (let binding = \<lparr>rb_protocol_version = RECORDER_PROTOCOL_VERSION,
                 rb_canonical_root_identity = ab_canonical_root_identity a,
                 rb_installation_id = ab_installation_id a,
                 rb_state_root_generation = ab_state_root_generation a,
                 rb_os_user_identity_digest = ab_os_user_identity_digest a,
                 rb_runtime_host_generation = ab_runtime_host_generation a,
                 rb_runtime_host_instance_id = ab_runtime_host_instance_id a,
                 rb_runtime_fencing_token = ab_runtime_fencing_token a\<rparr>
           in if hc_binding challenge \<noteq> binding then Inl AuthenticationFailed
              else Inr (sign_handshake (rs_env R) challenge binding server_nonce)))"

subsection \<open>QueryOnly\<close>

definition reply_record :: "string \<Rightarrow> bool \<Rightarrow> JournalRecordV1 \<Rightarrow> RecorderReplyV1" where
  "reply_record rid replayed r = Observation rid replayed (observation_of_record r)"

definition handle_query :: "Journal \<Rightarrow> QueryOnlyV1 \<Rightarrow> ServiceError + RecorderReplyV1" where
  "handle_query j q =
     (case query (rb_installation_id (qo_binding q), rb_state_root_generation (qo_binding q),
             qo_attempt_id q) (qo_expected_command_digest q) j of
        Inl e \<Rightarrow> Inl (JournalFailed e)
      | Inr (Some r) \<Rightarrow> Inr (reply_record (qo_request_id q) True r)
      | Inr None \<Rightarrow> Inr (NotFound (qo_request_id q)))"

subsection \<open>Reconcile\<close>

definition text_digest :: "recorder_service \<Rightarrow> string \<Rightarrow> string" where
  "text_digest R s = ''sha256:'' @ sha256_hex (rs_ext R) s"

definition basis_payload :: "recorder_service \<Rightarrow> string \<Rightarrow> string \<Rightarrow> string" where
  "basis_payload R attempt_id basis = json_to_string (rs_ext R) (JObject
     [(''attempt_id'', JString attempt_id), (''basis'', JString basis),
      (''technical_resource_actuals'', JArray [])])"

definition accepted_without_start :: "recorder_service \<Rightarrow> ReconcileV1 \<Rightarrow> ReconciliationOutcome" where
  "accepted_without_start R r = \<lparr>rx_kind = Absent,
     rx_response_digest = text_digest R ''accepted-without-invocation-started'',
     rx_evidence_payload_digest = text_digest R
       (basis_payload R (rc_attempt_id r) ''accepted_without_invocation_started''),
     rx_remote_effect_id = None, rx_technical_resource_actuals = []\<rparr>"

definition inconclusive :: "recorder_service \<Rightarrow> ReconcileV1 \<Rightarrow> ReconciliationOutcome" where
  "inconclusive R r = \<lparr>rx_kind = Unknown,
     rx_response_digest = text_digest R ''inconclusive-provider-query'',
     rx_evidence_payload_digest = text_digest R
       (basis_payload R (rc_attempt_id r) ''inconclusive_provider_query''),
     rx_remote_effect_id = None, rx_technical_resource_actuals = []\<rparr>"

definition reconcile_key :: "ReconcileV1 \<Rightarrow> attempt_key" where
  "reconcile_key r = (rb_installation_id (rc_binding r), rb_state_root_generation (rc_binding r),
     rc_attempt_id r)"

definition reconcile_identity_ok :: "ReconcileV1 \<Rightarrow> JournalRecordV1 \<Rightarrow> bool" where
  "reconcile_identity_ok r prior \<longleftrightarrow>
     ob_canonical_root_identity prior = rb_canonical_root_identity (rc_binding r)
     \<and> ob_os_user_identity_digest prior = rb_os_user_identity_digest (rc_binding r)
     \<and> ob_reconciliation_key_digest prior = Some (rc_reconciliation_key_digest r)"

definition already_reconciled :: "ReconcileV1 \<Rightarrow> JournalRecordV1 \<Rightarrow> bool" where
  "already_reconciled r prior \<longleftrightarrow>
     (ob_source prior = Reconciliation
       \<and> (ob_kind prior \<in> {Present, Absent}
          \<or> (ob_reconciliation_window_start_ms prior = Some (rc_consistency_window_start_ms r)
             \<and> ob_reconciliation_window_end_ms prior = Some (rc_consistency_window_end_ms r))))
     \<or> (ob_source prior = Execution \<and> ob_kind prior \<in> {Present, Absent})"

definition exact_reservations ::
    "recorder_service \<Rightarrow> snapshot \<Rightarrow> i64 \<Rightarrow> JournalRecordV1
     \<Rightarrow> VerificationError + VerifiedTechnicalResourceReservation list" where
  "exact_reservations R S now prior =
     (if ob_provider_identity prior = exact_overwrite_provider
      then verify_reconciliation_reservations (rs_ext R) S (ob_attempt_id prior)
        (ob_logical_effect_id prior) (ob_provider_request_digest prior) now
      else Inr [])"

definition reconcile_outcome ::
    "recorder_service \<Rightarrow> file_system \<Rightarrow> ReconcileV1 \<Rightarrow> JournalRecordV1
     \<Rightarrow> VerifiedTechnicalResourceReservation list \<Rightarrow> ReconciliationOutcome" where
  "reconcile_outcome R F r prior reservations =
     (if ob_kind prior = Accepted then accepted_without_start R r
      else case executor_reconcile R F r (ob_provider_identity prior) (ob_provider_version prior)
             reservations of
        Inr out \<Rightarrow> out
      | Inl _ \<Rightarrow> inconclusive R r)"

text \<open>\<open>observed_at\<close> is the second reading of the clock, \<open>io\<close> the fate of the append.\<close>

definition handle_reconcile ::
    "recorder_service \<Rightarrow> append_io \<Rightarrow> file_system \<Rightarrow> snapshot \<Rightarrow> i64 \<Rightarrow> i64 \<Rightarrow> ReconcileV1 \<Rightarrow> Journal
     \<Rightarrow> (ServiceError + RecorderReplyV1) \<times> Journal" where
  "handle_reconcile R io F S now observed_at r j =
     (if later (rc_consistency_window_end_ms r) now then (Inl InvalidReconciliation, j)
      else case query (reconcile_key r) (Some (rc_expected_command_digest r)) j of
        Inl e \<Rightarrow> (Inl (JournalFailed e), j)
      | Inr None \<Rightarrow> (Inr (NotFound (rc_request_id r)), j)
      | Inr (Some prior) \<Rightarrow>
          if \<not> reconcile_identity_ok r prior then (Inl InvalidReconciliation, j)
          else if already_reconciled r prior
          then (Inr (reply_record (rc_request_id r) True prior), j)
          else case exact_reservations R S now prior of
            Inl e \<Rightarrow> (Inl (Verification e), j)
          | Inr reservations \<Rightarrow>
              (let out = reconcile_outcome R F r prior reservations
               in case record_reconciliation (rs_env R) io (reconcile_key r)
                    (rc_expected_command_digest r) (rx_kind out) (rx_response_digest out)
                    (rx_evidence_payload_digest out) (rx_remote_effect_id out)
                    (rx_technical_resource_actuals out) (rc_consistency_window_start_ms r)
                    (rc_consistency_window_end_ms r) observed_at j of
                 (Inl e, j') \<Rightarrow> (Inl (JournalFailed e), j')
               | (Inr observation, j') \<Rightarrow> (Inr (reply_record (rc_request_id r) False observation), j')))"

subsection \<open>ExecuteOnce\<close>

text \<open>The first critical section ends with a reply or with the admission to invoke.\<close>

datatype execute_step = ReplyNow RecorderReplyV1 | InvokeProvider VerifiedExecuteOnceAdmission

definition execute_admit ::
    "recorder_service \<Rightarrow> append_io \<Rightarrow> append_io \<Rightarrow> file_system \<Rightarrow> snapshot \<Rightarrow> i64 \<Rightarrow> i64 \<Rightarrow> ExecuteOnceV1
     \<Rightarrow> Journal \<Rightarrow> (ServiceError + execute_step) \<times> Journal" where
  "execute_admit R io io' F S now started_at c j =
     (if \<not> supports R F c then (Inl UnsupportedAdapter, j)
      else case execution_state (rs_env R) c j of
        Inl e \<Rightarrow> (Inl (JournalFailed e), j)
      | Inr (ReplayState existing) \<Rightarrow>
          (Inr (ReplyNow (reply_record (eo_request_id c) True existing)), j)
      | Inr RequiresLiveVerification \<Rightarrow>
          (case verify (rs_ext R) S c now of
             Inl e \<Rightarrow> (Inl (Verification e), j)
           | Inr admission \<Rightarrow>
               (case admit_verified_execution (rs_env R) io io' c now started_at j of
                  (Inl e, j') \<Rightarrow> (Inl (JournalFailed e), j')
                | (Inr FreshStarted, j') \<Rightarrow> (Inr (InvokeProvider admission), j')
                | (Inr (Replay existing), j') \<Rightarrow>
                    (Inr (ReplyNow (reply_record (eo_request_id c) True existing)), j'))))"

text \<open>The second critical section records what the executor reported.\<close>

definition execute_finish ::
    "recorder_service \<Rightarrow> append_io \<Rightarrow> ExecuteOnceV1 \<Rightarrow> InvocationOutcome \<Rightarrow> i64 \<Rightarrow> Journal
     \<Rightarrow> (ServiceError + RecorderReplyV1) \<times> Journal" where
  "execute_finish R io c out observed_at j =
     (case record_terminal (rs_env R) io c (io_kind out) (io_response_digest out)
             (io_evidence_payload_digest out) (io_remote_effect_id out) (io_provider_error_class out)
             (io_technical_resource_actuals out) observed_at j of
        (Inl e, j') \<Rightarrow> (Inl (JournalFailed e), j')
      | (Inr terminal, j') \<Rightarrow> (Inr (reply_record (eo_request_id c) False terminal), j'))"

subsection \<open>One request\<close>

text \<open>What the outside world does during one request that nothing interleaves with: the database,
  three readings of the clock, the fate of up to three appends and of the overwrite.\<close>

record request_world =
  w_snapshot :: snapshot
  w_now :: i64
  w_started_at :: i64
  w_observed_at :: i64
  w_first_append :: append_io
  w_second_append :: append_io
  w_third_append :: append_io
  w_overwrite :: overwrite_io

definition handle_execute ::
    "recorder_service \<Rightarrow> request_world \<Rightarrow> ExecuteOnceV1 \<Rightarrow> Journal \<Rightarrow> file_system
     \<Rightarrow> (ServiceError + RecorderReplyV1) \<times> Journal \<times> file_system" where
  "handle_execute R w c j F =
     (case execute_admit R (w_first_append w) (w_second_append w) F (w_snapshot w) (w_now w)
             (w_started_at w) c j of
        (Inl e, j') \<Rightarrow> (Inl e, j', F)
      | (Inr (ReplyNow reply), j') \<Rightarrow> (Inr reply, j', F)
      | (Inr (InvokeProvider admission), j') \<Rightarrow>
          (let (out, F') = invoke R (w_overwrite w) admission F;
               (reply, j'') = execute_finish R (w_third_append w) c out (w_observed_at w) j'
           in (reply, j'', F')))"

definition handle_inner ::
    "recorder_service \<Rightarrow> request_world \<Rightarrow> RecorderRequestV1 \<Rightarrow> Journal \<Rightarrow> file_system
     \<Rightarrow> (ServiceError + RecorderReplyV1) \<times> Journal \<times> file_system" where
  "handle_inner R w request j F =
     (if \<not> authenticate_request (rs_ext R) (rs_mac R) (rs_channel_key R) request
      then (Inl AuthenticationFailed, j, F)
      else case request of
        QueryOnly q \<Rightarrow> (handle_query j q, j, F)
      | Reconcile r \<Rightarrow>
          (let (reply, j') = handle_reconcile R (w_first_append w) F (w_snapshot w) (w_now w)
                 (w_observed_at w) r j
           in (reply, j', F))
      | ExecuteOnce c \<Rightarrow> handle_execute R w c j F)"

definition to_reply :: "string \<Rightarrow> ServiceError + RecorderReplyV1 \<Rightarrow> RecorderReplyV1" where
  "to_reply rid result = (case result of
     Inr reply \<Rightarrow> reply | Inl e \<Rightarrow> Rejected rid (error_code e))"

definition handle ::
    "recorder_service \<Rightarrow> request_world \<Rightarrow> RecorderRequestV1 \<Rightarrow> Journal \<Rightarrow> file_system
     \<Rightarrow> RecorderReplyV1 \<times> Journal \<times> file_system" where
  "handle R w request j F =
     (let (result, j', F') = handle_inner R w request j F
      in (to_reply (request_id request) result, j', F'))"

end
