(* ===== verification/JournalSafety.thy ===== *)
theory JournalSafety
  imports Journal
begin

text \<open>
  Correctness of the recorder's journal. The history of an attempt follows a small life cycle, the
  file is the concatenation of the frames of the records in memory, and opening a file replays
  it; from these invariants of every reachable state follow crash atomicity and that no attempt is
  ever permitted to run twice.
\<close>

subsection \<open>What the recorder relies on\<close>

text \<open>Documented of SHA-256, \<open>serde_json\<close> and Ed25519: digests have 32 bytes, a written record is
  read back, signatures have 64 bytes and verify under the identity's key.\<close>

definition sound_env :: "recorder_env \<Rightarrow> bool" where
  "sound_env E \<longleftrightarrow>
     (\<forall>b. length (sha256 (je_ext E) b) = 32)
     \<and> (\<forall>r. json_roundtrip (je_ext E) (journal_record_json r))
     \<and> (\<forall>m. length (je_sign E m) = 64)
     \<and> (case hex_decode 32 (je_verifying_key_hex E) of
          None \<Rightarrow> False
        | Some vk \<Rightarrow> je_verifying_key_valid E vk \<and> (\<forall>m. je_verify E vk m (je_sign E m)))"

lemma sound_envD:
  assumes "sound_env E"
  shows "length (sha256 (je_ext E) b) = 32" and "record_from_slice E (record_to_vec E r) = Some r"
    and "length (je_sign E m) = 64"
  using assms by (simp_all add: sound_env_def json_roundtrip_def record_from_slice_def
      record_to_vec_def record_roundtrip)

subsection \<open>Histories\<close>

definition history :: "attempt_key \<Rightarrow> JournalRecordV1 list \<Rightarrow> JournalRecordV1 list" where
  "history key rs = filter (\<lambda>r. record_key r = key) rs"

definition positions :: "attempt_key \<Rightarrow> JournalRecordV1 list \<Rightarrow> nat list" where
  "positions key rs = filter (\<lambda>i. record_key (rs ! i) = key) [0..<length rs]"

lemma history_simps [simp]:
  "history key [] = []"
  "history key (rs @ [r]) = history key rs @ (if record_key r = key then [r] else [])"
  by (simp_all add: history_def)

lemma positions_simps [simp]:
  "positions key [] = []"
  "positions key (rs @ [r]) = positions key rs @ (if record_key r = key then [length rs] else [])"
proof -
  have "filter (\<lambda>i. record_key ((rs @ [r]) ! i) = key) [0..<length rs] = positions key rs"
    unfolding positions_def by (rule filter_cong) (simp_all add: nth_append)
  then show "positions key (rs @ [r])
      = positions key rs @ (if record_key r = key then [length rs] else [])"
    by (simp add: positions_def)
qed (simp add: positions_def)

lemma map_positions: "map (\<lambda>i. rs ! i) (positions key rs) = history key rs"
proof (induction rs rule: rev_induct)
  case (snoc r rs)
  have "map (\<lambda>i. (rs @ [r]) ! i) (positions key rs) = map (\<lambda>i. rs ! i) (positions key rs)"
    by (rule map_cong) (auto simp: positions_def nth_append)
  with snoc show ?case by simp
qed simp

lemma positions_Nil: "positions key rs = [] \<longleftrightarrow> history key rs = []"
  by (metis map_is_Nil_conv map_positions)

text \<open>The index lists, for every attempt with records, their positions in order.\<close>

definition index_ok :: "Journal \<Rightarrow> bool" where
  "index_ok j \<longleftrightarrow> j_by_attempt j = (\<lambda>key.
     if history key (j_records j) = [] then None else Some (positions key (j_records j)))"

text \<open>Every attempt begins with its accepted record and keeps one command digest.\<close>

definition first_ok :: "JournalRecordV1 list \<Rightarrow> bool" where
  "first_ok rs \<longleftrightarrow> (\<forall>key. list_all (\<lambda>r. ob_command_digest r = ob_command_digest (hd (history key rs)))
       (history key rs)
     \<and> (history key rs \<noteq> [] \<longrightarrow> ob_kind (hd (history key rs)) = Accepted))"

lemma index_ok_cases:
  assumes "index_ok j"
  shows "j_by_attempt j key = (if history key (j_records j) = [] then None
      else Some (positions key (j_records j)))"
    and "history key (j_records j) \<noteq> [] \<Longrightarrow>
      j_records j ! hd (positions key (j_records j)) = hd (history key (j_records j))"
    and "history key (j_records j) \<noteq> [] \<Longrightarrow>
      j_records j ! last (positions key (j_records j)) = last (history key (j_records j))"
proof -
  show "j_by_attempt j key = (if history key (j_records j) = [] then None
      else Some (positions key (j_records j)))"
    using assms by (simp add: index_ok_def)
  assume "history key (j_records j) \<noteq> []"
  then have ne: "positions key (j_records j) \<noteq> []" by (simp add: positions_Nil)
  note m = map_positions [where key = key and rs = "j_records j", symmetric]
  show "j_records j ! hd (positions key (j_records j)) = hd (history key (j_records j))"
    unfolding m using ne by (simp add: hd_map)
  show "j_records j ! last (positions key (j_records j)) = last (history key (j_records j))"
    unfolding m using ne by (simp add: last_map)
qed

definition push_record :: "JournalRecordV1 \<Rightarrow> Journal \<Rightarrow> Journal" where
  "push_record r j = j\<lparr>j_records := j_records j @ [r],
     j_by_attempt := (j_by_attempt j)(record_key r \<mapsto> positions (record_key r) (j_records j @ [r]))\<rparr>"

lemma push_record_simps [simp]:
  "j_records (push_record r j) = j_records j @ [r]" "j_file (push_record r j) = j_file j"
  by (simp_all add: push_record_def)

lemma index_push: "index_ok j \<Longrightarrow> index_ok (push_record r j)"
  by (auto simp: index_ok_def push_record_def fun_eq_iff)

text \<open>Whether a record may follow the records of its attempt.\<close>

definition indexable :: "JournalRecordV1 \<Rightarrow> JournalRecordV1 list \<Rightarrow> bool" where
  "indexable r rs \<longleftrightarrow> (case history (record_key r) rs of
     [] \<Rightarrow> ob_kind r = Accepted | h # _ \<Rightarrow> ob_command_digest h = ob_command_digest r)"

lemma index_record_ok:
  assumes "index_ok j"
  shows "index_record r j = (if indexable r (j_records j) then (Inr (), push_record r j)
    else (Inl (if history (record_key r) (j_records j) = []
       then Corrupt ''attempt chain does not begin with Accepted'' else CommandConflict), j))"
proof (cases "history (record_key r) (j_records j)")
  case Nil
  then have "positions (record_key r) (j_records j) = []" by (simp add: positions_Nil)
  with Nil show ?thesis
    using index_ok_cases(1) [OF assms, of "record_key r"]
    by (simp add: index_record_def indexable_def push_record_def)
next
  case (Cons h t)
  then have "history (record_key r) (j_records j) \<noteq> []" by simp
  with Cons show ?thesis
    using index_ok_cases(1,2) [OF assms, of "record_key r"]
    by (simp add: index_record_def indexable_def push_record_def Let_def)
qed

lemma first_push: "first_ok rs \<Longrightarrow> indexable r rs \<Longrightarrow> first_ok (rs @ [r])"
  by (fastforce simp: first_ok_def indexable_def hd_append split: list.splits)

subsection \<open>Opening replays the records\<close>

definition replay_step :: "recorder_env \<Rightarrow> Journal \<Rightarrow> JournalRecordV1 \<Rightarrow> JournalError + Journal" where
  "replay_step E j r = rbind (verify_record E j r)
     (\<lambda>_. case index_record r j of (Inl e, _) \<Rightarrow> Inl e | (Inr _, j') \<Rightarrow> Inr j')"

definition frame_of :: "recorder_env \<Rightarrow> JournalRecordV1 \<Rightarrow> bytes" where
  "frame_of E r = frame_record E (record_to_vec E r)"

definition stored :: "recorder_env \<Rightarrow> JournalRecordV1 list \<Rightarrow> bytes" where
  "stored E rs = concat (map (frame_of E) rs)"

lemma stored_simps [simp]: "stored E [] = []" "stored E (rs @ [r]) = stored E rs @ frame_of E r"
  by (simp_all add: stored_def)

definition fitting :: "recorder_env \<Rightarrow> JournalRecordV1 \<Rightarrow> bool" where
  "fitting E r \<longleftrightarrow> length (record_to_vec E r) \<le> MAX_RECORD_BYTES"

lemma fitting_length: "fitting E r \<Longrightarrow> length (record_to_vec E r) < 256 ^ 4"
  by (simp add: fitting_def MAX_RECORD_BYTES_def)

lemma length_frame_of:
  "sound_env E \<Longrightarrow> length (frame_of E r) = 4 + length (record_to_vec E r) + 32"
  by (simp add: frame_of_def frame_record_def sound_envD)

lemma scan_frame:
  assumes "sound_env E" and "fitting E r"
  shows "scan_and_recover_torn_tail E c (frame_of E r @ rest) j
    = rbind (replay_step E j r) (scan_and_recover_torn_tail E (c @ frame_of E r) rest)"
proof -
  let ?p = "record_to_vec E r"
  have len: "be_nat (be_bytes 4 (length ?p)) = length ?p"
    using fitting_length [OF assms(2)] by simp
  have f: "frame_of E r = be_bytes 4 (length ?p) @ ?p @ sha256 (je_ext E) ?p"
    by (simp add: frame_of_def frame_record_def)
  define F where "F = frame_of E r @ rest"
  note F = F_def [unfolded f]
  have parts: "F \<noteq> []" "\<not> length F < 4" "be_nat (take 4 F) = length ?p"
      "\<not> length F - 4 < length ?p + 32"
      "take (length ?p) (drop 4 F) = ?p" "take 32 (drop (4 + length ?p) F) = sha256 (je_ext E) ?p"
    using sound_envD(1) [OF assms(1)] len by (auto simp: F simp flip: length_0_conv simp del: be_nat_be_bytes)
  moreover have "take (4 + length ?p + 32) F = frame_of E r" "drop (4 + length ?p + 32) F = rest"
    using length_frame_of [OF assms(1), of r] by (simp_all add: F_def)
  moreover have "\<not> MAX_RECORD_BYTES < length ?p" using assms(2) by (simp add: fitting_def)
  ultimately have "scan_and_recover_torn_tail E c F j
    = rbind (replay_step E j r) (scan_and_recover_torn_tail E (c @ frame_of E r) rest)"
    by (subst scan_and_recover_torn_tail.simps)
       (simp add: sound_envD(2) [OF assms(1)] replay_step_def rbind_assoc Let_def
         split: prod.split sum.split cong: if_cong)
  then show ?thesis by (simp only: F_def)
qed

lemma scan_stored:
  assumes "sound_env E"
  shows "list_all (fitting E) rs \<Longrightarrow> scan_and_recover_torn_tail E c (stored E rs @ tail) j
    = rbind (rfold (replay_step E) j rs) (scan_and_recover_torn_tail E (c @ stored E rs) tail)"
proof (induction rs arbitrary: c j)
  case Nil
  then show ?case by (simp add: stored_def)
next
  case (Cons r rs)
  have e: "stored E (r # rs) = frame_of E r @ stored E rs" by (simp add: stored_def)
  from Cons show ?case
    by (cases "replay_step E j r") (simp_all add: e scan_frame [OF assms])
qed

text \<open>The tail of a file that breaks off inside the frame of a record: fewer than the four bytes
  of the length, or the length and fewer bytes than it announces.\<close>

definition torn_tail :: "recorder_env \<Rightarrow> JournalRecordV1 \<Rightarrow> bytes \<Rightarrow> bool" where
  "torn_tail E r tail \<longleftrightarrow> fitting E r \<and> length tail < length (frame_of E r)
     \<and> (length tail < 4 \<or> take 4 tail = take 4 (frame_of E r))"

lemma torn_take: "fitting E r \<Longrightarrow> n < length (frame_of E r) \<Longrightarrow> torn_tail E r (take n (frame_of E r))"
  by (auto simp: torn_tail_def min_def)

lemma scan_torn:
  assumes "sound_env E" and "torn_tail E r tail"
  shows "scan_and_recover_torn_tail E c tail j = Inr (if tail = [] then j else j\<lparr>j_file := c\<rparr>)"
proof (cases "length tail < 4")
  case True
  then show ?thesis by (subst scan_and_recover_torn_tail.simps) simp
next
  case False
  let ?p = "record_to_vec E r"
  have "take 4 tail = be_bytes 4 (length ?p)"
    using False assms(2) by (simp add: torn_tail_def frame_of_def frame_record_def)
  then have "be_nat (take 4 tail) = length ?p"
    using fitting_length [of E r] assms(2) by (simp add: torn_tail_def)
  moreover have "\<not> MAX_RECORD_BYTES < length ?p"
    using assms(2) by (simp add: torn_tail_def fitting_def)
  moreover have "length tail - 4 < length ?p + 32"
    using False assms(2) length_frame_of [OF assms(1), of r] by (auto simp: torn_tail_def)
  ultimately show ?thesis
    using False by (subst scan_and_recover_torn_tail.simps) auto
qed

lemma verify_ignores_file [simp]: "verify_record E (j\<lparr>j_file := f\<rparr>) r = verify_record E j r"
  by (simp add: verify_record_def next_sequence_def head_digest_def)

lemma replay_ignores_file:
  "rfold (replay_step E) (j\<lparr>j_file := f\<rparr>) rs
    = map_sum id (\<lambda>j'. j'\<lparr>j_file := f\<rparr>) (rfold (replay_step E) j rs)"
proof (induction rs arbitrary: j)
  case (Cons r rs)
  have step: "replay_step E (j\<lparr>j_file := f\<rparr>) r = map_sum id (\<lambda>j'. j'\<lparr>j_file := f\<rparr>) (replay_step E j r)"
    by (cases "verify_record E j r")
       (simp_all add: replay_step_def index_record_def Let_def split: option.split)
  show ?case
    by (cases "replay_step E j r") (simp_all add: step Cons)
qed simp

definition consistent :: "recorder_env \<Rightarrow> Journal \<Rightarrow> bool" where
  "consistent E j \<longleftrightarrow> list_all (fitting E) (j_records j) \<and> j_file j = stored E (j_records j)
     \<and> rfold (replay_step E) (empty_journal (j_file j)) (j_records j) = Inr j"

lemma consistentD:
  assumes "consistent E j"
  shows "list_all (fitting E) (j_records j)" and "j_file j = stored E (j_records j)"
    and "rfold (replay_step E) (empty_journal (j_file j)) (j_records j) = Inr j"
  using assms unfolding consistent_def by blast+

lemma open_consistent:
  assumes "sound_env E" and "consistent E j" and "torn_tail E r tail"
  shows "open_journal E (j_file j @ tail) = Inr j"
proof -
  let ?f = "j_file j @ tail"
  note c = consistentD [OF assms(2)]
  have e: "empty_journal ?f = empty_journal (j_file j)\<lparr>j_file := ?f\<rparr>"
    by (simp add: empty_journal_def)
  have "rfold (replay_step E) (empty_journal ?f) (j_records j) = Inr (j\<lparr>j_file := ?f\<rparr>)"
    unfolding e replay_ignores_file using c(3) by simp
  moreover have "open_journal E ?f = rbind (rfold (replay_step E) (empty_journal ?f) (j_records j))
      (scan_and_recover_torn_tail E (stored E (j_records j)) tail)"
    unfolding open_journal_def using scan_stored [OF assms(1) c(1), of "[]"] c(2) by simp
  ultimately show ?thesis
    using c(2) by (simp add: scan_torn [OF assms(1,3)])
qed

lemma open_same:
  assumes "sound_env E" and "consistent E j"
  shows "open_journal E (j_file j) = Inr j"
proof -
  note c = consistentD [OF assms(2)]
  have "open_journal E (stored E (j_records j))
      = rbind (rfold (replay_step E) (empty_journal (j_file j)) (j_records j))
        (scan_and_recover_torn_tail E (stored E (j_records j)) [])"
    unfolding open_journal_def using scan_stored [OF assms(1) c(1), of "[]" "[]"] c(2) by simp
  with c(2,3) show ?thesis by (simp add: scan_and_recover_torn_tail.simps)
qed

text \<open>Replayed journals have the right index and first records.\<close>

definition indexed :: "Journal \<Rightarrow> bool" where
  "indexed j \<longleftrightarrow> index_ok j \<and> first_ok (j_records j)"

lemma indexed_empty [simp]: "indexed (empty_journal f)"
  by (simp add: indexed_def index_ok_def first_ok_def empty_journal_def)

lemma replay_step_Inr:
  "index_ok j \<Longrightarrow> replay_step E j r = Inr j' \<longleftrightarrow>
     verify_record E j r = Inr () \<and> indexable r (j_records j) \<and> j' = push_record r j"
  by (auto simp: replay_step_def index_record_ok)

lemma consistent_indexed: "consistent E j \<Longrightarrow> indexed j"
  by (drule consistentD(3), erule rfold_invariant [where I = indexed], rule indexed_empty)
     (auto simp: indexed_def replay_step_Inr index_push first_push)

lemma index_ignores_file [simp]: "index_ok (j\<lparr>j_file := f\<rparr>) = index_ok j"
  by (simp add: index_ok_def cong: if_cong)

lemma consistent_push:
  assumes "sound_env E" and "consistent E j" and "fitting E r"
    and "verify_record E j r = Inr ()" and "indexable r (j_records j)"
  shows "consistent E (push_record r (j\<lparr>j_file := j_file j @ frame_of E r\<rparr>))"
proof -
  let ?f = "j_file j @ frame_of E r"
  note c = consistentD [OF assms(2)]
  have e: "empty_journal ?f = empty_journal (j_file j)\<lparr>j_file := ?f\<rparr>"
    by (simp add: empty_journal_def)
  have "rfold (replay_step E) (empty_journal ?f) (j_records j) = Inr (j\<lparr>j_file := ?f\<rparr>)"
    unfolding e replay_ignores_file using c(3) by simp
  moreover have "index_ok (j\<lparr>j_file := ?f\<rparr>)"
    using consistent_indexed [OF assms(2)] by (simp add: indexed_def)
  ultimately show ?thesis
    using assms(3-5) c(1) c(2)
    unfolding consistent_def push_record_simps
    by (simp add: rfold_append replay_step_Inr)
qed

subsection \<open>Sealed records verify\<close>

lemma unsigned_ignores [simp]:
  "unsigned_bytes E (r\<lparr>ob_record_digest := d\<rparr>) = unsigned_bytes E r"
  "unsigned_bytes E (r\<lparr>ob_signature_hex := s\<rparr>) = unsigned_bytes E r"
  by (simp_all add: unsigned_bytes_def observation_head_def observation_key_def)

lemma signed_ignores [simp]: "signed_bytes E (r\<lparr>ob_signature_hex := s\<rparr>) = signed_bytes E r"
  by (simp add: signed_bytes_def recorder_observation_signing_bytes_def observation_of_record_def
      SignedRecorderObservationV1.truncate_def)

lemma record_digest_ignores [simp]:
  "record_digest_of E (r\<lparr>ob_record_digest := d\<rparr>) = record_digest_of E r"
  "record_digest_of E (r\<lparr>ob_signature_hex := s\<rparr>) = record_digest_of E r"
  by (simp_all add: record_digest_of_def)

lemma seal_selectors [simp]:
  "jr_journal_version (seal_record E r) = jr_journal_version r"
  "ob_sequence (seal_record E r) = ob_sequence r"
  "ob_previous_record_digest (seal_record E r) = ob_previous_record_digest r"
  "ob_recorder_key_id (seal_record E r) = ob_recorder_key_id r"
  "ob_recorder_key_generation (seal_record E r) = ob_recorder_key_generation r"
  "ob_kind (seal_record E r) = ob_kind r" "ob_source (seal_record E r) = ob_source r"
  "ob_command_digest (seal_record E r) = ob_command_digest r"
  "ob_provider_error_class (seal_record E r) = ob_provider_error_class r"
  "record_key (seal_record E r) = record_key r"
  "ob_record_digest (seal_record E r) = record_digest_of E (seal_record E r)"
  by (simp_all add: seal_record_def record_key_def Let_def)

lemma observation_of_record_simps [simp]:
  "ob_kind (observation_of_record r) = ob_kind r" "ob_source (observation_of_record r) = ob_source r"
  "ob_provider_error_class (observation_of_record r) = ob_provider_error_class r"
  by (simp_all add: observation_of_record_def SignedRecorderObservationV1.truncate_def)

text \<open>The shape of a record depends on its kind, its source and its failure class.\<close>

definition shaped ::
    "RecorderObservationKindV1 \<Rightarrow> RecorderObservationSourceV1 \<Rightarrow> ProviderFailureClassV1 option \<Rightarrow> bool" where
  "shaped k s cls \<longleftrightarrow> (if s = Execution \<and> k = Absent then cls \<noteq> None else cls = None)"

lemma validate_shape_iff:
  "is_ok (validate_shape r) \<longleftrightarrow> shaped (ob_kind r) (ob_source r) (ob_provider_error_class r)"
  by (cases "ob_kind r"; cases "ob_source r") (auto simp: validate_shape_def shaped_def Let_def)

lemma verify_sealed:
  assumes "sound_env E" and "jr_journal_version r = JOURNAL_VERSION"
    and "ob_sequence r = next_sequence j" and "ob_previous_record_digest r = head_digest j"
    and "ob_recorder_key_id r = je_key_id E" and "ob_recorder_key_generation r = je_key_generation E"
    and "shaped (ob_kind r) (ob_source r) (ob_provider_error_class r)"
  shows "verify_record E j (seal_record E r) = Inr ()"
proof -
  let ?d = "r\<lparr>ob_record_digest := record_digest_of E r\<rparr>"
  have hex: "ob_signature_hex (seal_record E r) = hex_encode (je_sign E (signed_bytes E ?d))"
    and signed: "signed_bytes E (seal_record E r) = signed_bytes E ?d"
    by (simp_all add: seal_record_def Let_def)
  obtain vk where "hex_decode 32 (je_verifying_key_hex E) = Some vk" and "je_verifying_key_valid E vk"
    and "\<And>m. je_verify E vk m (je_sign E m)"
    using assms(1) by (auto simp: sound_env_def split: option.splits)
  then show ?thesis
    using assms(2-7) sound_envD(3) [OF assms(1)]
    by (simp add: verify_record_def hex signed validate_shape_iff)
qed

text \<open>A record carries the recorder's own signature, its key and a valid shape.\<close>

definition attested :: "recorder_env \<Rightarrow> JournalRecordV1 \<Rightarrow> bool" where
  "attested E r \<longleftrightarrow> hex_decode 64 (ob_signature_hex r) = Some (je_sign E (signed_bytes E r))
     \<and> ob_recorder_key_id r = je_key_id E \<and> ob_recorder_key_generation r = je_key_generation E
     \<and> is_ok (validate_shape r)"

lemma sealed_attested:
  assumes "sound_env E" and "ob_recorder_key_id r = je_key_id E"
    and "ob_recorder_key_generation r = je_key_generation E"
    and "shaped (ob_kind r) (ob_source r) (ob_provider_error_class r)"
  shows "attested E (seal_record E r)"
proof -
  have "ob_signature_hex (seal_record E r) = hex_encode (je_sign E (signed_bytes E (seal_record E r)))"
    by (simp add: seal_record_def Let_def)
  then show ?thesis
    using assms(2-4) sound_envD(3) [OF assms(1)] by (simp add: attested_def validate_shape_iff)
qed

lemma new_record_fields:
  "record_key (new_record E c digest out j) = command_key c"
  "ob_command_digest (new_record E c digest out j) = digest"
  "ob_kind (new_record E c digest out j) = ro_kind out"
  "ob_source (new_record E c digest out j) = ro_source out"
  by (simp_all add: new_record_def) (simp add: record_key_def command_key_def)

lemma verify_new_record:
  assumes "sound_env E" and "shaped (ro_kind out) (ro_source out) (ro_provider_error_class out)"
  shows "verify_record E j (new_record E c digest out j) = Inr ()"
    and "attested E (new_record E c digest out j)"
  unfolding new_record_def
  by (rule verify_sealed [OF assms(1)] sealed_attested [OF assms(1)]; simp add: assms(2))+

lemma reconciliation_record_fields:
  "record_key (reconciliation_record E base out j) = record_key base"
  "ob_command_digest (reconciliation_record E base out j) = ob_command_digest base"
  "ob_kind (reconciliation_record E base out j) = ro_kind out"
  "ob_source (reconciliation_record E base out j) = Reconciliation"
  by (simp_all add: reconciliation_record_def) (simp add: record_key_def)

lemma verify_reconciliation_record:
  assumes "sound_env E"
  shows "verify_record E j (reconciliation_record E base out j) = Inr ()"
    and "attested E (reconciliation_record E base out j)"
  unfolding reconciliation_record_def
  by (rule verify_sealed [OF assms] sealed_attested [OF assms]; simp add: shaped_def)+

subsection \<open>Appending\<close>

definition pushed :: "recorder_env \<Rightarrow> JournalRecordV1 \<Rightarrow> Journal \<Rightarrow> Journal" where
  "pushed E r j = push_record r (j\<lparr>j_file := j_file j @ frame_of E r\<rparr>)"

lemma pushed_records [simp]: "j_records (pushed E r j) = j_records j @ [r]"
  by (simp add: pushed_def)

text \<open>A record the recorder may append: it verifies, is its own and continues its attempt.\<close>

definition appendable :: "recorder_env \<Rightarrow> JournalRecordV1 \<Rightarrow> Journal \<Rightarrow> bool" where
  "appendable E r j \<longleftrightarrow>
     verify_record E j r = Inr () \<and> indexable r (j_records j) \<and> attested E r"

lemma append_cases:
  assumes "consistent E j" and "appendable E r j"
  shows "append E io r j =
    (if \<not> fitting E r then (Inl (Encoding ''journal record is too large''), j)
     else case io of
       Durable \<Rightarrow> (Inr (), pushed E r j)
     | WriteStops n \<Rightarrow> (Inl Io, j\<lparr>j_file := j_file j @ take n (frame_of E r)\<rparr>)
     | FlushFails \<Rightarrow> (Inl Io, j\<lparr>j_file := j_file j @ frame_of E r\<rparr>))"
proof -
  have "index_ok (j\<lparr>j_file := j_file j @ frame_of E r\<rparr>)"
    using consistent_indexed [OF assms(1)] by (simp add: indexed_def)
  then show ?thesis
    using assms(2)
    by (auto simp: append_def fitting_def frame_of_def [symmetric] index_record_ok appendable_def
        pushed_def split: append_io.split)
qed

lemma consistent_pushed:
  "sound_env E \<Longrightarrow> consistent E j \<Longrightarrow> fitting E r \<Longrightarrow> appendable E r j \<Longrightarrow> consistent E (pushed E r j)"
  unfolding pushed_def appendable_def by (rule consistent_push) simp_all

text \<open>Whatever an interrupted append left behind, opening the file gives the journal before it or
  the journal after it.\<close>

lemma reopen_append:
  assumes "sound_env E" and "consistent E j" and "appendable E r j"
  shows "open_journal E (j_file (snd (append E io r j))) = Inr j
     \<or> (fitting E r \<and> open_journal E (j_file (snd (append E io r j))) = Inr (pushed E r j))"
proof (cases "fitting E r")
  case False
  then show ?thesis
    using open_same [OF assms(1,2)] by (simp add: append_cases [OF assms(2,3)])
next
  case True
  have all: "open_journal E (j_file j @ frame_of E r) = Inr (pushed E r j)"
    using open_same [OF assms(1) consistent_pushed [OF assms(1,2) True assms(3)]]
    by (simp add: pushed_def)
  show ?thesis
  proof (cases io)
    case (WriteStops n)
    then show ?thesis
      using True all open_consistent [OF assms(1,2) torn_take [OF True, of n]]
      by (cases "n < length (frame_of E r)") (simp_all add: append_cases [OF assms(2,3)])
  qed (use True all in \<open>simp_all add: append_cases [OF assms(2,3)] pushed_def\<close>)
qed

end
