(* ===== verification/JsonCodec.thy ===== *)
theory JsonCodec
  imports JournalData
begin

text \<open>
  An instance of the parameters of the recorder, on which the witnesses discharge what the
  properties ask of third-party code: a JSON printer with a reader that inverts it, a digest of
  32 bytes and a signature that verifies. Nothing here models code of the repository.
\<close>

fun code_text :: "string \<Rightarrow> string" where
  "code_text [] = ''.''"
| "code_text (c # s) = CHR '','' # c # code_text s"

fun read_text :: "string \<Rightarrow> (string \<times> string) option" where
  "read_text (m # s) =
     (if m = CHR ''.'' then Some ([], s)
      else case s of c # t \<Rightarrow> map_option (\<lambda>(u, r). (c # u, r)) (read_text t) | [] \<Rightarrow> None)"
| "read_text [] = None"

lemma read_code_text [simp]: "read_text (code_text s @ r) = Some (s, r)"
  by (induction s) simp_all

fun code_json :: "json \<Rightarrow> string" where
  "code_json JNull = ''n''"
| "code_json (JBool b) = (if b then ''t'' else ''f'')"
| "code_json (JNumber s) = CHR ''#'' # code_text s"
| "code_json (JString s) = CHR ''q'' # code_text s"
| "code_json (JArray vs) = CHR ''['' # concat (map (\<lambda>v. CHR '','' # code_json v) vs) @ '']''"
| "code_json (JObject ms) =
     CHR ''{'' # concat (map (\<lambda>(k, v). CHR '','' # code_text k @ code_json v) ms) @ ''}''"

text \<open>The reader's fuel is the length of the document.\<close>

fun read_json :: "nat \<Rightarrow> string \<Rightarrow> (json \<times> string) option"
  and read_items :: "nat \<Rightarrow> string \<Rightarrow> (json list \<times> string) option"
  and read_members :: "nat \<Rightarrow> string \<Rightarrow> ((string \<times> json) list \<times> string) option" where
  "read_json (Suc n) (c # s) =
     (if c = CHR ''n'' then Some (JNull, s)
      else if c = CHR ''t'' then Some (JBool True, s)
      else if c = CHR ''f'' then Some (JBool False, s)
      else if c = CHR ''#'' then map_option (\<lambda>(t, r). (JNumber t, r)) (read_text s)
      else if c = CHR ''q'' then map_option (\<lambda>(t, r). (JString t, r)) (read_text s)
      else if c = CHR ''['' then map_option (\<lambda>(vs, r). (JArray vs, r)) (read_items n s)
      else if c = CHR ''{'' then map_option (\<lambda>(ms, r). (JObject ms, r)) (read_members n s)
      else None)"
| "read_json _ _ = None"
| "read_items (Suc n) (c # s) =
     (if c = CHR '','' then
        Option.bind (read_json n s) (\<lambda>(v, r). map_option (\<lambda>(vs, r'). (v # vs, r')) (read_items n r))
      else Some ([], s))"
| "read_items _ _ = None"
| "read_members (Suc n) (c # s) =
     (if c = CHR '','' then
        Option.bind (read_text s) (\<lambda>(k, t). Option.bind (read_json n t)
          (\<lambda>(v, r). map_option (\<lambda>(ms, r'). ((k, v) # ms, r')) (read_members n r)))
      else Some ([], s))"
| "read_members _ _ = None"

definition reads_back :: "json \<Rightarrow> bool" where
  "reads_back v \<longleftrightarrow> (\<forall>n r. length (code_json v) \<le> n \<longrightarrow> read_json n (code_json v @ r) = Some (v, r))"

lemma reads_backD: "reads_back v \<Longrightarrow> length (code_json v) \<le> n \<Longrightarrow> read_json n (code_json v @ r) = Some (v, r)"
  by (simp add: reads_back_def)

lemma read_code_items:
  "\<forall>v \<in> set vs. reads_back v \<Longrightarrow> length (concat (map (\<lambda>v. CHR '','' # code_json v) vs)) < n
   \<Longrightarrow> read_items n (concat (map (\<lambda>v. CHR '','' # code_json v) vs) @ CHR '']'' # r) = Some (vs, r)"
proof (induction vs arbitrary: n)
  case Nil
  then show ?case by (cases n) simp_all
next
  case (Cons v vs)
  then obtain m where n: "n = Suc m" by (cases n) simp_all
  with Cons show ?case by (simp add: reads_backD)
qed

lemma read_code_members:
  "\<forall>(k, v) \<in> set ms. reads_back v
   \<Longrightarrow> length (concat (map (\<lambda>(k, v). CHR '','' # code_text k @ code_json v) ms)) < n
   \<Longrightarrow> read_members n (concat (map (\<lambda>(k, v). CHR '','' # code_text k @ code_json v) ms) @ CHR ''}'' # r)
     = Some (ms, r)"
proof (induction ms arbitrary: n)
  case Nil
  then show ?case by (cases n) simp_all
next
  case (Cons kv ms)
  then obtain m where n: "n = Suc m" by (cases n) simp_all
  with Cons show ?case by (cases kv) (simp add: reads_backD)
qed

lemma read_code_json: "reads_back v"
proof (induction v)
  case (JArray vs)
  show ?case
    unfolding reads_back_def
  proof (intro allI impI)
    fix n r assume l: "length (code_json (JArray vs)) \<le> n"
    then obtain m where n: "n = Suc m" by (cases n) simp_all
    show "read_json n (code_json (JArray vs) @ r) = Some (JArray vs, r)"
      using l read_code_items [of vs m r] JArray by (simp add: n)
  qed
next
  case (JObject ms)
  show ?case
    unfolding reads_back_def
  proof (intro allI impI)
    fix n r assume l: "length (code_json (JObject ms)) \<le> n"
    then obtain m where n: "n = Suc m" by (cases n) simp_all
    have "\<forall>(k, v) \<in> set ms. reads_back v" using JObject by force
    then show "read_json n (code_json (JObject ms) @ r) = Some (JObject ms, r)"
      using l read_code_members [of ms m r] by (simp add: n)
  qed
next
  case (JNumber s)
  show ?case
    unfolding reads_back_def
  proof (intro allI impI)
    fix n r assume "length (code_json (JNumber s)) \<le> n"
    then show "read_json n (code_json (JNumber s) @ r) = Some (JNumber s, r)" by (cases n) simp_all
  qed
next
  case (JString s)
  show ?case
    unfolding reads_back_def
  proof (intro allI impI)
    fix n r assume "length (code_json (JString s)) \<le> n"
    then show "read_json n (code_json (JString s) @ r) = Some (JString s, r)" by (cases n) simp_all
  qed
next
  case JNull
  show ?case
    unfolding reads_back_def
  proof (intro allI impI)
    fix n r assume "length (code_json JNull) \<le> n"
    then show "read_json n (code_json JNull @ r) = Some (JNull, r)" by (cases n) simp_all
  qed
next
  case (JBool b)
  show ?case
    unfolding reads_back_def
  proof (intro allI impI)
    fix n r assume "length (code_json (JBool b)) \<le> n"
    then show "read_json n (code_json (JBool b) @ r) = Some (JBool b, r)"
      by (cases n; cases b) simp_all
  qed
qed

definition coded_externals :: externals where
  "coded_externals = raw_externals
     \<lparr>sha256 := digest32, json_to_string := code_json,
      json_from_str := \<lambda>s. (case read_json (length s) s of
        Some (v, []) \<Rightarrow> Some (canonicalize v) | _ \<Rightarrow> None)\<rparr>"

lemma coded_roundtrip: "json_roundtrip coded_externals v"
  using reads_backD [OF read_code_json, of v "length (code_json v)" "[]"]
  by (simp add: json_roundtrip_def coded_externals_def)

end
