(* ===== verification/ExecuteOnce.thy ===== *)
theory ExecuteOnce
  imports JournalSafety JsonCodec
begin

text \<open>
  The execute-once contract of the recorder's journal over all runs: operations with durable
  appends, crashes in the middle of any append followed by a restart, and restarts. Every attempt
  goes through the life cycle \<open>attempt_phase\<close>, and no attempt receives two permits to invoke its
  provider.
\<close>

subsection \<open>The life cycle of an attempt\<close>

datatype attempt_phase = Unseen | AcceptedOnly | Started | Uncertain | Closed

definition settle :: "RecorderObservationKindV1 \<Rightarrow> attempt_phase" where
  "settle k = (if k = Unknown then Uncertain else Closed)"

fun next_phase ::
    "attempt_phase \<Rightarrow> RecorderObservationKindV1 \<Rightarrow> RecorderObservationSourceV1 \<Rightarrow> attempt_phase option" where
  "next_phase Unseen k s = (if k = Accepted \<and> s = Execution then Some AcceptedOnly else None)"
| "next_phase AcceptedOnly k s =
     (if k = InvocationStarted \<and> s = Execution then Some Started
      else if is_evidence k \<and> s = Reconciliation then Some (settle k) else None)"
| "next_phase Started k s = (if is_evidence k then Some (settle k) else None)"
| "next_phase Uncertain k s =
     (if is_evidence k \<and> s = Reconciliation then Some (settle k) else None)"
| "next_phase Closed k s = None"

definition advance :: "attempt_phase option \<Rightarrow> JournalRecordV1 \<Rightarrow> attempt_phase option" where
  "advance p r = Option.bind p (\<lambda>p. next_phase p (ob_kind r) (ob_source r))"

definition phase_of :: "JournalRecordV1 list \<Rightarrow> attempt_phase option" where
  "phase_of h = foldl advance (Some Unseen) h"

lemma phase_of_simps [simp]:
  "phase_of [] = Some Unseen" "phase_of (h @ [r]) = advance (phase_of h) r"
  by (simp_all add: phase_of_def)

definition begun :: "JournalRecordV1 \<Rightarrow> bool" where
  "begun r \<longleftrightarrow> ob_kind r = InvocationStarted"

lemma phase_facts:
  assumes "phase_of h = Some p"
  shows "h = [] \<longleftrightarrow> p = Unseen"
    and "list_ex (\<lambda>r. ob_kind r = InvocationStarted \<or> is_evidence (ob_kind r)) h
      \<longleftrightarrow> p \<in> {Started, Uncertain, Closed}"
    and "list_ex (\<lambda>r. is_evidence (ob_kind r)) h \<longleftrightarrow> p \<in> {Uncertain, Closed}"
    and "h \<noteq> [] \<Longrightarrow> ob_kind (last h) \<in> {Present, Absent} \<longleftrightarrow> p = Closed"
    and "length (filter begun h) \<le> (if p \<in> {Unseen, AcceptedOnly} then 0 else 1)"
proof -
  let ?ev = "\<lambda>r. is_evidence (ob_kind r)"
  let ?st = "\<lambda>r. ob_kind r = InvocationStarted \<or> is_evidence (ob_kind r)"
  have "(h = [] \<longleftrightarrow> p = Unseen) \<and> (list_ex ?st h \<longleftrightarrow> p \<in> {Started, Uncertain, Closed})
      \<and> (list_ex ?ev h \<longleftrightarrow> p \<in> {Uncertain, Closed})
      \<and> (h \<noteq> [] \<longrightarrow> (ob_kind (last h) \<in> {Present, Absent} \<longleftrightarrow> p = Closed))
      \<and> length (filter begun h) \<le> (if p \<in> {Unseen, AcceptedOnly} then 0 else 1)"
    using assms
  proof (induction h arbitrary: p rule: rev_induct)
    case (snoc r h)
    then obtain q where q: "phase_of h = Some q" and p: "next_phase q (ob_kind r) (ob_source r) = Some p"
      by (auto simp: advance_def bind_eq_Some_conv)
    from snoc.IH [OF q] p show ?case
      by (cases q)
         (auto simp: begun_def is_evidence_def settle_def split: if_splits)
  qed simp
  then show "h = [] \<longleftrightarrow> p = Unseen" "list_ex ?st h \<longleftrightarrow> p \<in> {Started, Uncertain, Closed}"
    "list_ex ?ev h \<longleftrightarrow> p \<in> {Uncertain, Closed}"
    "h \<noteq> [] \<Longrightarrow> ob_kind (last h) \<in> {Present, Absent} \<longleftrightarrow> p = Closed"
    "length (filter begun h) \<le> (if p \<in> {Unseen, AcceptedOnly} then 0 else 1)"
    by blast+
qed

subsection \<open>Good journals\<close>

definition phases_ok :: "Journal \<Rightarrow> bool" where
  "phases_ok j \<longleftrightarrow> (\<forall>key. phase_of (history key (j_records j)) \<noteq> None)"

definition good :: "recorder_env \<Rightarrow> Journal \<Rightarrow> bool" where
  "good E j \<longleftrightarrow> consistent E j \<and> phases_ok j \<and> list_all (attested E) (j_records j)"

text \<open>A record that the recorder may append next, in the life cycle of its attempt.\<close>

definition extends :: "recorder_env \<Rightarrow> Journal \<Rightarrow> JournalRecordV1 \<Rightarrow> bool" where
  "extends E j r \<longleftrightarrow> appendable E r j
     \<and> advance (phase_of (history (record_key r) (j_records j))) r \<noteq> None"

lemma good_pushed:
  assumes "sound_env E" and "good E j" and "fitting E r" and "extends E j r"
  shows "good E (pushed E r j)"
  using assms consistent_pushed [of E j r]
  by (auto simp: good_def extends_def phases_ok_def appendable_def)

lemma good_first: "good E j \<Longrightarrow> first_ok (j_records j)" "good E j \<Longrightarrow> index_ok j"
  using consistent_indexed [of E j] by (auto simp: good_def indexed_def)

lemma records_for_good:
  assumes "good E j"
  shows "records_for c digest j =
    (let h = history (command_key c) (j_records j)
     in if h = [] then Inr [] else if ob_command_digest (hd h) \<noteq> digest then Inl CommandConflict
        else Inr h)"
  using index_ok_cases(1) [OF good_first(2) [OF assms], of "command_key c"]
  by (auto simp: records_for_def map_positions Let_def split: list.split)

lemma latest_for_good:
  assumes "good E j"
  shows "latest_for c digest j =
    (let h = history (command_key c) (j_records j)
     in if h = [] then Inr None else if ob_command_digest (hd h) \<noteq> digest then Inl CommandConflict
        else Inr (Some (last h)))"
  by (simp add: latest_for_def records_for_good [OF assms] Let_def)

lemma query_good:
  assumes "good E j"
  shows "query key expected j =
    (let h = history key (j_records j)
     in if h = [] then Inr None
        else if (case expected of None \<Rightarrow> False | Some d \<Rightarrow> d \<noteq> ob_command_digest (hd h))
        then Inl CommandConflict else Inr (Some (last h)))"
proof (cases "history key (j_records j) = []")
  case False
  then show ?thesis
    using index_ok_cases [OF good_first(2) [OF assms] , of key]
    by (simp add: query_def positions_Nil Let_def cong: if_cong option.case_cong)
qed (use index_ok_cases(1) [OF good_first(2) [OF assms], of key] in \<open>simp add: query_def\<close>)

subsection \<open>Growth of a journal\<close>

inductive grows :: "recorder_env \<Rightarrow> Journal \<Rightarrow> Journal \<Rightarrow> bool" for E where
  same: "grows E j j"
| push: "grows E j j' \<Longrightarrow> extends E j' r \<Longrightarrow> fitting E r \<Longrightarrow> grows E j (pushed E r j')"

lemma grows_good: "grows E j j' \<Longrightarrow> sound_env E \<Longrightarrow> good E j \<Longrightarrow> good E j'"
  by (induction rule: grows.induct) (auto intro: good_pushed)

lemma grows_records: "grows E j j' \<Longrightarrow> \<exists>rs. j_records j' = j_records j @ rs"
  by (induction rule: grows.induct) auto

lemma grows_trans: "grows E j' j'' \<Longrightarrow> grows E j j' \<Longrightarrow> grows E j j''"
  by (induction rule: grows.induct) (auto intro: grows.push)

lemma grows_history: "grows E j j' \<Longrightarrow> set (history key (j_records j)) \<subseteq> set (history key (j_records j'))"
  using grows_records [of E j j'] by (auto simp: history_def)

text \<open>What one attempted append of an extending record leads to.\<close>

lemma append_extends:
  assumes "sound_env E" and "good E j" and "extends E j r"
  shows "append E Durable r j = (if fitting E r then (Inr (), pushed E r j)
      else (Inl (Encoding ''journal record is too large''), j))"
    and "grows E j (snd (append E Durable r j))"
    and "\<exists>j'. open_journal E (j_file (snd (append E io r j))) = Inr j' \<and> grows E j j'"
proof -
  have c: "consistent E j" and r: "appendable E r j"
    using assms(2,3) by (simp_all add: good_def extends_def)
  show durable: "append E Durable r j = (if fitting E r then (Inr (), pushed E r j)
      else (Inl (Encoding ''journal record is too large''), j))"
    by (simp add: append_cases [OF c r])
  show "grows E j (snd (append E Durable r j))"
    using assms(3) by (auto simp: durable intro: grows.intros)
  show "\<exists>j'. open_journal E (j_file (snd (append E io r j))) = Inr j' \<and> grows E j j'"
    using reopen_append [OF assms(1) c r, of io] assms(3) by (auto intro: grows.intros)
qed

lemma append_new_simps [simp]:
  "snd (append_new E io r j) = snd (append E io r j)"
  "is_ok (fst (append_new E io r j)) \<longleftrightarrow> is_ok (fst (append E io r j))"
  by (auto simp: append_new_def split: prod.split sum.split)

text \<open>An operation that leaves the journal alone or attempts one extending append.\<close>

definition one_append :: "recorder_env \<Rightarrow> append_io \<Rightarrow> Journal \<Rightarrow> Journal \<Rightarrow> bool" where
  "one_append E io j j' \<longleftrightarrow> j' = j \<or> (\<exists>r. extends E j r \<and> j' = snd (append E io r j))"

lemma one_append_grows:
  "sound_env E \<Longrightarrow> good E j \<Longrightarrow> one_append E Durable j j' \<Longrightarrow> grows E j j'"
  by (auto simp: one_append_def intro: grows.same append_extends(2))

lemma one_append_reopens:
  assumes "sound_env E" and "good E j" and "one_append E io j j'"
  shows "\<exists>j''. open_journal E (j_file j') = Inr j'' \<and> grows E j j''"
  using assms(3) append_extends(3) [OF assms(1,2)] open_same [OF assms(1)] assms(2)
  by (auto simp: one_append_def good_def intro: grows.same)

subsection \<open>Each operation\<close>

lemma extends_new_record:
  assumes "sound_env E" and "good E j"
    and "shaped (ro_kind out) (ro_source out) (ro_provider_error_class out)"
    and "case history (command_key c) (j_records j) of
      [] \<Rightarrow> ro_kind out = Accepted | h # _ \<Rightarrow> ob_command_digest h = digest"
    and "phase_of (history (command_key c) (j_records j)) = Some p"
    and "next_phase p (ro_kind out) (ro_source out) \<noteq> None"
  shows "extends E j (new_record E c digest out j)"
  using assms verify_new_record [OF assms(1,3)]
  by (auto simp: extends_def appendable_def indexable_def new_record_fields advance_def split: list.splits)

lemma shaped_None [simp]: "shaped k s None \<longleftrightarrow> \<not> (s = Execution \<and> k = Absent)"
  by (simp add: shaped_def)

lemma plain_outcome_simps [simp]:
  "ro_kind (plain_outcome k t) = k" "ro_source (plain_outcome k t) = Execution"
  "ro_provider_error_class (plain_outcome k t) = None"
  by (simp_all add: plain_outcome_def)

lemma accept_fresh:
  assumes "sound_env E" and "good E j" and "history (command_key c) (j_records j) = []"
    and r: "r = new_record E c (command_digest E c) (plain_outcome Accepted t) j"
  shows "extends E j r" and "snd (accept E io c t j) = snd (append E io r j)"
    and "is_ok (fst (accept E io c t j)) \<longleftrightarrow> is_ok (fst (append E io r j))"
proof -
  show "extends E j r"
    unfolding r using assms(3) by (intro extends_new_record [OF assms(1,2), where p = Unseen]) simp_all
  show "snd (accept E io c t j) = snd (append E io r j)"
    "is_ok (fst (accept E io c t j)) \<longleftrightarrow> is_ok (fst (append E io r j))"
    using assms(3) append_new_simps [of E io r j]
    by (auto simp: accept_def latest_for_good [OF assms(2)] r [symmetric] append_new_def
        split: prod.splits sum.splits)
qed

lemma accept_replays:
  assumes "good E j" and "history (command_key c) (j_records j) \<noteq> []"
  shows "accept E io c t j = ((if ob_command_digest (hd (history (command_key c) (j_records j)))
      \<noteq> command_digest E c then Inl CommandConflict
      else Inr (True, last (history (command_key c) (j_records j)))), j)"
  using assms(2) by (simp add: accept_def latest_for_good [OF assms(1)] Let_def)

lemma accept_one_append:
  assumes "sound_env E" and "good E j"
  shows "one_append E io j (snd (accept E io c t j))"
proof (cases "history (command_key c) (j_records j) = []")
  case True
  then show ?thesis using accept_fresh(1,2) [OF assms True refl] unfolding one_append_def by blast
qed (simp add: accept_replays [OF assms(2)] one_append_def)

lemma good_phase: "good E j \<Longrightarrow> \<exists>p. phase_of (history key (j_records j)) = Some p"
  unfolding good_def phases_ok_def by blast

lemma append_ok:
  assumes "good E j" and "extends E j r" and "is_ok (fst (append E io r j))"
  shows "io = Durable" and "fitting E r" and "append E io r j = (Inr (), pushed E r j)"
  using assms append_cases [of E j r io]
  by (auto simp: good_def extends_def split: if_splits append_io.splits)

lemma mark_starts:
  assumes "sound_env E" and "good E j" and h: "history (command_key c) (j_records j) = h"
    and "phase_of h = Some AcceptedOnly" and "ob_command_digest (hd h) = command_digest E c"
    and r: "r = new_record E c (command_digest E c) (plain_outcome InvocationStarted t) j"
  shows "extends E j r" and "mark_invocation_started E io c t j = append_new E io r j"
proof -
  have "h \<noteq> []" using phase_facts(1) [OF assms(4)] by simp
  then show "extends E j r"
    unfolding r using assms(4,5) h
    by (intro extends_new_record [OF assms(1,2), where p = AcceptedOnly])
       (auto split: list.split)
  show "mark_invocation_started E io c t j = append_new E io r j"
    using assms(5) h \<open>h \<noteq> []\<close> phase_facts(2) [OF assms(4)]
    by (simp add: mark_invocation_started_def records_for_good [OF assms(2)] r Let_def)
qed

lemma mark_refuses:
  assumes "good E j" and h: "history (command_key c) (j_records j) = h"
    and "\<not> (phase_of h = Some AcceptedOnly \<and> ob_command_digest (hd h) = command_digest E c)"
  shows "snd (mark_invocation_started E io c t j) = j"
    and "\<not> is_ok (fst (mark_invocation_started E io c t j))"
proof -
  obtain p where p: "phase_of h = Some p"
    using good_phase [OF assms(1), of "command_key c"] h by blast
  show "snd (mark_invocation_started E io c t j) = j"
    "\<not> is_ok (fst (mark_invocation_started E io c t j))"
    using assms(3) h p phase_facts(1,2) [OF p]
    by (cases p; auto simp: mark_invocation_started_def records_for_good [OF assms(1)] Let_def)+
qed

lemma mark_one_append:
  assumes "sound_env E" and "good E j"
  shows "one_append E io j (snd (mark_invocation_started E io c t j))"
proof (cases "phase_of (history (command_key c) (j_records j)) = Some AcceptedOnly
    \<and> ob_command_digest (hd (history (command_key c) (j_records j))) = command_digest E c")
  case True
  then show ?thesis
    using mark_starts [OF assms refl conjunct1 [OF True] conjunct2 [OF True] refl, where t = t]
    unfolding one_append_def by (metis append_new_simps(1))
next
  case False
  then show ?thesis using mark_refuses(1) [OF assms(2) refl False] by (simp add: one_append_def)
qed

text \<open>Admission of an attempt without records, step by step.\<close>

lemma admit_replays:
  assumes "good E j" and "history (command_key c) (j_records j) \<noteq> []"
  shows "admit_verified_execution E io io' c t t' j =
    ((if ob_command_digest (hd (history (command_key c) (j_records j))) \<noteq> command_digest E c
      then Inl CommandConflict else Inr (Replay (last (history (command_key c) (j_records j))))), j)"
  using assms(2) by (simp add: admit_verified_execution_def latest_for_good [OF assms(1)] Let_def)

lemma admit_fresh:
  assumes "sound_env E" and "good E j" and "history (command_key c) (j_records j) = []"
    and r: "r = new_record E c (command_digest E c) (plain_outcome Accepted t) j"
  shows "admit_verified_execution E io io' c t t' j =
    (case append E io r j of
       (Inl e, j') \<Rightarrow> (Inl e, j')
     | (Inr _, j') \<Rightarrow>
         (case mark_invocation_started E io' c t' j' of
            (Inl e, j'') \<Rightarrow> (Inl e, j'') | (Inr _, j'') \<Rightarrow> (Inr FreshStarted, j'')))"
  using assms(3)
  by (simp add: admit_verified_execution_def accept_def latest_for_good [OF assms(2)] r
      append_new_def split: prod.split sum.split)

lemma accepted_pushed:
  assumes "sound_env E" and "good E j" and "history (command_key c) (j_records j) = []"
    and r: "r = new_record E c (command_digest E c) (plain_outcome Accepted t) j" and "fitting E r"
  shows "good E (pushed E r j)" and "extends E j r"
    and "history (command_key c) (j_records (pushed E r j)) = [r]"
    and "phase_of [r] = Some AcceptedOnly" and "ob_command_digest r = command_digest E c"
proof -
  show x: "extends E j r" by (rule accept_fresh(1) [OF assms(1-3) r])
  show "good E (pushed E r j)" by (rule good_pushed [OF assms(1,2,5) x])
  show "history (command_key c) (j_records (pushed E r j)) = [r]"
    using assms(3) by (simp add: r new_record_fields)
  show "phase_of [r] = Some AcceptedOnly"
    using phase_of_simps(2) [of "[]" r] by (simp add: advance_def r new_record_fields)
  show "ob_command_digest r = command_digest E c" by (simp add: r new_record_fields)
qed

lemma admit_grows:
  assumes "sound_env E" and "good E j"
  shows "grows E j (snd (admit_verified_execution E Durable Durable c t t' j))"
proof (cases "history (command_key c) (j_records j) = []")
  case True
  define r where r: "r = new_record E c (command_digest E c) (plain_outcome Accepted t) j"
  note x = accept_fresh(1) [OF assms True r]
  show ?thesis
  proof (cases "fitting E r")
    case fits: True
    note a = accepted_pushed [OF assms True r fits]
    have "grows E (pushed E r j) (snd (mark_invocation_started E Durable c t' (pushed E r j)))"
      by (rule one_append_grows [OF assms(1) a(1) mark_one_append [OF assms(1) a(1)]])
    then have "grows E j (snd (mark_invocation_started E Durable c t' (pushed E r j)))"
      by (rule grows_trans) (auto intro: grows.intros x fits)
    then show ?thesis
      using fits by (auto simp: admit_fresh [OF assms True r] append_extends(1) [OF assms x]
          split: prod.splits sum.splits)
  next
    case False
    then show ?thesis
      by (simp add: admit_fresh [OF assms True r] append_extends(1) [OF assms x] grows.same)
  qed
qed (simp add: admit_replays [OF assms(2)] grows.same)

lemma admit_reopens:
  assumes "sound_env E" and "good E j"
  shows "\<exists>j''. open_journal E (j_file (snd (admit_verified_execution E io io' c t t' j))) = Inr j''
    \<and> grows E j j''"
proof (cases "history (command_key c) (j_records j) = []")
  case True
  define r where r: "r = new_record E c (command_digest E c) (plain_outcome Accepted t) j"
  note x = accept_fresh(1) [OF assms True r]
  show ?thesis
  proof (cases "is_ok (fst (append E io r j))")
    case ok: True
    note o = append_ok [OF assms(2) x ok]
    note a = accepted_pushed [OF assms True r o(2)]
    obtain j'' where "open_journal E (j_file (snd (mark_invocation_started E io' c t' (pushed E r j))))
        = Inr j''" and g: "grows E (pushed E r j) j''"
      using one_append_reopens [OF assms(1) a(1) mark_one_append [OF assms(1) a(1)]] by blast
    moreover from g have "grows E j j''"
      by (rule grows_trans) (auto intro: grows.intros x o(2))
    ultimately show ?thesis
      by (auto simp: admit_fresh [OF assms True r] o(3) split: prod.splits sum.splits)
  next
    case False
    then have "snd (admit_verified_execution E io io' c t t' j) = snd (append E io r j)"
      by (auto simp: admit_fresh [OF assms True r] split: prod.splits sum.splits)
    with append_extends(3) [OF assms x] show ?thesis by simp
  qed
next
  case False
  then show ?thesis
    using open_same [OF assms(1)] assms(2)
    by (auto simp: admit_replays [OF assms(2)] good_def intro: grows.same)
qed

text \<open>A permit is granted to an attempt without records, and leaves a started record behind.\<close>

lemma admit_permit:
  assumes "sound_env E" and "good E j"
    and "admit_verified_execution E io io' c t t' j = (Inr FreshStarted, j')"
  shows "history (command_key c) (j_records j) = []"
    and "list_ex begun (history (command_key c) (j_records j'))" and "io = Durable" and "io' = Durable"
proof -
  show h: "history (command_key c) (j_records j) = []"
    using assms(3) admit_replays [OF assms(2), of c] by (fastforce split: if_splits)
  define r where r: "r = new_record E c (command_digest E c) (plain_outcome Accepted t) j"
  note x = accept_fresh(1) [OF assms(1,2) h r]
  have ok: "is_ok (fst (append E io r j))"
    using assms(3) by (auto simp: admit_fresh [OF assms(1,2) h r] split: prod.splits sum.splits)
  note o = append_ok [OF assms(2) x ok]
  note a = accepted_pushed [OF assms(1,2) h r o(2)]
  show "io = Durable" by (rule o(1))
  define s where s: "s = new_record E c (command_digest E c) (plain_outcome InvocationStarted t') (pushed E r j)"
  have d: "ob_command_digest (hd [r]) = command_digest E c" using a(5) by simp
  note m = mark_starts [OF assms(1) a(1,3,4) d s]
  obtain w where w: "append_new E io' s (pushed E r j) = (Inr w, j')"
    using assms(3)
    by (auto simp: admit_fresh [OF assms(1,2) h r] o(3) m(2) split: prod.splits sum.splits)
  then have ok': "is_ok (fst (append E io' s (pushed E r j)))"
    and j': "j' = snd (append E io' s (pushed E r j))"
    using append_new_simps [of E io' s "pushed E r j"] by simp_all
  note o' = append_ok [OF a(1) m(1) ok']
  show "io' = Durable" by (rule o'(1))
  have "record_key s = command_key c" and "begun s"
    by (simp_all add: s new_record_fields begun_def)
  then show "list_ex begun (history (command_key c) (j_records j'))"
    by (simp add: j' o'(3) history_def)
qed

lemma terminal_one_append:
  assumes "sound_env E" and "good E j"
  shows "one_append E io j (snd (record_terminal E io c k resp ev remote cls actuals t j))"
proof (cases "snd (record_terminal E io c k resp ev remote cls actuals t j) = j")
  case False
  let ?h = "history (command_key c) (j_records j)"
  let ?out = "\<lparr>ro_kind = k, ro_source = Execution, ro_response_digest = Some resp,
    ro_remote_effect_id = remote, ro_evidence_payload_digest = Some ev,
    ro_provider_error_class = cls, ro_actuals = actuals, ro_window_start_ms = None,
    ro_window_end_ms = None, ro_observed_at_ms = t\<rparr>"
  let ?r = "new_record E c (command_digest E c) ?out j"
  have k: "is_evidence k" and shape: "shaped k Execution cls"
    and digest: "?h \<noteq> [] \<Longrightarrow> ob_command_digest (hd ?h) = command_digest E c"
    and started: "list_ex (\<lambda>r. ob_kind r = InvocationStarted) ?h"
    and fresh: "\<not> list_ex (\<lambda>r. is_evidence (ob_kind r)) ?h"
    and res: "record_terminal E io c k resp ev remote cls actuals t j = append_new E io ?r j"
    using False
    by (auto simp: record_terminal_def records_for_good [OF assms(2)] Let_def validate_shape_iff
        shape_of_def split: if_splits)
  obtain p where p: "phase_of ?h = Some p" using good_phase [OF assms(2)] by blast
  have "list_ex (\<lambda>r. ob_kind r = InvocationStarted \<or> is_evidence (ob_kind r)) ?h"
    using started by (auto simp: list_ex_iff)
  then have "p = Started"
    using phase_facts(2,3) [OF p] fresh by auto
  then have "extends E j ?r"
    using k shape digest p phase_facts(1) [OF p]
    by (intro extends_new_record [OF assms, where p = Started]) (auto split: list.split)
  then show ?thesis by (auto simp: one_append_def res)
qed (simp add: one_append_def)

lemma reconciliation_one_append:
  assumes "sound_env E" and "good E j"
  shows "one_append E io j (snd (record_reconciliation E io key d k resp ev remote actuals w w' t j))"
proof (cases "snd (record_reconciliation E io key d k resp ev remote actuals w w' t j) = j")
  case False
  let ?h = "history key (j_records j)"
  let ?out = "\<lparr>ro_kind = k, ro_source = Reconciliation, ro_response_digest = Some resp,
    ro_remote_effect_id = remote, ro_evidence_payload_digest = Some ev,
    ro_provider_error_class = None, ro_actuals = actuals, ro_window_start_ms = Some w,
    ro_window_end_ms = Some w', ro_observed_at_ms = t\<rparr>"
  let ?r = "reconciliation_record E (last ?h) ?out j"
  have k: "is_evidence k" and ne: "?h \<noteq> []" and l: "ob_kind (last ?h) \<notin> {Present, Absent}"
    and res: "record_reconciliation E io key d k resp ev remote actuals w w' t j = append_new E io ?r j"
    using False
    by (auto simp: record_reconciliation_def query_good [OF assms(2)] Let_def of_option_def
        split: if_splits)
  have "last ?h \<in> set ?h" using ne by simp
  then have key: "record_key (last ?h) = key"
    by (auto simp: history_def)
  obtain p where p: "phase_of ?h = Some p" using good_phase [OF assms(2)] by blast
  then have "p \<notin> {Unseen, Closed}" using phase_facts(1,4) [OF p] ne l by auto
  then have "next_phase p k Reconciliation \<noteq> None" using k by (cases p) (auto simp: is_evidence_def)
  moreover have "ob_command_digest (last ?h) = ob_command_digest (hd ?h)"
    using good_first(1) [OF assms(2)] \<open>last ?h \<in> set ?h\<close>
    unfolding first_ok_def list_all_iff by blast
  ultimately have "extends E j ?r"
    using p ne key verify_reconciliation_record [OF assms(1)]
    by (auto simp: extends_def appendable_def indexable_def reconciliation_record_fields advance_def
        split: list.split)
  then show ?thesis by (auto simp: one_append_def res)
qed (simp add: one_append_def)

subsection \<open>Runs\<close>

datatype journal_op =
    AcceptOp ExecuteOnceV1 i64
  | StartOp ExecuteOnceV1 i64
  | AdmitOp ExecuteOnceV1 i64 i64
  | TerminalOp ExecuteOnceV1 RecorderObservationKindV1 string string "string option"
      "ProviderFailureClassV1 option" "TechnicalResourceActualV1 list" i64
  | ReconcileOp attempt_key string RecorderObservationKindV1 string string "string option"
      "TechnicalResourceActualV1 list" i64 i64 i64

text \<open>The journal after one operation, and the attempt it permitted to run, if any.\<close>

fun run_op :: "recorder_env \<Rightarrow> append_io \<Rightarrow> append_io \<Rightarrow> journal_op \<Rightarrow> Journal \<Rightarrow> attempt_key option \<times> Journal" where
  "run_op E io io' (AcceptOp c t) j = (None, snd (accept E io c t j))"
| "run_op E io io' (StartOp c t) j = (None, snd (mark_invocation_started E io c t j))"
| "run_op E io io' (AdmitOp c t t') j =
     (let (res, j') = admit_verified_execution E io io' c t t' j
      in (if res = Inr FreshStarted then Some (command_key c) else None, j'))"
| "run_op E io io' (TerminalOp c k resp ev remote cls actuals t) j =
     (None, snd (record_terminal E io c k resp ev remote cls actuals t j))"
| "run_op E io io' (ReconcileOp key d k resp ev remote actuals w w' t) j =
     (None, snd (record_reconciliation E io key d k resp ev remote actuals w w' t j))"

lemma run_op_grows:
  assumes "sound_env E" and "good E j"
  shows "grows E j (snd (run_op E Durable Durable op j))"
proof (cases op)
  case (AdmitOp c t t')
  then show ?thesis using admit_grows [OF assms, of c t t'] by (auto split: prod.split)
qed (auto intro!: one_append_grows [OF assms] accept_one_append mark_one_append
    terminal_one_append reconciliation_one_append assms)

lemma run_op_reopens:
  assumes "sound_env E" and "good E j"
  shows "\<exists>j''. open_journal E (j_file (snd (run_op E io io' op j))) = Inr j'' \<and> grows E j j''"
proof (cases op)
  case (AdmitOp c t t')
  then show ?thesis using admit_reopens [OF assms, of io io' c t t'] by (auto split: prod.split)
qed (auto intro!: one_append_reopens [OF assms] accept_one_append mark_one_append
    terminal_one_append reconciliation_one_append assms)

lemma run_op_permit:
  assumes "sound_env E" and "good E j" and "run_op E io io' op j = (Some key, j')"
  shows "history key (j_records j) = []" and "list_ex begun (history key (j_records j'))"
proof -
  obtain c t t' where op: "op = AdmitOp c t t'"
    using assms(3) by (cases op) auto
  then have "admit_verified_execution E io io' c t t' j = (Inr FreshStarted, j')"
    and "key = command_key c"
    using assms(3) by (auto split: prod.splits if_splits)
  then show "history key (j_records j) = []" "list_ex begun (history key (j_records j'))"
    using admit_permit [OF assms(1,2)] by blast+
qed

text \<open>\<open>reachable E ps j\<close>: a journal in memory together with the permits granted so far. An operation
  runs with durable appends; or the process stops during it, after the append has left any part
  of its frame in the file, and the file is opened again.\<close>

inductive reachable :: "recorder_env \<Rightarrow> attempt_key list \<Rightarrow> Journal \<Rightarrow> bool" for E where
  created: "reachable E [] (empty_journal [])"
| refused: "reachable E ps j \<Longrightarrow> run_op E Durable Durable op j = (None, j') \<Longrightarrow> reachable E ps j'"
| permitted: "reachable E ps j \<Longrightarrow> run_op E Durable Durable op j = (Some key, j')
    \<Longrightarrow> reachable E (key # ps) j'"
| crashed: "reachable E ps j \<Longrightarrow> run_op E io io' op j = (None, j')
    \<Longrightarrow> open_journal E (j_file j') = Inr j'' \<Longrightarrow> reachable E ps j''"
| restarted: "reachable E ps j \<Longrightarrow> open_journal E (j_file j) = Inr j' \<Longrightarrow> reachable E ps j'"

inductive_cases reachable_snocE: "reachable E (key # ps) j"

lemma good_created: "good E (empty_journal [])"
  by (simp add: good_def consistent_def phases_ok_def empty_journal_def)

lemma begun_kept:
  "grows E j j' \<Longrightarrow> list_ex begun (history key (j_records j)) \<Longrightarrow> list_ex begun (history key (j_records j'))"
  using grows_history [of E j j' key] unfolding list_ex_iff by blast

lemma reachable_invariant:
  assumes "reachable E ps j" and "sound_env E"
  shows "good E j \<and> distinct ps \<and> (\<forall>key \<in> set ps. list_ex begun (history key (j_records j)))"
  using assms(1)
proof (induction rule: reachable.induct)
  case created
  show ?case by (simp add: good_created)
next
  case (refused ps j op j')
  then have "grows E j j'" using run_op_grows [OF assms(2), of j op] by simp
  with refused grows_good [OF _ assms(2)] begun_kept show ?case by blast
next
  case (permitted ps j op key j')
  then have g: "grows E j j'" using run_op_grows [OF assms(2), of j op] by simp
  have j: "good E j" using permitted by blast
  note k = run_op_permit [OF assms(2) j permitted(2)]
  have "key \<notin> set ps" using permitted k(1) by fastforce
  with k(2) permitted grows_good [OF g assms(2)] begun_kept [OF g] show ?case
    unfolding distinct.simps list.set by blast
next
  case (crashed ps j io io' op j' j'')
  then have g: "grows E j j''" using run_op_reopens [OF assms(2), of j io io' op] by auto
  with crashed grows_good [OF g assms(2)] begun_kept [OF g] show ?case by blast
next
  case (restarted ps j j')
  then have "j' = j" using open_same [OF assms(2)] by (auto simp: good_def)
  with restarted show ?case by simp
qed

subsection \<open>Files only grow\<close>

lemma append_prefix: "prefix (j_file j) (j_file (snd (append E io r j)))"
  by (auto simp: append_def index_record_def Let_def split: append_io.split option.split)

lemma append_new_prefix: "append_new E io r j = (res, j') \<Longrightarrow> prefix (j_file j) (j_file j')"
  using append_prefix [of j E io r] append_new_simps(1) [of E io r j] by simp

lemma accept_prefix: "accept E io c t j = (res, j') \<Longrightarrow> prefix (j_file j) (j_file j')"
  by (auto simp: accept_def Let_def dest: append_new_prefix
      split: sum.splits option.splits prod.splits)

lemma mark_prefix: "mark_invocation_started E io c t j = (res, j') \<Longrightarrow> prefix (j_file j) (j_file j')"
  by (auto simp: mark_invocation_started_def Let_def dest: append_new_prefix
      split: sum.splits if_splits)

lemma admit_prefix:
  "admit_verified_execution E io io' c t t' j = (res, j') \<Longrightarrow> prefix (j_file j) (j_file j')"
  by (auto simp: admit_verified_execution_def dest!: accept_prefix mark_prefix
      split: sum.splits option.splits prod.splits)

lemma accept_write_stops:
  assumes "sound_env E" and "good E j" and "history (command_key c) (j_records j) = []"
    and r: "r = new_record E c (command_digest E c) (plain_outcome Accepted t) j" and "fitting E r"
  shows "snd (accept E (WriteStops n) c t j) = j\<lparr>j_file := j_file j @ take n (frame_of E r)\<rparr>"
  using accept_fresh(1) [OF assms(1-3) r]
    accept_fresh(2) [OF assms(1-3) r, where io = "WriteStops n"] append_cases [of E j r "WriteStops n"] assms(2,5)
  by (simp add: good_def extends_def)

lemma latest_ignores_file [simp]: "latest_for c d (j\<lparr>j_file := f\<rparr>) = latest_for c d j"
  by (simp add: latest_for_def records_for_def cong: option.case_cong)

lemma admit_permit_latest:
  "admit_verified_execution E io io' c t t' j = (Inr FreshStarted, j')
   \<Longrightarrow> latest_for c (command_digest E c) j = Inr None"
  by (auto simp: admit_verified_execution_def split: sum.splits option.splits)

lemma open_torn_write:
  assumes "sound_env E" and "good E j" and "fitting E r" and "4 \<le> n"
    and "prefix (j_file j @ take n (frame_of E r)) f"
    and "length f < length (j_file j) + length (frame_of E r)" and "n \<le> length (frame_of E r)"
  shows "open_journal E f = Inr j"
proof -
  obtain x where f: "f = j_file j @ (take n (frame_of E r) @ x)"
    using assms(5) by (auto simp: prefix_def)
  have "torn_tail E r (take n (frame_of E r) @ x)"
    using assms(3,4,6,7) by (auto simp: torn_tail_def f min_def)
  then show ?thesis
    unfolding f using assms(2) by (intro open_consistent [OF assms(1)]) (simp_all add: good_def)
qed

subsection \<open>Properties\<close>

text \<open>C8: what a running recorder knows is what its file says. In every reachable state, opening
  the journal's file again succeeds and gives exactly the journal in memory, every record
  verified against the chain before it; every attempt is in its life cycle, and the index lists
  exactly the attempt's records.\<close>

theorem journal_invariant:
  assumes "reachable E ps j" and "sound_env E"
  shows "open_journal E (j_file j) = Inr j
    \<and> (\<forall>key. phase_of (history key (j_records j)) \<noteq> None)
    \<and> j_by_attempt j = (\<lambda>key. if history key (j_records j) = [] then None
      else Some (positions key (j_records j)))"
proof (intro conjI)
  have g: "good E j" using reachable_invariant [OF assms] by blast
  then show "open_journal E (j_file j) = Inr j"
    using open_same [OF assms(2)] by (simp add: good_def)
  show "\<forall>key. phase_of (history key (j_records j)) \<noteq> None"
    using g unfolding good_def phases_ok_def by blast
  show "j_by_attempt j = (\<lambda>key. if history key (j_records j) = [] then None
      else Some (positions key (j_records j)))"
    using good_first(2) [OF g] by (simp add: index_ok_def)
qed

text \<open>C1: execute once. Over all runs with crashes in any append and restarts, no attempt is
  permitted to run twice, every permitted attempt has a started record in the journal, and no
  attempt has two.\<close>

theorem execute_once:
  assumes "reachable E ps j" and "sound_env E"
  shows "distinct ps \<and> list_all (\<lambda>key. list_ex begun (history key (j_records j))) ps
    \<and> length (filter begun (history key (j_records j))) \<le> 1"
proof -
  note I = reachable_invariant [OF assms]
  obtain p where p: "phase_of (history key (j_records j)) = Some p"
    using I good_phase by blast
  have "length (filter begun (history key (j_records j))) \<le> 1"
    using phase_facts(5) [OF p] by (auto split: if_splits)
  with I show ?thesis by (auto simp: list_all_iff)
qed

text \<open>C6: appends are atomic under crashes. When the process stops anywhere in an operation, after
  any number of bytes of the append reached the file, the file opens again, and the recovered
  journal is the journal before the operation extended by records that continue the life cycle
  of their attempts: nothing recorded is lost, nothing is invented.\<close>

theorem crash_atomic:
  assumes "reachable E ps j" and "sound_env E" and "run_op E io io' op j = (None, j')"
  shows "\<exists>j''. open_journal E (j_file j') = Inr j'' \<and> grows E j j'' \<and> reachable E ps j''"
proof -
  obtain j'' where "open_journal E (j_file j') = Inr j''" and "grows E j j''"
    using run_op_reopens [OF assms(2), of j io io' op] reachable_invariant [OF assms(1,2)] assms(3)
    by auto
  with reachable.crashed [OF assms(1,3)] show ?thesis by blast
qed

text \<open>C35: a failed write that is not rolled back undoes later records. When an append stops after
  the length of its frame and the process carries on, a second attempt that fits in the rest of
  the announced frame is accepted, started and permitted; after a restart the file opens without
  an error, without that attempt's records, and the attempt is once more ready to be verified and
  run.\<close>

theorem torn_write_loses_started:
  assumes "reachable E ps j" and "sound_env E"
    and "history (command_key a) (j_records j) = []"
    and r: "r = new_record E a (command_digest E a) (plain_outcome Accepted t) j" and "fitting E r"
    and n: "4 \<le> n" "n \<le> length (frame_of E r)"
    and torn: "accept E (WriteStops n) a t j = (res, j1)"
    and again: "admit_verified_execution E Durable Durable b t1 t2 j1 = (Inr FreshStarted, j2)"
    and room: "length (j_file j2) < length (j_file j) + length (frame_of E r)"
  shows "open_journal E (j_file j2) = Inr j \<and> execution_state E b j = Inr RequiresLiveVerification"
proof -
  have g: "good E j" using reachable_invariant [OF assms(1,2)] by blast
  have j1: "j1 = j\<lparr>j_file := j_file j @ take n (frame_of E r)\<rparr>"
    using accept_write_stops [OF assms(2) g assms(3) r assms(5), of n] torn by simp
  have "prefix (j_file j @ take n (frame_of E r)) (j_file j2)"
    using admit_prefix [OF again] by (simp add: j1)
  then have "open_journal E (j_file j2) = Inr j"
    using open_torn_write [OF assms(2) g assms(5)] n room by blast
  moreover have "latest_for b (command_digest E b) j = Inr None"
    using admit_permit_latest [OF again] by (simp add: j1)
  ultimately show ?thesis by (simp add: execution_state_def)
qed

end
