(* ===== verification/Custody.thy ===== *)
theory Custody
  imports RecorderProtocol
begin

text \<open>
  Custody of the recorder's keys, \<^verbatim>\<open>crates/carsinos-effect-recorder/src/custody.rs\<close>: the
  signing record and the channel record in the keyring of the operating system, their text
  formats, and the self-check of the public identity. The keyring is a map from a service and an
  account to a text; Ed25519 is the parameter \<open>ed\<close>.
\<close>

definition CUSTODY_SERVICE :: string where
  "CUSTODY_SERVICE = ''com.carsinos.execass.effect-recorder.v1''"

definition CUSTODY_DOMAIN :: bytes where
  "CUSTODY_DOMAIN = ''carsinos.execass.effect-recorder.v1''"

definition CHANNEL_CUSTODY_SERVICE :: string where
  "CHANNEL_CUSTODY_SERVICE = ''com.carsinos.execass.effect-recorder.channel.v1''"

definition CHANNEL_CUSTODY_DOMAIN :: bytes where
  "CHANNEL_CUSTODY_DOMAIN = ''carsinos.execass.effect-recorder.channel.v1''"

record RecorderIdentity =
  ri_key_id :: string
  ri_key_generation :: u64
  ri_verifying_key_hex :: string
  ri_verifying_key_digest :: string

record RecorderCredential =
  cd_signing_seed :: bytes
  cd_channel_key :: bytes
  cd_identity :: RecorderIdentity

record RecorderChannelCredential =
  cc_channel_key :: bytes
  cc_identity :: RecorderIdentity

text \<open>\<open>ed25519_dalek\<close>: the verifying key of a seed, and which bytes are verifying keys.\<close>

record ed25519 =
  ed_verifying_key :: "bytes \<Rightarrow> bytes"
  ed_key_valid :: "bytes \<Rightarrow> bool"

datatype custody_error = Missing | Invalid | Unavailable

definition domain_key_id :: "externals \<Rightarrow> string \<Rightarrow> bytes \<Rightarrow> string" where
  "domain_key_id X root_identity verifying_key = ''effect-recorder-v1-'' @ sha256_hex X
     (CUSTODY_DOMAIN @ NUL # root_identity @ NUL # verifying_key)"

definition validate_for_root :: "externals \<Rightarrow> ed25519 \<Rightarrow> RecorderIdentity \<Rightarrow> string \<Rightarrow> string + unit" where
  "validate_for_root X ed i root_identity =
     (if ri_key_generation i \<noteq> 1 then Inl ''recorder channel key generation is unsupported''
      else case hex_decode 32 (ri_verifying_key_hex i) of
        None \<Rightarrow> Inl ''recorder channel verifying key is not canonical 32-byte hex''
      | Some verifying_key \<Rightarrow>
          if \<not> ed_key_valid ed verifying_key then Inl ''recorder channel verifying key is invalid''
          else if ri_verifying_key_digest i \<noteq> sha256_hex X verifying_key
          then Inl ''recorder channel verifying-key digest does not match its key''
          else if ri_key_id i \<noteq> domain_key_id X root_identity verifying_key
          then Inl ''recorder channel key ID does not match the recorder custody domain''
          else Inr ())"

definition from_parts :: "externals \<Rightarrow> ed25519 \<Rightarrow> bytes \<Rightarrow> bytes \<Rightarrow> string \<Rightarrow> RecorderCredential" where
  "from_parts X ed seed channel_key root_identity =
     (let verifying = ed_verifying_key ed seed
      in \<lparr>cd_signing_seed = seed, cd_channel_key = channel_key,
          cd_identity = \<lparr>ri_key_id = domain_key_id X root_identity verifying, ri_key_generation = 1,
            ri_verifying_key_hex = hex_encode verifying,
            ri_verifying_key_digest = sha256_hex X verifying\<rparr>\<rparr>)"

definition custody_account :: "externals \<Rightarrow> string \<Rightarrow> string" where
  "custody_account X root_identity = ''root-'' @ sha256_hex X (CUSTODY_DOMAIN @ NUL # root_identity)"

definition channel_custody_account :: "externals \<Rightarrow> string \<Rightarrow> string" where
  "channel_custody_account X root_identity =
     ''root-'' @ sha256_hex X (CHANNEL_CUSTODY_DOMAIN @ NUL # root_identity)"

subsection \<open>Texts of the records\<close>

abbreviation bar :: char where "bar \<equiv> CHR ''|''"

definition custody_payload :: "string \<Rightarrow> bytes \<Rightarrow> bytes \<Rightarrow> string" where
  "custody_payload root_identity seed channel =
     ''carsinos-effect-recorder-custody-v1'' @ bar # root_identity @ bar # hex_encode seed
       @ bar # hex_encode channel"

definition channel_payload :: "string \<Rightarrow> RecorderCredential \<Rightarrow> string" where
  "channel_payload root_identity c =
     (let i = cd_identity c
      in ''carsinos-effect-recorder-channel-v1'' @ bar # root_identity
           @ bar # hex_encode (cd_channel_key c) @ bar # ri_key_id i
           @ bar # show_nat (unat (ri_key_generation i)) @ bar # ri_verifying_key_hex i
           @ bar # ri_verifying_key_digest i)"

text \<open>\<open>str::parse::<u64>\<close>: an optional plus sign, digits, no overflow.\<close>

definition parse_u64 :: "string \<Rightarrow> u64 option" where
  "parse_u64 s =
     (let ds = (case s of c # t \<Rightarrow> if c = CHR ''+'' then t else s | [] \<Rightarrow> [])
      in if ds \<noteq> [] \<and> list_all is_ascii_digit ds \<and> read_nat ds < 2 ^ 64
         then Some (of_nat (read_nat ds)) else None)"

definition hex_key :: "string \<Rightarrow> string + bytes" where
  "hex_key s = of_option ''hex value is not canonical'' (hex_decode 32 s)"

definition parse_payload :: "externals \<Rightarrow> ed25519 \<Rightarrow> string \<Rightarrow> string \<Rightarrow> string + RecorderCredential" where
  "parse_payload X ed payload root_identity =
     (case split_on bar payload of
        [tag, root, seed, channel] \<Rightarrow>
          if tag \<noteq> ''carsinos-effect-recorder-custody-v1'' \<or> root \<noteq> root_identity
          then Inl ''recorder OS custody entry has the wrong root binding''
          else rbind (hex_key seed) (\<lambda>s. rbind (hex_key channel) (\<lambda>c.
            Inr (from_parts X ed s c root_identity)))
      | _ \<Rightarrow> Inl ''recorder OS custody entry has the wrong root binding'')"

definition parse_channel_payload ::
    "externals \<Rightarrow> ed25519 \<Rightarrow> string \<Rightarrow> string \<Rightarrow> string + RecorderChannelCredential" where
  "parse_channel_payload X ed payload root_identity =
     (case split_on bar payload of
        [tag, root, channel, key_id, generation, verifying, digest] \<Rightarrow>
          if tag \<noteq> ''carsinos-effect-recorder-channel-v1'' \<or> root \<noteq> root_identity
          then Inl ''recorder channel OS custody entry has the wrong root binding''
          else rbind (hex_key channel) (\<lambda>c.
            rbind (of_option ''invalid recorder channel key generation'' (parse_u64 generation)) (\<lambda>g.
            let i = \<lparr>ri_key_id = key_id, ri_key_generation = g, ri_verifying_key_hex = verifying,
                  ri_verifying_key_digest = digest\<rparr>
            in rbind (validate_for_root X ed i root_identity) (\<lambda>_.
              Inr \<lparr>cc_channel_key = c, cc_identity = i\<rparr>)))
      | _ \<Rightarrow> Inl ''recorder channel OS custody entry has the wrong root binding'')"

subsection \<open>The keyring\<close>

record keyring =
  kr_entries :: "string \<times> string \<Rightarrow> string option"
  kr_readable :: bool
  kr_writable :: bool

definition set_password :: "string \<times> string \<Rightarrow> string \<Rightarrow> keyring \<Rightarrow> string + keyring" where
  "set_password entry value K =
     (if kr_writable K then Inr (K\<lparr>kr_entries := (kr_entries K)(entry \<mapsto> value)\<rparr>)
      else Inl ''writing recorder OS custody entry'')"

definition persist_channel_credential ::
    "externals \<Rightarrow> ed25519 \<Rightarrow> string \<Rightarrow> RecorderCredential \<Rightarrow> keyring \<Rightarrow> string + keyring" where
  "persist_channel_credential X ed root_identity c K =
     (let entry = (CHANNEL_CUSTODY_SERVICE, channel_custody_account X root_identity)
      in if \<not> kr_readable K then Inl ''reading recorder channel OS custody entry''
         else case kr_entries K entry of
           Some existing \<Rightarrow>
             rbind (parse_channel_payload X ed existing root_identity) (\<lambda>e.
               if cc_channel_key e \<noteq> cd_channel_key c \<or> cc_identity e \<noteq> cd_identity c
               then Inl ''recorder channel custody does not match signing custody identity''
               else Inr K)
         | None \<Rightarrow> set_password entry (channel_payload root_identity c) K)"

text \<open>The seed and the channel key that a first start draws from \<open>getrandom\<close> are arguments. The
  signing record is written before the channel record; a failure in between keeps it.\<close>

definition load_or_create ::
    "externals \<Rightarrow> ed25519 \<Rightarrow> bytes \<Rightarrow> bytes \<Rightarrow> string \<Rightarrow> keyring
     \<Rightarrow> (string + RecorderCredential) \<times> keyring" where
  "load_or_create X ed seed channel root_identity K =
     (let entry = (CUSTODY_SERVICE, custody_account X root_identity);
          created = (if \<not> kr_readable K then Inl ''reading recorder OS custody entry''
            else case kr_entries K entry of
              Some value \<Rightarrow> rbind (parse_payload X ed value root_identity) (\<lambda>c. Inr (c, K))
            | None \<Rightarrow> rbind (set_password entry (custody_payload root_identity seed channel) K)
                (\<lambda>K'. Inr (from_parts X ed seed channel root_identity, K')))
      in case created of
           Inl e \<Rightarrow> (Inl e, K)
         | Inr (c, K') \<Rightarrow>
             (case persist_channel_credential X ed root_identity c K' of
                Inl e \<Rightarrow> (Inl e, K') | Inr K'' \<Rightarrow> (Inr c, K'')))"

definition load_existing ::
    "externals \<Rightarrow> ed25519 \<Rightarrow> string \<Rightarrow> keyring \<Rightarrow> custody_error + RecorderChannelCredential" where
  "load_existing X ed root_identity K =
     (if \<not> kr_readable K then Inl Unavailable
      else case kr_entries K (CHANNEL_CUSTODY_SERVICE, channel_custody_account X root_identity) of
        None \<Rightarrow> Inl Missing
      | Some value \<Rightarrow>
          (case parse_channel_payload X ed value root_identity of
             Inl _ \<Rightarrow> Inl Invalid | Inr c \<Rightarrow> Inr c))"

subsection \<open>Reading back\<close>

lemma split_on_fields:
  "d \<notin> set a \<Longrightarrow> split_on d (a @ d # b) = a # split_on d b"
  by (simp add: split_on_append split_on_absent)

lemma hex_no_bar [simp]: "bar \<notin> set (hex_encode b)"
  using hex_encode_lower [of b]
  by (auto simp: list_all_iff is_lower_hex_digit_def is_ascii_digit_def)

lemma hex_key_encode [simp]: "length b = 32 \<Longrightarrow> hex_key (hex_encode b) = Inr b"
  by (simp add: hex_key_def)

lemma digits_no_bar [simp]: "bar \<notin> set (show_nat n)"
  using show_nat_digits [of n] by (auto simp: list_all_iff is_ascii_digit_def)

lemma parse_show_u64 [simp]: "parse_u64 (show_nat (unat v)) = Some v"
proof -
  obtain c s where s: "show_nat (unat v) = c # s" by (cases "show_nat (unat v)") auto
  then have "c \<noteq> CHR ''+''" using show_nat_digits [of "unat v"] by (auto simp: is_ascii_digit_def)
  then show ?thesis
    using show_nat_digits [of "unat v"] read_show_nat [of "unat v"] unsigned_less [of v]
    by (simp add: parse_u64_def s)
qed

text \<open>Documented of Ed25519: the verifying key of a seed is a key of 32 bytes.\<close>

definition derives_keys :: "ed25519 \<Rightarrow> bool" where
  "derives_keys ed \<longleftrightarrow> (\<forall>seed. length (ed_verifying_key ed seed) = 32
     \<and> ed_key_valid ed (ed_verifying_key ed seed))"

lemma identity_valid:
  "derives_keys ed \<Longrightarrow> validate_for_root X ed (cd_identity (from_parts X ed s c root)) root = Inr ()"
  by (simp add: validate_for_root_def from_parts_def Let_def derives_keys_def)

lemma parse_custody_payload:
  assumes "bar \<notin> set root" and "length seed = 32" and "length channel = 32"
  shows "parse_payload X ed (custody_payload root seed channel) root = Inr (from_parts X ed seed channel root)"
proof -
  have "split_on bar (custody_payload root seed channel)
      = [''carsinos-effect-recorder-custody-v1'', root, hex_encode seed, hex_encode channel]"
    unfolding custody_payload_def using assms(1) by (simp add: split_on_fields split_on_absent)
  then show ?thesis using assms(2,3) by (simp add: parse_payload_def)
qed

lemma identity_eta [simp]:
  "\<lparr>ri_key_id = ri_key_id i, ri_key_generation = ri_key_generation i,
     ri_verifying_key_hex = ri_verifying_key_hex i,
     ri_verifying_key_digest = ri_verifying_key_digest i\<rparr> = i"
  by (cases i) simp

lemma parse_channel_text:
  assumes "bar \<notin> set root" and "length c = 32" and "derives_keys ed"
  shows "parse_channel_payload X ed (channel_payload root (from_parts X ed s c root)) root
    = Inr \<lparr>cc_channel_key = c, cc_identity = cd_identity (from_parts X ed s c root)\<rparr>"
proof -
  let ?f = "from_parts X ed s c root" let ?i = "cd_identity (from_parts X ed s c root)"
  have f: "cd_channel_key ?f = c" "bar \<notin> set (ri_key_id ?i)" "bar \<notin> set (ri_verifying_key_hex ?i)"
    "bar \<notin> set (ri_verifying_key_digest ?i)"
    by (simp_all add: from_parts_def Let_def domain_key_id_def sha256_hex_def)
  have "split_on bar (channel_payload root ?f)
      = [''carsinos-effect-recorder-channel-v1'', root, hex_encode c, ri_key_id ?i,
         show_nat (unat (ri_key_generation ?i)), ri_verifying_key_hex ?i, ri_verifying_key_digest ?i]"
    unfolding channel_payload_def Let_def f(1)
    using assms(1) f by (simp add: split_on_fields split_on_absent)
  then show ?thesis
    using assms(2) identity_valid [OF assms(3), of X s c root] by (simp add: parse_channel_payload_def)
qed

text \<open>C37: one custody for the recorder and its clients. On a working keyring without records of the root, the recorder's first
  start creates both records; every later start, whatever it would draw, returns the same
  credential and leaves the keyring alone; and a client reads exactly the channel key and the
  identity the recorder has, which pass their own check.\<close>

theorem custody_roundtrip:
  assumes "bar \<notin> set root" and "length seed = 32" and "length channel = 32" and "derives_keys ed"
    and "kr_readable K" and "kr_writable K"
    and "kr_entries K (CUSTODY_SERVICE, custody_account X root) = None"
    and "kr_entries K (CHANNEL_CUSTODY_SERVICE, channel_custody_account X root) = None"
    and run: "load_or_create X ed seed channel root K = (res, K')"
  shows "res = Inr (from_parts X ed seed channel root)
    \<and> load_or_create X ed seed' channel' root K' = (res, K')
    \<and> load_existing X ed root K'
        = Inr \<lparr>cc_channel_key = channel, cc_identity = cd_identity (from_parts X ed seed channel root)\<rparr>
    \<and> validate_for_root X ed (cd_identity (from_parts X ed seed channel root)) root = Inr ()"
proof -
  let ?c = "from_parts X ed seed channel root"
  have ne: "CUSTODY_SERVICE \<noteq> CHANNEL_CUSTODY_SERVICE"
    by (simp add: CUSTODY_SERVICE_def CHANNEL_CUSTODY_SERVICE_def)
  have key: "cd_channel_key ?c = channel" by (simp add: from_parts_def Let_def)
  let ?K = "K\<lparr>kr_entries := (kr_entries K)
      ((CUSTODY_SERVICE, custody_account X root) \<mapsto> custody_payload root seed channel,
       (CHANNEL_CUSTODY_SERVICE, channel_custody_account X root) \<mapsto> channel_payload root ?c)\<rparr>"
  have K': "res = Inr ?c" "K' = ?K"
    using run assms(5-8) ne
    by (simp_all add: load_or_create_def set_password_def persist_channel_credential_def)
  note p = parse_custody_payload [OF assms(1-3)] parse_channel_text [OF assms(1,3,4)]
  have "load_or_create X ed seed' channel' root K' = (res, K')"
    using assms(5) ne p by (simp add: K' load_or_create_def persist_channel_credential_def key)
  moreover have "load_existing X ed root K'
      = Inr \<lparr>cc_channel_key = channel, cc_identity = cd_identity ?c\<rparr>"
    using assms(5) p(2) by (simp add: K'(2) load_existing_def)
  ultimately show ?thesis using K'(1) identity_valid [OF assms(4)] by blast
qed

definition sample_ed :: ed25519 where
  "sample_ed = \<lparr>ed_verifying_key = digest32, ed_key_valid = (\<lambda>_. True)\<rparr>"

definition empty_keyring :: keyring where
  "empty_keyring = \<lparr>kr_entries = (\<lambda>_. None), kr_readable = True, kr_writable = True\<rparr>"

lemma custody_roundtrip_witness:
  "\<exists>res K'. load_or_create wire_externals sample_ed (digest32 ''s'') (digest32 ''c'') ''r'' empty_keyring
       = (res, K')
     \<and> load_or_create wire_externals sample_ed [] [] ''r'' K' = (res, K') \<and> is_ok res
     \<and> is_ok (load_existing wire_externals sample_ed ''r'' K')"
proof -
  have d: "derives_keys sample_ed" by (simp add: derives_keys_def sample_ed_def)
  obtain res K' where run: "load_or_create wire_externals sample_ed (digest32 ''s'') (digest32 ''c'')
      ''r'' empty_keyring = (res, K')" by fastforce
  show ?thesis
    using custody_roundtrip [OF _ length_digest32 length_digest32 d _ _ _ _ run, of "[]" "[]"] run
    by (auto simp: empty_keyring_def)
qed

end
