(* ===== verification/RecorderIpc.thy ===== *)
theory RecorderIpc
  imports RecorderService ExecuteOnce Custody
begin

text \<open>
  The recorder's transport, \<^verbatim>\<open>crates/carsinos-effect-recorder/src/ipc/mod.rs\<close>: one connection
  carries the client's challenge, the server's signed attestation, the request and the reply, each
  a length-prefixed frame. A party reads from the bytes that arrive and returns the bytes it
  wrote. The deserializers \<open>derive(Deserialize)\<close> generates for the four messages are arguments,
  and so is Ed25519's strict verification. Sockets, pipes and peer credentials of the operating
  system are left out.
\<close>

subsection \<open>Messages on a stream\<close>

definition write_message :: "externals \<Rightarrow> json \<Rightarrow> string + bytes" where
  "write_message X v = map_sum (\<lambda>_. ''recorder frame exceeds the fixed limit'') id (encode_frame X v)"

definition read_message :: "(bytes \<Rightarrow> string + 'a) \<Rightarrow> bytes \<Rightarrow> string + ('a \<times> bytes)" where
  "read_message from_slice s =
     (if length s < 4 then Inl ''early eof''
      else let len = be_nat (take 4 s)
           in if RECORDER_MAX_FRAME_BYTES < len then Inl ''recorder frame exceeds the fixed limit''
              else if length s < 4 + len then Inl ''early eof''
              else case decode_frame from_slice (take (4 + len) s) of
                Inl _ \<Rightarrow> Inl ''recorder message does not decode''
              | Inr v \<Rightarrow> Inr (v, drop (4 + len) s))"

definition challenge_json :: "RecorderHandshakeChallengeV1 \<Rightarrow> json" where
  "challenge_json c = JObject
     [(''handshake_version'', JString (hc_handshake_version c)),
      (''binding'', binding_json (hc_binding c)), (''client_nonce'', JString (hc_client_nonce c)),
      (''request_authentication_digest'', JString (hc_request_authentication_digest c))]"

fun reply_json :: "RecorderReplyV1 \<Rightarrow> json" where
  "reply_json (Observation i replayed ob) = JObject
     [(''status'', JString ''observation''), (''request_id'', JString i),
      (''replayed'', JBool replayed), (''observation'', observation_json ob)]"
| "reply_json (NotFound i) = JObject
     [(''status'', JString ''not_found''), (''request_id'', JString i)]"
| "reply_json (Rejected i code) = JObject
     [(''status'', JString ''rejected''), (''request_id'', JString i), (''code'', JString code)]"

fun client_nonce :: "RecorderRequestV1 \<Rightarrow> string" where
  "client_nonce (ExecuteOnce c) = eo_client_nonce c"
| "client_nonce (QueryOnly q) = qo_client_nonce q"
| "client_nonce (Reconcile r) = rc_client_nonce r"

text \<open>The deserializers of the four messages.\<close>

record readers =
  rd_challenge :: "bytes \<Rightarrow> string + RecorderHandshakeChallengeV1"
  rd_attestation :: "bytes \<Rightarrow> string + RecorderHandshakeAttestationV1"
  rd_request :: "bytes \<Rightarrow> string + RecorderRequestV1"
  rd_reply :: "bytes \<Rightarrow> string + RecorderReplyV1"

subsection \<open>What the client checks\<close>

text \<open>A client: the key of the channel, the pinned identity, and Ed25519's \<open>from_bytes\<close> and
  \<open>verify_strict\<close>.\<close>

record recorder_client =
  cl_channel_key :: bytes
  cl_identity :: RecorderIdentity
  cl_ed :: ed25519
  cl_verify_strict :: "bytes \<Rightarrow> bytes \<Rightarrow> bytes \<Rightarrow> bool"

definition request_digest :: "externals \<Rightarrow> RecorderRequestV1 \<Rightarrow> string" where
  "request_digest X r = ''sha256:'' @ sha256_hex X (authentication_bytes X r)"

definition challenge_for :: "externals \<Rightarrow> RecorderRequestV1 \<Rightarrow> RecorderHandshakeChallengeV1" where
  "challenge_for X r = \<lparr>hc_handshake_version = RECORDER_HANDSHAKE_VERSION,
     hc_binding = request_binding r, hc_client_nonce = client_nonce r,
     hc_request_authentication_digest = request_digest X r\<rparr>"

definition strictly_signed :: "recorder_client \<Rightarrow> string \<Rightarrow> bytes \<Rightarrow> string \<Rightarrow> bool" where
  "strictly_signed C key_hex message signature_hex =
     (case (hex_decode 32 key_hex, hex_decode 64 signature_hex) of
        (Some key, Some signature) \<Rightarrow>
          ed_key_valid (cl_ed C) key \<and> cl_verify_strict C key message signature
      | _ \<Rightarrow> False)"

definition verify_handshake ::
    "externals \<Rightarrow> recorder_client \<Rightarrow> RecorderHandshakeChallengeV1 \<Rightarrow> RecorderHandshakeAttestationV1
     \<Rightarrow> string + unit" where
  "verify_handshake X C ch at =
     (if ha_handshake_version at \<noteq> RECORDER_HANDSHAKE_VERSION \<or> ha_binding at \<noteq> hc_binding ch
         \<or> ha_client_nonce at \<noteq> hc_client_nonce ch
         \<or> ha_request_authentication_digest at \<noteq> hc_request_authentication_digest ch
         \<or> ha_server_nonce at = [] \<or> ha_recorder_key_id at \<noteq> ri_key_id (cl_identity C)
         \<or> ha_recorder_key_generation at \<noteq> ri_key_generation (cl_identity C)
         \<or> ha_recorder_verifying_key_hex at \<noteq> ri_verifying_key_hex (cl_identity C)
      then Inl ''recorder handshake does not match the pinned transcript''
      else if \<not> strictly_signed C (ha_recorder_verifying_key_hex at) (attestation_signing_bytes X at)
               (ha_signature_hex at)
      then Inl ''recorder handshake signature is invalid'' else Inr ())"

definition reply_request_id :: "RecorderReplyV1 \<Rightarrow> string" where
  "reply_request_id reply = (case reply of Observation i _ _ \<Rightarrow> i | NotFound i \<Rightarrow> i | Rejected i _ \<Rightarrow> i)"

definition observation_binding_ok :: "RecorderBindingV1 \<Rightarrow> SignedRecorderObservationV1 \<Rightarrow> bool" where
  "observation_binding_ok b ob \<longleftrightarrow>
     ob_installation_id ob = rb_installation_id b
     \<and> ob_state_root_generation ob = rb_state_root_generation b
     \<and> ob_canonical_root_identity ob = rb_canonical_root_identity b
     \<and> ob_os_user_identity_digest ob = rb_os_user_identity_digest b"

text \<open>\<open>Journal::command_digest\<close> uses no key; the journal's environment stands for its SHA-256 and JSON.\<close>

fun expected_attempt :: "recorder_env \<Rightarrow> RecorderRequestV1 \<Rightarrow> string \<times> string option" where
  "expected_attempt E (ExecuteOnce c) = (eo_attempt_id c, Some (command_digest E c))"
| "expected_attempt E (QueryOnly q) = (qo_attempt_id q, qo_expected_command_digest q)"
| "expected_attempt E (Reconcile r) = (rc_attempt_id r, Some (rc_expected_command_digest r))"

definition verify_reply_binding ::
    "recorder_env \<Rightarrow> RecorderRequestV1 \<Rightarrow> RecorderReplyV1 \<Rightarrow> string + unit" where
  "verify_reply_binding E r reply =
     (if reply_request_id reply \<noteq> request_id r
      then Inl ''recorder reply request ID does not match the call''
      else case reply of
        Observation _ _ ob \<Rightarrow>
          (let (attempt_id, expected) = expected_attempt E r
           in if \<not> observation_binding_ok (request_binding r) ob
              then Inl ''recorder observation binding does not match the call''
              else if ob_attempt_id ob \<noteq> attempt_id
                 \<or> (case expected of None \<Rightarrow> False | Some d \<Rightarrow> ob_command_digest ob \<noteq> d)
              then Inl ''recorder observation attempt does not match the call''
              else (case r of
                 Reconcile rc \<Rightarrow>
                   if ob_reconciliation_key_digest ob \<noteq> Some (rc_reconciliation_key_digest rc)
                   then Inl ''recorder observation reconciliation identity does not match''
                   else Inr ()
               | _ \<Rightarrow> Inr ()))
      | _ \<Rightarrow> Inr ())"

definition verify_observation ::
    "externals \<Rightarrow> recorder_client \<Rightarrow> SignedRecorderObservationV1 \<Rightarrow> string + unit" where
  "verify_observation X C ob =
     (if ob_recorder_key_id ob \<noteq> ri_key_id (cl_identity C)
         \<or> ob_recorder_key_generation ob \<noteq> ri_key_generation (cl_identity C)
      then Inl ''recorder observation key does not match the pinned identity''
      else if \<not> strictly_signed C (ri_verifying_key_hex (cl_identity C))
               (recorder_observation_signing_bytes X ob) (ob_signature_hex ob)
      then Inl ''recorder observation signature is invalid'' else Inr ())"

definition verify_reply ::
    "recorder_env \<Rightarrow> recorder_client \<Rightarrow> RecorderRequestV1 \<Rightarrow> RecorderReplyV1 \<Rightarrow> string + unit" where
  "verify_reply E C r reply =
     rbind (verify_reply_binding E r reply) (\<lambda>_.
       case reply of Observation _ _ ob \<Rightarrow> verify_observation (je_ext E) C ob | _ \<Rightarrow> Inr ())"

subsection \<open>What the server checks\<close>

definition verify_request_transcript ::
    "externals \<Rightarrow> RecorderHandshakeChallengeV1 \<Rightarrow> RecorderHandshakeAttestationV1 \<Rightarrow> RecorderRequestV1
     \<Rightarrow> string + unit" where
  "verify_request_transcript X ch at r =
     (if request_binding r \<noteq> ha_binding at \<or> client_nonce r \<noteq> ha_client_nonce at
         \<or> request_digest X r \<noteq> hc_request_authentication_digest ch
         \<or> request_digest X r \<noteq> ha_request_authentication_digest at
      then Inl ''recorder request does not match its signed handshake transcript'' else Inr ())"

subsection \<open>The two parties\<close>

text \<open>\<open>RecorderClient::send\<close> checks its identity and signs, then exchanges. The result is the reply
  or the error, with the bytes written.\<close>

definition exchange_stream ::
    "recorder_env \<Rightarrow> readers \<Rightarrow> recorder_client \<Rightarrow> RecorderRequestV1 \<Rightarrow> bytes
     \<Rightarrow> (string + RecorderReplyV1) \<times> bytes" where
  "exchange_stream E D C r incoming =
     (let X = je_ext E; ch = challenge_for X r
      in case write_message X (challenge_json ch) of
           Inl e \<Rightarrow> (Inl e, [])
         | Inr sent \<Rightarrow>
             (case rbind (read_message (rd_attestation D) incoming) (\<lambda>(at, rest).
                 rbind (verify_handshake X C ch at) (\<lambda>_. Inr rest)) of
                Inl e \<Rightarrow> (Inl e, sent)
              | Inr rest \<Rightarrow>
                  (case write_message X (request_json r) of
                     Inl e \<Rightarrow> (Inl e, sent)
                   | Inr sent' \<Rightarrow>
                       (rbind (read_message (rd_reply D) rest) (\<lambda>(reply, _).
                          rbind (verify_reply E C r reply) (\<lambda>_. Inr reply)), sent @ sent'))))"

definition client_send ::
    "recorder_env \<Rightarrow> readers \<Rightarrow> recorder_client \<Rightarrow> (bytes \<Rightarrow> bytes \<Rightarrow> bytes) \<Rightarrow> RecorderRequestV1 \<Rightarrow> bytes
     \<Rightarrow> (string + RecorderReplyV1) \<times> bytes" where
  "client_send E D C mac r incoming =
     (case validate_for_root (je_ext E) (cl_ed C) (cl_identity C)
             (rb_canonical_root_identity (request_binding r)) of
        Inl e \<Rightarrow> (Inl e, [])
      | Inr _ \<Rightarrow> exchange_stream E D C (sign_request (je_ext E) mac (cl_channel_key C) r) incoming)"

definition handle_stream ::
    "recorder_service \<Rightarrow> readers \<Rightarrow> request_world \<Rightarrow> string \<Rightarrow> bytes \<Rightarrow> Journal \<Rightarrow> file_system
     \<Rightarrow> (string + unit) \<times> bytes \<times> Journal \<times> file_system" where
  "handle_stream R D w server_nonce incoming j F =
     (let X = rs_ext R
      in case rbind (read_message (rd_challenge D) incoming) (\<lambda>(ch, rest).
              rbind (map_sum error_code id (handshake R (w_snapshot w) (w_now w) ch server_nonce)) (\<lambda>at.
              rbind (write_message X (attestation_json at)) (\<lambda>sent. Inr (ch, at, sent, rest)))) of
           Inl e \<Rightarrow> (Inl e, [], j, F)
         | Inr (ch, at, sent, rest) \<Rightarrow>
             (case rbind (read_message (rd_request D) rest) (\<lambda>(r, _).
                 rbind (verify_request_transcript X ch at r) (\<lambda>_. Inr r)) of
                Inl e \<Rightarrow> (Inl e, sent, j, F)
              | Inr r \<Rightarrow>
                  (let (reply, j', F') = handle R w r j F
                   in case write_message X (reply_json reply) of
                        Inl e \<Rightarrow> (Inl e, sent, j', F')
                      | Inr sent' \<Rightarrow> (Inr (), sent @ sent', j', F'))))"

end
