(* ===== verification/ServiceSafety.thy ===== *)
theory ServiceSafety
  imports RecorderIpc
begin

text \<open>
  Replies of the recorder are well typed: every observation it sends is a record of its journal,
  attested by its key and about the attempt that was asked for, so that the client's checks
  accept it; and a session of a client and the recorder runs to its end.
\<close>

subsection \<open>The records behind replies\<close>

lemma append_new_Inr:
  assumes "append_new E io r j = (Inr x, j')"
  shows "x = r" and "j_records j' = j_records j @ [r]"
proof -
  have "fst (append E io r j) = Inr () \<and> x = r \<and> j' = snd (append E io r j)"
    using assms by (auto simp: append_new_def split: prod.splits sum.splits)
  then show "x = r" "j_records j' = j_records j @ [r]"
    by (auto simp: append_def index_record_def Let_def split: if_splits append_io.splits option.splits)
qed

lemma query_record:
  assumes "good E j" and "query key expected j = Inr (Some r)"
  shows "r \<in> set (history key (j_records j))"
    and "\<And>d. expected = Some d \<Longrightarrow> ob_command_digest r = d"
proof -
  let ?h = "history key (j_records j)"
  have h: "?h \<noteq> []" and r: "r = last ?h"
    and e: "\<And>d. expected = Some d \<Longrightarrow> d = ob_command_digest (hd ?h)"
    using assms(2) by (auto simp: query_good [OF assms(1)] Let_def split: if_splits)
  then show i: "r \<in> set ?h" by simp
  show "ob_command_digest r = d" if "expected = Some d" for d
    using good_first(1) [OF assms(1)] i e [OF that] unfolding first_ok_def list_all_iff by metis
qed

lemma latest_record:
  assumes "good E j" and "latest_for c (command_digest E c) j = Inr (Some r)"
  shows "r \<in> set (history (command_key c) (j_records j))" and "ob_command_digest r = command_digest E c"
proof -
  let ?h = "history (command_key c) (j_records j)"
  have h: "?h \<noteq> []" and r: "r = last ?h" and e: "ob_command_digest (hd ?h) = command_digest E c"
    using assms(2) by (auto simp: latest_for_good [OF assms(1)] Let_def split: if_splits)
  then show i: "r \<in> set ?h" by simp
  show "ob_command_digest r = command_digest E c"
    using good_first(1) [OF assms(1)] i e unfolding first_ok_def list_all_iff by metis
qed

lemma terminal_record:
  assumes "record_terminal E io c k resp ev remote cls actuals t j = (Inr r, j')"
  shows "\<exists>out. r = new_record E c (command_digest E c) out j
      \<and> shaped (ro_kind out) (ro_source out) (ro_provider_error_class out)"
    and "j_records j' = j_records j @ [r]"
proof -
  let ?out = "\<lparr>ro_kind = k, ro_source = Execution, ro_response_digest = Some resp,
    ro_remote_effect_id = remote, ro_evidence_payload_digest = Some ev,
    ro_provider_error_class = cls, ro_actuals = actuals, ro_window_start_ms = None,
    ro_window_end_ms = None, ro_observed_at_ms = t\<rparr>"
  have a: "append_new E io (new_record E c (command_digest E c) ?out j) j = (Inr r, j')"
    and s: "shaped k Execution cls"
    using assms
    by (auto simp: record_terminal_def Let_def validate_shape_iff shape_of_def split: if_splits sum.splits)
  show "\<exists>out. r = new_record E c (command_digest E c) out j
      \<and> shaped (ro_kind out) (ro_source out) (ro_provider_error_class out)"
    using append_new_Inr(1) [OF a] s by (intro exI [of _ ?out]) simp
  show "j_records j' = j_records j @ [r]"
    using append_new_Inr [OF a] by simp
qed

lemma reconciliation_recorded:
  assumes "record_reconciliation E io key d k resp ev remote actuals w w' t j = (Inr r, j')"
    and "query key (Some d) j = Inr (Some prior)"
  shows "\<exists>out. r = reconciliation_record E prior out j" and "j_records j' = j_records j @ [r]"
proof -
  obtain out where a: "append_new E io (reconciliation_record E prior out j) j = (Inr r, j')"
    using assms by (auto simp: record_reconciliation_def split: if_splits)
  then show "\<exists>out. r = reconciliation_record E prior out j" "j_records j' = j_records j @ [r]"
    using append_new_Inr [OF a] by auto
qed

text \<open>What a reply must be made of.\<close>

definition record_for :: "recorder_env \<Rightarrow> RecorderRequestV1 \<Rightarrow> JournalRecordV1 \<Rightarrow> bool" where
  "record_for E q r \<longleftrightarrow> attested E r
     \<and> observation_binding_ok (request_binding q) (observation_of_record r)
     \<and> ob_attempt_id r = fst (expected_attempt E q)
     \<and> (case snd (expected_attempt E q) of None \<Rightarrow> True | Some d \<Rightarrow> ob_command_digest r = d)
     \<and> (case q of Reconcile rc \<Rightarrow> ob_reconciliation_key_digest r = Some (rc_reconciliation_key_digest rc)
         | _ \<Rightarrow> True)"

fun request_key :: "RecorderRequestV1 \<Rightarrow> attempt_key" where
  "request_key (ExecuteOnce c) = command_key c"
| "request_key (QueryOnly q) =
     (rb_installation_id (qo_binding q), rb_state_root_generation (qo_binding q), qo_attempt_id q)"
| "request_key (Reconcile r) = reconcile_key r"

text \<open>The records of the requested attempt belong to the request's root and user: an installation
  has one root and one user.\<close>

definition one_root :: "RecorderRequestV1 \<Rightarrow> Journal \<Rightarrow> bool" where
  "one_root q j \<longleftrightarrow> list_all (\<lambda>r.
       ob_canonical_root_identity r = rb_canonical_root_identity (request_binding q)
       \<and> ob_os_user_identity_digest r = rb_os_user_identity_digest (request_binding q))
     (history (request_key q) (j_records j))"

text \<open>The same without root and user, which a query and a replay do not compare; an observation or a
  record of the request's root and user.\<close>

definition record_about :: "recorder_env \<Rightarrow> RecorderRequestV1 \<Rightarrow> JournalRecordV1 \<Rightarrow> bool" where
  "record_about E q r \<longleftrightarrow> attested E r
     \<and> ob_installation_id r = rb_installation_id (request_binding q)
     \<and> ob_state_root_generation r = rb_state_root_generation (request_binding q)
     \<and> ob_attempt_id r = fst (expected_attempt E q)
     \<and> (case snd (expected_attempt E q) of None \<Rightarrow> True | Some d \<Rightarrow> ob_command_digest r = d)
     \<and> (case q of Reconcile rc \<Rightarrow> ob_reconciliation_key_digest r = Some (rc_reconciliation_key_digest rc)
         | _ \<Rightarrow> True)"

definition of_same_root :: "RecorderRequestV1 \<Rightarrow> 'a SignedRecorderObservationV1_scheme \<Rightarrow> bool" where
  "of_same_root q ob \<longleftrightarrow> ob_canonical_root_identity ob = rb_canonical_root_identity (request_binding q)
     \<and> ob_os_user_identity_digest ob = rb_os_user_identity_digest (request_binding q)"

lemma observation_fields [simp]:
  "ob_installation_id (observation_of_record r) = ob_installation_id r"
  "ob_state_root_generation (observation_of_record r) = ob_state_root_generation r"
  "ob_canonical_root_identity (observation_of_record r) = ob_canonical_root_identity r"
  "ob_os_user_identity_digest (observation_of_record r) = ob_os_user_identity_digest r"
  "ob_attempt_id (observation_of_record r) = ob_attempt_id r"
  "ob_command_digest (observation_of_record r) = ob_command_digest r"
  "ob_reconciliation_key_digest (observation_of_record r) = ob_reconciliation_key_digest r"
  "ob_recorder_key_id (observation_of_record r) = ob_recorder_key_id r"
  "ob_recorder_key_generation (observation_of_record r) = ob_recorder_key_generation r"
  "ob_signature_hex (observation_of_record r) = ob_signature_hex r"
  by (simp_all add: observation_of_record_def SignedRecorderObservationV1.truncate_def)

lemma good_attested: "good E j \<Longrightarrow> r \<in> set (history key (j_records j)) \<Longrightarrow> attested E r"
  by (auto simp: good_def history_def list_all_iff)

lemma history_key: "r \<in> set (history key rs) \<Longrightarrow> record_key r = key"
  by (simp add: history_def)

lemma record_for_iff: "record_for E q r \<longleftrightarrow> record_about E q r \<and> of_same_root q r"
  by (auto simp: record_for_def record_about_def of_same_root_def observation_binding_ok_def)

lemma one_root_iff: "one_root q j \<longleftrightarrow> (\<forall>r \<in> set (history (request_key q) (j_records j)). of_same_root q r)"
  by (simp add: one_root_def of_same_root_def list_all_iff)

lemma stored_record_about:
  assumes "good E j" and r: "r \<in> set (history (request_key q) (j_records j))"
    and "case snd (expected_attempt E q) of None \<Rightarrow> True | Some d \<Rightarrow> ob_command_digest r = d"
    and "\<And>rc. q = Reconcile rc \<Longrightarrow> ob_reconciliation_key_digest r = Some (rc_reconciliation_key_digest rc)"
  shows "record_about E q r"
  using good_attested [OF assms(1) r] history_key [OF r] assms(3,4)
  by (cases q) (simp_all add: record_about_def record_key_def command_key_def reconcile_key_def)

lemma new_record_for:
  assumes "sound_env E" and "shaped (ro_kind out) (ro_source out) (ro_provider_error_class out)"
  shows "record_for E (ExecuteOnce c) (new_record E c (command_digest E c) out j)"
  using verify_new_record(2) [OF assms, of c "command_digest E c" j]
  by (simp add: record_for_def new_record_fields observation_binding_ok_def)
     (simp add: new_record_def seal_record_def Let_def)

lemma reconciled_record_for:
  assumes "sound_env E" and "record_for E (Reconcile rc) prior"
  shows "record_for E (Reconcile rc) (reconciliation_record E prior out j)"
  using verify_reconciliation_record(2) [OF assms(1), of prior out j] assms(2)
  by (simp add: record_for_def reconciliation_record_fields observation_binding_ok_def)
     (simp add: reconciliation_record_def seal_record_def Let_def)


definition reply_backed ::
    "recorder_env \<Rightarrow> RecorderRequestV1 \<Rightarrow> Journal \<Rightarrow> Journal \<Rightarrow> RecorderReplyV1 \<Rightarrow> bool" where
  "reply_backed E q j j' reply \<longleftrightarrow> reply_request_id reply = request_id q
     \<and> (case reply of
         Observation _ replayed ob \<Rightarrow> (replayed \<longrightarrow> j' = j)
           \<and> list_ex (\<lambda>r. ob = observation_of_record r \<and> record_for E q r) (j_records j')
       | NotFound _ \<Rightarrow> j' = j
       | Rejected _ code \<Rightarrow> code \<in> range error_code)"

text \<open>Where the observation of a reply comes from: a record of the request's root, or a replayed one of
  the attempt, when the request is no reconciliation.\<close>

definition source_ok :: "RecorderRequestV1 \<Rightarrow> Journal \<Rightarrow> bool \<Rightarrow> JournalRecordV1 \<Rightarrow> bool" where
  "source_ok q j replayed r \<longleftrightarrow> of_same_root q r
     \<or> (replayed \<and> r \<in> set (history (request_key q) (j_records j)) \<and> \<not> (\<exists>rc. q = Reconcile rc))"

definition reply_made ::
    "recorder_env \<Rightarrow> RecorderRequestV1 \<Rightarrow> Journal \<Rightarrow> Journal \<Rightarrow> RecorderReplyV1 \<Rightarrow> bool" where
  "reply_made E q j j' reply \<longleftrightarrow> reply_request_id reply = request_id q
     \<and> (case reply of
         Observation _ replayed ob \<Rightarrow> (replayed \<longrightarrow> j' = j)
           \<and> list_ex (\<lambda>r. ob = observation_of_record r \<and> record_about E q r \<and> source_ok q j replayed r)
               (j_records j')
       | NotFound _ \<Rightarrow> j' = j \<and> history (request_key q) (j_records j) = []
       | Rejected _ code \<Rightarrow> code \<in> range error_code)"

lemma made_reply_record:
  "r \<in> set (j_records j') \<Longrightarrow> record_about E q r \<Longrightarrow> source_ok q j replayed r \<Longrightarrow> (replayed \<Longrightarrow> j' = j)
   \<Longrightarrow> reply_made E q j j' (reply_record (request_id q) replayed r)"
  by (auto simp: reply_made_def reply_record_def reply_request_id_def list_ex_iff)

lemma made_backed:
  assumes "reply_made E q j j' reply" and "one_root q j"
  shows "reply_backed E q j j' reply"
  using assms
  by (auto simp: reply_made_def reply_backed_def list_ex_iff record_for_iff source_ok_def one_root_iff
      split: RecorderReplyV1.splits)

lemma query_none:
  assumes "good E j" and "query key expected j = Inr None"
  shows "history key (j_records j) = []"
  using assms(2) by (auto simp: query_good [OF assms(1)] Let_def split: if_splits)

lemma history_records: "r \<in> set (history key rs) \<Longrightarrow> r \<in> set rs"
  by (simp add: history_def)

lemma query_made:
  assumes "good E j" and "handle_query j q = Inr reply"
  shows "reply_made E (QueryOnly q) j j reply"
proof (cases "query (request_key (QueryOnly q)) (qo_expected_command_digest q) j")
  case (Inr found)
  show ?thesis
  proof (cases found)
    case None
    then show ?thesis
      using assms(2) Inr query_none [OF assms(1) Inr [unfolded None]]
      by (auto simp: handle_query_def reply_made_def reply_request_id_def)
  next
    case (Some r)
    note q = query_record [OF assms(1) Inr [unfolded Some]]
    have "record_about E (QueryOnly q) r"
      using q(2) by (intro stored_record_about [OF assms(1) q(1)]) (auto split: option.split)
    moreover have "source_ok (QueryOnly q) j True r" using q(1) by (simp add: source_ok_def)
    ultimately show ?thesis
      using assms(2) Inr Some
        made_reply_record [OF history_records [OF q(1)], of E "QueryOnly q" j True]
      by (auto simp: handle_query_def)
  qed
qed (use assms(2) in \<open>simp add: handle_query_def\<close>)

lemma reconcile_made:
  assumes "sound_env (rs_env R)" and "good (rs_env R) j"
    and "handle_reconcile R io F S now t rc j = (Inr reply, j')"
  shows "reply_made (rs_env R) (Reconcile rc) j j' reply"
proof (cases "query (reconcile_key rc) (Some (rc_expected_command_digest rc)) j")
  case (Inr found)
  show ?thesis
  proof (cases found)
    case None
    then show ?thesis
      using assms(3) Inr query_none [OF assms(2) Inr [unfolded None]]
      by (auto simp: handle_reconcile_def reply_made_def reply_request_id_def split: if_splits)
  next
    case (Some prior)
    note q = query_record [OF assms(2) Inr [unfolded Some]]
    have prior: "record_for (rs_env R) (Reconcile rc) prior" if "reconcile_identity_ok rc prior"
    proof -
      have "record_about (rs_env R) (Reconcile rc) prior"
        using q that by (intro stored_record_about [OF assms(2)]) (auto simp: reconcile_identity_ok_def)
      then show ?thesis using that by (simp add: record_for_iff of_same_root_def reconcile_identity_ok_def)
    qed
    consider (replayed) "reply = reply_record (rc_request_id rc) True prior" "j' = j"
        "reconcile_identity_ok rc prior"
      | (recorded) r k resp ev remote actuals where
        "record_reconciliation (rs_env R) io (reconcile_key rc) (rc_expected_command_digest rc)
            k resp ev remote actuals (rc_consistency_window_start_ms rc)
            (rc_consistency_window_end_ms rc) t j = (Inr r, j')"
        "reply = reply_record (rc_request_id rc) False r" "reconcile_identity_ok rc prior"
      using assms(3) Inr Some
      by (fastforce simp: handle_reconcile_def Let_def split: if_splits sum.splits prod.splits)
    then show ?thesis
    proof cases
      case replayed
      then show ?thesis
        using made_reply_record [OF history_records [OF q(1)], of "rs_env R" "Reconcile rc" j True] prior
        by (simp add: record_for_iff source_ok_def)
    next
      case recorded
      obtain out where r: "r = reconciliation_record (rs_env R) prior out j"
        and j': "j_records j' = j_records j @ [r]"
        using reconciliation_recorded [OF recorded(1) Inr [unfolded Some]] by blast
      have "record_for (rs_env R) (Reconcile rc) r"
        unfolding r by (rule reconciled_record_for [OF assms(1) prior [OF recorded(3)]])
      then show ?thesis
        using made_reply_record [of r j' "rs_env R" "Reconcile rc" j False] recorded(2) j'
        by (simp add: record_for_iff source_ok_def)
    qed
  qed
qed (use assms(3) in \<open>auto simp: handle_reconcile_def split: if_splits\<close>)

lemma admit_made:
  assumes "good (rs_env R) j"
    and "execute_admit R io io' F S now t c j = (Inr (ReplyNow reply), j')"
  shows "reply_made (rs_env R) (ExecuteOnce c) j j' reply"
proof -
  have ne: "admit_verified_execution (rs_env R) io io' c now t j \<noteq> (Inr (Replay existing), j'')"
    if "latest_for c (command_digest (rs_env R) c) j = Inr None" for existing j''
    using that by (auto simp: admit_verified_execution_def split: sum.splits prod.splits)
  obtain r where r: "latest_for c (command_digest (rs_env R) c) j = Inr (Some r)"
    and reply: "reply = reply_record (eo_request_id c) True r" "j' = j"
    using assms(2) ne
    by (auto simp: execute_admit_def execution_state_def
        split: if_splits sum.splits prod.splits option.splits JournalExecutionState.splits
          JournalAdmissionOutcome.splits)
  note q = latest_record [OF assms(1) r]
  have "record_about (rs_env R) (ExecuteOnce c) r"
    using q by (intro stored_record_about [OF assms(1)]) simp_all
  then show ?thesis
    using made_reply_record [OF history_records [OF q(1)], of "rs_env R" "ExecuteOnce c" j True] q(1)
    by (simp add: reply source_ok_def)
qed

lemma finish_made:
  assumes "sound_env (rs_env R)" and "execute_finish R io c out t j = (Inr reply, j')"
  shows "reply_made (rs_env R) (ExecuteOnce c) i j' reply"
proof -
  obtain r k resp ev remote cls actuals where
    r: "record_terminal (rs_env R) io c k resp ev remote cls actuals t j = (Inr r, j')"
    and reply: "reply = reply_record (eo_request_id c) False r"
    using assms(2) by (auto simp: execute_finish_def split: sum.splits prod.splits)
  obtain ro where "r = new_record (rs_env R) c (command_digest (rs_env R) c) ro j"
    and "shaped (ro_kind ro) (ro_source ro) (ro_provider_error_class ro)"
    using terminal_record(1) [OF r] by blast
  then have "record_for (rs_env R) (ExecuteOnce c) r" using new_record_for [OF assms(1)] by simp
  then show ?thesis
    using made_reply_record [of r j' "rs_env R" "ExecuteOnce c" i False] terminal_record(2) [OF r]
    by (simp add: reply record_for_iff source_ok_def)
qed

lemma refused_made: "reply_made E q j j' (to_reply (request_id q) (Inl e))"
  by (simp add: to_reply_def reply_made_def reply_request_id_def)

lemma handle_made:
  assumes "sound_env (rs_env R)" and "good (rs_env R) j" and "handle R w q j F = (reply, j', F')"
  shows "reply_made (rs_env R) q j j' reply"
proof -
  obtain result where inner: "handle_inner R w q j F = (result, j', F')"
    and reply: "reply = to_reply (request_id q) result"
    using assms(3) by (auto simp: handle_def split: prod.splits)
  show ?thesis
  proof (cases result)
    case (Inl e)
    then show ?thesis using refused_made by (simp add: reply)
  next
    case (Inr x)
    then have x: "reply = x" by (simp add: reply to_reply_def)
    show ?thesis
    proof (cases q)
      case (QueryOnly v)
      then show ?thesis
        using inner Inr query_made [OF assms(2), of v x]
        by (auto simp: handle_inner_def x split: if_splits)
    next
      case (Reconcile v)
      then show ?thesis
        using inner Inr reconcile_made [OF assms(1,2), of _ _ _ _ _ v]
        by (auto simp: handle_inner_def x split: if_splits prod.splits)
    next
      case (ExecuteOnce c)
      then have "handle_execute R w c j F = (Inr x, j', F')"
        using inner Inr by (simp add: handle_inner_def split: if_splits)
      then consider (now) "execute_admit R (w_first_append w) (w_second_append w) F (w_snapshot w)
            (w_now w) (w_started_at w) c j = (Inr (ReplyNow x), j')"
        | (ran) j1 out where "execute_finish R (w_third_append w) c out (w_observed_at w) j1 = (Inr x, j')"
        by (auto simp: handle_execute_def Let_def split: sum.splits prod.splits execute_step.splits)
      then show ?thesis
        using admit_made [OF assms(2)] finish_made [OF assms(1)]
        by cases (auto simp: ExecuteOnce x)
    qed
  qed
qed

lemma handle_backed:
  assumes "sound_env (rs_env R)" and "good (rs_env R) j" and "one_root q j"
    and "handle R w q j F = (reply, j', F')"
  shows "reply_backed (rs_env R) q j j' reply"
  by (rule made_backed [OF handle_made [OF assms(1,2,4)] assms(3)])

text \<open>The client pins the recorder's identity, whose key verifies the recorder's signatures.\<close>

definition pinned :: "recorder_client \<Rightarrow> recorder_env \<Rightarrow> bool" where
  "pinned C E \<longleftrightarrow> ri_key_id (cl_identity C) = je_key_id E
     \<and> ri_key_generation (cl_identity C) = je_key_generation E
     \<and> ri_verifying_key_hex (cl_identity C) = je_verifying_key_hex E
     \<and> (case hex_decode 32 (je_verifying_key_hex E) of None \<Rightarrow> False
        | Some key \<Rightarrow> ed_key_valid (cl_ed C) key \<and> (\<forall>m. cl_verify_strict C key m (je_sign E m)))"

lemma backed_accepted:
  assumes "pinned C E" and "reply_backed E q j j' reply"
  shows "verify_reply E C q reply = Inr ()"
proof (cases reply)
  case (Observation i replayed ob)
  obtain r where r: "ob = observation_of_record r" "record_for E q r"
    using assms(2) Observation by (auto simp: reply_backed_def list_ex_iff)
  have "recorder_observation_signing_bytes (je_ext E) ob = signed_bytes E r"
    by (simp add: r signed_bytes_def)
  then have "verify_observation (je_ext E) C ob = Inr ()"
    using assms(1) r
    by (auto simp: verify_observation_def pinned_def record_for_def attested_def strictly_signed_def
        split: option.splits)
  moreover have "verify_reply_binding E q reply = Inr ()"
    using assms(2) r
    by (cases q) (auto simp: verify_reply_binding_def Observation reply_backed_def record_for_def
        split: option.splits)
  ultimately show ?thesis by (simp add: verify_reply_def Observation)
qed (use assms(2) in \<open>auto simp: verify_reply_def verify_reply_binding_def reply_backed_def\<close>)


text \<open>How a reply comes about: a request handled without interruption, or, when others interleave with an
  execution, either of its two critical sections on the journal it finds.\<close>

inductive replied :: "recorder_service \<Rightarrow> RecorderRequestV1 \<Rightarrow> Journal \<Rightarrow> RecorderReplyV1 \<Rightarrow> Journal \<Rightarrow> bool"
  for R where
  uninterrupted: "handle R w q j F = (reply, j', F') \<Longrightarrow> replied R q j reply j'"
| answered: "execute_admit R io io' F S now t c j = (Inr (ReplyNow reply), j')
    \<Longrightarrow> replied R (ExecuteOnce c) j reply j'"
| refused: "execute_admit R io io' F S now t c j = (Inl e, j')
    \<Longrightarrow> replied R (ExecuteOnce c) j (to_reply (eo_request_id c) (Inl e)) j'"
| finished: "execute_finish R io c out t j = (res, j')
    \<Longrightarrow> replied R (ExecuteOnce c) j (to_reply (eo_request_id c) res) j'"

lemma replied_made:
  assumes "replied R q j reply j'" and "sound_env (rs_env R)" and "good (rs_env R) j"
  shows "reply_made (rs_env R) q j j' reply"
  using assms(1)
proof (cases rule: replied.cases)
  case (uninterrupted w F F')
  then show ?thesis by (rule handle_made [OF assms(2,3)])
next
  case (answered io io' F S now t c)
  then show ?thesis using admit_made [OF assms(3)] by simp
next
  case (refused io io' F S now t c e)
  then show ?thesis using refused_made [of "rs_env R" "ExecuteOnce c"] by simp
next
  case (finished io c out t res)
  then show ?thesis
    using finish_made [OF assms(2)] refused_made [of "rs_env R" "ExecuteOnce c"]
    by (cases res) (simp_all add: to_reply_def)
qed

definition reply_about ::
    "recorder_env \<Rightarrow> RecorderRequestV1 \<Rightarrow> Journal \<Rightarrow> Journal \<Rightarrow> RecorderReplyV1 \<Rightarrow> bool" where
  "reply_about E q j j' reply \<longleftrightarrow> reply_request_id reply = request_id q
     \<and> (case reply of
         Observation _ replayed ob \<Rightarrow> (replayed \<longrightarrow> j' = j)
           \<and> list_ex (\<lambda>r. ob = observation_of_record r \<and> record_about E q r) (j_records j')
       | NotFound _ \<Rightarrow> j' = j \<and> history (request_key q) (j_records j) = []
       | Rejected _ code \<Rightarrow> code \<in> range error_code)"

definition reply_same_root :: "RecorderRequestV1 \<Rightarrow> RecorderReplyV1 \<Rightarrow> bool" where
  "reply_same_root q reply \<longleftrightarrow> (case reply of Observation _ _ ob \<Rightarrow> of_same_root q ob | _ \<Rightarrow> True)"

lemma of_same_root_observation [simp]: "of_same_root q (observation_of_record r) = of_same_root q r"
  by (simp add: of_same_root_def)

lemma made_about:
  assumes "reply_made E q j j' reply"
  shows "reply_about E q j j' reply" and "reply_same_root q reply \<Longrightarrow> reply_backed E q j j' reply"
    and "reply_same_root q reply
      \<or> (\<exists>ob. reply = Observation (request_id q) True ob) \<and> \<not> (\<exists>rc. q = Reconcile rc)"
  using assms
  by (auto simp: reply_made_def reply_about_def reply_backed_def reply_same_root_def source_ok_def
      list_ex_iff record_for_iff reply_request_id_def split: RecorderReplyV1.splits)

lemma accepted_same_root:
  "verify_reply E C q reply = Inr () \<Longrightarrow> reply_same_root q reply"
  by (cases reply) (auto simp: verify_reply_def verify_reply_binding_def observation_binding_ok_def
      reply_same_root_def of_same_root_def Let_def split: if_splits prod.splits)

text \<open>C30: replies are well typed. Whatever the request, the database, the clock, the disk and the executor
  are, and whatever other requests do between the two critical sections of an execution, a reply
  made on a reachable journal echoes the request; an observation in it is a record of the resulting
  journal, attested by the recorder's key and about the installation, the attempt and the command
  that were asked for; a replayed observation leaves the journal as it was, and nothing is found
  only when there is no record of the attempt. The client that pinned the recorder accepts the
  reply exactly when the observation is of the request's root and user, which only the replayed
  answer to a query or an execution can fail to be.\<close>

theorem replies_well_typed:
  assumes "reachable (rs_env R) ps j" and "sound_env (rs_env R)" and "pinned C (rs_env R)"
    and "replied R q j reply j'"
  shows "reply_about (rs_env R) q j j' reply
    \<and> (verify_reply (rs_env R) C q reply = Inr () \<longleftrightarrow> reply_same_root q reply)
    \<and> (reply_same_root q reply
        \<or> (\<exists>ob. reply = Observation (request_id q) True ob) \<and> \<not> (\<exists>rc. q = Reconcile rc))"
proof -
  have "good (rs_env R) j" using reachable_invariant [OF assms(1,2)] by blast
  note made = made_about [OF replied_made [OF assms(4,2) this]]
  show ?thesis
    using made backed_accepted [OF assms(3) made(2)] accepted_same_root by blast
qed

subsection \<open>A session\<close>

lemma read_frame:
  assumes "length p \<le> RECORDER_MAX_FRAME_BYTES"
  shows "read_message g (header_frame 4 p @ rest)
    = (case g p of Inl e \<Rightarrow> Inl ''recorder message does not decode'' | Inr v \<Rightarrow> Inr (v, rest))"
proof -
  have "length p < 256 ^ 4" using assms by (simp add: RECORDER_MAX_FRAME_BYTES_def)
  then have "be_nat (take 4 (header_frame 4 p @ rest)) = length p"
    by (simp add: header_frame_def)
  moreover have "take (4 + length p) (header_frame 4 p @ rest) = header_frame 4 p"
    "drop (4 + length p) (header_frame 4 p @ rest) = rest" "\<not> length (header_frame 4 p @ rest) < 4 + length p"
    by (simp_all add: header_frame_def)
  ultimately show ?thesis
    using assms by (simp add: read_message_def decode_header_frame split: sum.split)
qed

text \<open>A message that fits a frame and that its deserializer reads back.\<close>

definition carried :: "externals \<Rightarrow> (bytes \<Rightarrow> string + 'a) \<Rightarrow> json \<Rightarrow> 'a \<Rightarrow> bytes \<Rightarrow> bool" where
  "carried X g v m frame \<longleftrightarrow> write_message X v = Inr frame \<and> g (canonical_json_bytes X v) = Inr m"

lemma carried_read:
  assumes "carried X g v m frame"
  shows "write_message X v = Inr frame" and "read_message g (frame @ rest) = Inr (m, rest)"
    and "read_message g frame = Inr (m, [])"
proof -
  have w: "write_message X v = Inr frame" and g: "g (canonical_json_bytes X v) = Inr m"
    using assms by (simp_all add: carried_def)
  then have l: "length (canonical_json_bytes X v) \<le> RECORDER_MAX_FRAME_BYTES"
    and f: "frame = header_frame 4 (canonical_json_bytes X v)"
    by (auto simp: write_message_def encode_frame_Inr map_sum_def split: sum.splits)
  show "write_message X v = Inr frame" by (rule w)
  show "read_message g (frame @ rest) = Inr (m, rest)" using read_frame [OF l, of g rest] by (simp add: f g)
  show "read_message g frame = Inr (m, [])" using read_frame [OF l, of g "[]"] by (simp add: f g)
qed

lemma handshake_accepted:
  assumes "sound_env (rs_env R)" and "pinned C (rs_env R)" and "server_nonce \<noteq> []"
    and "handshake R S now ch server_nonce = Inr at"
  shows "verify_handshake (rs_ext R) C ch at = Inr ()" and "ha_binding at = hc_binding ch"
    and "ha_client_nonce at = hc_client_nonce ch"
    and "ha_request_authentication_digest at = hc_request_authentication_digest ch"
proof -
  have at: "at = sign_handshake (rs_env R) ch (hc_binding ch) server_nonce"
    using assms(4) by (auto simp: handshake_def Let_def split: if_splits sum.splits)
  show "verify_handshake (rs_ext R) C ch at = Inr ()"
    using assms(2,3) sound_envD(3) [OF assms(1)]
    by (auto simp: verify_handshake_def at sign_handshake_def Let_def pinned_def strictly_signed_def
        attestation_signing_bytes_def split: option.splits)
  show "ha_binding at = hc_binding ch" "ha_client_nonce at = hc_client_nonce ch"
    "ha_request_authentication_digest at = hc_request_authentication_digest ch"
    by (simp_all add: at sign_handshake_def Let_def)
qed

lemma signed_nonce [simp]:
  "client_nonce (set_command_mac m r) = client_nonce r" "request_binding (set_command_mac m r) = request_binding r"
  by (cases r; simp)+

text \<open>C17: a session ends with the reply. When the client pinned the recorder's identity, shares its
  channel key and speaks of the live binding, and the four messages fit their frames and are read
  back by their deserializers, and the records of the attempt are of the request's root and user
  (\<open>one_root\<close>), then the two parties, each reading exactly the bytes the other wrote, both finish: the recorder handles the signed request, the client returns the reply.\<close>

theorem session_completes:
  assumes "reachable (rs_env R) ps j" and "sound_env (rs_env R)" and "pinned C (rs_env R)"
    and X: "X = rs_ext R" and s: "s = sign_request X (rs_mac R) (cl_channel_key C) q" and "one_root s j"
    and id: "validate_for_root X (cl_ed C) (cl_identity C)
        (rb_canonical_root_identity (request_binding q)) = Inr ()"
    and hs: "handshake R (w_snapshot w) (w_now w) (challenge_for X s) server_nonce = Inr at"
    and "server_nonce \<noteq> []"
    and run: "handle R w s j F = (reply, j', F')"
    and c1: "carried X (rd_challenge D) (challenge_json (challenge_for X s)) (challenge_for X s) f1"
    and c2: "carried X (rd_attestation D) (attestation_json at) at f2"
    and c3: "carried X (rd_request D) (request_json s) s f3"
    and c4: "carried X (rd_reply D) (reply_json reply) reply f4"
  shows "client_send (rs_env R) D C (rs_mac R) q (f2 @ f4) = (Inr reply, f1 @ f3)
    \<and> handle_stream R D w server_nonce (f1 @ f3) j F = (Inr (), f2 @ f4, j', F')"
proof -
  have good: "good (rs_env R) j" using reachable_invariant [OF assms(1,2)] by blast
  have reply: "verify_reply (rs_env R) C s reply = Inr ()"
    using backed_accepted [OF assms(3)] handle_backed [OF assms(2) good assms(6) run] by blast
  note h = handshake_accepted [OF assms(2,3,9) hs]
  have tr: "verify_request_transcript X (challenge_for X s) at s = Inr ()"
    using h(2-4) by (simp add: verify_request_transcript_def challenge_for_def)
  have "client_send (rs_env R) D C (rs_mac R) q (f2 @ f4) = (Inr reply, f1 @ f3)"
    using id h(1) reply carried_read [OF c1] carried_read [OF c2] carried_read [OF c3] carried_read [OF c4]
    by (simp add: client_send_def exchange_stream_def X [symmetric] s [symmetric] Let_def)
  moreover have "handle_stream R D w server_nonce (f1 @ f3) j F = (Inr (), f2 @ f4, j', F')"
    using hs tr run carried_read [OF c1] carried_read [OF c2] carried_read [OF c3] carried_read [OF c4]
    by (simp add: handle_stream_def X [symmetric] Let_def)
  ultimately show ?thesis by blast
qed

end
