(* ===== verification/RecorderRuns.thy ===== *)
theory RecorderRuns
  imports ServiceSafety
begin

text \<open>
  All runs of the recorder's service: requests whose critical sections interleave, invocations
  outside the journal's lock, changes of the file by others, crashes in the middle of any
  critical section and restarts. The journal's appends are durable or the process stops. The
  log of invocations is kept for the statements; the code has no such variable.
\<close>

record admitted =
  ad_admission :: VerifiedExecuteOnceAdmission
  ad_snapshot :: snapshot
  ad_now :: i64

abbreviation ad_command :: "admitted \<Rightarrow> ExecuteOnceV1" where
  "ad_command a \<equiv> va_command (ad_admission a)"

record service_state =
  sv_journal :: Journal
  sv_files :: file_system
  sv_pending :: "admitted list"
  sv_reported :: "(ExecuteOnceV1 \<times> InvocationOutcome) list"
  sv_invoked :: "admitted list"

text \<open>What a critical section may have done to the journal when the process stops in it.\<close>

definition interrupted :: "recorder_service \<Rightarrow> service_state \<Rightarrow> Journal \<Rightarrow> bool" where
  "interrupted R s j1 \<longleftrightarrow> j1 = sv_journal s
     \<or> (\<exists>io S now t rc. j1 = snd (handle_reconcile R io (sv_files s) S now t rc (sv_journal s)))
     \<or> (\<exists>io io' S now t c. j1 = snd (execute_admit R io io' (sv_files s) S now t c (sv_journal s)))
     \<or> (\<exists>io t. \<exists>(c, out) \<in> set (sv_reported s). j1 = snd (execute_finish R io c out t (sv_journal s)))"

inductive service_run :: "recorder_service \<Rightarrow> service_state \<Rightarrow> bool" for R where
  booted: "service_run R \<lparr>sv_journal = empty_journal [], sv_files = F, sv_pending = [],
      sv_reported = [], sv_invoked = []\<rparr>"
| files_changed: "service_run R s \<Longrightarrow> service_run R (s\<lparr>sv_files := F\<rparr>)"
| reconciled: "service_run R s
    \<Longrightarrow> handle_reconcile R Durable (sv_files s) S now t rc (sv_journal s) = (res, j')
    \<Longrightarrow> service_run R (s\<lparr>sv_journal := j'\<rparr>)"
| answered: "service_run R s
    \<Longrightarrow> execute_admit R Durable Durable (sv_files s) S now t c (sv_journal s) = (res, j')
    \<Longrightarrow> \<forall>a. res \<noteq> Inr (InvokeProvider a) \<Longrightarrow> service_run R (s\<lparr>sv_journal := j'\<rparr>)"
| admission: "service_run R s
    \<Longrightarrow> execute_admit R Durable Durable (sv_files s) S now t c (sv_journal s) = (Inr (InvokeProvider a), j')
    \<Longrightarrow> service_run R (s\<lparr>sv_journal := j',
          sv_pending := \<lparr>ad_admission = a, ad_snapshot = S, ad_now = now\<rparr> # sv_pending s\<rparr>)"
| invocation: "service_run R s \<Longrightarrow> sv_pending s = p @ a # p'
    \<Longrightarrow> invoke R io (ad_admission a) (sv_files s) = (out, F')
    \<Longrightarrow> service_run R (s\<lparr>sv_files := F', sv_pending := p @ p',
          sv_reported := (ad_command a, out) # sv_reported s, sv_invoked := a # sv_invoked s\<rparr>)"
| finished: "service_run R s \<Longrightarrow> sv_reported s = p @ (c, out) # p'
    \<Longrightarrow> execute_finish R Durable c out t (sv_journal s) = (res, j')
    \<Longrightarrow> service_run R (s\<lparr>sv_journal := j', sv_reported := p @ p'\<rparr>)"
| crashed: "service_run R s \<Longrightarrow> interrupted R s j1 \<Longrightarrow> open_journal (rs_env R) (j_file j1) = Inr j'
    \<Longrightarrow> service_run R (s\<lparr>sv_journal := j', sv_files := F, sv_pending := [], sv_reported := []\<rparr>)"

subsection \<open>The journal under each step\<close>

lemma reconcile_one_append:
  assumes "sound_env (rs_env R)" and "good (rs_env R) j"
  shows "one_append (rs_env R) io j (snd (handle_reconcile R io F S now t rc j))"
proof -
  have same: "one_append (rs_env R) io j j" by (simp add: one_append_def)
  have rec: "one_append (rs_env R) io j (snd (record_reconciliation (rs_env R) io key d k resp ev
      remote actuals w w' t j))" for key d k resp ev remote actuals w w'
    by (rule reconciliation_one_append [OF assms])
  show ?thesis
    using same rec
    by (simp add: handle_reconcile_def Let_def split_def split: sum.split option.split)
qed

lemma finish_one_append:
  assumes "sound_env (rs_env R)" and "good (rs_env R) j"
  shows "one_append (rs_env R) io j (snd (execute_finish R io c out t j))"
proof -
  have "snd (execute_finish R io c out t j)
      = snd (record_terminal (rs_env R) io c (io_kind out) (io_response_digest out)
          (io_evidence_payload_digest out) (io_remote_effect_id out) (io_provider_error_class out)
          (io_technical_resource_actuals out) t j)"
    by (auto simp: execute_finish_def split: sum.splits prod.splits)
  then show ?thesis by (simp add: terminal_one_append [OF assms])
qed

lemma execute_admit_journal:
  "snd (execute_admit R io io' F S now t c j) \<in>
     {j, snd (admit_verified_execution (rs_env R) io io' c now t j)}"
  by (auto simp: execute_admit_def split: sum.splits prod.splits JournalExecutionState.splits
      JournalAdmissionOutcome.splits)

lemma interrupted_grows:
  assumes "sound_env (rs_env R)" and "good (rs_env R) (sv_journal s)" and "interrupted R s j1"
    and "open_journal (rs_env R) (j_file j1) = Inr j'"
  shows "grows (rs_env R) (sv_journal s) j'"
proof -
  let ?E = "rs_env R" let ?j = "sv_journal s"
  have same: "\<exists>j''. open_journal ?E (j_file ?j) = Inr j'' \<and> grows ?E ?j j''"
    using one_append_reopens [OF assms(1,2)] by (simp add: one_append_def)
  have "\<exists>j''. open_journal ?E (j_file j1) = Inr j'' \<and> grows ?E ?j j''"
    using assms(3) unfolding interrupted_def
  proof (elim disjE exE)
    fix io io' S now t c
    assume "j1 = snd (execute_admit R io io' (sv_files s) S now t c ?j)"
    then show ?thesis
      using execute_admit_journal [of R io io' "sv_files s" S now t c ?j] same
        admit_reopens [OF assms(1,2), of io io' c now t] by auto
  qed (use same in \<open>auto intro!: one_append_reopens [OF assms(1,2)] reconcile_one_append
      finish_one_append assms(1,2)\<close>)
  with assms(4) show ?thesis by auto
qed

text \<open>Granting an admission: the database proved it, the attempt had no records and has started.\<close>

lemma execute_admit_grants:
  assumes "sound_env (rs_env R)" and "good (rs_env R) j"
    and "execute_admit R io io' F S now t c j = (Inr (InvokeProvider a), j')"
  shows "verify (rs_ext R) S c now = Inr a" and "history (command_key c) (j_records j) = []"
    and "list_ex begun (history (command_key c) (j_records j'))"
proof -
  have v: "verify (rs_ext R) S c now = Inr a"
    and f: "admit_verified_execution (rs_env R) io io' c now t j = (Inr FreshStarted, j')"
    using assms(3)
    by (auto simp: execute_admit_def split: if_splits sum.splits prod.splits
        JournalExecutionState.splits JournalAdmissionOutcome.splits)
  show "verify (rs_ext R) S c now = Inr a" by (rule v)
  show "history (command_key c) (j_records j) = []" "list_ex begun (history (command_key c) (j_records j'))"
    using admit_permit [OF assms(1,2) f] by blast+
qed

lemma verified_command:
  "verify X S c now = Inr a \<Longrightarrow> va_command a = c \<and> later (eo_deadline_ms c) now
     \<and> (\<exists>db. S = Inr db \<and> attempt_proven db c now)"
  by (auto simp: verify_def split: if_splits)

definition permits_of :: "service_state \<Rightarrow> admitted list" where
  "permits_of s = sv_pending s @ sv_invoked s"

abbreviation ad_key :: "admitted \<Rightarrow> attempt_key" where
  "ad_key a \<equiv> command_key (ad_command a)"

definition proven :: "admitted \<Rightarrow> bool" where
  "proven a \<longleftrightarrow> later (eo_deadline_ms (ad_command a)) (ad_now a)
     \<and> (\<exists>db. ad_snapshot a = Inr db \<and> attempt_proven db (ad_command a) (ad_now a))"

definition service_ok :: "recorder_service \<Rightarrow> service_state \<Rightarrow> bool" where
  "service_ok R s \<longleftrightarrow> good (rs_env R) (sv_journal s) \<and> distinct (map ad_key (permits_of s))
     \<and> list_all proven (permits_of s)
     \<and> list_all (\<lambda>a. list_ex begun (history (ad_key a) (j_records (sv_journal s)))) (permits_of s)"

subsection \<open>The invariant\<close>

lemma service_ok_grows:
  assumes "sound_env (rs_env R)" and "service_ok R s" and "grows (rs_env R) (sv_journal s) j'"
    and "distinct (map ad_key (permits_of s'))" and "set (permits_of s') \<subseteq> set (permits_of s)"
    and "sv_journal s' = j'"
  shows "service_ok R s'"
proof -
  have "list_all (\<lambda>a. list_ex begun (history (ad_key a) (j_records j'))) (permits_of s')"
    using assms(2,5) begun_kept [OF assms(3), of "ad_key a" for a]
    unfolding service_ok_def list_all_iff by blast
  then show ?thesis
    using assms(2,4,5) grows_good [OF assms(3,1)]
    unfolding service_ok_def list_all_iff assms(6) by blast
qed

lemma service_invariant:
  assumes "service_run R s" and "sound_env (rs_env R)"
  shows "service_ok R s"
  using assms(1)
proof (induction rule: service_run.induct)
  case (booted F)
  show ?case by (simp add: service_ok_def permits_of_def good_created)
next
  case (files_changed s F)
  then show ?case by (simp add: service_ok_def permits_of_def)
next
  case (reconciled s S now t rc res j')
  note good = reconciled.IH [unfolded service_ok_def, THEN conjunct1]
  have "grows (rs_env R) (sv_journal s) j'"
    using one_append_grows [OF assms(2) good reconcile_one_append [OF assms(2) good]] reconciled.hyps(2)
    by (metis snd_conv)
  then show ?case
    using reconciled.IH
    by (intro service_ok_grows [OF assms(2) reconciled.IH]) (auto simp: permits_of_def service_ok_def)
next
  case (answered s S now t c res j')
  note good = answered.IH [unfolded service_ok_def, THEN conjunct1]
  have "grows (rs_env R) (sv_journal s) j'"
    using execute_admit_journal [of R Durable Durable "sv_files s" S now t c "sv_journal s"]
      admit_grows [OF assms(2) good, of c now t] answered.hyps(2) by (auto intro: grows.same)
  then show ?case
    using answered.IH
    by (intro service_ok_grows [OF assms(2) answered.IH]) (auto simp: permits_of_def service_ok_def)
next
  case (admission s S now t c a j')
  note good = admission.IH [unfolded service_ok_def, THEN conjunct1]
  note g = execute_admit_grants [OF assms(2) good admission.hyps(2)]
  note v = verified_command [OF g(1)]
  have grows: "grows (rs_env R) (sv_journal s) j'"
    using execute_admit_journal [of R Durable Durable "sv_files s" S now t c "sv_journal s"]
      admit_grows [OF assms(2) good, of c now t] admission.hyps(2) by (auto intro: grows.same)
  have "command_key c \<notin> ad_key ` set (permits_of s)"
    using admission.IH g(2) by (fastforce simp: service_ok_def list_all_iff)
  then show ?case
    using admission.IH v g(3) begun_kept [OF grows] grows_good [OF grows assms(2) good]
    by (auto simp: service_ok_def permits_of_def proven_def list_all_iff)
next
  case (invocation s p a p' io out F')
  then show ?case
    by (auto simp: service_ok_def permits_of_def)
next
  case (finished s p c out p' t res j')
  note good = finished.IH [unfolded service_ok_def, THEN conjunct1]
  have "grows (rs_env R) (sv_journal s) j'"
    using one_append_grows [OF assms(2) good finish_one_append [OF assms(2) good]] finished.hyps(3)
    by (metis snd_conv)
  then show ?case
    using finished.IH
    by (intro service_ok_grows [OF assms(2) finished.IH]) (auto simp: permits_of_def service_ok_def)
next
  case (crashed s j1 j' F)
  note good = crashed.IH [unfolded service_ok_def, THEN conjunct1]
  show ?case
    using crashed.IH interrupted_grows [OF assms(2) good crashed.hyps(2,3)]
    by (intro service_ok_grows [OF assms(2) crashed.IH]) (auto simp: permits_of_def service_ok_def)
qed

text \<open>C2: the provider is invoked at most once per attempt, and only for an attempt that the database
  proved. Over every run of the service, with requests interleaving between their critical sections,
  files changed by others, crashes in the middle of an append and restarts: no two invocations are
  of the same attempt; each was admitted before its deadline against a snapshot of the database that
  proves the attempt's authority, claim, budget and reservations; its start is in the journal; and
  the journal's file always reopens as the journal in memory.\<close>

theorem provider_invoked_once:
  assumes "service_run R s" and "sound_env (rs_env R)"
  shows "distinct (map ad_key (sv_invoked s))
    \<and> list_all (\<lambda>a. proven a \<and> list_ex begun (history (ad_key a) (j_records (sv_journal s)))) (sv_invoked s)
    \<and> open_journal (rs_env R) (j_file (sv_journal s)) = Inr (sv_journal s)"
  using service_invariant [OF assms] open_same [OF assms(2)]
  by (auto simp: service_ok_def permits_of_def good_def list_all_iff)

end
