(* ===== verification/ExecuteOnceWitness.thy ===== *)
theory ExecuteOnceWitness
  imports ExecuteOnce
begin

text \<open>
  Concrete runs of the recorder's journal, on the parameters of \<open>JsonCodec\<close>: an attempt that is
  admitted and started, an interrupted acceptance, and the run in which a torn write makes a
  restart forget a started attempt. The lengths of the records are bounded, not computed.
\<close>

lemma admit_from_empty:
  assumes "fitting E r" and "fitting E s"
    and r: "r = new_record E c (command_digest E c) (plain_outcome Accepted t) (empty_journal f)"
    and s: "s = new_record E c (command_digest E c) (plain_outcome InvocationStarted t')
      (pushed E r (empty_journal f))"
  shows "admit_verified_execution E Durable Durable c t t' (empty_journal f)
    = (Inr FreshStarted, pushed E s (pushed E r (empty_journal f)))"
proof -
  let ?j = "empty_journal f"
  let ?d = "command_digest E c"
  have i: "index_ok ?j" using indexed_empty [of f] unfolding indexed_def by blast
  have records: "j_records ?j = []" and none: "j_by_attempt ?j k = None" for k
    by (simp_all add: empty_journal_def)
  have key: "record_key r = command_key c" "record_key s = command_key c"
    and dig: "ob_command_digest r = ?d" "ob_command_digest s = ?d" and kr: "ob_kind r = Accepted"
    by (simp_all add: r s new_record_fields)
  have i': "index_ok (pushed E r ?j)" unfolding pushed_def using i by (intro index_push) simp
  have a: "append E Durable r ?j = (Inr (), pushed E r ?j)"
    using assms(1) i kr records
    by (simp add: append_def fitting_def frame_of_def [symmetric] index_record_ok indexable_def pushed_def)
  have b: "append E Durable s (pushed E r ?j) = (Inr (), pushed E s (pushed E r ?j))"
    using assms(2) i' records key dig
    by (simp add: append_def fitting_def frame_of_def [symmetric] index_record_ok indexable_def
        pushed_def history_def)
  have l: "latest_for c ?d ?j = Inr None" by (simp add: latest_for_def records_for_def none)
  have "j_by_attempt (pushed E r ?j) (command_key c) = Some [0]"
    using index_ok_cases(1) [OF i', of "command_key c"] key records
    by (simp add: history_def positions_def)
  then have m: "records_for c ?d (pushed E r ?j) = Inr [r]"
    using records dig by (simp add: records_for_def)
  show ?thesis
    using kr by (simp add: admit_verified_execution_def accept_def l append_new_def r [symmetric] a
        mark_invocation_started_def m s [symmetric] b is_evidence_def)
qed

definition sample_env :: recorder_env where
  "sample_env = \<lparr>je_ext = coded_externals, je_sign = (\<lambda>_. replicate 64 NUL),
     je_verifying_key_valid = (\<lambda>k. k = replicate 32 NUL),
     je_verify = (\<lambda>_ _ s. s = replicate 64 NUL), je_key_id = ''k'', je_key_generation = 1,
     je_verifying_key_hex = hex_encode (replicate 32 NUL)\<rparr>"

lemma sample_env_simps [simp]:
  "je_ext sample_env = coded_externals" "je_key_id sample_env = ''k''"
  "je_key_generation sample_env = 1" "length (je_sign sample_env m) = 64"
  "json_to_string coded_externals = code_json"
  by (simp_all add: sample_env_def coded_externals_def)

lemma sample_env_sound: "sound_env sample_env"
  by (simp add: sound_env_def coded_roundtrip) (simp add: sample_env_def coded_externals_def)

lemma length_code_text [simp]: "length (code_text s) = Suc (2 * length s)"
  by (induction s) simp_all

lemma length_sha_coded [simp]: "length (sha256_hex coded_externals b) = 64"
  by (simp add: sha256_hex_def coded_externals_def)

lemma length_code_option [simp]:
  "length (code_json (json_option JString v)) = (case v of None \<Rightarrow> 1 | Some s \<Rightarrow> 2 + 2 * length s)"
  by (simp add: json_option_def split: option.split)

lemma json_option_None [simp]: "json_option f None = JNull"
  by (simp add: json_option_def)

lemma kind_length: "length (kind_name k) \<le> 18"
  by (cases k) simp_all

lemma length_code_numbers [simp]:
  "length (code_json (json_i64 w)) = 2 + 2 * length (show_int (sint w))"
  "length (code_json (json_u64 u)) = 2 + 2 * length (show_nat (unat u))"
  by (simp_all add: json_i64_def json_u64_def)

lemma length_code_object:
  assumes "list_all (\<lambda>(k, v). length k \<le> 31) ms"
  shows "length (code_json (JObject ms)) \<le> 2 + sum_list (map (\<lambda>(k, v). 64 + length (code_json v)) ms)"
  using assms by (induction ms) auto

lemma member_length:
  assumes "(k, v) \<in> set ms"
  shows "length (code_json v) \<le> length (code_json (JObject ms))"
proof -
  have "length (code_json v) \<le> length (concat (map (\<lambda>(k, v). CHR '','' # code_text k @ code_json v) ms))"
    using assms by (induction ms) auto
  then show ?thesis by simp
qed

definition command_for :: "string \<Rightarrow> string \<Rightarrow> ExecuteOnceV1" where
  "command_for attempt provider = (unsigned_command JNull)\<lparr>eo_attempt_id := attempt, eo_provider_identity := provider\<rparr>"

lemma length_show_digit [simp]: "n < 10 \<Longrightarrow> length (show_nat n) = 1"
  by (subst show_nat.simps) simp

lemma sample_seal:
  "\<exists>d s. seal_record sample_env r = r\<lparr>ob_record_digest := d, ob_signature_hex := s\<rparr>
     \<and> length d = 71 \<and> length s = 128"
  unfolding seal_record_def Let_def
  by (rule exI, rule exI, rule conjI, rule refl) (simp add: record_digest_of_def)

lemma length_command_digest [simp]: "length (command_digest sample_env c) = 71"
  by (simp add: command_digest_def)

lemma sample_record_length:
  assumes "length attempt \<le> 128" and "unat (next_sequence j) \<in> {1, 2}" and "length (head_digest j) = 71"
    and r: "r = new_record sample_env (command_for attempt provider)
      (command_digest sample_env (command_for attempt provider)) (plain_outcome k 0) j"
  shows "length (record_to_vec sample_env r) \<le> 4096 + 2 * length provider"
    and "2 * length provider \<le> length (record_to_vec sample_env r)"
proof -
  obtain u d s where u: "r = u\<lparr>ob_record_digest := d, ob_signature_hex := s\<rparr>"
    and ds: "length d = 71" "length s = 128"
    and v: "u = \<lparr>ob_sequence = next_sequence j,
      ob_record_id = ob_record_id u,
      ob_canonical_root_identity = ''r'', ob_installation_id = ''i'', ob_state_root_generation = 1,
      ob_os_user_identity_digest = ''u'', ob_attempt_id = attempt, ob_logical_effect_id = ''l'',
      ob_command_digest = command_digest sample_env (command_for attempt provider),
      ob_kind = k, ob_source = Execution, ob_provider_identity = provider,
      ob_provider_version = ''v'', ob_provider_request_digest = [],
      ob_provider_idempotency_key_digest = None,
      ob_reconciliation_key_digest = Some (stable_key_digest sample_env ''y''),
      ob_remote_effect_id = None, ob_response_digest = None, ob_evidence_payload_digest = None,
      ob_provider_error_class = None, ob_technical_resource_actuals = [],
      ob_reconciliation_window_start_ms = None, ob_reconciliation_window_end_ms = None,
      ob_observed_at_ms = 0, ob_previous_record_digest = head_digest j, ob_record_digest = [],
      ob_recorder_key_id = ''k'', ob_recorder_key_generation = 1, ob_signature_hex = [],
      jr_journal_version = JOURNAL_VERSION\<rparr>" and id: "length (ob_record_id u) = 80"
    using sample_seal unfolding r new_record_def
    by (fastforce simp: plain_outcome_def command_for_def unsigned_command_def sample_binding_def)
  have json: "journal_record_json r = JObject (record_members r)"
    by (simp add: journal_record_json_def record_members_def)
  have "list_all (\<lambda>(k, v). length k \<le> 31) (record_members r)"
    by (simp add: record_members_def observation_head_def observation_key_def)
  moreover have "sum_list (map (\<lambda>(k, v). 64 + length (code_json v)) (record_members r)) \<le> 4000 + 2 * length provider"
    using assms(1-3) ds id kind_length [of k] unfolding u
    by (subst v) (auto simp: record_members_def observation_head_def observation_key_def
        JOURNAL_VERSION_def show_int_def stable_key_digest_def)
  ultimately show "length (record_to_vec sample_env r) \<le> 4096 + 2 * length provider"
    using length_code_object [of "record_members r"] by (simp add: record_to_vec_def json)
  have "(''provider_identity'', JString provider) \<in> set (record_members r)"
    unfolding u by (subst v) (simp add: record_members_def observation_head_def)
  then show "2 * length provider \<le> length (record_to_vec sample_env r)"
    using member_length [of "''provider_identity''" "JString provider" "record_members r"]
    by (simp add: record_to_vec_def json)
qed

lemma length_head_digests [simp]:
  "length (head_digest (empty_journal f)) = 71"
  "length (head_digest (pushed sample_env (new_record sample_env c d out j') j)) = 71"
  by (simp_all add: head_digest_def empty_journal_def ZERO_DIGEST_def new_record_def record_digest_of_def)

lemma next_sequences [simp]:
  "unat (next_sequence (empty_journal f)) = 1"
  "unat (next_sequence (pushed E r (empty_journal f))) = 2"
  by (simp_all add: next_sequence_def empty_journal_def)

definition first_record :: "string \<Rightarrow> string \<Rightarrow> bytes \<Rightarrow> JournalRecordV1" where
  "first_record attempt provider f = new_record sample_env (command_for attempt provider)
     (command_digest sample_env (command_for attempt provider)) (plain_outcome Accepted 0) (empty_journal f)"

definition second_record :: "string \<Rightarrow> string \<Rightarrow> bytes \<Rightarrow> JournalRecordV1" where
  "second_record attempt provider f = new_record sample_env (command_for attempt provider)
     (command_digest sample_env (command_for attempt provider)) (plain_outcome InvocationStarted 0)
     (pushed sample_env (first_record attempt provider f) (empty_journal f))"

lemma sample_record_lengths:
  assumes "length attempt \<le> 128"
  shows "length (record_to_vec sample_env (first_record attempt provider f)) \<le> 4096 + 2 * length provider"
    and "2 * length provider \<le> length (record_to_vec sample_env (first_record attempt provider f))"
    and "length (record_to_vec sample_env (second_record attempt provider f)) \<le> 4096 + 2 * length provider"
  using sample_record_length [OF assms _ _ first_record_def [of attempt provider f]]
    sample_record_length [OF assms _ _ second_record_def [of attempt provider f]]
  by (simp_all add: first_record_def)

lemma sample_fitting:
  assumes "length attempt \<le> 128" and "length provider \<le> 100000"
  shows "fitting sample_env (first_record attempt provider f)"
    and "fitting sample_env (second_record attempt provider f)"
  using sample_record_lengths [OF assms(1), of provider f] assms(2)
  by (simp_all add: fitting_def MAX_RECORD_BYTES_def)

definition run_journal :: "string \<Rightarrow> string \<Rightarrow> bytes \<Rightarrow> Journal" where
  "run_journal attempt provider f = pushed sample_env (second_record attempt provider f)
     (pushed sample_env (first_record attempt provider f) (empty_journal f))"

lemma sample_admission:
  assumes "length attempt \<le> 128" and "length provider \<le> 100000"
  shows "admit_verified_execution sample_env Durable Durable (command_for attempt provider) 0 0
      (empty_journal f) = (Inr FreshStarted, run_journal attempt provider f)"
  unfolding run_journal_def
  by (rule admit_from_empty [OF sample_fitting [OF assms] first_record_def second_record_def])

lemma run_journal_reachable:
  "reachable sample_env [command_key (command_for ''A'' ''p'')] (run_journal ''A'' ''p'' [])"
  by (rule permitted [OF created, of _ "AdmitOp (command_for ''A'' ''p'') 0 0"])
     (simp add: sample_admission)

lemma execute_once_witness:
  "\<exists>j. reachable sample_env [command_key (command_for ''A'' ''p'')] j
     \<and> list_ex begun (history (command_key (command_for ''A'' ''p'')) (j_records j))"
  using execute_once [OF run_journal_reachable sample_env_sound] run_journal_reachable by auto

lemma journal_invariant_witness:
  "\<exists>ps j. reachable sample_env ps j \<and> ps \<noteq> [] \<and> open_journal sample_env (j_file j) = Inr j"
  using journal_invariant [OF run_journal_reachable sample_env_sound] run_journal_reachable by blast

lemma crash_atomic_witness:
  "\<exists>j' j''. run_op sample_env (WriteStops 7) Durable (AcceptOp (command_for ''A'' ''p'') 0) (empty_journal [])
       = (None, j') \<and> open_journal sample_env (j_file j') = Inr j'' \<and> reachable sample_env [] j''"
  using crash_atomic [OF created sample_env_sound, of "WriteStops 7" Durable
      "AcceptOp (command_for ''A'' ''p'') 0" "snd (accept sample_env (WriteStops 7) (command_for ''A'' ''p'') 0 (empty_journal []))"]
  by auto

lemma torn_write_loses_started_witness:
  "\<exists>res j1 j2. accept sample_env (WriteStops 4) (command_for ''A'' (replicate 20000 (CHR ''p''))) 0 (empty_journal [])
       = (res, j1)
     \<and> admit_verified_execution sample_env Durable Durable (command_for ''B'' ''p'') 0 0 j1
       = (Inr FreshStarted, j2)
     \<and> open_journal sample_env (j_file j2) = Inr (empty_journal [])"
proof -
  let ?a = "command_for ''A'' (replicate 20000 (CHR ''p''))"
  let ?r = "first_record ''A'' (replicate 20000 (CHR ''p'')) []"
  let ?f = "take 4 (frame_of sample_env ?r)"
  have fit: "fitting sample_env ?r" by (rule sample_fitting) simp_all
  have len: "length (frame_of sample_env ?r) = 4 + length (record_to_vec sample_env ?r) + 32"
    by (rule length_frame_of [OF sample_env_sound])
  have big: "40000 \<le> length (record_to_vec sample_env ?r)"
    using sample_record_lengths(2) [of "''A''" "replicate 20000 (CHR ''p'')" "[]"] by simp
  have fresh: "history (command_key ?a) (j_records (empty_journal [])) = []"
    by (simp add: empty_journal_def)
  obtain res j1 where acc: "accept sample_env (WriteStops 4) ?a 0 (empty_journal []) = (res, j1)"
    by fastforce
  have j1: "j1 = empty_journal ?f"
    using accept_write_stops [OF sample_env_sound good_created fresh first_record_def fit, of 4] acc
    by (simp add: empty_journal_def)
  have adm: "admit_verified_execution sample_env Durable Durable (command_for ''B'' ''p'') 0 0 j1
      = (Inr FreshStarted, run_journal ''B'' ''p'' ?f)"
    unfolding j1 by (rule sample_admission) simp_all
  have "length (j_file (run_journal ''B'' ''p'' ?f)) < 40000"
    using sample_record_lengths [of "''B''" "''p''" ?f]
    by (simp add: run_journal_def pushed_def length_frame_of [OF sample_env_sound] empty_journal_def)
  then have "length (j_file (run_journal ''B'' ''p'' ?f))
      < length (j_file (empty_journal [])) + length (frame_of sample_env ?r)"
    using big len by simp
  from torn_write_loses_started [OF created sample_env_sound fresh first_record_def fit _ _ acc adm this]
  have "open_journal sample_env (j_file (run_journal ''B'' ''p'' ?f)) = Inr (empty_journal [])"
    using len by simp
  with acc adm show ?thesis by blast
qed

end
