(* ===== verification/OverwriteSafety.thy ===== *)
theory OverwriteSafety
  imports ExactOverwrite JsonCodec
begin

text \<open>
  What the exact overwrite does to the file and what it says about it: a command made of built
  material writes that file and no other, wherever the write fails, and its outcome and a later
  reconciliation tell what is in the file.
\<close>

subsection \<open>Canonical paths\<close>

lemma canonicalize_idem [simp]: "canonicalize (canonicalize v) = canonicalize v"
proof (induction v)
  case (JObject ms)
  let ?f = "\<lambda>(k, v). (k, canonicalize v)"
  have "map ?f (sort_key fst (map ?f ms)) = sort_key fst (map ?f ms)"
    by (rule map_idI) (use JObject in force)
  then show ?case by (simp add: sort_key_sorted)
qed simp_all

lemma path_file_nameD:
  assumes "path_file_name p = Some f"
  shows "split_on (CHR ''/'') f = [f]" and "f \<noteq> []" and "f \<noteq> ''.''" and "f \<noteq> ''..''"
proof -
  have "f \<in> set (path_components p)" and "f \<noteq> ''..''"
    using assms last_in_set [of "path_components p"]
    by (auto simp: path_file_name_def Let_def split: if_splits)
  then show "split_on (CHR ''/'') f = [f]" "f \<noteq> []" "f \<noteq> ''.''" "f \<noteq> ''..''"
    using split_on_parts by (auto simp: path_components_def)
qed

lemma join_components:
  assumes "path_file_name p = Some f" and "is_absolute d"
  shows "path_components (path_join d f) = path_components d @ [f]" and "is_absolute (path_join d f)"
proof -
  note f = path_file_nameD [OF assms(1)]
  obtain x where d: "d = CHR ''/'' # x" using assms(2) by (auto simp: is_absolute_def prefix_def)
  show "is_absolute (path_join d f)" using d by (simp add: is_absolute_def path_join_def)
  show "path_components (path_join d f) = path_components d @ [f]"
  proof (cases "suffix ''/'' d")
    case True
    then obtain e where e: "d = e @ ''/''" by (auto simp: suffix_def)
    then have "path_join d f = e @ CHR ''/'' # f" by (simp add: path_join_def)
    then show ?thesis using f e by (simp add: path_components_def split_on_append)
  next
    case False
    then have "path_join d f = d @ CHR ''/'' # f" using d by (simp add: path_join_def)
    then show ?thesis using f by (simp add: path_components_def split_on_append)
  qed
qed

text \<open>Documented of \<open>std::fs::canonicalize\<close>: the result is absolute and canonical itself.\<close>

definition canonical_directories :: "file_system \<Rightarrow> bool" where
  "canonical_directories F \<longleftrightarrow>
     (\<forall>ws d. fs_canonical F ws = Some d \<longrightarrow> is_absolute d \<and> fs_canonical F (path_components d) = Some d)"

lemma reject_path_metadata_Inr [simp]: "reject_path_metadata e = Inr i \<longleftrightarrow> e = RegularFile i"
  by (auto simp: reject_path_metadata_def split: directory_entry.split)

lemma open_no_follow_Inr [simp]:
  "open_no_follow F p = Inr e \<longleftrightarrow> fs_entry F p = Some e \<and> fs_openable F p"
  by (auto simp: open_no_follow_def split: option.split)

text \<open>A canonical target is a regular file the process may open, and canonical itself.\<close>

lemma canonical_targetD:
  assumes "canonical_exact_overwrite_target F target = Inr p" and "canonical_directories F"
  shows "canonical_exact_overwrite_target F p = Inr p" and "is_absolute p"
    and "\<exists>i. fs_entry F p = Some (RegularFile i) \<and> fs_openable F p"
proof -
  obtain f d ws i where f: "path_file_name target = Some f" and d: "fs_canonical F ws = Some d"
    and p: "p = path_join d f" and i: "fs_entry F p = Some (RegularFile i)" "fs_openable F p"
    using assms(1)
    by (auto simp: canonical_exact_overwrite_target_def Let_def split: if_splits)
  have a: "is_absolute d" "fs_canonical F (path_components d) = Some d"
    using assms(2) d by (auto simp: canonical_directories_def)
  note c = join_components [OF f a(1), folded p]
  have n: "path_file_name p = Some f" "path_parent p = Some (path_components d)"
    using c path_file_nameD [OF f] by (simp_all add: path_file_name_def path_parent_def)
  have "path_join d f = p" by (simp add: p)
  then show "canonical_exact_overwrite_target F p = Inr p"
    using c(2) a(2) n i
    by (simp add: canonical_exact_overwrite_target_def reject_path_metadata_def open_no_follow_def)
  show "is_absolute p" by (rule c(2))
  show "\<exists>i. fs_entry F p = Some (RegularFile i) \<and> fs_openable F p" using i by blast
qed

subsection \<open>Material survives the wire\<close>

lemma closed_operand: "closed_object operand_keys
     [(''contract_version'', JString (xo_contract_version p)),
      (''target_path'', JString (xo_target_path p)),
      (''target_identity'', JString (xo_target_identity p)),
      (''expected_preimage_sha256'', JString (xo_expected_preimage_sha256 p)),
      (''replacement_hex'', JString (xo_replacement_hex p)),
      (''replacement_sha256'', JString (xo_replacement_sha256 p))]"
  by (simp add: closed_object_def operand_keys_def)

lemma operand_roundtrip [simp]:
  "operand_of_json (canonicalize (operand_json p)) = Some p" "operand_of_json (operand_json p) = Some p"
  using closed_operand [of p]
  unfolding operand_json_def operand_of_json_def canonicalize.simps json.case
    closed_object_canonical members_of_canonical [OF closed_operand]
  by (simp_all add: required_def)

lemma closed_key: "closed_object reconciliation_keys
     [(''contract_version'', JString (xk_contract_version k)),
      (''target_path'', JString (xk_target_path k)),
      (''target_identity'', JString (xk_target_identity k)),
      (''expected_preimage_sha256'', JString (xk_expected_preimage_sha256 k)),
      (''replacement_sha256'', JString (xk_replacement_sha256 k))]"
  by (simp add: closed_object_def reconciliation_keys_def)

lemma key_roundtrip [simp]:
  "reconciliation_key_of_json (canonicalize (reconciliation_key_json k)) = Some k"
  using closed_key [of k]
  unfolding reconciliation_key_json_def reconciliation_key_of_json_def canonicalize.simps json.case
    closed_object_canonical members_of_canonical [OF closed_key]
  by (simp add: required_def)

lemma digest_valid:
  assumes "length (sha256 X b) = 32"
  shows "valid_digest (digest_bytes X b)"
  using assms by (simp add: valid_digest_def digest_bytes_def sha256_hex_def hex_encode_lower)

lemma decode_hex_encode:
  "length b \<le> EXACT_OVERWRITE_MAX_REPLACEMENT_BYTES \<Longrightarrow> decode_lower_hex (hex_encode b) = Inr b"
  by (simp add: decode_lower_hex_def hex_encode_lower hex_pairs_encode)

lemma envelope_canonical:
  "canonicalize (envelope_json (e\<lparr>oe_non_secret := canonicalize (oe_non_secret e)\<rparr>))
     = canonicalize (envelope_json e)"
  unfolding envelope_json_def by (rule members_canonical) simp


subsection \<open>What depends on the contents of files\<close>

lemma contents_irrelevant [simp]:
  "canonical_exact_overwrite_target (F\<lparr>fs_content := g\<rparr>) t = canonical_exact_overwrite_target F t"
  "open_no_follow (F\<lparr>fs_content := g\<rparr>) t = open_no_follow F t"
  "validate_operand (F\<lparr>fs_content := g\<rparr>) p = validate_operand F p"
  "validated_command X (F\<lparr>fs_content := g\<rparr>) c = validated_command X F c"
  "open_validated_target (F\<lparr>fs_content := g\<rparr>) v = open_validated_target F v"
proof -
  show o: "open_no_follow (F\<lparr>fs_content := g\<rparr>) t = open_no_follow F t" for t
    by (simp add: open_no_follow_def split: option.split)
  show c: "canonical_exact_overwrite_target (F\<lparr>fs_content := g\<rparr>) t = canonical_exact_overwrite_target F t" for t
    by (simp add: canonical_exact_overwrite_target_def o)
  show v: "validate_operand (F\<lparr>fs_content := g\<rparr>) p = validate_operand F p" for p
    by (simp add: validate_operand_def c)
  show "validated_command X (F\<lparr>fs_content := g\<rparr>) c = validated_command X F c"
    by (simp add: validated_command_def v cong: if_cong)
  show "open_validated_target (F\<lparr>fs_content := g\<rparr>) v = open_validated_target F v"
    by (simp add: open_validated_target_def c o cong: if_cong)
qed

text \<open>The file a target names, the command made of material, and what a digest says of a file.\<close>

definition target_file :: "file_system \<Rightarrow> string \<Rightarrow> file_id option" where
  "target_file F target = (case canonical_exact_overwrite_target F target of
     Inl _ \<Rightarrow> None
   | Inr p \<Rightarrow> (case fs_entry F p of Some (RegularFile i) \<Rightarrow> Some i | _ \<Rightarrow> None))"

definition carries :: "ExecuteOnceV1 \<Rightarrow> ExactOverwriteMaterialV1 \<Rightarrow> bool" where
  "carries c m \<longleftrightarrow> fixed_identity_matches c
     \<and> oe_non_secret (eo_operand_envelope c)
         \<in> {oe_non_secret (xm_operand_envelope m), canonicalize (oe_non_secret (xm_operand_envelope m))}
     \<and> eo_payload_digest c = xm_payload_digest m
     \<and> eo_reconciliation_key c = Some (xm_reconciliation_key m)"

definition verdict :: "externals \<Rightarrow> bytes \<Rightarrow> bytes \<Rightarrow> bytes \<Rightarrow> RecorderObservationKindV1" where
  "verdict X new old now = (if digest_bytes X now = digest_bytes X new then Present
     else if digest_bytes X now = digest_bytes X old then Absent else Unknown)"

lemma operand_payload:
  assumes "oe_non_secret e \<in> {operand_json p, canonicalize (operand_json p)}" and "oe_secret_handles e = []"
  shows "exact_overwrite_payload_digest X e
      = exact_overwrite_payload_digest X \<lparr>oe_non_secret = operand_json p, oe_secret_handles = []\<rparr>"
    and "operand_of_json (oe_non_secret e) = Some p"
proof -
  let ?m = "\<lparr>oe_non_secret = operand_json p, oe_secret_handles = []\<rparr>"
  have "e = ?m \<or> e = ?m\<lparr>oe_non_secret := canonicalize (oe_non_secret ?m)\<rparr>"
    using assms by (cases e) auto
  then show "exact_overwrite_payload_digest X e = exact_overwrite_payload_digest X ?m"
    unfolding exact_overwrite_payload_digest_def canonical_json_bytes_def
    by (metis envelope_canonical)
  show "operand_of_json (oe_non_secret e) = Some p" using assms(1) by auto
qed

lemma built_material:
  assumes "build_exact_overwrite_material X F target new = Inr m" and "canonical_directories F"
    and "\<And>b. length (sha256 X b) = 32" and "carries c m"
  obtains v i where "target_file F target = Some i" "fs_readable F i"
    "xo_expected_preimage_sha256 (vx_operand v) = digest_bytes X (fs_content F i)"
    "xo_replacement_sha256 (vx_operand v) = digest_bytes X new" "vx_replacement v = new"
    "digest_bytes X (fs_content F i) \<noteq> digest_bytes X new"
    "vx_reconciliation_key v = xm_reconciliation_key m"
    "xm_reconciliation_key m = exact_overwrite_reconciliation_key X (vx_operand v)"
    "validated_command X F c = Inr v" "open_validated_target F v = Inr i"
    "validate_key (reconciliation_key_of (vx_operand v)) = Inr ()"
proof -
  obtain p i where p: "canonical_exact_overwrite_target F target = Inr p" "path_text p = Inr p"
    and i: "fs_entry F p = Some (RegularFile i)" "fs_openable F p" "fs_readable F i"
    and ne: "digest_bytes X (fs_content F i) \<noteq> digest_bytes X new"
    and new: "validate_replacement new = Inr ()"
    and m: "m = material_from_operand X
       \<lparr>xo_contract_version = EXACT_OVERWRITE_OPERAND_CONTRACT, xo_target_path = p,
        xo_target_identity = file_identity i,
        xo_expected_preimage_sha256 = digest_bytes X (fs_content F i),
        xo_replacement_hex = hex_encode new, xo_replacement_sha256 = digest_bytes X new\<rparr>"
    using assms(1)
    by (auto simp: build_exact_overwrite_material_def hash_open_file_def path_text_def Let_def
        split: if_splits)
  define q where "q = \<lparr>xo_contract_version = EXACT_OVERWRITE_OPERAND_CONTRACT, xo_target_path = p,
        xo_target_identity = file_identity i,
        xo_expected_preimage_sha256 = digest_bytes X (fs_content F i),
        xo_replacement_hex = hex_encode new, xo_replacement_sha256 = digest_bytes X new\<rparr>"
  let ?v = "\<lparr>vx_operand = q, vx_replacement = new,
      vx_reconciliation_key = exact_overwrite_reconciliation_key X q\<rparr>"
  note t = canonical_targetD [OF p(1) assms(2)]
  have operand: "validate_operand F q = Inr ()"
    using t p(2) ne by (simp add: validate_operand_def q_def digest_valid assms(3))
  have decode: "decode_lower_hex (xo_replacement_hex q) = Inr new"
    using new by (auto simp: q_def decode_hex_encode validate_replacement_def split: if_splits)
  have c: "fixed_identity_matches c" "oe_secret_handles (eo_operand_envelope c) = []"
    "oe_non_secret (eo_operand_envelope c) \<in> {operand_json q, canonicalize (operand_json q)}"
    "eo_reconciliation_key c = Some (exact_overwrite_reconciliation_key X q)"
    "eo_payload_digest c
       = exact_overwrite_payload_digest X \<lparr>oe_non_secret = operand_json q, oe_secret_handles = []\<rparr>"
    using assms(4)
    by (simp_all add: carries_def fixed_identity_matches_def m q_def [symmetric]
        material_from_operand_def Let_def)
  note e = operand_payload [OF c(3,2)]
  have "validated_command X F c = Inr ?v"
    using c operand decode new e by (simp add: validated_command_def Let_def) (simp add: q_def)
  moreover have "open_validated_target F ?v = Inr i"
    using t p(2) i by (simp add: open_validated_target_def q_def del: split_paired_Ex)
  moreover have "validate_key (reconciliation_key_of q) = Inr ()"
    using t(2) ne
    by (simp add: validate_key_def reconciliation_key_of_def q_def digest_valid assms(3) file_identity_def)
  moreover have "xm_reconciliation_key m = exact_overwrite_reconciliation_key X q"
    by (simp add: m q_def [symmetric] material_from_operand_def Let_def)
  moreover have "target_file F target = Some i" by (simp add: target_file_def p(1) i(1))
  ultimately show ?thesis using that [of i ?v] i(3) ne by (simp add: q_def)
qed

lemma inspect_opened:
  assumes "open_validated_target F v = Inr i" and "fs_readable F i"
  shows "inspect_current X F v = Inr
    (if digest_bytes X (fs_content F i) = xo_replacement_sha256 (vx_operand v) then Replacement
     else if digest_bytes X (fs_content F i) = xo_expected_preimage_sha256 (vx_operand v) then Original
     else UnknownState)"
  using assms by (simp add: inspect_current_def hash_open_file_def)

lemma open_by_operand:
  "vx_operand u = vx_operand v \<Longrightarrow> open_validated_target F u = open_validated_target F v"
  by (simp add: open_validated_target_def cong: if_cong)

text \<open>Reconciliation by the key of an operand inspects the same file.\<close>

lemma reconcile_opened:
  assumes "xk = exact_overwrite_reconciliation_key X p" and "validate_key (reconciliation_key_of p) = Inr ()"
    and "json_roundtrip X (canonicalize (reconciliation_key_json (reconciliation_key_of p)))"
    and "\<And>v. vx_operand v = p \<Longrightarrow> open_validated_target F v = Inr i" and "fs_readable F i" and "rs \<noteq> []"
  shows "\<exists>r. reconcile_exact_overwrite X F xk rs = Inr r
    \<and> rx_kind r = (if digest_bytes X (fs_content F i) = xo_replacement_sha256 p then Present
        else if digest_bytes X (fs_content F i) = xo_expected_preimage_sha256 p then Absent else Unknown)"
proof -
  have parse: "Option.bind (json_from_str X xk) reconciliation_key_of_json
      = Some (reconciliation_key_of p)"
    using assms(3)
    by (simp add: assms(1) exact_overwrite_reconciliation_key_def canonical_json_bytes_def
        json_roundtrip_def)
  let ?v = "\<lparr>vx_operand = \<lparr>xo_contract_version = EXACT_OVERWRITE_OPERAND_CONTRACT,
           xo_target_path = xo_target_path p, xo_target_identity = xo_target_identity p,
           xo_expected_preimage_sha256 = xo_expected_preimage_sha256 p, xo_replacement_hex = [],
           xo_replacement_sha256 = xo_replacement_sha256 p\<rparr>,
         vx_replacement = [], vx_reconciliation_key = xk\<rparr>"
  have "open_validated_target F ?v = open_validated_target F \<lparr>vx_operand = p, vx_replacement = [],
      vx_reconciliation_key = xk\<rparr>"
    by (simp add: open_validated_target_def cong: if_cong)
  then have o: "open_validated_target F ?v = Inr i" by (simp add: assms(4))
  show ?thesis
    using inspect_opened [OF o assms(5), of X] assms(2,6)
    by (auto simp: reconcile_exact_overwrite_def parse reconciliation_key_of_def Let_def
        reconciliation_outcome_def)
qed

lemma overwritten_content [simp]: "overwrite_content Overwritten new old = new"
  by (simp add: overwrite_content_def)


lemma written_again:
  assumes "validated_command X F c = Inr v" and "open_validated_target F v = Inr i"
    and "fs_readable F i" and "rs \<noteq> []"
    and "digest_bytes X (fs_content F i) = xo_replacement_sha256 (vx_operand v)"
  shows "invoke_exact_overwrite X F io c rs = (present_outcome X v rs, F)"
  using assms by (simp add: invoke_exact_overwrite_def hash_open_file_def)

lemma invoke_writes:
  assumes "validated_command X F c = Inr v" and "open_validated_target F v = Inr i"
    and "fs_readable F i" and "rs \<noteq> []"
    and "xo_expected_preimage_sha256 (vx_operand v) = digest_bytes X (fs_content F i)"
    and "xo_replacement_sha256 (vx_operand v) = digest_bytes X (vx_replacement v)"
    and "digest_bytes X (fs_content F i) \<noteq> digest_bytes X (vx_replacement v)"
  shows "snd (invoke_exact_overwrite X F io c rs) = overwrite_file io (vx_replacement v) i F"
    and "io_kind (fst (invoke_exact_overwrite X F io c rs)) = (if io = Overwritten then Present else Unknown)"
    and "io = Overwritten \<Longrightarrow> fst (invoke_exact_overwrite X F io c rs) = present_outcome X v rs"
  using assms
  by (auto simp: invoke_exact_overwrite_def hash_open_file_def overwrite_file_def Let_def
      unknown_outcome_def present_outcome_def)

subsection \<open>Properties\<close>

text \<open>C20: the overwrite is what was built. A command made of material built from a file is supported;
  invoked, it replaces the contents of exactly that file as far as the write got and changes no
  other. It reports \<open>Present\<close> exactly when everything succeeded; then the file holds the
  replacement and invoking the command again writes nothing and reports the same. When the write
  failed it reports \<open>Unknown\<close>, and reconciling with the command's key afterwards decides by what
  is in the file: the replacement, the old contents, or neither.\<close>

theorem overwrite_effect:
  assumes "build_exact_overwrite_material X F target new = Inr m" and "canonical_directories F"
    and "\<And>b. length (sha256 X b) = 32" and "carries c m" and "rs \<noteq> []"
    and json: "\<And>k. json_roundtrip X (canonicalize (reconciliation_key_json k))"
    and run: "invoke_exact_overwrite X F io c rs = (out, F')"
  shows "supports_exact_overwrite X F c
    \<and> (\<exists>i. target_file F target = Some i
        \<and> F' = F\<lparr>fs_content := (fs_content F)(i := overwrite_content io new (fs_content F i))\<rparr>
        \<and> io_kind out = (if io = Overwritten then Present else Unknown)
        \<and> (io = Overwritten \<longrightarrow> fs_content F' i = new
             \<and> (\<forall>io'. invoke_exact_overwrite X F' io' c rs = (out, F')))
        \<and> (\<exists>r. reconcile_exact_overwrite X F' (xm_reconciliation_key m) rs = Inr r
             \<and> rx_kind r = verdict X new (fs_content F i) (fs_content F' i)))"
proof -
  obtain v i where t: "target_file F target = Some i" "fs_readable F i"
    and d: "xo_expected_preimage_sha256 (vx_operand v) = digest_bytes X (fs_content F i)"
      "xo_replacement_sha256 (vx_operand v) = digest_bytes X new"
      "digest_bytes X (fs_content F i) \<noteq> digest_bytes X new"
    and new: "vx_replacement v = new"
    and k: "xm_reconciliation_key m = exact_overwrite_reconciliation_key X (vx_operand v)"
      "validate_key (reconciliation_key_of (vx_operand v)) = Inr ()"
    and v: "validated_command X F c = Inr v" "open_validated_target F v = Inr i"
    by (rule built_material [OF assms(1-4)]) blast
  note w = invoke_writes [OF v t(2) assms(5) d(1) _ _, unfolded new, OF d(2,3), of io, unfolded run fst_conv snd_conv]
  have F': "F' = F\<lparr>fs_content := (fs_content F)(i := overwrite_content io new (fs_content F i))\<rparr>"
    using w(1) by (simp add: overwrite_file_def)
  have vF: "validated_command X F' c = Inr v" "open_validated_target F' v = Inr i" "fs_readable F' i"
    using v t(2) by (simp_all add: F')
  have o: "open_validated_target F' u = Inr i" if "vx_operand u = vx_operand v" for u
    using v(2) open_by_operand [OF that, of F'] by (simp add: F')
  have again: "fs_content F' i = new \<and> (\<forall>io'. invoke_exact_overwrite X F' io' c rs = (out, F'))"
    if "io = Overwritten"
    using that w(3) written_again [OF vF assms(5)] d(2) by (simp add: F')
  have "supports_exact_overwrite X F c"
    using d by (simp add: supports_exact_overwrite_def v inspect_opened [OF v(2) t(2)])
  moreover have "\<exists>r. reconcile_exact_overwrite X F' (xm_reconciliation_key m) rs = Inr r
      \<and> rx_kind r = verdict X new (fs_content F i) (fs_content F' i)"
    using reconcile_opened [OF k json o vF(3) assms(5)] d unfolding verdict_def by metis
  ultimately show ?thesis using t(1) F' w(2) again by blast
qed

text \<open>C13: the recorder's executor does not lie. Whatever the command, an \<open>Absent\<close> outcome carries a failure class
  and leaves every file as it was. Otherwise the command was validated, its target opened, and no
  file but the target changes. \<open>Present\<close> has one actual for each verified reservation, and the
  target holds contents with the digest of the replacement: it held them before and was left alone,
  or it held the expected preimage and was overwritten to the end. \<open>Unknown\<close> is reported only
  for a target that held the expected preimage, after the overwrite was begun: the target is left
  as far as the write got, and the write failed on the way or reading it back gave no confirmation.\<close>

theorem overwrite_reports_truth:
  assumes "invoke_exact_overwrite X F io c rs = (out, F')"
  shows "(io_kind out = Absent \<and> F' = F \<and> io_provider_error_class out = Some Permanent
        \<and> io_technical_resource_actuals out = [])
    \<or> (\<exists>v i. validated_command X F c = Inr v \<and> open_validated_target F v = Inr i \<and> rs \<noteq> []
        \<and> (\<forall>k. k \<noteq> i \<longrightarrow> fs_content F' k = fs_content F k) \<and> io_provider_error_class out = None
        \<and> ((io_kind out = Present
              \<and> digest_bytes X (fs_content F' i) = xo_replacement_sha256 (vx_operand v)
              \<and> map tr_reservation_id (io_technical_resource_actuals out) = map vr_reservation_id rs
              \<and> (F' = F \<or> (digest_bytes X (fs_content F i) = xo_expected_preimage_sha256 (vx_operand v)
                    \<and> F' = overwrite_file io (vx_replacement v) i F \<and> io = Overwritten)))
           \<or> (io_kind out = Unknown
              \<and> digest_bytes X (fs_content F i) = xo_expected_preimage_sha256 (vx_operand v)
              \<and> digest_bytes X (fs_content F i) \<noteq> xo_replacement_sha256 (vx_operand v)
              \<and> F' = overwrite_file io (vx_replacement v) i F
              \<and> (io \<noteq> Overwritten \<or> digest_bytes X (fs_content F' i) \<noteq> xo_replacement_sha256 (vx_operand v))
              \<and> io_technical_resource_actuals out = [])))"
  using assms
  by (auto simp: invoke_exact_overwrite_def hash_open_file_def overwrite_file_def Let_def
      unknown_outcome_def present_outcome_def definite_absent_def reservation_actuals_def
      split: if_splits sum.splits)

subsection \<open>Witnesses\<close>

definition sample_files :: "bytes \<Rightarrow> file_system" where
  "sample_files old = \<lparr>fs_canonical = (\<lambda>ws. if ws = [] then Some ''/'' else None),
     fs_entry = (\<lambda>p. if p = ''/f'' then Some (RegularFile (1, 2)) else None),
     fs_openable = (\<lambda>_. True), fs_readable = (\<lambda>_. True), fs_content = (\<lambda>_. old)\<rparr>"

definition overwrite_command :: "ExactOverwriteMaterialV1 \<Rightarrow> ExecuteOnceV1" where
  "overwrite_command m = (unsigned_command JNull)
     \<lparr>eo_provider_identity := exact_overwrite_provider,
      eo_provider_version := EXACT_OVERWRITE_PROVIDER_VERSION,
      eo_adapter_identity := EXACT_OVERWRITE_ADAPTER_IDENTITY,
      eo_adapter_artifact_digest := EXACT_OVERWRITE_ADAPTER_ARTIFACT_DIGEST,
      eo_operand_envelope := xm_operand_envelope m, eo_payload_digest := xm_payload_digest m,
      eo_reconciliation_key := Some (xm_reconciliation_key m)\<rparr>"

definition sample_reservation :: VerifiedTechnicalResourceReservation where
  "sample_reservation = \<lparr>vr_reservation_id = ''r'', vr_amount_reserved = 1\<rparr>"

lemma sample_target: "canonical_exact_overwrite_target (sample_files old) ''/f'' = Inr ''/f''"
  by (simp add: canonical_exact_overwrite_target_def is_absolute_def path_file_name_def
      path_parent_def path_components_def path_join_def sample_files_def reject_path_metadata_def
      open_no_follow_def)

lemma sample_directories: "canonical_directories (sample_files old)"
  by (simp add: canonical_directories_def sample_files_def is_absolute_def path_components_def)

lemma coded_digest: "digest_bytes coded_externals a = digest_bytes coded_externals b \<longleftrightarrow> digest32 a = digest32 b"
  by (simp add: digest_bytes_def coded_externals_def)

lemma sample_digests:
  "digest32 ''aa'' \<noteq> digest32 ''bb''" "digest32 ''ba'' \<noteq> digest32 ''bb''" "digest32 ''ba'' \<noteq> digest32 ''aa''"
  by (simp_all add: digest32_def)

lemma sample_built:
  "\<exists>m. build_exact_overwrite_material coded_externals (sample_files ''aa'') ''/f'' ''bb'' = Inr m
     \<and> carries (overwrite_command m) m"
proof -
  have "valid_utf8 ''/f''" by (simp add: valid_utf8.simps utf8_width_def)
  then have "\<exists>q. build_exact_overwrite_material coded_externals (sample_files ''aa'') ''/f'' ''bb''
      = Inr (material_from_operand coded_externals q)"
    unfolding build_exact_overwrite_material_def sample_target
    by (simp add: validate_replacement_def EXACT_OVERWRITE_MAX_REPLACEMENT_BYTES_def
        hash_open_file_def path_text_def coded_digest sample_digests open_no_follow_def
        reject_path_metadata_def sample_files_def) blast
  moreover have "carries (overwrite_command (material_from_operand X q)) (material_from_operand X q)" for X q
    by (simp add: carries_def overwrite_command_def fixed_identity_matches_def unsigned_command_def
        material_from_operand_def Let_def)
  ultimately show ?thesis by auto
qed

lemma coded_hypotheses:
  "length (sha256 coded_externals b) = 32" "json_roundtrip coded_externals v"
  by (simp_all add: coded_roundtrip) (simp add: coded_externals_def)

lemma overwrite_effect_witness:
  "\<exists>m out F' r. build_exact_overwrite_material coded_externals (sample_files ''aa'') ''/f'' ''bb'' = Inr m
     \<and> invoke_exact_overwrite coded_externals (sample_files ''aa'') (WriteFails 1)
         (overwrite_command m) [sample_reservation] = (out, F')
     \<and> io_kind out = Unknown \<and> fs_content F' (1, 2) = ''ba''
     \<and> reconcile_exact_overwrite coded_externals F' (xm_reconciliation_key m) [sample_reservation] = Inr r
     \<and> rx_kind r = Unknown"
proof -
  let ?F = "sample_files ''aa''"
  obtain m where m: "build_exact_overwrite_material coded_externals ?F ''/f'' ''bb'' = Inr m"
    "carries (overwrite_command m) m" using sample_built by blast
  obtain out F' where run: "invoke_exact_overwrite coded_externals ?F (WriteFails 1)
      (overwrite_command m) [sample_reservation] = (out, F')" by fastforce
  have t: "target_file ?F ''/f'' = Some (1, 2)"
    by (simp add: target_file_def sample_target) (simp add: sample_files_def)
  have old: "fs_content ?F i = ''aa''" for i by (simp add: sample_files_def)
  note e = overwrite_effect [OF m(1) sample_directories coded_hypotheses(1) m(2) _ coded_hypotheses(2) run,
      unfolded t old, simplified]
  have now: "overwrite_content (WriteFails (Suc 0)) ''bb'' ''aa'' = ''ba''"
    by (simp add: overwrite_content_def)
  have "verdict coded_externals ''bb'' ''aa'' ''ba'' = Unknown"
    by (simp add: verdict_def coded_digest sample_digests)
  with e m(1) run show ?thesis by (auto simp: now)
qed

lemma overwrite_reports_truth_witness:
  "\<exists>m out F' v. build_exact_overwrite_material coded_externals (sample_files ''aa'') ''/f'' ''bb'' = Inr m
     \<and> invoke_exact_overwrite coded_externals (sample_files ''aa'') Overwritten
         (overwrite_command m) [sample_reservation] = (out, F')
     \<and> validated_command coded_externals (sample_files ''aa'') (overwrite_command m) = Inr v
     \<and> io_kind out = Present
     \<and> map tr_reservation_id (io_technical_resource_actuals out) = [''r'']"
proof -
  let ?F = "sample_files ''aa''"
  obtain m where m: "build_exact_overwrite_material coded_externals ?F ''/f'' ''bb'' = Inr m"
    "carries (overwrite_command m) m" using sample_built by blast
  obtain out F' where run: "invoke_exact_overwrite coded_externals ?F Overwritten
      (overwrite_command m) [sample_reservation] = (out, F')" by fastforce
  obtain v i where v: "validated_command coded_externals ?F (overwrite_command m) = Inr v"
    "open_validated_target ?F v = Inr i" "fs_readable ?F i" "vx_replacement v = ''bb''"
    "xo_expected_preimage_sha256 (vx_operand v) = digest_bytes coded_externals (fs_content ?F i)"
    "xo_replacement_sha256 (vx_operand v) = digest_bytes coded_externals ''bb''"
    "digest_bytes coded_externals (fs_content ?F i) \<noteq> digest_bytes coded_externals ''bb''"
    by (rule built_material [OF m(1) sample_directories coded_hypotheses(1) m(2)]) blast
  have "io_kind out = Present"
    using invoke_writes(2) [OF v(1-3), of "[sample_reservation]" Overwritten] v(4-7) run by simp
  with overwrite_reports_truth [OF run] v(1) m(1) run show ?thesis
    by (auto simp: sample_reservation_def)
qed

end
