(* ===== verification/ServiceWitness.thy ===== *)
theory ServiceWitness
  imports RecorderRuns ExecuteOnceWitness OverwriteSafety
begin

text \<open>
  A concrete run of the recorder's service: an exact-overwrite command whose attempt the database
  proves is admitted, journaled and invoked; its lease, claim and reservation are rows of a small
  database.
\<close>

definition service_command :: "ExactOverwriteMaterialV1 \<Rightarrow> ExecuteOnceV1" where
  "service_command m = (overwrite_command m)\<lparr>eo_provider_request_digest :=
     derived_provider_request_digest coded_externals (overwrite_command m)\<rparr>"

lemma service_command_fields [simp]:
  "eo_binding (service_command m) = sample_binding" "eo_attempt_id (service_command m) = ''t''"
  "eo_logical_effect_id (service_command m) = ''l''" "eo_provider_version (service_command m) = ''v1''"
  "eo_provider_identity (service_command m) = exact_overwrite_provider"
  "eo_provider_idempotency_key (service_command m) = None"
  "eo_reconciliation_key (service_command m) = Some (xm_reconciliation_key m)"
  "length (eo_provider_request_digest (service_command m)) = 71"
  "eo_claim_event_id (service_command m) = ''e''" "eo_claim_receipt_id (service_command m) = ''c''"
  "eo_continuation_fencing_token (service_command m) = 1" "eo_delegation_id (service_command m) = ''d''"
  "eo_continuation_id (service_command m) = ''n''" "eo_action_id (service_command m) = ''a''"
  "eo_internal_idempotency_key (service_command m) = ''k''" "eo_attempt_number (service_command m) = 1"
  "eo_manifest_digest (service_command m) = ''m''" "eo_deadline_ms (service_command m) = 1"
  by (simp_all add: service_command_def overwrite_command_def unsigned_command_def
      EXACT_OVERWRITE_PROVIDER_VERSION_def derived_provider_request_digest_def)

lemma binding_fields [simp]:
  "rb_canonical_root_identity sample_binding = ''r''" "rb_installation_id sample_binding = ''i''"
  "rb_state_root_generation sample_binding = 1" "rb_os_user_identity_digest sample_binding = ''u''"
  "rb_runtime_host_generation sample_binding = 1" "rb_runtime_host_instance_id sample_binding = ''h''"
  "rb_runtime_fencing_token sample_binding = 1"
  by (simp_all add: sample_binding_def)

text \<open>Records with short texts and small numbers fit a frame.\<close>

definition short_text :: "string \<Rightarrow> bool" where
  "short_text s \<longleftrightarrow> length s \<le> 128"

definition small :: "JournalRecordV1 \<Rightarrow> bool" where
  "small r \<longleftrightarrow> unat (ob_sequence r) < 10 \<and> ob_state_root_generation r = 1
     \<and> ob_recorder_key_generation r = 1 \<and> ob_observed_at_ms r = 0
     \<and> ob_technical_resource_actuals r = [] \<and> ob_provider_error_class r = None
     \<and> ob_reconciliation_window_start_ms r \<in> {None, Some 0}
     \<and> ob_reconciliation_window_end_ms r \<in> {None, Some 0}
     \<and> list_all short_text [ob_record_id r, ob_canonical_root_identity r, ob_installation_id r,
         ob_os_user_identity_digest r, ob_attempt_id r, ob_logical_effect_id r, ob_command_digest r,
         ob_provider_identity r, ob_provider_version r, ob_provider_request_digest r,
         ob_previous_record_digest r, ob_record_digest r, ob_recorder_key_id r, ob_signature_hex r,
         jr_journal_version r]
     \<and> list_all (pred_option short_text) [ob_provider_idempotency_key_digest r,
         ob_reconciliation_key_digest r, ob_remote_effect_id r, ob_response_digest r,
         ob_evidence_payload_digest r]"

lemma short_option: "pred_option short_text v \<Longrightarrow> length (code_json (json_option JString v)) \<le> 258"
  by (cases v) (simp_all add: short_text_def)

lemma small_fits:
  assumes "small r"
  shows "fitting sample_env r"
proof -
  have json: "journal_record_json r = JObject (record_members r)"
    by (simp add: journal_record_json_def record_members_def)
  have names: "list_all (\<lambda>(k, v). length k \<le> 31) (record_members r)"
    by (simp add: record_members_def observation_head_def observation_key_def)
  have digit: "length (show_nat (unat (ob_sequence r))) = 1" "length (show_int 1) = 1" "length (show_int 0) = 1"
    "length (show_nat (Suc 0)) = 1" "length (show_nat 1) = 1"
    using assms by (simp_all add: small_def show_int_def)
  have windows: "length (code_json (json_option json_i64 (ob_reconciliation_window_start_ms r))) \<le> 4"
    "length (code_json (json_option json_i64 (ob_reconciliation_window_end_ms r))) \<le> 4"
    using assms by (auto simp: small_def json_option_def digit)
  have options: "length (code_json (json_option JString (ob_provider_idempotency_key_digest r))) \<le> 258"
    "length (code_json (json_option JString (ob_reconciliation_key_digest r))) \<le> 258"
    "length (code_json (json_option JString (ob_remote_effect_id r))) \<le> 258"
    "length (code_json (json_option JString (ob_response_digest r))) \<le> 258"
    "length (code_json (json_option JString (ob_evidence_payload_digest r))) \<le> 258"
    using assms by (simp_all add: small_def short_option del: length_code_option)
  have "sum_list (map (\<lambda>(k, v). 64 + length (code_json v)) (record_members r)) \<le> 12000"
    using assms kind_length [of "ob_kind r"] windows digit options
    by (cases "ob_source r")
       (simp_all add: small_def record_members_def observation_head_def observation_key_def short_text_def
          del: length_code_option)
  then show ?thesis
    using length_code_object [OF names] by (simp add: fitting_def MAX_RECORD_BYTES_def record_to_vec_def json)
qed

lemma small_sealed:
  assumes "small (r\<lparr>ob_record_digest := [], ob_signature_hex := []\<rparr>)"
  shows "small (seal_record sample_env r)"
proof -
  obtain d s where "seal_record sample_env r = r\<lparr>ob_record_digest := d, ob_signature_hex := s\<rparr>"
    "length d = 71" "length s = 128"
    using sample_seal by blast
  then show ?thesis using assms by (simp add: small_def short_text_def)
qed

lemma small_prefixed: "short_text (''recorder-record-'' @ sha256_hex coded_externals b)"
  by (simp add: short_text_def)

lemma service_record_small:
  assumes "unat (next_sequence j) < 10" and "length (head_digest j) = 71"
  shows "small (new_record sample_env (service_command m)
      (command_digest sample_env (service_command m)) (plain_outcome k 0) j)"
  unfolding new_record_def
  by (rule small_sealed) (simp add: small_def assms plain_outcome_def short_text_def
      stable_key_digest_def exact_overwrite_provider_def JOURNAL_VERSION_def)

lemma service_admission:
  "\<exists>j. admit_verified_execution sample_env Durable Durable (service_command m) 0 0 (empty_journal f)
     = (Inr FreshStarted, j)"
proof -
  let ?r = "new_record sample_env (service_command m) (command_digest sample_env (service_command m))
      (plain_outcome Accepted 0) (empty_journal f)"
  have "fitting sample_env ?r" by (intro small_fits service_record_small) simp_all
  moreover have "fitting sample_env (new_record sample_env (service_command m)
      (command_digest sample_env (service_command m)) (plain_outcome InvocationStarted 0)
      (pushed sample_env ?r (empty_journal f)))"
    by (intro small_fits service_record_small) simp_all
  ultimately show ?thesis using admit_from_empty [OF _ _ refl refl] by blast
qed

definition service_reservation :: reservation_row where
  "service_reservation = \<lparr>si_reservation_id = ''r'', si_quota_snapshot_id = ''s'',
     si_logical_effect_id = ''l'', si_technical_resource_kind = ''provider_calls'', si_unit = ''call'',
     si_amount_reserved = 1, rr_claim_event_id = ''e'', rr_status = ''reserved'',
     rr_delegation_id = ''d'', rr_continuation_id = ''n'', rr_claim_receipt_id = ''c'',
     rr_continuation_fencing_token = 1, rr_runtime_host_generation = 1, rr_runtime_fencing_token = 1,
     rr_expires_at = 1\<rparr>"

definition service_set :: string where
  "service_set = code_json (JArray [reservation_json (StoredReservationIdentity.truncate service_reservation)])"

definition service_database :: "ExactOverwriteMaterialV1 \<Rightarrow> database" where
  "service_database m = \<lparr>
     db_attempts = [\<lparr>pa_attempt_id = ''t'', pa_status = ''invoking'', pa_attempt_number = 1,
       pa_delegation_id = ''d'', pa_continuation_id = ''n'', pa_action_id = ''a'',
       pa_logical_effect_id = ''l'', pa_claim_event_id = ''e'', pa_claim_receipt_id = ''c'',
       pa_fencing_token = 1, pa_host_generation = 1, pa_host_instance_id = ''h'',
       pa_runtime_fencing_token = 1,
       pa_provider_request_digest = eo_provider_request_digest (service_command m)\<rparr>],
     db_effects = [\<lparr>le_delegation_id = ''d'', le_logical_effect_id = ''l'', le_state = ''invoking'',
       le_internal_idempotency_key = ''k'', le_provider_identity = Some exact_overwrite_provider,
       le_provider_idempotency_key = None, le_reconciliation_key = Some (xm_reconciliation_key m),
       le_manifest_digest = ''m'', le_payload_digest = eo_payload_digest (service_command m)\<rparr>],
     db_history = [\<lparr>oh_event_id = ''e'', oh_operation = ''claim'', oh_claim_event_id = ''e'',
       oh_claim_receipt_id = ''c'', oh_continuation_id = ''n'', oh_delegation_id = ''d'',
       oh_action_id = ''a'', oh_job_id = ''j'', oh_worker_id = ''w'', oh_job_lease_expires_at = 1,
       oh_continuation_fencing_token = 1, oh_runtime_host_generation = 1,
       oh_runtime_host_instance_id = ''h'', oh_runtime_fencing_token = 1,
       oh_state_root_generation = 1, oh_global_stop_epoch = 0, oh_reservation_set_json = service_set,
       oh_reservation_set_digest = reservation_set_digest coded_externals service_set\<rparr>],
     db_continuations = [\<lparr>cr_delegation_id = ''d'', cr_continuation_id = ''n'',
       cr_status = ''executing'', cr_job_id = Some ''j'', cr_lease_owner = Some ''w'',
       cr_lease_expires_at = Some 1, cr_fencing_token = 1, cr_host_generation = 1\<rparr>],
     db_jobs = [\<lparr>jb_job_id = ''j'', jb_enabled = 1, jb_deleted_at = None, jb_lease_owner = Some ''w'',
       jb_lease_expires_at = Some 1, jb_payload_mode = Some ''execass.continuation''\<rparr>],
     db_generations = [\<lparr>hg_generation = 1, hg_host_instance_id = ''h'', hg_state_root_generation = 1,
       hg_installation_identity = ''i'', hg_os_user_identity_digest = ''u''\<rparr>],
     db_leases = [\<lparr>hl_ownership_scope = ''execass'', hl_generation = 1, hl_host_instance_id = ''h'',
       hl_fencing_token = 1, hl_released_at = None, hl_expires_at = 1\<rparr>],
     db_keys = [\<lparr>ak_status = ''active'', ak_canonical_root_identity = ''r'',
       ak_installation_identity = ''i'', ak_os_user_identity_digest = ''u'', ak_state_root_generation = 1\<rparr>],
     db_control = [\<lparr>gc_singleton = 1, gc_engaged = 0, gc_global_stop_epoch = 0\<rparr>],
     db_reservations = [service_reservation]\<rparr>"

lemma service_proven: "attempt_proven (service_database m) (service_command m) 0"
  by (simp add: attempt_proven_def service_database_def attempt_matches_def effect_matches_def
      claim_matches_def continuation_matches_def job_matches_def host_matches_def not_stopped_def
      leased_def live_lease_def later_def)

lemma closed_reservation: "closed_object reservation_keys
     [(''reservation_id'', JString (si_reservation_id r)),
      (''quota_snapshot_id'', JString (si_quota_snapshot_id r)),
      (''logical_effect_id'', JString (si_logical_effect_id r)),
      (''technical_resource_kind'', JString (si_technical_resource_kind r)),
      (''unit'', JString (si_unit r)), (''amount_reserved'', json_i64 (si_amount_reserved r))]"
  by (simp add: closed_object_def reservation_keys_def)

lemma reservation_roundtrip [simp]:
  "reservation_of_json (canonicalize (reservation_json r)) = Some (StoredReservationIdentity.truncate r)"
  using closed_reservation [of r]
  unfolding reservation_json_def reservation_of_json_def canonicalize.simps json.case
    closed_object_canonical members_of_canonical [OF closed_reservation]
  by (simp add: required_def StoredReservationIdentity.truncate_def)

lemma service_set_read:
  "Option.bind (json_from_str coded_externals service_set) (as_array reservation_of_json)
     = Some [StoredReservationIdentity.truncate service_reservation]"
proof -
  let ?r = "StoredReservationIdentity.truncate service_reservation"
  have "json_from_str coded_externals service_set = Some (canonicalize (JArray [reservation_json ?r]))"
    using coded_roundtrip [of "JArray [reservation_json ?r]"]
    by (simp add: json_roundtrip_def service_set_def del: code_json.simps canonicalize.simps)
  then show ?thesis
    by (simp add: as_array_def) (simp add: StoredReservationIdentity.truncate_def)
qed

lemma service_verified:
  "verify coded_externals (Inr (service_database m)) (service_command m) 0
     = Inr \<lparr>va_command = service_command m, va_reservations = [sample_reservation]\<rparr>"
proof -
  have d: "derived_provider_request_digest coded_externals (service_command m)
      = eo_provider_request_digest (service_command m)"
    by (simp add: service_command_def)
  have h: "find (claim_reservations (service_command m)) (db_history (service_database m))
      = Some (hd (db_history (service_database m)))"
    by (simp add: service_database_def claim_reservations_def)
  have j: "oh_reservation_set_json (hd (db_history (service_database m))) = service_set"
    "oh_reservation_set_digest (hd (db_history (service_database m)))
      = reservation_set_digest coded_externals service_set"
    by (simp_all add: service_database_def)
  have l: "load_verified_reservations coded_externals (service_database m) (service_command m) 0
      service_set (reservation_set_digest coded_externals service_set) True True
      = Inr [sample_reservation]"
    unfolding load_verified_reservations_def load_verified_reservations_for_identity_def service_set_read
    by (simp add: service_database_def Let_def service_set_def [symmetric] reservation_drifted_def
          later_def sample_reservation_def del: code_json.simps)
       (simp add: service_reservation_def StoredReservationIdentity.truncate_def)
  show ?thesis
    unfolding verify_def by (simp add: d h j l service_proven later_def)
qed

definition sample_recorder :: recorder_service where
  "sample_recorder = \<lparr>rs_env = sample_env, rs_mac = (\<lambda>_. digest32), rs_channel_key = []\<rparr>"

lemma sample_recorder_simps [simp]:
  "rs_env sample_recorder = sample_env" "rs_mac sample_recorder = (\<lambda>_. digest32)"
  "rs_channel_key sample_recorder = []"
  by (simp_all add: sample_recorder_def)

lemma service_supported:
  assumes "build_exact_overwrite_material coded_externals (sample_files ''aa'') ''/f'' ''bb'' = Inr m"
    and "carries (overwrite_command m) m"
  shows "supports sample_recorder (sample_files ''aa'') (service_command m)"
proof -
  have c: "carries (service_command m) m"
    using assms(2) by (simp add: carries_def service_command_def fixed_identity_matches_def)
  obtain v i where "validated_command coded_externals (sample_files ''aa'') (service_command m) = Inr v"
    "open_validated_target (sample_files ''aa'') v = Inr i" "fs_readable (sample_files ''aa'') i"
    "xo_expected_preimage_sha256 (vx_operand v) = digest_bytes coded_externals (fs_content (sample_files ''aa'') i)"
    "xo_replacement_sha256 (vx_operand v) = digest_bytes coded_externals ''bb''"
    "digest_bytes coded_externals (fs_content (sample_files ''aa'') i) \<noteq> digest_bytes coded_externals ''bb''"
    by (rule built_material [OF assms(1) sample_directories coded_hypotheses(1) c]) blast
  then show ?thesis
    by (simp add: supports_def supports_exact_overwrite_def inspect_opened)
qed

lemma service_admitted:
  assumes "build_exact_overwrite_material coded_externals (sample_files ''aa'') ''/f'' ''bb'' = Inr m"
    and "carries (overwrite_command m) m"
  obtains j where "execute_admit sample_recorder Durable Durable (sample_files ''aa'')
      (Inr (service_database m)) 0 0 (service_command m) (empty_journal [])
    = (Inr (InvokeProvider \<lparr>va_command = service_command m, va_reservations = [sample_reservation]\<rparr>), j)"
proof -
  obtain j where j: "admit_verified_execution sample_env Durable Durable (service_command m) 0 0
      (empty_journal []) = (Inr FreshStarted, j)" using service_admission by blast
  have "execution_state sample_env (service_command m) (empty_journal []) = Inr RequiresLiveVerification"
    by (simp add: execution_state_def latest_for_def records_for_def empty_journal_def)
  with j service_supported [OF assms] service_verified [of m] that show thesis
    by (simp add: execute_admit_def)
qed

lemma provider_invoked_once_witness:
  "\<exists>s a. service_run sample_recorder s \<and> sv_invoked s = [a] \<and> proven a
     \<and> list_ex begun (history (ad_key a) (j_records (sv_journal s)))"
proof -
  obtain m where m: "build_exact_overwrite_material coded_externals (sample_files ''aa'') ''/f'' ''bb'' = Inr m"
    "carries (overwrite_command m) m" using sample_built by blast
  let ?adm = "\<lparr>va_command = service_command m, va_reservations = [sample_reservation]\<rparr>"
  let ?a = "\<lparr>ad_admission = ?adm, ad_snapshot = Inr (service_database m), ad_now = 0\<rparr>"
  let ?s = "\<lparr>sv_journal = empty_journal [], sv_files = sample_files ''aa'', sv_pending = [],
      sv_reported = [], sv_invoked = []\<rparr>"
  obtain j where j: "execute_admit sample_recorder Durable Durable (sv_files ?s)
      (Inr (service_database m)) 0 0 (service_command m) (sv_journal ?s) = (Inr (InvokeProvider ?adm), j)"
    using service_admitted [OF m] by auto
  obtain out F where run: "invoke sample_recorder Overwritten ?adm (sample_files ''aa'') = (out, F)" by fastforce
  let ?t = "?s\<lparr>sv_journal := j, sv_pending := [?a]\<rparr>"
  have "service_run sample_recorder ?t"
    using service_run.admission [OF service_run.booted j] by simp
  from service_run.invocation [OF this, of "[]" ?a "[]" Overwritten out F] run
  have "service_run sample_recorder (?t\<lparr>sv_files := F, sv_pending := [],
      sv_reported := [(service_command m, out)], sv_invoked := [?a]\<rparr>)" by simp
  from this provider_invoked_once [OF this] show ?thesis
    by (intro exI [of _ "?t\<lparr>sv_files := F, sv_pending := [], sv_reported := [(service_command m, out)],
        sv_invoked := [?a]\<rparr>"] exI [of _ ?a]) (simp add: sample_env_sound)
qed


subsection \<open>A query and a session\<close>

definition sample_query :: QueryOnlyV1 where
  "sample_query = \<lparr>qo_binding = sample_binding, qo_request_id = ''q'', qo_attempt_id = ''A'',
     qo_expected_command_digest = None, qo_known_journal_head = None, qo_client_nonce = ''o'',
     qo_command_mac = []\<rparr>"

definition client_of :: "recorder_env \<Rightarrow> recorder_client" where
  "client_of E = \<lparr>cl_channel_key = [],
     cl_identity = \<lparr>ri_key_id = je_key_id E, ri_key_generation = 1,
       ri_verifying_key_hex = hex_encode (replicate 32 NUL),
       ri_verifying_key_digest = sha256_hex coded_externals (replicate 32 NUL)\<rparr>,
     cl_ed = sample_ed, cl_verify_strict = (\<lambda>_ _ s. s = replicate 64 NUL)\<rparr>"

lemma client_pinned: "pinned (client_of (sample_env\<lparr>je_key_id := i\<rparr>)) (sample_env\<lparr>je_key_id := i\<rparr>)"
  by (simp add: pinned_def client_of_def sample_ed_def) (simp add: sample_env_def)

lemma sample_query_valid: "request_validate X (QueryOnly sample_query) = Inr ()"
proof -
  have one: "valid_text limit [c]" if "visible c" and "0 < limit" for c limit
    using that valid_text_visible [of c "[]" limit] by simp
  show ?thesis
    by (simp add: request_validate_def valid_query_only_def sample_query_def sample_binding_def
        valid_binding_def one visible_def)
qed

lemma sample_query_signed:
  "authenticate_request X (\<lambda>_. digest32) [] (sign_request X (\<lambda>_. digest32) [] (QueryOnly sample_query))"
  by (rule sign_authenticates [OF sample_query_valid]) simp

definition sample_world :: request_world where
  "sample_world = \<lparr>w_snapshot = Inl OpenFailed, w_now = 0, w_started_at = 0, w_observed_at = 0,
     w_first_append = Durable, w_second_append = Durable, w_third_append = Durable,
     w_overwrite = Overwritten\<rparr>"

lemma replies_well_typed_witness:
  "\<exists>q ob j' F'. handle sample_recorder sample_world (QueryOnly q) (run_journal ''A'' ''p'' []) (sample_files ''aa'')
      = (Observation ''q'' True ob, j', F')
     \<and> ob_attempt_id ob = ''A''
     \<and> verify_reply sample_env (client_of sample_env) (QueryOnly q) (Observation ''q'' True ob) = Inr ()"
proof -
  let ?j = "run_journal ''A'' ''p'' []"
  let ?h = "history (''i'', 1, ''A'') (j_records ?j)"
  obtain q where s: "sign_request coded_externals (\<lambda>_. digest32) [] (QueryOnly sample_query) = QueryOnly q"
    and q: "qo_binding q = sample_binding" "qo_request_id q = ''q''" "qo_attempt_id q = ''A''"
      "qo_expected_command_digest q = None"
    by (simp add: sign_request_def sample_query_def)
  have good: "good sample_env ?j"
    using reachable_invariant [OF run_journal_reachable sample_env_sound] by blast
  have recs: "j_records ?j = [first_record ''A'' ''p'' [], second_record ''A'' ''p'' []]"
    by (simp add: run_journal_def pushed_def empty_journal_def)
  have h: "?h = j_records ?j"
    by (simp add: recs history_def first_record_def second_record_def new_record_fields command_for_def
        unsigned_command_def command_key_def)
  have root: "reply_same_root (QueryOnly q)
      (reply_record ''q'' True (second_record ''A'' ''p'' []))"
    by (simp add: reply_same_root_def reply_record_def q)
       (simp add: of_same_root_def q second_record_def new_record_def seal_record_def Let_def command_for_def
        unsigned_command_def)
  have "query (''i'', 1, ''A'') None ?j = Inr (Some (second_record ''A'' ''p'' []))"
    using h by (simp add: query_good [OF good] recs Let_def)
  then have run: "handle sample_recorder sample_world (QueryOnly q) ?j (sample_files ''aa'')
      = (reply_record ''q'' True (second_record ''A'' ''p'' []), ?j, sample_files ''aa'')"
    using sample_query_signed [of coded_externals] s
    by (simp add: handle_def handle_inner_def handle_query_def q to_reply_def)
  have pin: "pinned (client_of sample_env) sample_env"
    using client_pinned [of "''k''"] by (simp add: sample_env_def)
  have "reachable (rs_env sample_recorder) [command_key (command_for ''A'' ''p'')] ?j"
    "sound_env (rs_env sample_recorder)" "pinned (client_of sample_env) (rs_env sample_recorder)"
    using run_journal_reachable sample_env_sound pin by simp_all
  note typed = replies_well_typed [OF this replied.uninterrupted [OF run]]
  have "ob_attempt_id (observation_of_record (second_record ''A'' ''p'' [])) = ''A''"
    by (simp add: second_record_def new_record_def seal_record_def Let_def command_for_def)
  with typed run root show ?thesis unfolding reply_record_def sample_recorder_simps by blast
qed

lemma canonical_length: "length (code_json (canonicalize v)) = length (code_json v)"
proof (induction v)
  case (JArray vs)
  have "length (concat (map (\<lambda>v. CHR '','' # code_json v) (map canonicalize vs)))
      = length (concat (map (\<lambda>v. CHR '','' # code_json v) vs))"
    using JArray by (induction vs) auto
  then show ?case by (simp only: canonicalize.simps code_json.simps) simp
next
  case (JObject ms)
  let ?f = "\<lambda>(k, v). CHR '','' # code_text k @ code_json v"
  let ?c = "map (\<lambda>(k, v). (k, canonicalize v)) ms"
  have perm: "length (concat (map ?f xs)) = sum_mset (image_mset (\<lambda>m. length (?f m)) (mset xs))" for xs
    by (induction xs) auto
  have "length (concat (map ?f (sort_key fst ?c))) = length (concat (map ?f ?c))"
    unfolding perm by simp
  also have "\<dots> = length (concat (map ?f ms))"
    using JObject by (induction ms) (auto, fastforce)
  finally show ?case by (simp only: canonicalize.simps code_json.simps) simp
qed simp_all

definition constant_readers ::
    "RecorderHandshakeChallengeV1 \<Rightarrow> RecorderHandshakeAttestationV1 \<Rightarrow> RecorderRequestV1
     \<Rightarrow> RecorderReplyV1 \<Rightarrow> readers" where
  "constant_readers ch at q r = \<lparr>rd_challenge = (\<lambda>_. Inr ch), rd_attestation = (\<lambda>_. Inr at),
     rd_request = (\<lambda>_. Inr q), rd_reply = (\<lambda>_. Inr r)\<rparr>"

lemma short_carried:
  assumes "length (code_json v) \<le> 100000" and "\<And>b. g b = Inr m"
  shows "\<exists>frame. carried coded_externals g v m frame"
  using assms canonical_length [of v]
  by (simp add: carried_def write_message_def encode_frame_def canonical_json_bytes_def Let_def
      RECORDER_MAX_FRAME_BYTES_def)

definition session_env :: recorder_env where
  "session_env = sample_env\<lparr>je_key_id := domain_key_id coded_externals ''r'' (replicate 32 NUL)\<rparr>"

definition session_recorder :: recorder_service where
  "session_recorder = \<lparr>rs_env = session_env, rs_mac = (\<lambda>_. digest32), rs_channel_key = []\<rparr>"

definition session_world :: request_world where
  "session_world = sample_world\<lparr>w_snapshot := Inr
     \<lparr>db_attempts = [], db_effects = [], db_history = [], db_continuations = [], db_jobs = [],
      db_generations = [\<lparr>hg_generation = 1, hg_host_instance_id = ''h'', hg_state_root_generation = 1,
        hg_installation_identity = ''i'', hg_os_user_identity_digest = ''u''\<rparr>],
      db_leases = [\<lparr>hl_ownership_scope = ''execass'', hl_generation = 1, hl_host_instance_id = ''h'',
        hl_fencing_token = 1, hl_released_at = None, hl_expires_at = 1\<rparr>],
      db_keys = [\<lparr>ak_status = ''active'', ak_canonical_root_identity = ''r'',
        ak_installation_identity = ''i'', ak_os_user_identity_digest = ''u'', ak_state_root_generation = 1\<rparr>],
      db_control = [], db_reservations = []\<rparr>\<rparr>"

lemma session_env_sound: "sound_env session_env"
  using sample_env_sound by (simp add: session_env_def sound_env_def) (simp add: sample_env_def)

lemma session_completes_witness:
  "\<exists>D R w f1 f2 f3 f4. fst (client_send session_env D (client_of session_env) (\<lambda>_. digest32)
        (QueryOnly sample_query) (f2 @ f4)) = Inr (NotFound ''q'')
     \<and> snd (client_send session_env D (client_of session_env) (\<lambda>_. digest32)
        (QueryOnly sample_query) (f2 @ f4)) = f1 @ f3
     \<and> fst (handle_stream R D w ''n'' (f1 @ f3) (empty_journal []) (sample_files ''aa'')) = Inr ()"
proof -
  let ?X = coded_externals and ?R = session_recorder and ?w = session_world
  have R: "rs_env ?R = session_env" "rs_mac ?R = (\<lambda>_. digest32)" "rs_channel_key ?R = []"
    "je_ext session_env = ?X"
    by (simp_all add: session_recorder_def session_env_def)
  obtain q where s: "sign_request ?X (\<lambda>_. digest32) [] (QueryOnly sample_query) = QueryOnly q"
    and q: "qo_binding q = sample_binding" "qo_request_id q = ''q''" "qo_attempt_id q = ''A''"
      "qo_expected_command_digest q = None" "qo_client_nonce q = ''o''" "qo_known_journal_head q = None"
      "length (qo_command_mac q) = 64"
    by (simp add: sign_request_def sample_query_def)
  let ?ch = "challenge_for ?X (QueryOnly q)"
  let ?at = "sign_handshake session_env ?ch sample_binding ''n''"
  let ?D = "constant_readers ?ch ?at (QueryOnly q) (NotFound ''q'')"
  have hs: "handshake ?R (w_snapshot ?w) (w_now ?w) ?ch ''n'' = Inr ?at"
    by (simp add: handshake_def session_world_def sample_world_def load_authoritative_binding_def
        same_root_def live_lease_def later_def challenge_for_def q R sample_binding_def Let_def)
  have root: "one_root (QueryOnly q) (empty_journal [])"
    by (simp add: one_root_def empty_journal_def history_def)
  have run: "handle ?R ?w (QueryOnly q) (empty_journal []) (sample_files ''aa'')
      = (NotFound ''q'', empty_journal [], sample_files ''aa'')"
    using sample_query_signed [of ?X] s
    by (simp add: handle_def handle_inner_def handle_query_def q to_reply_def R query_def
        empty_journal_def)
  have id: "validate_for_root ?X (cl_ed (client_of session_env)) (cl_identity (client_of session_env))
      (rb_canonical_root_identity (request_binding (QueryOnly sample_query))) = Inr ()"
    by (simp add: validate_for_root_def client_of_def session_env_def sample_query_def sample_ed_def)
  have pin: "pinned (client_of session_env) session_env"
    unfolding session_env_def by (rule client_pinned)
  have texts: "length RECORDER_PROTOCOL_VERSION \<le> 100" "length RECORDER_HANDSHAKE_VERSION \<le> 100"
    by (simp_all add: RECORDER_PROTOCOL_VERSION_def RECORDER_HANDSHAKE_VERSION_def)
  have nums: "length (show_int 1) = 1" "length (show_nat (Suc 0)) = 1" "length (show_nat 1) = 1"
    by (simp_all add: show_int_def)
  have b: "length (code_json (binding_json sample_binding)) \<le> 2000"
    using length_code_object [OF _, of "case binding_json sample_binding of JObject ms \<Rightarrow> ms"] texts(1)
    by (simp add: binding_json_def sample_binding_def nums)
  have p: "length (code_json (query_only_json q)) \<le> 4000"
    using b by (simp add: query_only_json_def q)
  have dig: "length (hc_request_authentication_digest ?ch) = 71"
    by (simp add: challenge_for_def request_digest_def)
  have at: "ha_handshake_version ?at = RECORDER_HANDSHAKE_VERSION" "ha_binding ?at = sample_binding"
    "ha_client_nonce ?at = ''o''" "ha_server_nonce ?at = ''n''"
    "ha_request_authentication_digest ?at = hc_request_authentication_digest ?ch"
    "length (ha_recorder_key_id ?at) = 83" "ha_recorder_key_generation ?at = 1"
    "length (ha_recorder_verifying_key_hex ?at) = 64" "length (ha_signature_hex ?at) = 128"
    by (simp_all add: sign_handshake_def Let_def session_env_def challenge_for_def q domain_key_id_def)
       (simp_all add: sample_env_def)
  obtain f1 where f1: "carried ?X (rd_challenge ?D) (challenge_json ?ch) ?ch f1"
    using short_carried [of "challenge_json ?ch" "rd_challenge ?D" ?ch] b texts dig
    by (simp add: constant_readers_def challenge_json_def) (auto simp: challenge_for_def q)
  obtain f2 where f2: "carried ?X (rd_attestation ?D) (attestation_json ?at) ?at f2"
    using short_carried [of "attestation_json ?at" "rd_attestation ?D" ?at] b texts dig
    by (auto simp: constant_readers_def attestation_json_def at nums)
  obtain f3 where f3: "carried ?X (rd_request ?D) (request_json (QueryOnly q)) (QueryOnly q) f3"
    using short_carried [of "request_json (QueryOnly q)" "rd_request ?D" "QueryOnly q"] p
    by (auto simp: constant_readers_def)
  obtain f4 where f4: "carried ?X (rd_reply ?D) (reply_json (NotFound ''q'')) (NotFound ''q'') f4"
    using short_carried [of "reply_json (NotFound ''q'')" "rd_reply ?D" "NotFound ''q''"]
    by (auto simp: constant_readers_def)
  have "client_send session_env ?D (client_of session_env) (\<lambda>_. digest32) (QueryOnly sample_query) (f2 @ f4)
      = (Inr (NotFound ''q''), f1 @ f3)
    \<and> handle_stream ?R ?D ?w ''n'' (f1 @ f3) (empty_journal []) (sample_files ''aa'')
      = (Inr (), f2 @ f4, empty_journal [], sample_files ''aa'')"
    using session_completes [of ?R "[]" "empty_journal []" "client_of session_env" ?X "QueryOnly q"
        "QueryOnly sample_query" ?w "''n''" ?at "sample_files ''aa''" "NotFound ''q''" "empty_journal []"
        "sample_files ''aa''" ?D f1 f2 f3 f4]
      created session_env_sound pin s root id hs run f1 f2 f3 f4
    by (simp add: R client_of_def)
  then show ?thesis by (metis fst_conv snd_conv)
qed

end
