(* ===== verification/ReconcileRace.thy ===== *)
theory ReconcileRace
  imports ServiceWitness
begin

subsection \<open>A reconciliation while the invocation is outstanding\<close>

lemma invoke_shaped:
  "is_evidence (io_kind (fst (invoke R io a F)))
    \<and> shaped (io_kind (fst (invoke R io a F))) Execution (io_provider_error_class (fst (invoke R io a F)))"
  by (auto simp: invoke_def invoke_exact_overwrite_def hash_open_file_def Let_def unknown_outcome_def
      present_outcome_def definite_absent_def is_evidence_def shaped_def
      split: sum.splits)

lemma new_reconciliation:
  assumes "handle_reconcile R io F S now t rc j = (Inr (Observation i False ob), j')"
  obtains prior r out where "query (reconcile_key rc) (Some (rc_expected_command_digest rc)) j = Inr (Some prior)"
    and "r = reconciliation_record (rs_env R) prior out j" and "j_records j' = j_records j @ [r]"
    and "ob = observation_of_record r"
proof -
  obtain prior k resp ev remote actuals r where
    q: "query (reconcile_key rc) (Some (rc_expected_command_digest rc)) j = Inr (Some prior)"
    and rec: "record_reconciliation (rs_env R) io (reconcile_key rc) (rc_expected_command_digest rc)
        k resp ev remote actuals (rc_consistency_window_start_ms rc)
        (rc_consistency_window_end_ms rc) t j = (Inr r, j')" and ob: "ob = observation_of_record r"
    using assms
    by (fastforce simp: handle_reconcile_def reply_record_def Let_def
        split: if_splits sum.splits option.splits prod.splits)
  then show thesis using reconciliation_recorded [OF rec q] that by blast
qed

lemma settled_terminal:
  assumes "good E j" and "is_evidence k" and "shaped k Execution cls"
    and h: "history (command_key c) (j_records j) = hs" "list_ex begun hs" "list_ex (\<lambda>r. is_evidence (ob_kind r)) hs"
    and "ob_command_digest (hd hs) = command_digest E c"
  shows "record_terminal E io c k resp ev remote cls actuals t j = (Inl AlreadyTerminal, j)"
proof -
  have "hs \<noteq> []" "list_ex (\<lambda>r. ob_kind r = InvocationStarted) hs"
    using h(2) by (auto simp: begun_def list_ex_iff)
  moreover have "shaped (ob_kind (shape_of k cls)) (ob_source (shape_of k cls))
      (ob_provider_error_class (shape_of k cls))"
    using assms(3) by (simp add: shape_of_def)
  ultimately show ?thesis
    using assms(2,6,7)
    by (simp add: record_terminal_def records_for_good [OF assms(1)] h(1) validate_shape_iff Let_def)
qed

text \<open>C36: a reconciliation may settle an attempt before its invocation runs. The journal's lock is not
  held between an admission and its invocation; when a request reconciles the attempt in between
  and finds the target untouched, \<open>Absent\<close> is recorded and is the attempt's answer from then on,
  yet the admitted invocation still runs, with its effect on the file, and what it reports is
  refused as \<open>AlreadyTerminal\<close>.\<close>

theorem absent_settles_early:
  assumes "service_run R s" and "sound_env (rs_env R)" and "a \<in> set (sv_pending s)"
    and rec: "handle_reconcile R Durable (sv_files s) S now t rc (sv_journal s)
        = (Inr (Observation i False ob), j')"
    and "ob_kind ob = Absent" and key: "reconcile_key rc = ad_key a"
    and dig: "rc_expected_command_digest rc = command_digest (rs_env R) (ad_command a)"
    and run: "invoke R io (ad_admission a) (sv_files s) = (out, F')"
  shows "\<exists>s' r. service_run R s' \<and> a \<in> set (sv_invoked s') \<and> sv_files s' = F' \<and> sv_journal s' = j'
    \<and> query (ad_key a) None j' = Inr (Some r) \<and> observation_of_record r = ob
    \<and> execute_finish R io' (ad_command a) out t' j' = (Inl (JournalFailed AlreadyTerminal), j')"
proof -
  let ?E = "rs_env R" let ?h = "history (ad_key a) (j_records (sv_journal s))"
  have ok: "service_ok R s" by (rule service_invariant [OF assms(1,2)])
  then have good: "good ?E (sv_journal s)" and begun: "list_ex begun ?h"
    using assms(3) by (auto simp: service_ok_def permits_of_def list_all_iff)
  obtain prior r ro where q: "query (ad_key a) (Some (command_digest ?E (ad_command a))) (sv_journal s)
        = Inr (Some prior)"
    and r: "r = reconciliation_record ?E prior ro (sv_journal s)"
    and j': "j_records j' = j_records (sv_journal s) @ [r]" and ob: "ob = observation_of_record r"
    using new_reconciliation [OF rec] unfolding key dig by metis
  have h: "?h \<noteq> []" "ob_command_digest (hd ?h) = command_digest ?E (ad_command a)"
    using q by (auto simp: query_good [OF good] Let_def split: if_splits)
  have "prior \<in> set ?h" using query_record(1) [OF good q] .
  then have "record_key r = ad_key a" by (simp add: r reconciliation_record_fields history_key)
  then have h': "history (ad_key a) (j_records j') = ?h @ [r]" by (simp add: j' history_def)
  have absent: "ob_kind r = Absent" using assms(5) by (simp add: ob observation_of_record_def
      SignedRecorderObservationV1.truncate_def)
  have "grows ?E (sv_journal s) j'"
    using one_append_grows [OF assms(2) good reconcile_one_append [OF assms(2) good]] rec
    by (metis snd_conv)
  then have good': "good ?E j'" by (rule grows_good [OF _ assms(2) good])
  have latest: "query (ad_key a) None j' = Inr (Some r)"
    by (simp add: query_good [OF good'] h')
  have "execute_finish R io' (ad_command a) out t' j' = (Inl (JournalFailed AlreadyTerminal), j')"
  proof -
    have "is_evidence (io_kind out)" "shaped (io_kind out) Execution (io_provider_error_class out)"
      using invoke_shaped [of R io "ad_admission a" "sv_files s"] by (simp_all add: run)
    from settled_terminal [OF good' this h'] begun absent h
    show ?thesis by (simp add: execute_finish_def is_evidence_def)
  qed
  moreover obtain p p' where p: "sv_pending s = p @ a # p'" using assms(3) split_list by metis
  have "service_run R (s\<lparr>sv_journal := j'\<rparr>)" by (rule service_run.reconciled [OF assms(1) rec])
  from service_run.invocation [OF this, of p a p' io out F'] p run
  have "service_run R (s\<lparr>sv_journal := j', sv_files := F', sv_pending := p @ p',
      sv_reported := (ad_command a, out) # sv_reported s, sv_invoked := a # sv_invoked s\<rparr>)" by simp
  ultimately show ?thesis using latest ob
    by (intro exI [of _ "s\<lparr>sv_journal := j', sv_files := F', sv_pending := p @ p',
      sv_reported := (ad_command a, out) # sv_reported s, sv_invoked := a # sv_invoked s\<rparr>"] exI [of _ r]) simp
qed

subsection \<open>A run that does it\<close>


definition race_request :: "ExactOverwriteMaterialV1 \<Rightarrow> ReconcileV1" where
  "race_request m = \<lparr>rc_binding = sample_binding, rc_request_id = ''q'', rc_attempt_id = ''t'',
     rc_expected_command_digest = command_digest sample_env (service_command m),
     rc_reconciliation_key = xm_reconciliation_key m,
     rc_reconciliation_key_digest = stable_key_digest sample_env (xm_reconciliation_key m),
     rc_consistency_window_start_ms = 0, rc_consistency_window_end_ms = 0, rc_client_nonce = ''o'',
     rc_command_mac = []\<rparr>"

definition race_first :: "ExactOverwriteMaterialV1 \<Rightarrow> JournalRecordV1" where
  "race_first m = new_record sample_env (service_command m)
     (command_digest sample_env (service_command m)) (plain_outcome Accepted 0) (empty_journal [])"

definition race_second :: "ExactOverwriteMaterialV1 \<Rightarrow> JournalRecordV1" where
  "race_second m = new_record sample_env (service_command m)
     (command_digest sample_env (service_command m)) (plain_outcome InvocationStarted 0)
     (pushed sample_env (race_first m) (empty_journal []))"

definition race_journal :: "ExactOverwriteMaterialV1 \<Rightarrow> Journal" where
  "race_journal m = pushed sample_env (race_second m) (pushed sample_env (race_first m) (empty_journal []))"

lemma race_small: "small (race_first m)" "small (race_second m)"
  unfolding race_second_def by (simp_all add: race_first_def service_record_small)

lemma race_admission:
  "admit_verified_execution sample_env Durable Durable (service_command m) 0 0 (empty_journal [])
     = (Inr FreshStarted, race_journal m)"
  unfolding race_journal_def
  by (rule admit_from_empty [OF small_fits small_fits race_first_def race_second_def])
     (rule race_small)+

lemma race_fields:
  "ob_kind (race_second m) = InvocationStarted" "ob_source (race_second m) = Execution"
  "ob_canonical_root_identity (race_second m) = ''r''" "ob_os_user_identity_digest (race_second m) = ''u''"
  "ob_reconciliation_key_digest (race_second m) = Some (stable_key_digest sample_env (xm_reconciliation_key m))"
  "ob_provider_identity (race_second m) = exact_overwrite_provider"
  "ob_provider_version (race_second m) = ''v1''" "ob_attempt_id (race_second m) = ''t''"
  "ob_logical_effect_id (race_second m) = ''l''"
  "ob_provider_request_digest (race_second m) = eo_provider_request_digest (service_command m)"
  "record_key (race_second m) = (''i'', 1, ''t'')" "record_key (race_first m) = (''i'', 1, ''t'')"
  "ob_command_digest (race_first m) = command_digest sample_env (service_command m)"
  "ob_command_digest (race_second m) = command_digest sample_env (service_command m)"
  by (simp_all add: race_second_def race_first_def new_record_fields command_key_def)
     (simp_all add: new_record_def seal_record_def Let_def plain_outcome_def)

lemma race_reservations:
  "exact_reservations sample_recorder (Inr (service_database m)) 0 (race_second m) = Inr [sample_reservation]"
proof -
  have f: "find (history_of_attempt ''t'' ''l'' (eo_provider_request_digest (service_command m)))
      (List.product (db_attempts (service_database m)) (db_history (service_database m)))
    = Some (hd (db_attempts (service_database m)), hd (db_history (service_database m)))"
    by (simp add: service_database_def history_of_attempt_def)
  have h: "oh_reservation_set_json (hd (db_history (service_database m))) = service_set"
    "oh_reservation_set_digest (hd (db_history (service_database m)))
      = reservation_set_digest coded_externals service_set"
    by (simp_all add: service_database_def)
  show ?thesis
    unfolding exact_reservations_def verify_reconciliation_reservations_def race_fields
    by (simp add: f h load_verified_reservations_for_identity_def service_set_read del: code_json.simps)
       (simp add: service_database_def Let_def service_set_def [symmetric] reservation_drifted_def
          later_def sample_reservation_def del: code_json.simps,
        simp add: service_reservation_def StoredReservationIdentity.truncate_def)
qed

lemma absent_outcome:
  assumes "reconcile_exact_overwrite X F key rs = Inr r" and "rx_kind r = Absent"
    and "\<And>b. length (sha256 X b) = 32"
  shows "rx_remote_effect_id r = None" and "rx_technical_resource_actuals r = []"
    and "length (rx_response_digest r) = 71" and "length (rx_evidence_payload_digest r) = 71"
  using assms
  by (auto simp: reconcile_exact_overwrite_def reconciliation_outcome_def Let_def digest_bytes_def sha256_hex_def
      split: if_splits CurrentState.splits sum.splits)

lemma race_material:
  assumes "build_exact_overwrite_material coded_externals (sample_files ''aa'') ''/f'' ''bb'' = Inr m"
    and "carries (overwrite_command m) m"
  shows "\<exists>r. reconcile_exact_overwrite coded_externals (sample_files ''aa'') (xm_reconciliation_key m)
      [sample_reservation] = Inr r \<and> rx_kind r = Absent"
    and "\<exists>out F. invoke sample_recorder Overwritten \<lparr>va_command = service_command m,
      va_reservations = [sample_reservation]\<rparr> (sample_files ''aa'') = (out, F) \<and> fs_content F (1, 2) = ''bb''"
proof -
  let ?X = coded_externals and ?F = "sample_files ''aa''"
  have c: "carries (service_command m) m"
    using assms(2) by (simp add: carries_def service_command_def fixed_identity_matches_def)
  have t: "target_file ?F ''/f'' = Some (1, 2)"
    by (simp add: target_file_def sample_target) (simp add: sample_files_def)
  obtain v i where i: "target_file ?F ''/f'' = Some i" and r: "fs_readable ?F i"
    and d: "xo_expected_preimage_sha256 (vx_operand v) = digest_bytes ?X (fs_content ?F i)"
      "xo_replacement_sha256 (vx_operand v) = digest_bytes ?X ''bb''" "vx_replacement v = ''bb''"
      "digest_bytes ?X (fs_content ?F i) \<noteq> digest_bytes ?X ''bb''"
    and k: "xm_reconciliation_key m = exact_overwrite_reconciliation_key ?X (vx_operand v)"
      "validate_key (reconciliation_key_of (vx_operand v)) = Inr ()"
    and v: "validated_command ?X ?F (service_command m) = Inr v" "open_validated_target ?F v = Inr i"
    by (rule built_material [OF assms(1) sample_directories coded_hypotheses(1) c]) blast
  have o: "open_validated_target ?F u = Inr i" if "vx_operand u = vx_operand v" for u
    using v(2) open_by_operand [OF that, of ?F] by simp
  show "\<exists>r. reconcile_exact_overwrite ?X ?F (xm_reconciliation_key m) [sample_reservation] = Inr r
      \<and> rx_kind r = Absent"
    using reconcile_opened [OF k coded_hypotheses(2) o r] d by auto
  have "snd (invoke_exact_overwrite ?X ?F Overwritten (service_command m) [sample_reservation])
      = overwrite_file Overwritten ''bb'' i ?F"
    using invoke_writes(1) [OF v r, of "[sample_reservation]" Overwritten] d by simp
  then show "\<exists>out F. invoke sample_recorder Overwritten \<lparr>va_command = service_command m,
      va_reservations = [sample_reservation]\<rparr> ?F = (out, F) \<and> fs_content F (1, 2) = ''bb''"
    using i t by (cases "invoke_exact_overwrite ?X ?F Overwritten (service_command m) [sample_reservation]")
      (simp add: invoke_def overwrite_file_def)
qed

lemma race_reconciled:
  assumes "build_exact_overwrite_material coded_externals (sample_files ''aa'') ''/f'' ''bb'' = Inr m"
    and "carries (overwrite_command m) m"
  shows "\<exists>ob j'. handle_reconcile sample_recorder Durable (sample_files ''aa'') (Inr (service_database m)) 0 0
      (race_request m) (race_journal m) = (Inr (Observation ''q'' False ob), j') \<and> ob_kind ob = Absent"
proof -
  let ?j = "race_journal m" and ?r = "race_second m"
  have "grows sample_env (empty_journal []) ?j"
    using admit_grows [OF sample_env_sound good_created, of "service_command m" 0 0]
    by (simp add: race_admission)
  then have good: "good sample_env ?j" by (rule grows_good [OF _ sample_env_sound good_created])
  have records: "j_records ?j = [race_first m, ?r]" by (simp add: race_journal_def empty_journal_def)
  have h: "history (''i'', 1, ''t'') (j_records ?j) = [race_first m, ?r]"
    by (simp add: records history_def race_fields)
  have q: "query (reconcile_key (race_request m)) (Some (rc_expected_command_digest (race_request m))) ?j
      = Inr (Some ?r)"
    by (simp add: query_good [OF good] reconcile_key_def race_request_def h Let_def race_fields)
  obtain out where out: "reconcile_exact_overwrite coded_externals (sample_files ''aa'')
      (xm_reconciliation_key m) [sample_reservation] = Inr out" "rx_kind out = Absent"
    using race_material(1) [OF assms] by blast
  note o = absent_outcome [OF out coded_hypotheses(1)]
  have outcome: "reconcile_outcome sample_recorder (sample_files ''aa'') (race_request m) ?r [sample_reservation] = out"
    using out(1) by (simp add: reconcile_outcome_def executor_reconcile_def race_fields race_request_def
        EXACT_OVERWRITE_PROVIDER_VERSION_def)
  define n where n: "n = reconciliation_record sample_env ?r
    \<lparr>ro_kind = Absent, ro_source = Reconciliation, ro_response_digest = Some (rx_response_digest out),
     ro_remote_effect_id = None, ro_evidence_payload_digest = Some (rx_evidence_payload_digest out),
     ro_provider_error_class = None, ro_actuals = [], ro_window_start_ms = Some 0,
     ro_window_end_ms = Some 0, ro_observed_at_ms = 0\<rparr> ?j"
  have s: "unat (next_sequence ?j) < 10" "length (head_digest ?j) = 71"
    by (simp_all add: next_sequence_def records) (simp add: race_journal_def race_second_def)
  have "small n"
    unfolding n reconciliation_record_def
    by (rule small_sealed) (use race_small(2) [of m] s o in \<open>simp add: small_def short_text_def JOURNAL_VERSION_def\<close>)
  then have fit: "length (record_to_vec sample_env n) \<le> MAX_RECORD_BYTES"
    using small_fits by (simp add: fitting_def)
  have "record_key n = (''i'', 1, ''t'')" "ob_command_digest n = ob_command_digest (race_first m)"
    by (simp_all add: n reconciliation_record_fields race_fields)
  then have "indexable n (j_records ?j)" by (simp add: indexable_def h)
  moreover have "index_ok (?j\<lparr>j_file := f\<rparr>)" for f
    using good_first(2) [OF good] by simp
  ultimately obtain j' where "append sample_env Durable n ?j = (Inr (), j')"
    using fit by (simp add: append_def Let_def index_record_ok)
  then have "append_new sample_env Durable n ?j = (Inr n, j')" by (simp add: append_new_def)
  moreover have "ob_kind ?r \<notin> {Present, Absent}" by (simp add: race_fields)
  ultimately have rec: "record_reconciliation sample_env Durable (reconcile_key (race_request m))
      (rc_expected_command_digest (race_request m)) Absent (rx_response_digest out)
      (rx_evidence_payload_digest out) None [] 0 0 0 ?j = (Inr n, j')"
    using q by (simp add: record_reconciliation_def is_evidence_def n)
  have "reconcile_identity_ok (race_request m) ?r" "\<not> already_reconciled (race_request m) ?r"
    by (simp_all add: reconcile_identity_ok_def already_reconciled_def race_request_def race_fields)
  with q rec have "handle_reconcile sample_recorder Durable (sample_files ''aa'') (Inr (service_database m)) 0 0
      (race_request m) ?j = (Inr (reply_record ''q'' False n), j')"
    using race_reservations [of m] outcome out(2) o
    by (simp add: handle_reconcile_def later_def Let_def) (simp add: race_request_def)
  moreover have "ob_kind (observation_of_record n) = Absent"
    by (simp add: n observation_of_record_def SignedRecorderObservationV1.truncate_def
        reconciliation_record_fields)
  ultimately show ?thesis by (auto simp: reply_record_def)
qed

lemma absent_settles_early_witness:
  "\<exists>s a. service_run sample_recorder s \<and> a \<in> set (sv_invoked s) \<and> fs_content (sv_files s) (1, 2) = ''bb''
     \<and> (\<exists>r. query (ad_key a) None (sv_journal s) = Inr (Some r) \<and> ob_kind r = Absent)"
proof -
  obtain m where m: "build_exact_overwrite_material coded_externals (sample_files ''aa'') ''/f'' ''bb'' = Inr m"
    "carries (overwrite_command m) m" using sample_built by blast
  let ?F = "sample_files ''aa''"
  let ?adm = "\<lparr>va_command = service_command m, va_reservations = [sample_reservation]\<rparr>"
  let ?a = "\<lparr>ad_admission = ?adm, ad_snapshot = Inr (service_database m), ad_now = 0\<rparr>"
  let ?s = "\<lparr>sv_journal = empty_journal [], sv_files = ?F, sv_pending = [],
      sv_reported = [], sv_invoked = []\<rparr>"
  obtain j where j0: "execute_admit sample_recorder Durable Durable ?F (Inr (service_database m)) 0 0
      (service_command m) (empty_journal []) = (Inr (InvokeProvider ?adm), j)"
    using service_admitted [OF m] by blast
  have "j \<in> {empty_journal [], race_journal m}"
    using execute_admit_journal [of sample_recorder Durable Durable ?F "Inr (service_database m)" 0 0
        "service_command m" "empty_journal []"] unfolding j0 by (simp add: race_admission)
  moreover have "list_ex begun (history (command_key (service_command m)) (j_records j))"
    by (rule execute_admit_grants(3) [OF _ _ j0]) (simp_all add: sample_env_sound good_created)
  then have "j \<noteq> empty_journal []" by (auto simp: empty_journal_def history_def)
  ultimately have j: "execute_admit sample_recorder Durable Durable (sv_files ?s)
      (Inr (service_database m)) 0 0 (service_command m) (sv_journal ?s)
    = (Inr (InvokeProvider ?adm), race_journal m)" using j0 by simp
  let ?t = "?s\<lparr>sv_journal := race_journal m, sv_pending := [?a]\<rparr>"
  have t: "service_run sample_recorder ?t"
    using service_run.admission [OF service_run.booted j] by simp
  obtain out F where inv: "invoke sample_recorder Overwritten (ad_admission ?a) (sv_files ?t) = (out, F)"
    and F: "fs_content F (1, 2) = ''bb''"
    using race_material(2) [OF m] by auto
  obtain ob j' where rec: "handle_reconcile sample_recorder Durable (sv_files ?t) (Inr (service_database m)) 0 0
      (race_request m) (sv_journal ?t) = (Inr (Observation ''q'' False ob), j')" and ob: "ob_kind ob = Absent"
    using race_reconciled [OF m] by auto
  have key: "reconcile_key (race_request m) = ad_key ?a"
    "rc_expected_command_digest (race_request m) = command_digest (rs_env sample_recorder) (ad_command ?a)"
    by (simp_all add: reconcile_key_def race_request_def command_key_def)
  obtain s r where "service_run sample_recorder s" "?a \<in> set (sv_invoked s)" "sv_files s = F"
    "query (ad_key ?a) None (sv_journal s) = Inr (Some r)" "observation_of_record r = ob"
    using absent_settles_early [OF t _ _ rec ob key inv, of Durable 0] sample_env_sound by auto
  moreover have "ob_kind r = Absent"
    using ob calculation(5) by (auto simp: observation_of_record_def SignedRecorderObservationV1.truncate_def)
  ultimately show ?thesis using F by blast
qed

end
