(* ===== verification/ActiveWork.thy ===== *)
theory ActiveWork
  imports Framing
begin

text \<open>
  The state-derived snapshot of unfinished work,
  \<^verbatim>\<open>crates/carsinos-storage/src/execass/active_work.rs\<close>: the counts of delegations,
  continuations and logical effects whose state is not terminal, and the digest of their identities
  and states that a close confirmation and a runtime incident are bound to. A table is the list of
  its rows' identity and state columns.
\<close>

record work_tables =
  wt_delegations :: "(string \<times> string) list"
  wt_continuations :: "(string \<times> string) list"
  wt_effects :: "(string \<times> string) list"

record ExecAssActiveWorkStatus =
  aw_active :: bool
  aw_active_work_count :: i64
  aw_nonterminal_delegation_count :: i64
  aw_nonterminal_continuation_count :: i64
  aw_nonterminal_effect_count :: i64

definition nonterminal_phases :: "string list" where
  "nonterminal_phases = [''accepted'', ''planning'', ''in_motion'', ''waiting_for_user'',
     ''waiting_external'', ''recovering'']"

definition nonterminal_continuations :: "string list" where
  "nonterminal_continuations = [''runnable'', ''executing'', ''waiting'', ''uncertain'']"

definition nonterminal_effects :: "string list" where
  "nonterminal_effects = [''planned'', ''claimed'', ''invoking'', ''outcome_unknown'']"

definition nonterminal_rows :: "string list \<Rightarrow> (string \<times> string) list \<Rightarrow> (string \<times> string) list" where
  "nonterminal_rows states rows = filter (\<lambda>(work, state). state \<in> set states) rows"

text \<open>The three counts, each of one sub-query.\<close>

definition load_active_work_counts :: "'a work_tables_scheme \<Rightarrow> i64 \<times> i64 \<times> i64" where
  "load_active_work_counts T =
     (word_of_nat (length (nonterminal_rows nonterminal_phases (wt_delegations T))),
      word_of_nat (length (nonterminal_rows nonterminal_continuations (wt_continuations T))),
      word_of_nat (length (nonterminal_rows nonterminal_effects (wt_effects T))))"

definition i64_checked_add :: "i64 \<Rightarrow> i64 \<Rightarrow> i64 option" where
  "i64_checked_add a b = (if i64_min \<le> sint a + sint b \<and> sint a + sint b \<le> i64_max
     then Some (a + b) else None)"

definition active_work_status :: "i64 \<times> i64 \<times> i64 \<Rightarrow> ExecAssActiveWorkStatus option" where
  "active_work_status = (\<lambda>(d, c, e).
     Option.bind (i64_checked_add d c) (\<lambda>dc.
     Option.bind (i64_checked_add dc e) (\<lambda>total.
       Some \<lparr>aw_active = 0 < sint total, aw_active_work_count = total,
         aw_nonterminal_delegation_count = d, aw_nonterminal_continuation_count = c,
         aw_nonterminal_effect_count = e\<rparr>)))"

definition load_active_work_status :: "'a work_tables_scheme \<Rightarrow> ExecAssActiveWorkStatus option" where
  "load_active_work_status T = active_work_status (load_active_work_counts T)"

text \<open>The \<open>UNION ALL\<close> of the three tables, in the order of \<open>ORDER BY work_kind, work_id,
  work_state\<close> (text columns compare by bytes).\<close>

definition active_rows :: "'a work_tables_scheme \<Rightarrow> (string \<times> string \<times> string) list" where
  "active_rows T =
     map (Pair ''delegation'') (nonterminal_rows nonterminal_phases (wt_delegations T))
     @ map (Pair ''continuation'') (nonterminal_rows nonterminal_continuations (wt_continuations T))
     @ map (Pair ''effect'') (nonterminal_rows nonterminal_effects (wt_effects T))"

definition active_work_binding_rows :: "'a work_tables_scheme \<Rightarrow> (string \<times> string \<times> string) list" where
  "active_work_binding_rows T = sort (active_rows T)"

definition binding_bytes :: "(string \<times> string \<times> string) list \<Rightarrow> bytes" where
  "binding_bytes rows = ''carsinos.execass.active-work-binding.v1''
     @ concat (map (\<lambda>(kind, work, state). header_frame 8 kind @ header_frame 8 work
         @ header_frame 8 state) rows)"

definition active_work_binding_digest :: "externals \<Rightarrow> 'a work_tables_scheme \<Rightarrow> string" where
  "active_work_binding_digest X T =
     ''sha256:'' @ sha256_hex X (binding_bytes (active_work_binding_rows T))"

definition load_active_work_snapshot ::
    "externals \<Rightarrow> 'a work_tables_scheme \<Rightarrow> (ExecAssActiveWorkStatus \<times> string) option" where
  "load_active_work_snapshot X T =
     map_option (\<lambda>status. (status, active_work_binding_digest X T)) (load_active_work_status T)"

subsection \<open>The digest determines the unfinished work\<close>

interpretation work_frame: byte_framing "header_frame 8" "256 ^ 8"
  by (rule header_framing) simp

definition row_fields :: "string \<times> string \<times> string \<Rightarrow> string list" where
  "row_fields = (\<lambda>(kind, work, state). [kind, work, state])"

lemma row_fields_inj: "concat (map row_fields as) = concat (map row_fields bs) \<longleftrightarrow> as = bs"
proof (induction as arbitrary: bs)
  case Nil
  then show ?case by (cases bs) (auto simp: row_fields_def)
next
  case (Cons a as)
  then show ?case by (cases bs) (auto simp: row_fields_def split: prod.splits)
qed

lemma binding_bytes_fields:
  "binding_bytes rows = ''carsinos.execass.active-work-binding.v1''
     @ concat (map (header_frame 8) (concat (map row_fields rows)))"
  by (induction rows) (simp_all add: binding_bytes_def row_fields_def case_prod_unfold)

definition rows_fit :: "(string \<times> string \<times> string) list \<Rightarrow> bool" where
  "rows_fit rows \<longleftrightarrow> list_all (\<lambda>r. list_all fits (row_fields r)) rows"

lemma binding_bytes_inj:
  assumes "rows_fit as" and "rows_fit bs"
  shows "binding_bytes as = binding_bytes bs \<longleftrightarrow> as = bs"
proof -
  have "\<And>v. v \<in> set (concat (map row_fields as)) \<union> set (concat (map row_fields bs)) \<Longrightarrow> fits v"
    using assms by (auto simp: rows_fit_def list_all_iff)
  then show ?thesis
    by (simp only: binding_bytes_fields append_eq_append_conv simp_thms work_frame.frames_inj
        row_fields_inj)
qed

lemma sort_eq_iff_mset: "sort (xs :: 'x::linorder list) = sort ys \<longleftrightarrow> mset xs = mset ys"
  by (metis mset_sort properties_for_sort sorted_sort)

lemma binding_rows_eq_iff:
  "active_work_binding_rows T = active_work_binding_rows U
   \<longleftrightarrow> mset (active_rows T) = mset (active_rows U)"
  by (simp add: active_work_binding_rows_def sort_eq_iff_mset)

definition tables_fit :: "'a work_tables_scheme \<Rightarrow> bool" where
  "tables_fit T \<longleftrightarrow> rows_fit (active_rows T) \<and> length (active_rows T) < 2 ^ 63"

lemma rows_fit_sort: "rows_fit (sort rows) \<longleftrightarrow> rows_fit rows"
  by (simp add: rows_fit_def list_all_iff)

lemma binding_digest_exact:
  assumes "tables_fit T" and "tables_fit U"
    and "no_collision X (binding_bytes (active_work_binding_rows T))
           (binding_bytes (active_work_binding_rows U))"
    and "active_work_binding_digest X T = active_work_binding_digest X U"
  shows "mset (active_rows T) = mset (active_rows U)"
proof -
  have "sha256 X (binding_bytes (active_work_binding_rows T))
      = sha256 X (binding_bytes (active_work_binding_rows U))"
    using assms(4) by (simp add: active_work_binding_digest_def)
  then have "binding_bytes (active_work_binding_rows T) = binding_bytes (active_work_binding_rows U)"
    using assms(3) by (rule no_collisionD [rotated])
  then have "active_work_binding_rows T = active_work_binding_rows U"
    using assms(1,2) binding_bytes_inj
    by (simp add: tables_fit_def active_work_binding_rows_def rows_fit_sort)
  then show ?thesis by (simp add: binding_rows_eq_iff)
qed

subsection \<open>The counts are those of the digested rows\<close>

lemma sint_word_of_nat: "n < 2 ^ 63 \<Longrightarrow> sint (word_of_nat n :: i64) = int n"
  using sint_i64_clamp [of "int n"]
  by (simp add: i64_clamp_def i64_min_def i64_max_def)

lemma i64_checked_add_nat:
  "m + n < 2 ^ 63 \<Longrightarrow> i64_checked_add (word_of_nat m) (word_of_nat n) = Some (word_of_nat (m + n))"
  using sint_word_of_nat [of m] sint_word_of_nat [of n]
  by (simp add: i64_checked_add_def i64_min_def i64_max_def)

lemma length_active_rows:
  "length (active_rows T) = length (nonterminal_rows nonterminal_phases (wt_delegations T))
     + length (nonterminal_rows nonterminal_continuations (wt_continuations T))
     + length (nonterminal_rows nonterminal_effects (wt_effects T))"
  by (simp add: active_rows_def)

lemma active_work_status_rows:
  assumes "length (active_rows T) < 2 ^ 63"
  shows "\<exists>st. load_active_work_status T = Some st
     \<and> aw_active_work_count st = word_of_nat (length (active_work_binding_rows T))
     \<and> (aw_active st \<longleftrightarrow> active_work_binding_rows T \<noteq> [])"
proof -
  have n: "length (active_work_binding_rows T) = length (active_rows T)"
    by (simp add: active_work_binding_rows_def)
  then have e: "active_work_binding_rows T \<noteq> [] \<longleftrightarrow> 0 < length (active_rows T)"
    by (metis length_greater_0_conv)
  show ?thesis
    using assms unfolding e n length_active_rows
    by (simp add: load_active_work_status_def load_active_work_counts_def active_work_status_def
        i64_checked_add_nat sint_word_of_nat del: of_nat_add)
qed

end
