(* ===== verification/RuntimeHost.thy ===== *)
theory RuntimeHost
  imports StateVerifier ActiveWork
begin

text \<open>
  The one runtime host of a state root,
  \<^verbatim>\<open>crates/carsinos-storage/src/execass/runtime_host.rs\<close>: activation (a new host ends
  the previous generation and advances the generation and the fencing token), activation with
  recovery of an interrupted predecessor, and the host's lifecycle transitions. The tables are those
  of \<^verbatim>\<open>migrations/0007_execass_replacement.sql\<close>, with the constraints that the writes meet; a
  transaction is a function from the store to an error (rolled back: the store is kept) or to a
  result and the committed store. The rows extend those the recorder's verifier reads, so that the
  two components can be put on one database.
\<close>

subsection \<open>States and transitions\<close>

datatype RuntimeDesiredMode = AppBound | Background

datatype RuntimeActualState =
    Stopped | Starting | RunningAppBound | Handoff | RunningBackground | Draining | Faulted

datatype RuntimeHostTransition =
    ReachDesiredMode | BeginHandoff | BeginDrain | RecordFault | CompleteStop

datatype RuntimeHostTransitionReason =
    DesiredModeReached | DesiredModeRequiresHandoff | OrderlyShutdownRequested
  | HostFaultRecorded | OrderlyShutdownCompleted

datatype HostError =
    EmptyHostInstance | UntrustedClock | DifferentStateRoot | StateRootGenerationRange
  | ActivationConflict | NumberRange | ConstraintFailed
  | PredecessorStateMissing | StoppedPredecessorLive | PredecessorChanged | TakeoverFenceLost
  | FencedOut | HostStateMissing | TransitionForbidden | ClockMovedBackwards
  | StateWriteMissed | StopFenceLost | ReceiptUnavailable | ReceiptKeyMissing
  | OutboxRefused | AttentionTextEmpty | AttentionNotCanonical | AttentionRefused | ReceiptRefused

fun actual_state_as_str :: "RuntimeActualState \<Rightarrow> string" where
  "actual_state_as_str Stopped = ''stopped''"
| "actual_state_as_str Starting = ''starting''"
| "actual_state_as_str RunningAppBound = ''running_app_bound''"
| "actual_state_as_str Handoff = ''handoff''"
| "actual_state_as_str RunningBackground = ''running_background''"
| "actual_state_as_str Draining = ''draining''"
| "actual_state_as_str Faulted = ''faulted''"

definition running_desired :: "RuntimeDesiredMode \<Rightarrow> RuntimeActualState" where
  "running_desired desired = (case desired of
     AppBound \<Rightarrow> RunningAppBound | Background \<Rightarrow> RunningBackground)"

fun resolve_transition ::
    "RuntimeActualState \<Rightarrow> RuntimeDesiredMode \<Rightarrow> RuntimeHostTransition
     \<Rightarrow> HostError + RuntimeActualState \<times> RuntimeHostTransitionReason" where
  "resolve_transition current desired ReachDesiredMode =
     (if current \<in> {Starting, Handoff} then Inr (running_desired desired, DesiredModeReached)
      else Inl TransitionForbidden)"
| "resolve_transition current desired BeginHandoff =
     (if (current, desired) \<in> {(RunningAppBound, Background), (RunningBackground, AppBound)}
      then Inr (Handoff, DesiredModeRequiresHandoff) else Inl TransitionForbidden)"
| "resolve_transition current desired BeginDrain =
     (if current \<in> {Starting, RunningAppBound, Handoff, RunningBackground}
      then Inr (Draining, OrderlyShutdownRequested) else Inl TransitionForbidden)"
| "resolve_transition current desired RecordFault =
     (if current \<notin> {Stopped, Faulted} then Inr (Faulted, HostFaultRecorded)
      else Inl TransitionForbidden)"
| "resolve_transition current desired CompleteStop =
     (if current = Draining then Inr (Stopped, OrderlyShutdownCompleted)
      else Inl TransitionForbidden)"

subsection \<open>Tables\<close>

record runtime_generation_row = host_generation_row +
  rg_ownership_scope :: string
  rg_started_at :: i64
  rg_ended_at :: "i64 option"
  rg_end_reason :: "string option"

record runtime_lease_row = host_lease_row +
  rl_lease_id :: string
  rl_acquired_at :: i64

record runtime_state_row =
  rs_generation :: i64
  rs_host_instance_id :: string
  rs_fencing_token :: i64
  rs_state_root_generation :: i64
  rs_actual_state :: RuntimeActualState
  rs_updated_at :: i64

record settings_revision_row =
  sr_settings_revision :: i64
  sr_desired_mode :: RuntimeDesiredMode
  sr_start_at_login :: bool

record runtime_store = work_tables +
  rt_generations :: "runtime_generation_row list"
  rt_leases :: "runtime_lease_row list"
  rt_states :: "runtime_state_row list"
  rt_settings :: "settings_revision_row list"

record RuntimeHostLeaseRecord =
  hr_lease_id :: string
  hr_state_root_generation :: i64
  hr_generation :: i64
  hr_host_instance_id :: string
  hr_fencing_token :: i64
  hr_acquired_at :: i64
  hr_expires_at :: i64

record RuntimeHostTransitionOutcome =
  to_from_state :: RuntimeActualState
  to_actual_state :: RuntimeActualState
  to_reason :: RuntimeHostTransitionReason

text \<open>The fields of \<open>ConfirmationAuthorityIdentity\<close> that the host uses.\<close>

record ConfirmationAuthorityIdentity =
  ca_canonical_root_identity :: string
  ca_installation_identity :: string
  ca_os_user_identity_digest :: string
  ca_state_root_generation :: u64

text \<open>\<open>UPDATE ... WHERE p\<close> and the number of rows it changed.\<close>

definition update_rows :: "('r \<Rightarrow> bool) \<Rightarrow> ('r \<Rightarrow> 'r) \<Rightarrow> 'r list \<Rightarrow> 'r list" where
  "update_rows p f rs = map (\<lambda>r. if p r then f r else r) rs"

definition changed_rows :: "('r \<Rightarrow> bool) \<Rightarrow> 'r list \<Rightarrow> nat" where
  "changed_rows p rs = length (filter p rs)"

abbreviation positive :: "i64 \<Rightarrow> bool" where "positive v \<equiv> later v 0"

text \<open>\<open>COALESCE(MAX(column),0)+1\<close>; beyond the range of an integer column SQLite's sum is a
  \<open>REAL\<close>, which \<open>row.get::<_, i64>\<close> refuses.\<close>

definition coalesced_max :: "i64 list \<Rightarrow> int" where
  "coalesced_max vs = (if vs = [] then 0 else Max (set (map sint vs)))"

definition next_number :: "i64 list \<Rightarrow> HostError + i64" where
  "next_number vs = (if coalesced_max vs < i64_max then Inr (word_of_int (coalesced_max vs + 1))
     else Inl NumberRange)"

subsection \<open>Reading the current host\<close>

definition lease_record :: "runtime_lease_row \<Rightarrow> runtime_generation_row \<Rightarrow> RuntimeHostLeaseRecord" where
  "lease_record l g = \<lparr>hr_lease_id = rl_lease_id l,
     hr_state_root_generation = hg_state_root_generation g, hr_generation = hl_generation l,
     hr_host_instance_id = hl_host_instance_id l, hr_fencing_token = hl_fencing_token l,
     hr_acquired_at = rl_acquired_at l, hr_expires_at = hl_expires_at l\<rparr>"

definition joined :: "runtime_lease_row \<Rightarrow> runtime_generation_row \<Rightarrow> bool" where
  "joined l g \<longleftrightarrow> hg_generation g = hl_generation l \<and> hg_host_instance_id g = hl_host_instance_id l"

definition live_pair :: "runtime_lease_row \<Rightarrow> runtime_generation_row \<Rightarrow> bool" where
  "live_pair l g \<longleftrightarrow> joined l g
     \<and> hl_ownership_scope l = ''execass'' \<and> rg_ownership_scope g = ''execass''
     \<and> hl_released_at l = None \<and> rg_ended_at g = None"

definition current_activation ::
    "runtime_store \<Rightarrow> (runtime_lease_row \<times> runtime_generation_row) option" where
  "current_activation S =
     (case [(l, g). l \<leftarrow> rt_leases S, g \<leftarrow> rt_generations S, live_pair l g] of
        [] \<Rightarrow> None | p # _ \<Rightarrow> Some p)"

definition state_key :: "runtime_state_row \<Rightarrow> i64 \<times> string \<times> i64" where
  "state_key s = (rs_generation s, rs_host_instance_id s, rs_fencing_token s)"

definition host_key :: "RuntimeHostLeaseRecord \<Rightarrow> i64 \<times> string \<times> i64" where
  "host_key h = (hr_generation h, hr_host_instance_id h, hr_fencing_token h)"

definition load_runtime_host_state ::
    "RuntimeHostLeaseRecord \<Rightarrow> runtime_store \<Rightarrow> runtime_state_row option" where
  "load_runtime_host_state h S = find (\<lambda>s. state_key s = host_key h
     \<and> rs_state_root_generation s = hr_state_root_generation h) (rt_states S)"

definition require_current_runtime_host ::
    "RuntimeHostLeaseRecord \<Rightarrow> i64 \<Rightarrow> runtime_store \<Rightarrow> HostError + unit" where
  "require_current_runtime_host h now S =
     (if list_ex (\<lambda>l. list_ex (\<lambda>g. joined l g
            \<and> rl_lease_id l = hr_lease_id h \<and> hl_ownership_scope l = ''execass''
            \<and> hl_generation l = hr_generation h \<and> hl_host_instance_id l = hr_host_instance_id h
            \<and> hl_fencing_token l = hr_fencing_token h \<and> rl_acquired_at l = hr_acquired_at h
            \<and> hl_expires_at l = hr_expires_at h
            \<and> hg_state_root_generation g = hr_state_root_generation h
            \<and> hl_released_at l = None \<and> rg_ended_at g = None \<and> later (hl_expires_at l) now)
          (rt_generations S)) (rt_leases S)
      then Inr () else Inl FencedOut)"

text \<open>\<open>ORDER BY settings_revision DESC LIMIT 1\<close>.\<close>

fun latest_by :: "('r \<Rightarrow> i64) \<Rightarrow> 'r list \<Rightarrow> 'r option" where
  "latest_by k [] = None"
| "latest_by k (r # rs) = (case latest_by k rs of
     None \<Rightarrow> Some r | Some m \<Rightarrow> Some (if later (k m) (k r) then m else r))"

definition load_desired_mode :: "runtime_store \<Rightarrow> RuntimeDesiredMode option" where
  "load_desired_mode S = map_option sr_desired_mode (latest_by sr_settings_revision (rt_settings S))"

subsection \<open>Writes\<close>

definition insert_generation ::
    "runtime_generation_row \<Rightarrow> runtime_store \<Rightarrow> HostError + runtime_store" where
  "insert_generation g S =
     (if \<not> positive (hg_state_root_generation g)
         \<or> hg_generation g \<in> hg_generation ` set (rt_generations S)
         \<or> hg_host_instance_id g \<in> hg_host_instance_id ` set (rt_generations S)
      then Inl ConstraintFailed
      else Inr (S\<lparr>rt_generations := rt_generations S @ [g]\<rparr>))"

definition lease_key :: "runtime_lease_row \<Rightarrow> string \<times> i64 \<times> i64" where
  "lease_key l = (hl_ownership_scope l, hl_generation l, hl_fencing_token l)"

definition insert_lease :: "runtime_lease_row \<Rightarrow> runtime_store \<Rightarrow> HostError + runtime_store" where
  "insert_lease l S =
     (if rl_lease_id l \<in> rl_lease_id ` set (rt_leases S)
         \<or> \<not> positive (hl_fencing_token l) \<or> \<not> later (hl_expires_at l) (rl_acquired_at l)
         \<or> lease_key l \<in> lease_key ` set (rt_leases S)
         \<or> \<not> list_ex (joined l) (rt_generations S)
         \<or> list_ex (\<lambda>m. hl_released_at m = None \<and> hl_released_at l = None
             \<and> hl_ownership_scope m = hl_ownership_scope l) (rt_leases S)
      then Inl ConstraintFailed
      else Inr (S\<lparr>rt_leases := rt_leases S @ [l]\<rparr>))"

text \<open>\<open>INSERT OR IGNORE\<close>: a row that breaks a uniqueness or a check constraint is skipped; a
  missing parent row is an error all the same.\<close>

definition ensure_runtime_host_state ::
    "RuntimeHostLeaseRecord \<Rightarrow> RuntimeActualState \<Rightarrow> i64 \<Rightarrow> runtime_store \<Rightarrow> HostError + runtime_store" where
  "ensure_runtime_host_state h st now S =
     (if host_key h \<in> state_key ` set (rt_states S)
         \<or> \<not> positive (hr_fencing_token h) \<or> \<not> positive (hr_state_root_generation h)
         \<or> \<not> positive now
      then Inr S
      else if \<not> list_ex (\<lambda>g. hg_generation g = hr_generation h
             \<and> hg_host_instance_id g = hr_host_instance_id h) (rt_generations S)
      then Inl ConstraintFailed
      else Inr (S\<lparr>rt_states := rt_states S @ [\<lparr>rs_generation = hr_generation h,
         rs_host_instance_id = hr_host_instance_id h, rs_fencing_token = hr_fencing_token h,
         rs_state_root_generation = hr_state_root_generation h, rs_actual_state = st,
         rs_updated_at = now\<rparr>]\<rparr>))"

definition runtime_lease_id :: "externals \<Rightarrow> string \<Rightarrow> i64 \<Rightarrow> i64 \<Rightarrow> string" where
  "runtime_lease_id X host generation fencing_token = ''runtime-lease-'' @ sha256_hex X
     (''carsinos.execass.runtime_host_lease.v1'' @ [NUL] @ host @ [NUL]
      @ rev (word_bytes generation) @ rev (word_bytes fencing_token))"

definition runtime_incident_identity :: "externals \<Rightarrow> RuntimeHostLeaseRecord \<Rightarrow> string" where
  "runtime_incident_identity X h = sha256_hex X
     (''carsinos.execass.runtime_recovery_incident.v1'' @ [NUL] @ rev (word_bytes (hr_generation h))
      @ hr_host_instance_id h @ [NUL] @ rev (word_bytes (hr_fencing_token h)))"

subsection \<open>Activation\<close>

definition activation_guard ::
    "string \<Rightarrow> ConfirmationAuthorityIdentity \<Rightarrow> string \<Rightarrow> i64 \<Rightarrow> HostError + i64" where
  "activation_guard root auth host now =
     (if blank host then Inl EmptyHostInstance
      else if \<not> positive now then Inl UntrustedClock
      else if ca_canonical_root_identity auth \<noteq> root then Inl DifferentStateRoot
      else if 2 ^ 63 \<le> unat (ca_state_root_generation auth) then Inl StateRootGenerationRange
      else Inr (ca_state_root_generation auth))"

definition same_activation ::
    "ConfirmationAuthorityIdentity \<Rightarrow> i64 \<Rightarrow> i64 \<Rightarrow> runtime_lease_row \<Rightarrow> runtime_generation_row \<Rightarrow> bool" where
  "same_activation auth sroot now l g \<longleftrightarrow>
     hg_state_root_generation g = sroot
     \<and> hg_installation_identity g = ca_installation_identity auth
     \<and> hg_os_user_identity_digest g = ca_os_user_identity_digest auth
     \<and> later (hl_expires_at l) now"

text \<open>The new generation, its lease and its first state.\<close>

definition start_generation ::
    "externals \<Rightarrow> ConfirmationAuthorityIdentity \<Rightarrow> i64 \<Rightarrow> string \<Rightarrow> i64 \<Rightarrow> runtime_store
     \<Rightarrow> HostError + RuntimeHostLeaseRecord \<times> runtime_store" where
  "start_generation X auth sroot host now S =
     rbind (next_number (map hg_generation (rt_generations S))) (\<lambda>generation.
     rbind (next_number (map hl_fencing_token (rt_leases S))) (\<lambda>token.
     let g = \<lparr>hg_generation = generation, hg_host_instance_id = host,
           hg_state_root_generation = sroot,
           hg_installation_identity = ca_installation_identity auth,
           hg_os_user_identity_digest = ca_os_user_identity_digest auth,
           rg_ownership_scope = ''execass'', rg_started_at = now,
           rg_ended_at = None, rg_end_reason = None\<rparr>;
         l = \<lparr>hl_ownership_scope = ''execass'', hl_generation = generation,
           hl_host_instance_id = host, hl_fencing_token = token, hl_released_at = None,
           hl_expires_at = word_of_int i64_max,
           rl_lease_id = runtime_lease_id X host generation token, rl_acquired_at = now\<rparr>
     in rbind (insert_generation g S) (\<lambda>S1.
        rbind (insert_lease l S1) (\<lambda>S2.
        rbind (ensure_runtime_host_state (lease_record l g) Starting now S2) (\<lambda>S3.
          Inr (lease_record l g, S3))))))"

definition end_lease :: "(runtime_lease_row \<Rightarrow> bool) \<Rightarrow> i64 \<Rightarrow> runtime_store \<Rightarrow> runtime_store" where
  "end_lease p now S = S\<lparr>rt_leases := update_rows (\<lambda>l. p l \<and> hl_released_at l = None)
     (\<lambda>l. l\<lparr>hl_released_at := Some now\<rparr>) (rt_leases S)\<rparr>"

definition end_generation ::
    "(runtime_generation_row \<Rightarrow> bool) \<Rightarrow> i64 \<Rightarrow> string \<Rightarrow> runtime_store \<Rightarrow> runtime_store" where
  "end_generation p now reason S = S\<lparr>rt_generations := update_rows
     (\<lambda>g. p g \<and> rg_ended_at g = None)
     (\<lambda>g. g\<lparr>rg_ended_at := Some now, rg_end_reason := Some reason\<rparr>) (rt_generations S)\<rparr>"

definition activate_runtime_host ::
    "externals \<Rightarrow> string \<Rightarrow> ConfirmationAuthorityIdentity \<Rightarrow> string \<Rightarrow> i64 \<Rightarrow> runtime_store
     \<Rightarrow> HostError + RuntimeHostLeaseRecord \<times> runtime_store" where
  "activate_runtime_host X root auth host now S =
     rbind (activation_guard root auth host now) (\<lambda>sroot.
     case current_activation S of
       None \<Rightarrow> start_generation X auth sroot host now S
     | Some (l, g) \<Rightarrow>
         if hl_host_instance_id l = host then
           if \<not> same_activation auth sroot now l g then Inl ActivationConflict
           else rbind (ensure_runtime_host_state (lease_record l g) Starting now S) (\<lambda>S1.
             Inr (lease_record l g, S1))
         else start_generation X auth sroot host now
           (end_generation (\<lambda>h. hg_generation h = hl_generation l) now ''gateway_lock_takeover''
             (end_lease (\<lambda>m. rl_lease_id m = rl_lease_id l) now S)))"

subsection \<open>Activation with recovery\<close>

record NewOutboxEvent =
  ne_event_id :: string
  ne_event_name :: string
  ne_aggregate_id :: string
  ne_aggregate_revision :: i64
  ne_correlation_id :: string
  ne_causation_id :: string
  ne_occurred_at :: i64
  ne_safe_payload_json :: string
  ne_duplicate_identity :: string

record RuntimePausedAttentionRecord =
  pt_attention_id :: string
  pt_status :: string
  pt_reason :: string
  pt_recommendation :: string
  pt_alternatives_json :: string
  pt_required_assurance :: string
  pt_runtime_host_generation :: i64
  pt_runtime_host_instance_id :: string
  pt_runtime_fencing_token :: i64
  pt_runtime_actual_state :: RuntimeActualState
  pt_runtime_end_reason :: string
  pt_active_work_binding_digest :: string
  pt_outbox_event_id :: string
  pt_receipt_id :: string
  pt_created_at :: i64
  pt_resolved_at :: "i64 option"

record ReceiptKeyRef =
  rk_key_id :: string
  rk_key_generation :: i64

record RuntimeReceiptCommand =
  rq_receipt_id :: string
  rq_transaction_id :: string
  rq_state_root_generation :: i64
  rq_expected_global_count :: i64
  rq_expected_global_head_digest :: "string option"
  rq_subject_generation :: i64
  rq_causation_id :: string
  rq_causation_event_id :: string
  rq_actor_identity :: string
  rq_authority_provenance_id :: string
  rq_runtime :: "i64 \<times> string \<times> i64"
  rq_key :: ReceiptKeyRef
  rq_redacted_summary :: string
  rq_occurred_at :: i64

text \<open>What the transaction is given: the active receipt key, if there is one, the redacted actor
  and summary, the count and head of the receipt chain, and whether the database takes the rows of
  the record keeping: the outbox row, the attention row, and the receipt with everything the receipt
  journal checks and writes for it before the commit.\<close>

record receipt_context =
  rx_receipt_key :: "ReceiptKeyRef option"
  rx_actor_identity :: string
  rx_summary :: string
  rx_global_count :: i64
  rx_global_head :: "string option"
  rx_takes_event :: "NewOutboxEvent \<Rightarrow> bool"
  rx_takes_attention :: "RuntimePausedAttentionRecord \<Rightarrow> bool"
  rx_takes_receipt :: "RuntimeReceiptCommand \<Rightarrow> bool"

text \<open>What the transaction hands to the receipt journal: the new host alone, or the new host with
  the incident of the interrupted predecessor.\<close>

datatype runtime_mutation =
    NoAppend RuntimeHostLeaseRecord
  | Append RuntimeHostLeaseRecord NewOutboxEvent RuntimePausedAttentionRecord RuntimeReceiptCommand

fun mutation_value :: "runtime_mutation \<Rightarrow> RuntimeHostLeaseRecord" where
  "mutation_value (NoAppend r) = r"
| "mutation_value (Append r e a c) = r"

definition takeover_end_reason :: "RuntimeActualState \<Rightarrow> HostError + string" where
  "takeover_end_reason st = (case st of
     Faulted \<Rightarrow> Inr ''gateway_fault_takeover''
   | Draining \<Rightarrow> Inr ''gateway_drain_interrupted_takeover''
   | Stopped \<Rightarrow> Inl StoppedPredecessorLive
   | _ \<Rightarrow> Inr ''gateway_forced_exit_takeover'')"

text \<open>Ends the predecessor: its state is faulted, its lease released, its generation ended, each
  update fenced by the row it must change.\<close>

definition interrupt_predecessor ::
    "RuntimeHostLeaseRecord \<Rightarrow> runtime_state_row \<Rightarrow> string \<Rightarrow> i64 \<Rightarrow> runtime_store
     \<Rightarrow> HostError + runtime_store" where
  "interrupt_predecessor h st reason now S =
     (let at_state = (\<lambda>s. state_key s = host_key h \<and> rs_actual_state s = rs_actual_state st
            \<and> \<not> later (rs_updated_at s) now);
          at_lease = (\<lambda>l. rl_lease_id l = hr_lease_id h \<and> hl_generation l = hr_generation h
            \<and> hl_host_instance_id l = hr_host_instance_id h
            \<and> hl_fencing_token l = hr_fencing_token h);
          at_generation = (\<lambda>g. hg_generation g = hr_generation h
            \<and> hg_host_instance_id g = hr_host_instance_id h);
          fault = rs_actual_state st \<noteq> Faulted
      in if fault \<and> changed_rows at_state (rt_states S) \<noteq> 1 then Inl PredecessorChanged
         else if changed_rows (\<lambda>l. at_lease l \<and> hl_released_at l = None) (rt_leases S) \<noteq> 1
           \<or> changed_rows (\<lambda>g. at_generation g \<and> rg_ended_at g = None) (rt_generations S) \<noteq> 1
         then Inl TakeoverFenceLost
         else Inr (end_generation at_generation now reason (end_lease at_lease now
           (if fault then S\<lparr>rt_states := update_rows at_state
              (\<lambda>s. s\<lparr>rs_actual_state := Faulted, rs_updated_at := now\<rparr>) (rt_states S)\<rparr> else S))))"

definition recovery_event ::
    "externals \<Rightarrow> RuntimeHostLeaseRecord \<Rightarrow> RuntimeActualState \<Rightarrow> string \<Rightarrow> RuntimeHostLeaseRecord
     \<Rightarrow> ExecAssActiveWorkStatus \<Rightarrow> string \<Rightarrow> i64 \<Rightarrow> NewOutboxEvent" where
  "recovery_event X h st reason successor work digest now =
     (let identity = runtime_incident_identity X h
      in \<lparr>ne_event_id = ''runtime-recovery-event-'' @ identity,
          ne_event_name = ''execass.v1.runtime_host.changed'',
          ne_aggregate_id = ''execass-runtime-host'',
          ne_aggregate_revision = hr_generation h,
          ne_correlation_id = ''runtime-recovery-correlation-'' @ identity,
          ne_causation_id = ''runtime-recovery-cause-'' @ identity,
          ne_occurred_at = now,
          ne_safe_payload_json = json_to_string X (JObject
            [(''active_work_binding_digest'', JString digest),
             (''active_work_count'', JNumber (show_int (sint (aw_active_work_count work)))),
             (''end_reason'', JString reason),
             (''predecessor_actual_state'', JString (actual_state_as_str st)),
             (''predecessor_generation'', JNumber (show_int (sint (hr_generation h)))),
             (''successor_generation'', JNumber (show_int (sint (hr_generation successor))))]),
          ne_duplicate_identity = ''runtime-recovery-'' @ identity\<rparr>)"

definition recovery_attention ::
    "externals \<Rightarrow> RuntimeHostLeaseRecord \<Rightarrow> RuntimeActualState \<Rightarrow> string \<Rightarrow> string \<Rightarrow> i64
     \<Rightarrow> RuntimePausedAttentionRecord" where
  "recovery_attention X h st reason digest now =
     (let identity = runtime_incident_identity X h
      in \<lparr>pt_attention_id = ''runtime-paused-'' @ identity,
          pt_status = ''actionable'',
          pt_reason = ''The ExecAss runtime stopped unexpectedly.'',
          pt_recommendation = ''Review the recovery evidence and any interrupted work.'',
          pt_alternatives_json = ''[]'', pt_required_assurance = ''local_owner'',
          pt_runtime_host_generation = hr_generation h,
          pt_runtime_host_instance_id = hr_host_instance_id h,
          pt_runtime_fencing_token = hr_fencing_token h,
          pt_runtime_actual_state = st, pt_runtime_end_reason = reason,
          pt_active_work_binding_digest = digest,
          pt_outbox_event_id = ''runtime-recovery-event-'' @ identity,
          pt_receipt_id = ''runtime-recovery-receipt-'' @ identity,
          pt_created_at = now, pt_resolved_at = None\<rparr>)"

definition recovery_receipt ::
    "externals \<Rightarrow> receipt_context \<Rightarrow> ReceiptKeyRef \<Rightarrow> RuntimeHostLeaseRecord \<Rightarrow> i64
     \<Rightarrow> RuntimeHostLeaseRecord \<Rightarrow> NewOutboxEvent \<Rightarrow> i64 \<Rightarrow> RuntimeReceiptCommand" where
  "recovery_receipt X rx key h sroot successor event now =
     (let identity = runtime_incident_identity X h
      in \<lparr>rq_receipt_id = ''runtime-recovery-receipt-'' @ identity,
          rq_transaction_id = ''runtime-recovery-transaction-'' @ identity,
          rq_state_root_generation = sroot,
          rq_expected_global_count = rx_global_count rx,
          rq_expected_global_head_digest = rx_global_head rx,
          rq_subject_generation = hr_generation h,
          rq_causation_id = ne_causation_id event, rq_causation_event_id = ne_event_id event,
          rq_actor_identity = rx_actor_identity rx,
          rq_authority_provenance_id = ''execass-global-control-carrier-authority'',
          rq_runtime = (hr_generation successor, hr_host_instance_id successor,
            hr_fencing_token successor),
          rq_key = key, rq_redacted_summary = rx_summary rx, rq_occurred_at = now\<rparr>)"

text \<open>The three writes of the record keeping. \<open>insert_outbox\<close> is one \<open>INSERT\<close>; the attention item is
  checked before it is inserted; the receipt is validated, built, signed and inserted by
  \<open>mutate_with_runtime_atomic_receipt\<close> after the closure, in the same transaction.\<close>

definition insert_outbox :: "receipt_context \<Rightarrow> NewOutboxEvent \<Rightarrow> HostError + unit" where
  "insert_outbox rx event = (if rx_takes_event rx event then Inr () else Inl OutboxRefused)"

definition insert_runtime_paused_attention_in_tx ::
    "externals \<Rightarrow> receipt_context \<Rightarrow> RuntimePausedAttentionRecord \<Rightarrow> HostError + unit" where
  "insert_runtime_paused_attention_in_tx X rx item =
     (if list_ex blank [pt_attention_id item, pt_runtime_host_instance_id item, pt_reason item,
           pt_recommendation item, pt_required_assurance item, pt_runtime_end_reason item,
           pt_outbox_event_id item, pt_receipt_id item]
      then Inl AttentionTextEmpty
      else if pt_status item \<noteq> ''actionable'' \<or> pt_resolved_at item \<noteq> None
         \<or> \<not> positive (pt_runtime_host_generation item) \<or> \<not> positive (pt_runtime_fencing_token item)
         \<or> \<not> positive (pt_created_at item)
         \<or> pt_runtime_actual_state item \<notin> {Starting, RunningAppBound, Handoff, RunningBackground,
             Draining, Faulted}
         \<or> (case json_from_str X (pt_alternatives_json item) of Some (JArray _) \<Rightarrow> False | _ \<Rightarrow> True)
         \<or> length (pt_active_work_binding_digest item) \<noteq> 71
         \<or> take 7 (pt_active_work_binding_digest item) \<noteq> ''sha256:''
         \<or> \<not> list_all is_lower_hex_digit (drop 7 (pt_active_work_binding_digest item))
      then Inl AttentionNotCanonical
      else if rx_takes_attention rx item then Inr () else Inl AttentionRefused)"

definition append_runtime_receipt :: "receipt_context \<Rightarrow> RuntimeReceiptCommand \<Rightarrow> HostError + unit" where
  "append_runtime_receipt rx command = (if rx_takes_receipt rx command then Inr () else Inl ReceiptRefused)"

text \<open>The transaction of \<open>activate_runtime_host_with_recovery\<close>: the closure that runs under the
  receipt coordinator, and the coordinator's append. \<open>receipts\<close> is what the integrity store, the
  redactor and the coordinator answered before the closure runs, or their failure; without an active
  key a takeover is refused. The rows of the event, the attention item and the receipt are the
  mutation's contents; what else their tables hold is not modelled, nor is the finalization of the
  integrity anchor after the commit.\<close>

definition activate_runtime_host_with_recovery ::
    "externals \<Rightarrow> HostError + receipt_context \<Rightarrow> string \<Rightarrow> ConfirmationAuthorityIdentity \<Rightarrow> string \<Rightarrow> i64 \<Rightarrow> runtime_store
     \<Rightarrow> HostError + runtime_mutation \<times> runtime_store" where
  "activate_runtime_host_with_recovery X receipts root auth host now S =
     rbind (activation_guard root auth host now) (\<lambda>sroot.
     rbind receipts (\<lambda>rx.
     case current_activation S of
       None \<Rightarrow> rbind (start_generation X auth sroot host now S) (\<lambda>(r, S1). Inr (NoAppend r, S1))
     | Some (l, g) \<Rightarrow>
         if hl_host_instance_id l = host then
           if \<not> same_activation auth sroot now l g then Inl ActivationConflict
           else rbind (ensure_runtime_host_state (lease_record l g) Starting now S) (\<lambda>S1.
             Inr (NoAppend (lease_record l g), S1))
         else
           let h = lease_record l g
           in rbind (of_option PredecessorStateMissing (load_runtime_host_state h S)) (\<lambda>st.
              rbind (takeover_end_reason (rs_actual_state st)) (\<lambda>reason.
              rbind (interrupt_predecessor h st reason now S) (\<lambda>S1.
              rbind (start_generation X auth sroot host now S1) (\<lambda>(r, S2).
              rbind (of_option NumberRange (load_active_work_snapshot X S2)) (\<lambda>(work, digest).
              let event = recovery_event X h (rs_actual_state st) reason r work digest now;
                  attention = recovery_attention X h (rs_actual_state st) reason digest now
              in rbind (insert_outbox rx event) (\<lambda>_.
                 rbind (insert_runtime_paused_attention_in_tx X rx attention) (\<lambda>_.
                 rbind (of_option ReceiptKeyMissing (rx_receipt_key rx)) (\<lambda>key.
                 let receipt = recovery_receipt X rx key h sroot r event now
                 in rbind (append_runtime_receipt rx receipt) (\<lambda>_.
                    Inr (Append r event attention receipt, S2))))))))))))"

subsection \<open>Transitions of the host\<close>

definition transition_runtime_host ::
    "RuntimeHostLeaseRecord \<Rightarrow> RuntimeHostTransition \<Rightarrow> i64 \<Rightarrow> runtime_store
     \<Rightarrow> HostError + RuntimeHostTransitionOutcome \<times> runtime_store" where
  "transition_runtime_host h tr now S =
     (if \<not> positive now then Inl UntrustedClock
      else rbind (require_current_runtime_host h now S) (\<lambda>_.
        rbind (of_option HostStateMissing (load_runtime_host_state h S)) (\<lambda>st.
        let desired = (case load_desired_mode S of None \<Rightarrow> AppBound | Some d \<Rightarrow> d)
        in rbind (resolve_transition (rs_actual_state st) desired tr) (\<lambda>(target, reason).
        if later (rs_updated_at st) now then Inl ClockMovedBackwards
        else
          let at_state = (\<lambda>s. state_key s = host_key h
                \<and> rs_state_root_generation s = hr_state_root_generation h
                \<and> \<not> later (rs_updated_at s) now);
              at_lease = (\<lambda>l. rl_lease_id l = hr_lease_id h \<and> hl_ownership_scope l = ''execass''
                \<and> hl_generation l = hr_generation h \<and> hl_host_instance_id l = hr_host_instance_id h
                \<and> hl_fencing_token l = hr_fencing_token h);
              at_generation = (\<lambda>g. hg_generation g = hr_generation h
                \<and> hg_host_instance_id g = hr_host_instance_id h);
              outcome = \<lparr>to_from_state = rs_actual_state st, to_actual_state = target,
                to_reason = reason\<rparr>;
              S1 = S\<lparr>rt_states := update_rows at_state
                (\<lambda>s. s\<lparr>rs_actual_state := target, rs_updated_at := now\<rparr>) (rt_states S)\<rparr>
          in if changed_rows at_state (rt_states S) \<noteq> 1 then Inl StateWriteMissed
             else if target \<noteq> Stopped then Inr (outcome, S1)
             else if changed_rows (\<lambda>l. at_lease l \<and> hl_released_at l = None) (rt_leases S) \<noteq> 1
               \<or> changed_rows (\<lambda>g. at_generation g \<and> rg_ended_at g = None) (rt_generations S) \<noteq> 1
             then Inl StopFenceLost
             else Inr (outcome, end_generation at_generation now ''host_state_stopped''
               (end_lease at_lease now S1))))))"

subsection \<open>The status of the host\<close>

record ExecAssRuntimeHostStatus =
  hs_config :: "settings_revision_row option"
  hs_actual_state :: RuntimeActualState
  hs_live_lease :: "RuntimeHostLeaseRecord option"

text \<open>\<open>ORDER BY lease.generation DESC, lease.fencing_token DESC LIMIT 1\<close>.\<close>

fun latest_lease :: "RuntimeHostLeaseRecord list \<Rightarrow> RuntimeHostLeaseRecord option" where
  "latest_lease [] = None"
| "latest_lease (r # rs) = (case latest_lease rs of
     None \<Rightarrow> Some r
   | Some m \<Rightarrow> Some (if later (hr_generation m) (hr_generation r)
         \<or> hr_generation m = hr_generation r \<and> later (hr_fencing_token m) (hr_fencing_token r)
       then m else r))"

definition load_live_lease :: "runtime_store \<Rightarrow> i64 \<Rightarrow> RuntimeHostLeaseRecord option" where
  "load_live_lease S now = latest_lease
     [lease_record l g. l \<leftarrow> rt_leases S, g \<leftarrow> rt_generations S, joined l g \<and> live_lease now (host_lease_row.truncate l)]"

definition actual_state_for_live_lease ::
    "RuntimeHostLeaseRecord option \<Rightarrow> runtime_store \<Rightarrow> HostError + RuntimeActualState" where
  "actual_state_for_live_lease live S = (case live of
     None \<Rightarrow> Inr Stopped
   | Some h \<Rightarrow> rbind (of_option HostStateMissing (load_runtime_host_state h S)) (\<lambda>st.
       Inr (rs_actual_state st)))"

definition load_status :: "runtime_store \<Rightarrow> i64 \<Rightarrow> HostError + ExecAssRuntimeHostStatus" where
  "load_status S now =
     (let live = load_live_lease S now
      in rbind (actual_state_for_live_lease live S) (\<lambda>st.
        Inr \<lparr>hs_config = latest_by sr_settings_revision (rt_settings S), hs_actual_state = st,
          hs_live_lease = live\<rparr>))"

record ExecAssRuntimeCloseSnapshot =
  cs_host :: ExecAssRuntimeHostStatus
  cs_active_work :: ExecAssActiveWorkStatus
  cs_active_work_binding_digest :: string

definition execass_runtime_close_snapshot ::
    "externals \<Rightarrow> runtime_store \<Rightarrow> i64 \<Rightarrow> HostError + ExecAssRuntimeCloseSnapshot" where
  "execass_runtime_close_snapshot X S now =
     (if \<not> positive now then Inl UntrustedClock
      else rbind (load_status S now) (\<lambda>host.
        rbind (of_option NumberRange (load_active_work_snapshot X S)) (\<lambda>(work, digest).
          Inr \<lparr>cs_host = host, cs_active_work = work, cs_active_work_binding_digest = digest\<rparr>)))"

end
