(* ===== verification/HostSafety.thy ===== *)
theory HostSafety
  imports RuntimeHost
begin

text \<open>
  The fencing of runtime hosts: over every history of activations, recoveries, transitions and
  concurrent changes of the settings and work tables, generations and fencing tokens strictly
  increase, at most the last host is live, every live host has a state that is not stopped, and a
  host that was superseded or stopped never writes again.
\<close>

subsection \<open>The invariant\<close>

type_synonym host_pair = "runtime_generation_row \<times> runtime_lease_row"

definition host_pairs :: "runtime_store \<Rightarrow> host_pair list" where
  "host_pairs S = zip (rt_generations S) (rt_leases S)"

definition ended :: "host_pair \<Rightarrow> bool" where
  "ended p \<longleftrightarrow> rg_ended_at (fst p) \<noteq> None"

definition pair_key :: "host_pair \<Rightarrow> i64 \<times> string \<times> i64" where
  "pair_key p = (hg_generation (fst p), hg_host_instance_id (fst p), hl_fencing_token (snd p))"

definition pair_ok :: "host_pair \<Rightarrow> bool" where
  "pair_ok p \<longleftrightarrow> joined (snd p) (fst p)
     \<and> rg_ownership_scope (fst p) = ''execass'' \<and> hl_ownership_scope (snd p) = ''execass''
     \<and> (hl_released_at (snd p) = None \<longleftrightarrow> \<not> ended p)
     \<and> hl_expires_at (snd p) = word_of_int i64_max
     \<and> positive (hg_state_root_generation (fst p)) \<and> positive (hl_fencing_token (snd p))
     \<and> positive (hg_generation (fst p)) \<and> \<not> blank (hg_host_instance_id (fst p))"

definition older :: "host_pair \<Rightarrow> host_pair \<Rightarrow> bool" where
  "older p q \<longleftrightarrow> later (hg_generation (fst q)) (hg_generation (fst p))
     \<and> later (hl_fencing_token (snd q)) (hl_fencing_token (snd p))
     \<and> hg_host_instance_id (fst p) \<noteq> hg_host_instance_id (fst q)
     \<and> rl_lease_id (snd p) \<noteq> rl_lease_id (snd q)"

definition state_for :: "runtime_state_row list \<Rightarrow> host_pair \<Rightarrow> bool" where
  "state_for ss p \<longleftrightarrow> (\<exists>s \<in> set ss. state_key s = pair_key p
     \<and> rs_state_root_generation s = hg_state_root_generation (fst p)
     \<and> (ended p \<or> rs_actual_state s \<noteq> Stopped))"

definition states_ok :: "host_pair list \<Rightarrow> runtime_state_row list \<Rightarrow> bool" where
  "states_ok ps ss \<longleftrightarrow> distinct (map state_key ss)
     \<and> (\<forall>s \<in> set ss. state_key s \<in> pair_key ` set ps) \<and> (\<forall>p \<in> set ps. state_for ss p)"

definition hosts_ok :: "host_pair list \<Rightarrow> bool" where
  "hosts_ok ps \<longleftrightarrow> (\<forall>p \<in> set ps. pair_ok p) \<and> sorted_wrt older ps \<and> (\<forall>p \<in> set (butlast ps). ended p)"

definition store_ok :: "runtime_store \<Rightarrow> bool" where
  "store_ok S \<longleftrightarrow> length (rt_generations S) = length (rt_leases S)
     \<and> hosts_ok (host_pairs S) \<and> states_ok (host_pairs S) (rt_states S)"

definition closed :: "runtime_store \<Rightarrow> bool" where
  "closed S \<longleftrightarrow> (\<forall>p \<in> set (host_pairs S). ended p)"

lemma later_irrefl [simp]: "\<not> later v v"
  by (simp add: later_def)

lemma later_trans: "later a b \<Longrightarrow> later b c \<Longrightarrow> later a c"
  by (simp add: later_def)

lemma rows_of_pairs:
  "store_ok S \<Longrightarrow> rt_generations S = map fst (host_pairs S)"
  "store_ok S \<Longrightarrow> rt_leases S = map snd (host_pairs S)"
  by (simp_all add: store_ok_def host_pairs_def)

lemma older_generation: "older p q \<Longrightarrow> hg_generation (fst p) \<noteq> hg_generation (fst q)"
  by (auto simp: older_def)

lemma hosts_ok_snoc:
  "hosts_ok (ps @ [p]) \<longleftrightarrow> (\<forall>q \<in> set ps. pair_ok q \<and> ended q \<and> older q p) \<and> pair_ok p
     \<and> sorted_wrt older ps"
  by (auto simp: hosts_ok_def sorted_wrt_append)

lemma live_pair_last:
  assumes "hosts_ok ps" and "(g, l) \<in> set ps" and "(h, m) \<in> set ps" and "live_pair m g"
  shows "\<exists>qs. ps = qs @ [(g, l)] \<and> m = l \<and> h = g"
proof (cases ps rule: rev_cases)
  case Nil
  with assms show ?thesis by simp
next
  case (snoc qs p)
  have live: "\<not> ended (g, l)" using assms(4) by (simp add: live_pair_def ended_def)
  with assms(1,2) snoc have p: "p = (g, l)" by (auto simp: hosts_ok_snoc)
  have "hg_generation h = hg_generation g"
    using assms(1,3,4) by (auto simp: hosts_ok_def pair_ok_def live_pair_def joined_def)
  with assms(1,3) snoc p have "(h, m) = (g, l)"
    using older_generation by (auto simp: hosts_ok_snoc)
  with snoc p show ?thesis by simp
qed

lemma first_row:
  "(case xs of [] \<Rightarrow> None | p # _ \<Rightarrow> Some p) = Some q \<Longrightarrow> q \<in> set xs"
  "(case xs of [] \<Rightarrow> None | p # _ \<Rightarrow> Some p) = None \<longleftrightarrow> xs = []"
  by (cases xs; simp)+

lemma current_activation_in:
  assumes "current_activation S = Some (l, g)"
  shows "l \<in> set (rt_leases S)" "g \<in> set (rt_generations S)" "live_pair l g"
  using first_row(1) [OF assms [unfolded current_activation_def]] by auto

lemma current_activation_snoc:
  assumes "store_ok S" and "current_activation S = Some (l, g)"
  shows "\<exists>ps. host_pairs S = ps @ [(g, l)]"
proof -
  note c = current_activation_in [OF assms(2)]
  obtain m where "(g, m) \<in> set (host_pairs S)"
    using c(2) rows_of_pairs(1) [OF assms(1)] by (metis imageE list.set_map prod.collapse)
  moreover obtain h where "(h, l) \<in> set (host_pairs S)"
    using c(1) rows_of_pairs(2) [OF assms(1)] by (metis imageE list.set_map prod.collapse)
  moreover have "hosts_ok (host_pairs S)"
    using assms(1) by (simp add: store_ok_def)
  ultimately show ?thesis
    using live_pair_last [OF _ _ _ c(3)] by blast
qed

lemma current_activation_none_iff:
  "current_activation S = None
   \<longleftrightarrow> (\<forall>l \<in> set (rt_leases S). \<forall>g \<in> set (rt_generations S). \<not> live_pair l g)"
  unfolding current_activation_def first_row(2) by auto

lemma current_activation_None:
  assumes "store_ok S" and "current_activation S = None"
  shows "closed S"
  unfolding closed_def
proof (rule ballI, rule ccontr)
  fix p assume p: "p \<in> set (host_pairs S)" and "\<not> ended p"
  then have "live_pair (snd p) (fst p)"
    using assms(1) by (simp add: store_ok_def hosts_ok_def pair_ok_def live_pair_def ended_def)
  moreover have "snd p \<in> set (rt_leases S)" "fst p \<in> set (rt_generations S)"
    using p rows_of_pairs [OF assms(1)] by auto
  ultimately show False
    using assms(2) by (auto simp: current_activation_none_iff)
qed

subsection \<open>Ending the last host\<close>

definition end_pair :: "i64 \<Rightarrow> string \<Rightarrow> host_pair \<Rightarrow> host_pair" where
  "end_pair now reason p = ((fst p)\<lparr>rg_ended_at := Some now, rg_end_reason := Some reason\<rparr>,
     (snd p)\<lparr>hl_released_at := Some now\<rparr>)"

lemma end_pair_simps [simp]:
  "ended (end_pair now reason p)" "pair_key (end_pair now reason p) = pair_key p"
  "pair_ok p \<Longrightarrow> pair_ok (end_pair now reason p)"
  "older q (end_pair now reason p) \<longleftrightarrow> older q p"
  by (auto simp: end_pair_def ended_def pair_key_def pair_ok_def older_def joined_def)

lemma update_rows_snoc:
  "\<forall>r \<in> set rs. \<not> p r \<Longrightarrow> p r \<Longrightarrow> update_rows p f (rs @ [r]) = rs @ [f r]"
  by (auto simp: update_rows_def map_idI)

lemma end_last_host:
  assumes "host_pairs S = ps @ [p]" and "store_ok S" and "\<not> ended p" and "P (snd p)" and "Q (fst p)"
  shows "host_pairs (end_generation Q now reason (end_lease P now S)) = ps @ [end_pair now reason p]"
proof -
  have ps: "\<forall>q \<in> set ps. pair_ok q \<and> ended q" and p: "pair_ok p"
    using assms(1,2) by (auto simp: store_ok_def hosts_ok_snoc)
  have "update_rows (\<lambda>l. P l \<and> hl_released_at l = None) (\<lambda>l. l\<lparr>hl_released_at := Some now\<rparr>)
      (map snd ps @ [snd p]) = map snd ps @ [(snd p)\<lparr>hl_released_at := Some now\<rparr>]"
    using ps p assms(3,4) by (intro update_rows_snoc) (auto simp: pair_ok_def)
  moreover have "update_rows (\<lambda>g. Q g \<and> rg_ended_at g = None)
      (\<lambda>g. g\<lparr>rg_ended_at := Some now, rg_end_reason := Some reason\<rparr>) (map fst ps @ [fst p])
      = map fst ps @ [(fst p)\<lparr>rg_ended_at := Some now, rg_end_reason := Some reason\<rparr>]"
    using ps p assms(3,5) by (intro update_rows_snoc) (auto simp: ended_def)
  moreover have "rt_generations S = map fst ps @ [fst p]" "rt_leases S = map snd ps @ [snd p]"
    using rows_of_pairs [OF assms(2)] assms(1) by simp_all
  ultimately show ?thesis
    by (simp add: host_pairs_def end_generation_def end_lease_def
        end_pair_def zip_map_fst_snd)
qed

lemma states_ok_ended:
  assumes "states_ok (ps @ [p]) ss"
  shows "states_ok (ps @ [end_pair now reason p]) ss"
  using assms by (auto simp: states_ok_def state_for_def end_pair_def ended_def pair_key_def)

lemma store_ok_end_last:
  assumes "host_pairs S = ps @ [p]" and "store_ok S" and "\<not> ended p" and "P (snd p)" and "Q (fst p)"
  shows "store_ok (end_generation Q now reason (end_lease P now S))
     \<and> closed (end_generation Q now reason (end_lease P now S))"
    (is "store_ok ?T \<and> closed ?T")
proof -
  have T: "host_pairs ?T = ps @ [end_pair now reason p]"
    using assms by (rule end_last_host)
  have "length (rt_generations ?T) = length (rt_leases ?T)" "rt_states ?T = rt_states S"
    using assms(2) by (simp_all add: store_ok_def end_generation_def end_lease_def update_rows_def)
  moreover have "hosts_ok (ps @ [end_pair now reason p])" "\<forall>q \<in> set ps. ended q"
    using assms(1,2) by (auto simp: store_ok_def hosts_ok_snoc)
  ultimately show ?thesis
    using assms(1,2) states_ok_ended by (auto simp: store_ok_def closed_def T)
qed

subsection \<open>Starting a generation\<close>

lemma sint_of_i64: "i64_min \<le> k \<Longrightarrow> k \<le> i64_max \<Longrightarrow> sint (word_of_int k :: i64) = k"
  using sint_i64_clamp [of k] by (simp add: i64_clamp_def i64_min_def i64_max_def)

lemma coalesced_max_ge: "v \<in> set vs \<Longrightarrow> sint v \<le> coalesced_max vs"
  by (auto simp: coalesced_max_def)

lemma coalesced_max_bounds: "i64_min \<le> coalesced_max vs \<and> coalesced_max vs \<le> i64_max"
proof (cases vs)
  case Nil
  then show ?thesis by (simp add: coalesced_max_def i64_min_def i64_max_def)
next
  case (Cons v us)
  then have "Max (set (map sint vs)) \<in> sint ` set vs"
    using Max_in [of "set (map sint vs)"] by simp
  with Cons show ?thesis
    using sint_i64_bounds by (auto simp: coalesced_max_def)
qed

lemma sint_next_number:
  assumes "next_number vs = Inr n"
  shows "sint n = coalesced_max vs + 1"
proof -
  have n: "n = word_of_int (coalesced_max vs + 1)" and "coalesced_max vs < i64_max"
    using assms(1) by (simp_all add: next_number_def split: if_splits)
  then show ?thesis
    unfolding n using coalesced_max_bounds [of vs] by (intro sint_of_i64) simp_all
qed

lemma next_number_later: "next_number vs = Inr n \<Longrightarrow> v \<in> set vs \<Longrightarrow> later n v"
  using coalesced_max_ge [of v vs] sint_next_number [of vs n] by (simp add: later_def)

lemma coalesced_max_nonneg: "\<forall>v \<in> set vs. positive v \<Longrightarrow> 0 \<le> coalesced_max vs"
  by (cases vs) (auto simp: coalesced_max_def later_def Max_ge_iff less_imp_le)

lemma next_number_positive:
  assumes "next_number vs = Inr n" and "\<forall>v \<in> set vs. positive v"
  shows "positive n"
  using sint_next_number [OF assms(1)] coalesced_max_nonneg [OF assms(2)] by (simp add: later_def)

lemma positive_numbers:
  assumes "store_ok S"
  shows "\<forall>v \<in> set (map hg_generation (rt_generations S)). positive v"
    and "\<forall>v \<in> set (map hl_fencing_token (rt_leases S)). positive v"
  using assms rows_of_pairs [OF assms] by (auto simp: store_ok_def hosts_ok_def pair_ok_def)

text \<open>The effect of a successful activation on the three tables.\<close>

definition appended :: "runtime_store \<Rightarrow> runtime_generation_row \<Rightarrow> runtime_lease_row \<Rightarrow> runtime_state_row
    \<Rightarrow> runtime_store" where
  "appended S g l s = S\<lparr>rt_generations := rt_generations S @ [g], rt_leases := rt_leases S @ [l],
     rt_states := rt_states S @ [s]\<rparr>"

definition fresh_host :: "runtime_store \<Rightarrow> string \<Rightarrow> runtime_generation_row \<Rightarrow> runtime_lease_row
    \<Rightarrow> runtime_state_row \<Rightarrow> bool" where
  "fresh_host S host g l s \<longleftrightarrow> pair_ok (g, l) \<and> \<not> ended (g, l) \<and> hg_host_instance_id g = host
     \<and> (\<forall>p \<in> set (host_pairs S). older p (g, l))
     \<and> state_key s = pair_key (g, l) \<and> rs_state_root_generation s = hg_state_root_generation g
     \<and> rs_actual_state s = Starting"

lemma start_generation_appends:
  assumes "start_generation X auth sroot host now S = Inr (r, T)" and "store_ok S" and "positive now"
    and "\<not> blank host"
  shows "\<exists>g l s. T = appended S g l s \<and> r = lease_record l g \<and> fresh_host S host g l s
    \<and> hg_state_root_generation g = sroot"
proof -
  obtain generation token where
    gen: "next_number (map hg_generation (rt_generations S)) = Inr generation" and
    tok: "next_number (map hl_fencing_token (rt_leases S)) = Inr token"
    using assms(1) by (auto simp: start_generation_def Let_def)
  define g where "g = \<lparr>hg_generation = generation, hg_host_instance_id = host,
           hg_state_root_generation = sroot,
           hg_installation_identity = ca_installation_identity auth,
           hg_os_user_identity_digest = ca_os_user_identity_digest auth,
           rg_ownership_scope = ''execass'', rg_started_at = now,
           rg_ended_at = None, rg_end_reason = None\<rparr>"
  define l where "l = \<lparr>hl_ownership_scope = ''execass'', hl_generation = generation,
           hl_host_instance_id = host, hl_fencing_token = token, hl_released_at = None,
           hl_expires_at = word_of_int i64_max,
           rl_lease_id = runtime_lease_id X host generation token, rl_acquired_at = now\<rparr>"
  define s where "s = \<lparr>rs_generation = generation, rs_host_instance_id = host, rs_fencing_token = token,
           rs_state_root_generation = sroot, rs_actual_state = Starting, rs_updated_at = now\<rparr>"
  have chain: "rbind (insert_generation g S) (\<lambda>S1. rbind (insert_lease l S1) (\<lambda>S2.
        rbind (ensure_runtime_host_state (lease_record l g) Starting now S2) (\<lambda>S3.
          Inr (lease_record l g, S3)))) = Inr (r, T)"
    using assms(1) by (simp add: start_generation_def Let_def gen tok g_def l_def)
  then obtain S1 S2 where
    1: "insert_generation g S = Inr S1" and 2: "insert_lease l S1 = Inr S2" and
    3: "ensure_runtime_host_state (lease_record l g) Starting now S2 = Inr T" and
    r: "r = lease_record l g"
    by auto
  have S1: "S1 = S\<lparr>rt_generations := rt_generations S @ [g]\<rparr>" "positive sroot"
      "host \<notin> hg_host_instance_id ` set (rt_generations S)"
    using 1 by (simp_all add: insert_generation_def g_def split: if_splits)
  have S2: "S2 = S1\<lparr>rt_leases := rt_leases S1 @ [l]\<rparr>" "positive token"
      "rl_lease_id l \<notin> rl_lease_id ` set (rt_leases S1)"
    using 2 by (simp_all add: insert_lease_def l_def split: if_splits)
  have old: "later generation (hg_generation (fst p)) \<and> later token (hl_fencing_token (snd p))"
    if "p \<in> set (host_pairs S)" for p
    using that rows_of_pairs [OF assms(2)] next_number_later [OF gen] next_number_later [OF tok]
    by auto
  have older: "older p (g, l)" if p: "p \<in> set (host_pairs S)" for p
  proof -
    have "fst p \<in> set (rt_generations S)" "snd p \<in> set (rt_leases S)"
      using p rows_of_pairs [OF assms(2)] by auto
    moreover have "rl_lease_id l \<notin> rl_lease_id ` set (rt_leases S)"
      using S2(3) by (simp add: S1(1))
    ultimately have "hg_host_instance_id (fst p) \<noteq> host" "rl_lease_id (snd p) \<noteq> rl_lease_id l"
      using S1(3) by (metis imageI)+
    then show ?thesis
      using old [OF p] by (simp add: older_def g_def l_def)
  qed
  have "state_key t \<noteq> host_key (lease_record l g)" if t: "t \<in> set (rt_states S)" for t
  proof -
    obtain p where p: "p \<in> set (host_pairs S)" and k: "state_key t = pair_key p"
      using assms(2) t by (auto simp: store_ok_def states_ok_def)
    then show ?thesis
      using old [OF p] by (auto simp: pair_key_def host_key_def lease_record_def l_def)
  qed
  then have "host_key (lease_record l g) \<notin> state_key ` set (rt_states S2)"
    by (simp add: S1(1) S2(1)) (metis imageE)
  moreover have "hr_fencing_token (lease_record l g) = token"
      "hr_state_root_generation (lease_record l g) = sroot"
      "hr_generation (lease_record l g) = generation" "hr_host_instance_id (lease_record l g) = host"
    by (simp_all add: lease_record_def l_def g_def)
  ultimately have "T = S2\<lparr>rt_states := rt_states S2 @ [s]\<rparr>"
    using 3 S1(2) S2(2) assms(3) unfolding ensure_runtime_host_state_def s_def
    by (simp split: if_splits)
  then have "T = appended S g l s"
    by (simp add: S1(1) S2(1) appended_def)
  moreover have "fresh_host S host g l s"
    using older S1(2) S2(2) assms(4) next_number_positive [OF gen positive_numbers(1) [OF assms(2)]]
    by (simp add: fresh_host_def pair_ok_def joined_def ended_def g_def l_def s_def state_key_def
        pair_key_def)
  moreover have "hg_state_root_generation g = sroot" by (simp add: g_def)
  ultimately show ?thesis using r by blast
qed

lemma host_pairs_appended:
  "store_ok S \<Longrightarrow> host_pairs (appended S g l s) = host_pairs S @ [(g, l)]"
  by (simp add: store_ok_def host_pairs_def appended_def)

lemma state_for_mono: "state_for ss p \<Longrightarrow> set ss \<subseteq> set ts \<Longrightarrow> state_for ts p"
  by (auto simp: state_for_def)

lemma states_ok_snoc:
  assumes "states_ok ps ss" and "state_key s = pair_key p" and "pair_key p \<notin> pair_key ` set ps"
    and "rs_state_root_generation s = hg_state_root_generation (fst p)" and "rs_actual_state s \<noteq> Stopped"
  shows "states_ok (ps @ [p]) (ss @ [s])"
proof -
  have "state_key s \<notin> state_key ` set ss"
    using assms(1-3) by (auto simp: states_ok_def)
  moreover have "state_for (ss @ [s]) q" if "q \<in> set ps" for q
    using that assms(1) state_for_mono [of ss q "ss @ [s]"] by (auto simp: states_ok_def)
  moreover have "state_for (ss @ [s]) p"
    using assms(2,4,5) by (auto simp: state_for_def)
  ultimately show ?thesis
    using assms(1,2) by (auto simp: states_ok_def)
qed

lemma store_ok_appended:
  assumes "store_ok S" and "closed S" and "fresh_host S host g l s"
  shows "store_ok (appended S g l s)"
proof -
  have "hosts_ok (host_pairs S @ [(g, l)])"
    unfolding hosts_ok_snoc
    using assms by (auto simp: store_ok_def closed_def fresh_host_def hosts_ok_def)
  moreover have "pair_key (g, l) \<notin> pair_key ` set (host_pairs S)"
    using assms(3) by (auto simp: fresh_host_def older_def pair_key_def)
  then have "states_ok (host_pairs S @ [(g, l)]) (rt_states S @ [s])"
    using assms(1,3) by (intro states_ok_snoc) (simp_all add: store_ok_def fresh_host_def)
  moreover have "length (rt_generations (appended S g l s)) = length (rt_leases (appended S g l s))"
      "rt_states (appended S g l s) = rt_states S @ [s]"
    using assms(1) by (simp_all add: store_ok_def appended_def)
  ultimately show ?thesis
    unfolding store_ok_def host_pairs_appended [OF assms(1)] by simp
qed

lemma host_key_pair: "joined l g \<Longrightarrow> host_key (lease_record l g) = pair_key (g, l)"
  by (simp add: host_key_def lease_record_def pair_key_def joined_def)

lemma ensure_existing_state:
  assumes "store_ok S" and "(g, l) \<in> set (host_pairs S)"
  shows "ensure_runtime_host_state (lease_record l g) st now S = Inr S"
proof -
  have "state_for (rt_states S) (g, l)" "joined l g"
    using assms by (auto simp: store_ok_def states_ok_def hosts_ok_def pair_ok_def)
  then have "pair_key (g, l) \<in> state_key ` set (rt_states S)" "joined l g"
    by (auto simp: state_for_def intro: rev_image_eqI)
  then show ?thesis
    by (simp add: ensure_runtime_host_state_def host_key_pair)
qed

subsection \<open>Histories\<close>

text \<open>How a step changes the two host tables: nothing, the last host ended, or, with no host left
  live, one appended.\<close>

inductive evolves :: "host_pair list \<Rightarrow> host_pair list \<Rightarrow> bool" where
  same: "evolves ps ps"
| stop: "evolves (ps @ [p]) (ps @ [end_pair now reason p])"
| start: "evolves ps qs \<Longrightarrow> \<forall>q \<in> set qs. ended q \<and> older q p \<Longrightarrow> evolves ps (qs @ [p])"

lemma evolves_pair:
  assumes "evolves ps qs" and "p \<in> set ps"
  shows "\<exists>q \<in> set qs. hg_generation (fst q) = hg_generation (fst p) \<and> (ended p \<longrightarrow> ended q)"
  using assms
proof (induction rule: evolves.induct)
  case (stop ps r now reason)
  then show ?case by (auto simp: end_pair_def ended_def)
qed auto

lemma ended_evolves:
  assumes "host_pairs S = ps @ [p]" and "store_ok S" and "\<not> ended p" and "P (snd p)" and "Q (fst p)"
  shows "evolves (host_pairs S) (host_pairs (end_generation Q now reason (end_lease P now S)))
    \<and> store_ok (end_generation Q now reason (end_lease P now S))
    \<and> closed (end_generation Q now reason (end_lease P now S))"
proof -
  have "evolves (ps @ [p]) (ps @ [end_pair now reason p])" by (rule evolves.stop)
  then show ?thesis
    using store_ok_end_last [where P = P and Q = Q, OF assms]
      end_last_host [where P = P and Q = Q, OF assms] assms(1) by simp
qed

lemma evolves_identity:
  assumes "evolves ps qs" and "p \<in> set ps"
  shows "\<exists>q \<in> set qs. hg_generation (fst q) = hg_generation (fst p)
    \<and> hg_host_instance_id (fst q) = hg_host_instance_id (fst p)"
  using assms
proof (induction rule: evolves.induct)
  case (stop ps r now reason)
  then show ?case by (auto simp: end_pair_def)
qed auto

text \<open>What a successful activation leaves: a well-formed store whose last host is the caller's, live,
  and described by the returned record.\<close>

definition activated :: "runtime_store \<Rightarrow> string \<Rightarrow> RuntimeHostLeaseRecord \<Rightarrow> runtime_store \<Rightarrow> bool" where
  "activated S host r T \<longleftrightarrow> store_ok T \<and> evolves (host_pairs S) (host_pairs T)
     \<and> (\<exists>ps g l. host_pairs T = ps @ [(g, l)] \<and> \<not> ended (g, l) \<and> joined l g
          \<and> hl_host_instance_id l = host \<and> r = lease_record l g)"

lemma start_activated:
  assumes "store_ok U" and "closed U" and "evolves (host_pairs S) (host_pairs U)"
    and "positive now \<and> \<not> blank host" and "start_generation X auth sroot host now U = Inr (r, T)"
  shows "activated S host r T"
proof -
  obtain g l s where T: "T = appended U g l s" "r = lease_record l g" "fresh_host U host g l s"
    using start_generation_appends [OF assms(5,1)] assms(4) by blast
  then have "evolves (host_pairs S) (host_pairs U @ [(g, l)])"
    using assms(2,3) by (intro evolves.start) (auto simp: closed_def fresh_host_def)
  then show ?thesis
    using T store_ok_appended [OF assms(1,2) T(3)]
    by (auto simp: activated_def host_pairs_appended [OF assms(1)] fresh_host_def pair_ok_def joined_def)
qed

lemma replay_activated:
  assumes "store_ok S" and "host_pairs S = ps @ [(g, l)]" and "\<not> ended (g, l)" and "joined l g"
  shows "activated S (hl_host_instance_id l) (lease_record l g) S"
  using assms by (simp add: activated_def evolves.same)

lemma current_live:
  assumes "store_ok S" and "current_activation S = Some (l, g)"
  obtains ps where "host_pairs S = ps @ [(g, l)]" and "\<not> ended (g, l)" and "joined l g"
  using current_activation_snoc [OF assms] current_activation_in(3) [OF assms(2)]
  by (auto simp: live_pair_def ended_def)

lemma activation_activated:
  assumes "activate_runtime_host X root auth host now S = Inr (r, T)" and "store_ok S"
  shows "activated S host r T"
proof -
  obtain sroot where guard: "activation_guard root auth host now = Inr sroot"
    and now: "positive now \<and> \<not> blank host"
    using assms(1) by (auto simp: activate_runtime_host_def activation_guard_def split: if_splits)
  show ?thesis
  proof (cases "current_activation S")
    case None
    then show ?thesis
      using start_activated [OF assms(2) current_activation_None [OF assms(2) None] evolves.same now]
        assms(1) guard by (simp add: activate_runtime_host_def)
  next
    case (Some lg)
    obtain l g where lg: "current_activation S = Some (l, g)" using Some by (cases lg) simp
    obtain ps where ps: "host_pairs S = ps @ [(g, l)]" and live: "\<not> ended (g, l)" "joined l g"
      by (rule current_live [OF assms(2) lg])
    show ?thesis
    proof (cases "hl_host_instance_id l = host")
      case True
      then have "T = S \<and> r = lease_record l g"
        using assms guard lg ensure_existing_state [OF assms(2)] ps
        by (auto simp: activate_runtime_host_def split: if_splits)
      then show ?thesis
        using replay_activated [OF assms(2) ps live] True by simp
    next
      case False
      let ?P = "\<lambda>m. rl_lease_id m = rl_lease_id l"
      let ?Q = "\<lambda>h. hg_generation h = hl_generation l"
      have pq: "?P (snd (g, l))" "?Q (fst (g, l))" using live by (simp_all add: joined_def)
      let ?U = "end_generation ?Q now ''gateway_lock_takeover'' (end_lease ?P now S)"
      have "evolves (host_pairs S) (host_pairs ?U) \<and> store_ok ?U \<and> closed ?U"
        by (rule ended_evolves [where P = ?P and Q = ?Q, OF ps assms(2) live(1) pq])
      moreover have "start_generation X auth sroot host now ?U = Inr (r, T)"
        using assms(1) guard lg False by (simp add: activate_runtime_host_def)
      ultimately show ?thesis
        using start_activated [of ?U S now] now by blast
    qed
  qed
qed

lemma host_pairs_other [simp]:
  "host_pairs (S\<lparr>rt_states := ss\<rparr>) = host_pairs S"
  "host_pairs (S\<lparr>rt_settings := rs\<rparr>) = host_pairs S"
  "host_pairs (S\<lparr>wt_delegations := d, wt_continuations := c, wt_effects := e\<rparr>) = host_pairs S"
  by (simp_all add: host_pairs_def)

lemma store_ok_other [simp]:
  "store_ok (S\<lparr>rt_settings := rs\<rparr>) \<longleftrightarrow> store_ok S"
  "store_ok (S\<lparr>wt_delegations := d, wt_continuations := c, wt_effects := e\<rparr>) \<longleftrightarrow> store_ok S"
  "store_ok S \<Longrightarrow> store_ok (S\<lparr>rt_states := ss\<rparr>) \<longleftrightarrow> states_ok (host_pairs S) ss"
  by (simp_all add: store_ok_def)

abbreviation set_actual :: "RuntimeActualState \<Rightarrow> i64 \<Rightarrow> runtime_state_row \<Rightarrow> runtime_state_row" where
  "set_actual st now s \<equiv> s\<lparr>rs_actual_state := st, rs_updated_at := now\<rparr>"

lemma states_ok_update:
  assumes "states_ok ps ss" and "st \<noteq> Stopped \<or> (\<forall>p \<in> set ps. ended p)"
  shows "states_ok ps (update_rows P (set_actual st now) ss)"
proof -
  have k: "map state_key (update_rows P (set_actual st now) ss) = map state_key ss"
    by (simp add: update_rows_def state_key_def comp_def if_distrib cong: if_cong)
  then have "state_key ` set (update_rows P (set_actual st now) ss) = state_key ` set ss"
    by (metis list.set_map)
  moreover have "state_key ` set ss \<subseteq> pair_key ` set ps"
    using assms(1) by (auto simp: states_ok_def)
  ultimately have "\<forall>s \<in> set (update_rows P (set_actual st now) ss). state_key s \<in> pair_key ` set ps"
    by blast
  moreover have "state_for (update_rows P (set_actual st now) ss) p" if p: "p \<in> set ps" for p
  proof -
    obtain s where s: "s \<in> set ss" "state_key s = pair_key p"
        "rs_state_root_generation s = hg_state_root_generation (fst p)"
        "ended p \<or> rs_actual_state s \<noteq> Stopped"
      using assms(1) p by (auto simp: states_ok_def state_for_def)
    let ?s = "if P s then set_actual st now s else s"
    have "?s \<in> set (update_rows P (set_actual st now) ss)"
      using s(1) by (simp add: update_rows_def)
    then show ?thesis
      using s(2-4) assms(2) p unfolding state_for_def
      by (intro bexI [of _ ?s]) (auto simp: state_key_def)
  qed
  ultimately show ?thesis
    using assms(1) k by (simp add: states_ok_def)
qed

lemma require_current_last:
  assumes "store_ok S" and "require_current_runtime_host h now S = Inr u"
  shows "\<exists>ps g l. host_pairs S = ps @ [(g, l)] \<and> \<not> ended (g, l) \<and> joined l g \<and> h = lease_record l g"
proof -
  obtain l g where l: "l \<in> set (rt_leases S)" and g: "g \<in> set (rt_generations S)"
    and j: "joined l g" "hl_ownership_scope l = ''execass''" "hl_released_at l = None" "rg_ended_at g = None"
    and h: "h = lease_record l g"
    using assms(2)
    by (auto simp: require_current_runtime_host_def list_ex_iff lease_record_def split: if_splits)
  obtain m where m: "(g, m) \<in> set (host_pairs S)"
    using g rows_of_pairs(1) [OF assms(1)] by (metis imageE list.set_map prod.collapse)
  obtain k where k: "(k, l) \<in> set (host_pairs S)"
    using l rows_of_pairs(2) [OF assms(1)] by (metis imageE list.set_map prod.collapse)
  have ok: "hosts_ok (host_pairs S)" using assms(1) by (simp add: store_ok_def)
  then have "live_pair l g"
    using j m by (auto simp: live_pair_def hosts_ok_def pair_ok_def)
  then show ?thesis
    using live_pair_last [OF ok m k] j h by (auto simp: ended_def)
qed

lemma closed_other [simp]:
  "closed (S\<lparr>rt_states := ss\<rparr>) \<longleftrightarrow> closed S"
  by (simp add: closed_def)

lemma end_after_states:
  "end_generation Q now reason (end_lease P now (S\<lparr>rt_states := ss\<rparr>))
   = (end_generation Q now reason (end_lease P now S))\<lparr>rt_states := ss\<rparr>"
  by (simp add: end_generation_def end_lease_def)

lemma rt_states_end [simp]: "rt_states (end_generation Q now reason (end_lease P now S)) = rt_states S"
  by (simp add: end_generation_def end_lease_def)

lemma transition_evolves:
  assumes "transition_runtime_host h tr now S = Inr (outcome, T)" and "store_ok S"
  shows "store_ok T \<and> evolves (host_pairs S) (host_pairs T)"
proof -
  obtain ps g l where ps: "host_pairs S = ps @ [(g, l)]" and live: "\<not> ended (g, l)" "joined l g"
    and h: "h = lease_record l g"
    using assms require_current_last [of S h now]
    by (auto simp: transition_runtime_host_def split: if_splits)
  let ?at = "\<lambda>s. state_key s = host_key h
      \<and> rs_state_root_generation s = hr_state_root_generation h \<and> \<not> later (rs_updated_at s) now"
  let ?P = "\<lambda>l. rl_lease_id l = hr_lease_id h \<and> hl_ownership_scope l = ''execass''
      \<and> hl_generation l = hr_generation h \<and> hl_host_instance_id l = hr_host_instance_id h
      \<and> hl_fencing_token l = hr_fencing_token h"
  let ?Q = "\<lambda>g. hg_generation g = hr_generation h \<and> hg_host_instance_id g = hr_host_instance_id h"
  have ss: "states_ok (host_pairs S) (rt_states S)" using assms(2) by (simp add: store_ok_def)
  have pq: "?P (snd (g, l))" "?Q (fst (g, l))"
    using assms(2) ps live by (auto simp: store_ok_def hosts_ok_snoc pair_ok_def h lease_record_def joined_def)
  obtain target where T: "target \<noteq> Stopped \<and> T = S\<lparr>rt_states := update_rows ?at (set_actual target now) (rt_states S)\<rparr>
      \<or> target = Stopped \<and> T = end_generation ?Q now ''host_state_stopped'' (end_lease ?P now
          (S\<lparr>rt_states := update_rows ?at (set_actual target now) (rt_states S)\<rparr>))"
    using assms(1) by (auto simp: transition_runtime_host_def Let_def split: if_splits)
  then show ?thesis
  proof (elim disjE conjE)
    assume "target \<noteq> Stopped" and "T = S\<lparr>rt_states := update_rows ?at (set_actual target now) (rt_states S)\<rparr>"
    then show ?thesis
      using assms(2) states_ok_update [OF ss, of target] by (simp add: evolves.same)
  next
    assume "target = Stopped" and T: "T = end_generation ?Q now ''host_state_stopped'' (end_lease ?P now
          (S\<lparr>rt_states := update_rows ?at (set_actual target now) (rt_states S)\<rparr>))"
    have e: "evolves (host_pairs S) (host_pairs (end_generation ?Q now ''host_state_stopped'' (end_lease ?P now S)))
        \<and> store_ok (end_generation ?Q now ''host_state_stopped'' (end_lease ?P now S))
        \<and> closed (end_generation ?Q now ''host_state_stopped'' (end_lease ?P now S))"
      using ended_evolves [where P = ?P and Q = ?Q, OF ps assms(2) live(1) pq] .
    then have "states_ok (host_pairs (end_generation ?Q now ''host_state_stopped'' (end_lease ?P now S)))
        (update_rows ?at (set_actual target now) (rt_states S))"
      by (intro states_ok_update) (auto simp: store_ok_def closed_def)
    then show ?thesis
      unfolding T end_after_states using e by simp
  qed
qed

lemma interrupt_evolves:
  assumes "interrupt_predecessor (lease_record l g) st reason now S = Inr U" and "store_ok S"
    and "host_pairs S = ps @ [(g, l)]" and "\<not> ended (g, l)" and "joined l g"
  shows "evolves (host_pairs S) (host_pairs U) \<and> store_ok U \<and> closed U"
proof -
  let ?h = "lease_record l g"
  let ?at = "\<lambda>s. state_key s = host_key ?h \<and> rs_actual_state s = rs_actual_state st
      \<and> \<not> later (rs_updated_at s) now"
  let ?P = "\<lambda>l. rl_lease_id l = hr_lease_id ?h \<and> hl_generation l = hr_generation ?h
      \<and> hl_host_instance_id l = hr_host_instance_id ?h \<and> hl_fencing_token l = hr_fencing_token ?h"
  let ?Q = "\<lambda>g. hg_generation g = hr_generation ?h \<and> hg_host_instance_id g = hr_host_instance_id ?h"
  let ?ss = "if rs_actual_state st \<noteq> Faulted then update_rows ?at (set_actual Faulted now) (rt_states S)
      else rt_states S"
  have U: "U = end_generation ?Q now reason (end_lease ?P now (S\<lparr>rt_states := ?ss\<rparr>))"
    using assms(1) by (auto simp: interrupt_predecessor_def Let_def split: if_splits)
  have "states_ok (host_pairs S) ?ss"
    using assms(2) by (simp add: store_ok_def states_ok_update)
  then have ok: "store_ok (S\<lparr>rt_states := ?ss\<rparr>)" using assms(2) by simp
  have pq: "?P (snd (g, l))" "?Q (fst (g, l))"
    using assms(5) by (simp_all add: lease_record_def joined_def)
  have "host_pairs (S\<lparr>rt_states := ?ss\<rparr>) = ps @ [(g, l)]" using assms(3) by simp
  then show ?thesis
    using ended_evolves [where P = ?P and Q = ?Q, OF _ ok assms(4) pq] unfolding U by simp
qed

lemma recovery_activated:
  assumes "activate_runtime_host_with_recovery X rx root auth host now S = Inr (m, T)" and "store_ok S"
  shows "activated S host (mutation_value m) T"
proof -
  obtain sroot where guard: "activation_guard root auth host now = Inr sroot"
    and now: "positive now \<and> \<not> blank host"
    using assms(1)
    by (auto simp: activate_runtime_host_with_recovery_def activation_guard_def split: if_splits)
  show ?thesis
  proof (cases "current_activation S")
    case None
    then obtain r where "start_generation X auth sroot host now S = Inr (r, T)" "m = NoAppend r"
      using assms(1) guard by (auto simp: activate_runtime_host_with_recovery_def)
    then show ?thesis
      using start_activated [OF assms(2) current_activation_None [OF assms(2) None] evolves.same now]
      by simp
  next
    case (Some lg)
    obtain l g where lg: "current_activation S = Some (l, g)" using Some by (cases lg) simp
    obtain ps where ps: "host_pairs S = ps @ [(g, l)]" and live: "\<not> ended (g, l)" "joined l g"
      by (rule current_live [OF assms(2) lg])
    show ?thesis
    proof (cases "hl_host_instance_id l = host")
      case True
      then have "T = S \<and> m = NoAppend (lease_record l g)"
        using assms guard lg ensure_existing_state [OF assms(2)] ps
        by (auto simp: activate_runtime_host_with_recovery_def split: if_splits)
      then show ?thesis
        using replay_activated [OF assms(2) ps live] True by simp
    next
      case False
      obtain st reason U r where
        U: "interrupt_predecessor (lease_record l g) st reason now S = Inr U" and
        r: "start_generation X auth sroot host now U = Inr (r, T)" "mutation_value m = r"
        using assms(1) guard lg False
        by (auto simp: activate_runtime_host_with_recovery_def Let_def)
      then show ?thesis
        using start_activated [OF _ _ _ now r(1)] interrupt_evolves [OF U assms(2) ps live] by simp
    qed
  qed
qed

text \<open>The committed transactions on the host tables, interleaved with changes of the settings and
  work tables by other components.\<close>

inductive host_step :: "externals \<Rightarrow> string \<Rightarrow> runtime_store \<Rightarrow> runtime_store \<Rightarrow> bool"
  for X root where
  activate: "activate_runtime_host X root auth host now S = Inr (r, T) \<Longrightarrow> host_step X root S T"
| recover: "activate_runtime_host_with_recovery X rx root auth host now S = Inr (m, T) \<Longrightarrow> host_step X root S T"
| transition: "transition_runtime_host h tr now S = Inr (outcome, T) \<Longrightarrow> host_step X root S T"
| configure: "host_step X root S (S\<lparr>rt_settings := rs\<rparr>)"
| work: "host_step X root S (S\<lparr>wt_delegations := d, wt_continuations := c, wt_effects := e\<rparr>)"

inductive_cases host_stepE: "host_step X root S T"

inductive host_run :: "externals \<Rightarrow> string \<Rightarrow> runtime_store \<Rightarrow> runtime_store \<Rightarrow> bool"
  for X root where
  refl: "host_run X root S S"
| step: "host_run X root S T \<Longrightarrow> host_step X root T U \<Longrightarrow> host_run X root S U"

definition empty_store :: runtime_store where
  "empty_store = \<lparr>wt_delegations = [], wt_continuations = [], wt_effects = [], rt_generations = [],
     rt_leases = [], rt_states = [], rt_settings = []\<rparr>"

lemma store_ok_empty: "store_ok empty_store"
  by (simp add: empty_store_def store_ok_def host_pairs_def hosts_ok_def states_ok_def)

lemma host_step_ok:
  assumes "host_step X root S T" and "store_ok S"
  shows "store_ok T \<and> evolves (host_pairs S) (host_pairs T)"
  using assms
  by (cases rule: host_step.cases)
     (auto dest: activation_activated recovery_activated transition_evolves
       simp: activated_def intro: evolves.same)

lemma host_run_ok:
  assumes "host_run X root S T" and "store_ok S"
  shows "store_ok T"
  using assms by induction (auto dest: host_step_ok)

lemma host_run_pair:
  assumes "host_run X root S T" and "store_ok S" and "p \<in> set (host_pairs S)"
  shows "\<exists>q \<in> set (host_pairs T). hg_generation (fst q) = hg_generation (fst p) \<and> (ended p \<longrightarrow> ended q)"
  using assms
proof induction
  case (step S T U)
  have "store_ok T" by (rule host_run_ok [OF step.hyps(1) step.prems(1)])
  then have "evolves (host_pairs T) (host_pairs U)" using step.hyps(2) host_step_ok by blast
  then show ?case
    using step.IH [OF step.prems] evolves_pair by metis
qed auto

lemma fenced_out:
  assumes "store_ok S" and "p \<in> set (host_pairs S)" and "ended p"
    and "hr_generation h = hg_generation (fst p)"
  shows "\<not> is_ok (transition_runtime_host h tr now S)"
proof
  assume "is_ok (transition_runtime_host h tr now S)"
  then have "require_current_runtime_host h now S = Inr ()"
    by (cases "require_current_runtime_host h now S")
       (auto simp: transition_runtime_host_def split: if_splits)
  then obtain ps g l where ps: "host_pairs S = ps @ [(g, l)]" "\<not> ended (g, l)" "joined l g"
      "h = lease_record l g"
    using require_current_last [OF assms(1)] by blast
  then have "p \<in> set ps" using assms(2,3) by auto
  then have "older p (g, l)"
    using assms(1) ps(1) by (auto simp: store_ok_def hosts_ok_snoc)
  then have "hg_generation (fst p) \<noteq> hg_generation g"
    using older_generation by fastforce
  then show False
    using assms(4) ps(3,4) by (simp add: lease_record_def joined_def)
qed

subsection \<open>One live host\<close>

lemma sorted_wrt_map_older:
  assumes "store_ok S"
  shows "sorted_wrt (\<lambda>g h. later (hg_generation h) (hg_generation g)) (rt_generations S)"
    and "sorted_wrt (\<lambda>l m. later (hl_fencing_token m) (hl_fencing_token l)) (rt_leases S)"
proof -
  have "sorted_wrt older (host_pairs S)" using assms by (simp add: store_ok_def hosts_ok_def)
  then show "sorted_wrt (\<lambda>g h. later (hg_generation h) (hg_generation g)) (rt_generations S)"
    and "sorted_wrt (\<lambda>l m. later (hl_fencing_token m) (hl_fencing_token l)) (rt_leases S)"
    unfolding rows_of_pairs [OF assms] sorted_wrt_map
    by (auto elim!: sorted_wrt_mono_rel [rotated] simp: older_def)
qed

lemma live_lease_last:
  assumes "store_ok S" and "l \<in> set (rt_leases S)" and "hl_released_at l = None"
  shows "\<exists>ps g. host_pairs S = ps @ [(g, l)] \<and> \<not> ended (g, l)"
proof -
  obtain g where p: "(g, l) \<in> set (host_pairs S)"
    using assms(2) rows_of_pairs(2) [OF assms(1)] by (metis imageE list.set_map prod.collapse)
  have ok: "hosts_ok (host_pairs S)" using assms(1) by (simp add: store_ok_def)
  then have "live_pair l g" "\<not> ended (g, l)"
    using p assms(3) by (auto simp: hosts_ok_def pair_ok_def live_pair_def ended_def)
  then show ?thesis using live_pair_last [OF ok p p] by blast
qed

lemma one_live_lease:
  assumes "store_ok S"
  shows "length (filter (\<lambda>l. hl_released_at l = None) (rt_leases S)) \<le> 1"
proof (cases "host_pairs S" rule: rev_cases)
  case Nil
  then show ?thesis using rows_of_pairs(2) [OF assms] by simp
next
  case (snoc ps p)
  then have "\<forall>q \<in> set ps. hl_released_at (snd q) \<noteq> None"
    using assms by (auto simp: store_ok_def hosts_ok_snoc pair_ok_def)
  then have "filter (\<lambda>l. hl_released_at l = None) (map snd ps) = []"
    by (simp add: filter_empty_conv)
  then show ?thesis
    using rows_of_pairs(2) [OF assms] snoc by simp
qed

lemma current_of_last:
  assumes "store_ok S" and "host_pairs S = ps @ [(g, l)]" and "\<not> ended (g, l)"
  shows "current_activation S = Some (l, g)"
proof -
  have "live_pair l g"
    using assms by (auto simp: store_ok_def hosts_ok_snoc pair_ok_def live_pair_def ended_def)
  moreover have "l \<in> set (rt_leases S)" "g \<in> set (rt_generations S)"
    using rows_of_pairs [OF assms(1)] assms(2) by simp_all
  ultimately have "current_activation S \<noteq> None"
    unfolding current_activation_none_iff by blast
  then obtain m h where "current_activation S = Some (m, h)" by auto
  with current_activation_snoc [OF assms(1) this] assms(2) show ?thesis by simp
qed

text \<open>C5: over every history, generations and fencing tokens strictly increase in the order the
  hosts were activated, and at most one lease is live: whatever activations, recoveries, transitions
  and unrelated writes are interleaved, two hosts never hold the state root together.\<close>

theorem single_live_host:
  assumes "host_run X root empty_store S"
  shows "sorted_wrt (\<lambda>g h. later (hg_generation h) (hg_generation g)) (rt_generations S)
    \<and> sorted_wrt (\<lambda>l m. later (hl_fencing_token m) (hl_fencing_token l)) (rt_leases S)
    \<and> length (filter (\<lambda>l. hl_released_at l = None) (rt_leases S)) \<le> 1"
  using host_run_ok [OF assms store_ok_empty] sorted_wrt_map_older one_live_lease by blast

lemma superseded_pair_ended:
  assumes "host_run X root empty_store S" and "current_activation S = Some (l, g)"
    and "host \<noteq> hl_host_instance_id l"
    and "activate_runtime_host X root auth host now S = Inr (r, T)
      \<or> (\<exists>m. activate_runtime_host_with_recovery X rx root auth host now S = Inr (m, T))"
    and "host_run X root T U"
  shows "\<exists>p \<in> set (host_pairs U). hg_generation (fst p) = hg_generation g \<and> ended p
    \<and> store_ok U \<and> joined l g"
proof -
  have S: "store_ok S" by (rule host_run_ok [OF assms(1) store_ok_empty])
  obtain ps where ps: "host_pairs S = ps @ [(g, l)]" and j: "joined l g"
    by (rule current_live [OF S assms(2)])
  obtain r' where T: "activated S host r' T"
    using assms(4) activation_activated [OF _ S] recovery_activated [OF _ S] by blast
  then obtain qs h m where qs: "host_pairs T = qs @ [(h, m)]" "joined m h" "hl_host_instance_id m = host"
    and ok: "store_ok T" and e: "evolves (host_pairs S) (host_pairs T)"
    by (auto simp: activated_def)
  obtain q where q: "q \<in> set (host_pairs T)" "hg_generation (fst q) = hg_generation g"
      "hg_host_instance_id (fst q) = hg_host_instance_id g"
    using evolves_identity [OF e, of "(g, l)"] ps by auto
  then have "q \<in> set qs"
    using qs assms(3) j by (auto simp: joined_def)
  then have "ended q" using ok qs(1) by (auto simp: store_ok_def hosts_ok_snoc)
  then show ?thesis
    using host_run_pair [OF assms(5) ok q(1)] q(2) j host_run_ok [OF assms(5) ok] by auto
qed

text \<open>C3: a superseded host writes no more. Once another host has been activated over it, by a plain
  or a recovering activation, every transition the old host attempts with its lease record is
  refused, at any later time and after any further history.\<close>

theorem superseded_host_fenced:
  assumes "host_run X root empty_store S" and "current_activation S = Some (l, g)"
    and "host \<noteq> hl_host_instance_id l"
    and "activate_runtime_host X root auth host now S = Inr (r, T)
      \<or> (\<exists>m. activate_runtime_host_with_recovery X rx root auth host now S = Inr (m, T))"
    and "host_run X root T U"
  shows "\<not> is_ok (transition_runtime_host (lease_record l g) tr later_now U)"
proof -
  obtain p where "p \<in> set (host_pairs U)" "hg_generation (fst p) = hg_generation g" "ended p"
    and U: "store_ok U" and j: "joined l g"
    using superseded_pair_ended [OF assms] by blast
  then show ?thesis
    using fenced_out [OF U] by (simp add: lease_record_def joined_def)
qed

subsection \<open>A takeover is never blocked\<close>

lemma one_row:
  assumes "distinct (map f xs)" and "x \<in> set xs" and "P x" and "\<And>y. P y \<Longrightarrow> f y = f x"
  shows "changed_rows P xs = 1"
proof -
  have "filter P xs = [x]"
    using assms
  proof (induction xs)
    case (Cons a xs)
    show ?case
    proof (cases "a = x")
      case True
      then have "f x \<notin> f ` set xs" using Cons.prems(1) by simp
      then have "\<forall>y \<in> set xs. \<not> P y" using Cons.prems(4) by (metis imageI)
      then show ?thesis using True Cons.prems(3) by (simp add: filter_empty_conv)
    next
      case False
      then have "f a \<noteq> f x" using Cons.prems(1,2) by auto
      then have "\<not> P a" using Cons.prems(4) by blast
      moreover have "filter P xs = [x]"
        by (rule Cons.IH [OF _ _ Cons.prems(3,4)]) (use Cons.prems(1,2) False in auto)
      ultimately show ?thesis by simp
    qed
  qed simp
  then show ?thesis by (simp add: changed_rows_def)
qed

lemma sorted_wrt_distinct:
  assumes "sorted_wrt R xs" and "\<And>x y. R x y \<Longrightarrow> f x \<noteq> f y"
  shows "distinct (map f xs)"
  using assms(1) by (induction xs) (auto dest: assms(2))

lemma distinct_hosts:
  assumes "store_ok S"
  shows "distinct (map hg_generation (rt_generations S))" "distinct (map rl_lease_id (rt_leases S))"
proof -
  have "sorted_wrt older (host_pairs S)" using assms by (simp add: store_ok_def hosts_ok_def)
  then have "distinct (map (hg_generation \<circ> fst) (host_pairs S))"
      "distinct (map (rl_lease_id \<circ> snd) (host_pairs S))"
    by (auto intro!: sorted_wrt_distinct simp: older_def)
  then show "distinct (map hg_generation (rt_generations S))" "distinct (map rl_lease_id (rt_leases S))"
    by (simp_all add: rows_of_pairs [OF assms])
qed

lemma live_state:
  assumes "store_ok S" and "(g, l) \<in> set (host_pairs S)" and "\<not> ended (g, l)"
  shows "\<exists>st \<in> set (rt_states S). load_runtime_host_state (lease_record l g) S = Some st
    \<and> rs_actual_state st \<noteq> Stopped \<and> state_key st = host_key (lease_record l g)"
proof -
  let ?h = "lease_record l g"
  have j: "joined l g" using assms(1,2) by (auto simp: store_ok_def hosts_ok_def pair_ok_def)
  obtain s where s: "s \<in> set (rt_states S)" "state_key s = host_key ?h"
      "rs_state_root_generation s = hr_state_root_generation ?h" "rs_actual_state s \<noteq> Stopped"
    using assms host_key_pair [OF j]
    by (auto simp: store_ok_def states_ok_def state_for_def lease_record_def)
  then obtain t where t: "load_runtime_host_state ?h S = Some t" "t \<in> set (rt_states S)"
      "state_key t = host_key ?h"
    unfolding load_runtime_host_state_def
    by (cases "find (\<lambda>s. state_key s = host_key ?h
          \<and> rs_state_root_generation s = hr_state_root_generation ?h) (rt_states S)")
       (auto simp: find_None_iff find_Some_iff)
  have "distinct (map state_key (rt_states S))" using assms(1) by (simp add: store_ok_def states_ok_def)
  then have "t = s" using s(1,2) t(2,3) by (metis distinct_map inj_on_eq_iff)
  then show ?thesis using s t by blast
qed

definition can_start :: "externals \<Rightarrow> string \<Rightarrow> i64 \<Rightarrow> runtime_store \<Rightarrow> bool" where
  "can_start X host now S \<longleftrightarrow> host \<notin> set (map hg_host_instance_id (rt_generations S))
     \<and> later (word_of_int i64_max) now
     \<and> coalesced_max (map hg_generation (rt_generations S)) < i64_max
     \<and> coalesced_max (map hl_fencing_token (rt_leases S)) < i64_max
     \<and> (\<forall>generation token. runtime_lease_id X host generation token \<notin> set (map rl_lease_id (rt_leases S)))"

lemma start_generation_ok:
  assumes "store_ok S" and "closed S" and "can_start X host now S" and "positive sroot"
  shows "\<exists>r T. start_generation X auth sroot host now S = Inr (r, T)
    \<and> wt_delegations T = wt_delegations S \<and> wt_continuations T = wt_continuations S
    \<and> wt_effects T = wt_effects S"
proof -
  obtain generation token where gen: "next_number (map hg_generation (rt_generations S)) = Inr generation"
    and tok: "next_number (map hl_fencing_token (rt_leases S)) = Inr token"
    using assms(3) by (auto simp: can_start_def next_number_def)
  have g: "generation \<notin> hg_generation ` set (rt_generations S)"
    using next_number_later [OF gen] by fastforce
  have t: "\<And>m. m \<in> set (rt_leases S) \<Longrightarrow> hl_fencing_token m \<noteq> token"
    using next_number_later [OF tok] by fastforce
  have "positive token"
    by (rule next_number_positive [OF tok positive_numbers(2) [OF assms(1)]])
  moreover have "\<forall>m \<in> set (rt_leases S). hl_released_at m \<noteq> None"
    using assms(1,2) rows_of_pairs(2) [OF assms(1)]
    by (auto simp: closed_def store_ok_def hosts_ok_def pair_ok_def)
  ultimately show ?thesis
    using assms(3,4) g t
    by (auto simp: start_generation_def Let_def gen tok can_start_def insert_generation_def
        insert_lease_def joined_def lease_key_def ensure_runtime_host_state_def lease_record_def
        list_ex_iff image_iff)
qed

lemma update_rows_column: "(\<And>r. f (u r) = f r) \<Longrightarrow> map f (update_rows p u rs) = map f rs"
  by (simp add: update_rows_def)

lemma ended_columns [simp]:
  "map hg_host_instance_id (rt_generations (end_generation Q now reason (end_lease P now S)))
   = map hg_host_instance_id (rt_generations S)"
  "map hg_generation (rt_generations (end_generation Q now reason (end_lease P now S)))
   = map hg_generation (rt_generations S)"
  "map hl_fencing_token (rt_leases (end_generation Q now reason (end_lease P now S)))
   = map hl_fencing_token (rt_leases S)"
  "map rl_lease_id (rt_leases (end_generation Q now reason (end_lease P now S)))
   = map rl_lease_id (rt_leases S)"
  "wt_delegations (end_generation Q now reason (end_lease P now S)) = wt_delegations S"
  "wt_continuations (end_generation Q now reason (end_lease P now S)) = wt_continuations S"
  "wt_effects (end_generation Q now reason (end_lease P now S)) = wt_effects S"
  by (simp_all add: end_generation_def end_lease_def update_rows_column del: map_eq_conv)

definition clocks_behind :: "i64 \<Rightarrow> runtime_store \<Rightarrow> bool" where
  "clocks_behind now S \<longleftrightarrow> (\<forall>s \<in> set (rt_states S). \<not> later (rs_updated_at s) now)"

lemma interrupt_ok:
  assumes "store_ok S" and "host_pairs S = ps @ [(g, l)]" and "\<not> ended (g, l)" and "joined l g"
    and "clocks_behind now S" and "st \<in> set (rt_states S)" and "state_key st = host_key (lease_record l g)"
  shows "\<exists>U. interrupt_predecessor (lease_record l g) st reason now S = Inr U
    \<and> map hg_host_instance_id (rt_generations U) = map hg_host_instance_id (rt_generations S)
    \<and> map hg_generation (rt_generations U) = map hg_generation (rt_generations S)
    \<and> map hl_fencing_token (rt_leases U) = map hl_fencing_token (rt_leases S)
    \<and> map rl_lease_id (rt_leases U) = map rl_lease_id (rt_leases S)
    \<and> wt_delegations U = wt_delegations S \<and> wt_continuations U = wt_continuations S
    \<and> wt_effects U = wt_effects S"
proof -
  let ?h = "lease_record l g"
  have in_rows: "l \<in> set (rt_leases S)" "g \<in> set (rt_generations S)"
    using rows_of_pairs [OF assms(1)] assms(2) by simp_all
  have released: "hl_released_at l = None" "rg_ended_at g = None"
    using assms(1-3) by (auto simp: store_ok_def hosts_ok_snoc pair_ok_def ended_def)
  have "distinct (map state_key (rt_states S))" using assms(1) by (simp add: store_ok_def states_ok_def)
  then have "changed_rows (\<lambda>s. state_key s = host_key ?h \<and> rs_actual_state s = rs_actual_state st
      \<and> \<not> later (rs_updated_at s) now) (rt_states S) = 1"
    using assms(5-7) by (intro one_row [of state_key]) (auto simp: clocks_behind_def)
  moreover have "changed_rows (\<lambda>m. (rl_lease_id m = hr_lease_id ?h \<and> hl_generation m = hr_generation ?h
      \<and> hl_host_instance_id m = hr_host_instance_id ?h \<and> hl_fencing_token m = hr_fencing_token ?h)
      \<and> hl_released_at m = None) (rt_leases S) = 1"
    using distinct_hosts(2) [OF assms(1)] in_rows(1) released(1)
    by (intro one_row [of rl_lease_id]) (auto simp: lease_record_def)
  moreover have "changed_rows (\<lambda>h. (hg_generation h = hr_generation ?h
      \<and> hg_host_instance_id h = hr_host_instance_id ?h) \<and> rg_ended_at h = None) (rt_generations S) = 1"
    using distinct_hosts(1) [OF assms(1)] in_rows(2) released(2) assms(4)
    by (intro one_row [of hg_generation]) (auto simp: lease_record_def joined_def)
  ultimately show ?thesis
    by (simp add: interrupt_predecessor_def Let_def)
qed

text \<open>A takeover never fails on the host tables: the predecessor's state is there and not stopped, each
  fenced update finds its one row, and the next generation, lease and state are inserted.\<close>

lemma takeover_tables:
  assumes "store_ok S" and "current_activation S = Some (l, g)" and "can_start X host now S"
    and "positive sroot" and "clocks_behind now S" and "length (active_rows S) < 2 ^ 63"
  shows "\<exists>st reason U r T work digest. hl_host_instance_id l \<noteq> host
    \<and> load_runtime_host_state (lease_record l g) S = Some st
    \<and> takeover_end_reason (rs_actual_state st) = Inr reason
    \<and> interrupt_predecessor (lease_record l g) st reason now S = Inr U
    \<and> start_generation X auth sroot host now U = Inr (r, T)
    \<and> load_active_work_snapshot X T = Some (work, digest)"
proof -
  obtain ps where ps: "host_pairs S = ps @ [(g, l)]" and live: "\<not> ended (g, l)" "joined l g"
    by (rule current_live [OF assms(1,2)])
  have "g \<in> set (rt_generations S)" using rows_of_pairs(1) [OF assms(1)] ps by simp
  then have other: "hl_host_instance_id l \<noteq> host"
    using assms(3) live(2) by (force simp: can_start_def joined_def)
  obtain st where st: "st \<in> set (rt_states S)" "load_runtime_host_state (lease_record l g) S = Some st"
      "rs_actual_state st \<noteq> Stopped" "state_key st = host_key (lease_record l g)"
    using live_state [OF assms(1) _ live(1)] ps by auto
  then obtain reason where reason: "takeover_end_reason (rs_actual_state st) = Inr reason"
    by (cases "rs_actual_state st") (auto simp: takeover_end_reason_def)
  obtain U where U: "interrupt_predecessor (lease_record l g) st reason now S = Inr U"
    and same: "map hg_host_instance_id (rt_generations U) = map hg_host_instance_id (rt_generations S)"
      "map hg_generation (rt_generations U) = map hg_generation (rt_generations S)"
      "map hl_fencing_token (rt_leases U) = map hl_fencing_token (rt_leases S)"
      "map rl_lease_id (rt_leases U) = map rl_lease_id (rt_leases S)"
      "wt_delegations U = wt_delegations S" "wt_continuations U = wt_continuations S"
      "wt_effects U = wt_effects S"
    using interrupt_ok [OF assms(1) ps live assms(5) st(1,4)] by blast
  have "store_ok U" "closed U" using interrupt_evolves [OF U assms(1) ps live] by simp_all
  moreover have "can_start X host now U"
    using assms(3) unfolding can_start_def same .
  ultimately obtain r T where T: "start_generation X auth sroot host now U = Inr (r, T)"
      "active_rows T = active_rows S"
    using start_generation_ok [of U X host now sroot auth] assms(4) same
    by (auto simp: active_rows_def)
  then obtain work digest where "load_active_work_snapshot X T = Some (work, digest)"
    using active_work_status_rows [of T] assms(6) by (auto simp: load_active_work_snapshot_def)
  then show ?thesis using other st(2) reason U T(1) by blast
qed

text \<open>The attention item of a takeover passes the checks of the code; the table alone can refuse it.\<close>

lemma recovery_attention_canonical:
  assumes "\<And>b. length (sha256 X b) = 32" and "json_from_str X ''[]'' = Some (JArray [])"
    and "pair_ok (g, l)" and "positive now" and "takeover_end_reason st = Inr reason"
    and "load_active_work_snapshot X T = Some (work, digest)"
  shows "insert_runtime_paused_attention_in_tx X rx
       (recovery_attention X (lease_record l g) st reason digest now)
     = (if rx_takes_attention rx (recovery_attention X (lease_record l g) st reason digest now)
        then Inr () else Inl AttentionRefused)"
proof -
  have st: "st \<in> {Starting, RunningAppBound, Handoff, RunningBackground, Draining, Faulted}"
      and reason: "\<not> blank reason"
    using assms(5) by (cases st; auto simp: takeover_end_reason_def)+
  have digest: "\<exists>bs. digest = ''sha256:'' @ hex_encode bs \<and> length bs = 32"
    using assms(1,6) by (auto simp: load_active_work_snapshot_def active_work_binding_digest_def
        sha256_hex_def)
  then have "length digest = 71" "take 7 digest = ''sha256:''" "list_all is_lower_hex_digit (drop 7 digest)"
    using hex_encode_lower by auto
  moreover have "positive (hl_generation l)" "positive (hl_fencing_token l)"
      "\<not> blank (hl_host_instance_id l)"
    using assms(3) by (auto simp: pair_ok_def joined_def)
  ultimately show ?thesis
    using assms(2,4) st reason
    by (simp add: insert_runtime_paused_attention_in_tx_def recovery_attention_def lease_record_def
        Let_def)
qed

text \<open>What can refuse the record keeping, with the error each refusal is.\<close>

definition keeping_refused :: "receipt_context \<Rightarrow> HostError \<Rightarrow> bool" where
  "keeping_refused rx e \<longleftrightarrow> (case e of
       OutboxRefused \<Rightarrow> \<exists>event. \<not> rx_takes_event rx event
     | AttentionRefused \<Rightarrow> \<exists>item. \<not> rx_takes_attention rx item
     | ReceiptKeyMissing \<Rightarrow> rx_receipt_key rx = None
     | ReceiptRefused \<Rightarrow> \<exists>receipt. \<not> rx_takes_receipt rx receipt
     | _ \<Rightarrow> False)"

text \<open>C19: an interrupted predecessor never blocks the next start by what it left in the host tables.
  After any history, take a host whose identity is fresh, whose authority is of this state root, whose
  clock is positive, before the end of time and not behind the recorded ones, with room left in the
  counters of generations and tokens and in the count of active work, no collision of its lease
  identity with an earlier one, and the receipt coordinator at hand. Then activation with recovery
  either makes it the current host - with the incident recorded exactly when there was a live
  predecessor, whatever state that one was left in - or fails, only where there was a live
  predecessor, because the record keeping was refused: the outbox row, the attention row or the
  receipt by the database, or the receipt for want of an active key. In particular, with an active
  key and a database that takes the three rows it succeeds. The facts used of third-party code are
  the length of a SHA-256 digest and that the JSON parser reads the empty array.\<close>

theorem recovery_never_blocked:
  assumes "host_run X root empty_store S" and "activation_guard root auth host now = Inr sroot"
    and "positive sroot" and "can_start X host now S" and "clocks_behind now S"
    and "length (active_rows S) < 2 ^ 63"
    and "\<And>b. length (sha256 X b) = 32" and "json_from_str X ''[]'' = Some (JArray [])"
  shows "case activate_runtime_host_with_recovery X (Inr rx) root auth host now S of
      Inr (m, T) \<Rightarrow> (\<exists>l g. current_activation T = Some (l, g) \<and> hl_host_instance_id l = host
         \<and> mutation_value m = lease_record l g)
       \<and> ((\<exists>event item receipt. m = Append (mutation_value m) event item receipt)
          \<longleftrightarrow> current_activation S \<noteq> None)
    | Inl e \<Rightarrow> current_activation S \<noteq> None \<and> keeping_refused rx e"
proof -
  let ?run = "activate_runtime_host_with_recovery X (Inr rx) root auth host now S"
  have S: "store_ok S" by (rule host_run_ok [OF assms(1) store_ok_empty])
  have current: "\<exists>l g. current_activation T = Some (l, g) \<and> hl_host_instance_id l = host
         \<and> mutation_value m = lease_record l g" if "?run = Inr (m, T)" for m T
    using recovery_activated [OF that S] current_of_last by (fastforce simp: activated_def)
  show ?thesis
  proof (cases "current_activation S")
    case None
    then obtain r T where "start_generation X auth sroot host now S = Inr (r, T)"
      using start_generation_ok [OF S current_activation_None [OF S None] assms(4,3)] by blast
    then have "?run = Inr (NoAppend r, T)"
      using None assms(2) by (simp add: activate_runtime_host_with_recovery_def)
    then show ?thesis using current None by simp
  next
    case (Some lg)
    obtain l g where lg: "current_activation S = Some (l, g)" using Some by (cases lg) simp
    obtain st reason U r T work digest where other: "hl_host_instance_id l \<noteq> host"
      and st: "load_runtime_host_state (lease_record l g) S = Some st"
        "takeover_end_reason (rs_actual_state st) = Inr reason"
      and U: "interrupt_predecessor (lease_record l g) st reason now S = Inr U"
      and T: "start_generation X auth sroot host now U = Inr (r, T)"
      and work: "load_active_work_snapshot X T = Some (work, digest)"
      using takeover_tables [OF S lg assms(4,3,5,6)] by blast
    obtain ps where "host_pairs S = ps @ [(g, l)]" by (rule current_live [OF S lg])
    then have "pair_ok (g, l)" using S by (simp add: store_ok_def hosts_ok_snoc)
    moreover have "positive now"
      using assms(2) by (auto simp: activation_guard_def split: if_splits)
    ultimately have "insert_runtime_paused_attention_in_tx X rx
         (recovery_attention X (lease_record l g) (rs_actual_state st) reason digest now)
       = (if rx_takes_attention rx (recovery_attention X (lease_record l g) (rs_actual_state st) reason digest now)
          then Inr () else Inl AttentionRefused)"
      by (rule recovery_attention_canonical [OF assms(7,8) _ _ st(2) work])
    then have "(\<exists>e. ?run = Inl e \<and> keeping_refused rx e)
        \<or> (\<exists>event item receipt. ?run = Inr (Append r event item receipt, T))"
      using lg assms(2) other st U T work
      by (cases "rx_receipt_key rx") (auto simp: activate_runtime_host_with_recovery_def Let_def
          insert_outbox_def append_runtime_receipt_def keeping_refused_def)
    then show ?thesis using current lg by auto
  qed
qed

end
