(* ===== verification/HostRuns.thy ===== *)
theory HostRuns
  imports HostSafety ServiceWitness
begin

text \<open>
  The runtime host beside its readers: the recorder's verifier on the same database accepts the
  current host only, the status of the host is the current activation's, and an interrupted
  predecessor never blocks a takeover. Also concrete histories of two hosts.
\<close>

subsection \<open>A concrete history\<close>

definition host_authority :: ConfirmationAuthorityIdentity where
  "host_authority = \<lparr>ca_canonical_root_identity = ''r'', ca_installation_identity = ''i'',
     ca_os_user_identity_digest = ''u'', ca_state_root_generation = 1\<rparr>"

definition sample_generation :: "string \<Rightarrow> i64 \<Rightarrow> runtime_generation_row" where
  "sample_generation host n = \<lparr>hg_generation = n, hg_host_instance_id = host,
     hg_state_root_generation = 1, hg_installation_identity = ''i'',
     hg_os_user_identity_digest = ''u'', rg_ownership_scope = ''execass'', rg_started_at = 5,
     rg_ended_at = None, rg_end_reason = None\<rparr>"

definition sample_lease :: "string \<Rightarrow> i64 \<Rightarrow> runtime_lease_row" where
  "sample_lease host n = \<lparr>hl_ownership_scope = ''execass'', hl_generation = n,
     hl_host_instance_id = host, hl_fencing_token = n, hl_released_at = None,
     hl_expires_at = word_of_int i64_max, rl_lease_id = runtime_lease_id raw_externals host n n,
     rl_acquired_at = 5\<rparr>"

definition sample_host_state :: "string \<Rightarrow> i64 \<Rightarrow> runtime_state_row" where
  "sample_host_state host n = \<lparr>rs_generation = n, rs_host_instance_id = host, rs_fencing_token = n,
     rs_state_root_generation = 1, rs_actual_state = Starting, rs_updated_at = 5\<rparr>"

definition first_store :: runtime_store where
  "first_store = appended empty_store (sample_generation ''h'' 1) (sample_lease ''h'' 1)
     (sample_host_state ''h'' 1)"

definition second_store :: runtime_store where
  "second_store = appended (end_generation (\<lambda>g. True) 5 ''gateway_lock_takeover''
       (end_lease (\<lambda>l. True) 5 first_store))
     (sample_generation ''k'' 2) (sample_lease ''k'' 2) (sample_host_state ''k'' 2)"

lemma sint_max: "sint (word_of_int i64_max :: i64) = i64_max"
  by (rule sint_of_i64) (simp_all add: i64_min_def i64_max_def)

lemmas activation_eval = activate_runtime_host_def activation_guard_def start_generation_def
  next_number_def coalesced_max_def insert_generation_def insert_lease_def
  ensure_runtime_host_state_def appended_def empty_store_def current_activation_def live_pair_def
  joined_def lease_record_def host_key_def state_key_def lease_key_def end_generation_def
  end_lease_def update_rows_def host_authority_def sample_generation_def sample_lease_def
  sample_host_state_def later_def sint_max Let_def

lemma first_activation:
  "activate_runtime_host raw_externals ''r'' host_authority ''h'' 5 empty_store
   = Inr (lease_record (sample_lease ''h'' 1) (sample_generation ''h'' 1), first_store)"
  by (simp add: activation_eval first_store_def) (simp add: i64_max_def)

lemma second_activation:
  "activate_runtime_host raw_externals ''r'' host_authority ''k'' 5 first_store
   = Inr (lease_record (sample_lease ''k'' 2) (sample_generation ''k'' 2), second_store)"
  by (simp add: activation_eval first_store_def second_store_def)
     (simp add: i64_max_def runtime_lease_id_def raw_externals_def)

lemma first_run: "host_run raw_externals ''r'' empty_store first_store"
  by (rule host_run.step [OF host_run.refl host_step.activate [OF first_activation]])

lemma second_run: "host_run raw_externals ''r'' empty_store second_store"
  by (rule host_run.step [OF first_run host_step.activate [OF second_activation]])

lemma first_current:
  "current_activation first_store = Some (sample_lease ''h'' 1, sample_generation ''h'' 1)"
  by (simp add: activation_eval first_store_def)

theorem single_live_host_witness:
  "length (filter (\<lambda>l. hl_released_at l = None) (rt_leases second_store)) \<le> 1
   \<and> length (rt_leases second_store) = 2"
  using single_live_host [OF second_run]
  by (simp add: second_store_def first_store_def appended_def end_generation_def end_lease_def
      update_rows_def empty_store_def)

theorem superseded_host_fenced_witness:
  "\<not> is_ok (transition_runtime_host
      (lease_record (sample_lease ''h'' 1) (sample_generation ''h'' 1)) BeginDrain 9 second_store)"
  by (rule superseded_host_fenced [OF first_run first_current _ disjI1 [OF second_activation] host_run.refl])
     (simp add: sample_lease_def)

subsection \<open>The recorder reads the current host\<close>

text \<open>The recorder's database holds the host tables of the store.\<close>

definition shares_host_tables :: "runtime_store \<Rightarrow> database \<Rightarrow> bool" where
  "shares_host_tables S db \<longleftrightarrow>
     db_generations db = map host_generation_row.truncate (rt_generations S)
     \<and> db_leases db = map host_lease_row.truncate (rt_leases S)"

lemma truncate_lease [simp]:
  "hl_ownership_scope (host_lease_row.truncate l) = hl_ownership_scope l"
  "hl_generation (host_lease_row.truncate l) = hl_generation l"
  "hl_host_instance_id (host_lease_row.truncate l) = hl_host_instance_id l"
  "hl_fencing_token (host_lease_row.truncate l) = hl_fencing_token l"
  "hl_released_at (host_lease_row.truncate l) = hl_released_at l"
  "hl_expires_at (host_lease_row.truncate l) = hl_expires_at l"
  by (simp_all add: host_lease_row.truncate_def)

lemma shared_live_lease:
  assumes "store_ok S" and "shares_host_tables S db" and "m \<in> set (db_leases db)" and "live_lease now m"
  shows "\<exists>l g. current_activation S = Some (l, g) \<and> m = host_lease_row.truncate l \<and> joined l g"
proof -
  obtain l where l: "l \<in> set (rt_leases S)" "m = host_lease_row.truncate l"
    using assms(2,3) by (auto simp: shares_host_tables_def)
  then have "hl_released_at l = None" using assms(4) by (simp add: live_lease_def)
  then obtain ps g where ps: "host_pairs S = ps @ [(g, l)]" "\<not> ended (g, l)"
    using live_lease_last [OF assms(1) l(1)] by blast
  then have "current_activation S = Some (l, g)" by (rule current_of_last [OF assms(1)])
  then show ?thesis
    using l(2) current_activation_in(3) [of S l g] by (auto simp: live_pair_def)
qed

text \<open>The binding the recorder signs for is that of the current host. On one database with the
  host tables of any history, whatever binding the recorder's verifier loads names the generation,
  the instance and the fencing token of the host activated last and still live.\<close>

theorem recorder_binds_current_host:
  assumes "host_run X root empty_store S" and "shares_host_tables S db"
    and "load_authoritative_binding (Inr db) now = Inr b"
  shows "\<exists>l g. current_activation S = Some (l, g) \<and> ab_runtime_host_generation b = hl_generation l
    \<and> ab_runtime_host_instance_id b = hl_host_instance_id l
    \<and> ab_runtime_fencing_token b = hl_fencing_token l"
proof -
  let ?rows = "[(l, g, k). l \<leftarrow> db_leases db, g \<leftarrow> db_generations db, k \<leftarrow> db_keys db,
           hg_generation g = hl_generation l \<and> hg_host_instance_id g = hl_host_instance_id l
           \<and> same_root k g \<and> live_lease now l]"
  obtain m h k rows where rows: "?rows = (m, h, k) # rows"
    using assms(3) by (cases ?rows) (auto simp: load_authoritative_binding_def)
  then have b: "ab_runtime_host_generation b = hl_generation m
      \<and> ab_runtime_host_instance_id b = hl_host_instance_id m
      \<and> ab_runtime_fencing_token b = hl_fencing_token m"
    using assms(3) by (auto simp: load_authoritative_binding_def)
  have "(m, h, k) \<in> set ?rows" using rows by simp
  then have "m \<in> set (db_leases db)" "live_lease now m" by auto
  then show ?thesis
    using shared_live_lease [OF host_run_ok [OF assms(1) store_ok_empty] assms(2)] b by fastforce
qed

lemma proven_attempt_current:
  assumes "store_ok S" and "shares_host_tables S db" and "attempt_proven db c now"
  shows "\<exists>l g. current_activation S = Some (l, g)
    \<and> rb_runtime_host_generation (eo_binding c) = hl_generation l"
proof -
  obtain a g m k where "attempt_matches c a" "m \<in> set (db_leases db)" "host_matches c now a g m k"
    using assms(3) by (auto simp: attempt_proven_def list_ex_iff)
  then show ?thesis
    using shared_live_lease [OF assms(1,2), of m now]
    by (auto simp: attempt_matches_def host_matches_def)
qed

text \<open>C7: a takeover revokes the provider attempts of the host it replaces. Once another host has been
  activated, no attempt bound to the earlier host's generation is proven to the recorder, at any
  later time and whatever the other tables say, so no effect is admitted for it.\<close>

theorem takeover_revokes_attempts:
  assumes "host_run X root empty_store S" and "current_activation S = Some (l, g)"
    and "host \<noteq> hl_host_instance_id l"
    and "activate_runtime_host X root auth host now S = Inr (r, T)
      \<or> (\<exists>m. activate_runtime_host_with_recovery X rx root auth host now S = Inr (m, T))"
    and "host_run X root T U" and "shares_host_tables U db"
    and "rb_runtime_host_generation (eo_binding c) = hl_generation l"
  shows "\<not> attempt_proven db c later_now"
proof
  assume p: "attempt_proven db c later_now"
  obtain q where q: "q \<in> set (host_pairs U)" "hg_generation (fst q) = hg_generation g" "ended q"
    and U: "store_ok U" and j: "joined l g"
    using superseded_pair_ended [OF assms(1-5)] by blast
  obtain m h where m: "current_activation U = Some (m, h)" "hl_generation m = hl_generation l"
    using proven_attempt_current [OF U assms(6) p] assms(7) by auto
  obtain ps where ps: "host_pairs U = ps @ [(h, m)]" "\<not> ended (h, m)" "joined m h"
    by (rule current_live [OF U m(1)])
  then have "q \<in> set ps" using q by auto
  then have "hg_generation (fst q) \<noteq> hg_generation h"
    using U ps(1) older_generation by (fastforce simp: store_ok_def hosts_ok_snoc)
  then show False using q(2) ps(3) m(2) j by (simp add: joined_def)
qed

text \<open>The recorder's sample database with the host tables of a store.\<close>

definition host_database :: "runtime_store \<Rightarrow> ExactOverwriteMaterialV1 \<Rightarrow> database" where
  "host_database S m = (service_database m)
     \<lparr>db_generations := map host_generation_row.truncate (rt_generations S),
      db_leases := map host_lease_row.truncate (rt_leases S)\<rparr>"

lemma shares_host_database: "shares_host_tables S (host_database S m)"
  by (simp add: shares_host_tables_def host_database_def)

lemmas host_database_eval = host_database_def service_database_def first_store_def appended_def
  empty_store_def sample_generation_def sample_lease_def host_generation_row.truncate_def
  host_lease_row.truncate_def live_lease_def later_def sint_max

lemma first_host_proven: "attempt_proven (host_database first_store m) (service_command m) 0"
  by (simp add: attempt_proven_def attempt_matches_def effect_matches_def claim_matches_def
      continuation_matches_def job_matches_def host_matches_def not_stopped_def leased_def
      host_database_eval) (simp add: i64_max_def)

theorem takeover_revokes_attempts_witness:
  "\<exists>m. attempt_proven (host_database first_store m) (service_command m) 0
     \<and> \<not> attempt_proven (host_database second_store m) (service_command m) 0"
proof -
  have "\<not> attempt_proven (host_database second_store m) (service_command m) 0" for m
    by (rule takeover_revokes_attempts [OF first_run first_current _ disjI1 [OF second_activation]
          host_run.refl shares_host_database]) (simp_all add: sample_lease_def)
  then show ?thesis using first_host_proven by blast
qed

lemma first_binding:
  "\<exists>b. load_authoritative_binding (Inr (host_database first_store m)) 0 = Inr b
     \<and> ab_runtime_host_instance_id b = ''h''"
  by (simp add: load_authoritative_binding_def same_root_def host_database_eval) (simp add: i64_max_def)

theorem recorder_binds_current_host_witness:
  "\<exists>m b l g. load_authoritative_binding (Inr (host_database first_store m)) 0 = Inr b
     \<and> ab_runtime_host_instance_id b = ''h'' \<and> current_activation first_store = Some (l, g)
     \<and> ab_runtime_host_generation b = hl_generation l"
  using first_binding recorder_binds_current_host [OF first_run shares_host_database] by blast

text \<open>An instance of third-party code whose digests have 32 bytes: the last 32 of the text.\<close>

definition tail_externals :: externals where
  "tail_externals = raw_externals\<lparr>
     sha256 := (\<lambda>bs. drop (length bs) (replicate 32 NUL @ bs)),
     json_from_str := (\<lambda>s. if s = ''[]'' then Some (JArray []) else json_from_str raw_externals s)\<rparr>"

definition tail_store :: runtime_store where
  "tail_store = first_store\<lparr>rt_leases :=
     [(sample_lease ''h'' 1)\<lparr>rl_lease_id := runtime_lease_id tail_externals ''h'' 1 1\<rparr>]\<rparr>"

lemma tail_run: "host_run tail_externals ''r'' empty_store tail_store"
proof -
  have "is_ok (activate_runtime_host tail_externals ''r'' host_authority ''h'' 5 empty_store)
      \<and> snd (projr (activate_runtime_host tail_externals ''r'' host_authority ''h'' 5 empty_store)) = tail_store"
    by (simp add: activation_eval first_store_def tail_store_def) (simp add: i64_max_def)
  then obtain r where "activate_runtime_host tail_externals ''r'' host_authority ''h'' 5 empty_store
      = Inr (r, tail_store)"
    by (cases "activate_runtime_host tail_externals ''r'' host_authority ''h'' 5 empty_store") auto
  then show ?thesis by (rule host_run.step [OF host_run.refl host_step.activate])
qed

text \<open>Receipts with an active key whose database takes every row but perhaps the attention item.\<close>

definition sample_receipts :: "bool \<Rightarrow> receipt_context" where
  "sample_receipts attention = \<lparr>rx_receipt_key = Some \<lparr>rk_key_id = ''key'', rk_key_generation = 1\<rparr>,
     rx_actor_identity = ''actor'', rx_summary = ''summary'', rx_global_count = 0,
     rx_global_head = None, rx_takes_event = (\<lambda>_. True), rx_takes_attention = (\<lambda>_. attention),
     rx_takes_receipt = (\<lambda>_. True)\<rparr>"

text \<open>A takeover by \<open>k\<close> from the interrupted \<open>h\<close>: it succeeds when the rows are taken; when the
  attention item is not, that is the only error it can have.\<close>

theorem recovery_never_blocked_witness:
  "is_ok (activate_runtime_host_with_recovery tail_externals (Inr (sample_receipts True)) ''r''
      host_authority ''k'' 5 tail_store)
   \<and> (case activate_runtime_host_with_recovery tail_externals (Inr (sample_receipts False)) ''r''
        host_authority ''k'' 5 tail_store of Inl e \<Rightarrow> e = AttentionRefused | Inr _ \<Rightarrow> True)"
proof -
  have "activation_guard ''r'' host_authority ''k'' 5 = Inr 1"
    by (simp add: activation_guard_def host_authority_def later_def)
  moreover have "positive 1" by (simp add: later_def)
  moreover have "can_start tail_externals ''k'' 5 tail_store"
    by (simp add: can_start_def coalesced_max_def tail_store_def first_store_def appended_def
        empty_store_def sample_generation_def sample_lease_def later_def sint_max)
       (simp add: i64_max_def runtime_lease_id_def tail_externals_def)
  moreover have "clocks_behind 5 tail_store"
    by (simp add: clocks_behind_def tail_store_def first_store_def appended_def empty_store_def
        sample_host_state_def)
  moreover have "length (active_rows tail_store) < 2 ^ 63"
    by (simp add: active_rows_def nonterminal_rows_def tail_store_def first_store_def appended_def
        empty_store_def)
  moreover have "length (sha256 tail_externals b) = 32" for b by (simp add: tail_externals_def)
  moreover have "json_from_str tail_externals ''[]'' = Some (JArray [])"
    by (simp add: tail_externals_def)
  ultimately have run: "case activate_runtime_host_with_recovery tail_externals (Inr (sample_receipts a))
        ''r'' host_authority ''k'' 5 tail_store of
      Inr (m, T) \<Rightarrow> (\<exists>l g. current_activation T = Some (l, g) \<and> hl_host_instance_id l = ''k''
         \<and> mutation_value m = lease_record l g)
       \<and> ((\<exists>event item receipt. m = Append (mutation_value m) event item receipt)
          \<longleftrightarrow> current_activation tail_store \<noteq> None)
    | Inl e \<Rightarrow> current_activation tail_store \<noteq> None \<and> keeping_refused (sample_receipts a) e" for a
    by (rule recovery_never_blocked [OF tail_run])
  have "\<not> keeping_refused (sample_receipts True) e"
      "keeping_refused (sample_receipts False) e \<longleftrightarrow> e = AttentionRefused" for e
    by (cases e; simp add: keeping_refused_def sample_receipts_def)+
  then show ?thesis
    using run [of True] run [of False] by (auto split: sum.splits)
qed

subsection \<open>The status of the host\<close>

lemma latest_lease_unique:
  "rs \<noteq> [] \<Longrightarrow> set rs \<subseteq> {r} \<Longrightarrow> latest_lease rs = Some r"
proof (induction rs)
  case (Cons a rs)
  then show ?case by (cases rs) auto
qed simp

text \<open>The live lease that the status reports is the current activation.\<close>

lemma load_live_lease_current:
  assumes "store_ok S" and "later (word_of_int i64_max) now"
  shows "load_live_lease S now = map_option (\<lambda>(l, g). lease_record l g) (current_activation S)"
proof -
  let ?rows = "[lease_record l g. l \<leftarrow> rt_leases S, g \<leftarrow> rt_generations S,
      joined l g \<and> live_lease now (host_lease_row.truncate l)]"
  have row: "\<exists>l g. r = lease_record l g \<and> current_activation S = Some (l, g)" if r: "r \<in> set ?rows" for r
  proof -
    obtain l h where l: "l \<in> set (rt_leases S)" "h \<in> set (rt_generations S)" "joined l h"
        "hl_released_at l = None" "r = lease_record l h"
      using r by (auto simp: live_lease_def)
    obtain ps g where ps: "host_pairs S = ps @ [(g, l)]" "\<not> ended (g, l)"
      using live_lease_last [OF assms(1) l(1,4)] by blast
    then have cur: "current_activation S = Some (l, g)" by (rule current_of_last [OF assms(1)])
    then have g: "g \<in> set (rt_generations S)" "hg_generation g = hg_generation h"
      using current_activation_in(2,3) [of S l g] l(3) by (auto simp: live_pair_def joined_def)
    then have "g = h"
      using distinct_hosts(1) [OF assms(1)] l(2) by (metis distinct_map inj_on_eq_iff)
    then show ?thesis using l(5) cur by blast
  qed
  show ?thesis
  proof (cases "current_activation S")
    case None
    have "?rows = []"
    proof (rule ccontr)
      assume "?rows \<noteq> []"
      then obtain r where "r \<in> set ?rows" by (meson last_in_set)
      then show False using row [of r] None by simp
    qed
    then show ?thesis using None by (simp only: load_live_lease_def latest_lease.simps option.map)
  next
    case (Some lg)
    obtain l g where lg: "current_activation S = Some (l, g)" using Some by (cases lg) simp
    note c = current_activation_in [OF lg]
    have "hl_expires_at l = word_of_int i64_max"
      using c(1) assms(1) rows_of_pairs(2) [OF assms(1)]
      by (auto simp: store_ok_def hosts_ok_def pair_ok_def)
    then have "joined l g \<and> live_lease now (host_lease_row.truncate l)"
      using c(3) assms(2) by (simp add: live_pair_def live_lease_def)
    then have "lease_record l g \<in> set ?rows"
      using c(1,2) by auto
    then have "latest_lease ?rows = Some (lease_record l g)"
      using row lg by (intro latest_lease_unique) fastforce+
    then show ?thesis using lg by (simp add: load_live_lease_def)
  qed
qed

end
