(* ===== verification/RuntimeControl.thy ===== *)
theory RuntimeControl
  imports RecorderProtocol
begin

text \<open>
  The authenticated native control channel of the runtime host,
  \<^verbatim>\<open>crates/carsinos-runtime-control/src/lib.rs\<close>: the closed messages and their JSON,
  validation, message authentication, the replay guard, the framing, and the two sides of an
  exchange. The deserializers that \<open>serde\<close> derives, HMAC-SHA-256, the operating system's clock and
  its random bytes are arguments.
\<close>

subsection \<open>Messages\<close>

datatype RuntimeControlError =
    InvalidScope | InvalidRequest | Authentication | Timestamp | Replay | Frame | Transport
  | UnsupportedPlatform

record RuntimeControlScopeV1 =
  cp_canonical_root_identity :: string
  cp_profile_identity :: string
  cp_os_user_identity_digest :: string

record CloseConfirmationBindingV1 =
  cb_challenge :: string
  cb_original_request_id :: string
  cb_original_nonce :: string
  cb_original_issued_at_ms :: i64

record GracefulShutdownRequestV1 =
  gs_client_instance_id :: string
  gs_runtime_host_generation :: i64
  gs_runtime_host_instance_id :: string
  gs_confirmation :: "CloseConfirmationBindingV1 option"

datatype RuntimeActualStateV1 =
    StartingV1 | RunningAppBoundV1 | HandoffV1 | RunningBackgroundV1 | DrainingV1 | FaultedV1
  | StoppedV1

datatype RuntimeDesiredModeV1 = AppBoundV1 | BackgroundV1

record ActiveWorkStatusV1 =
  ws_active :: bool
  ws_active_work_count :: i64
  ws_nonterminal_delegation_count :: i64
  ws_nonterminal_continuation_count :: i64
  ws_nonterminal_effect_count :: i64

record StatusReplyV1 =
  sp_runtime_host_generation :: i64
  sp_runtime_host_instance_id :: string
  sp_actual_state :: RuntimeActualStateV1
  sp_desired_mode :: RuntimeDesiredModeV1
  sp_start_at_login :: bool
  sp_active_work :: ActiveWorkStatusV1

record AttachReplyV1 =
  at_runtime_host_generation :: i64
  at_runtime_host_instance_id :: string

record ShutdownAuthorizationV1 =
  sa_authorization_id :: string
  sa_request_id :: string
  sa_nonce :: string
  sa_issued_at_ms :: i64
  sa_client_instance_id :: string
  sa_runtime_host_generation :: i64
  sa_runtime_host_instance_id :: string
  sa_confirmed_active_work_binding_digest :: "string option"
  sa_confirmed_active_work_count :: i64

datatype GracefulShutdownRejectionReasonV1 =
    BackgroundMode | NotRunningAppBound | StaleHostBinding | InvalidConfirmation
  | CloseStateChanged | AlreadyAuthorized | SupervisorUnavailable

datatype GracefulShutdownDispositionV1 =
    Authorized ShutdownAuthorizationV1
  | ConfirmationRequired ActiveWorkStatusV1 string CloseConfirmationBindingV1
  | Rejected GracefulShutdownRejectionReasonV1

datatype RuntimeControlRejectionCodeV1 = Unavailable | InvalidRequestCode

record RuntimeControlRequestContextV1 =
  cx_request_id :: string
  cx_nonce :: string
  cx_issued_at_ms :: i64

text \<open>\<open>Attach\<close> carries the client's instance identity.\<close>

datatype RuntimeControlOperationV1 =
    StatusOp | AttachOp string | GracefulShutdownOp GracefulShutdownRequestV1

record RuntimeControlRequestV1 =
  cq_protocol_version :: string
  cq_scope :: RuntimeControlScopeV1
  cq_request_id :: string
  cq_nonce :: string
  cq_issued_at_ms :: i64
  cq_operation :: RuntimeControlOperationV1
  cq_authentication_mac :: string

datatype RuntimeControlResultV1 =
    StatusResult StatusReplyV1 | AttachedResult AttachReplyV1
  | GracefulShutdownResult GracefulShutdownDispositionV1
  | RejectedResult RuntimeControlRejectionCodeV1

record RuntimeControlReplyV1 =
  cy_protocol_version :: string
  cy_request_id :: string
  cy_nonce :: string
  cy_issued_at_ms :: i64
  cy_result :: RuntimeControlResultV1
  cy_authentication_mac :: string

definition PROTOCOL_VERSION :: string where
  "PROTOCOL_VERSION = ''carsinos.runtime-control.v1''"

definition MAX_FRAME_BYTES :: nat where
  "MAX_FRAME_BYTES = 64 * 1024"

definition CLIENT_AUTH_DOMAIN :: bytes where
  "CLIENT_AUTH_DOMAIN = ''carsinos.runtime-control.client-auth.v1''"

definition SERVER_AUTH_DOMAIN :: bytes where
  "SERVER_AUTH_DOMAIN = ''carsinos.runtime-control.server-auth.v1''"

subsection \<open>Validation\<close>

definition is_safe_text :: "string \<Rightarrow> nat \<Rightarrow> bool" where
  "is_safe_text v limit \<longleftrightarrow> \<not> blank v \<and> length v \<le> limit \<and> \<not> has_control v"

definition is_lower_hex :: "string \<Rightarrow> nat \<Rightarrow> bool" where
  "is_lower_hex v len \<longleftrightarrow> length v = len
     \<and> list_all (\<lambda>c. is_ascii_hexdigit c \<and> \<not> is_ascii_uppercase c) v"

definition is_sha256_identity :: "string \<Rightarrow> bool" where
  "is_sha256_identity v \<longleftrightarrow> length v = 71 \<and> prefix ''sha256:'' v \<and> is_lower_hex (drop 7 v) 64"

definition scope_validate :: "RuntimeControlScopeV1 \<Rightarrow> RuntimeControlError + unit" where
  "scope_validate s = (if \<not> is_sha256_identity (cp_canonical_root_identity s)
       \<or> \<not> is_safe_text (cp_profile_identity s) 256
       \<or> \<not> is_lower_hex (cp_os_user_identity_digest s) 64
     then Inl InvalidScope else Inr ())"

definition invalid_confirmation :: "CloseConfirmationBindingV1 \<Rightarrow> bool" where
  "invalid_confirmation b \<longleftrightarrow> \<not> is_lower_hex (cb_challenge b) 64
     \<or> \<not> is_lower_hex (cb_original_request_id b) 64 \<or> \<not> is_lower_hex (cb_original_nonce b) 64
     \<or> \<not> 0 < sint (cb_original_issued_at_ms b)"

definition validate_graceful_shutdown_request ::
    "GracefulShutdownRequestV1 \<Rightarrow> RuntimeControlError + unit" where
  "validate_graceful_shutdown_request r =
     (if \<not> is_safe_text (gs_client_instance_id r) 256 \<or> \<not> 0 < sint (gs_runtime_host_generation r)
         \<or> \<not> is_safe_text (gs_runtime_host_instance_id r) 256
      then Inl InvalidRequest
      else case gs_confirmation r of
        None \<Rightarrow> Inr ()
      | Some b \<Rightarrow> if invalid_confirmation b then Inl InvalidRequest else Inr ())"

definition validate_request_shape :: "RuntimeControlRequestV1 \<Rightarrow> RuntimeControlError + unit" where
  "validate_request_shape r =
     rbind (scope_validate (cq_scope r)) (\<lambda>_.
     if cq_protocol_version r \<noteq> PROTOCOL_VERSION \<or> \<not> is_lower_hex (cq_request_id r) 64
       \<or> \<not> is_lower_hex (cq_nonce r) 64 \<or> \<not> is_lower_hex (cq_authentication_mac r) 64
       \<or> \<not> 0 < sint (cq_issued_at_ms r)
     then Inl InvalidRequest
     else case cq_operation r of
       StatusOp \<Rightarrow> Inr ()
     | AttachOp client \<Rightarrow> if \<not> is_safe_text client 256 then Inl InvalidRequest else Inr ()
     | GracefulShutdownOp s \<Rightarrow> validate_graceful_shutdown_request s)"

subsection \<open>JSON\<close>

definition control_scope_json :: "RuntimeControlScopeV1 \<Rightarrow> json" where
  "control_scope_json s = JObject
     [(''canonical_root_identity'', JString (cp_canonical_root_identity s)),
      (''profile_identity'', JString (cp_profile_identity s)),
      (''os_user_identity_digest'', JString (cp_os_user_identity_digest s))]"

definition confirmation_json :: "CloseConfirmationBindingV1 \<Rightarrow> json" where
  "confirmation_json b = JObject
     [(''challenge'', JString (cb_challenge b)),
      (''original_request_id'', JString (cb_original_request_id b)),
      (''original_nonce'', JString (cb_original_nonce b)),
      (''original_issued_at_ms'', json_i64 (cb_original_issued_at_ms b))]"

definition shutdown_request_json :: "GracefulShutdownRequestV1 \<Rightarrow> json" where
  "shutdown_request_json r = JObject
     [(''client_instance_id'', JString (gs_client_instance_id r)),
      (''runtime_host_generation'', json_i64 (gs_runtime_host_generation r)),
      (''runtime_host_instance_id'', JString (gs_runtime_host_instance_id r)),
      (''confirmation'', json_option confirmation_json (gs_confirmation r))]"

text \<open>An adjacently tagged operation, flattened into its envelope.\<close>

fun operation_tag :: "RuntimeControlOperationV1 \<Rightarrow> string" where
  "operation_tag StatusOp = ''status''"
| "operation_tag (AttachOp c) = ''attach''"
| "operation_tag (GracefulShutdownOp r) = ''graceful_shutdown''"

fun operation_payload :: "RuntimeControlOperationV1 \<Rightarrow> json" where
  "operation_payload StatusOp = JObject []"
| "operation_payload (AttachOp c) = JObject [(''client_instance_id'', JString c)]"
| "operation_payload (GracefulShutdownOp r) = shutdown_request_json r"

definition control_request_json :: "RuntimeControlRequestV1 \<Rightarrow> json" where
  "control_request_json r = JObject
     [(''protocol_version'', JString (cq_protocol_version r)),
      (''scope'', control_scope_json (cq_scope r)),
      (''request_id'', JString (cq_request_id r)), (''nonce'', JString (cq_nonce r)),
      (''issued_at_ms'', json_i64 (cq_issued_at_ms r)),
      (''operation'', JString (operation_tag (cq_operation r))),
      (''payload'', operation_payload (cq_operation r)),
      (''authentication_mac'', JString (cq_authentication_mac r))]"

fun actual_state_name :: "RuntimeActualStateV1 \<Rightarrow> string" where
  "actual_state_name StartingV1 = ''starting''"
| "actual_state_name RunningAppBoundV1 = ''running_app_bound''"
| "actual_state_name HandoffV1 = ''handoff''"
| "actual_state_name RunningBackgroundV1 = ''running_background''"
| "actual_state_name DrainingV1 = ''draining''"
| "actual_state_name FaultedV1 = ''faulted''"
| "actual_state_name StoppedV1 = ''stopped''"

fun desired_mode_name :: "RuntimeDesiredModeV1 \<Rightarrow> string" where
  "desired_mode_name AppBoundV1 = ''app_bound''"
| "desired_mode_name BackgroundV1 = ''background''"

fun rejection_reason_name :: "GracefulShutdownRejectionReasonV1 \<Rightarrow> string" where
  "rejection_reason_name BackgroundMode = ''background_mode''"
| "rejection_reason_name NotRunningAppBound = ''not_running_app_bound''"
| "rejection_reason_name StaleHostBinding = ''stale_host_binding''"
| "rejection_reason_name InvalidConfirmation = ''invalid_confirmation''"
| "rejection_reason_name CloseStateChanged = ''close_state_changed''"
| "rejection_reason_name AlreadyAuthorized = ''already_authorized''"
| "rejection_reason_name SupervisorUnavailable = ''supervisor_unavailable''"

fun rejection_code_name :: "RuntimeControlRejectionCodeV1 \<Rightarrow> string" where
  "rejection_code_name Unavailable = ''unavailable''"
| "rejection_code_name InvalidRequestCode = ''invalid_request''"

definition active_work_json :: "ActiveWorkStatusV1 \<Rightarrow> json" where
  "active_work_json w = JObject
     [(''active'', JBool (ws_active w)), (''active_work_count'', json_i64 (ws_active_work_count w)),
      (''nonterminal_delegation_count'', json_i64 (ws_nonterminal_delegation_count w)),
      (''nonterminal_continuation_count'', json_i64 (ws_nonterminal_continuation_count w)),
      (''nonterminal_effect_count'', json_i64 (ws_nonterminal_effect_count w))]"

definition status_reply_json :: "StatusReplyV1 \<Rightarrow> json" where
  "status_reply_json s = JObject
     [(''runtime_host_generation'', json_i64 (sp_runtime_host_generation s)),
      (''runtime_host_instance_id'', JString (sp_runtime_host_instance_id s)),
      (''actual_state'', JString (actual_state_name (sp_actual_state s))),
      (''desired_mode'', JString (desired_mode_name (sp_desired_mode s))),
      (''start_at_login'', JBool (sp_start_at_login s)),
      (''active_work'', active_work_json (sp_active_work s))]"

definition authorization_json :: "ShutdownAuthorizationV1 \<Rightarrow> json" where
  "authorization_json a = JObject
     [(''authorization_id'', JString (sa_authorization_id a)),
      (''request_id'', JString (sa_request_id a)), (''nonce'', JString (sa_nonce a)),
      (''issued_at_ms'', json_i64 (sa_issued_at_ms a)),
      (''client_instance_id'', JString (sa_client_instance_id a)),
      (''runtime_host_generation'', json_i64 (sa_runtime_host_generation a)),
      (''runtime_host_instance_id'', JString (sa_runtime_host_instance_id a)),
      (''confirmed_active_work_binding_digest'',
        json_option JString (sa_confirmed_active_work_binding_digest a)),
      (''confirmed_active_work_count'', json_i64 (sa_confirmed_active_work_count a))]"

fun disposition_json :: "GracefulShutdownDispositionV1 \<Rightarrow> json" where
  "disposition_json (Authorized a) = JObject [(''disposition'', JString ''authorized''),
     (''payload'', JObject [(''authorization'', authorization_json a)])]"
| "disposition_json (ConfirmationRequired w consequence b) = JObject
     [(''disposition'', JString ''confirmation_required''),
      (''payload'', JObject [(''active_work'', active_work_json w),
        (''consequence'', JString consequence), (''binding'', confirmation_json b)])]"
| "disposition_json (Rejected reason) = JObject [(''disposition'', JString ''rejected''),
     (''payload'', JObject [(''reason'', JString (rejection_reason_name reason))])]"

fun result_tag :: "RuntimeControlResultV1 \<Rightarrow> string" where
  "result_tag (StatusResult s) = ''status''"
| "result_tag (AttachedResult a) = ''attached''"
| "result_tag (GracefulShutdownResult d) = ''graceful_shutdown''"
| "result_tag (RejectedResult c) = ''rejected''"

fun result_payload :: "RuntimeControlResultV1 \<Rightarrow> json" where
  "result_payload (StatusResult s) = status_reply_json s"
| "result_payload (AttachedResult a) = JObject
     [(''runtime_host_generation'', json_i64 (at_runtime_host_generation a)),
      (''runtime_host_instance_id'', JString (at_runtime_host_instance_id a))]"
| "result_payload (GracefulShutdownResult d) = disposition_json d"
| "result_payload (RejectedResult c) = JObject [(''code'', JString (rejection_code_name c))]"

definition control_reply_json :: "RuntimeControlReplyV1 \<Rightarrow> json" where
  "control_reply_json r = JObject
     [(''protocol_version'', JString (cy_protocol_version r)),
      (''request_id'', JString (cy_request_id r)), (''nonce'', JString (cy_nonce r)),
      (''issued_at_ms'', json_i64 (cy_issued_at_ms r)),
      (''result'', JString (result_tag (cy_result r))), (''payload'', result_payload (cy_result r)),
      (''authentication_mac'', JString (cy_authentication_mac r))]"

subsection \<open>Message authentication\<close>

text \<open>HMAC-SHA-256 of a key and a message is the argument \<open>mac\<close>; a key is 32 bytes.\<close>

type_synonym mac = "bytes \<Rightarrow> bytes \<Rightarrow> bytes"

definition derive_owner_control_key :: "externals \<Rightarrow> bytes \<Rightarrow> RuntimeControlError + bytes" where
  "derive_owner_control_key X owner_secret =
     (if length owner_secret < 32 then Inl Authentication
      else Inr (sha256 X (''carsinos.runtime-control.owner-secret-derivation.v1'' @ [NUL] @ owner_secret)))"

definition request_signing_bytes :: "externals \<Rightarrow> RuntimeControlRequestV1 \<Rightarrow> bytes" where
  "request_signing_bytes X r =
     canonical_json_bytes X (control_request_json (r\<lparr>cq_authentication_mac := []\<rparr>))"

definition reply_signing_bytes :: "externals \<Rightarrow> RuntimeControlReplyV1 \<Rightarrow> bytes" where
  "reply_signing_bytes X r =
     canonical_json_bytes X (control_reply_json (r\<lparr>cy_authentication_mac := []\<rparr>))"

definition mac_input :: "bytes \<Rightarrow> bytes \<Rightarrow> bytes" where
  "mac_input domain bs = domain @ [NUL] @ bs"

definition mac_hex :: "mac \<Rightarrow> bytes \<Rightarrow> bytes \<Rightarrow> bytes \<Rightarrow> string" where
  "mac_hex mac bs owner_secret domain = hex_encode (mac owner_secret (mac_input domain bs))"

definition hex_decode_32 :: "string \<Rightarrow> RuntimeControlError + bytes" where
  "hex_decode_32 v = (if \<not> is_lower_hex v 64 then Inl Authentication
     else of_option Authentication (hex_pairs v))"

definition verify_mac :: "mac \<Rightarrow> bytes \<Rightarrow> string \<Rightarrow> bytes \<Rightarrow> bytes \<Rightarrow> RuntimeControlError + unit" where
  "verify_mac mac bs supplied owner_secret domain =
     rbind (hex_decode_32 supplied) (\<lambda>tag.
     if mac owner_secret (mac_input domain bs) = tag then Inr () else Inl Authentication)"

definition sign_control_request ::
    "externals \<Rightarrow> mac \<Rightarrow> bytes \<Rightarrow> RuntimeControlRequestV1 \<Rightarrow> RuntimeControlRequestV1" where
  "sign_control_request X mac owner_secret r = r\<lparr>cq_authentication_mac :=
     mac_hex mac (request_signing_bytes X r) owner_secret CLIENT_AUTH_DOMAIN\<rparr>"

definition sign_reply ::
    "externals \<Rightarrow> mac \<Rightarrow> bytes \<Rightarrow> RuntimeControlReplyV1 \<Rightarrow> RuntimeControlReplyV1" where
  "sign_reply X mac owner_secret r = r\<lparr>cy_authentication_mac :=
     mac_hex mac (reply_signing_bytes X r) owner_secret SERVER_AUTH_DOMAIN\<rparr>"

subsection \<open>Timestamps and replays\<close>

text \<open>\<open>now_ms\<close> is the argument \<open>clock\<close>, \<open>None\<close> where it fails; a \<open>Duration\<close> is its milliseconds.
  \<open>abs_diff\<close> is exact.\<close>

definition skew_bound :: "RuntimeControlError \<Rightarrow> nat \<Rightarrow> RuntimeControlError + int" where
  "skew_bound e skew = (if skew < 2 ^ 63 then Inr (int skew) else Inl e)"

definition outside_skew :: "i64 \<Rightarrow> i64 \<Rightarrow> int \<Rightarrow> bool" where
  "outside_skew issued now bound \<longleftrightarrow> bound < abs (sint issued - sint now)"

definition validate_timestamp :: "i64 option \<Rightarrow> i64 \<Rightarrow> nat \<Rightarrow> RuntimeControlError + i64" where
  "validate_timestamp clock issued skew =
     rbind (of_option Timestamp clock) (\<lambda>now.
     rbind (skew_bound Timestamp skew) (\<lambda>bound.
     if \<not> 0 < sint issued \<or> outside_skew issued now bound then Inl Timestamp else Inr now))"

type_synonym seen = "string \<times> string \<rightharpoonup> i64"

text \<open>\<open>seen.retain\<close>.\<close>

definition retain_recent :: "i64 \<Rightarrow> seen \<Rightarrow> seen" where
  "retain_recent oldest seen = (\<lambda>k. case seen k of
     None \<Rightarrow> None
   | Some recorded \<Rightarrow> if sint oldest \<le> sint recorded then Some recorded else None)"

text \<open>\<open>InMemoryReplayGuard::check_and_record\<close> under its lock.\<close>

definition check_and_record ::
    "string \<Rightarrow> string \<Rightarrow> i64 \<Rightarrow> i64 \<Rightarrow> nat \<Rightarrow> seen \<Rightarrow> (RuntimeControlError + unit) \<times> seen" where
  "check_and_record request nonce issued now skew seen =
     (case skew_bound Replay skew of
        Inl e \<Rightarrow> (Inl e, seen)
      | Inr bound \<Rightarrow>
          if \<not> 0 < sint issued \<or> \<not> 0 < sint now \<or> outside_skew issued now bound
          then (Inl Replay, seen)
          else
            let kept = retain_recent (i64_saturating_sub now (word_of_int bound)) seen
            in if kept (request, nonce) \<noteq> None then (Inl Replay, kept)
               else (Inr (), kept((request, nonce) \<mapsto> issued)))"

subsection \<open>Frames\<close>

definition encode_control_frame :: "externals \<Rightarrow> json \<Rightarrow> RuntimeControlError + bytes" where
  "encode_control_frame X v =
     (let payload = canonical_json_bytes X v
      in if MAX_FRAME_BYTES < length payload \<or> 2 ^ 32 - 1 < length payload then Inl Frame
         else Inr (be_bytes 4 (length payload) @ payload))"

text \<open>The message type's deserializer is the argument \<open>parse\<close>; the stream is the bytes that arrive
  before its end.\<close>

definition read_control_message :: "(bytes \<Rightarrow> 'a option) \<Rightarrow> bytes \<Rightarrow> RuntimeControlError + 'a" where
  "read_control_message parse stream =
     (if length stream < 4 then Inl Transport
      else let len = be_nat (take 4 stream)
           in if MAX_FRAME_BYTES < len then Inl Frame
              else if length (drop 4 stream) < len then Inl Transport
              else of_option Frame (parse (take len (drop 4 stream))))"

definition endpoint_id :: "externals \<Rightarrow> RuntimeControlScopeV1 \<Rightarrow> string" where
  "endpoint_id X s = sha256_hex X (''carsinos.runtime-control.endpoint.v1''
     @ concat (map (\<lambda>part. NUL # header_frame 8 part)
         [cp_os_user_identity_digest s, cp_canonical_root_identity s, cp_profile_identity s]))"

subsection \<open>The server\<close>

record server_config =
  sc_scope :: RuntimeControlScopeV1
  sc_owner_secret :: bytes
  sc_max_clock_skew :: nat

text \<open>The trait \<open>RuntimeControlHandler\<close>, over the handler's own state.\<close>

record 'h control_handler =
  ch_status :: "'h \<Rightarrow> RuntimeControlRejectionCodeV1 + StatusReplyV1"
  ch_attach :: "string \<Rightarrow> 'h \<Rightarrow> RuntimeControlRejectionCodeV1 + AttachReplyV1"
  ch_graceful_shutdown :: "RuntimeControlRequestContextV1 \<Rightarrow> GracefulShutdownRequestV1 \<Rightarrow> 'h
    \<Rightarrow> (RuntimeControlRejectionCodeV1 + GracefulShutdownDispositionV1) \<times> 'h"

definition verify_control_request ::
    "externals \<Rightarrow> mac \<Rightarrow> server_config \<Rightarrow> i64 option \<Rightarrow> RuntimeControlRequestV1 \<Rightarrow> seen
     \<Rightarrow> (RuntimeControlError + unit) \<times> seen" where
  "verify_control_request X mac C clock r seen =
     (case rbind (validate_request_shape r) (\<lambda>_.
           if cq_scope r \<noteq> sc_scope C then Inl InvalidRequest
           else rbind (verify_mac mac (request_signing_bytes X r) (cq_authentication_mac r)
               (sc_owner_secret C) CLIENT_AUTH_DOMAIN) (\<lambda>_.
             validate_timestamp clock (cq_issued_at_ms r) (sc_max_clock_skew C))) of
        Inl e \<Rightarrow> (Inl e, seen)
      | Inr now \<Rightarrow> check_and_record (cq_request_id r) (cq_nonce r) (cq_issued_at_ms r) now
          (sc_max_clock_skew C) seen)"

definition request_context :: "RuntimeControlRequestV1 \<Rightarrow> RuntimeControlRequestContextV1" where
  "request_context r = \<lparr>cx_request_id = cq_request_id r, cx_nonce = cq_nonce r,
     cx_issued_at_ms = cq_issued_at_ms r\<rparr>"

definition or_rejected ::
    "('a \<Rightarrow> RuntimeControlResultV1) \<Rightarrow> RuntimeControlRejectionCodeV1 + 'a \<Rightarrow> RuntimeControlResultV1" where
  "or_rejected f v = (case v of Inl code \<Rightarrow> RejectedResult code | Inr x \<Rightarrow> f x)"

definition dispatch ::
    "'h control_handler \<Rightarrow> RuntimeControlRequestV1 \<Rightarrow> 'h \<Rightarrow> RuntimeControlResultV1 \<times> 'h" where
  "dispatch H r h = (case cq_operation r of
     StatusOp \<Rightarrow> (or_rejected StatusResult (ch_status H h), h)
   | AttachOp client \<Rightarrow> (or_rejected AttachedResult (ch_attach H client h), h)
   | GracefulShutdownOp s \<Rightarrow> map_prod (or_rejected GracefulShutdownResult) (\<lambda>h. h)
       (ch_graceful_shutdown H (request_context r) s h))"

definition reply_message ::
    "externals \<Rightarrow> mac \<Rightarrow> server_config \<Rightarrow> i64 \<Rightarrow> RuntimeControlRequestV1
     \<Rightarrow> RuntimeControlResultV1 \<Rightarrow> RuntimeControlReplyV1" where
  "reply_message X mac C now r result = sign_reply X mac (sc_owner_secret C)
     \<lparr>cy_protocol_version = PROTOCOL_VERSION, cy_request_id = cq_request_id r,
      cy_nonce = cq_nonce r, cy_issued_at_ms = now, cy_result = result,
      cy_authentication_mac = []\<rparr>"

definition control_reply ::
    "externals \<Rightarrow> mac \<Rightarrow> server_config \<Rightarrow> i64 option \<Rightarrow> RuntimeControlRequestV1
     \<Rightarrow> RuntimeControlResultV1 \<Rightarrow> RuntimeControlError + bytes" where
  "control_reply X mac C clock r result =
     rbind (of_option Timestamp clock) (\<lambda>now.
     encode_control_frame X (control_reply_json (reply_message X mac C now r result)))"

text \<open>One connection: the reply's frame or the error that closes the stream, and the states of the
  guard and of the handler, which keep what they recorded even when no reply leaves. The two clock
  readings are those of the validation and of the reply.\<close>

definition handle_control_stream ::
    "externals \<Rightarrow> mac \<Rightarrow> (bytes \<Rightarrow> RuntimeControlRequestV1 option) \<Rightarrow> server_config
     \<Rightarrow> 'h control_handler \<Rightarrow> i64 option \<Rightarrow> i64 option \<Rightarrow> bytes \<Rightarrow> seen \<times> 'h
     \<Rightarrow> (RuntimeControlError + bytes) \<times> (seen \<times> 'h)" where
  "handle_control_stream X mac parse C H clock reply_clock stream = (\<lambda>(seen, h).
     case read_control_message parse stream of
       Inl e \<Rightarrow> (Inl e, (seen, h))
     | Inr r \<Rightarrow> (case verify_control_request X mac C clock r seen of
         (Inl e, seen') \<Rightarrow> (Inl e, (seen', h))
       | (Inr _, seen') \<Rightarrow>
           (let (result, h') = dispatch H r h
            in (control_reply X mac C reply_clock r result, (seen', h')))))"

subsection \<open>The client\<close>

definition verify_control_reply ::
    "externals \<Rightarrow> mac \<Rightarrow> RuntimeControlReplyV1 \<Rightarrow> RuntimeControlRequestV1 \<Rightarrow> bytes \<Rightarrow> i64 option
     \<Rightarrow> nat \<Rightarrow> RuntimeControlError + unit" where
  "verify_control_reply X mac reply r owner_secret clock skew =
     (if cy_protocol_version reply \<noteq> PROTOCOL_VERSION \<or> cy_request_id reply \<noteq> cq_request_id r
         \<or> cy_nonce reply \<noteq> cq_nonce r \<or> \<not> is_lower_hex (cy_authentication_mac reply) 64
      then Inl InvalidRequest
      else rbind (verify_mac mac (reply_signing_bytes X reply) (cy_authentication_mac reply)
          owner_secret SERVER_AUTH_DOMAIN) (\<lambda>_.
        rbind (validate_timestamp clock (cy_issued_at_ms reply) skew) (\<lambda>_. Inr ())))"

text \<open>\<open>RuntimeControlClient::exchange\<close> up to the request it writes and from the reply it reads. The
  random identities are 64 hexadecimal digits of 32 random bytes, \<open>None\<close> where the system gives
  none.\<close>

definition exchange_request ::
    "externals \<Rightarrow> mac \<Rightarrow> RuntimeControlScopeV1 \<Rightarrow> bytes \<Rightarrow> bytes option \<Rightarrow> bytes option \<Rightarrow> i64 option
     \<Rightarrow> RuntimeControlOperationV1 \<Rightarrow> RuntimeControlError + RuntimeControlRequestV1" where
  "exchange_request X mac scope owner_secret request_random nonce_random clock operation =
     rbind (of_option Transport request_random) (\<lambda>request.
     rbind (of_option Transport nonce_random) (\<lambda>nonce.
     rbind (of_option Timestamp clock) (\<lambda>now.
     Inr (sign_control_request X mac owner_secret
       \<lparr>cq_protocol_version = PROTOCOL_VERSION, cq_scope = scope,
        cq_request_id = hex_encode request, cq_nonce = hex_encode nonce, cq_issued_at_ms = now,
        cq_operation = operation, cq_authentication_mac = []\<rparr>))))"

definition exchange_result ::
    "externals \<Rightarrow> mac \<Rightarrow> (bytes \<Rightarrow> RuntimeControlReplyV1 option) \<Rightarrow> RuntimeControlRequestV1 \<Rightarrow> bytes
     \<Rightarrow> i64 option \<Rightarrow> nat \<Rightarrow> bytes \<Rightarrow> RuntimeControlError + RuntimeControlResultV1" where
  "exchange_result X mac parse r owner_secret clock skew stream =
     rbind (read_control_message parse stream) (\<lambda>reply.
     rbind (verify_control_reply X mac reply r owner_secret clock skew) (\<lambda>_.
     case cy_result reply of
       RejectedResult code \<Rightarrow> Inl InvalidRequest
     | result \<Rightarrow> Inr result))"

definition client_status :: "RuntimeControlError + RuntimeControlResultV1 \<Rightarrow> RuntimeControlError + StatusReplyV1" where
  "client_status exchanged = rbind exchanged (\<lambda>result.
     case result of StatusResult reply \<Rightarrow> Inr reply | _ \<Rightarrow> Inl InvalidRequest)"

definition client_attach ::
    "string \<Rightarrow> RuntimeControlError + RuntimeControlResultV1 \<Rightarrow> RuntimeControlError + AttachReplyV1" where
  "client_attach client exchanged =
     (if \<not> is_safe_text client 256 then Inl InvalidRequest
      else rbind exchanged (\<lambda>result.
        case result of AttachedResult reply \<Rightarrow> Inr reply | _ \<Rightarrow> Inl InvalidRequest))"

definition client_graceful_shutdown ::
    "GracefulShutdownRequestV1 \<Rightarrow> RuntimeControlError + RuntimeControlResultV1
     \<Rightarrow> RuntimeControlError + GracefulShutdownDispositionV1" where
  "client_graceful_shutdown r exchanged =
     rbind (validate_graceful_shutdown_request r) (\<lambda>_.
     rbind exchanged (\<lambda>result.
       case result of GracefulShutdownResult reply \<Rightarrow> Inr reply | _ \<Rightarrow> Inl InvalidRequest))"

end
