(* ===== verification/ControlSafety.thy ===== *)
theory ControlSafety
  imports RuntimeControl ActiveWork
begin

text \<open>
  What the control channel guarantees: the replay guard accepts a message once when its calls see a
  clock that does not go back, and twice when they do not; the handler runs for authenticated
  messages only; a client and a server that share scope and secret understand each other.
\<close>

subsection \<open>The replay guard\<close>

text \<open>The calls in the order in which they take the guard's lock: identity, nonce, time of issue and
  the clock sampled before the lock. \<open>accepted_calls\<close> are the messages let through.\<close>

type_synonym guard_call = "string \<times> string \<times> i64 \<times> i64"

fun accepted_calls :: "nat \<Rightarrow> guard_call list \<Rightarrow> seen \<Rightarrow> (string \<times> string \<times> i64) list" where
  "accepted_calls skew [] seen = []"
| "accepted_calls skew ((request, nonce, issued, now) # calls) seen =
     (case check_and_record request nonce issued now skew seen of
        (Inr _, seen') \<Rightarrow> (request, nonce, issued) # accepted_calls skew calls seen'
      | (Inl _, seen') \<Rightarrow> accepted_calls skew calls seen')"

definition call_clock :: "guard_call \<Rightarrow> int" where
  "call_clock = (\<lambda>(request, nonce, issued, now). sint now)"

definition clock_order :: "guard_call list \<Rightarrow> bool" where
  "clock_order calls \<longleftrightarrow> sorted (map call_clock calls)"

lemma oldest_accepted:
  assumes "0 < sint now" and "skew < 2 ^ 63"
  shows "sint (i64_saturating_sub now (word_of_int (int skew))) = sint now - int skew"
proof -
  have "sint (word_of_int (int skew) :: i64) = int skew"
    using sint_word_of_nat [of skew] assms(2) by simp
  then show ?thesis
    using assms sint_i64_bounds [of now] by (simp add: sint_saturating i64_min_def i64_max_def)
qed

text \<open>What one call does to an identity that is recorded, or too old to be accepted.\<close>

definition blocked :: "nat \<Rightarrow> seen \<Rightarrow> int \<Rightarrow> string \<times> string \<times> i64 \<Rightarrow> bool" where
  "blocked skew seen now = (\<lambda>(request, nonce, issued).
     seen (request, nonce) = Some issued \<or> sint issued < now - int skew)"

lemma check_blocked:
  assumes "check_and_record r n i now skew seen = (out, seen')" and "blocked skew seen t k"
    and "t \<le> sint now"
  shows "blocked skew seen' (sint now) k \<and> (is_ok out \<longrightarrow> (r, n, i) \<noteq> k)"
proof (cases k)
  case (fields r' n' i')
  show ?thesis
  proof (cases "skew < 2 ^ 63 \<and> 0 < sint i \<and> 0 < sint now \<and> \<not> outside_skew i now (int skew)")
    case False
    then have "out = Inl Replay" "seen' = seen"
      using assms(1) by (auto simp: check_and_record_def skew_bound_def split: if_splits)
    then show ?thesis using assms(2,3) by (auto simp: blocked_def fields)
  next
    case True
    define oldest where "oldest = i64_saturating_sub now (word_of_int (int skew))"
    have o: "sint oldest = sint now - int skew"
      unfolding oldest_def using True by (intro oldest_accepted) simp_all
    have run: "(out, seen') = (if retain_recent oldest seen (r, n) \<noteq> None
        then (Inl Replay, retain_recent oldest seen)
        else (Inr (), (retain_recent oldest seen)((r, n) \<mapsto> i)))"
      unfolding assms(1) [symmetric] check_and_record_def oldest_def
      using True by (simp add: skew_bound_def Let_def)
    have "retain_recent oldest seen (r', n') = Some i' \<or> sint i' < sint now - int skew"
      using assms(2,3) by (auto simp: blocked_def fields retain_recent_def o)
    moreover have "sint now - int skew \<le> sint i"
      using True unfolding outside_skew_def by linarith
    ultimately show ?thesis
      using run by (auto simp: blocked_def fields split: if_splits)
  qed
qed

lemma blocked_not_accepted:
  assumes "blocked skew seen t k" and "clock_order calls" and "\<forall>c \<in> set calls. t \<le> call_clock c"
  shows "k \<notin> set (accepted_calls skew calls seen)"
  using assms
proof (induction calls arbitrary: seen t)
  case (Cons c calls)
  obtain r n i now where c: "c = (r, n, i, now)" by (cases c) auto
  obtain out seen' where run: "check_and_record r n i now skew seen = (out, seen')" by fastforce
  have b: "blocked skew seen' (sint now) k \<and> (is_ok out \<longrightarrow> (r, n, i) \<noteq> k)"
    using Cons.prems(3) by (intro check_blocked [OF run Cons.prems(1)]) (simp add: c call_clock_def)
  have "k \<notin> set (accepted_calls skew calls seen')"
    using Cons.prems(2) b by (intro Cons.IH [of seen' "sint now"])
      (auto simp: clock_order_def c call_clock_def)
  then show ?case
    using b by (cases out) (auto simp: c run)
qed simp

text \<open>C12: no message is accepted twice. However many calls race for the guard, when the clocks they
  sampled do not go back in the order in which they take its lock, the messages it accepts are all
  different: a message stays recorded for as long as its time of issue is inside the window, and
  when it is dropped no later clock accepts it.\<close>

theorem replay_accepted_once:
  assumes "clock_order calls"
  shows "distinct (accepted_calls skew calls seen)"
  using assms
proof (induction calls arbitrary: seen)
  case (Cons c calls)
  obtain r n i now where c: "c = (r, n, i, now)" by (cases c) auto
  obtain out seen' where run: "check_and_record r n i now skew seen = (out, seen')" by fastforce
  have order: "clock_order calls" "\<forall>d \<in> set calls. sint now \<le> call_clock d"
    using Cons.prems by (auto simp: clock_order_def c call_clock_def)
  show ?case
  proof (cases out)
    case (Inr u)
    then have "seen' (r, n) = Some i"
      using run by (auto simp: check_and_record_def Let_def split: sum.splits if_splits)
    then have "(r, n, i) \<notin> set (accepted_calls skew calls seen')"
      using order by (intro blocked_not_accepted [of _ _ "sint now"]) (simp_all add: blocked_def)
    then show ?thesis using Inr Cons.IH [OF order(1)] by (simp add: c run)
  qed (simp add: c run Cons.IH [OF order(1)])
qed simp

theorem replay_accepted_once_witness:
  "accepted_calls 10 [(''a'', ''b'', 100, 100), (''c'', ''d'', 105, 108), (''a'', ''b'', 100, 110)] Map.empty
     = [(''a'', ''b'', 100), (''c'', ''d'', 105)]
   \<and> distinct (accepted_calls 10 [(''a'', ''b'', 100, 100), (''c'', ''d'', 105, 108),
       (''a'', ''b'', 100, 110)] Map.empty)"
  using replay_accepted_once [of "[(''a'', ''b'', 100, 100), (''c'', ''d'', 105, 108),
       (''a'', ''b'', 100, 110)]" 10 Map.empty]
  by (simp add: clock_order_def call_clock_def check_and_record_def skew_bound_def outside_skew_def
      retain_recent_def sint_saturating i64_min_def i64_max_def Let_def)

text \<open>C38: the guard samples the clock before it takes its lock, and a replay can win the race. Three
  calls whose clocks are within the window: the message, another message, and the first one again,
  whose call read its clock before the second did and takes the lock after it. The second call drops
  the record that the third needed, and the replay is accepted; in the order of their clocks the
  same calls accept the message once.\<close>

theorem replay_accepted_in_race:
  "\<exists>calls ordered. mset calls = mset ordered \<and> clock_order ordered
     \<and> accepted_calls 10 calls Map.empty
         = [(''a'', ''b'', 100), (''c'', ''d'', 111), (''a'', ''b'', 100)]
     \<and> accepted_calls 10 ordered Map.empty = [(''a'', ''b'', 100), (''c'', ''d'', 111)]"
  by (intro exI [of _ "[(''a'', ''b'', 100, 100), (''c'', ''d'', 111, 111), (''a'', ''b'', 100, 110)]"]
        exI [of _ "[(''a'', ''b'', 100, 100), (''a'', ''b'', 100, 110), (''c'', ''d'', 111, 111)]"])
     (simp add: clock_order_def call_clock_def check_and_record_def skew_bound_def outside_skew_def
      retain_recent_def sint_saturating i64_min_def i64_max_def Let_def)

subsection \<open>Authenticated messages\<close>

lemma lower_hex_digit_iff: "is_ascii_hexdigit c \<and> \<not> is_ascii_uppercase c \<longleftrightarrow> is_lower_hex_digit c"
  by (auto simp: is_ascii_hexdigit_def is_lower_hex_digit_def is_ascii_uppercase_def is_ascii_digit_def)

lemma is_lower_hex_encode [simp]: "is_lower_hex (hex_encode bs) n \<longleftrightarrow> 2 * length bs = n"
  using hex_encode_lower [of bs] by (simp add: is_lower_hex_def lower_hex_digit_iff)

lemma verify_mac_Inr:
  "verify_mac mac bs supplied key domain = Inr u
   \<longleftrightarrow> length (mac key (mac_input domain bs)) = 32 \<and> supplied = mac_hex mac bs key domain"
proof -
  have "hex_decode_32 supplied = Inr tag \<longleftrightarrow> length tag = 32 \<and> hex_encode tag = supplied" for tag
    using hex_decode_Some [of 32 supplied tag]
    by (auto simp: hex_decode_32_def hex_decode_def is_lower_hex_def split: if_splits)
      (use is_lower_hex_encode [of tag 64] in \<open>simp add: is_lower_hex_def\<close>)
  then show ?thesis
    by (auto simp: verify_mac_def mac_hex_def split: if_splits)
qed

lemma signing_ignores_mac [simp]:
  "request_signing_bytes X (r\<lparr>cq_authentication_mac := m\<rparr>) = request_signing_bytes X r"
  "reply_signing_bytes X (y\<lparr>cy_authentication_mac := m\<rparr>) = reply_signing_bytes X y"
  by (simp_all add: request_signing_bytes_def reply_signing_bytes_def)

lemma signed_request [simp]:
  "request_signing_bytes X (sign_control_request X mac key r) = request_signing_bytes X r"
  "cq_authentication_mac (sign_control_request X mac key r)
     = mac_hex mac (request_signing_bytes X r) key CLIENT_AUTH_DOMAIN"
  "sign_control_request X mac key (sign_control_request X mac key r) = sign_control_request X mac key r"
  "cq_protocol_version (sign_control_request X mac key r) = cq_protocol_version r"
  "cq_scope (sign_control_request X mac key r) = cq_scope r"
  "cq_request_id (sign_control_request X mac key r) = cq_request_id r"
  "cq_nonce (sign_control_request X mac key r) = cq_nonce r"
  "cq_issued_at_ms (sign_control_request X mac key r) = cq_issued_at_ms r"
  "cq_operation (sign_control_request X mac key r) = cq_operation r"
  by (simp_all add: sign_control_request_def)

lemma signed_reply [simp]:
  "reply_signing_bytes X (sign_reply X mac key y) = reply_signing_bytes X y"
  "cy_authentication_mac (sign_reply X mac key y)
     = mac_hex mac (reply_signing_bytes X y) key SERVER_AUTH_DOMAIN"
  "cy_protocol_version (sign_reply X mac key y) = cy_protocol_version y"
  "cy_request_id (sign_reply X mac key y) = cy_request_id y"
  "cy_nonce (sign_reply X mac key y) = cy_nonce y"
  "cy_issued_at_ms (sign_reply X mac key y) = cy_issued_at_ms y"
  "cy_result (sign_reply X mac key y) = cy_result y"
  by (simp_all add: sign_reply_def)

lemma length_mac_hex: "length (mac key (mac_input domain bs)) = 32 \<Longrightarrow> is_lower_hex (mac_hex mac bs key domain) 64"
  by (simp add: mac_hex_def)

text \<open>A message that the server may act on at a clock reading.\<close>

definition authentic ::
    "externals \<Rightarrow> mac \<Rightarrow> server_config \<Rightarrow> i64 \<Rightarrow> seen \<Rightarrow> RuntimeControlRequestV1 \<Rightarrow> bool" where
  "authentic X mac C now seen r \<longleftrightarrow>
     cq_scope r = sc_scope C \<and> validate_request_shape r = Inr ()
     \<and> sign_control_request X mac (sc_owner_secret C) r = r
     \<and> \<not> outside_skew (cq_issued_at_ms r) now (int (sc_max_clock_skew C))
     \<and> fst (check_and_record (cq_request_id r) (cq_nonce r) (cq_issued_at_ms r) now
         (sc_max_clock_skew C) seen) = Inr ()"

lemma verified_authentic:
  assumes "verify_control_request X mac C clock r seen = (Inr u, seen')"
  shows "\<exists>now. clock = Some now \<and> authentic X mac C now seen r"
proof -
  obtain now where
    checks: "rbind (validate_request_shape r) (\<lambda>_.
           if cq_scope r \<noteq> sc_scope C then Inl InvalidRequest
           else rbind (verify_mac mac (request_signing_bytes X r) (cq_authentication_mac r)
               (sc_owner_secret C) CLIENT_AUTH_DOMAIN) (\<lambda>_.
             validate_timestamp clock (cq_issued_at_ms r) (sc_max_clock_skew C))) = Inr now" and
    guard: "check_and_record (cq_request_id r) (cq_nonce r) (cq_issued_at_ms r) now
          (sc_max_clock_skew C) seen = (Inr u, seen')"
    using assms by (auto simp: verify_control_request_def split: sum.splits)
  have "cq_scope r = sc_scope C" "validate_request_shape r = Inr ()"
    "cq_authentication_mac r = mac_hex mac (request_signing_bytes X r) (sc_owner_secret C) CLIENT_AUTH_DOMAIN"
    "validate_timestamp clock (cq_issued_at_ms r) (sc_max_clock_skew C) = Inr now"
    using checks by (auto simp: verify_mac_Inr split: if_splits)
  moreover from this have "clock = Some now"
      "\<not> outside_skew (cq_issued_at_ms r) now (int (sc_max_clock_skew C))"
    by (auto simp: validate_timestamp_def skew_bound_def split: if_splits)
  ultimately show ?thesis
    using guard by (simp add: authentic_def sign_control_request_def)
qed

text \<open>C11: nothing reaches the runtime's handler but what the owner signed, once and in time. When a
  connection changes the handler's state, the stream held a well-formed request for this server's
  scope that carries, letter for letter, the MAC its signer writes under the shared secret, issued
  within the clock window and not seen before; and the new state is the handler's answer to it.\<close>

theorem handler_only_authentic:
  assumes "handle_control_stream X mac parse C H clock reply_clock stream (seen, h) = (out, (seen', h'))"
    and "h' \<noteq> h"
  shows "\<exists>r now. read_control_message parse stream = Inr r \<and> clock = Some now \<and> authentic X mac C now seen r
    \<and> h' = snd (dispatch H r h)"
proof -
  obtain r where r: "read_control_message parse stream = Inr r"
    using assms by (cases "read_control_message parse stream") (simp_all add: handle_control_stream_def)
  obtain v seen2 where v: "verify_control_request X mac C clock r seen = (v, seen2)" by fastforce
  with assms r obtain u where u: "v = Inr u" "h' = snd (dispatch H r h)"
    by (cases v) (auto simp: handle_control_stream_def split: prod.splits)
  then show ?thesis using r verified_authentic v by blast
qed

subsection \<open>An exchange\<close>

text \<open>Documented of the derived (de)serializers: a parser reads back the message at hand.\<close>

definition reads_back_as :: "externals \<Rightarrow> (bytes \<Rightarrow> 'a option) \<Rightarrow> ('a \<Rightarrow> json) \<Rightarrow> 'a \<Rightarrow> bool" where
  "reads_back_as X parse to_json v \<longleftrightarrow> parse (canonical_json_bytes X (to_json v)) = Some v"

lemma read_encoded:
  assumes "encode_control_frame X v = Inr frame"
  shows "read_control_message parse frame = of_option Frame (parse (canonical_json_bytes X v))"
proof -
  have "length (canonical_json_bytes X v) \<le> MAX_FRAME_BYTES"
    "frame = be_bytes 4 (length (canonical_json_bytes X v)) @ canonical_json_bytes X v"
    using assms by (auto simp: encode_control_frame_def Let_def split: if_splits)
  then show ?thesis
    by (simp add: read_control_message_def MAX_FRAME_BYTES_def Let_def)
qed

definition operation_valid :: "RuntimeControlOperationV1 \<Rightarrow> bool" where
  "operation_valid operation = (case operation of
     StatusOp \<Rightarrow> True | AttachOp client \<Rightarrow> is_safe_text client 256
   | GracefulShutdownOp s \<Rightarrow> validate_graceful_shutdown_request s = Inr ())"

lemma exchange_shape:
  assumes "exchange_request X mac scope secret (Some q) (Some n) (Some t) operation = Inr r"
    and "scope_validate scope = Inr ()" and "operation_valid operation"
    and "length q = 32" and "length n = 32" and "0 < sint t" and "\<And>k m. length (mac k m) = 32"
  shows "validate_request_shape r = Inr () \<and> cq_scope r = scope \<and> cq_issued_at_ms r = t
    \<and> cq_request_id r = hex_encode q \<and> cq_nonce r = hex_encode n
    \<and> sign_control_request X mac secret r = r"
proof -
  have r: "r = sign_control_request X mac secret
       \<lparr>cq_protocol_version = PROTOCOL_VERSION, cq_scope = scope,
        cq_request_id = hex_encode q, cq_nonce = hex_encode n, cq_issued_at_ms = t,
        cq_operation = operation, cq_authentication_mac = []\<rparr>"
    using assms(1) by (simp add: exchange_request_def)
  show ?thesis
    unfolding r using assms(2-)
    by (auto simp: validate_request_shape_def length_mac_hex operation_valid_def
        split: RuntimeControlOperationV1.splits)
qed

text \<open>The clock of one side is within the window of the other's.\<close>

definition in_window :: "nat \<Rightarrow> i64 \<Rightarrow> i64 \<Rightarrow> bool" where
  "in_window skew a b \<longleftrightarrow> 0 < sint a \<and> 0 < sint b \<and> \<bar>sint a - sint b\<bar> \<le> int skew \<and> skew < 2 ^ 63"

lemma timestamp_in_window:
  "in_window skew issued now \<Longrightarrow> validate_timestamp (Some now) issued skew = Inr now"
  by (simp add: in_window_def validate_timestamp_def skew_bound_def outside_skew_def)

lemma check_fresh:
  assumes "in_window skew issued now" and "seen (request, nonce) = None"
  shows "\<exists>seen'. check_and_record request nonce issued now skew seen = (Inr (), seen')"
  using assms by (simp add: in_window_def check_and_record_def skew_bound_def outside_skew_def
      retain_recent_def Let_def)

text \<open>A message that fits into one frame.\<close>

definition fits_frame :: "externals \<Rightarrow> json \<Rightarrow> bool" where
  "fits_frame X v \<longleftrightarrow> length (canonical_json_bytes X v) \<le> MAX_FRAME_BYTES"

lemma fits_encodes: "fits_frame X v \<Longrightarrow> \<exists>frame. encode_control_frame X v = Inr frame"
  by (simp add: fits_frame_def encode_control_frame_def MAX_FRAME_BYTES_def Let_def)

text \<open>C18: a client and a server that share scope and secret complete an exchange. When the scope and the
  operation are valid, the random identities have not been seen by the guard, the clocks are
  within the window, and request and reply fit into a frame and are read back as they were
  written, then the client's request is sent, the server accepts it, hands the operation to its
  handler once and answers, and the client accepts the answer as exactly the handler's result; a
  rejection is reported as an invalid request.\<close>

theorem exchange_delivers:
  assumes "exchange_request X mac (sc_scope C) (sc_owner_secret C) (Some q) (Some n) (Some t) operation = Inr r"
    and "scope_validate (sc_scope C) = Inr ()" and "operation_valid operation"
    and "length q = 32" and "length n = 32" and "\<forall>k m. length (mac k m) = 32"
    and "seen (hex_encode q, hex_encode n) = None"
    and "in_window (sc_max_clock_skew C) t now" and "in_window skew replied later_now"
    and "fits_frame X (control_request_json r)" and "reads_back_as X parse_request control_request_json r"
    and "reply = reply_message X mac C replied r (fst (dispatch H r h))"
    and "fits_frame X (control_reply_json reply)" and "reads_back_as X parse_reply control_reply_json reply"
  shows "\<exists>frame answer seen'. encode_control_frame X (control_request_json r) = Inr frame
    \<and> handle_control_stream X mac parse_request C H (Some now) (Some replied) frame (seen, h)
      = (Inr answer, (seen', snd (dispatch H r h)))
    \<and> exchange_result X mac parse_reply r (sc_owner_secret C) (Some later_now) skew answer
      = (case fst (dispatch H r h) of RejectedResult code \<Rightarrow> Inl InvalidRequest | result \<Rightarrow> Inr result)"
proof -
  obtain frame where frame: "encode_control_frame X (control_request_json r) = Inr frame"
    using fits_encodes [OF assms(10)] by blast
  obtain answer where answer: "encode_control_frame X (control_reply_json reply) = Inr answer"
    using fits_encodes [OF assms(13)] by blast
  have shape: "validate_request_shape r = Inr ()" "cq_scope r = sc_scope C" "cq_issued_at_ms r = t"
    "cq_request_id r = hex_encode q" "cq_nonce r = hex_encode n"
    "sign_control_request X mac (sc_owner_secret C) r = r"
    using exchange_shape [OF assms(1-5)] assms(6,8) by (simp_all add: in_window_def)
  have mac: "cq_authentication_mac r = mac_hex mac (request_signing_bytes X r) (sc_owner_secret C) CLIENT_AUTH_DOMAIN"
    using shape(6) signed_request(2) by metis
  then have "verify_mac mac (request_signing_bytes X r) (cq_authentication_mac r) (sc_owner_secret C)
      CLIENT_AUTH_DOMAIN = Inr ()"
    using assms(6) by (simp add: verify_mac_Inr)
  moreover obtain seen' where "check_and_record (cq_request_id r) (cq_nonce r) (cq_issued_at_ms r) now
      (sc_max_clock_skew C) seen = (Inr (), seen')"
    unfolding shape(3-5) using check_fresh [where seen = seen, OF assms(8,7)] by blast
  ultimately have verified: "verify_control_request X mac C (Some now) r seen = (Inr (), seen')"
    using shape timestamp_in_window [OF assms(8)] by (simp add: verify_control_request_def)
  have read: "read_control_message parse_request frame = Inr r"
    using read_encoded [OF frame, of parse_request] assms(11) by (simp add: reads_back_as_def)
  obtain result h2 where d: "dispatch H r h = (result, h2)" by fastforce
  have served: "handle_control_stream X mac parse_request C H (Some now) (Some replied) frame (seen, h)
      = (Inr answer, (seen', h2))"
    using read verified d answer assms(12)
    by (simp add: handle_control_stream_def control_reply_def)
  have "read_control_message parse_reply answer = Inr reply"
    using read_encoded [OF answer, of parse_reply] assms(14) by (simp add: reads_back_as_def)
  moreover have "verify_control_reply X mac reply r (sc_owner_secret C) (Some later_now) skew = Inr ()"
    using assms(6) timestamp_in_window [OF assms(9)]
    by (simp add: verify_control_reply_def assms(12) reply_message_def verify_mac_Inr length_mac_hex)
  moreover have "cy_result reply = result" using d by (simp add: assms(12) reply_message_def)
  ultimately show ?thesis
    using frame served d by (simp add: exchange_result_def)
qed

subsection \<open>A concrete exchange\<close>

definition control_scope :: RuntimeControlScopeV1 where
  "control_scope = \<lparr>cp_canonical_root_identity = ''sha256:'' @ hex_encode (digest32 []),
     cp_profile_identity = ''p'', cp_os_user_identity_digest = hex_encode (digest32 [])\<rparr>"

definition control_config :: server_config where
  "control_config = \<lparr>sc_scope = control_scope, sc_owner_secret = digest32 [], sc_max_clock_skew = 60000\<rparr>"

text \<open>A handler that counts the shutdown requests it is given.\<close>

definition counting_handler :: "nat control_handler" where
  "counting_handler = \<lparr>ch_status = (\<lambda>n. Inl Unavailable),
     ch_attach = (\<lambda>client n. Inr \<lparr>at_runtime_host_generation = of_nat n, at_runtime_host_instance_id = client\<rparr>),
     ch_graceful_shutdown = (\<lambda>context request n. (Inr (Rejected SupervisorUnavailable), Suc n))\<rparr>"

definition sample_shutdown :: RuntimeControlOperationV1 where
  "sample_shutdown = GracefulShutdownOp \<lparr>gs_client_instance_id = ''c'', gs_runtime_host_generation = 1,
     gs_runtime_host_instance_id = ''h'', gs_confirmation = None\<rparr>"

definition control_request :: RuntimeControlRequestV1 where
  "control_request = sign_control_request wire_externals (\<lambda>k m. digest32 m) (digest32 [])
     \<lparr>cq_protocol_version = PROTOCOL_VERSION, cq_scope = control_scope,
      cq_request_id = hex_encode (digest32 []), cq_nonce = hex_encode (digest32 []),
      cq_issued_at_ms = 5, cq_operation = sample_shutdown, cq_authentication_mac = []\<rparr>"

definition control_frame :: bytes where
  "control_frame = header_frame 4 (canonical_json_bytes wire_externals (control_request_json control_request))"

definition only_message :: "bytes \<Rightarrow> 'a \<Rightarrow> bytes \<Rightarrow> 'a option" where
  "only_message text v bs = (if bs = text then Some v else None)"

lemma sum_list_sort_key: "sum_list (map f (sort_key k xs)) = sum_list (map f xs)"
  for f :: "'b \<Rightarrow> nat"
  by (metis mset_map mset_sort sum_mset_sum_list)

lemma length_raw_canonical: "length (raw_json (canonicalize v)) = length (raw_json v)"
proof (induction v)
  case (JArray vs)
  then show ?case by (simp add: length_concat comp_def cong: map_cong)
next
  case (JObject ms)
  let ?n = "\<lambda>(k, v). length (k @ raw_json v)"
  have "sum_list (map ?n (sort_key fst (map (\<lambda>(k, v). (k, canonicalize v)) ms)))
      = sum_list (map ?n (map (\<lambda>(k, v). (k, canonicalize v)) ms))"
    by (rule sum_list_sort_key)
  also have "\<dots> = sum_list (map ?n ms)"
    using JObject by (auto simp: comp_def intro!: arg_cong [of _ _ sum_list])
  finally show ?case by (simp add: length_concat comp_def case_prod_unfold)
qed simp_all

lemma length_wire_bytes: "length (canonical_json_bytes wire_externals v) = length (raw_json v)"
  by (simp add: canonical_json_bytes_def wire_externals_def raw_externals_def length_raw_canonical)

lemma length_control_request:
  "length (canonical_json_bytes wire_externals (control_request_json control_request)) \<le> MAX_FRAME_BYTES"
  by (simp add: length_wire_bytes control_request_json_def control_request_def sample_shutdown_def
      shutdown_request_json_def control_scope_json_def control_scope_def json_option_def json_i64_def
      PROTOCOL_VERSION_def mac_hex_def MAX_FRAME_BYTES_def show_int_def show_nat.simps)

lemma control_frame_encoded:
  "encode_control_frame wire_externals (control_request_json control_request) = Inr control_frame"
  using length_control_request
  by (simp add: encode_control_frame_def control_frame_def header_frame_def MAX_FRAME_BYTES_def Let_def)

lemma control_exchange_request:
  "exchange_request wire_externals (\<lambda>k m. digest32 m) (sc_scope control_config)
     (sc_owner_secret control_config) (Some (digest32 [])) (Some (digest32 [])) (Some 5) sample_shutdown
   = Inr control_request"
  by (simp add: exchange_request_def control_request_def control_config_def)

lemma control_scope_valid: "scope_validate control_scope = Inr ()"
  by (simp add: scope_validate_def control_scope_def is_sha256_identity_def is_safe_text_def visible_def)

definition control_answer :: RuntimeControlReplyV1 where
  "control_answer = reply_message wire_externals (\<lambda>k m. digest32 m) control_config 7 control_request
     (GracefulShutdownResult (Rejected SupervisorUnavailable))"

lemma length_control_answer:
  "length (canonical_json_bytes wire_externals (control_reply_json control_answer)) \<le> MAX_FRAME_BYTES"
  by (simp add: length_wire_bytes control_reply_json_def control_answer_def reply_message_def
      control_request_def json_i64_def PROTOCOL_VERSION_def mac_hex_def MAX_FRAME_BYTES_def
      show_int_def show_nat.simps)

definition parse_control_request :: "bytes \<Rightarrow> RuntimeControlRequestV1 option" where
  "parse_control_request = only_message
     (canonical_json_bytes wire_externals (control_request_json control_request)) control_request"

definition parse_control_answer :: "bytes \<Rightarrow> RuntimeControlReplyV1 option" where
  "parse_control_answer = only_message
     (canonical_json_bytes wire_externals (control_reply_json control_answer)) control_answer"

definition run_control_exchange :: "(RuntimeControlError + bytes) \<times> (seen \<times> nat)" where
  "run_control_exchange = handle_control_stream wire_externals (\<lambda>k m. digest32 m) parse_control_request
     control_config counting_handler (Some 6) (Some 7) control_frame (Map.empty, 0)"

lemma control_exchange_shape:
  "validate_request_shape control_request = Inr () \<and> cq_scope control_request = control_scope
    \<and> cq_issued_at_ms control_request = 5 \<and> cq_request_id control_request = hex_encode (digest32 [])
    \<and> cq_nonce control_request = hex_encode (digest32 [])
    \<and> sign_control_request wire_externals (\<lambda>k m. digest32 m) (digest32 []) control_request = control_request"
proof -
  have "operation_valid sample_shutdown"
    by (simp add: operation_valid_def sample_shutdown_def validate_graceful_shutdown_request_def
        is_safe_text_def visible_def)
  moreover have "exchange_request wire_externals (\<lambda>k m. digest32 m) control_scope (digest32 [])
      (Some (digest32 [])) (Some (digest32 [])) (Some 5) sample_shutdown = Inr control_request"
    by (simp add: exchange_request_def control_request_def)
  ultimately show ?thesis
    by (intro exchange_shape [where mac = "\<lambda>k m. digest32 m"] control_scope_valid length_digest32) simp_all
qed

lemma control_dispatch:
  "dispatch counting_handler control_request 0 = (GracefulShutdownResult (Rejected SupervisorUnavailable), 1)"
  by (simp add: dispatch_def control_request_def sample_shutdown_def counting_handler_def or_rejected_def)

lemma control_exchange_run:
  "\<exists>answer seen'. run_control_exchange = (Inr answer, (seen', 1))"
proof -
  let ?mac = "\<lambda>k m :: bytes. digest32 m"
  have shape: "validate_request_shape control_request = Inr ()" "cq_scope control_request = control_scope"
    "cq_issued_at_ms control_request = 5"
    "sign_control_request wire_externals ?mac (digest32 []) control_request = control_request"
    using control_exchange_shape by simp_all
  have window: "in_window 60000 (5 :: i64) 6" by (simp add: in_window_def)
  obtain seen' where guard: "check_and_record (cq_request_id control_request) (cq_nonce control_request)
      5 6 60000 Map.empty = (Inr (), seen')"
    using check_fresh [OF window, of Map.empty] by auto
  have "verify_mac ?mac (request_signing_bytes wire_externals control_request)
      (cq_authentication_mac control_request) (digest32 []) CLIENT_AUTH_DOMAIN = Inr ()"
    using shape(4) signed_request(2) [of wire_externals ?mac "digest32 []" control_request]
    by (simp add: verify_mac_Inr)
  then have "verify_control_request wire_externals ?mac control_config (Some 6) control_request Map.empty
      = (Inr (), seen')"
    using shape(1-3) timestamp_in_window [OF window] guard
    by (simp add: verify_control_request_def control_config_def)
  moreover have "read_control_message parse_control_request control_frame = Inr control_request"
    using read_encoded [OF control_frame_encoded, of parse_control_request]
    by (simp add: parse_control_request_def only_message_def)
  moreover note control_dispatch
  moreover have "\<exists>answer. control_reply wire_externals ?mac control_config (Some 7) control_request
      (GracefulShutdownResult (Rejected SupervisorUnavailable)) = Inr answer"
    using length_control_answer
    by (simp add: control_reply_def encode_control_frame_def control_answer_def MAX_FRAME_BYTES_def Let_def)
  ultimately show ?thesis
    by (auto simp: run_control_exchange_def handle_control_stream_def)
qed

theorem handler_only_authentic_witness:
  "\<exists>now. authentic wire_externals (\<lambda>k m. digest32 m) control_config now Map.empty control_request
    \<and> snd (snd run_control_exchange) = 1"
proof -
  obtain answer seen' where run: "run_control_exchange = (Inr answer, (seen', 1))"
    using control_exchange_run by blast
  have "read_control_message parse_control_request control_frame = Inr control_request"
    using read_encoded [OF control_frame_encoded, of parse_control_request]
    by (simp add: parse_control_request_def only_message_def)
  then have "\<exists>now. authentic wire_externals (\<lambda>k m. digest32 m) control_config now Map.empty control_request"
    using handler_only_authentic [OF run [unfolded run_control_exchange_def]] by auto
  moreover have "snd (snd run_control_exchange) = 1" by (simp add: run)
  ultimately show ?thesis by blast
qed

theorem exchange_delivers_witness:
  "\<exists>answer. fst run_control_exchange = Inr answer
    \<and> exchange_result wire_externals (\<lambda>k m. digest32 m) parse_control_answer control_request
        (digest32 []) (Some 8) 60000 answer
      = Inr (GracefulShutdownResult (Rejected SupervisorUnavailable))"
proof -
  have "operation_valid sample_shutdown"
    by (simp add: operation_valid_def sample_shutdown_def validate_graceful_shutdown_request_def
        is_safe_text_def visible_def)
  moreover have "scope_validate (sc_scope control_config) = Inr ()"
    using control_scope_valid by (simp add: control_config_def)
  moreover have "in_window (sc_max_clock_skew control_config) (5 :: i64) 6" "in_window 60000 (7 :: i64) 8"
    by (simp_all add: in_window_def control_config_def)
  moreover have "fits_frame wire_externals (control_request_json control_request)"
      "fits_frame wire_externals (control_reply_json control_answer)"
    using length_control_request length_control_answer by (simp_all add: fits_frame_def)
  moreover have "reads_back_as wire_externals parse_control_request control_request_json control_request"
      "reads_back_as wire_externals parse_control_answer control_reply_json control_answer"
    by (simp_all add: reads_back_as_def parse_control_request_def parse_control_answer_def only_message_def)
  moreover have "control_answer = reply_message wire_externals (\<lambda>k m. digest32 m) control_config 7
      control_request (fst (dispatch counting_handler control_request 0))"
    by (simp add: control_dispatch control_answer_def)
  ultimately obtain frame answer seen' where
    frame: "encode_control_frame wire_externals (control_request_json control_request) = Inr frame"
    and run: "handle_control_stream wire_externals (\<lambda>k m. digest32 m) parse_control_request control_config
      counting_handler (Some 6) (Some 7) frame (Map.empty, 0) = (Inr answer, (seen', 1))"
    and got: "exchange_result wire_externals (\<lambda>k m. digest32 m) parse_control_answer control_request
      (sc_owner_secret control_config) (Some 8) 60000 answer
      = Inr (GracefulShutdownResult (Rejected SupervisorUnavailable))"
    using exchange_delivers [OF control_exchange_request, of Map.empty 6 60000 7 8 parse_control_request
        control_answer counting_handler 0 parse_control_answer] by (auto simp: control_dispatch)
  have "frame = control_frame" using frame control_frame_encoded by simp
  with run have "fst run_control_exchange = Inr answer" by (simp add: run_control_exchange_def)
  with got show ?thesis by (simp add: control_config_def)
qed

end
