(* ===== verification/GatewayControl.thy ===== *)
theory GatewayControl
  imports HostRuns ControlSafety
begin

text \<open>
  The gateway's handler of the control channel,
  \<^verbatim>\<open>crates/carsinos-gateway/src/runtime_control_host.rs\<close>: status and attach from one
  snapshot of the store, and the close control, which authorizes a graceful shutdown at most once,
  with active work only after the client confirmed the exact snapshot it was shown. The lock of the
  close control is never poisoned: nothing panics while it is held.
\<close>

subsection \<open>The close control\<close>

record PendingClose =
  pc_binding :: CloseConfirmationBindingV1
  pc_client_instance_id :: string
  pc_runtime_host_generation :: i64
  pc_runtime_host_instance_id :: string
  pc_active_work :: ActiveWorkStatusV1
  pc_active_work_binding_digest :: string

text \<open>\<open>cc_supervisor\<close> is \<open>None\<close> without a sender, else whether its receiver is still there;
  \<open>cc_sent\<close> is what the receiver was sent.\<close>

record CloseControl =
  cc_pending :: "PendingClose option"
  cc_authorized_authorization_id :: "string option"
  cc_supervisor :: "bool option"
  cc_sent :: "ShutdownAuthorizationV1 list"

definition new_close_control :: "bool option \<Rightarrow> CloseControl" where
  "new_close_control supervisor = \<lparr>cc_pending = None, cc_authorized_authorization_id = None,
     cc_supervisor = supervisor, cc_sent = []\<rparr>"

definition close_binding ::
    "externals \<Rightarrow> RuntimeControlRequestContextV1 \<Rightarrow> GracefulShutdownRequestV1 \<Rightarrow> ActiveWorkStatusV1
     \<Rightarrow> string \<Rightarrow> CloseConfirmationBindingV1" where
  "close_binding X context request work digest =
     \<lparr>cb_challenge = sha256_hex X (''carsinos.runtime-control.close-challenge.v1''
        @ header_frame 8 (cx_request_id context) @ header_frame 8 (cx_nonce context)
        @ word_bytes (cx_issued_at_ms context) @ header_frame 8 (gs_client_instance_id request)
        @ word_bytes (gs_runtime_host_generation request)
        @ header_frame 8 (gs_runtime_host_instance_id request)
        @ word_bytes (ws_active_work_count work) @ word_bytes (ws_nonterminal_delegation_count work)
        @ word_bytes (ws_nonterminal_continuation_count work)
        @ word_bytes (ws_nonterminal_effect_count work) @ header_frame 8 digest),
      cb_original_request_id = cx_request_id context, cb_original_nonce = cx_nonce context,
      cb_original_issued_at_ms = cx_issued_at_ms context\<rparr>"

definition shutdown_authorization ::
    "externals \<Rightarrow> RuntimeControlRequestContextV1 \<Rightarrow> GracefulShutdownRequestV1 \<Rightarrow> ActiveWorkStatusV1
     \<Rightarrow> string \<Rightarrow> ShutdownAuthorizationV1" where
  "shutdown_authorization X context request work digest =
     \<lparr>sa_authorization_id = sha256_hex X (''carsinos.runtime-control.shutdown-authorization.v1''
        @ header_frame 8 (cx_request_id context) @ header_frame 8 (cx_nonce context)
        @ word_bytes (cx_issued_at_ms context) @ header_frame 8 (gs_client_instance_id request)
        @ word_bytes (gs_runtime_host_generation request)
        @ header_frame 8 (gs_runtime_host_instance_id request)
        @ (case gs_confirmation request of None \<Rightarrow> [] | Some b \<Rightarrow> header_frame 8 (cb_challenge b))
        @ [char_of (if ws_active work then 1 else 0 :: nat)]
        @ word_bytes (ws_active_work_count work) @ header_frame 8 digest),
      sa_request_id = cx_request_id context, sa_nonce = cx_nonce context,
      sa_issued_at_ms = cx_issued_at_ms context,
      sa_client_instance_id = gs_client_instance_id request,
      sa_runtime_host_generation = gs_runtime_host_generation request,
      sa_runtime_host_instance_id = gs_runtime_host_instance_id request,
      sa_confirmed_active_work_binding_digest = (if ws_active work then Some digest else None),
      sa_confirmed_active_work_count = ws_active_work_count work\<rparr>"

definition close_consequence :: "i64 \<Rightarrow> string" where
  "close_consequence n = ''Closing now will pause '' @ show_int (sint n) @ '' ''
     @ (if n = 1 then ''active local work item'' else ''active local work items'')
     @ '' and stop the app-bound runtime.''"

type_synonym shutdown_reply = "RuntimeControlRejectionCodeV1 + GracefulShutdownDispositionV1"

definition rejected :: "GracefulShutdownRejectionReasonV1 \<Rightarrow> shutdown_reply" where
  "rejected reason = Inr (GracefulShutdownDispositionV1.Rejected reason)"

definition pending_matches ::
    "GracefulShutdownRequestV1 \<Rightarrow> StatusReplyV1 \<Rightarrow> string \<Rightarrow> PendingClose \<Rightarrow> bool" where
  "pending_matches request status digest p \<longleftrightarrow>
     pc_client_instance_id p = gs_client_instance_id request
     \<and> pc_runtime_host_generation p = gs_runtime_host_generation request
     \<and> pc_runtime_host_instance_id p = gs_runtime_host_instance_id request
     \<and> pc_active_work p = sp_active_work status \<and> pc_active_work_binding_digest p = digest"

definition challenge_pending ::
    "externals \<Rightarrow> StatusReplyV1 \<Rightarrow> string \<Rightarrow> RuntimeControlRequestContextV1
     \<Rightarrow> GracefulShutdownRequestV1 \<Rightarrow> PendingClose option \<Rightarrow> PendingClose" where
  "challenge_pending X status digest context request pending =
     (case pending of
        Some p \<Rightarrow> if pending_matches request status digest p then p
          else \<lparr>pc_binding = close_binding X context request (sp_active_work status) digest,
            pc_client_instance_id = gs_client_instance_id request,
            pc_runtime_host_generation = gs_runtime_host_generation request,
            pc_runtime_host_instance_id = gs_runtime_host_instance_id request,
            pc_active_work = sp_active_work status, pc_active_work_binding_digest = digest\<rparr>
      | None \<Rightarrow> \<lparr>pc_binding = close_binding X context request (sp_active_work status) digest,
            pc_client_instance_id = gs_client_instance_id request,
            pc_runtime_host_generation = gs_runtime_host_generation request,
            pc_runtime_host_instance_id = gs_runtime_host_instance_id request,
            pc_active_work = sp_active_work status, pc_active_work_binding_digest = digest\<rparr>)"

definition authorize_shutdown ::
    "externals \<Rightarrow> StatusReplyV1 \<Rightarrow> string \<Rightarrow> RuntimeControlRequestContextV1
     \<Rightarrow> GracefulShutdownRequestV1 \<Rightarrow> CloseControl \<Rightarrow> shutdown_reply \<times> CloseControl" where
  "authorize_shutdown X status digest context request cc =
     (let authorization = shutdown_authorization X context request (sp_active_work status) digest
      in if cc_supervisor cc \<noteq> Some True then (rejected SupervisorUnavailable, cc)
         else (Inr (Authorized authorization),
           cc\<lparr>cc_sent := cc_sent cc @ [authorization],
             cc_authorized_authorization_id := Some (sa_authorization_id authorization),
             cc_pending := None\<rparr>))"

definition decide ::
    "externals \<Rightarrow> StatusReplyV1 \<Rightarrow> string \<Rightarrow> RuntimeControlRequestContextV1
     \<Rightarrow> GracefulShutdownRequestV1 \<Rightarrow> CloseControl \<Rightarrow> shutdown_reply \<times> CloseControl" where
  "decide X status digest context request cc =
     (if sp_desired_mode status = BackgroundV1 then (rejected BackgroundMode, cc)
      else if sp_actual_state status \<noteq> RunningAppBoundV1 then (rejected NotRunningAppBound, cc)
      else if gs_runtime_host_generation request \<noteq> sp_runtime_host_generation status
        \<or> gs_runtime_host_instance_id request \<noteq> sp_runtime_host_instance_id status
      then (rejected StaleHostBinding, cc)
      else if cc_authorized_authorization_id cc \<noteq> None then (rejected AlreadyAuthorized, cc)
      else if ws_active (sp_active_work status) then
        (case gs_confirmation request of
           Some confirmation \<Rightarrow>
             (case cc_pending cc of
                None \<Rightarrow> (rejected InvalidConfirmation, cc)
              | Some p \<Rightarrow>
                  if confirmation \<noteq> pc_binding p
                    \<or> gs_client_instance_id request \<noteq> pc_client_instance_id p
                    \<or> gs_runtime_host_generation request \<noteq> pc_runtime_host_generation p
                    \<or> gs_runtime_host_instance_id request \<noteq> pc_runtime_host_instance_id p
                  then (rejected InvalidConfirmation, cc)
                  else if sp_active_work status \<noteq> pc_active_work p
                    \<or> digest \<noteq> pc_active_work_binding_digest p
                  then (rejected CloseStateChanged, cc)
                  else authorize_shutdown X status digest context request cc)
         | None \<Rightarrow>
             let p = challenge_pending X status digest context request (cc_pending cc)
             in (Inr (ConfirmationRequired (pc_active_work p)
                   (close_consequence (ws_active_work_count (pc_active_work p))) (pc_binding p)),
                 cc\<lparr>cc_pending := Some p\<rparr>))
      else if gs_confirmation request \<noteq> None then (rejected CloseStateChanged, cc)
      else authorize_shutdown X status digest context request cc)"

definition reject_shutdown_authorization :: "string \<Rightarrow> CloseControl \<Rightarrow> CloseControl" where
  "reject_shutdown_authorization authorization cc =
     (if cc_authorized_authorization_id cc = Some authorization
      then cc\<lparr>cc_authorized_authorization_id := None, cc_pending := None\<rparr> else cc)"

subsection \<open>The handler\<close>

fun map_actual_state :: "RuntimeActualState \<Rightarrow> RuntimeActualStateV1" where
  "map_actual_state Stopped = StoppedV1"
| "map_actual_state Starting = StartingV1"
| "map_actual_state RunningAppBound = RunningAppBoundV1"
| "map_actual_state Handoff = HandoffV1"
| "map_actual_state RunningBackground = RunningBackgroundV1"
| "map_actual_state Draining = DrainingV1"
| "map_actual_state Faulted = FaultedV1"

definition map_active_work :: "ExecAssActiveWorkStatus \<Rightarrow> ActiveWorkStatusV1" where
  "map_active_work s = \<lparr>ws_active = aw_active s, ws_active_work_count = aw_active_work_count s,
     ws_nonterminal_delegation_count = aw_nonterminal_delegation_count s,
     ws_nonterminal_continuation_count = aw_nonterminal_continuation_count s,
     ws_nonterminal_effect_count = aw_nonterminal_effect_count s\<rparr>"

text \<open>\<open>trusted_now_ms\<close> is the argument \<open>clock\<close>.\<close>

definition current_status_and_binding ::
    "externals \<Rightarrow> RuntimeHostLeaseRecord \<Rightarrow> i64 option \<Rightarrow> runtime_store
     \<Rightarrow> RuntimeControlRejectionCodeV1 + StatusReplyV1 \<times> string" where
  "current_status_and_binding X host clock S =
     rbind (of_option Unavailable clock) (\<lambda>now.
     case execass_runtime_close_snapshot X S now of
       Inl _ \<Rightarrow> Inl Unavailable
     | Inr snapshot \<Rightarrow>
         if hs_live_lease (cs_host snapshot) \<noteq> Some host then Inl Unavailable
         else
           let (desired, start_at_login) = (case hs_config (cs_host snapshot) of
                 None \<Rightarrow> (AppBound, False)
               | Some config \<Rightarrow> (sr_desired_mode config, sr_start_at_login config))
           in Inr (\<lparr>sp_runtime_host_generation = hr_generation host,
                sp_runtime_host_instance_id = hr_host_instance_id host,
                sp_actual_state = map_actual_state (hs_actual_state (cs_host snapshot)),
                sp_desired_mode = (case desired of AppBound \<Rightarrow> AppBoundV1 | Background \<Rightarrow> BackgroundV1),
                sp_start_at_login = start_at_login,
                sp_active_work = map_active_work (cs_active_work snapshot)\<rparr>,
              cs_active_work_binding_digest snapshot))"

definition attach ::
    "externals \<Rightarrow> RuntimeHostLeaseRecord \<Rightarrow> i64 option \<Rightarrow> runtime_store
     \<Rightarrow> RuntimeControlRejectionCodeV1 + AttachReplyV1" where
  "attach X host clock S = rbind (current_status_and_binding X host clock S) (\<lambda>(status, digest).
     Inr \<lparr>at_runtime_host_generation = sp_runtime_host_generation status,
       at_runtime_host_instance_id = sp_runtime_host_instance_id status\<rparr>)"

definition graceful_shutdown ::
    "externals \<Rightarrow> RuntimeHostLeaseRecord \<Rightarrow> i64 option \<Rightarrow> runtime_store
     \<Rightarrow> RuntimeControlRequestContextV1 \<Rightarrow> GracefulShutdownRequestV1 \<Rightarrow> CloseControl
     \<Rightarrow> shutdown_reply \<times> CloseControl" where
  "graceful_shutdown X host clock S context request cc =
     (case current_status_and_binding X host clock S of
        Inl code \<Rightarrow> (Inl code, cc)
      | Inr (status, digest) \<Rightarrow> decide X status digest context request cc)"

definition gateway_handler ::
    "externals \<Rightarrow> RuntimeHostLeaseRecord \<Rightarrow> i64 option \<Rightarrow> runtime_store \<Rightarrow> CloseControl control_handler" where
  "gateway_handler X host clock S = \<lparr>
     ch_status = (\<lambda>cc. rbind (current_status_and_binding X host clock S) (\<lambda>(status, digest). Inr status)),
     ch_attach = (\<lambda>client cc. attach X host clock S),
     ch_graceful_shutdown = graceful_shutdown X host clock S\<rparr>"

end
