(* ===== verification/GatewaySafety.thy ===== *)
theory GatewaySafety
  imports GatewayControl
begin

text \<open>
  What a close of the app can do: over every interleaving of close requests, rejections of the
  supervision and changes of the store, one shutdown is outstanding at a time, active work is closed
  only after the client confirmed that very work, and a superseded gateway closes nothing.
\<close>

subsection \<open>Histories of the close control\<close>

text \<open>An event is a close request with the clock and the store it is answered from, a rejection of
  an authorization by the supervision, or the loss of the supervision's receiver.\<close>

datatype gateway_event =
    CloseRequest "i64 option" runtime_store RuntimeControlRequestContextV1 GracefulShutdownRequestV1
  | RejectAuthorization string
  | SupervisorGone

fun gateway_step ::
    "externals \<Rightarrow> RuntimeHostLeaseRecord \<Rightarrow> gateway_event \<Rightarrow> CloseControl
     \<Rightarrow> shutdown_reply option \<times> CloseControl" where
  "gateway_step X host (CloseRequest clock S ctx request) cc =
     map_prod Some (\<lambda>cc. cc) (graceful_shutdown X host clock S ctx request cc)"
| "gateway_step X host (RejectAuthorization authorization) cc =
     (None, reject_shutdown_authorization authorization cc)"
| "gateway_step X host SupervisorGone cc =
     (None, cc\<lparr>cc_supervisor := map_option (\<lambda>_. False) (cc_supervisor cc)\<rparr>)"

type_synonym gateway_log = "(gateway_event \<times> shutdown_reply option) list"

inductive gateway_run ::
    "externals \<Rightarrow> RuntimeHostLeaseRecord \<Rightarrow> gateway_log \<Rightarrow> CloseControl \<Rightarrow> bool" for X host where
  start: "gateway_run X host [] (new_close_control supervisor)"
| event: "gateway_run X host log cc \<Longrightarrow> gateway_step X host e cc = (reply, cc')
    \<Longrightarrow> gateway_run X host (log @ [(e, reply)]) cc'"

fun close_run ::
    "externals \<Rightarrow> RuntimeHostLeaseRecord \<Rightarrow> gateway_event list \<Rightarrow> CloseControl \<Rightarrow> CloseControl" where
  "close_run X host [] cc = cc"
| "close_run X host (e # es) cc = close_run X host es (snd (gateway_step X host e cc))"

lemma decide_authorized:
  assumes "cc_authorized_authorization_id cc = Some a"
  shows "snd (decide X status digest ctx request cc) = cc
    \<and> (\<forall>b. fst (decide X status digest ctx request cc) \<noteq> Inr (Authorized b))"
  using assms by (simp add: decide_def rejected_def)

lemma shutdown_authorized:
  assumes "cc_authorized_authorization_id cc = Some a"
  shows "snd (graceful_shutdown X host clock S ctx request cc) = cc"
  using decide_authorized [OF assms] by (auto simp: graceful_shutdown_def split: sum.splits)

text \<open>C21: one shutdown at a time. Once a shutdown is authorized, no close request of any client sends
  the supervision another one, whatever the store says and whatever is confirmed, until the
  supervision rejects that very authorization.\<close>

theorem one_shutdown_outstanding:
  assumes "cc_authorized_authorization_id cc = Some a" and "RejectAuthorization a \<notin> set es"
  shows "cc_sent (close_run X host es cc) = cc_sent cc
    \<and> cc_authorized_authorization_id (close_run X host es cc) = Some a"
  using assms
proof (induction es arbitrary: cc)
  case (Cons e es)
  let ?cc = "snd (gateway_step X host e cc)"
  have "cc_sent ?cc = cc_sent cc \<and> cc_authorized_authorization_id ?cc = Some a"
    using Cons.prems shutdown_authorized [OF Cons.prems(1)]
    by (cases e) (auto simp: reject_shutdown_authorization_def)
  then show ?case using Cons.IH [of ?cc] Cons.prems(2) by simp
qed simp

subsection \<open>Confirmations\<close>

text \<open>The log holds a challenge: a request of that client for that host, answered with the binding,
  from a store whose snapshot gave the work and its digest.\<close>

definition challenged :: "externals \<Rightarrow> RuntimeHostLeaseRecord \<Rightarrow> gateway_log \<Rightarrow> PendingClose \<Rightarrow> bool" where
  "challenged X host log p \<longleftrightarrow> (\<exists>clock S ctx request status consequence.
     (CloseRequest clock S ctx request,
       Some (Inr (ConfirmationRequired (pc_active_work p) consequence (pc_binding p)))) \<in> set log
     \<and> current_status_and_binding X host clock S = Inr (status, pc_active_work_binding_digest p)
     \<and> sp_active_work status = pc_active_work p
     \<and> gs_client_instance_id request = pc_client_instance_id p
     \<and> gs_runtime_host_generation request = pc_runtime_host_generation p
     \<and> gs_runtime_host_instance_id request = pc_runtime_host_instance_id p)"

definition pending_challenged :: "externals \<Rightarrow> RuntimeHostLeaseRecord \<Rightarrow> gateway_log \<Rightarrow> CloseControl \<Rightarrow> bool" where
  "pending_challenged X host log cc \<longleftrightarrow>
     (case cc_pending cc of None \<Rightarrow> True | Some p \<Rightarrow> challenged X host log p)"

lemma challenged_mono: "challenged X host log p \<Longrightarrow> challenged X host (log @ rest) p"
  unfolding challenged_def by fastforce

lemma decide_pending:
  assumes "decide X status digest ctx request cc = (reply, cc')"
  shows "cc_pending cc' = None \<or> cc' = cc
    \<or> (\<exists>p. cc_pending cc' = Some p \<and> sp_active_work status = pc_active_work p
        \<and> digest = pc_active_work_binding_digest p
        \<and> gs_client_instance_id request = pc_client_instance_id p
        \<and> gs_runtime_host_generation request = pc_runtime_host_generation p
        \<and> gs_runtime_host_instance_id request = pc_runtime_host_instance_id p
        \<and> reply = Inr (ConfirmationRequired (pc_active_work p)
            (close_consequence (ws_active_work_count (pc_active_work p))) (pc_binding p)))"
  using assms
  by (auto simp: decide_def authorize_shutdown_def challenge_pending_def pending_matches_def Let_def
      split: if_splits option.splits)

lemma gateway_run_pending:
  assumes "gateway_run X host log cc"
  shows "pending_challenged X host log cc"
  using assms
proof induction
  case (start supervisor)
  then show ?case by (simp add: pending_challenged_def new_close_control_def)
next
  case (event log cc e reply cc')
  have same: "pending_challenged X host (log @ [(e, reply)]) cc'"
    if "cc_pending cc' = cc_pending cc \<or> cc_pending cc' = None"
    using that event.IH challenged_mono by (auto simp: pending_challenged_def split: option.splits)
  show ?case
  proof (cases e)
    case (CloseRequest clock S ctx request)
    show ?thesis
    proof (cases "current_status_and_binding X host clock S")
      case (Inl code)
      then show ?thesis
        using event.hyps(2) CloseRequest by (intro same) (auto simp: graceful_shutdown_def)
    next
      case (Inr sd)
      obtain status digest where sd: "sd = (status, digest)" by (cases sd) auto
      obtain v where d: "decide X status digest ctx request cc = (v, cc')" "reply = Some v"
        using event.hyps(2) CloseRequest Inr sd
        by (cases "decide X status digest ctx request cc") (auto simp: graceful_shutdown_def)
      from decide_pending [OF d(1)] show ?thesis
      proof (elim disjE exE conjE)
        fix p
        assume p: "cc_pending cc' = Some p" "sp_active_work status = pc_active_work p"
          "digest = pc_active_work_binding_digest p"
          "gs_client_instance_id request = pc_client_instance_id p"
          "gs_runtime_host_generation request = pc_runtime_host_generation p"
          "gs_runtime_host_instance_id request = pc_runtime_host_instance_id p"
          "v = Inr (ConfirmationRequired (pc_active_work p)
              (close_consequence (ws_active_work_count (pc_active_work p))) (pc_binding p))"
        have "challenged X host (log @ [(e, reply)]) p"
          unfolding challenged_def
          by (intro exI [of _ clock] exI [of _ S] exI [of _ ctx] exI [of _ request]
              exI [of _ status] exI [of _ "close_consequence (ws_active_work_count (pc_active_work p))"])
            (use p CloseRequest d(2) Inr sd in simp)
        then show ?thesis using p(1) by (simp add: pending_challenged_def)
      qed (use same in auto)
    qed
  next
    case (RejectAuthorization authorization)
    then have "cc_pending cc' = cc_pending cc \<or> cc_pending cc' = None"
      using event.hyps(2) by (auto simp: reject_shutdown_authorization_def split: if_splits)
    then show ?thesis by (rule same)
  next
    case SupervisorGone
    then have "cc_pending cc' = cc_pending cc \<or> cc_pending cc' = None"
      using event.hyps(2) by auto
    then show ?thesis by (rule same)
  qed
qed

lemma decide_confirmed:
  assumes "decide X status digest ctx request cc = (Inr (Authorized a), cc')"
    and "ws_active (sp_active_work status)"
  shows "\<exists>p. cc_pending cc = Some p \<and> gs_confirmation request = Some (pc_binding p)
    \<and> pending_matches request status digest p \<and> sa_confirmed_active_work_binding_digest a = Some digest"
  using assms
  by (auto simp: decide_def authorize_shutdown_def rejected_def pending_matches_def
      shutdown_authorization_def Let_def split: if_splits option.splits)

lemma decide_idle:
  assumes "decide X status digest ctx request cc = (Inr (Authorized a), cc')"
    and "\<not> ws_active (sp_active_work status)"
  shows "sa_confirmed_active_work_binding_digest a = None"
  using assms
  by (auto simp: decide_def authorize_shutdown_def rejected_def shutdown_authorization_def Let_def
      split: if_splits)

lemma snapshot_digest:
  "execass_runtime_close_snapshot X S now = Inr snapshot
   \<Longrightarrow> cs_active_work_binding_digest snapshot = active_work_binding_digest X S"
  by (auto simp: execass_runtime_close_snapshot_def load_active_work_snapshot_def split: if_splits)

lemma status_digest:
  assumes "current_status_and_binding X host clock S = Inr (status, digest)"
  shows "digest = active_work_binding_digest X S"
proof (cases clock)
  case None
  then show ?thesis using assms by (simp add: current_status_and_binding_def)
next
  case (Some now)
  show ?thesis
  proof (cases "execass_runtime_close_snapshot X S now")
    case (Inl e)
    then show ?thesis using assms Some by (simp add: current_status_and_binding_def)
  next
    case (Inr snapshot)
    then have "digest = cs_active_work_binding_digest snapshot"
      using assms Some by (simp add: current_status_and_binding_def Let_def case_prod_unfold split: if_splits)
    then show ?thesis using snapshot_digest [OF Inr] by simp
  qed
qed

text \<open>C4: active work is closed only by a client that was shown exactly that work. When a close request
  is authorized over active work, an earlier request of the same client for the same host was
  answered with a confirmation challenge; the authorized request carries that challenge's binding,
  and the unfinished work of the store at the challenge and at the authorization is the same, row by
  row, unless the digest collides on the two snapshots.\<close>

theorem confirmed_work_unchanged:
  assumes "gateway_run X host log cc"
    and "gateway_step X host (CloseRequest clock S ctx request) cc = (Some (Inr (Authorized a)), cc')"
    and "sa_confirmed_active_work_binding_digest a \<noteq> None"
    and "\<forall>T \<in> {T. \<exists>clock' ctx' request' reply.
        (CloseRequest clock' T ctx' request', reply) \<in> set log}.
      tables_fit T \<and> no_collision X (binding_bytes (active_work_binding_rows T))
        (binding_bytes (active_work_binding_rows S))"
    and "tables_fit S"
  shows "\<exists>clock' T ctx' request' work consequence binding.
    (CloseRequest clock' T ctx' request', Some (Inr (ConfirmationRequired work consequence binding)))
      \<in> set log
    \<and> gs_confirmation request = Some binding
    \<and> gs_client_instance_id request' = gs_client_instance_id request
    \<and> gs_runtime_host_generation request' = gs_runtime_host_generation request
    \<and> mset (active_rows T) = mset (active_rows S)"
proof -
  obtain status digest where st: "current_status_and_binding X host clock S = Inr (status, digest)"
    using assms(2) by (cases "current_status_and_binding X host clock S")
      (auto simp: graceful_shutdown_def)
  then have d: "decide X status digest ctx request cc = (Inr (Authorized a), cc')"
    using assms(2) by (cases "decide X status digest ctx request cc")
      (simp add: graceful_shutdown_def)
  have "ws_active (sp_active_work status)" using decide_idle [OF d] assms(3) by blast
  then obtain p where p: "cc_pending cc = Some p" "gs_confirmation request = Some (pc_binding p)"
      "pending_matches request status digest p"
    using decide_confirmed [OF d] by blast
  have "challenged X host log p"
    using gateway_run_pending [OF assms(1)] p(1) by (simp add: pending_challenged_def)
  then obtain clock' T ctx' request' status' consequence where c:
     "(CloseRequest clock' T ctx' request',
       Some (Inr (ConfirmationRequired (pc_active_work p) consequence (pc_binding p)))) \<in> set log"
     "current_status_and_binding X host clock' T = Inr (status', pc_active_work_binding_digest p)"
     "gs_client_instance_id request' = pc_client_instance_id p"
     "gs_runtime_host_generation request' = pc_runtime_host_generation p"
    unfolding challenged_def by blast
  have "active_work_binding_digest X T = active_work_binding_digest X S"
    using status_digest [OF c(2)] status_digest [OF st] p(3) by (simp add: pending_matches_def)
  moreover have "tables_fit T \<and> no_collision X (binding_bytes (active_work_binding_rows T))
        (binding_bytes (active_work_binding_rows S))"
    using assms(4) c(1) by blast
  ultimately have "mset (active_rows T) = mset (active_rows S)"
    using binding_digest_exact assms(5) by blast
  moreover have "gs_client_instance_id request' = gs_client_instance_id request"
      "gs_runtime_host_generation request' = gs_runtime_host_generation request"
    using c(3,4) p(3) by (simp_all add: pending_matches_def)
  ultimately show ?thesis
    using c(1) p(2) by blast
qed

text \<open>A superseded gateway closes nothing. After another host was activated over it, the control
  handler of the earlier host answers every close request with unavailable and changes nothing,
  from any later store.\<close>

theorem superseded_gateway_unavailable:
  assumes "host_run X root empty_store S" and "current_activation S = Some (l, g)"
    and "host \<noteq> hl_host_instance_id l"
    and "activate_runtime_host X root auth host now S = Inr (r, T)
      \<or> (\<exists>m. activate_runtime_host_with_recovery X rx root auth host now S = Inr (m, T))"
    and "host_run X root T U" and "clock \<noteq> Some (word_of_int i64_max)"
  shows "graceful_shutdown Y (lease_record l g) clock U ctx request cc = (Inl Unavailable, cc)"
proof -
  obtain q where q: "q \<in> set (host_pairs U)" "hg_generation (fst q) = hg_generation g" "ended q"
    and U: "store_ok U" and j: "joined l g"
    using superseded_pair_ended [OF assms(1-5)] by blast
  have other: "load_live_lease U t \<noteq> Some (lease_record l g)" if t: "clock = Some t" for t
  proof
    assume live: "load_live_lease U t = Some (lease_record l g)"
    have "sint t \<noteq> i64_max" using assms(6) t by (metis sint_eq_iff sint_max)
    then have "later (word_of_int i64_max) t"
      using sint_i64_bounds(2) [of t] by (simp add: later_def sint_max)
    then obtain m h where m: "current_activation U = Some (m, h)" "lease_record m h = lease_record l g"
      using live load_live_lease_current [OF U] by auto
    obtain ps where ps: "host_pairs U = ps @ [(h, m)]" "\<not> ended (h, m)" "joined m h"
      by (rule current_live [OF U m(1)])
    then have "q \<in> set ps" using q by auto
    then have "hg_generation (fst q) \<noteq> hg_generation h"
      using U ps(1) older_generation by (fastforce simp: store_ok_def hosts_ok_snoc)
    then show False using q(2) ps(3) m(2) j by (simp add: lease_record_def joined_def)
  qed
  then have "current_status_and_binding Y (lease_record l g) clock U = Inl Unavailable"
    by (cases clock)
       (auto simp: current_status_and_binding_def execass_runtime_close_snapshot_def load_status_def
         Let_def split: sum.splits)
  then show ?thesis by (simp add: graceful_shutdown_def)
qed

subsection \<open>Concrete closes\<close>

definition sample_host :: RuntimeHostLeaseRecord where
  "sample_host = lease_record (sample_lease ''h'' 1) (sample_generation ''h'' 1)"

definition busy_store :: runtime_store where
  "busy_store = first_store\<lparr>rt_states := [(sample_host_state ''h'' 1)\<lparr>rs_actual_state := RunningAppBound\<rparr>],
     wt_delegations := [(''d'', ''planning''), (''e'', ''completed'')]\<rparr>"

definition busy_work :: ActiveWorkStatusV1 where
  "busy_work = \<lparr>ws_active = True, ws_active_work_count = 1, ws_nonterminal_delegation_count = 1,
     ws_nonterminal_continuation_count = 0, ws_nonterminal_effect_count = 0\<rparr>"

definition busy_status :: StatusReplyV1 where
  "busy_status = \<lparr>sp_runtime_host_generation = 1, sp_runtime_host_instance_id = ''h'',
     sp_actual_state = RunningAppBoundV1, sp_desired_mode = AppBoundV1, sp_start_at_login = False,
     sp_active_work = busy_work\<rparr>"

definition close_context :: "string \<Rightarrow> RuntimeControlRequestContextV1" where
  "close_context request = \<lparr>cx_request_id = request, cx_nonce = ''n'', cx_issued_at_ms = 5\<rparr>"

definition close_request :: "CloseConfirmationBindingV1 option \<Rightarrow> GracefulShutdownRequestV1" where
  "close_request confirmation = \<lparr>gs_client_instance_id = ''c'', gs_runtime_host_generation = 1,
     gs_runtime_host_instance_id = ''h'', gs_confirmation = confirmation\<rparr>"

definition busy_digest :: string where
  "busy_digest = active_work_binding_digest raw_externals busy_store"

definition busy_binding :: CloseConfirmationBindingV1 where
  "busy_binding = close_binding raw_externals (close_context ''q1'') (close_request None) busy_work busy_digest"

lemma busy_rows: "active_rows busy_store = [(''delegation'', ''d'', ''planning'')]"
  by (simp add: active_rows_def nonterminal_rows_def nonterminal_phases_def busy_store_def
      first_store_def appended_def empty_store_def)

lemma busy_snapshot:
  "current_status_and_binding raw_externals sample_host (Some 5) busy_store = Inr (busy_status, busy_digest)"
proof -
  have work: "load_active_work_status busy_store = Some \<lparr>aw_active = True, aw_active_work_count = 1,
      aw_nonterminal_delegation_count = 1, aw_nonterminal_continuation_count = 0,
      aw_nonterminal_effect_count = 0\<rparr>"
    by (simp add: load_active_work_status_def load_active_work_counts_def active_work_status_def
        i64_checked_add_def i64_min_def i64_max_def nonterminal_rows_def nonterminal_phases_def
        busy_store_def first_store_def appended_def empty_store_def)
  have live: "load_live_lease busy_store 5 = Some sample_host"
    by (simp add: load_live_lease_def busy_store_def sample_host_def first_store_def appended_def
        empty_store_def joined_def live_lease_def later_def sample_lease_def sample_generation_def sint_max)
       (simp add: i64_max_def)
  have state: "load_runtime_host_state sample_host busy_store
      = Some ((sample_host_state ''h'' 1)\<lparr>rs_actual_state := RunningAppBound\<rparr>)"
    by (simp add: load_runtime_host_state_def busy_store_def sample_host_def state_key_def host_key_def
        lease_record_def sample_lease_def sample_generation_def sample_host_state_def)
  have settings: "rt_settings busy_store = []"
    by (simp add: busy_store_def first_store_def appended_def empty_store_def)
  have host: "hr_generation sample_host = 1" "hr_host_instance_id sample_host = ''h''"
    by (simp_all add: sample_host_def lease_record_def sample_lease_def)
  show ?thesis
    by (simp add: current_status_and_binding_def execass_runtime_close_snapshot_def later_def
        load_status_def actual_state_for_live_lease_def load_active_work_snapshot_def work live state
        settings host busy_status_def busy_work_def map_active_work_def busy_digest_def
        sample_host_state_def Let_def)
qed

definition challenged_control :: CloseControl where
  "challenged_control = (new_close_control (Some True))\<lparr>cc_pending := Some \<lparr>pc_binding = busy_binding,
     pc_client_instance_id = ''c'', pc_runtime_host_generation = 1, pc_runtime_host_instance_id = ''h'',
     pc_active_work = busy_work, pc_active_work_binding_digest = busy_digest\<rparr>\<rparr>"

definition busy_authorization :: ShutdownAuthorizationV1 where
  "busy_authorization = shutdown_authorization raw_externals (close_context ''q2'')
     (close_request (Some busy_binding)) busy_work busy_digest"

definition closing_control :: CloseControl where
  "closing_control = challenged_control\<lparr>cc_sent := [busy_authorization],
     cc_authorized_authorization_id := Some (sa_authorization_id busy_authorization), cc_pending := None\<rparr>"

lemma busy_challenge:
  "gateway_step raw_externals sample_host
     (CloseRequest (Some 5) busy_store (close_context ''q1'') (close_request None)) (new_close_control (Some True))
   = (Some (Inr (ConfirmationRequired busy_work (close_consequence 1) busy_binding)), challenged_control)"
  by (simp add: graceful_shutdown_def busy_snapshot decide_def busy_status_def busy_work_def
      close_request_def new_close_control_def challenge_pending_def challenged_control_def
      busy_binding_def)

lemma busy_confirmation:
  "gateway_step raw_externals sample_host
     (CloseRequest (Some 5) busy_store (close_context ''q2'') (close_request (Some busy_binding))) challenged_control
   = (Some (Inr (Authorized busy_authorization)), closing_control)"
  by (simp add: graceful_shutdown_def busy_snapshot decide_def busy_status_def authorize_shutdown_def
      challenged_control_def new_close_control_def closing_control_def busy_authorization_def
      close_request_def busy_work_def Let_def)

lemma busy_fits: "tables_fit busy_store"
  by (simp add: tables_fit_def busy_rows rows_fit_def row_fields_def)

theorem confirmed_work_unchanged_witness:
  "\<exists>clock' T ctx' request' work consequence binding.
    (CloseRequest clock' T ctx' request', Some (Inr (ConfirmationRequired work consequence binding)))
      \<in> {(CloseRequest (Some 5) busy_store (close_context ''q1'') (close_request None),
          Some (Inr (ConfirmationRequired busy_work (close_consequence 1) busy_binding)))}
    \<and> gs_confirmation (close_request (Some busy_binding)) = Some binding
    \<and> mset (active_rows T) = {#(''delegation'', ''d'', ''planning'')#}"
proof -
  have run: "gateway_run raw_externals sample_host
      [(CloseRequest (Some 5) busy_store (close_context ''q1'') (close_request None),
        Some (Inr (ConfirmationRequired busy_work (close_consequence 1) busy_binding)))] challenged_control"
    using gateway_run.event [OF gateway_run.start busy_challenge] by simp
  have digest: "sa_confirmed_active_work_binding_digest busy_authorization \<noteq> None"
    by (simp add: busy_authorization_def shutdown_authorization_def busy_work_def)
  show ?thesis
    using confirmed_work_unchanged [OF run busy_confirmation digest _ busy_fits] busy_fits
    by (auto simp: busy_rows)
qed

theorem one_shutdown_outstanding_witness:
  "cc_sent (close_run raw_externals sample_host
      [CloseRequest (Some 5) busy_store (close_context ''q3'') (close_request None),
       RejectAuthorization ''other'',
       CloseRequest (Some 5) busy_store (close_context ''q4'') (close_request (Some busy_binding))]
      closing_control) = [busy_authorization]"
proof -
  have a: "cc_authorized_authorization_id closing_control = Some (sa_authorization_id busy_authorization)"
    and s: "cc_sent closing_control = [busy_authorization]"
    by (simp_all add: closing_control_def)
  have "sa_authorization_id busy_authorization \<noteq> ''other''"
    by (simp add: busy_authorization_def shutdown_authorization_def sha256_hex_def raw_externals_def
        hex_encode_def hex_digit_def)
  then show ?thesis
    using one_shutdown_outstanding [OF a, of "[CloseRequest (Some 5) busy_store (close_context ''q3'') (close_request None),
       RejectAuthorization ''other'',
       CloseRequest (Some 5) busy_store (close_context ''q4'') (close_request (Some busy_binding))]"
        raw_externals sample_host] s
    by (simp del: close_run.simps)
qed

theorem superseded_gateway_unavailable_witness:
  "graceful_shutdown raw_externals sample_host (Some 9) second_store (close_context ''q1'')
     (close_request None) (new_close_control (Some True)) = (Inl Unavailable, new_close_control (Some True))"
proof -
  have "Some 9 \<noteq> Some (word_of_int i64_max :: i64)"
    using sint_max by (auto simp: i64_max_def)
  then show ?thesis
    unfolding sample_host_def
    by (intro superseded_gateway_unavailable [OF first_run first_current _ disjI1 [OF second_activation]
          host_run.refl]) (simp_all add: sample_lease_def)
qed

end
