(* ===== verification/NormalizedLoop.thy ===== *)
theory NormalizedLoop
  imports Prelude
begin

text \<open>
  The loop by which plugin capabilities, hooks and skills are taken into a registry: each element is
  brought to its normal form, refused when it has none or when the key of its normal form is taken,
  and else placed among the others. The interface states one step; what the whole loop accepts is
  proved from it. When the place is that of a rank, the order of the input does not matter.
\<close>

locale normalized_loop =
  fixes step :: "'b list \<Rightarrow> 'a \<Rightarrow> 'e + 'b list"
    and norm :: "'a \<Rightarrow> 'b option"
    and key :: "'b \<Rightarrow> 'k"
    and place :: "'b list \<Rightarrow> 'b \<Rightarrow> 'b list"
  assumes step_Inr:
    "step acc x = Inr acc' \<longleftrightarrow>
       (\<exists>y. norm x = Some y \<and> key y \<notin> key ` set acc \<and> acc' = place acc y)"
    and place_mset: "mset (place acc y) = add_mset y (mset acc)"
begin

lemma place_set: "set (place acc y) = insert y (set acc)"
  by (metis place_mset set_mset_add_mset_insert set_mset_mset)

lemma loop_from:
  "rfold step acc xs = Inr ys \<longleftrightarrow>
     (\<exists>zs. map norm xs = map Some zs \<and> distinct (map key zs)
        \<and> key ` set acc \<inter> key ` set zs = {} \<and> ys = foldl place acc zs)"
proof (induction xs arbitrary: acc)
  case Nil
  then show ?case by auto
next
  case (Cons x xs)
  show ?case
  proof
    assume "rfold step acc (x # xs) = Inr ys"
    then obtain y where y: "norm x = Some y" "key y \<notin> key ` set acc"
        "rfold step (place acc y) xs = Inr ys"
      by (auto simp: step_Inr)
    then obtain zs where "map norm xs = map Some zs" "distinct (map key zs)"
        "key ` set (place acc y) \<inter> key ` set zs = {}" "ys = foldl place (place acc y) zs"
      using Cons.IH by blast
    then have "map norm (x # xs) = map Some (y # zs) \<and> distinct (map key (y # zs))
        \<and> key ` set acc \<inter> key ` set (y # zs) = {} \<and> ys = foldl place acc (y # zs)"
      using y by (auto simp: place_set)
    then show "\<exists>zs. map norm (x # xs) = map Some zs \<and> distinct (map key zs)
        \<and> key ` set acc \<inter> key ` set zs = {} \<and> ys = foldl place acc zs" by blast
  next
    assume "\<exists>zs. map norm (x # xs) = map Some zs \<and> distinct (map key zs)
        \<and> key ` set acc \<inter> key ` set zs = {} \<and> ys = foldl place acc zs"
    then obtain y zs where "norm x = Some y" "map norm xs = map Some zs" "distinct (map key (y # zs))"
        "key ` set acc \<inter> key ` set (y # zs) = {}" "ys = foldl place acc (y # zs)"
      by (auto simp: Cons_eq_map_conv)
    then have "step acc x = Inr (place acc y) \<and> rfold step (place acc y) xs = Inr ys"
      unfolding Cons.IH by (auto simp: step_Inr place_set)
    then show "rfold step acc (x # xs) = Inr ys" by simp
  qed
qed

lemma mset_foldl_place: "mset (foldl place acc zs) = mset acc + mset zs"
  by (induction zs arbitrary: acc) (simp_all add: place_mset)

lemma loop_Inr:
  "rfold step [] xs = Inr ys \<longleftrightarrow>
     (\<exists>zs. map norm xs = map Some zs \<and> distinct (map key zs) \<and> ys = foldl place [] zs)"
  by (simp add: loop_from)

lemma loop_mset:
  assumes "rfold step acc xs = Inr ys"
  shows "mset (map Some ys) = mset (map Some acc) + mset (map norm xs)"
proof -
  obtain zs where "map norm xs = map Some zs" "mset ys = mset acc + mset zs"
    using assms by (auto simp: loop_from mset_foldl_place)
  then show ?thesis by (metis image_mset_union mset_map)
qed

lemma loop_distinct:
  assumes "rfold step acc xs = Inr ys" and "distinct (map key acc)"
  shows "distinct (map key ys)"
proof -
  obtain zs where "distinct (map key zs)" "key ` set acc \<inter> key ` set zs = {}"
      "mset ys = mset (acc @ zs)"
    using assms(1) by (auto simp: loop_from mset_foldl_place)
  then show ?thesis
    using assms(2) by (metis distinct_append mset_map mset_eq_imp_distinct_iff map_append set_map)
qed

end

locale ranked_loop = normalized_loop step norm key place
  for step :: "'b list \<Rightarrow> 'a \<Rightarrow> 'e + 'b list" and norm and key :: "'b \<Rightarrow> 'k" and place +
  fixes rank :: "'b \<Rightarrow> 'r::linorder"
  assumes place_sorted: "sorted (map rank acc) \<Longrightarrow> sorted (map rank (place acc y))"
    and rank_key: "rank x = rank y \<Longrightarrow> key x = key y"
begin

lemma sorted_foldl_place: "sorted (map rank acc) \<Longrightarrow> sorted (map rank (foldl place acc zs))"
  by (induction zs arbitrary: acc) (simp_all add: place_sorted)

lemma loop_sorted: "rfold step acc xs = Inr ys \<Longrightarrow> sorted (map rank acc) \<Longrightarrow> sorted (map rank ys)"
  by (auto simp: loop_from sorted_foldl_place)

lemma ranked_unique:
  assumes "mset ys = mset zs" and "sorted (map rank ys)" and "sorted (map rank zs)"
    and "distinct (map key ys)"
  shows "ys = zs"
proof -
  have inj: "inj_on rank (set ys)"
  proof (rule inj_onI)
    fix x y assume xy: "x \<in> set ys" "y \<in> set ys" and "rank x = rank y"
    then have "key x = key y" by (intro rank_key)
    then show "x = y" using assms(4) xy by (auto simp: distinct_map dest: inj_onD)
  qed
  have d: "distinct ys" "distinct zs" and s: "set zs = set ys"
    using assms(1,4) by (auto simp: distinct_map dest: mset_eq_setD mset_eq_imp_distinct_iff)
  show ?thesis
    by (rule map_sorted_distinct_set_unique [of rank])
       (use inj d s assms(2,3) in \<open>simp_all add: distinct_map\<close>)
qed

text \<open>What the loop accepts, as one equation with the sorted list of the normal forms.\<close>

lemma loop_canonical:
  "rfold step [] xs = Inr ys \<longleftrightarrow>
     (\<exists>zs. map norm xs = map Some zs \<and> distinct (map key zs) \<and> ys = sort_key rank zs)"
proof -
  have "foldl place [] zs = sort_key rank zs" if "distinct (map key zs)" for zs
  proof (rule ranked_unique)
    show m: "mset (foldl place [] zs) = mset (sort_key rank zs)"
      by (simp add: mset_foldl_place)
    show "sorted (map rank (foldl place [] zs))" by (simp add: sorted_foldl_place)
    show "sorted (map rank (sort_key rank zs))" by simp
    show "distinct (map key (foldl place [] zs))"
      using that by (metis mset_foldl_place add_0 mset.simps(1) mset_map mset_eq_imp_distinct_iff)
  qed
  then show ?thesis unfolding loop_Inr by metis
qed

lemma loop_perm:
  assumes "rfold step [] xs = Inr ys" and "mset xs = mset xs'"
  shows "rfold step [] xs' = Inr ys"
proof -
  obtain zs where zs: "map norm xs = map Some zs" "distinct (map key zs)" "ys = sort_key rank zs"
    using assms(1) loop_canonical by blast
  have "\<forall>x \<in> set xs'. norm x \<noteq> None"
    using zs(1) assms(2) by (metis imageE list.set_map mset_eq_setD option.distinct(1) image_eqI)
  then have zs': "map norm xs' = map Some (map (the \<circ> norm) xs')" by simp
  have m: "mset (map Some zs) = mset (map Some (map (the \<circ> norm) xs'))"
    using zs(1) zs' assms(2) by (metis mset_map)
  then have m: "mset (map (the \<circ> norm) xs') = mset zs"
    by (metis (no_types, lifting) list.map_comp list.map_id mset_map option.sel comp_def map_idI)
  then have d: "distinct (map key (map (the \<circ> norm) xs'))"
    using zs(2) by (metis mset_map mset_eq_imp_distinct_iff)
  have "ys = sort_key rank (map (the \<circ> norm) xs')"
    unfolding zs(3) by (rule ranked_unique) (use m zs(2) in \<open>simp_all add: distinct_map\<close>)
  then show ?thesis using zs' d loop_canonical by blast
qed

end

end
