(* ===== verification/Plugins.thy ===== *)
theory Plugins
  imports NormalizedLoop
begin

text \<open>
  The plugin registry of \<^verbatim>\<open>crates/carsinos-core/src/lib.rs\<close>: manifests, their normal
  form, registration and replacement, and the bindings of capabilities to plugins. An operation
  that fails returns its error and the registry it leaves behind, which is not always the one it
  was given. A \<open>BTreeMap\<close> whose order is observed is the list of its entries in ascending order of
  the keys; the four maps of bindings are one function of the kind.
\<close>

subsection \<open>Ordered maps\<close>

type_synonym 'v btree = "(string \<times> 'v) list"

fun btree_insert :: "string \<Rightarrow> 'v \<Rightarrow> 'v btree \<Rightarrow> 'v btree" where
  "btree_insert k v [] = [(k, v)]"
| "btree_insert k v ((l, w) # t) =
     (if k < l then (k, v) # (l, w) # t
      else if k = l then (k, v) # t else (l, w) # btree_insert k v t)"

definition btree_ok :: "'v btree \<Rightarrow> bool" where
  "btree_ok t \<longleftrightarrow> sorted_wrt (<) (map fst t)"

lemma map_of_btree_insert [simp]: "map_of (btree_insert k v t) = (map_of t)(k \<mapsto> v)"
  by (induction t) (auto simp: fun_eq_iff)

lemma fst_btree_insert: "fst ` set (btree_insert k v t) = insert k (fst ` set t)"
proof (induction t)
  case (Cons a t)
  then show ?case by (cases a) (simp add: insert_commute)
qed simp

lemma btree_ok_insert [simp]: "btree_ok t \<Longrightarrow> btree_ok (btree_insert k v t)"
proof (induction t)
  case (Cons a t)
  then show ?case
    using fst_btree_insert [of k v t] by (cases a) (auto simp: btree_ok_def)
qed (simp add: btree_ok_def)

lemma btree_ok_distinct: "btree_ok t \<Longrightarrow> distinct (map fst t)"
  by (simp add: btree_ok_def strict_sorted_iff)

lemma set_btree_insert_sub: "set (btree_insert k v t) \<subseteq> insert (k, v) (set t)"
proof (induction t)
  case (Cons a t)
  then show ?case by (cases a) (auto split: if_split_asm)
qed simp

lemma btree_insert_member: "(k, v) \<in> set (btree_insert k v t)"
  by (induction t) auto

lemma btree_eqI:
  assumes "btree_ok s" and "btree_ok t" and "map_of s = map_of t"
  shows "s = t"
proof -
  have "set s = set t"
    using assms by (metis btree_ok_distinct map_of_inject_set)
  moreover have "sorted_wrt (<) (map fst s)" "sorted_wrt (<) (map fst t)"
    using assms(1,2) by (simp_all add: btree_ok_def)
  ultimately show ?thesis
    by (metis (no_types, lifting) map_sorted_distinct_set_unique strict_sorted_iff distinct_map
        sup.idem)
qed

subsection \<open>Manifests\<close>

datatype PluginExecKind = Subprocess | Daemon

datatype PluginBindingKind = Tool | Hook | Provider | Channel

record PluginArtifact =
  pa_exec_kind :: PluginExecKind
  pa_local_path :: string
  pa_command :: string
  pa_args :: "string list"
  pa_sha256 :: string

record PluginPermissions =
  pp_allowed_roots :: "string list"
  pp_network_policy :: string
  pp_network_allowlist :: "string list"

record PluginCapability =
  pc_name :: string
  pc_description :: "string option"

record PluginCapabilities =
  pc_tools :: "PluginCapability list"
  pc_hooks :: "PluginCapability list"
  pc_providers :: "PluginCapability list"
  pc_channels :: "PluginCapability list"

record PluginManifest =
  pm_schema_version :: string
  pm_plugin_id :: string
  pm_display_name :: string
  pm_plugin_version :: string
  pm_api_version :: string
  pm_enabled :: bool
  pm_artifact :: PluginArtifact
  pm_min_gateway_version :: "string option"
  pm_permissions :: PluginPermissions
  pm_timeout_ms :: "u64 option"
  pm_max_output_chars :: "u64 option"
  pm_capabilities :: PluginCapabilities
  pm_metadata :: "string btree"

datatype PluginError =
    UnsupportedSchemaVersion string | UnsupportedApiVersion string | InvalidPluginId
  | EmptyDisplayName | EmptyPluginVersion | PluginAlreadyRegistered string
  | EmptyArtifactPath | EmptyArtifactCommand | InvalidArtifactDigest
  | InvalidCapabilityName PluginBindingKind | DuplicateCapability PluginBindingKind string
  | CapabilityTaken PluginBindingKind string string
  | PluginNotRegistered string | ManifestDisappeared string

definition PLUGIN_MANIFEST_SCHEMA_VERSION_V1 :: string where
  "PLUGIN_MANIFEST_SCHEMA_VERSION_V1 = ''carsinos.plugin.manifest.v1''"

definition PLUGIN_MANIFEST_SCHEMA_VERSION_V2 :: string where
  "PLUGIN_MANIFEST_SCHEMA_VERSION_V2 = ''carsinos.plugin.manifest.v2''"

definition PLUGIN_API_VERSION_V1 :: string where
  "PLUGIN_API_VERSION_V1 = ''carsinos.plugin.api.v1''"

fun capabilities_of :: "PluginBindingKind \<Rightarrow> PluginCapabilities \<Rightarrow> PluginCapability list" where
  "capabilities_of Tool c = pc_tools c"
| "capabilities_of Hook c = pc_hooks c"
| "capabilities_of Provider c = pc_providers c"
| "capabilities_of Channel c = pc_channels c"

subsection \<open>Normal forms\<close>

definition identifier_char :: "char \<Rightarrow> bool" where
  "identifier_char c \<longleftrightarrow> is_ascii_digit c \<or> is_ascii_lowercase c \<or> is_ascii_uppercase c
     \<or> c \<in> set ''-_.''"

definition normalize_identifier :: "string \<Rightarrow> string option" where
  "normalize_identifier raw =
     (let normalized = to_ascii_lowercase (trim raw)
      in if normalized = [] \<or> \<not> list_all identifier_char normalized then None
         else Some normalized)"

definition nonempty_trimmed :: "string option \<Rightarrow> string option" where
  "nonempty_trimmed v = Option.bind (map_option trim v) (\<lambda>s. if s = [] then None else Some s)"

definition normalize_capability :: "PluginCapability \<Rightarrow> PluginCapability option" where
  "normalize_capability c = map_option
     (\<lambda>name. \<lparr>pc_name = name, pc_description = nonempty_trimmed (pc_description c)\<rparr>)
     (normalize_identifier (pc_name c))"

definition capability_step ::
    "PluginBindingKind \<Rightarrow> PluginCapability list \<Rightarrow> PluginCapability
     \<Rightarrow> PluginError + PluginCapability list" where
  "capability_step kind seen c =
     rbind (of_option (InvalidCapabilityName kind) (normalize_capability c)) (\<lambda>n.
       if pc_name n \<in> pc_name ` set seen then Inl (DuplicateCapability kind (pc_name n))
       else Inr (seen @ [n]))"

definition normalize_capabilities ::
    "PluginBindingKind \<Rightarrow> PluginCapability list \<Rightarrow> PluginError + PluginCapability list" where
  "normalize_capabilities kind cs = rfold (capability_step kind) [] cs"

definition normalize_all_capabilities :: "PluginCapabilities \<Rightarrow> PluginError + PluginCapabilities" where
  "normalize_all_capabilities c =
     rbind (normalize_capabilities Tool (pc_tools c)) (\<lambda>tools.
     rbind (normalize_capabilities Hook (pc_hooks c)) (\<lambda>hooks.
     rbind (normalize_capabilities Provider (pc_providers c)) (\<lambda>providers.
     rbind (normalize_capabilities Channel (pc_channels c)) (\<lambda>channels.
       Inr \<lparr>pc_tools = tools, pc_hooks = hooks, pc_providers = providers,
         pc_channels = channels\<rparr>))))"

definition nonempty :: "string list \<Rightarrow> string list" where
  "nonempty = filter (\<lambda>s. s \<noteq> [])"

definition normalize_plugin_metadata :: "PluginManifest \<Rightarrow> PluginManifest" where
  "normalize_plugin_metadata m =
     (let a = pm_artifact m; p = pm_permissions m
      in m\<lparr>pm_artifact := a\<lparr>pa_local_path := trim (pa_local_path a),
             pa_command := trim (pa_command a), pa_args := nonempty (map trim (pa_args a)),
             pa_sha256 := to_ascii_lowercase (trim (pa_sha256 a))\<rparr>,
           pm_min_gateway_version := nonempty_trimmed (pm_min_gateway_version m),
           pm_permissions := p\<lparr>pp_allowed_roots := nonempty (map trim (pp_allowed_roots p)),
             pp_network_policy := to_ascii_lowercase (trim (pp_network_policy p)),
             pp_network_allowlist := nonempty
               (map (\<lambda>s. to_ascii_lowercase (trim s)) (pp_network_allowlist p))\<rparr>\<rparr>)"

definition normalize_plugin_artifact :: "PluginArtifact \<Rightarrow> PluginError + unit" where
  "normalize_plugin_artifact a =
     (if pa_local_path a = [] then Inl EmptyArtifactPath
      else if pa_command a = [] then Inl EmptyArtifactCommand
      else if length (pa_sha256 a) \<noteq> 64 \<or> \<not> list_all is_ascii_hexdigit (pa_sha256 a)
      then Inl InvalidArtifactDigest else Inr ())"

subsection \<open>The registry\<close>

record PluginRegistry =
  pr_manifests :: "PluginManifest btree"
  pr_bindings :: "PluginBindingKind \<Rightarrow> string \<Rightarrow> string option"

definition new_plugin_registry :: PluginRegistry where
  "new_plugin_registry = \<lparr>pr_manifests = [], pr_bindings = (\<lambda>kind. Map.empty)\<rparr>"

fun register_bindings ::
    "string \<Rightarrow> PluginBindingKind \<Rightarrow> PluginCapability list \<Rightarrow> (string \<Rightarrow> string option)
     \<Rightarrow> (PluginError + unit) \<times> (string \<Rightarrow> string option)" where
  "register_bindings plugin kind [] b = (Inr (), b)"
| "register_bindings plugin kind (c # cs) b =
     (case b (pc_name c) of
        Some owner \<Rightarrow> (Inl (CapabilityTaken kind (pc_name c) owner), b)
      | None \<Rightarrow> register_bindings plugin kind cs (b(pc_name c \<mapsto> plugin)))"

text \<open>The calls of \<open>register_bindings\<close>, one for each kind; the first error ends them and keeps what
  was bound before it.\<close>

fun register_kinds ::
    "string \<Rightarrow> PluginCapabilities \<Rightarrow> PluginBindingKind list
     \<Rightarrow> (PluginBindingKind \<Rightarrow> string \<Rightarrow> string option)
     \<Rightarrow> (PluginError + unit) \<times> (PluginBindingKind \<Rightarrow> string \<Rightarrow> string option)" where
  "register_kinds plugin caps [] b = (Inr (), b)"
| "register_kinds plugin caps (kind # kinds) b =
     (case register_bindings plugin kind (capabilities_of kind caps) (b kind) of
        (Inl e, bk) \<Rightarrow> (Inl e, b(kind := bk))
      | (Inr u, bk) \<Rightarrow> register_kinds plugin caps kinds (b(kind := bk)))"

definition normalized_manifest ::
    "PluginManifest \<Rightarrow> string \<Rightarrow> string \<Rightarrow> PluginCapabilities \<Rightarrow> PluginManifest" where
  "normalized_manifest m plugin schema caps =
     m\<lparr>pm_capabilities := caps, pm_plugin_id := plugin,
       pm_display_name := trim (pm_display_name m),
       pm_plugin_version := trim (pm_plugin_version m),
       pm_schema_version := schema, pm_api_version := PLUGIN_API_VERSION_V1\<rparr>"

text \<open>Everything \<open>register_manifest\<close> does before the bindings, and the manifest it inserts.\<close>

definition check_manifest :: "PluginManifest btree \<Rightarrow> PluginManifest \<Rightarrow> PluginError + PluginManifest" where
  "check_manifest manifests m =
     (let schema = trim (pm_schema_version m)
      in if schema \<noteq> PLUGIN_MANIFEST_SCHEMA_VERSION_V1 \<and> schema \<noteq> PLUGIN_MANIFEST_SCHEMA_VERSION_V2
         then Inl (UnsupportedSchemaVersion schema)
         else if trim (pm_api_version m) \<noteq> PLUGIN_API_VERSION_V1
         then Inl (UnsupportedApiVersion (trim (pm_api_version m)))
         else rbind (of_option InvalidPluginId (normalize_identifier (pm_plugin_id m))) (\<lambda>plugin.
           if blank (pm_display_name m) then Inl EmptyDisplayName
           else if blank (pm_plugin_version m) then Inl EmptyPluginVersion
           else if map_of manifests plugin \<noteq> None then Inl (PluginAlreadyRegistered plugin)
           else
             let n = normalize_plugin_metadata m
             in rbind (if schema = PLUGIN_MANIFEST_SCHEMA_VERSION_V2
                  then normalize_plugin_artifact (pm_artifact n) else Inr ()) (\<lambda>_.
                rbind (normalize_all_capabilities (pm_capabilities n)) (\<lambda>caps.
                  Inr (normalized_manifest n plugin schema caps)))))"

definition register_manifest ::
    "PluginManifest \<Rightarrow> PluginRegistry \<Rightarrow> (PluginError + unit) \<times> PluginRegistry" where
  "register_manifest m R =
     (case check_manifest (pr_manifests R) m of
        Inl e \<Rightarrow> (Inl e, R)
      | Inr n \<Rightarrow>
          (case register_kinds (pm_plugin_id n) (pm_capabilities n) [Tool, Hook, Provider, Channel]
                  (pr_bindings R) of
             (Inl e, b) \<Rightarrow> (Inl e, R\<lparr>pr_bindings := b\<rparr>)
           | (Inr u, b) \<Rightarrow> (Inr (), R\<lparr>pr_bindings := b,
               pr_manifests := btree_insert (pm_plugin_id n) n (pr_manifests R)\<rparr>)))"

text \<open>A loop of registrations that the first error ends.\<close>

definition registered :: "PluginRegistry \<Rightarrow> PluginManifest \<Rightarrow> PluginError + PluginRegistry" where
  "registered R m = (case register_manifest m R of (Inl e, S) \<Rightarrow> Inl e | (Inr u, S) \<Rightarrow> Inr S)"

definition list_manifests :: "PluginRegistry \<Rightarrow> PluginManifest list" where
  "list_manifests R = map snd (pr_manifests R)"

definition capability_owner :: "PluginBindingKind \<Rightarrow> string \<Rightarrow> PluginRegistry \<Rightarrow> string option" where
  "capability_owner kind name R = Option.bind (normalize_identifier name) (pr_bindings R kind)"

definition get_manifest :: "string \<Rightarrow> PluginRegistry \<Rightarrow> PluginManifest option" where
  "get_manifest plugin R = Option.bind (normalize_identifier plugin) (map_of (pr_manifests R))"

definition replace_manifest ::
    "PluginManifest \<Rightarrow> PluginRegistry \<Rightarrow> (PluginError + PluginManifest) \<times> PluginRegistry" where
  "replace_manifest m R =
     (case rbind (of_option InvalidPluginId (normalize_identifier (pm_plugin_id m))) (\<lambda>plugin.
        if map_of (pr_manifests R) plugin = None then Inl (PluginNotRegistered plugin)
        else rbind (rfold registered new_plugin_registry
            (filter (\<lambda>e. pm_plugin_id e \<noteq> plugin) (list_manifests R) @ [m])) (\<lambda>rebuilt.
          rbind (of_option (ManifestDisappeared plugin) (map_of (pr_manifests rebuilt) plugin))
            (\<lambda>replaced. Inr (replaced, rebuilt)))) of
        Inl e \<Rightarrow> (Inl e, R)
      | Inr (replaced, rebuilt) \<Rightarrow> (Inr replaced, rebuilt))"

text \<open>\<open>load_from_dirs\<close> over the manifests that were read, in the order of directories and paths.\<close>

definition load_manifests :: "PluginManifest list \<Rightarrow> PluginError + PluginRegistry" where
  "load_manifests ms = rfold registered new_plugin_registry ms"

end
