(* ===== verification/PluginSafety.thy ===== *)
theory PluginSafety
  imports Plugins
begin

text \<open>
  What the plugin registry guarantees. Normal forms are stable, so that registering a registered
  manifest again changes nothing of it; a registry built by successful operations is determined by
  its manifests, and its bindings give every declared capability to the one plugin that declares it;
  a replacement changes the one manifest and fails for its own faults only.
\<close>

subsection \<open>Normal forms are stable\<close>

definition lower_char :: "char \<Rightarrow> char" where
  "lower_char c = (if is_ascii_uppercase c then char_of (of_char c + 32 :: nat) else c)"

definition neutral :: "char \<Rightarrow> bool" where
  "neutral c \<longleftrightarrow> \<not> is_ascii_uppercase c \<and> \<not> is_ascii_lowercase c"

lemma to_ascii_lowercase_lower: "to_ascii_lowercase s = map lower_char s"
  by (simp add: to_ascii_lowercase_def lower_char_def)

lemma of_lower_char:
  "(of_char (lower_char c) :: nat) =
     (if is_ascii_uppercase c then of_char c + 32 else of_char c)"
  by (simp add: lower_char_def is_ascii_uppercase_def of_char_mod_256 take_bit_eq_mod)

lemma lower_char_lower: "\<not> is_ascii_uppercase (lower_char c)"
  using of_lower_char [of c] by (auto simp: is_ascii_uppercase_def split: if_splits)

lemma lower_char_idem [simp]: "lower_char (lower_char c) = lower_char c"
  using lower_char_lower [of c] by (subst lower_char_def) simp

lemma lower_idem [simp]: "to_ascii_lowercase (to_ascii_lowercase s) = to_ascii_lowercase s"
  by (simp add: to_ascii_lowercase_lower comp_def)

lemma lower_char_neutral: "neutral w \<Longrightarrow> lower_char c = w \<longleftrightarrow> c = w"
proof -
  assume w: "neutral w"
  have "is_ascii_lowercase (lower_char c)" if "is_ascii_uppercase c"
    using that of_lower_char [of c] by (simp add: is_ascii_lowercase_def is_ascii_uppercase_def)
  then show ?thesis using w by (auto simp: neutral_def lower_char_def)
qed

lemma prefix_lower: "list_all neutral w \<Longrightarrow> prefix w (map lower_char s) \<longleftrightarrow> prefix w s"
proof (induction w arbitrary: s)
  case (Cons c w)
  then have "c = lower_char d \<longleftrightarrow> c = d" for d using lower_char_neutral [of c d] by auto
  then show ?case using Cons by (cases s) simp_all
qed simp

lemma strip_seqs_lower:
  "list_all (list_all neutral) ws \<Longrightarrow>
   strip_seqs ws (map lower_char s) = map lower_char (strip_seqs ws s)"
proof (induction ws s rule: strip_seqs.induct)
  case (1 ws s)
  have same: "find (\<lambda>w. w \<noteq> [] \<and> prefix w (map lower_char s)) ws
      = find (\<lambda>w. w \<noteq> [] \<and> prefix w s) ws"
    using "1.prems" by (intro find_cong) (auto simp: list_all_iff prefix_lower)
  show ?case
    using 1 by (subst (1 2) strip_seqs.simps) (simp add: same drop_map split: option.split)
qed

lemma whitespace_neutral: "list_all (list_all neutral) whitespace"
  by (simp add: whitespace_def neutral_def is_ascii_uppercase_def is_ascii_lowercase_def)

lemma rev_whitespace_neutral: "list_all (list_all neutral) (map rev whitespace)"
  using whitespace_neutral by (simp add: list_all_iff)

lemma trim_lower: "trim (to_ascii_lowercase s) = to_ascii_lowercase (trim s)"
  by (simp add: trim_def trim_start_def trim_end_def to_ascii_lowercase_lower rev_map
      strip_seqs_lower [OF whitespace_neutral] strip_seqs_lower [OF rev_whitespace_neutral])

lemma identifier_visible: "identifier_char c \<Longrightarrow> visible c"
  by (auto simp: identifier_char_def visible_def is_ascii_digit_def is_ascii_lowercase_def
      is_ascii_uppercase_def)

lemma normalize_identifier_idem:
  "normalize_identifier raw = Some n \<Longrightarrow> normalize_identifier n = Some n"
proof -
  assume "normalize_identifier raw = Some n"
  then have n: "n = to_ascii_lowercase (trim raw)" "n \<noteq> []" "list_all identifier_char n"
    by (simp_all add: normalize_identifier_def Let_def split: if_splits)
  then have "list_all visible n" by (simp add: list_all_iff identifier_visible)
  then have "trim n = n" by (rule trim_visible)
  then show ?thesis using n by (simp add: normalize_identifier_def)
qed

lemma nonempty_trimmed_idem [simp]: "nonempty_trimmed (nonempty_trimmed v) = nonempty_trimmed v"
  by (cases v) (simp_all add: nonempty_trimmed_def)

lemma normalize_capability_idem:
  "normalize_capability c = Some n \<Longrightarrow> normalize_capability n = Some n"
  by (auto simp: normalize_capability_def normalize_identifier_idem)

lemma nonempty_idem:
  assumes "\<And>s. f (f s) = f s"
  shows "nonempty (map f (nonempty (map f xs))) = nonempty (map f xs)"
  by (induction xs) (simp_all add: nonempty_def assms)

lemma normalize_metadata_idem [simp]:
  "normalize_plugin_metadata (normalize_plugin_metadata m) = normalize_plugin_metadata m"
  by (simp add: normalize_plugin_metadata_def Let_def nonempty_idem trim_lower)

interpretation capability_loop:
  normalized_loop "capability_step kind" normalize_capability pc_name "\<lambda>acc y. acc @ [y]" for kind
  by unfold_locales (auto simp: capability_step_def)

lemma foldl_snoc: "foldl (\<lambda>acc y. acc @ [y]) acc zs = acc @ zs"
  by (induction zs arbitrary: acc) simp_all

lemma normalize_capabilities_Inr:
  "normalize_capabilities kind cs = Inr ns \<longleftrightarrow>
     map normalize_capability cs = map Some ns \<and> distinct (map pc_name ns)"
  by (auto simp: normalize_capabilities_def capability_loop.loop_Inr foldl_snoc)

lemma normalize_capabilities_idem:
  assumes "normalize_capabilities kind cs = Inr ns"
  shows "normalize_capabilities kind ns = Inr ns"
proof -
  have "normalize_capability n = Some n" if "n \<in> set ns" for n
    using assms that normalize_capability_idem
    by (auto simp: normalize_capabilities_Inr) (metis imageE image_eqI list.set_map)
  then show ?thesis using assms by (simp add: normalize_capabilities_Inr)
qed

lemma normalize_all_Inr:
  "normalize_all_capabilities c = Inr n \<longleftrightarrow>
     (\<forall>kind. normalize_capabilities kind (capabilities_of kind c) = Inr (capabilities_of kind n))"
proof
  assume "normalize_all_capabilities c = Inr n"
  then have "normalize_capabilities kind (capabilities_of kind c) = Inr (capabilities_of kind n)" for kind
    by (cases kind) (auto simp: normalize_all_capabilities_def)
  then show "\<forall>kind. normalize_capabilities kind (capabilities_of kind c)
      = Inr (capabilities_of kind n)" by blast
next
  assume all: "\<forall>kind. normalize_capabilities kind (capabilities_of kind c)
      = Inr (capabilities_of kind n)"
  show "normalize_all_capabilities c = Inr n"
    using all [rule_format, of Tool] all [rule_format, of Hook] all [rule_format, of Provider]
      all [rule_format, of Channel]
    by (simp add: normalize_all_capabilities_def)
qed

lemma normalize_all_idem:
  "normalize_all_capabilities c = Inr n \<Longrightarrow> normalize_all_capabilities n = Inr n"
  unfolding normalize_all_Inr using normalize_capabilities_idem by blast

text \<open>The normal form of a manifest: what an empty registry stores of it.\<close>

abbreviation normal_form :: "PluginManifest \<Rightarrow> PluginError + PluginManifest" where
  "normal_form \<equiv> check_manifest []"

lemma normalized_selectors [simp]:
  "pm_plugin_id (normalized_manifest m plugin schema caps) = plugin"
  "pm_schema_version (normalized_manifest m plugin schema caps) = schema"
  "pm_api_version (normalized_manifest m plugin schema caps) = PLUGIN_API_VERSION_V1"
  "pm_display_name (normalized_manifest m plugin schema caps) = trim (pm_display_name m)"
  "pm_plugin_version (normalized_manifest m plugin schema caps) = trim (pm_plugin_version m)"
  "pm_capabilities (normalized_manifest m plugin schema caps) = caps"
  "pm_artifact (normalized_manifest m plugin schema caps) = pm_artifact m"
  by (simp_all add: normalized_manifest_def)

lemma check_manifest_iff:
  "check_manifest t m = Inr n \<longleftrightarrow> (\<exists>plugin caps.
     (let schema = trim (pm_schema_version m); d = normalize_plugin_metadata m
      in schema \<in> {PLUGIN_MANIFEST_SCHEMA_VERSION_V1, PLUGIN_MANIFEST_SCHEMA_VERSION_V2}
         \<and> trim (pm_api_version m) = PLUGIN_API_VERSION_V1
         \<and> normalize_identifier (pm_plugin_id m) = Some plugin
         \<and> \<not> blank (pm_display_name m) \<and> \<not> blank (pm_plugin_version m)
         \<and> map_of t plugin = None
         \<and> (schema = PLUGIN_MANIFEST_SCHEMA_VERSION_V2 \<longrightarrow> is_ok (normalize_plugin_artifact (pm_artifact d)))
         \<and> normalize_all_capabilities (pm_capabilities d) = Inr caps
         \<and> n = normalized_manifest d plugin schema caps))"
proof -
  have artifact: "is_ok (normalize_plugin_artifact a) \<longleftrightarrow> normalize_plugin_artifact a = Inr ()" for a
    by (simp add: normalize_plugin_artifact_def)
  show ?thesis
    unfolding check_manifest_def Let_def artifact
    by (cases "normalize_identifier (pm_plugin_id m)") (auto split: if_split_asm)
qed

lemma check_manifest_Inr:
  "check_manifest t m = Inr n \<longleftrightarrow> normal_form m = Inr n \<and> map_of t (pm_plugin_id n) = None"
  unfolding check_manifest_iff Let_def by auto

lemma normal_form_id: "normal_form m = Inr n \<Longrightarrow> normalize_identifier (pm_plugin_id m) = Some (pm_plugin_id n)"
  unfolding check_manifest_iff Let_def by auto

lemma schema_trimmed [simp]:
  "trim PLUGIN_MANIFEST_SCHEMA_VERSION_V1 = PLUGIN_MANIFEST_SCHEMA_VERSION_V1"
  "trim PLUGIN_MANIFEST_SCHEMA_VERSION_V2 = PLUGIN_MANIFEST_SCHEMA_VERSION_V2"
  "trim PLUGIN_API_VERSION_V1 = PLUGIN_API_VERSION_V1"
  by (simp_all add: PLUGIN_MANIFEST_SCHEMA_VERSION_V1_def PLUGIN_MANIFEST_SCHEMA_VERSION_V2_def
      PLUGIN_API_VERSION_V1_def trim_visible visible_def)

lemma metadata_selectors [simp]:
  "pm_capabilities (normalize_plugin_metadata m) = pm_capabilities m"
  "pm_display_name (normalize_plugin_metadata m) = pm_display_name m"
  "pm_plugin_version (normalize_plugin_metadata m) = pm_plugin_version m"
  by (simp_all add: normalize_plugin_metadata_def Let_def)

lemma normalized_again:
  "normalize_plugin_metadata (normalized_manifest (normalize_plugin_metadata m) plugin schema caps)
   = normalized_manifest (normalize_plugin_metadata m) plugin schema caps"
  by (simp add: normalize_plugin_metadata_def normalized_manifest_def Let_def nonempty_idem trim_lower)

lemma normalized_twice:
  "normalized_manifest (normalized_manifest m plugin schema caps) plugin schema caps
   = normalized_manifest m plugin schema caps"
  by (simp add: normalized_manifest_def)

lemma normal_form_idem:
  assumes "normal_form m = Inr n"
  shows "normal_form n = Inr n"
proof -
  let ?d = "normalize_plugin_metadata m" and ?schema = "trim (pm_schema_version m)"
  obtain plugin caps where n: "n = normalized_manifest ?d plugin ?schema caps"
    and facts: "?schema \<in> {PLUGIN_MANIFEST_SCHEMA_VERSION_V1, PLUGIN_MANIFEST_SCHEMA_VERSION_V2}"
      "\<not> blank (pm_display_name m)" "\<not> blank (pm_plugin_version m)"
      "?schema = PLUGIN_MANIFEST_SCHEMA_VERSION_V2 \<longrightarrow> is_ok (normalize_plugin_artifact (pm_artifact ?d))"
    and id: "normalize_identifier (pm_plugin_id m) = Some plugin"
    and caps: "normalize_all_capabilities (pm_capabilities m) = Inr caps"
    using assms unfolding check_manifest_iff Let_def by auto
  show ?thesis
    unfolding check_manifest_iff Let_def
    using facts normalize_all_idem [OF caps] normalize_identifier_idem [OF id]
    by (simp add: n normalized_again normalized_twice)
qed

subsection \<open>Consistent registries\<close>

definition names :: "PluginBindingKind \<Rightarrow> PluginManifest \<Rightarrow> string set" where
  "names kind m = pc_name ` set (capabilities_of kind (pm_capabilities m))"

definition compatible :: "PluginManifest \<Rightarrow> PluginManifest \<Rightarrow> bool" where
  "compatible m n \<longleftrightarrow> pm_plugin_id m \<noteq> pm_plugin_id n \<and> (\<forall>kind. names kind m \<inter> names kind n = {})"

text \<open>Every entry is in normal form under its own identifier, and a name is bound to exactly the
  plugin that declares it.\<close>

definition consistent :: "PluginRegistry \<Rightarrow> bool" where
  "consistent R \<longleftrightarrow> btree_ok (pr_manifests R)
     \<and> (\<forall>(plugin, m) \<in> set (pr_manifests R). pm_plugin_id m = plugin \<and> normal_form m = Inr m)
     \<and> (\<forall>kind name plugin. pr_bindings R kind name = Some plugin \<longleftrightarrow>
         (\<exists>m. (plugin, m) \<in> set (pr_manifests R) \<and> name \<in> names kind m))"

lemma consistent_new: "consistent new_plugin_registry"
  by (simp add: consistent_def new_plugin_registry_def btree_ok_def)

lemma registry_consistentD:
  assumes "consistent R" and "(plugin, m) \<in> set (pr_manifests R)"
  shows "pm_plugin_id m = plugin" "normal_form m = Inr m"
    "name \<in> names kind m \<Longrightarrow> pr_bindings R kind name = Some plugin"
  using assms by (auto simp: consistent_def)

lemma unbound_iff:
  assumes "consistent R"
  shows "pr_bindings R kind name = None \<longleftrightarrow> (\<forall>m \<in> set (list_manifests R). name \<notin> names kind m)"
proof -
  have "pr_bindings R kind name \<noteq> None \<longleftrightarrow> (\<exists>(plugin, m) \<in> set (pr_manifests R). name \<in> names kind m)"
    using assms by (auto simp: consistent_def)
  then show ?thesis by (auto simp: list_manifests_def)
qed

lemma entry_iff:
  assumes "consistent R"
  shows "(plugin, m) \<in> set (pr_manifests R) \<longleftrightarrow> m \<in> set (list_manifests R) \<and> pm_plugin_id m = plugin"
proof
  assume "(plugin, m) \<in> set (pr_manifests R)"
  then show "m \<in> set (list_manifests R) \<and> pm_plugin_id m = plugin"
    using registry_consistentD(1) [OF assms] by (force simp: list_manifests_def)
next
  assume "m \<in> set (list_manifests R) \<and> pm_plugin_id m = plugin"
  then obtain q where "(q, m) \<in> set (pr_manifests R)" "pm_plugin_id m = plugin"
    by (auto simp: list_manifests_def)
  then show "(plugin, m) \<in> set (pr_manifests R)" using registry_consistentD(1) [OF assms] by blast
qed

lemma stored_manifest:
  assumes "consistent R"
  shows "map_of (pr_manifests R) plugin = Some m
    \<longleftrightarrow> m \<in> set (list_manifests R) \<and> pm_plugin_id m = plugin"
proof -
  have "map_of (pr_manifests R) plugin = Some m \<longleftrightarrow> (plugin, m) \<in> set (pr_manifests R)"
    using assms by (intro map_of_eq_Some_iff btree_ok_distinct) (simp add: consistent_def)
  then show ?thesis by (simp add: entry_iff [OF assms])
qed

text \<open>The manifests determine the registry.\<close>

lemma consistent_eqI:
  assumes "consistent R" and "consistent S" and "set (list_manifests R) = set (list_manifests S)"
  shows "R = S"
proof -
  have m: "map_of (pr_manifests R) = map_of (pr_manifests S)"
  proof
    fix plugin
    have "map_of (pr_manifests R) plugin = Some m \<longleftrightarrow> map_of (pr_manifests S) plugin = Some m" for m
      using assms by (simp add: stored_manifest)
    then show "map_of (pr_manifests R) plugin = map_of (pr_manifests S) plugin"
      by (metis not_Some_eq)
  qed
  then have t: "pr_manifests R = pr_manifests S"
    using assms(1,2) by (intro btree_eqI) (simp_all add: consistent_def)
  have "pr_bindings R kind name = pr_bindings S kind name" for kind name
  proof -
    have "pr_bindings R kind name = Some p \<longleftrightarrow> pr_bindings S kind name = Some p" for p
      using assms(1,2) t by (simp add: consistent_def)
    then show ?thesis by (metis not_Some_eq)
  qed
  then have "pr_bindings R = pr_bindings S" by blast
  then show ?thesis using t by (cases R, cases S) simp
qed

subsection \<open>Registration\<close>

lemma bound_None_iff:
  assumes "x \<notin> N" and "b x = None"
  shows "(\<forall>y \<in> N. (b(x \<mapsto> p)) y = None) \<longleftrightarrow> (\<forall>y \<in> insert x N. b y = None)"
  using assms by auto

lemma bound_kinds:
  assumes "k \<notin> K"
  shows "(\<lambda>j y. if j \<in> K \<and> y \<in> F j then Some p
       else (b(k := \<lambda>y. if y \<in> F k then Some p else b k y)) j y)
     = (\<lambda>j y. if j \<in> insert k K \<and> y \<in> F j then Some p else b j y)"
  using assms by (intro ext) simp

lemma conj_true: "l = x \<Longrightarrow> a \<Longrightarrow> l = (a \<and> x)"
  by simp

lemma register_bindings_Inr:
  assumes "distinct (map pc_name cs)"
  shows "register_bindings plugin kind cs b = (Inr u, b') \<longleftrightarrow>
    (\<forall>name \<in> pc_name ` set cs. b name = None)
    \<and> b' = (\<lambda>name. if name \<in> pc_name ` set cs then Some plugin else b name)"
  using assms
proof (induction cs arbitrary: b)
  case (Cons c cs)
  show ?case
  proof (cases "b (pc_name c)")
    case None
    have bound: "(\<lambda>name. if name \<in> pc_name ` set cs then Some plugin else (b(pc_name c \<mapsto> plugin)) name)
        = (\<lambda>name. if name \<in> pc_name ` set (c # cs) then Some plugin else b name)"
      by (auto simp: fun_eq_iff)
    have free: "(\<forall>name \<in> pc_name ` set cs. (b(pc_name c \<mapsto> plugin)) name = None)
        \<longleftrightarrow> (\<forall>name \<in> pc_name ` set (c # cs). b name = None)"
      unfolding list.set image_insert
      by (rule bound_None_iff) (use Cons.prems None in simp_all)
    have "distinct (map pc_name cs)" using Cons.prems by simp
    then show ?thesis
      by (simp only: register_bindings.simps None option.case Cons.IH bound free)
  qed simp
qed auto

lemma register_kinds_Inr:
  assumes "distinct kinds" and "\<And>kind. distinct (map pc_name (capabilities_of kind caps))"
  shows "register_kinds plugin caps kinds b = (Inr u, b') \<longleftrightarrow>
    (\<forall>kind \<in> set kinds. \<forall>name \<in> pc_name ` set (capabilities_of kind caps). b kind name = None)
    \<and> b' = (\<lambda>kind name. if kind \<in> set kinds \<and> name \<in> pc_name ` set (capabilities_of kind caps)
         then Some plugin else b kind name)"
  using assms(1)
proof (induction kinds arbitrary: b)
  case (Cons kind kinds)
  let ?cs = "capabilities_of kind caps"
  let ?bk = "\<lambda>name. if name \<in> pc_name ` set ?cs then Some plugin else b kind name"
  obtain r bk where r: "register_bindings plugin kind ?cs (b kind) = (r, bk)" by fastforce
  show ?case
  proof (cases r)
    case (Inl e)
    then have "\<not> (\<forall>name \<in> pc_name ` set ?cs. b kind name = None)"
      using r register_bindings_Inr [OF assms(2) [of kind], of plugin kind "b kind" "()" ?bk] by auto
    then show ?thesis using r Inl by simp
  next
    case (Inr v)
    then have ok: "\<forall>name \<in> pc_name ` set ?cs. b kind name = None" "bk = ?bk"
      using r register_bindings_Inr [OF assms(2) [of kind], of plugin kind "b kind" v bk] by simp_all
    have bound: "(\<lambda>k name. if k \<in> set kinds \<and> name \<in> pc_name ` set (capabilities_of k caps)
          then Some plugin else (b(kind := bk)) k name)
        = (\<lambda>k name. if k \<in> set (kind # kinds) \<and> name \<in> pc_name ` set (capabilities_of k caps)
          then Some plugin else b k name)"
      unfolding ok(2) list.set by (rule bound_kinds) (use Cons.prems in simp)
    have "kind \<notin> set kinds" using Cons.prems by simp
    then have "(\<forall>k \<in> set kinds. \<forall>name \<in> pc_name ` set (capabilities_of k caps).
          (b(kind := bk)) k name = None)
        \<longleftrightarrow> (\<forall>k \<in> set kinds. \<forall>name \<in> pc_name ` set (capabilities_of k caps). b k name = None)"
      by (intro ball_cong refl) auto
    then have free: "(\<forall>k \<in> set kinds. \<forall>name \<in> pc_name ` set (capabilities_of k caps).
          (b(kind := bk)) k name = None)
        \<longleftrightarrow> (\<forall>k \<in> set (kind # kinds). \<forall>name \<in> pc_name ` set (capabilities_of k caps). b k name = None)"
      unfolding list.set ball_simps(7) using ok(1) by (rule conj_true)
    have "distinct kinds" using Cons.prems by simp
    note iff = Cons.IH [OF this]
    have step: "register_kinds plugin caps (kind # kinds) b
        = register_kinds plugin caps kinds (b(kind := bk))"
      using r Inr by simp
    show ?thesis unfolding step iff bound free by (rule refl)
  qed
qed auto

lemma distinct_kinds: "distinct [Tool, Hook, Provider, Channel]"
  by simp

lemma all_kinds: "set [Tool, Hook, Provider, Channel] = UNIV"
  using PluginBindingKind.exhaust by auto

lemma normal_names_distinct:
  assumes "normal_form m = Inr n"
  shows "distinct (map pc_name (capabilities_of kind (pm_capabilities n)))"
proof -
  obtain caps where "normalize_all_capabilities (pm_capabilities m) = Inr caps" "pm_capabilities n = caps"
    using assms unfolding check_manifest_iff Let_def by auto
  then show ?thesis by (simp add: normalize_all_Inr normalize_capabilities_Inr)
qed

text \<open>One registration, exactly.\<close>

lemma registered_Inr:
  "registered R m = Inr S \<longleftrightarrow> (\<exists>n. normal_form m = Inr n
     \<and> map_of (pr_manifests R) (pm_plugin_id n) = None
     \<and> (\<forall>kind. \<forall>name \<in> names kind n. pr_bindings R kind name = None)
     \<and> S = R\<lparr>pr_bindings := (\<lambda>kind name. if name \<in> names kind n then Some (pm_plugin_id n)
             else pr_bindings R kind name),
           pr_manifests := btree_insert (pm_plugin_id n) n (pr_manifests R)\<rparr>)"
proof (cases "check_manifest (pr_manifests R) m")
  case (Inl e)
  then have "\<nexists>n. normal_form m = Inr n \<and> map_of (pr_manifests R) (pm_plugin_id n) = None"
    using check_manifest_Inr [of "pr_manifests R" m] by (metis Inl_Inr_False)
  then show ?thesis using Inl by (auto simp: registered_def register_manifest_def)
next
  case (Inr n)
  then have n: "normal_form m = Inr n" "map_of (pr_manifests R) (pm_plugin_id n) = None"
    using check_manifest_Inr [of "pr_manifests R" m n] by blast+
  let ?kinds = "[Tool, Hook, Provider, Channel]"
  obtain r b where r: "register_kinds (pm_plugin_id n) (pm_capabilities n) ?kinds (pr_bindings R) = (r, b)"
    by (meson surj_pair)
  have iff: "register_kinds (pm_plugin_id n) (pm_capabilities n) ?kinds (pr_bindings R) = (Inr (), b')
      \<longleftrightarrow> (\<forall>kind. \<forall>name \<in> names kind n. pr_bindings R kind name = None)
        \<and> b' = (\<lambda>kind name. if name \<in> names kind n then Some (pm_plugin_id n)
             else pr_bindings R kind name)" for b'
    using register_kinds_Inr [OF distinct_kinds normal_names_distinct [OF n(1)]]
    unfolding all_kinds names_def [symmetric] by (simp only: UNIV_I ball_UNIV simp_thms)
  show ?thesis
  proof (cases r)
    case (Inl e)
    then have "\<not> (\<forall>kind. \<forall>name \<in> names kind n. pr_bindings R kind name = None)"
      using r iff by auto
    moreover have "registered R m = Inl e"
      unfolding registered_def register_manifest_def Inr sum.case r Inl prod.case by (rule refl)
    ultimately show ?thesis using n(1) by auto
  next
    case unit: (Inr u)
    then have b: "(\<forall>kind. \<forall>name \<in> names kind n. pr_bindings R kind name = None)"
        "b = (\<lambda>kind name. if name \<in> names kind n then Some (pm_plugin_id n)
             else pr_bindings R kind name)"
      using r iff [of b] by simp_all
    have "registered R m = Inr (R\<lparr>pr_bindings := b,
        pr_manifests := btree_insert (pm_plugin_id n) n (pr_manifests R)\<rparr>)"
      unfolding registered_def register_manifest_def Inr sum.case r unit prod.case by (rule refl)
    then show ?thesis using n b by auto
  qed
qed

lemma compatible_sym: "compatible m n \<longleftrightarrow> compatible n m"
  by (auto simp: compatible_def)

lemma set_btree_insert: "map_of t k = None \<Longrightarrow> set (btree_insert k v t) = insert (k, v) (set t)"
proof (induction t)
  case (Cons a t)
  then show ?case by (cases a) (auto split: if_split_asm)
qed simp

lemma free_iff_compatible:
  assumes "consistent R"
  shows "map_of (pr_manifests R) (pm_plugin_id n) = None
      \<and> (\<forall>kind. \<forall>name \<in> names kind n. pr_bindings R kind name = None)
    \<longleftrightarrow> (\<forall>e \<in> set (list_manifests R). compatible n e)"
proof -
  have "map_of (pr_manifests R) (pm_plugin_id n) = None
      \<longleftrightarrow> (\<forall>e \<in> set (list_manifests R). pm_plugin_id n \<noteq> pm_plugin_id e)"
    using stored_manifest [OF assms, of "pm_plugin_id n"] by (metis not_Some_eq)
  then show ?thesis unfolding unbound_iff [OF assms] compatible_def by blast
qed

lemma registered_consistent:
  assumes "consistent R" and "registered R m = Inr S"
  obtains n where "normal_form m = Inr n" and "\<forall>e \<in> set (list_manifests R). compatible n e"
    and "set (list_manifests S) = insert n (set (list_manifests R))" and "consistent S"
proof -
  obtain n where n: "normal_form m = Inr n" "map_of (pr_manifests R) (pm_plugin_id n) = None"
      "\<forall>kind. \<forall>name \<in> names kind n. pr_bindings R kind name = None"
    and S: "S = R\<lparr>pr_bindings := (\<lambda>kind name. if name \<in> names kind n then Some (pm_plugin_id n)
             else pr_bindings R kind name),
           pr_manifests := btree_insert (pm_plugin_id n) n (pr_manifests R)\<rparr>"
    using assms(2) unfolding registered_Inr by blast
  have set: "set (pr_manifests S) = insert (pm_plugin_id n, n) (set (pr_manifests R))"
    using set_btree_insert [OF n(2)] S by simp
  have entries: "\<forall>(plugin, e) \<in> set (pr_manifests S). pm_plugin_id e = plugin \<and> normal_form e = Inr e"
    using assms(1) normal_form_idem [OF n(1)] unfolding set consistent_def by simp
  have unbound: "name \<notin> names kind e" if "(p, e) \<in> set (pr_manifests R)" "name \<in> names kind n" for p e kind name
    using that n(3) registry_consistentD(3) [OF assms(1) that(1)] by fastforce
  have "pr_bindings S kind name = Some plugin
      \<longleftrightarrow> (\<exists>e. (plugin, e) \<in> set (pr_manifests S) \<and> name \<in> names kind e)" for kind name plugin
  proof (cases "name \<in> names kind n")
    case True
    then show ?thesis using unbound unfolding set by (auto simp: S)
  next
    case False
    then show ?thesis using assms(1) unfolding set by (auto simp: S consistent_def)
  qed
  moreover have "btree_ok (pr_manifests S)" using assms(1) by (simp add: S consistent_def)
  ultimately have S_ok: "consistent S" using entries unfolding consistent_def by simp
  have "set (list_manifests S) = insert n (set (list_manifests R))"
    unfolding list_manifests_def using set by simp
  moreover have "\<forall>e \<in> set (list_manifests R). compatible n e"
    using n(2,3) free_iff_compatible [OF assms(1)] by blast
  ultimately show thesis using that n(1) S_ok by blast
qed

lemma registered_ok:
  assumes "consistent R" and "normal_form m = Inr n" and "\<forall>e \<in> set (list_manifests R). compatible n e"
  shows "\<exists>S. registered R m = Inr S"
  using assms free_iff_compatible [OF assms(1), of n] unfolding registered_Inr by blast

text \<open>A loop of registrations succeeds exactly when the manifests have normal forms that are
  compatible with each other and with those registered; and then these are registered.\<close>

lemma rfold_registered:
  assumes "consistent R"
  shows "rfold registered R ms = Inr S \<longleftrightarrow> (\<exists>ns. rmap normal_form ms = Inr ns
     \<and> sorted_wrt compatible ns \<and> (\<forall>n \<in> set ns. \<forall>e \<in> set (list_manifests R). compatible n e)
     \<and> consistent S \<and> set (list_manifests S) = set (list_manifests R) \<union> set ns)"
  using assms
proof (induction ms arbitrary: R)
  case Nil
  then show ?case using consistent_eqI [of S R] by auto
next
  case (Cons m ms)
  show ?case
  proof
    assume "rfold registered R (m # ms) = Inr S"
    then obtain T where T: "registered R m = Inr T" "rfold registered T ms = Inr S" by auto
    obtain n where n: "normal_form m = Inr n" "\<forall>e \<in> set (list_manifests R). compatible n e"
        "set (list_manifests T) = insert n (set (list_manifests R))" "consistent T"
      by (rule registered_consistent [OF Cons.prems T(1)])
    obtain ns where ns: "rmap normal_form ms = Inr ns" "sorted_wrt compatible ns"
        "\<forall>k \<in> set ns. \<forall>e \<in> set (list_manifests T). compatible k e" "consistent S"
        "set (list_manifests S) = set (list_manifests T) \<union> set ns"
      using Cons.IH [OF n(4)] T(2) by blast
    have "sorted_wrt compatible (n # ns)"
      using ns(2,3) n(3) compatible_sym by auto
    then show "\<exists>ns. rmap normal_form (m # ms) = Inr ns \<and> sorted_wrt compatible ns
        \<and> (\<forall>n \<in> set ns. \<forall>e \<in> set (list_manifests R). compatible n e)
        \<and> consistent S \<and> set (list_manifests S) = set (list_manifests R) \<union> set ns"
      using n(1-3) ns by (intro exI [of _ "n # ns"]) auto
  next
    assume "\<exists>ns. rmap normal_form (m # ms) = Inr ns \<and> sorted_wrt compatible ns
        \<and> (\<forall>n \<in> set ns. \<forall>e \<in> set (list_manifests R). compatible n e)
        \<and> consistent S \<and> set (list_manifests S) = set (list_manifests R) \<union> set ns"
    then obtain n ns where n: "normal_form m = Inr n" "rmap normal_form ms = Inr ns"
        "sorted_wrt compatible (n # ns)"
        "\<forall>k \<in> set (n # ns). \<forall>e \<in> set (list_manifests R). compatible k e"
        "consistent S" "set (list_manifests S) = set (list_manifests R) \<union> set (n # ns)"
      by auto
    obtain T where T: "registered R m = Inr T"
      using registered_ok [OF Cons.prems n(1)] n(4) by auto
    obtain k where k: "normal_form m = Inr k"
        "set (list_manifests T) = insert k (set (list_manifests R))" "consistent T"
      by (rule registered_consistent [OF Cons.prems T])
    have "k = n" using k(1) n(1) by simp
    then have "rfold registered T ms = Inr S"
      unfolding Cons.IH [OF k(3)] using n(2-6) k(2) compatible_sym
      by (intro exI [of _ ns]) auto
    then show "rfold registered R (m # ms) = Inr S" using T by simp
  qed
qed

lemma rfold_registered_ok:
  assumes "consistent R" and "rmap normal_form ms = Inr ns" and "sorted_wrt compatible ns"
    and "\<forall>n \<in> set ns. \<forall>e \<in> set (list_manifests R). compatible n e"
  shows "\<exists>S. rfold registered R ms = Inr S"
  using assms
proof (induction ms arbitrary: R ns)
  case (Cons m ms)
  obtain n ks where n: "normal_form m = Inr n" "rmap normal_form ms = Inr ks" "ns = n # ks"
    using Cons.prems(2) by auto
  obtain T where T: "registered R m = Inr T"
    using registered_ok [OF Cons.prems(1) n(1)] Cons.prems(4) n(3) by auto
  obtain k where k: "normal_form m = Inr k"
      "set (list_manifests T) = insert k (set (list_manifests R))" "consistent T"
    by (rule registered_consistent [OF Cons.prems(1) T])
  have "\<exists>S. rfold registered T ms = Inr S"
    using Cons.prems(3,4) n k compatible_sym by (intro Cons.IH [OF k(3) n(2)]) auto
  then show ?case using T by simp
qed simp

lemma consistent_compatible:
  assumes "consistent R" and "m \<in> set (list_manifests R)" and "n \<in> set (list_manifests R)" and "m \<noteq> n"
  shows "compatible m n"
proof -
  have m: "(pm_plugin_id m, m) \<in> set (pr_manifests R)" and n: "(pm_plugin_id n, n) \<in> set (pr_manifests R)"
    using assms(2,3) registry_consistentD(1) [OF assms(1)] by (auto simp: list_manifests_def)
  have id: "pm_plugin_id m \<noteq> pm_plugin_id n"
    using stored_manifest [OF assms(1)] assms(2-4) by (metis option.inject)
  have "name \<notin> names kind n" if "name \<in> names kind m" for kind name
    using that registry_consistentD(3) [OF assms(1) m] registry_consistentD(3) [OF assms(1) n] id by fastforce
  then show ?thesis using id by (auto simp: compatible_def)
qed

lemma manifests_compatible:
  assumes "consistent R"
  shows "sorted_wrt compatible (list_manifests R)"
proof -
  have "distinct (list_manifests R)"
  proof -
    have d: "distinct (map fst (pr_manifests R))"
      using assms by (intro btree_ok_distinct) (simp add: consistent_def)
    have "inj_on snd (set (pr_manifests R))"
      using registry_consistentD(1) [OF assms] by (intro inj_onI) (metis prod.collapse)
    then show ?thesis using d by (simp add: list_manifests_def distinct_map)
  qed
  then have "compatible (list_manifests R ! i) (list_manifests R ! j)"
    if "i < j" "j < length (list_manifests R)" for i j
    using that by (intro consistent_compatible [OF assms]) (simp_all add: nth_eq_iff_index_eq)
  then show ?thesis by (simp add: sorted_wrt_iff_nth_less)
qed

subsection \<open>Loading and replacing\<close>

lemma rmap_append:
  "rmap f (xs @ ys) = rbind (rmap f xs) (\<lambda>as. rbind (rmap f ys) (\<lambda>bs. Inr (as @ bs)))"
proof (induction xs)
  case Nil
  then show ?case by (cases "rmap f ys") simp_all
next
  case (Cons x xs)
  then show ?case by (cases "f x"; cases "rmap f xs"; cases "rmap f ys") simp_all
qed

lemma sorted_wrt_compatible:
  "sorted_wrt compatible ns \<longleftrightarrow>
     distinct ns \<and> (\<forall>m \<in> set ns. \<forall>n \<in> set ns. m \<noteq> n \<longrightarrow> compatible m n)"
proof (induction ns)
  case (Cons n ns)
  have "\<not> compatible n n" by (simp add: compatible_def)
  then show ?case using Cons compatible_sym by auto
qed simp

text \<open>Manifests with compatible normal forms load.\<close>

lemma load_ok:
  assumes "rmap normal_form ms = Inr ns" and "sorted_wrt compatible ns"
  obtains R where "load_manifests ms = Inr R" and "set (list_manifests R) = set ns"
proof -
  obtain R where R: "load_manifests ms = Inr R"
    using rfold_registered_ok [OF consistent_new assms]
    by (auto simp: load_manifests_def list_manifests_def new_plugin_registry_def)
  then have "set (list_manifests R) = set ns"
    using assms(1) unfolding load_manifests_def rfold_registered [OF consistent_new]
    by (auto simp: list_manifests_def new_plugin_registry_def)
  then show thesis using that R by blast
qed

text \<open>The order in which plugin manifests are found does not matter. When the manifests of the
  plugin directories load, they load in any other order to the same registry.\<close>

theorem load_order_irrelevant:
  assumes "load_manifests ms = Inr R" and "mset ms = mset ms'"
  shows "load_manifests ms' = Inr R"
proof -
  obtain ns where ns: "rmap normal_form ms = Inr ns" "sorted_wrt compatible ns" "consistent R"
      "set (list_manifests R) = set ns"
    using assms(1) unfolding load_manifests_def rfold_registered [OF consistent_new]
    by (auto simp: list_manifests_def new_plugin_registry_def)
  obtain ns' where ns': "rmap normal_form ms' = Inr ns'" "mset ns' = mset ns"
    using rmap_perm [OF ns(1) assms(2)] by blast
  have "set ns' = set ns" and "distinct ns' \<longleftrightarrow> distinct ns"
    using ns'(2) by (auto dest: mset_eq_setD mset_eq_imp_distinct_iff)
  then have "sorted_wrt compatible ns'" and "set (list_manifests R) = set ns'"
    using ns(2,4) by (simp_all add: sorted_wrt_compatible)
  then show ?thesis
    unfolding load_manifests_def rfold_registered [OF consistent_new]
    using ns'(1) ns(3) by (auto simp: list_manifests_def new_plugin_registry_def)
qed

text \<open>The registries that are kept: a registration that fails leaves its first bindings in the registry,
  which every caller of the code discards then (a half-built one, or the copy of a handler).\<close>

inductive registry_run :: "PluginRegistry \<Rightarrow> bool" where
  load: "load_manifests ms = Inr R \<Longrightarrow> registry_run R"
| register: "registry_run R \<Longrightarrow> register_manifest m R = (Inr u, S) \<Longrightarrow> registry_run S"
| replace: "registry_run R \<Longrightarrow> replace_manifest m R = (r, S) \<Longrightarrow> registry_run S"

lemma replace_cases:
  assumes "replace_manifest m R = (r, S)"
  obtains e where "r = Inl e" and "S = R"
  | n plugin where "r = Inr n" and "normalize_identifier (pm_plugin_id m) = Some plugin"
      and "map_of (pr_manifests R) plugin \<noteq> None"
      and "rfold registered new_plugin_registry
        (filter (\<lambda>e. pm_plugin_id e \<noteq> plugin) (list_manifests R) @ [m]) = Inr S"
      and "map_of (pr_manifests S) plugin = Some n"
proof (cases r)
  case (Inl e)
  then show ?thesis using assms that(1) by (auto simp: replace_manifest_def split: sum.splits)
next
  case (Inr n)
  then show ?thesis
    using assms that(2) by (auto simp: replace_manifest_def split: sum.splits if_splits)
qed

lemma registry_run_consistent: "registry_run R \<Longrightarrow> consistent R"
proof (induction rule: registry_run.induct)
  case (load ms R)
  then show ?case
    unfolding load_manifests_def rfold_registered [OF consistent_new] by blast
next
  case (register R m u S)
  then have "registered R m = Inr S" by (simp add: registered_def)
  then show ?case using registered_consistent register.IH by metis
next
  case (replace R m r S)
  from replace.hyps(2) show ?case
  proof (cases rule: replace_cases)
    case (2 n plugin)
    then show ?thesis unfolding rfold_registered [OF consistent_new] by blast
  qed (use replace.IH in simp)
qed

lemma capability_owner_iff:
  assumes "registry_run R"
  shows "capability_owner kind name R = Some plugin \<longleftrightarrow>
    (\<exists>m \<in> set (list_manifests R). pm_plugin_id m = plugin
       \<and> (\<exists>c \<in> set (capabilities_of kind (pm_capabilities m)). normalize_identifier name = Some (pc_name c)))"
proof -
  have R: "consistent R" by (rule registry_run_consistent [OF assms])
  have "pr_bindings R kind x = Some plugin
      \<longleftrightarrow> (\<exists>m \<in> set (list_manifests R). pm_plugin_id m = plugin \<and> x \<in> names kind m)" for x
  proof -
    have "pr_bindings R kind x = Some plugin
        \<longleftrightarrow> (\<exists>m. (plugin, m) \<in> set (pr_manifests R) \<and> x \<in> names kind m)"
      using R by (simp add: consistent_def)
    then show ?thesis unfolding entry_iff [OF R] by blast
  qed
  then show ?thesis
    by (cases "normalize_identifier name") (auto simp: capability_owner_def names_def)
qed

lemma replace_Inr:
  assumes "registry_run R" and "get_manifest (pm_plugin_id m) R = Some old"
  shows "(replace_manifest m R = (Inr n, S) \<longleftrightarrow>
      normal_form m = Inr n \<and> (\<forall>e \<in> set (list_manifests R) - {old}. compatible n e)
      \<and> registry_run S \<and> set (list_manifests S) = insert n (set (list_manifests R) - {old}))
    \<and> (replace_manifest m R = (Inl err, S) \<longrightarrow> S = R)"
proof -
  have R: "consistent R" by (rule registry_run_consistent [OF assms(1)])
  obtain plugin where plugin: "normalize_identifier (pm_plugin_id m) = Some plugin"
    and old: "map_of (pr_manifests R) plugin = Some old"
    using assms(2) by (auto simp: get_manifest_def split: bind_splits)
  let ?others = "filter (\<lambda>e. pm_plugin_id e \<noteq> plugin) (list_manifests R)"
  have o: "old \<in> set (list_manifests R)" "pm_plugin_id old = plugin"
    using old by (simp_all add: stored_manifest [OF R])
  have others: "set ?others = set (list_manifests R) - {old}"
    using o consistent_compatible [OF R] by (auto simp: compatible_def)
  have "rmap normal_form ?others = Inr ?others"
    using registry_consistentD(2) [OF R] by (auto simp: rmap_Inr_iff list_all2_same list_manifests_def)
  then have rm: "rmap normal_form (?others @ [m]) = Inr ns
      \<longleftrightarrow> (\<exists>n. normal_form m = Inr n \<and> ns = ?others @ [n])" for ns
    by (auto simp: rmap_append)
  have comp: "sorted_wrt compatible (?others @ [n]) \<longleftrightarrow> (\<forall>e \<in> set (list_manifests R) - {old}. compatible n e)" for n
    using manifests_compatible [OF R] compatible_sym
    unfolding sorted_wrt_append others by (auto simp: sorted_wrt_filter)
  have rebuilt: "rfold registered new_plugin_registry (?others @ [m]) = Inr S \<longleftrightarrow>
      (\<exists>n. normal_form m = Inr n \<and> (\<forall>e \<in> set (list_manifests R) - {old}. compatible n e)
        \<and> consistent S \<and> set (list_manifests S) = insert n (set (list_manifests R) - {old}))"
    unfolding rfold_registered [OF consistent_new] rm
    using comp others by (auto simp: list_manifests_def new_plugin_registry_def)
  have found: "map_of (pr_manifests S) plugin = Some n"
    if "normal_form m = Inr n" "consistent S" "set (list_manifests S) = insert n (set (list_manifests R) - {old})" for n
    using that normal_form_id [OF that(1)] plugin by (simp add: stored_manifest [OF that(2)])
  have "replace_manifest m R = (Inr n, S) \<longleftrightarrow>
      rfold registered new_plugin_registry (?others @ [m]) = Inr S \<and> map_of (pr_manifests S) plugin = Some n"
    using plugin old by (auto simp: replace_manifest_def split: sum.splits)
  also have "\<dots> \<longleftrightarrow> normal_form m = Inr n \<and> (\<forall>e \<in> set (list_manifests R) - {old}. compatible n e)
      \<and> consistent S \<and> set (list_manifests S) = insert n (set (list_manifests R) - {old})"
    unfolding rebuilt using found by auto
  finally have iff: "replace_manifest m R = (Inr n, S) \<longleftrightarrow> \<dots>" .
  moreover have "replace_manifest m R = (Inr n, S) \<Longrightarrow> registry_run S"
    by (rule registry_run.replace [OF assms(1)])
  moreover have "replace_manifest m R = (Inl err, S) \<Longrightarrow> S = R"
    by (erule replace_cases) simp_all
  ultimately show ?thesis using registry_run_consistent by blast
qed

text \<open>C24: a replacement changes one plugin, and fails for its own faults only. In a registry built by
  successful loads, registrations and replacements it succeeds exactly when
  a plugin is registered under the identifier of the new manifest and the manifest has a normal form
  compatible with the other plugins; then the registry holds that normal form and the other plugins
  as they were, and otherwise it is the one before. The other plugins, registered anew from their
  normal forms, never make it fail.\<close>

theorem replace_exact:
  assumes "registry_run R"
  shows "(replace_manifest m R = (Inr n, S) \<longleftrightarrow>
      (\<exists>old. get_manifest (pm_plugin_id m) R = Some old
        \<and> normal_form m = Inr n \<and> (\<forall>e \<in> set (list_manifests R) - {old}. compatible n e)
        \<and> registry_run S \<and> set (list_manifests S) = insert n (set (list_manifests R) - {old})))
    \<and> (replace_manifest m R = (Inl err, S) \<longrightarrow> S = R)"
proof (cases "get_manifest (pm_plugin_id m) R")
  case None
  then have "replace_manifest m R = (r, S) \<Longrightarrow> is_ok r = False \<and> S = R" for r
    by (auto simp: replace_manifest_def get_manifest_def split: option.splits if_splits bind_splits)
  then show ?thesis using None by fastforce
next
  case (Some old)
  then show ?thesis using replace_Inr [OF assms Some] by simp
qed

text \<open>Loading what a registry lists gives the registry.\<close>

lemma reload:
  assumes "consistent R"
  shows "load_manifests (list_manifests R) = Inr R"
proof -
  have "rmap normal_form (list_manifests R) = Inr (list_manifests R)"
    using registry_consistentD(2) [OF assms] by (auto simp: rmap_Inr_iff list_all2_same list_manifests_def)
  then show ?thesis
    unfolding load_manifests_def rfold_registered [OF consistent_new]
    using manifests_compatible [OF assms] assms
    by (auto simp: list_manifests_def new_plugin_registry_def)
qed

end
