(* ===== verification/PluginWitness.thy ===== *)
theory PluginWitness
  imports PluginSafety
begin

text \<open>Two plugins on which the hypotheses of the registry's properties hold.\<close>

definition plain_capability :: "string \<Rightarrow> PluginCapability" where
  "plain_capability name = \<lparr>pc_name = name, pc_description = None\<rparr>"

definition plain_manifest :: "string \<Rightarrow> string list \<Rightarrow> string list \<Rightarrow> PluginManifest" where
  "plain_manifest plugin tools hooks = \<lparr>pm_schema_version = PLUGIN_MANIFEST_SCHEMA_VERSION_V2,
     pm_plugin_id = plugin, pm_display_name = ''d'', pm_plugin_version = ''1'',
     pm_api_version = PLUGIN_API_VERSION_V1, pm_enabled = True,
     pm_artifact = \<lparr>pa_exec_kind = Subprocess, pa_local_path = ''p'', pa_command = ''c'',
       pa_args = [], pa_sha256 = replicate 64 (CHR ''0'')\<rparr>,
     pm_min_gateway_version = None,
     pm_permissions = \<lparr>pp_allowed_roots = [], pp_network_policy = ''deny_all'',
       pp_network_allowlist = []\<rparr>,
     pm_timeout_ms = None, pm_max_output_chars = None,
     pm_capabilities = \<lparr>pc_tools = map plain_capability tools, pc_hooks = map plain_capability hooks,
       pc_providers = [], pc_channels = []\<rparr>, pm_metadata = []\<rparr>"

lemma trims [simp]:
  "trim ''1'' = ''1''" "trim ''d'' = ''d''" "trim ''p'' = ''p''" "trim ''c'' = ''c''"
  "trim ''deny_all'' = ''deny_all''" "trim (replicate 64 (CHR ''0'')) = replicate 64 (CHR ''0'')"
  by (rule trim_visible, simp add: visible_def list_all_iff)+

lemma lowers [simp]:
  "to_ascii_lowercase ''deny_all'' = ''deny_all''"
  "to_ascii_lowercase (replicate 64 (CHR ''0'')) = replicate 64 (CHR ''0'')"
  by (simp_all add: to_ascii_lowercase_def is_ascii_uppercase_def)

lemma zero_digest: "list_all is_ascii_hexdigit (replicate 64 (CHR ''0''))"
  by (simp add: list_all_iff is_ascii_hexdigit_def is_lower_hex_digit_def is_ascii_digit_def)

text \<open>A plain manifest whose names are in normal form is its own normal form.\<close>

lemma plain_capability_normal:
  "normalize_identifier name = Some n \<Longrightarrow> normalize_capability (plain_capability name) = Some (plain_capability n)"
  by (simp add: normalize_capability_def plain_capability_def nonempty_trimmed_def)

lemma plain_normal:
  assumes "normalize_identifier plugin = Some q"
    and "map normalize_identifier tools = map Some ts" and "distinct ts"
    and "map normalize_identifier hooks = map Some hs" and "distinct hs"
  shows "normal_form (plain_manifest plugin tools hooks) = Inr (plain_manifest q ts hs)"
proof -
  have caps: "map normalize_capability (map plain_capability xs) = map Some (map plain_capability ys)"
    if "map normalize_identifier xs = map Some ys" for xs ys
    using that by (induction xs arbitrary: ys) (auto simp: Cons_eq_map_conv plain_capability_normal)
  have "inj plain_capability" by (auto simp: inj_def plain_capability_def)
  then have d: "distinct (map pc_name (map plain_capability ys))" if "distinct ys" for ys
    using that by (simp add: comp_def plain_capability_def)
  have "normalize_all_capabilities (pm_capabilities (plain_manifest plugin tools hooks))
      = Inr (pm_capabilities (plain_manifest q ts hs))"
    using caps [OF assms(2)] caps [OF assms(4)] d [OF assms(3)] d [OF assms(5)]
    by (simp add: normalize_all_capabilities_def normalize_capabilities_Inr plain_manifest_def)
  moreover have "normalize_plugin_artifact (pm_artifact (plain_manifest plugin tools hooks)) = Inr ()"
    using zero_digest by (simp add: normalize_plugin_artifact_def plain_manifest_def)
  moreover have "normalize_plugin_metadata (plain_manifest plugin tools hooks)
      = plain_manifest plugin tools hooks"
    by (simp add: normalize_plugin_metadata_def plain_manifest_def nonempty_def nonempty_trimmed_def)
  moreover have "normalized_manifest (plain_manifest plugin tools hooks) q
      PLUGIN_MANIFEST_SCHEMA_VERSION_V2 (pm_capabilities (plain_manifest q ts hs)) = plain_manifest q ts hs"
    by (simp add: normalized_manifest_def plain_manifest_def)
  ultimately show ?thesis
    using assms(1) unfolding check_manifest_iff Let_def
    by (simp add: plain_manifest_def blank_def)
qed

lemma plain_names:
  "names Tool (plain_manifest q ts hs) = set ts" "names Hook (plain_manifest q ts hs) = set hs"
  "names Provider (plain_manifest q ts hs) = {}" "names Channel (plain_manifest q ts hs) = {}"
  "pm_plugin_id (plain_manifest q ts hs) = q"
  by (simp_all add: names_def plain_manifest_def plain_capability_def image_image)

lemma plain_compatible:
  "compatible (plain_manifest q ts hs) (plain_manifest r us ks) \<longleftrightarrow>
     q \<noteq> r \<and> set ts \<inter> set us = {} \<and> set hs \<inter> set ks = {}"
proof
  assume "q \<noteq> r \<and> set ts \<inter> set us = {} \<and> set hs \<inter> set ks = {}"
  moreover have "names kind (plain_manifest q ts hs) \<inter> names kind (plain_manifest r us ks) = {}"
    if "set ts \<inter> set us = {}" "set hs \<inter> set ks = {}" for kind
    using that by (cases kind) (simp_all add: plain_names)
  ultimately show "compatible (plain_manifest q ts hs) (plain_manifest r us ks)"
    by (simp add: compatible_def plain_names)
next
  assume c: "compatible (plain_manifest q ts hs) (plain_manifest r us ks)"
  then have "names Tool (plain_manifest q ts hs) \<inter> names Tool (plain_manifest r us ks) = {}"
      "names Hook (plain_manifest q ts hs) \<inter> names Hook (plain_manifest r us ks) = {}"
    unfolding compatible_def by blast+
  then show "q \<noteq> r \<and> set ts \<inter> set us = {} \<and> set hs \<inter> set ks = {}"
    using c by (simp add: compatible_def plain_names)
qed

lemma short_identifiers [simp]:
  "normalize_identifier ''a'' = Some ''a''" "normalize_identifier ''b'' = Some ''b''"
  "normalize_identifier ''t'' = Some ''t''" "normalize_identifier ''u'' = Some ''u''"
  "normalize_identifier ''B'' = Some ''b''"
proof -
  have "char_of (98 :: nat) = CHR ''b''" by code_simp
  then show
    "normalize_identifier ''a'' = Some ''a''" "normalize_identifier ''b'' = Some ''b''"
    "normalize_identifier ''t'' = Some ''t''" "normalize_identifier ''u'' = Some ''u''"
    "normalize_identifier ''B'' = Some ''b''"
    by (simp_all add: normalize_identifier_def trim_visible visible_def to_ascii_lowercase_def
        identifier_char_def is_ascii_uppercase_def is_ascii_lowercase_def)
qed

text \<open>The registry of two plugins, with one tool each.\<close>

lemma sample_registry:
  obtains R where
    "load_manifests [plain_manifest ''a'' [''t''] [], plain_manifest ''B'' [''u''] []] = Inr R"
    and "set (list_manifests R) = {plain_manifest ''a'' [''t''] [], plain_manifest ''b'' [''u''] []}"
proof -
  have "rmap normal_form [plain_manifest ''a'' [''t''] [], plain_manifest ''B'' [''u''] []]
      = Inr [plain_manifest ''a'' [''t''] [], plain_manifest ''b'' [''u''] []]"
    using plain_normal [of "''a''" "''a''" "[''t'']" "[''t'']" "[]" "[]"]
      plain_normal [of "''B''" "''b''" "[''u'']" "[''u'']" "[]" "[]"] by simp
  then show thesis by (rule load_ok) (use that in \<open>simp_all add: plain_compatible\<close>)
qed

theorem load_order_irrelevant_witness:
  "\<exists>R. load_manifests [plain_manifest ''a'' [''t''] [], plain_manifest ''B'' [''u''] []] = Inr R
     \<and> load_manifests [plain_manifest ''B'' [''u''] [], plain_manifest ''a'' [''t''] []] = Inr R"
proof -
  obtain R where R: "load_manifests [plain_manifest ''a'' [''t''] [], plain_manifest ''B'' [''u''] []] = Inr R"
    by (rule sample_registry)
  then have "load_manifests [plain_manifest ''B'' [''u''] [], plain_manifest ''a'' [''t''] []] = Inr R"
    by (rule load_order_irrelevant) simp
  then show ?thesis using R by blast
qed

theorem replace_exact_witness:
  "\<exists>R S. registry_run R
     \<and> replace_manifest (plain_manifest ''B'' [''b''] []) R = (Inr (plain_manifest ''b'' [''b''] []), S)
     \<and> set (list_manifests S) = {plain_manifest ''b'' [''b''] [], plain_manifest ''a'' [''t''] []}
     \<and> fst (replace_manifest (plain_manifest ''B'' [''t''] []) R) \<noteq> Inr (plain_manifest ''b'' [''t''] [])
     \<and> fst (replace_manifest (plain_manifest ''t'' [''b''] []) R) \<noteq> Inr (plain_manifest ''t'' [''b''] [])"
proof -
  obtain R where R: "load_manifests [plain_manifest ''a'' [''t''] [], plain_manifest ''B'' [''u''] []] = Inr R"
    and m: "set (list_manifests R) = {plain_manifest ''a'' [''t''] [], plain_manifest ''b'' [''u''] []}"
    by (rule sample_registry)
  have run: "registry_run R" by (rule registry_run.load [OF R])
  have old: "get_manifest (pm_plugin_id (plain_manifest ''B'' ts hs)) R = Some (plain_manifest ''b'' [''u''] [])" for ts hs
    using stored_manifest [OF registry_run_consistent [OF run]] m by (simp add: get_manifest_def plain_names)
  have normal: "normal_form (plain_manifest ''B'' [''b''] []) = Inr (plain_manifest ''b'' [''b''] [])"
    by (rule plain_normal; simp)
  have others: "set (list_manifests R) - {plain_manifest ''b'' [''u''] []} = {plain_manifest ''a'' [''t''] []}"
    unfolding m by (auto simp: plain_manifest_def)
  have "rmap normal_form [plain_manifest ''a'' [''t''] [], plain_manifest ''B'' [''b''] []]
      = Inr [plain_manifest ''a'' [''t''] [], plain_manifest ''b'' [''b''] []]"
    using plain_normal [of "''a''" "''a''" "[''t'']" "[''t'']" "[]" "[]"] normal by simp
  then obtain S where load: "load_manifests [plain_manifest ''a'' [''t''] [], plain_manifest ''B'' [''b''] []] = Inr S"
    and "set (list_manifests S) = {plain_manifest ''a'' [''t''] [], plain_manifest ''b'' [''b''] []}"
    by (rule load_ok) (simp_all add: plain_compatible)
  then have S: "registry_run S" "set (list_manifests S) = insert (plain_manifest ''b'' [''b''] [])
      (set (list_manifests R) - {plain_manifest ''b'' [''u''] []})"
    using registry_run.load [OF load] others by auto
  have "replace_manifest (plain_manifest ''B'' [''b''] []) R = (Inr (plain_manifest ''b'' [''b''] []), S)"
    using replace_exact [OF run, of "plain_manifest ''B'' [''b''] []" "plain_manifest ''b'' [''b''] []" S]
      normal S unfolding old by (simp add: others plain_compatible)
  moreover have "fst (replace_manifest (plain_manifest ''B'' [''t''] []) R) \<noteq> Inr (plain_manifest ''b'' [''t''] [])"
  proof
    assume "fst (replace_manifest (plain_manifest ''B'' [''t''] []) R) = Inr (plain_manifest ''b'' [''t''] [])"
    then obtain U where "replace_manifest (plain_manifest ''B'' [''t''] []) R = (Inr (plain_manifest ''b'' [''t''] []), U)"
      by (metis prod.collapse)
    then have "compatible (plain_manifest ''b'' [''t''] []) (plain_manifest ''a'' [''t''] [])"
      using replace_exact [OF run, of "plain_manifest ''B'' [''t''] []"] old others by fastforce
    then show False by (simp add: plain_compatible)
  qed
  moreover have "fst (replace_manifest (plain_manifest ''t'' [''b''] []) R) \<noteq> Inr (plain_manifest ''t'' [''b''] [])"
  proof
    assume "fst (replace_manifest (plain_manifest ''t'' [''b''] []) R) = Inr (plain_manifest ''t'' [''b''] [])"
    then obtain U where "replace_manifest (plain_manifest ''t'' [''b''] []) R = (Inr (plain_manifest ''t'' [''b''] []), U)"
      by (metis prod.collapse)
    then obtain x where "get_manifest ''t'' R = Some x"
      using replace_exact [OF run, of "plain_manifest ''t'' [''b''] []"] by (auto simp: plain_names)
    then show False
      using stored_manifest [OF registry_run_consistent [OF run]] m
      by (auto simp: get_manifest_def plain_names)
  qed
  moreover have "set (list_manifests S) = {plain_manifest ''b'' [''b''] [], plain_manifest ''a'' [''t''] []}"
    unfolding S(2) others by simp
  ultimately show ?thesis using run by blast
qed

end
