(* ===== verification/Hooks.thy ===== *)
theory Hooks
  imports PluginWitness Externals
begin

text \<open>
  The hook bus of \<^verbatim>\<open>crates/carsinos-core/src/lib.rs\<close> and the gateway's construction of it
  from the plugin registry (\<open>build_hook_bus_from_registry\<close> of
  \<^verbatim>\<open>crates/carsinos-gateway/src/main.rs\<close>). A handler is what it answers to an event: an error or
  a panic is an outcome. The lock of the bus is never poisoned: handlers run after it is released
  and their panics are caught. The clock that times the handlers is an argument.
\<close>

subsection \<open>Registrations\<close>

datatype HookPoint =
    RunStart | RunEnd | ToolBefore | ToolAfter | CompactionBefore | CompactionAfter

text \<open>The derived order of the points is that of their declaration.\<close>

fun point_rank :: "HookPoint \<Rightarrow> nat" where
  "point_rank RunStart = 0" | "point_rank RunEnd = 1" | "point_rank ToolBefore = 2"
| "point_rank ToolAfter = 3" | "point_rank CompactionBefore = 4" | "point_rank CompactionAfter = 5"

lemma point_rank_inj: "point_rank p = point_rank q \<longleftrightarrow> p = q"
  by (cases p; cases q) simp_all

instantiation HookPoint :: linorder
begin

definition less_eq_HookPoint :: "HookPoint \<Rightarrow> HookPoint \<Rightarrow> bool" where
  "less_eq_HookPoint p q \<longleftrightarrow> point_rank p \<le> point_rank q"

definition less_HookPoint :: "HookPoint \<Rightarrow> HookPoint \<Rightarrow> bool" where
  "less_HookPoint p q \<longleftrightarrow> point_rank p < point_rank q"

instance
  by standard (auto simp: less_eq_HookPoint_def less_HookPoint_def point_rank_inj)

end

record HookEvent =
  he_hook_point :: HookPoint
  he_run_id :: string
  he_session_id :: string
  he_tool_name :: "string option"
  he_metadata :: json

datatype hook_outcome = HookOk | HookErr string | HookPanic

record HookRegistration =
  hb_hook_id :: string
  hb_plugin_id :: string
  hb_hook_point :: HookPoint
  hb_priority :: "32 word"
  hb_handler :: "HookEvent \<Rightarrow> hook_outcome"

record HookInvocationResult =
  hi_hook_id :: string
  hi_plugin_id :: string
  hi_hook_point :: HookPoint
  hi_status :: string
  hi_error :: "string option"
  hi_duration_ms :: u64

datatype HookError =
    InvalidHookId | InvalidHookPluginId | HookAlreadyRegistered string
  | UnsupportedHookCapability string

text \<open>The comparison of \<open>sort_by\<close>: by point, then the higher priority first, then by identifier.\<close>

definition hook_rank :: "HookRegistration \<Rightarrow> HookPoint \<times> int \<times> string" where
  "hook_rank r = (hb_hook_point r, - sint (hb_priority r), hb_hook_id r)"

definition normalize_registration :: "HookRegistration \<Rightarrow> HookError + HookRegistration" where
  "normalize_registration r =
     rbind (of_option InvalidHookId (normalize_identifier (hb_hook_id r))) (\<lambda>hook.
     rbind (of_option InvalidHookPluginId (normalize_identifier (hb_plugin_id r))) (\<lambda>plugin.
       Inr (r\<lparr>hb_hook_id := hook, hb_plugin_id := plugin\<rparr>)))"

definition register_hook ::
    "HookRegistration list \<Rightarrow> HookRegistration \<Rightarrow> HookError + HookRegistration list" where
  "register_hook bus r =
     rbind (normalize_registration r) (\<lambda>n.
       if list_ex (\<lambda>e. hb_hook_id e = hb_hook_id n) bus
       then Inl (HookAlreadyRegistered (hb_hook_id n))
       else Inr (sort_key hook_rank (bus @ [n])))"

definition invocation_result :: "HookEvent \<Rightarrow> u64 \<Rightarrow> HookRegistration \<Rightarrow> HookInvocationResult" where
  "invocation_result event ms r =
     (let (status, err) = (case hb_handler r event of
            HookOk \<Rightarrow> (''ok'', None)
          | HookErr e \<Rightarrow> (''error'', Some e)
          | HookPanic \<Rightarrow> (''panic'', Some ''hook panicked''))
      in \<lparr>hi_hook_id = hb_hook_id r, hi_plugin_id = hb_plugin_id r,
          hi_hook_point = hb_hook_point r, hi_status = status, hi_error = err,
          hi_duration_ms = ms\<rparr>)"

text \<open>\<open>elapsed i\<close> is the time that the \<open>i\<close>-th handler took.\<close>

definition emit ::
    "(nat \<Rightarrow> u64) \<Rightarrow> HookRegistration list \<Rightarrow> HookEvent \<Rightarrow> HookInvocationResult list" where
  "emit elapsed bus event = map (\<lambda>(i, r). invocation_result event (elapsed i) r)
     (enumerate 0 (filter (\<lambda>r. hb_hook_point r = he_hook_point event) bus))"

subsection \<open>The bus of the gateway\<close>

record ExtensionSecurityPolicy =
  es_plugin_allowlist_enabled :: bool
  es_allowed_plugin_ids :: "string set"
  es_reserved_skill_ids :: "string set"
  es_reserved_skill_prefixes :: "string list"

record ExtensionHookPolicyDenial =
  hd_plugin_id :: string
  hd_hook_name :: string
  hd_reason :: string

definition plugin_allowed :: "ExtensionSecurityPolicy \<Rightarrow> string \<Rightarrow> bool" where
  "plugin_allowed policy plugin \<longleftrightarrow> \<not> es_plugin_allowlist_enabled policy
     \<or> to_ascii_lowercase (trim plugin) \<in> es_allowed_plugin_ids policy"

definition skill_is_reserved :: "ExtensionSecurityPolicy \<Rightarrow> string \<Rightarrow> bool" where
  "skill_is_reserved policy skill_id =
     (let normalized = to_ascii_lowercase (trim skill_id)
      in normalized \<in> es_reserved_skill_ids policy
         \<or> list_ex (\<lambda>p. prefix p normalized) (es_reserved_skill_prefixes policy))"

definition hook_point_names :: "(string \<times> HookPoint) list" where
  "hook_point_names = [(''run.start'', RunStart), (''run.end'', RunEnd),
     (''tool.before'', ToolBefore), (''tool.after'', ToolAfter),
     (''compaction.before'', CompactionBefore), (''compaction.after'', CompactionAfter)]"

definition hook_point_from_capability_name :: "string \<Rightarrow> HookError + HookPoint" where
  "hook_point_from_capability_name name =
     of_option (UnsupportedHookCapability name) (map_of hook_point_names name)"

text \<open>\<open>10_000_i32.saturating_sub(index as i32)\<close>.\<close>

definition hook_priority :: "nat \<Rightarrow> 32 word" where
  "hook_priority index =
     word_of_int (max (- (2 ^ 31)) (min (2 ^ 31 - 1) (10000 - sint (word_of_nat index :: 32 word))))"

definition hook_registration :: "string \<Rightarrow> nat \<Rightarrow> string \<Rightarrow> HookPoint \<Rightarrow> HookRegistration" where
  "hook_registration plugin index name point = \<lparr>hb_hook_id = plugin @ ''.'' @ name,
     hb_plugin_id = plugin, hb_hook_point = point, hb_priority = hook_priority index,
     hb_handler = (\<lambda>event. HookOk)\<rparr>"

definition hook_step ::
    "ExtensionSecurityPolicy \<Rightarrow> string \<Rightarrow> HookRegistration list \<times> ExtensionHookPolicyDenial list
     \<Rightarrow> nat \<times> PluginCapability
     \<Rightarrow> HookError + HookRegistration list \<times> ExtensionHookPolicyDenial list" where
  "hook_step policy plugin = (\<lambda>(bus, denials) (index, c).
     if \<not> plugin_allowed policy plugin then
       Inr (bus, denials @ [\<lparr>hd_plugin_id = plugin, hd_hook_name = pc_name c,
         hd_reason = ''plugin is not allowlisted by extension policy''\<rparr>])
     else rbind (hook_point_from_capability_name (pc_name c)) (\<lambda>point.
       rbind (register_hook bus (hook_registration plugin index (pc_name c) point)) (\<lambda>bus'.
         Inr (bus', denials))))"

definition manifest_step ::
    "ExtensionSecurityPolicy \<Rightarrow> HookRegistration list \<times> ExtensionHookPolicyDenial list
     \<Rightarrow> PluginManifest \<Rightarrow> HookError + HookRegistration list \<times> ExtensionHookPolicyDenial list" where
  "manifest_step policy acc m =
     (if \<not> pm_enabled m then Inr acc
      else rfold (hook_step policy (pm_plugin_id m)) acc
        (enumerate 0 (pc_hooks (pm_capabilities m))))"

definition build_hook_bus_from_registry ::
    "ExtensionSecurityPolicy \<Rightarrow> PluginRegistry
     \<Rightarrow> HookError + HookRegistration list \<times> ExtensionHookPolicyDenial list" where
  "build_hook_bus_from_registry policy R = rfold (manifest_step policy) ([], []) (list_manifests R)"

subsection \<open>Hooks run in the order of their priority\<close>

definition normal_registration :: "HookRegistration \<Rightarrow> HookRegistration option" where
  "normal_registration r = (case normalize_registration r of Inl e \<Rightarrow> None | Inr n \<Rightarrow> Some n)"

lemma register_hook_Inr:
  "register_hook bus r = Inr bus' \<longleftrightarrow> (\<exists>n. normal_registration r = Some n
     \<and> hb_hook_id n \<notin> hb_hook_id ` set bus \<and> bus' = sort_key hook_rank (bus @ [n]))"
proof -
  have "list_ex (\<lambda>e. hb_hook_id e = hb_hook_id n) bus \<longleftrightarrow> hb_hook_id n \<in> hb_hook_id ` set bus" for n
    unfolding list_ex_iff image_iff by metis
  then show ?thesis
    by (cases "normalize_registration r") (auto simp: register_hook_def normal_registration_def)
qed

interpretation hook_loop:
  ranked_loop register_hook normal_registration hb_hook_id "\<lambda>bus n. sort_key hook_rank (bus @ [n])" hook_rank
  by unfold_locales (simp_all add: register_hook_Inr hook_rank_def)

lemma sort_key_same_order:
  assumes "\<And>x y. x \<in> set xs \<Longrightarrow> y \<in> set xs \<Longrightarrow> f x \<le> f y \<longleftrightarrow> g x \<le> g y"
    and "inj_on g (set xs)" and "distinct xs"
  shows "sort_key f xs = sort_key g xs"
proof -
  have "sorted (map g (sort_key f xs))"
  proof -
    have "sorted_wrt (\<lambda>x y. f x \<le> f y) (sort_key f xs)"
      using sorted_sort_key [of f xs] by (simp add: sorted_map)
    then show ?thesis
      unfolding sorted_map by (rule sorted_wrt_mono_rel [rotated]) (simp add: assms(1))
  qed
  then show ?thesis
    using assms(2,3) by (intro map_sorted_distinct_set_unique [of g]) (simp_all add: distinct_map)
qed

text \<open>C25: hooks run in the order of their priority, whatever order they were registered in. When a
  list of registrations succeeds, so does every rearrangement of it, with the same bus; and an event
  is answered by exactly the normal forms registered for its point, each once, by descending
  priority and then by identifier, an error or panic of one never keeping the next from running.\<close>

theorem hooks_run_in_priority_order:
  assumes "rfold register_hook [] rs = Inr bus" and "mset rs = mset rs'"
  shows "rfold register_hook [] rs' = Inr bus
    \<and> (\<exists>ns. map normalize_registration rs = map Inr ns
        \<and> map hi_hook_id (emit elapsed bus event) = map hb_hook_id
            (sort_key (\<lambda>r. (- sint (hb_priority r), hb_hook_id r))
              (filter (\<lambda>r. hb_hook_point r = he_hook_point event) ns)))"
proof -
  obtain ns where ns: "map normal_registration rs = map Some ns" "distinct (map hb_hook_id ns)"
      "bus = sort_key hook_rank ns"
    using assms(1) hook_loop.loop_canonical by blast
  let ?at = "filter (\<lambda>r. hb_hook_point r = he_hook_point event)"
  have "map normalize_registration rs = map Inr ns"
    using ns(1) by (induction rs arbitrary: ns)
      (auto simp: normal_registration_def Cons_eq_map_conv split: sum.splits)
  moreover have "map hi_hook_id (emit elapsed bus event) = map hb_hook_id (?at bus)"
    by (simp add: emit_def comp_def case_prod_unfold invocation_result_def Let_def
        map_snd_enumerate [unfolded comp_def] flip: map_map [of hb_hook_id snd, unfolded comp_def])
  moreover have "?at bus = sort_key (\<lambda>r. (- sint (hb_priority r), hb_hook_id r)) (?at ns)"
  proof -
    have d: "distinct (map hb_hook_id (?at ns))" using ns(2) by (simp add: distinct_map_filter)
    have "?at bus = sort_key hook_rank (?at ns)" by (simp add: ns(3) filter_sort)
    also have "\<dots> = sort_key (\<lambda>r. (- sint (hb_priority r), hb_hook_id r)) (?at ns)"
      using d by (intro sort_key_same_order)
        (auto simp: hook_rank_def distinct_map inj_on_def)
    finally show ?thesis .
  qed
  ultimately show ?thesis using hook_loop.loop_perm [OF assms] by auto
qed

definition sample_hook :: "string \<Rightarrow> nat \<Rightarrow> HookRegistration" where
  "sample_hook plugin index = hook_registration plugin index ''run.end'' RunEnd"

lemma sample_hook_normal:
  "normal_registration (sample_hook ''a'' i) = Some (sample_hook ''a'' i)"
  "normal_registration (sample_hook ''b'' i) = Some (sample_hook ''b'' i)"
  by (simp_all add: normal_registration_def normalize_registration_def sample_hook_def
      hook_registration_def normalize_identifier_def trim_visible visible_def to_ascii_lowercase_def
      identifier_char_def is_ascii_uppercase_def is_ascii_lowercase_def)

theorem hooks_run_in_priority_order_witness:
  "\<exists>bus. rfold register_hook [] [sample_hook ''a'' 1, sample_hook ''b'' 0] = Inr bus
     \<and> rfold register_hook [] [sample_hook ''b'' 0, sample_hook ''a'' 1] = Inr bus"
proof -
  have "rfold register_hook [] [sample_hook ''a'' 1, sample_hook ''b'' 0]
      = Inr (sort_key hook_rank [sample_hook ''a'' 1, sample_hook ''b'' 0])"
    unfolding hook_loop.loop_canonical
    by (intro exI [of _ "[sample_hook ''a'' 1, sample_hook ''b'' 0]"])
       (simp add: sample_hook_normal, simp add: sample_hook_def hook_registration_def)
  then show ?thesis
    using hooks_run_in_priority_order [of "[sample_hook ''a'' 1, sample_hook ''b'' 0]" _
        "[sample_hook ''b'' 0, sample_hook ''a'' 1]"] by auto
qed

subsection \<open>When the gateway's bus can be built\<close>

abbreviation hook_names :: "string set" where
  "hook_names \<equiv> fst ` set hook_point_names"

lemma hook_names_suffix:
  "list_all (\<lambda>m. list_all (\<lambda>n. m = n \<or> \<not> prefix (rev (''.'' @ m)) (rev (''.'' @ n)))
     (map fst hook_point_names)) (map fst hook_point_names)"
  by (simp add: hook_point_names_def)

lemma hook_name_suffix:
  assumes "m \<in> hook_names" and "n \<in> hook_names" and "m \<noteq> n"
  shows "\<not> suffix (''.'' @ m) (''.'' @ n)"
proof -
  have "m = n \<or> \<not> prefix (rev (''.'' @ m)) (rev (''.'' @ n))"
  proof -
    have "\<forall>m \<in> hook_names. \<forall>n \<in> hook_names. m = n \<or> \<not> prefix (rev (''.'' @ m)) (rev (''.'' @ n))"
      using hook_names_suffix unfolding list_all_iff set_map .
    then show ?thesis using assms(1,2) by blast
  qed
  then show ?thesis using assms(3) unfolding suffix_to_prefix by simp
qed

lemma hook_names_apart:
  assumes "m \<in> hook_names" and "n \<in> hook_names" and "m \<noteq> n"
  shows "p @ ''.'' @ m \<noteq> q @ ''.'' @ n"
proof
  assume same: "p @ ''.'' @ m = q @ ''.'' @ n"
  have "\<not> suffix (''.'' @ m) (''.'' @ n)" "\<not> suffix (''.'' @ n) (''.'' @ m)"
    using hook_name_suffix assms by simp_all
  moreover have "suffix (''.'' @ m) (p @ ''.'' @ m)" "suffix (''.'' @ n) (p @ ''.'' @ m)"
    by (rule suffixI, rule refl) (subst same, rule suffixI, rule refl)
  ultimately show False using suffix_same_cases by blast
qed

lemma hook_point_of_name:
  "hook_point_from_capability_name name = Inr point \<longleftrightarrow> map_of hook_point_names name = Some point"
  by (simp add: hook_point_from_capability_name_def)

lemma map_of_hook_names: "map_of hook_point_names name = None \<longleftrightarrow> name \<notin> hook_names"
  by (simp add: map_of_eq_None_iff)

lemma hook_point_inj:
  assumes "map_of hook_point_names m = Some point" and "map_of hook_point_names n = Some point"
  shows "m = n"
  using assms by (auto simp: hook_point_names_def split: if_splits)

lemma hook_name_normal: "name \<in> hook_names \<Longrightarrow> list_all identifier_char name \<and> to_ascii_lowercase name = name"
  by (auto simp: hook_point_names_def identifier_char_def to_ascii_lowercase_def
      is_ascii_lowercase_def is_ascii_uppercase_def is_ascii_digit_def)

lemma normalize_identifier_Some:
  "normalize_identifier s = Some s \<longleftrightarrow> s \<noteq> [] \<and> list_all identifier_char s \<and> to_ascii_lowercase s = s"
proof
  assume "s \<noteq> [] \<and> list_all identifier_char s \<and> to_ascii_lowercase s = s"
  moreover from this have "trim s = s"
    by (intro trim_visible) (auto simp: list_all_iff identifier_visible)
  ultimately show "normalize_identifier s = Some s" by (simp add: normalize_identifier_def)
next
  assume "normalize_identifier s = Some s"
  then have s: "s = to_ascii_lowercase (trim s)" "s \<noteq> []" "list_all identifier_char s"
    by (auto simp: normalize_identifier_def Let_def split: if_splits)
  then show "s \<noteq> [] \<and> list_all identifier_char s \<and> to_ascii_lowercase s = s"
    by (metis lower_idem)
qed

text \<open>The hooks on the bus stand for different names, all of \<open>used\<close>.\<close>

definition bus_ok :: "string set \<Rightarrow> HookRegistration list \<Rightarrow> bool" where
  "bus_ok used bus \<longleftrightarrow> distinct (map hb_hook_point bus)
     \<and> (\<forall>e \<in> set bus. \<exists>q n. hb_hook_id e = q @ ''.'' @ n \<and> n \<in> used
         \<and> map_of hook_point_names n = Some (hb_hook_point e))"

definition admissible_hook :: "ExtensionSecurityPolicy \<Rightarrow> string \<Rightarrow> string \<Rightarrow> bool" where
  "admissible_hook policy plugin name \<longleftrightarrow> (plugin_allowed policy plugin \<longrightarrow> name \<in> hook_names)"

lemma bus_ok_mono: "bus_ok used bus \<Longrightarrow> used \<subseteq> used' \<Longrightarrow> bus_ok used' bus"
  unfolding bus_ok_def by blast

lemma hook_step_ok:
  assumes "bus_ok used bus" and "pc_name c \<notin> used" and "normalize_identifier plugin = Some plugin"
    and "admissible_hook policy plugin (pc_name c)"
  shows "\<exists>bus' denials'. hook_step policy plugin (bus, denials) (i, c) = Inr (bus', denials')
    \<and> bus_ok (insert (pc_name c) used) bus'"
proof (cases "plugin_allowed policy plugin")
  case False
  then show ?thesis using bus_ok_mono [OF assms(1)] by (auto simp: hook_step_def)
next
  case True
  then have name: "pc_name c \<in> hook_names" using assms(4) by (simp add: admissible_hook_def)
  then obtain point where point: "map_of hook_point_names (pc_name c) = Some point"
    using map_of_hook_names by (metis not_Some_eq)
  let ?r = "hook_registration plugin i (pc_name c) point"
  have "normalize_identifier (plugin @ ''.'' @ pc_name c) = Some (plugin @ ''.'' @ pc_name c)"
    using assms(3) hook_name_normal [OF name] unfolding normalize_identifier_Some
    by (simp add: to_ascii_lowercase_def identifier_char_def is_ascii_uppercase_def)
  then have normal: "normal_registration ?r = Some ?r"
    using assms(3) by (simp add: normal_registration_def normalize_registration_def hook_registration_def)
  have other: "n \<in> hook_names \<and> n \<noteq> pc_name c" if "n \<in> used" "map_of hook_point_names n = Some p" for n p
    using that assms(2) map_of_hook_names [of n] by auto
  have fresh: "hb_hook_id ?r \<notin> hb_hook_id ` set bus"
  proof
    assume "hb_hook_id ?r \<in> hb_hook_id ` set bus"
    then obtain e where e: "e \<in> set bus" "hb_hook_id e = plugin @ ''.'' @ pc_name c"
      by (auto simp: hook_registration_def)
    obtain q n where n: "hb_hook_id e = q @ ''.'' @ n" "n \<in> used"
        "map_of hook_point_names n = Some (hb_hook_point e)"
      using assms(1) e(1) unfolding bus_ok_def by blast
    have "n \<in> hook_names" "n \<noteq> pc_name c" using other [OF n(2,3)] by blast+
    then have "q @ ''.'' @ n \<noteq> plugin @ ''.'' @ pc_name c"
      using name by (intro hook_names_apart)
    then show False using n(1) e(2) by simp
  qed
  have "point \<notin> hb_hook_point ` set bus"
  proof
    assume "point \<in> hb_hook_point ` set bus"
    then obtain n where "n \<in> used" "map_of hook_point_names n = Some point"
      using assms(1) unfolding bus_ok_def by blast
    then show False using hook_point_inj [OF point] assms(2) by blast
  qed
  then have "distinct (map hb_hook_point (bus @ [?r]))"
    using assms(1) by (auto simp: bus_ok_def hook_registration_def)
  then have d: "distinct (map hb_hook_point (sort_key hook_rank (bus @ [?r])))"
    by (metis mset_map mset_sort mset_eq_imp_distinct_iff)
  have "bus_ok (insert (pc_name c) used) (sort_key hook_rank (bus @ [?r]))"
    unfolding bus_ok_def
  proof (intro conjI ballI d)
    fix e assume "e \<in> set (sort_key hook_rank (bus @ [?r]))"
    then consider "e \<in> set bus" | "e = ?r" by auto
    then show "\<exists>q n. hb_hook_id e = q @ ''.'' @ n \<and> n \<in> insert (pc_name c) used
        \<and> map_of hook_point_names n = Some (hb_hook_point e)"
    proof cases
      case 1
      then show ?thesis using assms(1) unfolding bus_ok_def by blast
    next
      case 2
      then show ?thesis using point by (auto simp: hook_registration_def)
    qed
  qed
  moreover have "hook_step policy plugin (bus, denials) (i, c)
      = Inr (sort_key hook_rank (bus @ [?r]), denials)"
    using True point normal fresh register_hook_Inr [of bus ?r]
    by (simp add: hook_step_def hook_point_from_capability_name_def)
  ultimately show ?thesis by blast
qed

lemma hook_step_fails:
  "\<not> admissible_hook policy plugin (pc_name c) \<Longrightarrow> \<not> is_ok (hook_step policy plugin acc (i, c))"
  using map_of_hook_names [of "pc_name c"]
  by (cases acc) (simp add: admissible_hook_def hook_step_def hook_point_from_capability_name_def)

lemma hooks_of_plugin:
  assumes "bus_ok used bus" and "distinct (map pc_name cs)" and "pc_name ` set cs \<inter> used = {}"
    and "normalize_identifier plugin = Some plugin"
  shows "if \<forall>c \<in> set cs. admissible_hook policy plugin (pc_name c)
    then \<exists>bus' denials'. rfold (hook_step policy plugin) (bus, denials) (enumerate i cs)
        = Inr (bus', denials') \<and> bus_ok (used \<union> pc_name ` set cs) bus'
    else \<not> is_ok (rfold (hook_step policy plugin) (bus, denials) (enumerate i cs))"
  using assms
proof (induction cs arbitrary: used bus denials i)
  case (Cons c cs)
  show ?case
  proof (cases "admissible_hook policy plugin (pc_name c)")
    case True
    have "pc_name c \<notin> used" using Cons.prems(3) by simp
    then obtain bus' denials' where step:
        "hook_step policy plugin (bus, denials) (i, c) = Inr (bus', denials')"
        "bus_ok (insert (pc_name c) used) bus'"
      using hook_step_ok [OF Cons.prems(1) _ Cons.prems(4) True] by blast
    have "pc_name ` set cs \<inter> insert (pc_name c) used = {}" "distinct (map pc_name cs)"
      using Cons.prems(2,3) by auto
    from Cons.IH [OF step(2) this(2,1) Cons.prems(4), of denials' "Suc i"]
    show ?thesis using True step(1)
      by (cases "\<forall>c \<in> set cs. admissible_hook policy plugin (pc_name c)") auto
  next
    case False
    then have "\<not> is_ok (hook_step policy plugin (bus, denials) (i, c))" by (rule hook_step_fails)
    then show ?thesis
      using False by (cases "hook_step policy plugin (bus, denials) (i, c)") simp_all
  qed
qed simp

definition admissible_manifest :: "ExtensionSecurityPolicy \<Rightarrow> PluginManifest \<Rightarrow> bool" where
  "admissible_manifest policy m \<longleftrightarrow> (pm_enabled m \<longrightarrow>
     (\<forall>c \<in> set (pc_hooks (pm_capabilities m)). admissible_hook policy (pm_plugin_id m) (pc_name c)))"

lemma hooks_of_manifests:
  assumes "bus_ok used bus" and "sorted_wrt compatible ms" and "\<forall>m \<in> set ms. normal_form m = Inr m"
    and "\<forall>m \<in> set ms. names Hook m \<inter> used = {}"
  shows "if \<forall>m \<in> set ms. admissible_manifest policy m
    then \<exists>bus' denials' used'. rfold (manifest_step policy) (bus, denials) ms = Inr (bus', denials')
        \<and> bus_ok used' bus'
    else \<not> is_ok (rfold (manifest_step policy) (bus, denials) ms)"
  using assms
proof (induction ms arbitrary: used bus denials)
  case Nil
  then show ?case by auto
next
  case (Cons m ms)
  let ?cs = "pc_hooks (pm_capabilities m)"
  have m: "normal_form m = Inr m" "names Hook m \<inter> used = {}" using Cons.prems(3,4) by simp_all
  have cs: "distinct (map pc_name ?cs)" "pc_name ` set ?cs \<inter> used = {}"
    using normal_names_distinct [OF m(1), of Hook] m(2) by (simp_all add: names_def)
  have id: "normalize_identifier (pm_plugin_id m) = Some (pm_plugin_id m)"
    by (rule normal_form_id [OF m(1)])
  have tail: "sorted_wrt compatible ms" "\<forall>n \<in> set ms. normal_form n = Inr n"
    using Cons.prems(2,3) by simp_all
  have apart: "\<forall>n \<in> set ms. names Hook n \<inter> (used \<union> pc_name ` set ?cs) = {}"
  proof
    fix n assume n: "n \<in> set ms"
    then have "compatible m n" using Cons.prems(2) by simp
    then have "names Hook m \<inter> names Hook n = {}" unfolding compatible_def by blast
    moreover have "names Hook m = pc_name ` set ?cs" by (simp add: names_def)
    ultimately show "names Hook n \<inter> (used \<union> pc_name ` set ?cs) = {}"
      using Cons.prems(4) n by auto
  qed
  show ?case
  proof (cases "admissible_manifest policy m")
    case True
    obtain bus' denials' where step: "manifest_step policy (bus, denials) m = Inr (bus', denials')"
        "bus_ok (used \<union> pc_name ` set ?cs) bus'"
    proof (cases "pm_enabled m")
      case True
      then have "\<forall>c \<in> set ?cs. admissible_hook policy (pm_plugin_id m) (pc_name c)"
        using \<open>admissible_manifest policy m\<close> by (simp add: admissible_manifest_def)
      then show ?thesis
        using that True hooks_of_plugin [OF Cons.prems(1) cs id, of policy denials 0]
        by (auto simp: manifest_step_def)
    next
      case False
      then show ?thesis using that bus_ok_mono [OF Cons.prems(1)] by (auto simp: manifest_step_def)
    qed
    from Cons.IH [OF step(2) tail apart, of denials'] show ?thesis
      using True step(1) by (cases "\<forall>m \<in> set ms. admissible_manifest policy m") auto
  next
    case False
    then have "\<not> is_ok (manifest_step policy (bus, denials) m)"
      using hooks_of_plugin [OF Cons.prems(1) cs id, of policy denials 0]
      by (auto simp: manifest_step_def admissible_manifest_def split: if_splits)
    then show ?thesis
      using False by (cases "manifest_step policy (bus, denials) m") simp_all
  qed
qed

text \<open>The gateway's hook bus is built exactly when every hook of an enabled, allowed plugin is one
  of the six points; and because a name belongs to one plugin, no point then has two hooks.\<close>

theorem hook_bus_builds_iff:
  assumes "registry_run R"
  shows "(is_ok (build_hook_bus_from_registry policy R) \<longleftrightarrow>
      (\<forall>m \<in> set (list_manifests R). pm_enabled m \<and> plugin_allowed policy (pm_plugin_id m) \<longrightarrow>
         (\<forall>c \<in> set (pc_hooks (pm_capabilities m)). pc_name c \<in> hook_names)))
    \<and> (\<forall>bus denials. build_hook_bus_from_registry policy R = Inr (bus, denials) \<longrightarrow>
        distinct (map hb_hook_point bus))"
proof -
  have R: "consistent R" by (rule registry_run_consistent [OF assms])
  have "\<forall>m \<in> set (list_manifests R). normal_form m = Inr m"
    using registry_consistentD(2) [OF R] by (auto simp: list_manifests_def)
  then have loop: "if \<forall>m \<in> set (list_manifests R). admissible_manifest policy m
      then \<exists>bus' denials' used'. build_hook_bus_from_registry policy R = Inr (bus', denials') \<and> bus_ok used' bus'
      else \<not> is_ok (build_hook_bus_from_registry policy R)"
    unfolding build_hook_bus_from_registry_def
    by (intro hooks_of_manifests [of "{}"] manifests_compatible [OF R]) (simp_all add: bus_ok_def)
  have "(\<forall>m \<in> set (list_manifests R). admissible_manifest policy m) \<longleftrightarrow>
      (\<forall>m \<in> set (list_manifests R). pm_enabled m \<and> plugin_allowed policy (pm_plugin_id m) \<longrightarrow>
         (\<forall>c \<in> set (pc_hooks (pm_capabilities m)). pc_name c \<in> hook_names))"
    unfolding admissible_manifest_def admissible_hook_def by blast
  moreover have "is_ok (build_hook_bus_from_registry policy R)
      \<longleftrightarrow> (\<forall>m \<in> set (list_manifests R). admissible_manifest policy m)"
    using loop by (auto split: if_splits)
  moreover have "distinct (map hb_hook_point bus)"
    if "build_hook_bus_from_registry policy R = Inr (bus, denials)" for bus denials
    using that loop by (auto simp: bus_ok_def split: if_splits)
  ultimately show ?thesis by blast
qed

end
