(* ===== verification/PluginInstall.thy ===== *)
theory PluginInstall
  imports Hooks
begin

text \<open>
  Installing, updating and rolling back a plugin, the handlers \<open>install_plugin\<close>, \<open>update_plugin\<close>
  and \<open>rollback_plugin\<close> of \<^verbatim>\<open>crates/carsinos-gateway/src/main.rs\<close>. The state is the registry,
  the hook bus, the manifest files on disk by directory and name, and the pointers and bundles by
  plugin (and version); a file is the manifest that was written to it. A handler returns its
  error or the manifest it answers with, and the state it leaves behind. What the environment answers
  (roles, configured directories, writes, the copy of an artifact) is a record of arguments. Each
  handler holds the lock of the registry from reading it to replacing it. The next start of the
  gateway reads the files again.
\<close>

datatype InstallError =
    WrongManifestSchema | InvalidRequestId | Unauthorized | PolicyDeny | StorageRootUnavailable
  | ToolNameCollision string | DaemonNotAllowlisted | PluginAlreadyExists | ManifestIdMismatch
  | PluginNotFound | RegistryRefused PluginError | MissingAfterValidation | InvalidPluginVersion
  | ArtifactRefused | BundlePersistFailed | ManifestPersistFailed | PointerPersistFailed
  | PointerUnsupported | PointerMissing | RollbackTargetMissing | BundleMissing | HookRefreshFailed HookError

record PluginVersionPointersRecord =
  pv_schema_version :: string
  pv_plugin_id :: string
  pv_active_version :: string
  pv_previous_version :: "string option"
  pv_updated_at :: i64

record plugin_state =
  ps_registry :: PluginRegistry
  ps_hooks :: "HookRegistration list"
  ps_files :: "string \<Rightarrow> PluginManifest btree"
  ps_pointers :: "string \<Rightarrow> PluginVersionPointersRecord option"
  ps_bundles :: "string \<times> string \<Rightarrow> PluginManifest option"

text \<open>\<open>pe_bundle plugin version path digest\<close> is what copying the artifact answers: the absolute source
  path and the path of the copy, or a refusal (no such file, another digest).\<close>

record plugin_env =
  pe_authorized :: bool
  pe_policy :: ExtensionSecurityPolicy
  pe_state_dir :: string
  pe_bundle_root :: "string option"
  pe_daemon_allowlist :: "string list"
  pe_bundle :: "string \<Rightarrow> string \<Rightarrow> string \<Rightarrow> string \<Rightarrow> (string \<times> string) option"
  pe_bundle_persists :: bool
  pe_manifest_persists :: bool
  pe_pointer_persists :: bool
  pe_now :: i64

definition RESERVED_CORE_TOOL_NAMES :: "string list" where
  "RESERVED_CORE_TOOL_NAMES = [''exec'', ''process'', ''fs.read'', ''fs.write'', ''web.search'',
     ''web.fetch'', ''channel.send'', ''channel.reply'', ''channel.pin'', ''channel.reaction'',
     ''channel.action'']"

text \<open>\<open>normalize_plugin_id\<close> of the gateway, letter for letter the registry's normal form.\<close>

definition normalize_plugin_id :: "string \<Rightarrow> string option" where
  "normalize_plugin_id raw =
     (let normalized = to_ascii_lowercase (trim raw)
      in if normalized = [] then None
         else if \<not> list_all identifier_char normalized then None else Some normalized)"

definition PLUGIN_POINTER_SCHEMA_VERSION :: string where
  "PLUGIN_POINTER_SCHEMA_VERSION = ''plugin.pointer.v1''"

definition reserved_versions :: "string list" where
  "reserved_versions = [''con'', ''prn'', ''aux'', ''nul'', ''com1'', ''com2'', ''com3'', ''com4'',
     ''com5'', ''com6'', ''com7'', ''com8'', ''com9'', ''lpt1'', ''lpt2'', ''lpt3'', ''lpt4'',
     ''lpt5'', ''lpt6'', ''lpt7'', ''lpt8'', ''lpt9'']"

definition normalize_plugin_version :: "string \<Rightarrow> string option" where
  "normalize_plugin_version raw =
     (let normalized = trim raw
      in if normalized \<noteq> raw then None
         else if normalized = [] then None
         else if 80 < length normalized then None
         else if hd normalized = CHR ''.'' \<or> last normalized = CHR ''.'' \<or> sublist ''..'' normalized
         then None
         else if \<not> list_all (\<lambda>c. identifier_char c \<or> c = CHR ''+'') normalized then None
         else if to_ascii_lowercase normalized \<in> set reserved_versions then None
         else Some normalized)"

definition ensure_plugin_tool_names_do_not_collide :: "PluginManifest \<Rightarrow> InstallError + unit" where
  "ensure_plugin_tool_names_do_not_collide m =
     (case find (\<lambda>c. pc_name c \<in> set RESERVED_CORE_TOOL_NAMES) (pc_tools (pm_capabilities m)) of
        Some c \<Rightarrow> Inl (ToolNameCollision (pc_name c))
      | None \<Rightarrow> Inr ())"

definition ensure_daemon_allowlist :: "string list \<Rightarrow> PluginManifest \<Rightarrow> InstallError + unit" where
  "ensure_daemon_allowlist allowlist m =
     (if pa_exec_kind (pm_artifact m) \<noteq> Daemon then Inr ()
      else if list_ex (\<lambda>entry. to_ascii_lowercase (trim entry)
          = to_ascii_lowercase (trim (pm_plugin_id m))) allowlist
      then Inr () else Inl DaemonNotAllowlisted)"

text \<open>\<open>Path::join\<close> with a relative path, and the directories below the storage root: a configured
  root, absolute or below the state directory, or the directory \<open>plugins\<close> there.\<close>

definition join_path :: "string \<Rightarrow> string \<Rightarrow> string" where
  "join_path dir name =
     (if dir = [] \<or> last dir = CHR ''/'' then dir @ name else dir @ ''/'' @ name)"

definition plugin_storage_root_from_runtime :: "string \<Rightarrow> string option \<Rightarrow> InstallError + string" where
  "plugin_storage_root_from_runtime state_dir configured =
     (case nonempty_trimmed configured of
        None \<Rightarrow> Inr (join_path state_dir ''plugins'')
      | Some raw \<Rightarrow>
          if sublist ''://'' raw then Inl StorageRootUnavailable
          else if prefix ''/'' raw then Inr raw else Inr (join_path state_dir raw))"

definition plugin_active_dir :: "string \<Rightarrow> string" where
  "plugin_active_dir root = join_path root ''active''"

definition active_manifest_file :: "string \<Rightarrow> string" where
  "active_manifest_file plugin = plugin @ ''.json''"

definition persist_plugin_manifest ::
    "string \<Rightarrow> string \<Rightarrow> PluginManifest \<Rightarrow> (string \<Rightarrow> PluginManifest btree) \<Rightarrow> string \<Rightarrow> PluginManifest btree" where
  "persist_plugin_manifest dir name m files = files(dir := btree_insert name m (files dir))"

abbreviation env_storage_root :: "plugin_env \<Rightarrow> InstallError + string" where
  "env_storage_root env \<equiv> plugin_storage_root_from_runtime (pe_state_dir env) (pe_bundle_root env)"

text \<open>The copied artifact takes the place of the source in path, command and arguments.\<close>

definition materialized_manifest ::
    "string \<Rightarrow> string \<Rightarrow> string \<Rightarrow> string \<Rightarrow> PluginManifest \<Rightarrow> PluginManifest" where
  "materialized_manifest plugin version source copied m =
     (let a = pm_artifact m
      in m\<lparr>pm_plugin_id := plugin, pm_plugin_version := version,
         pm_artifact := a\<lparr>pa_local_path := copied,
           pa_command := (if trim (pa_command a) = source then copied else pa_command a),
           pa_args := map (\<lambda>arg. if trim arg = source then copied else arg) (pa_args a)\<rparr>\<rparr>)"

definition materialize_plugin_bundle ::
    "plugin_env \<Rightarrow> PluginManifest \<Rightarrow> plugin_state \<Rightarrow> (InstallError + PluginManifest) \<times> plugin_state" where
  "materialize_plugin_bundle env m P =
     (case rbind (of_option InvalidRequestId (normalize_plugin_id (pm_plugin_id m))) (\<lambda>plugin.
        rbind (of_option InvalidPluginVersion (normalize_plugin_version (pm_plugin_version m))) (\<lambda>version.
        rbind (of_option ArtifactRefused (pe_bundle env plugin version (pa_local_path (pm_artifact m))
            (to_ascii_lowercase (trim (pa_sha256 (pm_artifact m)))))) (\<lambda>(source, copied).
        if \<not> pe_bundle_persists env then Inl BundlePersistFailed
        else Inr (materialized_manifest plugin version source copied m)))) of
        Inl e \<Rightarrow> (Inl e, P)
      | Inr n \<Rightarrow> (Inr n, P\<lparr>ps_bundles := (ps_bundles P)((pm_plugin_id n, pm_plugin_version n) \<mapsto> n)\<rparr>))"

text \<open>The end of each handler: the active manifest and the pointer are written, the registry is
  replaced, and the hook bus is built anew.\<close>

definition commit_plugin ::
    "plugin_env \<Rightarrow> string \<Rightarrow> PluginManifest \<Rightarrow> string option \<Rightarrow> PluginRegistry \<Rightarrow> plugin_state
     \<Rightarrow> (InstallError + PluginManifest) \<times> plugin_state" where
  "commit_plugin env plugin n previous candidate P =
     (case env_storage_root env of
        Inl e \<Rightarrow> (Inl e, P)
      | Inr root \<Rightarrow>
        if \<not> pe_manifest_persists env then (Inl ManifestPersistFailed, P)
        else
        let P1 = P\<lparr>ps_files := persist_plugin_manifest (plugin_active_dir root)
              (active_manifest_file plugin) n (ps_files P)\<rparr>
        in if \<not> pe_pointer_persists env then (Inl PointerPersistFailed, P1)
           else
             let P2 = P1\<lparr>ps_pointers := (ps_pointers P1)(plugin \<mapsto>
                   \<lparr>pv_schema_version = PLUGIN_POINTER_SCHEMA_VERSION,
                    pv_plugin_id = plugin, pv_active_version = pm_plugin_version n,
                    pv_previous_version = previous, pv_updated_at = pe_now env\<rparr>),
                 ps_registry := candidate\<rparr>
             in case build_hook_bus_from_registry (pe_policy env) candidate of
                  Inl e \<Rightarrow> (Inl (HookRefreshFailed e), P2)
                | Inr (bus, denials) \<Rightarrow> (Inr n, P2\<lparr>ps_hooks := bus\<rparr>))"

text \<open>The checks before the registry is locked, and the manifest with its normal identifier.\<close>

definition admit_manifest ::
    "plugin_env \<Rightarrow> string \<Rightarrow> PluginManifest \<Rightarrow> InstallError + PluginManifest" where
  "admit_manifest env plugin m =
     (if \<not> pe_authorized env then Inl Unauthorized
      else if \<not> plugin_allowed (pe_policy env) plugin then Inl PolicyDeny
      else
        let m' = m\<lparr>pm_plugin_id := plugin\<rparr>
        in rbind (env_storage_root env) (\<lambda>_.
           rbind (ensure_plugin_tool_names_do_not_collide m') (\<lambda>_.
           rbind (ensure_daemon_allowlist (pe_daemon_allowlist env) m') (\<lambda>_. Inr m'))))"

text \<open>Materialize the normal form, put it into the candidate and commit.\<close>

definition materialize_and_commit ::
    "plugin_env \<Rightarrow> string \<Rightarrow> PluginManifest \<Rightarrow> string option \<Rightarrow> PluginRegistry \<Rightarrow> plugin_state
     \<Rightarrow> (InstallError + PluginManifest) \<times> plugin_state" where
  "materialize_and_commit env plugin normalized previous candidate P =
     (case materialize_plugin_bundle env normalized P of
        (Inl e, P1) \<Rightarrow> (Inl e, P1)
      | (Inr n, P1) \<Rightarrow>
          (case replace_manifest n candidate of
             (Inl e, _) \<Rightarrow> (Inl (RegistryRefused e), P1)
           | (Inr installed, candidate') \<Rightarrow> commit_plugin env plugin installed previous candidate' P1))"

definition install_plugin ::
    "plugin_env \<Rightarrow> PluginManifest \<Rightarrow> plugin_state \<Rightarrow> (InstallError + PluginManifest) \<times> plugin_state" where
  "install_plugin env m P =
     (if trim (pm_schema_version m) \<noteq> PLUGIN_MANIFEST_SCHEMA_VERSION_V2 then (Inl WrongManifestSchema, P)
      else case normalize_plugin_id (pm_plugin_id m) of
        None \<Rightarrow> (Inl InvalidRequestId, P)
      | Some plugin \<Rightarrow>
          (case admit_manifest env plugin m of
             Inl e \<Rightarrow> (Inl e, P)
           | Inr m' \<Rightarrow>
               if get_manifest plugin (ps_registry P) \<noteq> None then (Inl PluginAlreadyExists, P)
               else case register_manifest m' (ps_registry P) of
                 (Inl e, _) \<Rightarrow> (Inl (RegistryRefused e), P)
               | (Inr u, candidate) \<Rightarrow>
                   (case get_manifest plugin candidate of
                      None \<Rightarrow> (Inl MissingAfterValidation, P)
                    | Some normalized \<Rightarrow>
                        materialize_and_commit env plugin normalized None candidate P)))"

definition update_plugin ::
    "plugin_env \<Rightarrow> string \<Rightarrow> PluginManifest \<Rightarrow> plugin_state
     \<Rightarrow> (InstallError + PluginManifest) \<times> plugin_state" where
  "update_plugin env path_id m P =
     (case normalize_plugin_id path_id of
        None \<Rightarrow> (Inl InvalidRequestId, P)
      | Some plugin \<Rightarrow>
          if trim (pm_schema_version m) \<noteq> PLUGIN_MANIFEST_SCHEMA_VERSION_V2 then (Inl WrongManifestSchema, P)
          else case normalize_plugin_id (pm_plugin_id m) of
            None \<Rightarrow> (Inl InvalidRequestId, P)
          | Some manifest_plugin \<Rightarrow>
              if manifest_plugin \<noteq> plugin then (Inl ManifestIdMismatch, P)
              else case admit_manifest env plugin m of
                Inl e \<Rightarrow> (Inl e, P)
              | Inr m' \<Rightarrow>
                  (case get_manifest plugin (ps_registry P) of
                     None \<Rightarrow> (Inl PluginNotFound, P)
                   | Some previous \<Rightarrow>
                       (case replace_manifest m' (ps_registry P) of
                          (Inl e, _) \<Rightarrow> (Inl (RegistryRefused e), P)
                        | (Inr _, candidate) \<Rightarrow>
                            (case get_manifest plugin candidate of
                               None \<Rightarrow> (Inl MissingAfterValidation, P)
                             | Some normalized \<Rightarrow>
                                 (case rbind (ensure_plugin_tool_names_do_not_collide normalized) (\<lambda>_.
                                     ensure_daemon_allowlist (pe_daemon_allowlist env) normalized) of
                                    Inl e \<Rightarrow> (Inl e, P)
                                  | Inr u \<Rightarrow> materialize_and_commit env plugin normalized
                                      (Some (pm_plugin_version previous)) candidate P)))))"

definition load_plugin_pointer ::
    "string \<Rightarrow> plugin_state \<Rightarrow> InstallError + PluginVersionPointersRecord option" where
  "load_plugin_pointer plugin P =
     (case ps_pointers P plugin of
        None \<Rightarrow> Inr None
      | Some pointer \<Rightarrow>
          if trim (pv_schema_version pointer) \<noteq> PLUGIN_POINTER_SCHEMA_VERSION
          then Inl PointerUnsupported else Inr (Some pointer))"

definition rollback_plugin ::
    "plugin_env \<Rightarrow> string \<Rightarrow> plugin_state \<Rightarrow> (InstallError + PluginManifest) \<times> plugin_state" where
  "rollback_plugin env path_id P =
     (case normalize_plugin_id path_id of
        None \<Rightarrow> (Inl InvalidRequestId, P)
      | Some plugin \<Rightarrow>
          (case if \<not> pe_authorized env then Inl Unauthorized
              else rbind (env_storage_root env) (\<lambda>_.
                rbind (load_plugin_pointer plugin P) (\<lambda>found.
                rbind (of_option PointerMissing found) (\<lambda>pointer.
                rbind (of_option RollbackTargetMissing (pv_previous_version pointer)) (\<lambda>version.
                rbind (of_option InvalidPluginVersion (normalize_plugin_version version)) (\<lambda>version.
                rbind (of_option BundleMissing (ps_bundles P (plugin, version))) (\<lambda>m.
                rbind (ensure_plugin_tool_names_do_not_collide m) (\<lambda>_.
                rbind (ensure_daemon_allowlist (pe_daemon_allowlist env) m) (\<lambda>_.
                rbind (of_option PluginNotFound (get_manifest plugin (ps_registry P))) (\<lambda>current.
                  Inr (m, current)))))))))) of
             Inl e \<Rightarrow> (Inl e, P)
           | Inr (m, current) \<Rightarrow>
               (case replace_manifest m (ps_registry P) of
                  (Inl e, _) \<Rightarrow> (Inl (RegistryRefused e), P)
                | (Inr rolled_back, candidate) \<Rightarrow> commit_plugin env plugin rolled_back
                    (Some (pm_plugin_version current)) candidate P)))"

text \<open>The start of the gateway: the manifests that are read, then the bus. They are read from the
  configured directories, a list with commas, or from the active directory below the state directory
  (from its parent when only that one has manifests), each directory in the order of its file names.\<close>

fun listed_directories :: "string list \<Rightarrow> string list \<Rightarrow> string list" where
  "listed_directories seen [] = []"
| "listed_directories seen (raw # rest) =
     (let path = trim raw
      in if path = [] \<or> path \<in> set seen then listed_directories seen rest
         else path # listed_directories (path # seen) rest)"

definition directory_has_json_manifests :: "(string \<Rightarrow> PluginManifest btree) \<Rightarrow> string \<Rightarrow> bool" where
  "directory_has_json_manifests files dir \<longleftrightarrow> files dir \<noteq> []"

definition load_plugin_manifest_dirs_from_env ::
    "string \<Rightarrow> string \<Rightarrow> (string \<Rightarrow> PluginManifest btree) \<Rightarrow> string list" where
  "load_plugin_manifest_dirs_from_env configured state_dir files =
     (let directories = listed_directories [] (split_on CHR '','' configured);
          plugin_root = join_path state_dir ''plugins'';
          active_dir = join_path plugin_root ''active''
      in if directories \<noteq> [] then directories
         else if directory_has_json_manifests files active_dir then [active_dir]
         else if directory_has_json_manifests files plugin_root then [plugin_root]
         else [active_dir])"

definition load_manifests_from_dir :: "(string \<Rightarrow> PluginManifest btree) \<Rightarrow> string \<Rightarrow> PluginManifest list" where
  "load_manifests_from_dir files dir = map snd (files dir)"

definition start_plugins ::
    "ExtensionSecurityPolicy \<Rightarrow> PluginManifest list
     \<Rightarrow> (PluginError + HookError) + PluginRegistry \<times> HookRegistration list" where
  "start_plugins policy ms =
     (case load_manifests ms of
        Inl e \<Rightarrow> Inl (Inl e)
      | Inr R \<Rightarrow>
          (case build_hook_bus_from_registry policy R of
             Inl e \<Rightarrow> Inl (Inr e)
           | Inr (bus, denials) \<Rightarrow> Inr (R, bus)))"

definition start_gateway ::
    "string \<Rightarrow> string \<Rightarrow> ExtensionSecurityPolicy \<Rightarrow> (string \<Rightarrow> PluginManifest btree)
     \<Rightarrow> (PluginError + HookError) + PluginRegistry \<times> HookRegistration list" where
  "start_gateway configured state_dir policy files = start_plugins policy
     (concat (map (load_manifests_from_dir files)
       (load_plugin_manifest_dirs_from_env configured state_dir files)))"

end
