(* ===== verification/PluginInstallSafety.thy ===== *)
theory PluginInstallSafety
  imports PluginInstall
begin

text \<open>
  What the handlers of a plugin guarantee and what they do not: the registry stays consistent; an
  update never takes a reserved tool name; an installation does, when the name is written in capital
  letters; and a plugin with an unknown hook is refused only after it was committed, so that the
  gateway does not start again.
\<close>

subsection \<open>The registry stays consistent\<close>

lemma default_storage_root [simp]:
  "plugin_storage_root_from_runtime state_dir None = Inr (join_path state_dir ''plugins'')"
  by (simp add: plugin_storage_root_from_runtime_def nonempty_trimmed_def)

lemma commit_registry:
  assumes "commit_plugin env plugin n previous R P = (r, Q)"
  shows "ps_registry Q = R \<or> ps_registry Q = ps_registry P"
  using assms by (auto simp: commit_plugin_def Let_def split: if_splits sum.splits)

lemma materialize_state:
  assumes "materialize_plugin_bundle env m P = (r, Q)"
  shows "ps_registry Q = ps_registry P" "ps_hooks Q = ps_hooks P" "ps_files Q = ps_files P"
  using assms by (auto simp: materialize_plugin_bundle_def split: sum.splits)

lemma materialize_commit_registry:
  assumes "materialize_and_commit env plugin m previous R P = (r, Q)"
    and "registry_run R" and "registry_run (ps_registry P)"
  shows "registry_run (ps_registry Q)"
proof -
  obtain v P1 where v: "materialize_plugin_bundle env m P = (v, P1)" by (meson surj_pair)
  show ?thesis
  proof (cases v)
    case (Inl e)
    then show ?thesis
      using assms v materialize_state [OF v] by (simp add: materialize_and_commit_def)
  next
    case (Inr n)
    obtain w S where w: "replace_manifest n R = (w, S)" by (meson surj_pair)
    have S: "registry_run S" by (rule registry_run.replace [OF assms(2) w])
    show ?thesis
    proof (cases w)
      case (Inl e)
      then show ?thesis
        using assms v Inr w materialize_state [OF v] by (simp add: materialize_and_commit_def)
    next
      case installed: (Inr k)
      then have "commit_plugin env plugin k previous S P1 = (r, Q)"
        using assms(1) v Inr w by (simp add: materialize_and_commit_def)
      then show ?thesis
        using commit_registry S assms(3) materialize_state(1) [OF v] by metis
    qed
  qed
qed

lemma admit_refusal:
  "admit_manifest env plugin m = Inl e \<Longrightarrow> e \<noteq> HookRefreshFailed h"
  by (auto simp: admit_manifest_def Let_def ensure_plugin_tool_names_do_not_collide_def
      ensure_daemon_allowlist_def plugin_storage_root_from_runtime_def result_simps split: if_splits option.splits)

lemma install_cases:
  assumes "install_plugin env m P = (r, Q)"
  obtains (refused) e where "r = Inl e" and "Q = P" and "\<forall>h. e \<noteq> HookRefreshFailed h"
  | (committed) plugin m' candidate normalized where "normalize_plugin_id (pm_plugin_id m) = Some plugin"
      and "admit_manifest env plugin m = Inr m'"
      and "register_manifest m' (ps_registry P) = (Inr (), candidate)"
      and "get_manifest plugin candidate = Some normalized"
      and "materialize_and_commit env plugin normalized None candidate P = (r, Q)"
proof -
  have "(\<exists>e. r = Inl e \<and> Q = P \<and> (\<forall>h. e \<noteq> HookRefreshFailed h))
    \<or> (\<exists>plugin m' candidate normalized. normalize_plugin_id (pm_plugin_id m) = Some plugin
      \<and> admit_manifest env plugin m = Inr m'
      \<and> register_manifest m' (ps_registry P) = (Inr (), candidate)
      \<and> get_manifest plugin candidate = Some normalized
      \<and> materialize_and_commit env plugin normalized None candidate P = (r, Q))"
  proof (cases "normalize_plugin_id (pm_plugin_id m)")
    case None
    then show ?thesis using assms by (auto simp: install_plugin_def split: if_splits)
  next
    case (Some plugin)
    show ?thesis
    proof (cases "admit_manifest env plugin m")
      case (Inl e)
      then have "r = Inl WrongManifestSchema \<and> Q = P \<or> r = Inl e \<and> Q = P"
        using assms Some by (simp add: install_plugin_def split: if_splits)
      then show ?thesis using admit_refusal [OF Inl] by blast
    next
      case (Inr m')
      obtain v candidate where v: "register_manifest m' (ps_registry P) = (v, candidate)"
        by (meson surj_pair)
      show ?thesis
        using assms Some Inr v
        by (cases v; cases "get_manifest plugin candidate") (auto simp: install_plugin_def split: if_splits)
    qed
  qed
  then show thesis using refused committed by blast
qed

lemma update_cases:
  assumes "update_plugin env path_id m P = (r, Q)"
  obtains (refused) e where "r = Inl e" and "Q = P"
  | (committed) plugin m' previous n candidate normalized where
      "normalize_plugin_id path_id = Some plugin" and "normalize_plugin_id (pm_plugin_id m) = Some plugin"
      and "admit_manifest env plugin m = Inr m'"
      and "get_manifest plugin (ps_registry P) = Some previous"
      and "replace_manifest m' (ps_registry P) = (Inr n, candidate)"
      and "get_manifest plugin candidate = Some normalized"
      and "ensure_plugin_tool_names_do_not_collide normalized = Inr ()"
      and "materialize_and_commit env plugin normalized (Some (pm_plugin_version previous)) candidate P
        = (r, Q)"
proof -
  have "(\<exists>e. r = Inl e \<and> Q = P) \<or> (\<exists>plugin m' previous n candidate normalized.
      normalize_plugin_id path_id = Some plugin \<and> normalize_plugin_id (pm_plugin_id m) = Some plugin
      \<and> admit_manifest env plugin m = Inr m'
      \<and> get_manifest plugin (ps_registry P) = Some previous
      \<and> replace_manifest m' (ps_registry P) = (Inr n, candidate)
      \<and> get_manifest plugin candidate = Some normalized
      \<and> ensure_plugin_tool_names_do_not_collide normalized = Inr ()
      \<and> materialize_and_commit env plugin normalized (Some (pm_plugin_version previous)) candidate P
        = (r, Q))"
  proof (cases "normalize_plugin_id path_id")
    case None
    then show ?thesis using assms by (auto simp: update_plugin_def)
  next
    case (Some plugin)
    show ?thesis
    proof (cases "admit_manifest env plugin m")
      case (Inl e)
      then have "r \<in> {Inl e, Inl ManifestIdMismatch, Inl InvalidRequestId, Inl WrongManifestSchema} \<and> Q = P"
        using assms Some
        by (cases "normalize_plugin_id (pm_plugin_id m)") (simp_all add: update_plugin_def split: if_splits)
      then show ?thesis by blast
    next
      case (Inr m')
      obtain v candidate where v: "replace_manifest m' (ps_registry P) = (v, candidate)"
        by (meson surj_pair)
      show ?thesis
      proof (cases "normalize_plugin_id (pm_plugin_id m) = Some plugin
          \<and> get_manifest plugin (ps_registry P) \<noteq> None \<and> is_ok v")
        case False
        then have "(\<exists>e. r = Inl e) \<and> Q = P"
          using assms Some Inr v
          by (cases "normalize_plugin_id (pm_plugin_id m)"; cases "get_manifest plugin (ps_registry P)";
              cases v) (auto simp: update_plugin_def split: if_splits)
        then show ?thesis by blast
      next
        case True
        then obtain previous n where "normalize_plugin_id (pm_plugin_id m) = Some plugin"
            "get_manifest plugin (ps_registry P) = Some previous" "v = Inr n"
          by (cases v) auto
        note step = this assms Some Inr v
        show ?thesis
          using step
          by (cases "get_manifest plugin candidate";
              cases "ensure_plugin_tool_names_do_not_collide (the (get_manifest plugin candidate))";
              cases "ensure_daemon_allowlist (pe_daemon_allowlist env) (the (get_manifest plugin candidate))")
             (auto simp: update_plugin_def split: if_splits)
      qed
    qed
  qed
  then show thesis using refused committed by blast
qed

text \<open>The checks of a rollback before the registry is changed.\<close>

lemma rollback_cases:
  assumes "rollback_plugin env path_id P = (r, Q)"
  obtains (refused) e where "r = Inl e" and "Q = P"
  | (committed) plugin m and current :: PluginManifest and n candidate where "normalize_plugin_id path_id = Some plugin"
      and "ensure_plugin_tool_names_do_not_collide m = Inr ()"
      and "replace_manifest m (ps_registry P) = (Inr n, candidate)"
      and "commit_plugin env plugin n (Some (pm_plugin_version current)) candidate P = (r, Q)"
proof (cases "normalize_plugin_id path_id")
  case None
  then have "r = Inl InvalidRequestId" "Q = P" using assms by (auto simp: rollback_plugin_def)
  then show thesis by (rule refused)
next
  case (Some plugin)
  let ?checks = "if \<not> pe_authorized env then Inl Unauthorized
      else rbind (env_storage_root env) (\<lambda>_.
        rbind (load_plugin_pointer plugin P) (\<lambda>found.
        rbind (of_option PointerMissing found) (\<lambda>pointer.
        rbind (of_option RollbackTargetMissing (pv_previous_version pointer)) (\<lambda>version.
        rbind (of_option InvalidPluginVersion (normalize_plugin_version version)) (\<lambda>version.
        rbind (of_option BundleMissing (ps_bundles P (plugin, version))) (\<lambda>m.
        rbind (ensure_plugin_tool_names_do_not_collide m) (\<lambda>_.
        rbind (ensure_daemon_allowlist (pe_daemon_allowlist env) m) (\<lambda>_.
        rbind (of_option PluginNotFound (get_manifest plugin (ps_registry P))) (\<lambda>current.
          Inr (m, current))))))))))"
  show thesis
  proof (cases ?checks)
    case (Inl e)
    then have "r = Inl e" "Q = P" using assms Some by (simp_all add: rollback_plugin_def)
    then show thesis by (rule refused)
  next
    case (Inr mc)
    obtain m current where mc: "mc = (m, current)" by (meson surj_pair)
    then have tools: "ensure_plugin_tool_names_do_not_collide m = Inr ()"
      using Inr by (auto split: if_splits)
    obtain v candidate where v: "replace_manifest m (ps_registry P) = (v, candidate)"
      by (meson surj_pair)
    have run: "rollback_plugin env path_id P = (case v of
        Inl e \<Rightarrow> (Inl (RegistryRefused e), P)
      | Inr n \<Rightarrow> commit_plugin env plugin n (Some (pm_plugin_version current)) candidate P)"
      unfolding rollback_plugin_def Some option.case Inr sum.case mc prod.case v by (cases v) simp_all
    show thesis
    proof (cases v)
      case (Inl e)
      then have "r = Inl (RegistryRefused e)" "Q = P" using run assms by simp_all
      then show thesis by (rule refused)
    next
      case (Inr n)
      then show thesis using committed [OF Some tools, of n candidate current] v run assms by simp
    qed
  qed
qed

lemma install_registry:
  assumes "registry_run (ps_registry P)" and "install_plugin env m P = (r, Q)"
  shows "registry_run (ps_registry Q)"
  using assms(2)
proof (cases rule: install_cases)
  case (committed plugin m' candidate normalized)
  then show ?thesis
    using materialize_commit_registry registry_run.register [OF assms(1)] assms(1) by blast
qed (use assms(1) in simp)

lemma update_registry:
  assumes "registry_run (ps_registry P)" and "update_plugin env path_id m P = (r, Q)"
  shows "registry_run (ps_registry Q)"
  using assms(2)
proof (cases rule: update_cases)
  case (committed plugin m' previous n candidate normalized)
  then show ?thesis
    using materialize_commit_registry registry_run.replace [OF assms(1)] assms(1) by blast
qed (use assms(1) in simp)

lemma rollback_registry:
  assumes "registry_run (ps_registry P)" and "rollback_plugin env path_id P = (r, Q)"
  shows "registry_run (ps_registry Q)"
  using assms(2)
proof (cases rule: rollback_cases)
  case (committed plugin m current n candidate)
  then show ?thesis
    using commit_registry registry_run.replace [OF assms(1)] assms(1) by metis
qed (use assms(1) in simp)

text \<open>The states of a gateway: it starts with a registry that loaded, and runs the handlers with
  whatever the environment answers.\<close>

inductive plugin_run :: "plugin_state \<Rightarrow> bool" where
  started: "load_manifests ms = Inr (ps_registry P) \<Longrightarrow> plugin_run P"
| installed: "plugin_run P \<Longrightarrow> install_plugin env m P = (r, Q) \<Longrightarrow> plugin_run Q"
| updated: "plugin_run P \<Longrightarrow> update_plugin env path_id m P = (r, Q) \<Longrightarrow> plugin_run Q"
| rolled_back: "plugin_run P \<Longrightarrow> rollback_plugin env path_id P = (r, Q) \<Longrightarrow> plugin_run Q"

lemma plugin_run_registry: "plugin_run P \<Longrightarrow> registry_run (ps_registry P)"
proof (induction rule: plugin_run.induct)
  case (started ms P)
  then show ?case by (rule registry_run.load)
qed (blast intro: install_registry update_registry rollback_registry)+

text \<open>C23: a capability belongs to the one plugin that declares it. In every state of a gateway, after
  any installations, updates and rollbacks, however each of them ended, the owner found for a name is
  exactly the registered plugin with a capability of that kind and normal form, so that no two
  plugins share one and none that was refused owns any.\<close>

theorem capability_owner_exact:
  assumes "plugin_run P"
  shows "capability_owner kind name (ps_registry P) = Some plugin \<longleftrightarrow>
    (\<exists>m \<in> set (list_manifests (ps_registry P)). pm_plugin_id m = plugin
       \<and> (\<exists>c \<in> set (capabilities_of kind (pm_capabilities m)). normalize_identifier name = Some (pc_name c)))"
  by (rule capability_owner_iff [OF plugin_run_registry [OF assms]])

subsection \<open>An update takes no reserved tool name\<close>

lemma no_collision_iff:
  "ensure_plugin_tool_names_do_not_collide m = Inr () \<longleftrightarrow> names Tool m \<inter> set RESERVED_CORE_TOOL_NAMES = {}"
proof -
  have "ensure_plugin_tool_names_do_not_collide m = Inr () \<longleftrightarrow>
      find (\<lambda>c. pc_name c \<in> set RESERVED_CORE_TOOL_NAMES) (pc_tools (pm_capabilities m)) = None"
    by (simp add: ensure_plugin_tool_names_do_not_collide_def split: option.split)
  also have "\<dots> \<longleftrightarrow> (\<forall>c \<in> set (pc_tools (pm_capabilities m)). pc_name c \<notin> set RESERVED_CORE_TOOL_NAMES)"
    unfolding find_None_iff by blast
  finally show ?thesis by (auto simp: names_def simp del: find_None_iff)
qed

lemma materialized_capabilities [simp]:
  "pm_capabilities (materialized_manifest plugin version source copied m) = pm_capabilities m"
  by (simp add: materialized_manifest_def Let_def)

lemma normal_form_capabilities:
  "normal_form m = Inr n \<Longrightarrow> normalize_all_capabilities (pm_capabilities m) = Inr (pm_capabilities n)"
  unfolding check_manifest_iff Let_def by auto

lemma materialize_capabilities:
  assumes "materialize_plugin_bundle env m P = (Inr n, Q)"
  shows "pm_capabilities n = pm_capabilities m"
  using assms by (auto simp: materialize_plugin_bundle_def split: sum.splits if_splits)

lemma replaced_normal:
  assumes "replace_manifest m R = (Inr n, S)"
  shows "normal_form m = Inr n \<and> n \<in> set (list_manifests S)"
  using assms
proof (cases rule: replace_cases)
  case (2 k plugin)
  have kn: "k = n" using 2(1) by simp
  have S: "consistent S" using 2(4) unfolding rfold_registered [OF consistent_new] by blast
  have n: "n \<in> set (list_manifests S)" "pm_plugin_id n = plugin"
    using 2(5) kn by (simp_all add: stored_manifest [OF S])
  obtain ns where ns: "rmap normal_form (filter (\<lambda>e. pm_plugin_id e \<noteq> plugin) (list_manifests R) @ [m]) = Inr ns"
      "set (list_manifests S) = set (list_manifests new_plugin_registry) \<union> set ns"
    using 2(4) unfolding rfold_registered [OF consistent_new] by blast
  then obtain xs y where xs: "rmap normal_form (filter (\<lambda>e. pm_plugin_id e \<noteq> plugin) (list_manifests R)) = Inr xs"
      "normal_form m = Inr y" "ns = xs @ [y]"
    by (auto simp: rmap_append)
  have "pm_plugin_id y = plugin" using normal_form_id [OF xs(2)] 2(2) by simp
  then have "map_of (pr_manifests S) plugin = Some y"
    using ns(2) xs(3) by (simp add: stored_manifest [OF S])
  then show ?thesis using 2(5) kn xs(2) n(1) by simp
qed simp

lemma commit_Inr:
  assumes "commit_plugin env plugin n previous R P = (Inr k, Q)"
  shows "k = n" "ps_registry Q = R"
  using assms by (auto simp: commit_plugin_def Let_def split: if_splits sum.splits)

lemma materialize_commit_Inr:
  assumes "materialize_and_commit env plugin m previous R P = (Inr n, Q)"
  obtains k P1 where "materialize_plugin_bundle env m P = (Inr k, P1)"
    and "replace_manifest k R = (Inr n, ps_registry Q)"
proof -
  obtain v P1 where v: "materialize_plugin_bundle env m P = (v, P1)" by (meson surj_pair)
  then obtain k where k: "v = Inr k" using assms by (cases v) (simp_all add: materialize_and_commit_def)
  obtain w S where w: "replace_manifest k R = (w, S)" by (meson surj_pair)
  then obtain j where j: "w = Inr j"
    using assms v k by (cases w) (simp_all add: materialize_and_commit_def)
  have "commit_plugin env plugin j previous S P1 = (Inr n, Q)"
    using assms v k w j by (simp add: materialize_and_commit_def)
  then show thesis using that v k w j commit_Inr by metis
qed

text \<open>C22: an updated plugin takes no reserved tool name, however it is written. In every state of the
  gateway, when an update is answered with a manifest, the plugin owns none of the core tools' names,
  because the check is repeated on the normal form before anything is committed.\<close>

theorem update_refuses_reserved:
  assumes "plugin_run P" and "update_plugin env path_id m P = (Inr n, Q)"
    and "name \<in> set RESERVED_CORE_TOOL_NAMES"
  shows "capability_owner Tool name (ps_registry Q) \<noteq> Some (pm_plugin_id n)"
  using assms(2)
proof (cases rule: update_cases)
  case (committed plugin m' previous n0 candidate normalized)
  have P: "registry_run (ps_registry P)" by (rule plugin_run_registry [OF assms(1)])
  have candidate: "consistent candidate"
    by (rule registry_run_consistent [OF registry_run.replace [OF P committed(5)]])
  obtain k P1 where k: "materialize_plugin_bundle env normalized P = (Inr k, P1)"
    and Q: "replace_manifest k candidate = (Inr n, ps_registry Q)"
    by (rule materialize_commit_Inr [OF committed(8)])
  have "normalized \<in> set (list_manifests candidate)"
    using committed(6) stored_manifest [OF candidate]
    by (auto simp: get_manifest_def split: bind_splits)
  then have "normal_form normalized = Inr normalized"
    using registry_consistentD(2) [OF candidate] by (auto simp: list_manifests_def)
  then have "normalize_all_capabilities (pm_capabilities normalized) = Inr (pm_capabilities normalized)"
    by (rule normal_form_capabilities)
  moreover have "normalize_all_capabilities (pm_capabilities k) = Inr (pm_capabilities n)"
    by (rule normal_form_capabilities [OF replaced_normal [OF Q, THEN conjunct1]])
  ultimately have "pm_capabilities n = pm_capabilities normalized"
    using materialize_capabilities [OF k] by simp
  then have free: "names Tool n \<inter> set RESERVED_CORE_TOOL_NAMES = {}"
    using committed(7) no_collision_iff [of normalized] by (simp add: names_def)
  have run: "registry_run (ps_registry Q)" by (rule update_registry [OF P assms(2)])
  have same: "e = n" if "e \<in> set (list_manifests (ps_registry Q))" "pm_plugin_id e = pm_plugin_id n" for e
    using that replaced_normal [OF Q] stored_manifest [OF registry_run_consistent [OF run]]
    by (metis option.inject)
  have "normalize_identifier name = Some name"
    using assms(3) unfolding normalize_identifier_Some
    by (auto simp: RESERVED_CORE_TOOL_NAMES_def identifier_char_def to_ascii_lowercase_def
        is_ascii_lowercase_def is_ascii_uppercase_def is_ascii_digit_def)
  then show ?thesis
    using free assms(3) same by (fastforce simp: capability_owner_iff [OF run] names_def)
qed simp

end
