(* ===== verification/PluginInstallRuns.thy ===== *)
theory PluginInstallRuns
  imports PluginInstallSafety
begin

text \<open>
  Installations on a fresh gateway: one that takes a reserved tool name, one whose unknown hook is
  found too late, and the witnesses of the handlers' properties.
\<close>

lemma normalize_plugin_id_eq: "normalize_plugin_id = normalize_identifier"
  by (auto simp: fun_eq_iff normalize_plugin_id_def normalize_identifier_def Let_def)

subsection \<open>An unknown hook is found after the commit\<close>

lemma commit_hook_failure:
  assumes "commit_plugin env plugin n previous R P = (Inl (HookRefreshFailed e), Q)"
    and "env_storage_root env = Inr root"
  shows "ps_registry Q = R" "ps_hooks Q = ps_hooks P"
    "ps_files Q = persist_plugin_manifest (plugin_active_dir root) (active_manifest_file plugin) n (ps_files P)"
    "build_hook_bus_from_registry (pe_policy env) R = Inl e"
  using assms by (auto simp: commit_plugin_def Let_def split: if_splits sum.splits)

lemma materialize_refusal:
  "materialize_plugin_bundle env m P = (Inl e, Q) \<Longrightarrow> e \<noteq> HookRefreshFailed h"
  by (auto simp: materialize_plugin_bundle_def result_simps of_option_def
      split: sum.splits if_splits option.splits)

text \<open>A manifest whose hooks keep every registry that holds it from getting a bus.\<close>

definition blocks_bus :: "ExtensionSecurityPolicy \<Rightarrow> PluginManifest \<Rightarrow> bool" where
  "blocks_bus policy m \<longleftrightarrow> pm_enabled m \<and> plugin_allowed policy (pm_plugin_id m)
     \<and> (\<exists>c \<in> set (pc_hooks (pm_capabilities m)). pc_name c \<notin> hook_names)"

lemma bus_builds_unless_blocked:
  assumes "registry_run R"
  shows "is_ok (build_hook_bus_from_registry policy R) \<longleftrightarrow> \<not> (\<exists>m \<in> set (list_manifests R). blocks_bus policy m)"
  using hook_bus_builds_iff [OF assms, of policy] unfolding blocks_bus_def by blast

lemma blocked_start:
  assumes "n \<in> set ms" and "normal_form n = Inr n" and "blocks_bus policy n"
  shows "\<exists>x. start_plugins policy ms = Inl x"
proof (cases "load_manifests ms")
  case (Inr R)
  obtain ns where ns: "rmap normal_form ms = Inr ns" "set (list_manifests R) = set ns"
    using Inr unfolding load_manifests_def rfold_registered [OF consistent_new]
    by (auto simp: list_manifests_def new_plugin_registry_def)
  have "list_all2 (\<lambda>m n. normal_form m = Inr n) ms ns" using ns(1) by (simp add: rmap_Inr_iff)
  then have "n \<in> set (list_manifests R)"
    using assms(1,2) unfolding ns(2) by (fastforce simp: list_all2_conv_all_nth in_set_conv_nth)
  then have "\<not> is_ok (build_hook_bus_from_registry policy R)"
    using assms(3) bus_builds_unless_blocked [OF registry_run.load [OF Inr]] by blast
  then show ?thesis using Inr by (cases "build_hook_bus_from_registry policy R") (simp_all add: start_plugins_def)
qed (simp add: start_plugins_def)

text \<open>What a start reads with the default directories after a manifest was made active.\<close>

lemma default_start_reads:
  assumes "files = persist_plugin_manifest (plugin_active_dir (join_path state_dir ''plugins'')) name n old"
  shows "n \<in> set (concat (map (load_manifests_from_dir files)
    (load_plugin_manifest_dirs_from_env [] state_dir files)))"
proof -
  let ?active = "join_path (join_path state_dir ''plugins'') ''active''"
  have "(name, n) \<in> set (files ?active)"
    by (simp add: assms persist_plugin_manifest_def plugin_active_dir_def btree_insert_member)
  then have "n \<in> set (load_manifests_from_dir files ?active)" "files ?active \<noteq> []"
    by (force simp: load_manifests_from_dir_def)+
  then show ?thesis
    by (simp add: load_plugin_manifest_dirs_from_env_def directory_has_json_manifests_def Let_def)
qed

text \<open>The manifests of the registry after an installation are the new one and those before.\<close>

lemma installed_manifests:
  assumes "registry_run R" and "register_manifest m R = (Inr (), C)"
    and "get_manifest plugin C = Some normalized" and "normalize_identifier (pm_plugin_id m) = Some plugin"
    and "materialize_plugin_bundle env normalized P = (Inr k, P1)" and "replace_manifest k C = (Inr n, S)"
  shows "set (list_manifests S) \<subseteq> insert n (set (list_manifests R))"
proof
  fix y assume y: "y \<in> set (list_manifests S)"
  have C: "registry_run C" by (rule registry_run.register [OF assms(1,2)])
  have c: "consistent C" "consistent S"
    using registry_run_consistent C registry_run.replace [OF C assms(6)] by blast+
  have normalized: "normalized \<in> set (list_manifests C)" "pm_plugin_id normalized = plugin"
    using assms(3) normalize_identifier_idem [OF assms(4)] stored_manifest [OF c(1)]
    by (simp_all add: get_manifest_def)
  have "registered R m = Inr C" using assms(2) by (simp add: registered_def)
  then obtain x where x: "normal_form m = Inr x" "pr_manifests C = btree_insert (pm_plugin_id x) x (pr_manifests R)"
    unfolding registered_Inr by auto
  have "pm_plugin_id x = plugin" using normal_form_id [OF x(1)] assms(4) by simp
  moreover have "x \<in> set (list_manifests C)"
    using btree_insert_member [of "pm_plugin_id x" x] by (force simp: list_manifests_def x(2))
  ultimately have xn: "x = normalized" using normalized stored_manifest [OF c(1)] by (metis option.inject)
  have k: "pm_plugin_id k = plugin"
    using assms(5) normalized(2) normalize_identifier_idem [OF assms(4)]
    by (auto simp: materialize_plugin_bundle_def normalize_plugin_id_eq materialized_manifest_def Let_def
        split: sum.splits if_splits)
  have n: "normal_form k = Inr n" "n \<in> set (list_manifests S)" using replaced_normal [OF assms(6)] by simp_all
  have nid: "pm_plugin_id n = plugin"
    using normal_form_id [OF n(1)] k normalize_identifier_idem [OF assms(4)] by simp
  show "y \<in> insert n (set (list_manifests R))"
  proof (cases "pm_plugin_id y = plugin")
    case True
    then show ?thesis using y n(2) nid stored_manifest [OF c(2)] by (metis insertI1 option.inject)
  next
    case False
    have "get_manifest (pm_plugin_id k) C = Some normalized"
      using assms(3) k by simp
    then have "y \<in> set (list_manifests C)"
      using replace_Inr [OF C, of k normalized n S] assms(6) y nid False by auto
    moreover have "set (list_manifests C) \<subseteq> insert x (set (list_manifests R))"
      using set_btree_insert_sub [of "pm_plugin_id x" x "pr_manifests R"] by (auto simp: list_manifests_def x(2))
    ultimately show ?thesis using False normalized(2) xn by blast
  qed
qed

text \<open>C40: a plugin with an unknown hook is refused only after it was installed, and then the gateway
  does not start. When, in a gateway whose hook bus builds, an installation fails because the bus
  cannot be rebuilt, the plugin is in the registry and its manifest in the active directory of the
  storage root, the bus is the one before, and a start with the default directories and the same
  policy, whatever else is on disk, reads this manifest and is refused.\<close>

theorem unknown_hook_blocks_start:
  assumes "plugin_run P" and "is_ok (build_hook_bus_from_registry (pe_policy env) (ps_registry P))"
    and "pe_bundle_root env = None"
    and "install_plugin env m P = (Inl (HookRefreshFailed e), Q)"
  shows "\<exists>plugin n. normalize_plugin_id (pm_plugin_id m) = Some plugin
    \<and> n \<in> set (list_manifests (ps_registry Q))
    \<and> map_of (ps_files Q (plugin_active_dir (join_path (pe_state_dir env) ''plugins'')))
        (active_manifest_file plugin) = Some n
    \<and> ps_hooks Q = ps_hooks P
    \<and> (\<exists>x. start_gateway [] (pe_state_dir env) (pe_policy env) (ps_files Q) = Inl x)"
  using assms(4)
proof (cases rule: install_cases)
  case (committed plugin m' candidate normalized)
  have P: "registry_run (ps_registry P)" by (rule plugin_run_registry [OF assms(1)])
  have root: "env_storage_root env = Inr (join_path (pe_state_dir env) ''plugins'')"
    by (simp add: assms(3))
  obtain v P1 where v: "materialize_plugin_bundle env normalized P = (v, P1)" by (meson surj_pair)
  then obtain k where k: "v = Inr k"
    using committed(5) materialize_refusal by (cases v) (auto simp: materialize_and_commit_def)
  obtain w S where w: "replace_manifest k candidate = (w, S)" by (meson surj_pair)
  then obtain n where n: "w = Inr n"
    using committed(5) v k by (cases w) (simp_all add: materialize_and_commit_def)
  have "commit_plugin env plugin n None S P1 = (Inl (HookRefreshFailed e), Q)"
    using committed(5) v k w n by (simp add: materialize_and_commit_def)
  note failed = commit_hook_failure [OF this root]
  have S: "registry_run S"
    by (rule registry_run.replace [OF registry_run.register [OF P committed(3)] w])
  have normal: "normal_form k = Inr n" "n \<in> set (list_manifests S)" using replaced_normal w n by simp_all
  have "normalize_identifier (pm_plugin_id m') = Some plugin"
    using committed(1,2) normalize_identifier_idem
    by (auto simp: admit_manifest_def normalize_plugin_id_eq Let_def split: if_splits)
  note members = installed_manifests [OF P committed(3,4) this v [unfolded k] w [unfolded n]]
  have blocks: "blocks_bus (pe_policy env) n"
    using failed(4) bus_builds_unless_blocked [OF S, of "pe_policy env"]
      bus_builds_unless_blocked [OF P, of "pe_policy env"] assms(2) members by auto
  have "\<exists>x. start_gateway [] (pe_state_dir env) (pe_policy env) (ps_files Q) = Inl x"
    unfolding start_gateway_def
    by (rule blocked_start [OF default_start_reads [OF failed(3)] normal_form_idem [OF normal(1)] blocks])
  then show ?thesis
    using committed(1) failed(1,2,3) materialize_state [OF v] normal(2)
    by (auto simp: persist_plugin_manifest_def)
qed simp

subsection \<open>A fresh gateway\<close>

definition open_env :: plugin_env where
  "open_env = \<lparr>pe_authorized = True,
     pe_policy = \<lparr>es_plugin_allowlist_enabled = False, es_allowed_plugin_ids = {},
       es_reserved_skill_ids = {}, es_reserved_skill_prefixes = []\<rparr>,
     pe_state_dir = ''/s'', pe_bundle_root = None, pe_daemon_allowlist = [],
     pe_bundle = (\<lambda>plugin version path digest. Some (''s'', ''p'')), pe_bundle_persists = True,
     pe_manifest_persists = True, pe_pointer_persists = True, pe_now = 1\<rparr>"

definition fresh_gateway :: plugin_state where
  "fresh_gateway = \<lparr>ps_registry = new_plugin_registry, ps_hooks = [], ps_files = (\<lambda>_. []),
     ps_pointers = Map.empty, ps_bundles = Map.empty\<rparr>"

lemma fresh_run: "plugin_run fresh_gateway"
  by (rule plugin_run.started [of "[]"]) (simp add: load_manifests_def fresh_gateway_def)

lemma registered_manifest: "registered R m = Inr S \<longleftrightarrow> register_manifest m R = (Inr (), S)"
  by (auto simp: registered_def split: prod.split sum.split)

lemma plain_version: "normalize_plugin_version ''1'' = Some ''1''"
  by (simp add: normalize_plugin_version_def Let_def identifier_char_def is_ascii_digit_def
      to_ascii_lowercase_def is_ascii_uppercase_def reserved_versions_def sublist_def append_eq_Cons_conv)

lemma plain_materialized:
  "materialized_manifest q ''1'' ''s'' ''p'' (plain_manifest q ts hs) = plain_manifest q ts hs"
  by (simp add: materialized_manifest_def plain_manifest_def)

lemma plain_copied:
  assumes "normalize_identifier q = Some q"
  obtains P1 where "materialize_plugin_bundle open_env (plain_manifest q ts hs) P
    = (Inr (plain_manifest q ts hs), P1)"
proof -
  have "pm_plugin_version (plain_manifest q ts hs) = ''1''" by (simp add: plain_manifest_def)
  then have "materialize_plugin_bundle open_env (plain_manifest q ts hs) P
      = (Inr (plain_manifest q ts hs), P\<lparr>ps_bundles := (ps_bundles P)((q, ''1'') \<mapsto> plain_manifest q ts hs)\<rparr>)"
    using assms plain_version plain_materialized [of q ts hs]
    by (simp add: materialize_plugin_bundle_def open_env_def normalize_plugin_id_eq plain_names)
  then show thesis by (rule that)
qed

text \<open>The installation of a plain manifest up to its commit.\<close>

lemma plain_install:
  assumes "normalize_identifier plugin = Some q"
    and "map normalize_identifier tools = map Some ts" and "distinct ts"
    and "map normalize_identifier hooks = map Some hs" and "distinct hs"
    and "set tools \<inter> set RESERVED_CORE_TOOL_NAMES = {}"
  obtains R P where "registry_run R" and "set (list_manifests R) = {plain_manifest q ts hs}"
    and "install_plugin open_env (plain_manifest plugin tools hooks) fresh_gateway
      = commit_plugin open_env q (plain_manifest q ts hs) None R P"
proof -
  let ?m = "plain_manifest q tools hooks" and ?n = "plain_manifest q ts hs"
  have q: "normalize_identifier q = Some q" by (rule normalize_identifier_idem [OF assms(1)])
  have normal: "normal_form ?m = Inr ?n" by (rule plain_normal [OF q assms(2-5)])
  obtain R where R: "load_manifests [?m] = Inr R" "set (list_manifests R) = set [?n]"
    by (rule load_ok [of "[?m]" "[?n]"]) (simp_all add: normal)
  then have register: "register_manifest ?m new_plugin_registry = (Inr (), R)"
    by (simp add: load_manifests_def registered_manifest)
  have run: "registry_run R" by (rule registry_run.load [OF R(1)])
  have get: "get_manifest q R = Some ?n"
    using q stored_manifest [OF registry_run_consistent [OF run]] R(2)
    by (simp add: get_manifest_def plain_names)
  have again: "replace_manifest ?n R = (Inr ?n, R)"
    using replace_Inr [OF run, of ?n ?n ?n R] get normal_form_idem [OF normal] run R(2)
    by (simp add: plain_names)
  have admit: "admit_manifest open_env q (plain_manifest plugin tools hooks) = Inr ?m"
  proof -
    have "names Tool ?m = set tools" by (rule plain_names)
    then have "ensure_plugin_tool_names_do_not_collide ?m = Inr ()"
      using assms(6) by (simp add: no_collision_iff)
    moreover have "(plain_manifest plugin tools hooks)\<lparr>pm_plugin_id := q\<rparr> = ?m"
      by (simp add: plain_manifest_def)
    moreover have "ensure_daemon_allowlist [] ?m = Inr ()"
      by (simp add: ensure_daemon_allowlist_def plain_manifest_def)
    ultimately show ?thesis
      by (simp add: admit_manifest_def open_env_def plugin_allowed_def Let_def)
  qed
  obtain P where copied: "materialize_plugin_bundle open_env ?n fresh_gateway = (Inr ?n, P)"
    by (rule plain_copied [OF q])
  have "pm_schema_version (plain_manifest plugin tools hooks) = PLUGIN_MANIFEST_SCHEMA_VERSION_V2"
      "pm_plugin_id (plain_manifest plugin tools hooks) = plugin"
    by (simp_all add: plain_manifest_def)
  moreover have "ps_registry fresh_gateway = new_plugin_registry" "get_manifest q new_plugin_registry = None"
    using q by (simp_all add: fresh_gateway_def get_manifest_def new_plugin_registry_def)
  ultimately have "install_plugin open_env (plain_manifest plugin tools hooks) fresh_gateway
      = commit_plugin open_env q ?n None R P"
    using assms(1) admit register get copied again
    by (simp add: install_plugin_def normalize_plugin_id_eq materialize_and_commit_def)
  then show thesis using that run R(2) by simp
qed

lemma sample_names:
  "normalize_identifier ''Exec'' = Some ''exec''" "normalize_identifier ''exec'' = Some ''exec''"
proof -
  have "char_of (101 :: nat) = CHR ''e''" by code_simp
  then show "normalize_identifier ''Exec'' = Some ''exec''" "normalize_identifier ''exec'' = Some ''exec''"
    by (simp_all add: normalize_identifier_def trim_visible visible_def to_ascii_lowercase_def
        identifier_char_def is_ascii_uppercase_def is_ascii_lowercase_def)
qed

lemma one_manifest:
  assumes "registry_run R" and "set (list_manifests R) = {m}"
  shows "list_manifests R = [m]"
proof -
  have d: "distinct (list_manifests R)"
    using manifests_compatible [OF registry_run_consistent [OF assms(1)]]
    by (simp add: sorted_wrt_compatible)
  then have "length (list_manifests R) = 1"
    using assms(2) by (simp flip: distinct_card)
  then show ?thesis using assms(2) by (auto simp: length_Suc_conv)
qed

text \<open>C39: an installation takes a reserved tool name when it is written in capital letters. The check
  of the handler sees the name as it was sent, the registry binds its normal form, and nothing checks
  again: a plugin with the tool \<open>Exec\<close> is installed, and owns the core tool's name.\<close>

theorem install_takes_reserved_name:
  "\<exists>env m n Q. install_plugin env m fresh_gateway = (Inr n, Q)
     \<and> ''exec'' \<in> set RESERVED_CORE_TOOL_NAMES
     \<and> capability_owner Tool ''exec'' (ps_registry Q) = Some (pm_plugin_id n)"
proof -
  obtain R P where R: "registry_run R" "set (list_manifests R) = {plain_manifest ''a'' [''exec''] []}"
    and install: "install_plugin open_env (plain_manifest ''a'' [''Exec''] []) fresh_gateway
      = commit_plugin open_env ''a'' (plain_manifest ''a'' [''exec''] []) None R P"
    by (rule plain_install [of "''a''" "''a''" "[''Exec'']" "[''exec'']" "[]" "[]"])
       (simp_all add: sample_names RESERVED_CORE_TOOL_NAMES_def)
  let ?n = "plain_manifest ''a'' [''exec''] []"
  have "pc_hooks (pm_capabilities ?n) = []" by (simp add: plain_manifest_def)
  then have "build_hook_bus_from_registry policy R = Inr ([], [])" for policy
    using one_manifest [OF R] by (simp add: build_hook_bus_from_registry_def manifest_step_def)
  then obtain Q where Q: "commit_plugin open_env ''a'' ?n None R P = (Inr ?n, Q)" "ps_registry Q = R"
    by (simp add: commit_plugin_def open_env_def Let_def)
  have "capability_owner Tool ''exec'' R = Some (pm_plugin_id ?n)"
    unfolding capability_owner_iff [OF R(1)] R(2)
    by (simp add: sample_names plain_manifest_def plain_capability_def)
  moreover have "install_plugin open_env (plain_manifest ''a'' [''Exec''] []) fresh_gateway = (Inr ?n, Q)"
    using install Q(1) by simp
  moreover have "''exec'' \<in> set RESERVED_CORE_TOOL_NAMES" by (simp add: RESERVED_CORE_TOOL_NAMES_def)
  ultimately show ?thesis using Q(2) by blast
qed

subsection \<open>Witnesses\<close>

theorem capability_owner_exact_witness:
  "\<exists>P. plugin_run P \<and> capability_owner Tool ''u'' (ps_registry P) = Some ''b''"
proof -
  obtain R where R: "load_manifests [plain_manifest ''a'' [''t''] [], plain_manifest ''B'' [''u''] []] = Inr R"
    and m: "set (list_manifests R) = {plain_manifest ''a'' [''t''] [], plain_manifest ''b'' [''u''] []}"
    by (rule sample_registry)
  let ?P = "fresh_gateway\<lparr>ps_registry := R\<rparr>"
  have run: "plugin_run ?P" using plugin_run.started [of _ ?P] R by simp
  have "set (list_manifests (ps_registry ?P)) = {plain_manifest ''a'' [''t''] [], plain_manifest ''b'' [''u''] []}"
    using m by simp
  then have "capability_owner Tool ''u'' (ps_registry ?P) = Some ''b''"
    unfolding capability_owner_exact [OF run] by (simp add: plain_manifest_def plain_capability_def)
  then show ?thesis using run by blast
qed

theorem unknown_hook_blocks_start_witness:
  "\<exists>Q. install_plugin open_env (plain_manifest ''a'' [] [''t'']) fresh_gateway
      = (Inl (HookRefreshFailed (UnsupportedHookCapability ''t'')), Q)
    \<and> (\<exists>x. start_gateway [] ''/s'' (pe_policy open_env) (ps_files Q) = Inl x)"
proof -
  let ?n = "plain_manifest ''a'' [] [''t'']"
  obtain R P where R: "registry_run R" "set (list_manifests R) = {?n}"
    and install: "install_plugin open_env ?n fresh_gateway = commit_plugin open_env ''a'' ?n None R P"
    by (rule plain_install [of "''a''" "''a''" "[]" "[]" "[''t'']" "[''t'']"]) simp_all
  have "build_hook_bus_from_registry (pe_policy open_env) R = Inl (UnsupportedHookCapability ''t'')"
    using one_manifest [OF R]
    by (simp add: build_hook_bus_from_registry_def manifest_step_def hook_step_def plain_manifest_def
        plain_capability_def open_env_def plugin_allowed_def hook_point_from_capability_name_def
        hook_point_names_def)
  then obtain Q where Q: "install_plugin open_env ?n fresh_gateway
      = (Inl (HookRefreshFailed (UnsupportedHookCapability ''t'')), Q)"
    unfolding install by (simp add: commit_plugin_def open_env_def Let_def)
  have "is_ok (build_hook_bus_from_registry (pe_policy open_env) (ps_registry fresh_gateway))"
    by (simp add: build_hook_bus_from_registry_def fresh_gateway_def new_plugin_registry_def list_manifests_def)
  moreover have "pe_bundle_root open_env = None" "pe_state_dir open_env = ''/s''" by (simp_all add: open_env_def)
  ultimately show ?thesis
    using unknown_hook_blocks_start [OF fresh_run _ _ Q] Q by auto
qed

theorem hook_bus_builds_iff_witness:
  "\<exists>R. registry_run R \<and> list_manifests R = [plain_manifest ''a'' [] [''t'']]
     \<and> \<not> is_ok (build_hook_bus_from_registry (pe_policy open_env) R)"
proof -
  let ?n = "plain_manifest ''a'' [] [''t'']"
  obtain R P where R: "registry_run R" "set (list_manifests R) = {?n}"
    by (rule plain_install [of "''a''" "''a''" "[]" "[]" "[''t'']" "[''t'']"]) simp_all
  have "\<not> is_ok (build_hook_bus_from_registry (pe_policy open_env) R)"
    using hook_bus_builds_iff [OF R(1), of "pe_policy open_env"] R(2)
    by (simp add: plain_manifest_def plain_capability_def open_env_def plugin_allowed_def
        hook_point_names_def)
  then show ?thesis using R one_manifest [OF R] by blast
qed

text \<open>An update of an installed plugin.\<close>

theorem update_refuses_reserved_witness:
  "\<exists>P n Q. plugin_run P
     \<and> update_plugin open_env ''A'' (plain_manifest ''a'' [''t''] []) P = (Inr n, Q)
     \<and> capability_owner Tool ''exec'' (ps_registry Q) \<noteq> Some (pm_plugin_id n)"
proof -
  let ?n = "plain_manifest ''a'' [''t''] []"
  have "char_of (97 :: nat) = CHR ''a''" by code_simp
  then have a: "normalize_plugin_id ''A'' = Some ''a''"
    by (simp add: normalize_plugin_id_def trim_visible visible_def to_ascii_lowercase_def
        identifier_char_def is_ascii_uppercase_def is_ascii_lowercase_def)
  have normal: "normal_form ?n = Inr ?n" by (rule plain_normal; simp)
  obtain R where R: "load_manifests [?n] = Inr R" "set (list_manifests R) = set [?n]"
    by (rule load_ok [of "[?n]" "[?n]"]) (simp_all add: normal)
  have run: "registry_run R" by (rule registry_run.load [OF R(1)])
  have list: "list_manifests R = [?n]" using one_manifest [OF run] R(2) by simp
  have get: "get_manifest ''a'' R = Some ?n"
    using stored_manifest [OF registry_run_consistent [OF run]] R(2)
    by (simp add: get_manifest_def plain_names)
  have again: "replace_manifest ?n R = (Inr ?n, R)"
    using replace_Inr [OF run, of ?n ?n ?n R] get normal run R(2) by (simp add: plain_names)
  let ?P = "fresh_gateway\<lparr>ps_registry := R\<rparr>"
  have "normalize_plugin_id (pm_plugin_id ?n) = Some ''a''"
    by (simp add: normalize_plugin_id_eq plain_names)
  moreover have "pm_schema_version ?n = PLUGIN_MANIFEST_SCHEMA_VERSION_V2" "?n\<lparr>pm_plugin_id := ''a''\<rparr> = ?n"
    by (simp_all add: plain_manifest_def)
  moreover have tools: "ensure_plugin_tool_names_do_not_collide ?n = Inr ()"
    unfolding no_collision_iff plain_names by (simp add: RESERVED_CORE_TOOL_NAMES_def)
  moreover have daemon: "ensure_daemon_allowlist [] ?n = Inr ()"
    by (simp add: ensure_daemon_allowlist_def plain_manifest_def)
  moreover have "admit_manifest open_env ''a'' ?n = Inr ?n"
    using tools daemon \<open>?n\<lparr>pm_plugin_id := ''a''\<rparr> = ?n\<close>
    by (simp add: admit_manifest_def open_env_def plugin_allowed_def Let_def)
  moreover obtain P1 where "materialize_plugin_bundle open_env ?n ?P = (Inr ?n, P1)"
    by (rule plain_copied [OF short_identifiers(1)])
  ultimately have "update_plugin open_env ''A'' ?n ?P
      = commit_plugin open_env ''a'' ?n (Some (pm_plugin_version ?n)) R P1"
    using a get again
    by (simp add: update_plugin_def materialize_and_commit_def open_env_def)
  moreover have "pc_hooks (pm_capabilities ?n) = []" by (simp add: plain_manifest_def)
  then have "build_hook_bus_from_registry policy R = Inr ([], [])" for policy
    using list by (simp add: build_hook_bus_from_registry_def manifest_step_def)
  ultimately obtain Q where Q: "update_plugin open_env ''A'' ?n ?P = (Inr ?n, Q)"
    by (simp add: commit_plugin_def open_env_def Let_def)
  have P: "plugin_run ?P" by (rule plugin_run.started [of "[?n]"]) (simp add: R(1))
  have "''exec'' \<in> set RESERVED_CORE_TOOL_NAMES" by (simp add: RESERVED_CORE_TOOL_NAMES_def)
  from update_refuses_reserved [OF P Q this] show ?thesis using P Q by blast
qed

end
