(* ===== verification/Skills.thy ===== *)
theory Skills
  imports Plugins
begin

text \<open>
  The skill registry of \<^verbatim>\<open>crates/carsinos-core/src/lib.rs\<close>: registration, switching skills
  on and off, and the selection of the skills that a message asks for with \<open>@skill:\<close>, within a number
  of skills and a number of characters. Reading the directories is left out.
\<close>

record SkillDocument =
  sk_skill_id :: string
  sk_title :: string
  sk_source_path :: string
  sk_enabled :: bool
  sk_content :: string

datatype SkillError =
    InvalidSkillId | SkillAlreadyLoaded string | EmptySkillTitle | EmptySkillContent
  | SkillNotFound string

type_synonym skill_registry = "SkillDocument btree"

definition register_skill :: "skill_registry \<Rightarrow> SkillDocument \<Rightarrow> SkillError + skill_registry" where
  "register_skill R skill =
     rbind (of_option InvalidSkillId (normalize_identifier (sk_skill_id skill))) (\<lambda>skill_id.
       if map_of R skill_id \<noteq> None then Inl (SkillAlreadyLoaded skill_id)
       else if blank (sk_title skill) then Inl EmptySkillTitle
       else if blank (sk_content skill) then Inl EmptySkillContent
       else Inr (btree_insert skill_id (skill\<lparr>sk_skill_id := skill_id,
         sk_title := trim (sk_title skill), sk_content := trim (sk_content skill)\<rparr>) R))"

definition set_enabled ::
    "string \<Rightarrow> bool \<Rightarrow> skill_registry \<Rightarrow> SkillError + SkillDocument \<times> skill_registry" where
  "set_enabled skill_id enabled R =
     rbind (of_option InvalidSkillId (normalize_identifier skill_id)) (\<lambda>normalized.
     rbind (of_option (SkillNotFound normalized) (map_of R normalized)) (\<lambda>entry.
       let e = entry\<lparr>sk_enabled := enabled\<rparr> in Inr (e, btree_insert normalized e R)))"

definition override_step :: "skill_registry \<Rightarrow> string \<times> bool \<Rightarrow> skill_registry" where
  "override_step R = (\<lambda>(skill_id, enabled). case normalize_identifier skill_id of
       None \<Rightarrow> R
     | Some normalized \<Rightarrow> (case map_of R normalized of
         None \<Rightarrow> R
       | Some entry \<Rightarrow> btree_insert normalized (entry\<lparr>sk_enabled := enabled\<rparr>) R))"

definition apply_enabled_overrides :: "bool btree \<Rightarrow> skill_registry \<Rightarrow> skill_registry" where
  "apply_enabled_overrides overrides R = foldl override_step R overrides"

definition get_skill :: "string \<Rightarrow> skill_registry \<Rightarrow> SkillDocument option" where
  "get_skill skill_id R = Option.bind (normalize_identifier skill_id) (map_of R)"

subsection \<open>What a message asks for\<close>

text \<open>\<open>str::split_whitespace\<close>: the text before the next whitespace, again and again.\<close>

fun next_token :: "string \<Rightarrow> string \<times> string" where
  "next_token [] = ([], [])"
| "next_token (c # s) =
     (if list_ex (\<lambda>w. prefix w (c # s)) whitespace then ([], c # s)
      else (let (t, r) = next_token s in (c # t, r)))"

lemma next_token_append: "next_token s = (t, r) \<Longrightarrow> s = t @ r"
  by (induction s arbitrary: t r) (auto simp: Let_def split: if_splits prod.splits)

lemma whitespace_nonempty: "w \<in> set whitespace \<Longrightarrow> w \<noteq> []"
  by (auto simp: whitespace_def)

lemma next_token_shorter:
  assumes "trim_start s \<noteq> []" and "next_token (trim_start s) = (t, r)"
  shows "length r < length s"
proof -
  obtain c u where cu: "trim_start s = c # u" using assms(1) by (cases "trim_start s") auto
  have "\<not> strips whitespace (c # u)"
    using strip_seqs_done [of whitespace s] cu by (simp add: trim_start_def)
  then have "\<not> list_ex (\<lambda>w. prefix w (c # u)) whitespace"
    using whitespace_nonempty by (auto simp: strips_def list_ex_iff)
  then have "t \<noteq> []" using assms(2) cu by (auto simp: Let_def split: prod.splits)
  then have "length r < length (trim_start s)" using next_token_append [OF assms(2)] by simp
  also have "\<dots> \<le> length s"
    using strip_seqs_suffix [of whitespace s] by (simp add: trim_start_def suffix_length_le)
  finally show ?thesis .
qed

function split_whitespace :: "string \<Rightarrow> string list" where
  "split_whitespace s =
     (if trim_start s = [] then []
      else (case next_token (trim_start s) of (t, r) \<Rightarrow> t # split_whitespace r))"
  by pat_completeness auto
termination
  by (relation "measure length") (auto intro: next_token_shorter [OF _ sym])

declare split_whitespace.simps [simp del]

text \<open>\<open>str::trim_matches\<close> with a test of characters.\<close>

definition trim_matches :: "(char \<Rightarrow> bool) \<Rightarrow> string \<Rightarrow> string" where
  "trim_matches p s = rev (dropWhile p (rev (dropWhile p s)))"

definition requested_id :: "string \<Rightarrow> string option" where
  "requested_id token = Option.bind (strip_prefix ''@skill:'' token)
     (\<lambda>rest. normalize_identifier (trim_matches (\<lambda>c. \<not> identifier_char c) rest))"

fun collect_ids :: "string list \<Rightarrow> string list \<Rightarrow> string list" where
  "collect_ids seen [] = []"
| "collect_ids seen (t # ts) =
     (case requested_id t of
        None \<Rightarrow> collect_ids seen ts
      | Some i \<Rightarrow> if i \<in> set seen then collect_ids seen ts else i # collect_ids (i # seen) ts)"

definition requested_skill_ids :: "string \<Rightarrow> string list" where
  "requested_skill_ids input = collect_ids [] (split_whitespace input)"

text \<open>\<open>usize::saturating_add\<close>.\<close>

definition usize_saturating_add :: "nat \<Rightarrow> nat \<Rightarrow> nat" where
  "usize_saturating_add a b = min (a + b) (2 ^ 64 - 1)"

fun select_skills ::
    "skill_registry \<Rightarrow> nat \<Rightarrow> nat \<Rightarrow> SkillDocument list \<Rightarrow> nat \<Rightarrow> string list \<Rightarrow> SkillDocument list" where
  "select_skills R max_skills max_chars selected used [] = selected"
| "select_skills R max_skills max_chars selected used (i # ids) =
     (if max_skills \<le> length selected then selected
      else case map_of R i of
        None \<Rightarrow> select_skills R max_skills max_chars selected used ids
      | Some skill \<Rightarrow>
          if \<not> sk_enabled skill then select_skills R max_skills max_chars selected used ids
          else if max_chars < usize_saturating_add used (length (sk_content skill)) then selected
          else select_skills R max_skills max_chars (selected @ [skill])
            (usize_saturating_add used (length (sk_content skill))) ids)"

definition resolve_for_input :: "skill_registry \<Rightarrow> string \<Rightarrow> nat \<Rightarrow> nat \<Rightarrow> SkillDocument list" where
  "resolve_for_input R input max_skills max_chars =
     (let ids = requested_skill_ids input
      in if ids = [] \<or> max_skills = 0 \<or> max_chars = 0 then []
         else select_skills R max_skills max_chars [] 0 ids)"

subsection \<open>The selection is the longest that fits\<close>

definition total_chars :: "SkillDocument list \<Rightarrow> nat" where
  "total_chars ss = sum_list (map (\<lambda>s. length (sk_content s)) ss)"

definition available :: "skill_registry \<Rightarrow> string list \<Rightarrow> SkillDocument list" where
  "available R ids = filter sk_enabled (List.map_filter (map_of R) ids)"

definition skills_ok :: "skill_registry \<Rightarrow> bool" where
  "skills_ok R \<longleftrightarrow> btree_ok R \<and> (\<forall>(i, s) \<in> set R. sk_skill_id s = i \<and> sk_content s \<noteq> [])"

inductive skill_run :: "skill_registry \<Rightarrow> bool" where
  new: "skill_run []"
| register: "skill_run R \<Longrightarrow> register_skill R skill = Inr S \<Longrightarrow> skill_run S"
| enable: "skill_run R \<Longrightarrow> set_enabled skill_id enabled R = Inr (e, S) \<Longrightarrow> skill_run S"
| override: "skill_run R \<Longrightarrow> skill_run (apply_enabled_overrides overrides R)"

lemma skills_ok_insert:
  assumes "skills_ok R" and "sk_skill_id s = i" and "sk_content s \<noteq> []"
  shows "skills_ok (btree_insert i s R)"
  using assms set_btree_insert_sub [of i s R] by (fastforce simp: skills_ok_def)

lemma skills_ok_entry: "skills_ok R \<Longrightarrow> map_of R i = Some s \<Longrightarrow> sk_skill_id s = i \<and> sk_content s \<noteq> []"
  by (auto simp: skills_ok_def dest!: map_of_SomeD)

lemma override_ok: "skills_ok R \<Longrightarrow> skills_ok (override_step R o1)"
  by (cases o1) (auto simp: override_step_def skills_ok_entry split: option.splits intro: skills_ok_insert)

lemma skill_run_ok: "skill_run R \<Longrightarrow> skills_ok R"
proof (induction rule: skill_run.induct)
  case new
  then show ?case by (simp add: skills_ok_def btree_ok_def)
next
  case (register R skill S)
  then show ?case
    by (auto simp: register_skill_def blank_def split: if_splits intro: skills_ok_insert)
next
  case (enable R skill_id enabled e S)
  then show ?case
    by (auto simp: set_enabled_def Let_def skills_ok_entry intro: skills_ok_insert)
next
  case (override R overrides)
  have "skills_ok T \<Longrightarrow> skills_ok (foldl override_step T overrides)" for T
    by (induction overrides arbitrary: T) (simp_all add: override_ok)
  then show ?case using override.IH by (simp add: apply_enabled_overrides_def)
qed

lemma available_simps [simp]:
  "available R [] = []"
  "available R (i # ids) = (case map_of R i of
     None \<Rightarrow> available R ids
   | Some s \<Rightarrow> if sk_enabled s then s # available R ids else available R ids)"
  by (simp_all add: available_def List.map_filter_simps split: option.split)

lemma total_chars_append [simp]: "total_chars (xs @ ys) = total_chars xs + total_chars ys"
  by (simp add: total_chars_def)

lemma total_chars_simps [simp]:
  "total_chars [] = 0" "total_chars (s # ss) = length (sk_content s) + total_chars ss"
  by (simp_all add: total_chars_def)

text \<open>What the loop adds to the skills it has selected.\<close>

lemma select_skills_longest:
  assumes "max_chars < 2 ^ 64 - 1" and "used = total_chars selected" and "used \<le> max_chars"
    and "length selected \<le> max_skills"
  shows "\<exists>new. select_skills R max_skills max_chars selected used ids = selected @ new
    \<and> prefix new (available R ids) \<and> length (selected @ new) \<le> max_skills
    \<and> total_chars (selected @ new) \<le> max_chars
    \<and> (new = available R ids \<or> length (selected @ new) = max_skills
      \<or> max_chars < total_chars (selected @ take (Suc (length new)) (available R ids)))"
  using assms(2-4)
proof (induction ids arbitrary: selected used)
  case (Cons i ids)
  have add: "usize_saturating_add used n = used + n" if "used + n \<le> max_chars" for n
    using that assms(1) by (simp add: usize_saturating_add_def)
  have exceeds: "max_chars < usize_saturating_add used n \<longleftrightarrow> max_chars < used + n" for n
    using assms(1) by (auto simp: usize_saturating_add_def)
  show ?case
  proof (cases "max_skills \<le> length selected")
    case True
    then show ?thesis using Cons.prems by (intro exI [of _ "[]"]) simp
  next
    case False
    note room = False
    show ?thesis
    proof (cases "\<exists>s. map_of R i = Some s \<and> sk_enabled s")
      case False
      then show ?thesis using room Cons.IH [OF Cons.prems] by (auto split: option.splits)
    next
      case True
      then obtain s where s: "map_of R i = Some s" "sk_enabled s" by blast
      show ?thesis
      proof (cases "max_chars < used + length (sk_content s)")
        case True
        then show ?thesis
          using room s Cons.prems exceeds by (intro exI [of _ "[]"]) simp
      next
        case False
        then have fits: "usize_saturating_add used (length (sk_content s)) = used + length (sk_content s)"
            "used + length (sk_content s) \<le> max_chars"
          using add by simp_all
        obtain new where new:
            "select_skills R max_skills max_chars (selected @ [s]) (used + length (sk_content s)) ids
              = (selected @ [s]) @ new"
            "prefix new (available R ids)" "length ((selected @ [s]) @ new) \<le> max_skills"
            "total_chars ((selected @ [s]) @ new) \<le> max_chars"
            "new = available R ids \<or> length ((selected @ [s]) @ new) = max_skills
              \<or> max_chars < total_chars ((selected @ [s]) @ take (Suc (length new)) (available R ids))"
          using Cons.IH [of "used + length (sk_content s)" "selected @ [s]"] Cons.prems fits(2) room
          by auto
        then show ?thesis
          using room s fits by (intro exI [of _ "s # new"]) auto
      qed
    qed
  qed
qed (use assms(4) in simp)

text \<open>The first occurrence of each item, in the order of the list.\<close>

definition first_occurrences :: "'a list \<Rightarrow> 'a list" where
  "first_occurrences xs = rev (remdups (rev xs))"

lemma remdups_snoc: "remdups (xs @ [x]) = filter (\<lambda>y. y \<noteq> x) (remdups xs) @ [x]"
  by (induction xs) auto

lemma first_occurrences_simps [simp]:
  "first_occurrences [] = []"
  "first_occurrences (x # xs) = x # filter (\<lambda>y. y \<noteq> x) (first_occurrences xs)"
  by (simp_all add: first_occurrences_def remdups_snoc rev_filter)

lemma collect_ids_first:
  "collect_ids seen ts = filter (\<lambda>i. i \<notin> set seen) (first_occurrences (List.map_filter requested_id ts))"
proof (induction seen ts rule: collect_ids.induct)
  case (2 seen t ts)
  then show ?case
    by (auto simp: List.map_filter_simps intro!: filter_cong split: option.splits)
qed (simp add: List.map_filter_simps)

lemma requested_in_order:
  "requested_skill_ids input = first_occurrences (List.map_filter requested_id (split_whitespace input))"
  by (simp add: requested_skill_ids_def collect_ids_first)

lemma tokens_in_order: "subseq (concat (split_whitespace s)) s"
proof (induction s rule: split_whitespace.induct)
  case (1 s)
  show ?case
  proof (cases "trim_start s = []")
    case False
    obtain t r where t: "next_token (trim_start s) = (t, r)" by fastforce
    have "subseq (concat (split_whitespace r)) r" using "1.IH" [OF False t [symmetric]] by simp
    then have "subseq (t @ concat (split_whitespace r)) (trim_start s)"
      using next_token_append [OF t] by (simp add: list_emb_append_mono)
    moreover have "suffix (trim_start s) s"
      using strip_seqs_suffix [of whitespace s] by (simp add: trim_start_def)
    then have "subseq (trim_start s) s" by (rule suffix_imp_subseq)
    ultimately have "subseq (t @ concat (split_whitespace r)) s" by (rule subseq_order.order_trans)
    then show ?thesis using False t by (simp add: split_whitespace.simps [of s])
  qed (simp add: split_whitespace.simps)
qed

lemma available_ids:
  assumes "skills_ok R"
  shows "map sk_skill_id (available R ids)
    = filter (\<lambda>i. case map_of R i of None \<Rightarrow> False | Some s \<Rightarrow> sk_enabled s) ids"
  using skills_ok_entry [OF assms] by (induction ids) (auto split: option.splits)

text \<open>C26: the skills added to a message are the longest run of those it asks for that fits. The words
  of the message, in its order, name skills; each counts where it is named first. The skills added
  are an initial part of those of them that are registered and enabled, each once; they are no more
  than the limit and together no longer than the budget; and the run stops only at the end, at the
  limit, or before a skill that would exceed the budget.\<close>

theorem skills_longest_run:
  assumes "skill_run R" and "max_chars < 2 ^ 64 - 1"
  shows "let words = split_whitespace input;
      asked = available R (first_occurrences (List.map_filter requested_id words));
      chosen = resolve_for_input R input max_skills max_chars
    in subseq (concat words) input \<and> prefix chosen asked \<and> distinct (map sk_skill_id asked)
       \<and> length chosen \<le> max_skills \<and> total_chars chosen \<le> max_chars
       \<and> (chosen = asked \<or> length chosen = max_skills
          \<or> max_chars < total_chars (take (Suc (length chosen)) asked))"
proof -
  let ?ids = "requested_skill_ids input" and ?chosen = "resolve_for_input R input max_skills max_chars"
  note R = skill_run_ok [OF assms(1)]
  have d: "distinct (map sk_skill_id (available R ?ids))"
    unfolding available_ids [OF R] requested_in_order by (simp add: first_occurrences_def)
  have content: "s \<in> set (available R ids) \<Longrightarrow> sk_content s \<noteq> []" for s ids
    using skills_ok_entry [OF R] by (auto simp: available_def List.map_filter_def)
  have "prefix ?chosen (available R ?ids) \<and> length ?chosen \<le> max_skills \<and> total_chars ?chosen \<le> max_chars
      \<and> (?chosen = available R ?ids \<or> length ?chosen = max_skills
        \<or> max_chars < total_chars (take (Suc (length ?chosen)) (available R ?ids)))"
  proof -
    consider "?ids = []" | "max_skills = 0" | "max_chars = 0" | "?ids \<noteq> []" "0 < max_skills" "0 < max_chars"
      by auto
    then show ?thesis
    proof cases
      case 3
      have "available R ?ids = [] \<or> 0 < total_chars (take 1 (available R ?ids))"
        using content [of "hd (available R ?ids)" ?ids] by (cases "available R ?ids") simp_all
      then show ?thesis using 3 by (auto simp: resolve_for_input_def Let_def)
    next
      case 4
      then have "?chosen = select_skills R max_skills max_chars [] 0 ?ids"
        by (simp add: resolve_for_input_def Let_def)
      then show ?thesis
        using select_skills_longest [OF assms(2), of 0 "[]" max_skills R ?ids] by auto
    qed (simp_all add: resolve_for_input_def Let_def)
  qed
  then show ?thesis using d tokens_in_order by (simp add: Let_def requested_in_order)
qed

definition sample_skill :: SkillDocument where
  "sample_skill = \<lparr>sk_skill_id = ''a'', sk_title = ''t'', sk_source_path = ''p'', sk_enabled = True,
     sk_content = ''text''\<rparr>"

lemma sample_skill_run: "skill_run [(''a'', sample_skill)]"
proof (rule skill_run.register [OF skill_run.new])
  have "trim ''t'' = ''t''" "trim ''text'' = ''text''" "trim ''a'' = ''a''"
    by (simp_all add: trim_visible visible_def)
  then show "register_skill [] sample_skill = Inr [(''a'', sample_skill)]"
    by (simp add: register_skill_def sample_skill_def blank_def normalize_identifier_def
        to_ascii_lowercase_def identifier_char_def is_ascii_lowercase_def is_ascii_uppercase_def)
qed

lemma next_token_visible: "list_all visible s \<Longrightarrow> next_token s = (s, [])"
proof (induction s)
  case (Cons c s)
  then have "\<not> strips whitespace (c # s)"
    using whitespace_invisible by (intro strips_visible_hd) auto
  then have "\<not> list_ex (\<lambda>w. prefix w (c # s)) whitespace"
    using whitespace_nonempty by (auto simp: strips_def list_ex_iff)
  then show ?case using Cons by simp
qed simp

lemma sample_request: "requested_skill_ids ''@skill:a'' = [''a'']"
proof -
  have v: "list_all visible ''@skill:a''" by (simp add: visible_def)
  have start: "trim_start ''@skill:a'' = ''@skill:a''"
    using trim_start_trim [of "''@skill:a''"] trim_visible [OF v] by simp
  have token: "next_token ''@skill:a'' = (''@skill:a'', [])"
    by (rule next_token_visible [OF v])
  have "trim_start [] = []" using trim_start_trim [of "[]"] by simp
  then have "split_whitespace ''@skill:a'' = [''@skill:a'']"
    by (subst split_whitespace.simps) (simp add: start token split_whitespace.simps [of "[]"] del: next_token.simps)
  moreover have "requested_id ''@skill:a'' = Some ''a''"
    by (simp add: requested_id_def strip_prefix_def trim_matches_def normalize_identifier_def
        trim_visible visible_def to_ascii_lowercase_def identifier_char_def is_ascii_lowercase_def
        is_ascii_uppercase_def)
  ultimately show ?thesis by (simp add: requested_skill_ids_def)
qed

theorem skills_longest_run_witness:
  "resolve_for_input [(''a'', sample_skill)] ''@skill:a'' 1 4 = [sample_skill]
   \<and> resolve_for_input [(''a'', sample_skill)] ''@skill:a'' 1 3 = []"
proof -
  have asked: "available [(''a'', sample_skill)] (requested_skill_ids ''@skill:a'') = [sample_skill]"
    by (simp add: sample_request sample_skill_def)
  have size: "total_chars [sample_skill] = 4" by (simp add: sample_skill_def)
  have "resolve_for_input [(''a'', sample_skill)] ''@skill:a'' 1 4 = [sample_skill]"
    using skills_longest_run [OF sample_skill_run, of 4 "''@skill:a''" 1] size
    unfolding Let_def requested_in_order [symmetric] asked by (auto simp: prefix_Cons)
  moreover have "resolve_for_input [(''a'', sample_skill)] ''@skill:a'' 1 3 = []"
    using skills_longest_run [OF sample_skill_run, of 3 "''@skill:a''" 1] size
    unfolding Let_def requested_in_order [symmetric] asked by (auto simp: prefix_Cons)
  ultimately show ?thesis ..
qed

end
