(* ===== verification/Spec2Isabelle.thy ===== *)
theory Spec2Isabelle
  imports Recovery Actor ManifestCeiling Authority Quota Danger JournalScan ReconcileRace
    GatewaySafety PluginInstallRuns Skills
begin

text \<open>
  \<^bold>\<open>CarsinOS: the execution-assistant core and its runtime host.\<close>

  CarsinOS runs delegated work for an owner. A request is attributed to an actor, the plan is
  compiled to a manifest of frozen leaf actions, every leaf is checked for danger, for authority
  and for quota, one leaf is executed at most once by the effect recorder, and a recovery planner
  decides what happens after a failure. All of it runs in one process at a time, the runtime host of
  the state root: a host is activated over its predecessor, is fenced from then on by its lease, and
  is closed through an authenticated control channel; it carries the plugins, hooks and skills that
  extend the assistant. This library models that core, its host and the extensions as they are
  written in Rust.
  Each part of the code is one theory, its structs are records, its enums datatypes with the
  source's constructors, and every fallible function returns \<open>error + value\<close>.

  \<^bold>\<open>Theories and the code they model\<close>

  \<^item> \<open>Prelude\<close>: result and option combinators (\<open>rbind\<close> is \<open>?\<close>, \<open>rmap\<close> a fallible
    \<open>collect\<close>, \<open>rfold\<close> a loop with early return), ASCII and trimming functions of Rust's
    standard library, saturating \<open>i64\<close> arithmetic, big-endian bytes, hexadecimal text.
  \<^item> \<open>Externals\<close>: SHA-256, Unicode NFC and \<open>serde_json\<close>, the code that is not in the
    repository, as one record of functions that every definition using them takes as argument.
    Properties that need a fact of them name it as a hypothesis (\<open>no_collision\<close> for two inputs,
    \<open>rejects_blank\<close>, \<open>json_text_faithful\<close>); \<open>raw_externals\<close> and its variants
    discharge them in the witnesses. \<open>JsonCodec\<close> gives an instance with a JSON printer and a
    reader for it, so that hypotheses about parsing what was printed can be met.
  \<^item> \<open>Framing\<close>: the length-prefixed byte frames that digests and signatures are computed over,
    as the locales \<open>byte_framing\<close> and \<open>optional_framing\<close>: frames can be cancelled, so a
    sequence of frames determines its fields. Interpreted on the encoders of \<open>Actor\<close> and
    \<open>Danger\<close>.
  \<^item> \<open>Registration\<close>: the locale \<open>unique_loop\<close> of the validation loops that reject duplicates,
    interpreted on the two loops of \<open>Quota\<close>.
  \<^item> \<open>Actor\<close> (\<open>crates/carsinos-core/src/execass_actor.rs\<close>): server ingress observations, actor
    assurance, owner authority sources and their binding to a provenance identifier, decision
    resolution.
  \<^item> \<open>ManifestData\<close>, \<open>Manifest\<close>, \<open>ManifestRebind\<close>
    (\<open>crates/carsinos-core/src/execass_manifest.rs\<close>): canonical values and their frozen text;
    the resolution registry and the compiler of a dispatch tree to a leaf manifest; restoring a
    persisted manifest and rebinding it to a routine occurrence. \<open>ManifestCeiling\<close>: a dispatch
    within the compiler's limits whose text is longer than what the rebinding reads.
  \<^item> \<open>OperationalProfile\<close>, \<open>Authority\<close>, \<open>Quota\<close> (\<open>crates/carsinos-core/src/execass_policy.rs\<close>):
    operational profiles and first-run admission; authority evaluation and the technical validity
    of a frozen leaf; technical quota snapshots and resource requirements. \<open>obstacle\<close> and
    \<open>precedence\<close> state what stands in the way of an action, and in which order it is reported,
    apart from the evaluator.
  \<^item> \<open>Danger\<close> (\<open>crates/carsinos-core/src/execass_danger.rs\<close>): danger routing, the admission proof of
    a manifest and its signing bytes.
  \<^item> \<open>RecorderProtocol\<close> (\<open>crates/carsinos-protocol/src/execass_recorder.rs\<close>, \<open>hex_decode\<close> of
    \<open>crates/carsinos-effect-recorder/src/lib.rs\<close> and \<open>auth.rs\<close>): requests, replies and signed
    observations, their derived JSON, validation, canonical bytes, frames and authentication.
  \<^item> \<open>JournalData\<close>, \<open>Journal\<close> (\<open>crates/carsinos-effect-recorder/src/journal.rs\<close>): the record of
    the append-only file and its parser; the operations on the journal, the file being a list of
    bytes, an append a step with one of the outcomes \<open>append_io\<close> (durable, stopped after some
    bytes, flush failed), and opening a scan that recurses on the remaining bytes.
  \<^item> \<open>JournalSafety\<close>: what a scan restores: a file of sealed records, with or without a torn
    tail, opens to the state the appends left.
  \<^item> \<open>ExecuteOnce\<close>, \<open>ExecuteOnceWitness\<close>: the life cycle of an attempt over runs of journal
    operations with crashes and restarts, and concrete runs of it. The cryptography is the
    environment \<open>env\<close>; \<open>sound_env\<close> says that a signature made with the journal's key verifies
    and that the parser returns the record that was printed.
  \<^item> \<open>JournalScan\<close>: the scan as the loop of the code, one iteration at a time over the bytes and an
    offset: it ends on every file within one iteration for each 36 bytes and one more.
  \<^item> \<open>ExactOverwrite\<close>, \<open>OverwriteSafety\<close> (\<open>exact_overwrite.rs\<close> of the recorder, with the outcome
    records of \<open>executor.rs\<close>): material, validation and the overwrite of one file. A file system
    is what \<open>std::fs\<close> answers (\<open>fs_canonical\<close> for \<open>canonicalize\<close>, entries, contents), a write one
    of the outcomes \<open>overwrite_io\<close>. \<open>canonical_directories\<close> says that \<open>canonicalize\<close> returns
    absolute, canonical paths. An invocation does what was built, and what it reports is true.
  \<^item> \<open>StateVerifier\<close> (\<open>state_verifier.rs\<close>): the recorder's reading of the database. A table is the
    list of its rows with the columns the queries name, nullable columns are options, and what
    SQLite gives one call is a \<open>snapshot\<close>: the tables or the error of opening or querying.
  \<^item> \<open>Custody\<close> (\<open>custody.rs\<close>): the two records of a root in the keyring of the operating system, and
    what a client reads of them; \<open>derives_keys\<close> says that derived verifying keys are valid and of
    32 bytes.
  \<^item> \<open>RecorderService\<close> (\<open>service.rs\<close>, \<open>executor.rs\<close>): handshake and requests. \<open>ExecuteOnce\<close> is two
    steps on the journal, \<open>execute_admit\<close> and \<open>execute_finish\<close>, because the code releases the
    journal's lock between them to invoke the provider.
  \<^item> \<open>RecorderIpc\<close> (\<open>ipc/mod.rs\<close>): the session of a client and the recorder on a stream, the
    deserializers of the four messages and Ed25519's strict verification being arguments.
  \<^item> \<open>ServiceSafety\<close>: every reply is a record of the journal about what was asked for, attested by
    the recorder's key. \<open>replied\<close> is a reply with whatever happens between the critical sections of
    its request. The client that pinned the recorder (\<open>pinned\<close>) accepts it exactly when it is of
    the request's root and user (\<open>reply_same_root\<close>), which no check of the service enforces on
    replayed observations; a session runs to its end when the journal's records of the attempt are
    of that root and user (\<open>one_root\<close>).
  \<^item> \<open>RecorderRuns\<close>: the service as a state machine, \<open>service_run\<close>: critical sections of requests in
    any order, invocations between them, files changed by others, crashes inside an append,
    restarts; the invariant by rule induction, and at most one invocation for each attempt.
  \<^item> \<open>ReconcileRace\<close>: a reconciliation between an admission and its invocation settles the attempt
    before its effect. \<open>ServiceWitness\<close>: a database, a command, a client and runs on which the
    hypotheses of these properties hold.
  \<^item> \<open>Recovery\<close> (\<open>crates/carsinos-core/src/execass_recovery.rs\<close>): the objective recovery planner.
  \<^item> \<open>ActiveWork\<close> (\<open>crates/carsinos-storage/src/execass/active_work.rs\<close>): the rows of unfinished
    work, their counts and the digest a close confirmation is bound to. The digest determines the
    rows (\<open>binding_digest_exact\<close>, on the framing locale); the counts are those of the rows.
  \<^item> \<open>RuntimeHost\<close> (\<open>runtime_host.rs\<close>, \<open>runtime_settings.rs\<close> and \<open>types.rs\<close> of the same
    directory): the tables of the host with the constraints that the writes meet, one function for
    each transaction (an error keeps the store, a commit returns it), activation, activation with
    recovery of an interrupted predecessor, lifecycle transitions, status and close snapshot. A
    recovery also writes an event, an attention item (checked as in \<open>lifecycle.rs\<close>) and a receipt;
    whether their tables take the rows is an answer in \<open>receipt_context\<close>, each refusal an error.
  \<^item> \<open>HostSafety\<close>: histories of committed transactions, \<open>host_run\<close>, with changes of the settings and
    of the work in between; the invariant \<open>store_ok\<close> by rule induction. Generations and fencing
    tokens increase, one lease is live, a superseded host is refused, and a recovery fails for
    nothing but its record keeping (\<open>keeping_refused\<close>). \<open>can_start\<close> and \<open>clocks_behind\<close> say that
    the identities of a host are fresh, the counters have room and no recorded clock is ahead.
    \<open>HostRuns\<close>: concrete histories, and the host's tables on the database that the recorder reads
    (\<open>shares_host_tables\<close>): the recorder signs for the current host and for no earlier one.
  \<^item> \<open>RuntimeControl\<close> (\<open>crates/carsinos-runtime-control/src/lib.rs\<close>): the messages of the control
    channel with their JSON, keys and MACs, the clock window and the replay guard, one connection of
    the server with its handler, and the client. HMAC, clock, random bytes and the derived parsers
    are arguments; an array of 32 random bytes is any list of that length.
  \<^item> \<open>ControlSafety\<close>: what reaches the handler was signed by the owner, in time and once, as long as
    clocks and lock agree in their order; when they do not, a replay is accepted
    (\<open>replay_accepted_in_race\<close>); an exchange between parties that share scope and secret succeeds,
    the server accepting the request and the client its answer (\<open>fits_frame\<close>: both fit a frame).
  \<^item> \<open>GatewayControl\<close>, \<open>GatewaySafety\<close> (\<open>crates/carsinos-gateway/src/runtime_control_host.rs\<close>):
    the gateway's handler and its runs, \<open>gateway_run\<close> over a log of events and replies: one
    shutdown outstanding, and over active work only what the client confirmed, row for row.
  \<^item> \<open>NormalizedLoop\<close>: the locale \<open>normalized_loop\<close> of the loops that normalize their items and
    refuse a key they have seen, interpreted on the capabilities of a manifest, and its extension
    \<open>ranked_loop\<close>, which keeps what it accepts in the order of a rank, interpreted on the hook bus.
  \<^item> \<open>Plugins\<close> (\<open>crates/carsinos-core/src/lib.rs\<close>): manifests, their normal form and the registry.
    A registration that fails leaves the bindings it has made, as the code does. \<open>PluginSafety\<close>:
    the invariant \<open>consistent\<close> over every history of successful loads, registrations and replacements
    (\<open>registry_run\<close>; the gateway discards the registry of one that failed, see \<open>plugin_run\<close>); owners
    are exactly the declarations, the order of manifests does not matter, a
    replacement changes one plugin. \<open>PluginWitness\<close>: plugins on which the hypotheses hold.
  \<^item> \<open>Hooks\<close> (the same file, and \<open>build_hook_bus_from_registry\<close> of
    \<open>crates/carsinos-gateway/src/main.rs\<close>): registrations by point, descending priority and
    identifier, an event and its results, a panic being one of the outcomes of a handler; the bus
    that the gateway builds from its plugins, and exactly when it can.
  \<^item> \<open>PluginInstall\<close>, \<open>PluginInstallSafety\<close>, \<open>PluginInstallRuns\<close>
    (\<open>crates/carsinos-gateway/src/main.rs\<close>): the handlers that install, update and roll back a
    plugin, over the registry, the bus and what is on disk, the answers of the environment being a
    record of arguments; their runs are \<open>plugin_run\<close>, over every outcome of the handlers. The
    manifests on disk are a map from directories to files by name (\<open>ps_files\<close>), and a start reads
    the directories that the configuration names or the default ones (\<open>start_gateway\<close>). A capability
    is owned exactly by the registered plugin that declares it. An update never takes a reserved tool
    name; an installation can, and one refused for its hooks is on disk and keeps the gateway from
    starting.
  \<^item> \<open>Skills\<close> (\<open>crates/carsinos-core/src/lib.rs\<close>): the skill registry and the skills that a message
    asks for, the longest run of them that fits.

  \<^bold>\<open>How the model corresponds to the code\<close>

  Strings are character lists of bytes (UTF-8 text is never inspected beyond ASCII by the modelled
  functions, except through NFC, which is a parameter). \<open>i64\<close> and \<open>u64\<close> are 64-bit words where they
  are stored or encoded and integers with written-out saturation where the code computes with
  them. A Rust \<open>expect\<close> or \<open>panic\<close> that input could reach is a constructor of the error type.
  Loops over slices are folds; the compiler's recursion over dispatch nodes carries the depth bound
  of the code and is structural on it, so no fuel is invented.

  \<^bold>\<open>Not modelled\<close>

  The SQL layer (\<open>carsinos-storage\<close>, but for the host's transactions), the HTTP gateway (but for
  its close control and the installation of plugins), the user interfaces, channel and provider adapters, process handling, the
  model-facing tools and the vendored Python service: their behaviour is that of a database, of the
  network or of the operating system. Of an activation with recovery, the receipt coordinator and
  the contents of the tables of receipts, events and attention items are left out: the mutation
  carries what they are given, and whether they take it is an answer of the database. The update of
  the settings is a step that may write any settings.
  Of plugins and skills, the paths and bytes of bundles and artifacts (the copy of an artifact is an
  argument), files that do not parse, the directories of skills, the runner of daemons and its reset,
  and audit records are left out.
  Parsers of \<open>serde\<close> are parameters, as is the derived code of \<open>JsonSchema\<close>. Of the journal,
  creating the directory, the file lock, the flush of the directory and I/O errors while the file is
  opened are left out: they are calls of the operating system. So are the sockets, pipes and peer
  credentials of the recorder's transport, the file calls of Windows and the fake provider and
  failpoints of test builds.
\<close>

end
